(* ===== verification/Prelude.thy ===== *)
theory Prelude
  imports Main "HOL-Library.Multiset" "HOL-Library.Code_Target_Nat"
begin

section \<open>Prelude: collections of facts, options, lists, stable sorting, insertion-ordered maps\<close>

text \<open>
  What the component theories share: the collections of rewrite rules they extend, the two
  fallback operators of JavaScript on optional values (\<open>??\<close> and \<open>||\<close>), lemmas on lists, and the
  two data structures of the language's library the dashboard relies on, \<^verbatim>\<open>Array.prototype.sort\<close>
  (a stable sort by a comparator) and \<^verbatim>\<open>Map\<close> (a map that remembers insertion order). Both come
  with an interface stated as a locale, which the components interpret for their own comparators
  and their own groupings.
\<close>

named_theorems js_simps \<open>unfolding of the JavaScript operators the model uses\<close>
named_theorems view_simps \<open>unfolding of rendered views\<close>
named_theorems comparator_intros \<open>comparators that are consistent\<close>

subsection \<open>Optional values\<close>

text \<open>\<open>a ?? b\<close>: the first operand unless it is null or undefined.\<close>

definition nullish :: "'a option \<Rightarrow> 'a \<Rightarrow> 'a" where
  "nullish a b = (case a of None \<Rightarrow> b | Some v \<Rightarrow> v)"

lemma nullish_simps [simp]: "nullish None b = b" "nullish (Some a) b = a"
  by (simp_all add: nullish_def)

text \<open>\<open>a || b\<close> on optional strings (any list here): the empty string is falsy as well.\<close>

definition oor :: "'a list option \<Rightarrow> 'a list option \<Rightarrow> 'a list option" where
  "oor a b = (case a of None \<Rightarrow> b | Some s \<Rightarrow> if s = [] then b else Some s)"

definition oor_str :: "'a list option \<Rightarrow> 'a list \<Rightarrow> 'a list" where
  "oor_str a b = (case a of None \<Rightarrow> b | Some s \<Rightarrow> if s = [] then b else s)"

definition truthy_str :: "'a list option \<Rightarrow> bool" where
  "truthy_str a = (case a of None \<Rightarrow> False | Some s \<Rightarrow> s \<noteq> [])"

definition truthy_num :: "int option \<Rightarrow> bool" where
  "truthy_num a = (case a of None \<Rightarrow> False | Some n \<Rightarrow> n \<noteq> 0)"

lemma oor_simps [simp]:
  "oor None b = b" "oor (Some []) b = b" "oor (Some (x # xs)) b = Some (x # xs)"
  by (simp_all add: oor_def)

lemma oor_str_simps [simp]:
  "oor_str None b = b" "oor_str (Some []) b = b" "oor_str (Some (x # xs)) b = x # xs"
  by (simp_all add: oor_str_def)

lemma truthy_str_simps [simp]:
  "truthy_str None = False" "truthy_str (Some s) = (s \<noteq> [])"
  by (simp_all add: truthy_str_def)

lemma truthy_str_iff: "truthy_str a \<longleftrightarrow> (\<exists>s. a = Some s \<and> s \<noteq> [])"
  by (cases a) auto

lemma truthy_num_simps [simp]:
  "truthy_num None = False" "truthy_num (Some n) = (n \<noteq> 0)"
  by (simp_all add: truthy_num_def)

lemma oor_str_oor: "oor_str (oor a b) c = oor_str a (oor_str b c)"
  by (auto simp: oor_def oor_str_def split: option.splits)

lemma oor_str_nonempty: "b \<noteq> [] \<Longrightarrow> oor_str a b \<noteq> []"
  by (auto simp: oor_str_def split: option.splits)

lemma oor_str_truthy: "truthy_str a \<Longrightarrow> Some (oor_str a b) = a"
  by (auto simp: oor_str_def truthy_str_def split: option.splits)

lemma oor_str_eq_oor: "oor_str a b = nullish (oor a (Some b)) b"
  by (auto simp: oor_def oor_str_def split: option.splits)

subsection \<open>Lists\<close>

lemma filter_eq_length_le: "length (filter P xs) \<le> length xs"
  by simp

lemma length_filter_all: "length (filter P xs) = length xs \<longleftrightarrow> (\<forall>x \<in> set xs. P x)"
proof (induction xs)
  case (Cons x xs)
  have "length (filter P xs) \<noteq> Suc (length xs)" using filter_eq_length_le [of P xs] by linarith
  then show ?case using Cons by simp
qed simp

lemma find_Some_in: "find P xs = Some x \<Longrightarrow> x \<in> set xs \<and> P x"
  by (auto simp: find_Some_iff)

lemma sum_list_map_filter_split:
  "sum_list (map f xs) = sum_list (map f (filter P xs)) + (sum_list (map f (filter (\<lambda>x. \<not> P x) xs)) :: 'b :: comm_monoid_add)"
  by (induction xs) (auto simp: ac_simps)

lemma mset_filter_partition: "mset (filter P xs) + mset (filter (\<lambda>x. \<not> P x) xs) = mset xs"
  by (induction xs) auto

lemma mset_concat_filter:
  "distinct ks \<Longrightarrow> key ` set xs \<subseteq> set ks \<Longrightarrow> mset (concat (map (\<lambda>k. filter (\<lambda>x. key x = k) xs) ks)) = mset xs"
proof (induction ks arbitrary: xs)
  case (Cons k ks)
  let ?ys = "filter (\<lambda>x. key x \<noteq> k) xs"
  have "mset (concat (map (\<lambda>k. filter (\<lambda>x. key x = k) ?ys) ks)) = mset ?ys"
    using Cons by (intro Cons.IH) auto
  moreover have "map (\<lambda>k. filter (\<lambda>x. key x = k) ?ys) ks = map (\<lambda>k. filter (\<lambda>x. key x = k) xs) ks"
    using Cons.prems(1) by (auto intro!: map_cong filter_cong)
  ultimately have "mset (concat (map (\<lambda>k. filter (\<lambda>x. key x = k) xs) ks)) = mset ?ys" by (simp only:)
  then show ?case using mset_filter_partition [of "\<lambda>x. key x = k" xs] by simp
qed simp

lemma dropWhile_idem: "dropWhile P (dropWhile P xs) = dropWhile P xs"
  by (induction xs) auto

subsection \<open>Stable sorting by a comparator\<close>

text \<open>
  \<^verbatim>\<open>xs.sort(cmp)\<close>: since ECMAScript 2019 the sort is stable, and for a consistent comparator the
  result is determined (\<open>comparator.sort_unique\<close> below), so an insertion sort is a faithful
  model of whatever algorithm the engine runs.
\<close>

fun js_insert :: "('a \<Rightarrow> 'a \<Rightarrow> int) \<Rightarrow> 'a \<Rightarrow> 'a list \<Rightarrow> 'a list" where
  "js_insert cmp x [] = [x]"
| "js_insert cmp x (y # ys) = (if cmp x y \<le> 0 then x # y # ys else y # js_insert cmp x ys)"

fun js_sort :: "('a \<Rightarrow> 'a \<Rightarrow> int) \<Rightarrow> 'a list \<Rightarrow> 'a list" where
  "js_sort cmp [] = []"
| "js_sort cmp (x # xs) = js_insert cmp x (js_sort cmp xs)"

lemma mset_js_insert [simp]: "mset (js_insert cmp x xs) = add_mset x (mset xs)"
  by (induction xs) auto

lemma mset_js_sort [simp]: "mset (js_sort cmp xs) = mset xs"
  by (induction xs) auto

lemma set_js_insert [simp]: "set (js_insert cmp x xs) = insert x (set xs)"
  by (induction xs) auto

lemma set_js_sort [simp]: "set (js_sort cmp xs) = set xs"
  by (induction xs) auto

lemma length_js_sort [simp]: "length (js_sort cmp xs) = length xs"
  using mset_js_sort [of cmp xs] by (metis size_mset)

lemma js_sort_eq_Nil [simp]: "js_sort cmp xs = [] \<longleftrightarrow> xs = []"
  by (metis length_0_conv length_js_sort)

lemma distinct_map_js_sort [simp]: "distinct (map f (js_sort cmp xs)) \<longleftrightarrow> distinct (map f xs)"
  by (metis mset_eq_imp_distinct_iff mset_js_sort mset_map)

lemma sum_list_map_js_sort:
  fixes f :: "'a \<Rightarrow> 'b :: comm_monoid_add"
  shows "sum_list (map f (js_sort cmp xs)) = sum_list (map f xs)"
  by (metis mset_js_sort mset_map sum_mset_sum_list)

text \<open>A consistent comparator: a total preorder, given by signs.\<close>

locale comparator =
  fixes cmp :: "'a \<Rightarrow> 'a \<Rightarrow> int"
  assumes cmp_sym: "cmp x y < 0 \<longleftrightarrow> 0 < cmp y x"
    and cmp_trans: "cmp x y \<le> 0 \<Longrightarrow> cmp y z \<le> 0 \<Longrightarrow> cmp x z \<le> 0"
begin

lemma cmp_refl: "cmp x x = 0"
  using cmp_sym [of x x] by linarith

lemma cmp_total: "cmp x y \<le> 0 \<or> cmp y x \<le> 0"
  using cmp_sym [of x y] cmp_sym [of y x] by linarith

lemma cmp_eq_sym: "cmp x y = 0 \<longleftrightarrow> cmp y x = 0"
  using cmp_sym [of x y] cmp_sym [of y x] by linarith

lemma cmp_eq_trans: "cmp x y = 0 \<Longrightarrow> cmp y z = 0 \<Longrightarrow> cmp x z = 0"
  using cmp_trans [of x y z] cmp_trans [of z y x] cmp_eq_sym cmp_sym
  by (metis dual_order.antisym order_refl linorder_not_less)

lemma sorted_insert:
  "sorted_wrt (\<lambda>x y. cmp x y \<le> 0) xs \<Longrightarrow> sorted_wrt (\<lambda>x y. cmp x y \<le> 0) (js_insert cmp x xs)"
proof (induction xs)
  case Nil
  then show ?case by simp
next
  case (Cons y ys)
  then show ?case
    using cmp_total [of x y] by (auto intro: cmp_trans)
qed

lemma sort_sorted: "sorted_wrt (\<lambda>x y. cmp x y \<le> 0) (js_sort cmp xs)"
  by (induction xs) (auto intro: sorted_insert)

lemma insert_filter_eq:
  "filter (\<lambda>y. cmp a y = 0) (js_insert cmp x xs) =
     (if cmp a x = 0 then x # filter (\<lambda>y. cmp a y = 0) xs else filter (\<lambda>y. cmp a y = 0) xs)"
proof (induction xs)
  case Nil
  then show ?case by simp
next
  case (Cons y ys)
  show ?case
  proof (cases "cmp x y \<le> 0")
    case True
    then show ?thesis by simp
  next
    case False
    then have "\<not> (cmp a x = 0 \<and> cmp a y = 0)"
      using cmp_eq_sym cmp_eq_trans by (metis order_refl)
    with False Cons show ?thesis by auto
  qed
qed

lemma sort_stable: "filter (\<lambda>y. cmp a y = 0) (js_sort cmp xs) = filter (\<lambda>y. cmp a y = 0) xs"
  by (induction xs) (auto simp: insert_filter_eq)

text \<open>A sorted list is determined by its classes of equal elements.\<close>

lemma sorted_unique:
  assumes "sorted_wrt (\<lambda>x y. cmp x y \<le> 0) xs" and "sorted_wrt (\<lambda>x y. cmp x y \<le> 0) ys"
    and "mset xs = mset ys"
    and "\<And>a. filter (\<lambda>y. cmp a y = 0) xs = filter (\<lambda>y. cmp a y = 0) ys"
  shows "xs = ys"
  using assms
proof (induction xs arbitrary: ys)
  case Nil
  then show ?case by simp
next
  case (Cons x xs)
  then obtain y ys' where ys: "ys = y # ys'" by (cases ys) auto
  have "x \<in> set ys" using Cons.prems(3) by (metis list.set_intros(1) set_mset_mset)
  then have "cmp y x \<le> 0" using Cons.prems(2) ys cmp_refl by auto
  moreover have "y \<in> set (x # xs)" using Cons.prems(3) ys by (metis list.set_intros(1) set_mset_mset)
  then have "cmp x y \<le> 0" using Cons.prems(1) cmp_refl by auto
  ultimately have "cmp x y = 0" using cmp_sym [of x y] cmp_sym [of y x] by linarith
  with Cons.prems(4) [of x] have xy: "x = y" by (simp add: ys cmp_refl)
  have "filter (\<lambda>y. cmp a y = 0) xs = filter (\<lambda>y. cmp a y = 0) ys'" for a
    using Cons.prems(4) [of a] by (auto simp: ys xy split: if_splits)
  with Cons.prems Cons.IH [of ys'] show ?case by (simp add: ys xy)
qed

theorem sort_unique:
  assumes "sorted_wrt (\<lambda>x y. cmp x y \<le> 0) ys" and "mset ys = mset xs"
    and "\<And>a. filter (\<lambda>y. cmp a y = 0) ys = filter (\<lambda>y. cmp a y = 0) xs"
  shows "ys = js_sort cmp xs"
  by (rule sorted_unique) (simp_all add: assms sort_sorted sort_stable)

lemma sort_idem: "js_sort cmp (js_sort cmp xs) = js_sort cmp xs"
  by (rule sort_unique [symmetric]) (simp_all add: sort_sorted)

lemma sort_sorted_id: "sorted_wrt (\<lambda>x y. cmp x y \<le> 0) xs \<Longrightarrow> js_sort cmp xs = xs"
  by (rule sort_unique [symmetric]) simp_all

lemma sort_hd_least:
  assumes "x \<in> set xs"
  shows "cmp (hd (js_sort cmp xs)) x \<le> 0"
proof (cases "js_sort cmp xs")
  case (Cons z zs)
  then have "x \<in> set (z # zs)" using assms by (metis set_js_sort)
  then show ?thesis using sort_sorted [of xs] cmp_refl [of z] by (auto simp: Cons)
qed (use assms in auto)

lemma sort_last_greatest:
  assumes "x \<in> set xs"
  shows "cmp x (last (js_sort cmp xs)) \<le> 0"
proof -
  have "js_sort cmp xs \<noteq> []" using assms by auto
  then obtain zs z where zs: "js_sort cmp xs = zs @ [z]" by (metis append_butlast_last_id)
  then have "x \<in> set (zs @ [z])" using assms by (metis set_js_sort)
  then show ?thesis using sort_sorted [of xs] cmp_refl by (auto simp: zs sorted_wrt_append)
qed

end

text \<open>
  Comparators are built from others: by a key, reversed, and lexicographically (\<open>a !== 0 ? a : b\<close>).
  The contract is closed under each.
\<close>

lemma comparator_key [comparator_intros]: "comparator c \<Longrightarrow> comparator (\<lambda>x y. c (f x) (f y))"
  unfolding comparator_def by blast

lemma comparator_rev [comparator_intros]: "comparator c \<Longrightarrow> comparator (\<lambda>x y. c y x)"
  unfolding comparator_def by blast

lemma comparator_int [comparator_intros]: "comparator (\<lambda>x y. (f x :: int) - f y)"
  by unfold_locales auto

lemma comparator_lex [comparator_intros]:
  assumes c: "comparator c" and d: "comparator d"
  shows "comparator (\<lambda>x y. if c x y \<noteq> 0 then c x y else d x y)"
proof -
  note facts = comparator.cmp_sym [OF c] comparator.cmp_sym [OF d] comparator.cmp_eq_sym [OF c]
  show ?thesis
  proof
    fix x y show "((if c x y \<noteq> 0 then c x y else d x y) < 0) = (0 < (if c y x \<noteq> 0 then c y x else d y x))"
      using facts(1) [of x y] facts(2) [of x y] facts(3) [of x y] by simp
  next
    fix x y z
    assume xy: "(if c x y \<noteq> 0 then c x y else d x y) \<le> 0" and yz: "(if c y z \<noteq> 0 then c y z else d y z) \<le> 0"
    then have le: "c x y \<le> 0" "c y z \<le> 0" by (auto split: if_splits)
    then have xz: "c x z \<le> 0" by (rule comparator.cmp_trans [OF c])
    have eq: "c x y = 0 \<and> c y z = 0" if "c x z = 0"
    proof -
      have zx: "c z x \<le> 0" using that facts(3) [of x z] by simp
      then have "c y x \<le> 0" "c z y \<le> 0"
        using le comparator.cmp_trans [OF c, of y z x] comparator.cmp_trans [OF c, of z x y] by simp_all
      with le show ?thesis
        using facts(1) [of x y] facts(1) [of y x] facts(1) [of y z] facts(1) [of z y] by linarith
    qed
    show "(if c x z \<noteq> 0 then c x z else d x z) \<le> 0"
    proof (cases "c x z = 0")
      case True
      with eq xy yz have "d x y \<le> 0" "d y z \<le> 0" by simp_all
      then show ?thesis using True comparator.cmp_trans [OF d] by auto
    next
      case False
      with xz show ?thesis by simp
    qed
  qed
qed

subsection \<open>Insertion-ordered maps\<close>

text \<open>
  A JavaScript \<^verbatim>\<open>Map\<close>: \<open>get\<close>, \<open>set\<close> (which keeps the position of a key it already has) and
  iteration in the order of first insertion. The interface is the locale \<open>ordered_map\<close>; the
  association list below provides it.
\<close>

type_synonym ('k, 'v) omap = "('k \<times> 'v) list"

fun omap_set :: "'k \<Rightarrow> 'v \<Rightarrow> ('k, 'v) omap \<Rightarrow> ('k, 'v) omap" where
  "omap_set k v [] = [(k, v)]"
| "omap_set k v ((k', v') # m) = (if k = k' then (k, v) # m else (k', v') # omap_set k v m)"

abbreviation omap_get :: "('k, 'v) omap \<Rightarrow> 'k \<Rightarrow> 'v option" where
  "omap_get \<equiv> map_of"

lemma omap_get_set [simp]: "omap_get (omap_set k v m) = (omap_get m)(k \<mapsto> v)"
  by (induction m) auto

lemma omap_keys_set:
  "map fst (omap_set k v m) = (if k \<in> set (map fst m) then map fst m else map fst m @ [k])"
  by (induction m) (force split: if_splits)+

lemma omap_distinct_set: "distinct (map fst m) \<Longrightarrow> distinct (map fst (omap_set k v m))"
  by (auto simp: omap_keys_set)

locale ordered_map =
  fixes get :: "'m \<Rightarrow> 'k \<Rightarrow> 'v option"
    and put :: "'k \<Rightarrow> 'v \<Rightarrow> 'm \<Rightarrow> 'm"
    and entries :: "'m \<Rightarrow> ('k \<times> 'v) list"
    and empty :: 'm
    and invar :: "'m \<Rightarrow> bool"
  assumes entries_empty: "entries empty = []"
    and invar_empty: "invar empty"
    and get_entries: "invar m \<Longrightarrow> get m k = map_of (entries m) k"
    and invar_put: "invar m \<Longrightarrow> invar (put k v m)"
    and distinct_entries: "invar m \<Longrightarrow> distinct (map fst (entries m))"
    and put_old: "invar m \<Longrightarrow> get m k = Some u \<Longrightarrow>
      entries (put k v m) = map (\<lambda>(k', v'). (k', if k' = k then v else v')) (entries m)"
    and put_new: "invar m \<Longrightarrow> get m k = None \<Longrightarrow> entries (put k v m) = entries m @ [(k, v)]"
begin

lemma get_put: "invar m \<Longrightarrow> get (put k v m) j = (if j = k then Some v else get m j)"
proof (cases "get m k")
  case None
  assume m: "invar m"
  then have "map_of (entries m) k = None" using None by (simp add: get_entries)
  then show ?thesis using m None
    by (auto simp: get_entries invar_put put_new map_add_def map_of_append split: option.splits)
next
  case (Some u)
  assume m: "invar m"
  have "map_of (map (\<lambda>(k', v'). (k', if k' = k then v else v')) es) j =
      (if j = k \<and> j \<in> fst ` set es then Some v else map_of es j)" for es :: "('k \<times> 'v) list"
    by (induction es) (force split: if_splits)+
  moreover have "k \<in> fst ` set (entries m)"
    using Some m by (metis get_entries map_of_eq_None_iff option.distinct(1))
  ultimately show ?thesis using m Some by (simp add: get_entries invar_put put_old)
qed

text \<open>The grouping loop: fold every element into the entry of its key.\<close>

definition group :: "('x \<Rightarrow> 'k) \<Rightarrow> ('k \<Rightarrow> 'v) \<Rightarrow> ('x \<Rightarrow> 'v \<Rightarrow> 'v) \<Rightarrow> 'm \<Rightarrow> 'x list \<Rightarrow> 'm" where
  "group key init step = foldl (\<lambda>m x. put (key x) (step x (nullish (get m (key x)) (init (key x)))) m)"

lemma group_Nil [simp]: "group key init step m [] = m"
  by (simp add: group_def)

lemma group_Cons [simp]:
  "group key init step m (x # xs) =
     group key init step (put (key x) (step x (nullish (get m (key x)) (init (key x)))) m) xs"
  by (simp add: group_def)

lemma invar_group: "invar m \<Longrightarrow> invar (group key init step m xs)"
  by (induction xs arbitrary: m) (auto simp: invar_put)

lemma get_group:
  "invar m \<Longrightarrow> get (group key init step m xs) k =
     (if get m k = None \<and> k \<notin> key ` set xs then None
      else Some (fold step (filter (\<lambda>x. key x = k) xs) (nullish (get m k) (init k))))"
proof (induction xs arbitrary: m)
  case Nil
  then show ?case by (auto simp: nullish_def split: option.splits)
next
  case (Cons x xs)
  then show ?case by (simp add: get_put invar_put)
qed

lemma get_group_empty:
  "get (group key init step empty xs) k =
     (if k \<in> key ` set xs then Some (fold step (filter (\<lambda>x. key x = k) xs) (init k)) else None)"
proof -
  have "get empty k = None" by (simp add: get_entries invar_empty entries_empty)
  then show ?thesis by (simp add: get_group invar_empty)
qed

lemma keys_put:
  "invar m \<Longrightarrow> map fst (entries (put k v m)) =
     (if k \<in> set (map fst (entries m)) then map fst (entries m) else map fst (entries m) @ [k])"
proof (cases "get m k")
  case None
  assume "invar m"
  with None show ?thesis by (simp add: put_new get_entries map_of_eq_None_iff)
next
  case (Some u)
  assume m: "invar m"
  then have "k \<in> set (map fst (entries m))" using Some
    by (metis get_entries map_of_eq_None_iff option.distinct(1) list.set_map)
  then show ?thesis using m Some by (auto simp: put_old)
qed

lemma keyset_put: "invar m \<Longrightarrow> fst ` set (entries (put k v m)) = insert k (fst ` set (entries m))"
  using arg_cong [OF keys_put [of m k v], of set] by (auto split: if_splits)

lemma keys_group:
  "invar m \<Longrightarrow> fst ` set (entries (group key init step m xs)) =
     fst ` set (entries m) \<union> key ` set xs"
  by (induction xs arbitrary: m) (auto simp: keyset_put invar_put)

end

interpretation omap: ordered_map omap_get omap_set "\<lambda>m. m" "[]" "\<lambda>m. distinct (map fst m)"
proof
  fix m :: "('k, 'v) omap" and k u v
  assume "distinct (map fst m)" and "omap_get m k = Some u"
  then show "omap_set k v m = map (\<lambda>(k', v'). (k', if k' = k then v else v')) m"
  proof (induction m)
    case (Cons p m)
    obtain a b where p: "p = (a, b)" by (cases p)
    show ?case
    proof (cases "k = a")
      case True
      with Cons.prems p have "k \<notin> fst ` set m" by auto
      then have "map (\<lambda>(k', v'). (k', if k' = k then v else v')) m = m"
        by (intro map_idI) (force split: prod.splits)
      with p True show ?thesis by simp
    next
      case False
      with Cons p show ?thesis by simp
    qed
  qed simp
next
  fix m :: "('k, 'v) omap" and k v
  assume "omap_get m k = None"
  then show "omap_set k v m = m @ [(k, v)]"
    by (induction m) (auto split: if_splits)
qed (simp_all add: omap_distinct_set)

end
