(* ===== verification/JsString.thy ===== *)
theory JsString
  imports Prelude "HOL-Library.Word"
begin

section \<open>JavaScript strings\<close>

text \<open>
  A JavaScript string is a sequence of 16-bit code units; \<open>length\<close>, \<open>slice\<close>, indexing and the
  comparison operators all count or compare code units. The operations below are those of
  \<^verbatim>\<open>String.prototype\<close> the dashboard calls, written from the language specification. What the
  specification leaves to the locale data or to the implementation (collation, Unicode case
  mapping, date parsing outside the ISO profile, \<^verbatim>\<open>Intl\<close> formatting, the clock) is the record
  \<open>platform\<close> at the end, a parameter of every definition that uses it.
\<close>

type_synonym code_unit = "16 word"
type_synonym jstr = "code_unit list"

definition js :: "string \<Rightarrow> jstr" where
  "js s = map of_char s"

lemma unat_of_char [simp]: "unat (of_char c :: code_unit) = of_char c"
proof -
  have "(of_char c :: nat) < 256" and "(256 :: nat) < 2 ^ 16" by simp_all
  then have "(of_char c :: nat) < 2 ^ 16" by (rule less_trans)
  then have "unat (of_nat (of_char c) :: code_unit) = of_char c" by (simp add: unat_of_nat)
  then show ?thesis by (simp only: of_nat_of_char)
qed

lemma of_char_word_inject [simp]: "(of_char a :: code_unit) = of_char b \<longleftrightarrow> a = b"
  by (metis unat_of_char of_char_eq_iff)

lemma unat_code_less: "unat (c :: code_unit) < 65536"
  using unsigned_less [of c] by simp

lemma unat_code_of_nat: "n < 65536 \<Longrightarrow> unat (of_nat n :: code_unit) = n"
  by (simp add: unat_of_nat)

lemma code_of_nat_eq: "m < 65536 \<Longrightarrow> n < 65536 \<Longrightarrow> (of_nat m :: code_unit) = of_nat n \<longleftrightarrow> m = n"
  by (metis unat_code_of_nat)

lemma js_inject [simp]: "js a = js b \<longleftrightarrow> a = b"
  unfolding js_def by (rule inj_map_eq_map) (simp add: inj_def)

lemma js_eq_Nil [simp]: "js a = [] \<longleftrightarrow> a = []" "[] = js a \<longleftrightarrow> a = []"
  by (auto simp: js_def)

lemma js_Nil [simp]: "js [] = []"
  by (simp add: js_def)

lemma js_append: "js (a @ b) = js a @ js b"
  by (simp add: js_def)

lemma length_js [simp]: "length (js a) = length a"
  by (simp add: js_def)

subsection \<open>White space\<close>

text \<open>The code points of \<^verbatim>\<open>WhiteSpace\<close> and \<^verbatim>\<open>LineTerminator\<close>: what \<open>trim\<close> strips and \<open>\s\<close> matches.\<close>

definition is_ws :: "code_unit \<Rightarrow> bool" where
  "is_ws c \<longleftrightarrow> (9 \<le> c \<and> c \<le> 13) \<or> c = 32 \<or> c = 0xA0 \<or> c = 0x1680 \<or> (0x2000 \<le> c \<and> c \<le> 0x200A) \<or>
     c = 0x2028 \<or> c = 0x2029 \<or> c = 0x202F \<or> c = 0x205F \<or> c = 0x3000 \<or> c = 0xFEFF"

definition trimStart :: "jstr \<Rightarrow> jstr" where
  "trimStart s = dropWhile is_ws s"

definition trimEnd :: "jstr \<Rightarrow> jstr" where
  "trimEnd s = rev (dropWhile is_ws (rev s))"

definition trim :: "jstr \<Rightarrow> jstr" where
  "trim s = trimEnd (trimStart s)"

lemma trimStart_Nil [simp]: "trimStart [] = []" and trimEnd_Nil [simp]: "trimEnd [] = []"
  and trim_Nil [simp]: "trim [] = []"
  by (simp_all add: trimStart_def trimEnd_def trim_def)

lemma trimEnd_eq_Nil: "trimEnd s = [] \<longleftrightarrow> (\<forall>c \<in> set s. is_ws c)"
  by (auto simp: trimEnd_def dropWhile_eq_Nil_conv)

lemma trim_eq_Nil: "trim s = [] \<longleftrightarrow> (\<forall>c \<in> set s. is_ws c)"
proof
  assume "trim s = []"
  then have d: "\<forall>c \<in> set (dropWhile is_ws s). is_ws c"
    by (simp add: trim_def trimEnd_eq_Nil trimStart_def)
  show "\<forall>c \<in> set s. is_ws c"
  proof (cases "dropWhile is_ws s = []")
    case True
    then show ?thesis by (simp add: dropWhile_eq_Nil_conv)
  next
    case False
    then show ?thesis using d hd_dropWhile [of is_ws s] by (metis hd_in_set)
  qed
next
  assume "\<forall>c \<in> set s. is_ws c"
  then show "trim s = []"
    by (auto simp: trim_def trimEnd_eq_Nil trimStart_def dest: set_dropWhileD)
qed

lemma dropWhile_id: "s = [] \<or> \<not> P (hd s) \<Longrightarrow> dropWhile P s = s"
  by (cases s) auto

lemma trimEnd_hd: "trimEnd s \<noteq> [] \<Longrightarrow> hd (trimEnd s) = hd s"
proof -
  assume ne: "trimEnd s \<noteq> []"
  have "s = trimEnd s @ rev (takeWhile is_ws (rev s))"
    by (metis rev_append rev_rev_ident takeWhile_dropWhile_id trimEnd_def)
  then show ?thesis using ne by (metis hd_append2)
qed

lemma trim_hd: "trim s \<noteq> [] \<Longrightarrow> \<not> is_ws (hd (trim s))"
  by (metis hd_dropWhile trimEnd_Nil trimEnd_hd trimStart_def trim_def)

lemma trim_last: "trim s \<noteq> [] \<Longrightarrow> \<not> is_ws (last (trim s))"
  by (metis hd_dropWhile hd_rev last_rev rev_is_Nil_conv trimEnd_def trim_def)

lemma trim_id: "s = [] \<or> \<not> is_ws (hd s) \<and> \<not> is_ws (last s) \<Longrightarrow> trim s = s"
  by (auto simp: trim_def trimStart_def trimEnd_def dropWhile_id hd_rev)

lemma trim_idem [simp]: "trim (trim s) = trim s"
  by (rule trim_id) (auto simp: trim_hd trim_last)

lemma set_trim: "set (trim s) \<subseteq> set s"
  by (auto simp: trim_def trimEnd_def trimStart_def dest!: set_dropWhileD)

subsection \<open>Prefixes, suffixes, occurrences, slices\<close>

definition startsWith :: "jstr \<Rightarrow> jstr \<Rightarrow> bool" where
  "startsWith s p \<longleftrightarrow> take (length p) s = p"

definition endsWith :: "jstr \<Rightarrow> jstr \<Rightarrow> bool" where
  "endsWith s p \<longleftrightarrow> length p \<le> length s \<and> drop (length s - length p) s = p"

fun includes_str :: "jstr \<Rightarrow> jstr \<Rightarrow> bool" where
  "includes_str [] p \<longleftrightarrow> p = []"
| "includes_str (c # s) p \<longleftrightarrow> startsWith (c # s) p \<or> includes_str s p"

text \<open>\<open>s.slice(a, b)\<close> with \<open>0 \<le> a\<close>, \<open>0 \<le> b\<close>: positions past the end are clamped.\<close>

definition slice :: "nat \<Rightarrow> nat \<Rightarrow> jstr \<Rightarrow> jstr" where
  "slice a b s = drop a (take b s)"

lemma startsWith_iff: "startsWith s p \<longleftrightarrow> (\<exists>t. s = p @ t)"
  by (metis append_eq_conv_conj append_take_drop_id startsWith_def)

lemma startsWith_append [simp]: "startsWith (p @ t) p"
  by (simp add: startsWith_def)

lemma endsWith_iff: "endsWith s p \<longleftrightarrow> (\<exists>t. s = t @ p)"
proof
  assume "endsWith s p"
  then show "\<exists>t. s = t @ p" by (metis append_take_drop_id endsWith_def)
next
  assume "\<exists>t. s = t @ p"
  then show "endsWith s p" by (auto simp: endsWith_def)
qed

lemma includes_iff: "includes_str s p \<longleftrightarrow> (\<exists>a b. s = a @ p @ b)"
proof (induction s)
  case Nil
  then show ?case by auto
next
  case (Cons c s)
  show ?case
  proof
    assume "includes_str (c # s) p"
    then consider "startsWith (c # s) p" | "includes_str s p" by auto
    then show "\<exists>a b. c # s = a @ p @ b"
    proof cases
      case 1
      then show ?thesis by (metis append_Nil startsWith_iff)
    next
      case 2
      then show ?thesis using Cons.IH by (metis append_Cons)
    qed
  next
    assume "\<exists>a b. c # s = a @ p @ b"
    then obtain a b where ab: "c # s = a @ p @ b" by blast
    show "includes_str (c # s) p"
    proof (cases a)
      case Nil
      with ab have "startsWith (c # s) p" by (auto simp: startsWith_iff)
      then show ?thesis by simp
    next
      case (Cons a' as)
      with ab have "s = as @ p @ b" by simp
      with \<open>includes_str s p \<longleftrightarrow> (\<exists>a b. s = a @ p @ b)\<close> show ?thesis by auto
    qed
  qed
qed

lemma includes_append [simp]: "includes_str (a @ p @ b) p"
  by (auto simp: includes_iff)

lemma length_slice_le: "length (slice a b s) \<le> b - a"
  by (simp add: slice_def)

subsection \<open>Splitting and joining\<close>

fun split_on :: "'a \<Rightarrow> 'a list \<Rightarrow> 'a list list" where
  "split_on c [] = [[]]"
| "split_on c (x # xs) =
     (if x = c then [] # split_on c xs
      else (case split_on c xs of [] \<Rightarrow> [[x]] | w # ws \<Rightarrow> (x # w) # ws))"

fun join :: "'a list \<Rightarrow> 'a list list \<Rightarrow> 'a list" where
  "join sep [] = []"
| "join sep [x] = x"
| "join sep (x # y # xs) = x @ sep @ join sep (y # xs)"

lemma split_on_neq_Nil [simp]: "split_on c xs \<noteq> []"
  by (induction xs) (auto split: list.splits)

lemma join_Cons: "xs \<noteq> [] \<Longrightarrow> join sep (x # xs) = x @ sep @ join sep xs"
  by (cases xs) auto

lemma join_split: "join [c] (split_on c xs) = xs"
proof (induction xs)
  case Nil
  then show ?case by simp
next
  case (Cons x xs)
  obtain w ws where w: "split_on c xs = w # ws" by (cases "split_on c xs") auto
  have "join [c] ((x # w) # ws) = x # join [c] (w # ws)" by (cases ws) auto
  with Cons w show ?case by (auto simp: join_Cons)
qed

lemma split_on_free: "c \<notin> set w \<Longrightarrow> split_on c w = [w]"
  by (induction w) auto

lemma split_on_append_sep: "c \<notin> set w \<Longrightarrow> split_on c (w @ c # xs) = w # split_on c xs"
  by (induction w) auto

lemma split_join: "xs \<noteq> [] \<Longrightarrow> \<forall>w \<in> set xs. c \<notin> set w \<Longrightarrow> split_on c (join [c] xs) = xs"
proof (induction xs rule: induct_list012)
  case (3 x y zs)
  then show ?case by (simp add: split_on_append_sep)
qed (auto simp: split_on_free)

lemma split_on_pieces: "w \<in> set (split_on c xs) \<Longrightarrow> c \<notin> set w"
  by (induction xs arbitrary: w) (auto split: if_splits list.splits)

lemma set_split_on: "w \<in> set (split_on c xs) \<Longrightarrow> set w \<subseteq> set xs"
  by (induction xs arbitrary: w) (fastforce split: if_splits list.splits)+

lemma set_join_subset: "set (join sep xs) \<subseteq> set sep \<union> \<Union> (set ` set xs)"
  by (induction sep xs rule: join.induct) auto

subsection \<open>Comparison by code units\<close>

text \<open>The operators \<open><\<close> and \<open>>\<close> on strings.\<close>

fun str_less :: "jstr \<Rightarrow> jstr \<Rightarrow> bool" where
  "str_less s [] \<longleftrightarrow> False"
| "str_less [] (d # t) \<longleftrightarrow> True"
| "str_less (c # s) (d # t) \<longleftrightarrow> c < d \<or> (c = d \<and> str_less s t)"

definition code_unit_compare :: "jstr \<Rightarrow> jstr \<Rightarrow> int" where
  "code_unit_compare s t = (if s = t then 0 else if str_less s t then -1 else 1)"

lemma str_less_irrefl [simp]: "\<not> str_less s s"
  by (induction s) auto

lemma str_less_total: "s \<noteq> t \<Longrightarrow> str_less s t \<or> str_less t s"
  by (induction s t rule: str_less.induct) (auto simp: neq_Nil_conv)

lemma str_less_trans: "str_less s t \<Longrightarrow> str_less t u \<Longrightarrow> str_less s u"
proof (induction s t arbitrary: u rule: str_less.induct)
  case (2 d t)
  then show ?case by (cases u) auto
next
  case (3 c s d t)
  then show ?case by (cases u) auto
qed auto

lemma str_less_asym: "str_less s t \<Longrightarrow> \<not> str_less t s"
  using str_less_trans by fastforce

lemma comparator_code_unit [comparator_intros]: "comparator code_unit_compare"
proof
  show "(code_unit_compare x y < 0) = (0 < code_unit_compare y x)" for x y
    using str_less_total [of x y] str_less_asym [of x y] by (auto simp: code_unit_compare_def)
next
  fix x y z
  assume "code_unit_compare x y \<le> 0" and "code_unit_compare y z \<le> 0"
  then show "code_unit_compare x z \<le> 0"
    by (auto simp: code_unit_compare_def split: if_splits dest: str_less_trans)
qed

subsection \<open>Decimal numerals\<close>

fun nat_str :: "nat \<Rightarrow> jstr" where
  "nat_str n = (if n < 10 then [48 + of_nat n] else nat_str (n div 10) @ [48 + of_nat (n mod 10)])"

declare nat_str.simps [simp del]

text \<open>\<open>String(n)\<close> of an integer of magnitude below \<open>10 ^ 21\<close>.\<close>

definition int_str :: "int \<Rightarrow> jstr" where
  "int_str i = (if i < 0 then 45 # nat_str (nat (- i)) else nat_str (nat i))"

definition is_digit :: "code_unit \<Rightarrow> bool" where
  "is_digit c \<longleftrightarrow> 48 \<le> c \<and> c \<le> 57"

definition digit_val :: "code_unit \<Rightarrow> nat" where
  "digit_val c = unat (c - 48)"

definition digits_val :: "jstr \<Rightarrow> nat" where
  "digits_val s = foldl (\<lambda>n c. 10 * n + digit_val c) 0 s"

lemma digit_of_nat:
  assumes "d < 10"
  shows "is_digit (48 + of_nat d)" and "digit_val (48 + of_nat d) = d"
proof -
  have "d \<in> {0, 1, 2, 3, 4, 5, 6, 7, 8, 9}" using assms by auto
  then show "is_digit (48 + of_nat d)" by (auto simp: is_digit_def)
  have "unat (of_nat d :: code_unit) = d" using assms by (simp add: unat_of_nat)
  then show "digit_val (48 + of_nat d) = d" by (simp add: digit_val_def)
qed

lemma nat_str_nonempty [simp]: "nat_str n \<noteq> []"
  by (subst nat_str.simps) simp

lemma nat_str_digits: "\<forall>c \<in> set (nat_str n). is_digit c"
proof (induction n rule: nat_str.induct)
  case (1 n)
  show ?case
    by (subst nat_str.simps) (use 1 digit_of_nat(1) in auto)
qed

lemma digits_val_nat_str [simp]: "digits_val (nat_str n) = n"
proof (induction n rule: nat_str.induct)
  case (1 n)
  show ?case
    by (subst nat_str.simps) (use 1 in \<open>auto simp: digits_val_def digit_of_nat(2)\<close>)
qed

lemma nat_str_inject [simp]: "nat_str m = nat_str n \<longleftrightarrow> m = n"
  by (metis digits_val_nat_str)

lemma nat_str_not_minus: "45 \<notin> set (nat_str n)"
  using nat_str_digits [of n] by (auto simp: is_digit_def)

lemma int_str_nonempty [simp]: "int_str n \<noteq> []"
  by (simp add: int_str_def)

lemma int_str_inject [simp]: "int_str a = int_str b \<longleftrightarrow> a = b"
proof
  assume eq: "int_str a = int_str b"
  have "hd (nat_str n) \<noteq> 45" for n
    using nat_str_not_minus [of n] by (metis hd_in_set nat_str_nonempty)
  then have "a < 0 \<longleftrightarrow> b < 0"
    using eq by (auto simp: int_str_def split: if_splits)
      (metis list.sel(1))+
  with eq show "a = b" by (auto simp: int_str_def split: if_splits)
qed simp

subsection \<open>The platform\<close>

text \<open>
  What the language leaves to locale data, to the implementation or to the outside world.
  \<^item> \<open>localeCompare a b\<close>: the sign of \<^verbatim>\<open>a.localeCompare(b)\<close>;
  \<^item> \<open>toLowerCase\<close>, \<open>toUpperCase\<close>: the Unicode case mappings;
  \<^item> \<open>date_ms s\<close>: \<^verbatim>\<open>new Date(s).getTime()\<close>, with \<open>None\<close> for NaN;
  \<^item> \<open>to_iso t\<close>: \<^verbatim>\<open>new Date(t).toISOString()\<close>;
  \<^item> \<open>now_ms\<close>: \<^verbatim>\<open>Date.now()\<close> at the time of the call;
  \<^item> \<open>fmt_abs\<close>, \<open>fmt_rel\<close>: the \<^verbatim>\<open>Intl\<close> formatters for locale \<^verbatim>\<open>ko-KR\<close>;
  \<^item> \<open>toLocaleString\<close>: the default-locale rendering of a number.
\<close>

record platform =
  localeCompare :: "jstr \<Rightarrow> jstr \<Rightarrow> int"
  toLowerCase :: "jstr \<Rightarrow> jstr"
  toUpperCase :: "jstr \<Rightarrow> jstr"
  date_ms :: "jstr \<Rightarrow> int option"
  to_iso :: "int \<Rightarrow> jstr"
  now_ms :: int
  fmt_abs :: "int \<Rightarrow> jstr"
  fmt_rel :: "int \<Rightarrow> string \<Rightarrow> jstr"
  toLocaleString :: "int \<Rightarrow> jstr"

definition ascii :: "jstr \<Rightarrow> bool" where
  "ascii s \<longleftrightarrow> (\<forall>c \<in> set s. c < 128)"

definition ascii_lower :: "code_unit \<Rightarrow> code_unit" where
  "ascii_lower c = (if 65 \<le> c \<and> c \<le> 90 then c + 32 else c)"

definition ascii_upper :: "code_unit \<Rightarrow> code_unit" where
  "ascii_upper c = (if 97 \<le> c \<and> c \<le> 122 then c - 32 else c)"

text \<open>
  What the components rely on: collation is a consistent comparator under which the empty string
  comes first and only itself is equal to it, and the case mappings agree with the ASCII ones on
  ASCII strings.
\<close>

locale js_platform =
  fixes E :: platform
  assumes collation: "comparator (localeCompare E)"
    and collation_empty: "s \<noteq> [] \<Longrightarrow> localeCompare E [] s < 0"
    and lower_ascii: "ascii s \<Longrightarrow> toLowerCase E s = map ascii_lower s"
    and upper_ascii: "ascii s \<Longrightarrow> toUpperCase E s = map ascii_upper s"
begin

lemmas key_comparator = comparator_key [OF collation]

lemma lower_js: "ascii (js s) \<Longrightarrow> toLowerCase E (js s) = map ascii_lower (js s)"
  by (rule lower_ascii)

end

text \<open>
  A concrete platform, for evaluation: collation by code units, ASCII case mapping, and dates given
  by a decimal number of milliseconds.
\<close>

definition ascii_platform :: platform where
  "ascii_platform =
     \<lparr>localeCompare = code_unit_compare,
      toLowerCase = map ascii_lower,
      toUpperCase = map ascii_upper,
      date_ms = (\<lambda>s. if s \<noteq> [] \<and> (\<forall>c \<in> set s. is_digit c) then Some (int (digits_val s)) else None),
      to_iso = int_str,
      now_ms = 0,
      fmt_abs = int_str,
      fmt_rel = (\<lambda>n u. int_str n @ js u),
      toLocaleString = int_str\<rparr>"

lemma ascii_platform_simps [simp]:
  "localeCompare (ascii_platform\<lparr>now_ms := t\<rparr>) = code_unit_compare"
  "localeCompare ascii_platform = code_unit_compare"
  "toLowerCase ascii_platform = map ascii_lower"
  "toUpperCase ascii_platform = map ascii_upper"
  "now_ms ascii_platform = 0"
  by (simp_all add: ascii_platform_def)

interpretation ascii: js_platform ascii_platform
proof
  show "localeCompare ascii_platform x y < 0 \<longleftrightarrow> 0 < localeCompare ascii_platform y x" for x y
    using comparator.cmp_sym [OF comparator_code_unit] by simp
  show "localeCompare ascii_platform x y \<le> 0 \<Longrightarrow> localeCompare ascii_platform y z \<le> 0 \<Longrightarrow>
      localeCompare ascii_platform x z \<le> 0" for x y z
    using comparator.cmp_trans [OF comparator_code_unit] by simp
qed (auto simp: code_unit_compare_def neq_Nil_conv)

end
