(* ===== verification/JsNumber.thy ===== *)
theory JsNumber
  imports JsString Complex_Main
begin

section \<open>JavaScript numbers: division, rounding and fixed-point rendering\<close>

text \<open>
  JavaScript has one number type, the IEEE double. The counts, sizes and costs the dashboard reads
  are integers the server sends as 64-bit values and that stay far below \<open>2 ^ 53\<close>, where double
  addition, subtraction and multiplication by small constants are exact: the model keeps them as
  \<open>int\<close>. Division is where a double is not the exact quotient, and it is followed by
  \<^verbatim>\<open>toFixed\<close>, \<^verbatim>\<open>Math.round\<close> or a comparison, so it is modelled as it is computed: the quotient
  is rounded to 53 significant bits, ties to even, and the next operation sees that value. A
  non-negative double is a pair \<open>(m, k)\<close> that stands for \<open>m / 2 ^ k\<close>.
\<close>

type_synonym dbl = "nat \<times> nat"

text \<open>Round half to even, the IEEE default.\<close>

definition rne :: "nat \<Rightarrow> nat \<Rightarrow> nat" where
  "rne n d = (let q = n div d; r = n mod d in
     if 2 * r < d then q else if d < 2 * r then q + 1 else if even q then q else q + 1)"

text \<open>The least number of doublings after which the quotient has 53 bits.\<close>

function scale :: "nat \<Rightarrow> nat \<Rightarrow> nat" where
  "scale n d = (if n = 0 \<or> 2 ^ 52 * d \<le> n then 0 else Suc (scale (2 * n) d))"
  by pat_completeness auto
termination
  by (relation "measure (\<lambda>(n, d). 2 ^ 52 * d - n)") auto

declare scale.simps [simp del]

text \<open>\<open>n / d\<close> for integers below \<open>2 ^ 53\<close>, and the division of a double by an integer.\<close>

definition fdiv :: "nat \<Rightarrow> nat \<Rightarrow> dbl" where
  "fdiv n d = (let k = scale n d in (rne (n * 2 ^ k) d, k))"

definition ddiv :: "dbl \<Rightarrow> nat \<Rightarrow> dbl" where
  "ddiv x d = fdiv (fst x) (d * 2 ^ snd x)"

definition dval :: "dbl \<Rightarrow> real" where
  "dval x = real (fst x) / 2 ^ snd x"

text \<open>\<open>x \<ge> a / b\<close> on a double and a dyadic constant.\<close>

definition dge :: "dbl \<Rightarrow> nat \<Rightarrow> nat \<Rightarrow> bool" where
  "dge x a b \<longleftrightarrow> a * 2 ^ snd x \<le> fst x * b"

subsection \<open>The rounding error\<close>

lemma quotient_close:
  fixes x y A B :: real
  assumes "0 < A" and "0 < B" and "2 * (x * B) \<le> 2 * (y * A) + B" and "2 * (y * A) \<le> 2 * (x * B) + B"
  shows "\<bar>x / A - y / B\<bar> \<le> 1 / (2 * A)"
proof -
  have "x / A - y / B = (x * B - y * A) / (A * B)" using assms(1,2) by (simp add: field_simps)
  then have "\<bar>x / A - y / B\<bar> = \<bar>x * B - y * A\<bar> / (A * B)" using assms(1,2) by simp
  also have "\<bar>x * B - y * A\<bar> \<le> B / 2" using assms(3,4) by (intro abs_leI) linarith+
  then have "\<bar>x * B - y * A\<bar> / (A * B) \<le> (B / 2) / (A * B)"
    using assms(1,2) by (intro divide_right_mono) simp_all
  also have "\<dots> = 1 / (2 * A)" using assms by simp
  finally show ?thesis .
qed

lemma rne_lower: "0 < d \<Longrightarrow> 2 * n \<le> 2 * d * rne n d + d"
proof -
  assume d: "0 < d"
  define q r where "q = n div d" and "r = n mod d"
  have n: "n = d * q + r" and r: "r < d" using d by (simp_all add: q_def r_def)
  show ?thesis using r by (auto simp: rne_def Let_def n algebra_simps simp flip: q_def r_def)
qed

lemma rne_upper: "0 < d \<Longrightarrow> 2 * d * rne n d \<le> 2 * n + d"
proof -
  assume d: "0 < d"
  define q r where "q = n div d" and "r = n mod d"
  have n: "n = d * q + r" and r: "r < d" using d by (simp_all add: q_def r_def)
  show ?thesis using r by (auto simp: rne_def Let_def n algebra_simps simp flip: q_def r_def)
qed

lemma rne_ge: "0 < d \<Longrightarrow> a * d \<le> n \<Longrightarrow> a \<le> rne n d"
proof -
  assume "0 < d" and "a * d \<le> n"
  then have "a \<le> n div d" by (simp add: less_eq_div_iff_mult_less_eq)
  then show ?thesis by (auto simp: rne_def Let_def)
qed

lemma rne_exact: "0 < d \<Longrightarrow> rne (d * q) d = q"
  by (simp add: rne_def)

lemma scale_big: "0 < n \<Longrightarrow> 0 < d \<Longrightarrow> 2 ^ 52 * d \<le> n * 2 ^ scale n d"
proof (induction n d rule: scale.induct)
  case (1 n d)
  show ?case
  proof (cases "2 ^ 52 * d \<le> n")
    case True
    then show ?thesis by (simp add: scale.simps [of n d])
  next
    case False
    with 1 have "2 ^ 52 * d \<le> 2 * n * 2 ^ scale (2 * n) d" by simp
    with False 1 show ?thesis by (simp add: scale.simps [of n d] algebra_simps)
  qed
qed

lemma fdiv_dval_error:
  assumes "0 < d"
  shows "\<bar>dval (fdiv n d) - n / d\<bar> \<le> 1 / 2 ^ (scale n d + 1)"
proof -
  define k where "k = scale n d"
  define m where "m = rne (n * 2 ^ k) d"
  have lo: "2 * (n * 2 ^ k) \<le> 2 * d * m + d" and hi: "2 * d * m \<le> 2 * (n * 2 ^ k) + d"
    using rne_lower [OF assms] rne_upper [OF assms] by (simp_all add: m_def)
  have "real (2 * (n * 2 ^ k)) \<le> real (2 * d * m + d)" and "real (2 * d * m) \<le> real (2 * (n * 2 ^ k) + d)"
    using lo hi by (simp_all only: of_nat_le_iff)
  then have "\<bar>real m / 2 ^ k - n / d\<bar> \<le> 1 / (2 * 2 ^ k)"
    using assms by (intro quotient_close) (simp_all add: algebra_simps)
  then show ?thesis by (simp add: fdiv_def Let_def dval_def k_def m_def)
qed

text \<open>The quotient keeps 53 significant bits: the error is relative.\<close>

lemma fdiv_relative_error:
  assumes "0 < d"
  shows "\<bar>dval (fdiv n d) - n / d\<bar> \<le> n / d / 2 ^ 53"
proof (cases "n = 0")
  case True
  then show ?thesis using assms by (simp add: fdiv_def dval_def scale.simps [of 0] rne_def)
next
  case False
  then have "2 ^ 52 * d \<le> n * 2 ^ scale n d" using assms by (intro scale_big) simp_all
  then have "real (2 ^ 52 * d) \<le> real (n * 2 ^ scale n d)" by (simp only: of_nat_le_iff)
  then have "1 / 2 ^ (scale n d + 1) \<le> real n / d / 2 ^ 53"
    using assms by (simp add: field_simps)
  then show ?thesis using fdiv_dval_error [OF assms, of n] by linarith
qed

lemma ddiv_dval: "0 < d \<Longrightarrow> \<bar>dval (ddiv x d) - dval x / d\<bar> \<le> dval x / d / 2 ^ 53"
  using fdiv_relative_error [of "d * 2 ^ snd x" "fst x"]
  by (simp add: ddiv_def dval_def field_simps)

text \<open>Division by a power of two is exact.\<close>

lemma fdiv_pow2_exact:
  assumes "j \<le> 52" and "n < 2 ^ 53" and "0 < n"
  shows "dval (fdiv n (2 ^ j)) = n / 2 ^ j"
proof -
  have big: "2 ^ 52 * 2 ^ j \<le> n * 2 ^ scale n (2 ^ j)" using assms by (intro scale_big) simp_all
  have "j \<le> scale n (2 ^ j)"
  proof (rule ccontr)
    assume "\<not> j \<le> scale n (2 ^ j)"
    then have "2 * 2 ^ scale n (2 ^ j) \<le> (2 ^ j :: nat)"
      by (metis not_less_eq_eq one_le_numeral power_Suc power_increasing)
    then have "2 ^ 52 * (2 * 2 ^ scale n (2 ^ j)) \<le> 2 ^ 52 * (2 ^ j :: nat)" by (rule mult_left_mono) simp
    also note big
    finally have "2 ^ 53 * 2 ^ scale n (2 ^ j) \<le> n * 2 ^ scale n (2 ^ j)" by simp
    then show False using assms(2) by simp
  qed
  then obtain i where i: "scale n (2 ^ j) = j + i" by (metis le_add_diff_inverse)
  have "rne (n * 2 ^ (j + i)) (2 ^ j) = n * 2 ^ i"
    using rne_exact [of "2 ^ j" "n * 2 ^ i"] by (simp add: power_add algebra_simps)
  then show ?thesis by (simp add: fdiv_def Let_def dval_def i power_add)
qed

subsection \<open>Rounding to an integer, comparing, rendering\<close>

text \<open>\<open>Math.round(v / d)\<close>: the floor of the double plus one half, for either sign.\<close>

definition round_div :: "int \<Rightarrow> nat \<Rightarrow> int" where
  "round_div v d = (let x = fdiv (nat \<bar>v\<bar>) d; m = int (fst x); p = 2 ^ snd x in
     if 0 \<le> v then (2 * m + p) div (2 * p) else (p - 2 * m) div (2 * p))"

text \<open>\<open>x.toFixed(f)\<close> for \<open>0 \<le> x\<close>: the integer nearest to \<open>x * 10 ^ f\<close>, the larger of two.\<close>

definition fixed_units :: "dbl \<Rightarrow> nat \<Rightarrow> nat" where
  "fixed_units x f = (2 * fst x * 10 ^ f + 2 ^ snd x) div (2 * 2 ^ snd x)"

definition pad_zeros :: "nat \<Rightarrow> jstr \<Rightarrow> jstr" where
  "pad_zeros n s = replicate (n - length s) 48 @ s"

definition toFixed :: "dbl \<Rightarrow> nat \<Rightarrow> jstr" where
  "toFixed x f = (let s = pad_zeros (f + 1) (nat_str (fixed_units x f)) in
     take (length s - f) s @ js ''.'' @ drop (length s - f) s)"

definition fixed_div :: "int \<Rightarrow> nat \<Rightarrow> nat \<Rightarrow> jstr" where
  "fixed_div v d f = (if v < 0 then js ''-'' else []) @ toFixed (fdiv (nat \<bar>v\<bar>) d) f"

lemma fixed_units_error: "\<bar>fixed_units x f / 10 ^ f - dval x\<bar> \<le> 1 / (2 * 10 ^ f)"
proof -
  define p where "p = (2 :: nat) ^ snd x"
  define n where "n = 2 * fst x * 10 ^ f + p"
  have p: "0 < p" by (simp add: p_def)
  have u: "fixed_units x f = n div (2 * p)" by (simp add: fixed_units_def n_def p_def)
  have "n div (2 * p) * (2 * p) \<le> n" by (simp add: div_times_less_eq_dividend)
  moreover have "n < (n div (2 * p) + 1) * (2 * p)" using p by (simp add: dividend_less_div_times)
  ultimately have lo: "real (n div (2 * p)) * (2 * p) \<le> n" and hi: "real n < (real (n div (2 * p)) + 1) * (2 * p)"
    by (metis of_nat_le_iff of_nat_mult, metis of_nat_less_iff of_nat_mult of_nat_add of_nat_1)
  have n: "real n = 2 * fst x * 10 ^ f + p" by (simp add: n_def)
  have "\<bar>real (n div (2 * p)) / 10 ^ f - fst x / p\<bar> \<le> 1 / (2 * 10 ^ f)"
    using lo hi p unfolding n by (intro quotient_close) (simp_all add: algebra_simps)
  then show ?thesis by (simp add: u dval_def p_def)
qed

text \<open>What \<^verbatim>\<open>(n / d).toFixed(f)\<close> shows differs from the quotient by half a unit of its last digit,
  up to the rounding of the division.\<close>

lemma toFixed_error:
  assumes "0 < d"
  shows "\<bar>fixed_units (fdiv n d) f / 10 ^ f - n / d\<bar> \<le> 1 / (2 * 10 ^ f) + n / d / 2 ^ 53"
  using fixed_units_error [of "fdiv n d" f] fdiv_relative_error [OF assms, of n] by linarith

text \<open>\<open>Math.round\<close> of a quotient of integers below \<open>2 ^ 52\<close> is the exact rounding of the quotient.\<close>

lemma fdiv_fst: "fst (fdiv n d) = rne (n * 2 ^ scale n d) d"
  and fdiv_snd: "snd (fdiv n d) = scale n d"
  by (simp_all add: fdiv_def Let_def)

lemma scale_pos: "0 < n \<Longrightarrow> 0 < d \<Longrightarrow> n < 2 ^ 52 \<Longrightarrow> d < 2 ^ scale n d"
proof -
  assume n: "0 < n" "n < 2 ^ 52" and d: "0 < d"
  have "2 ^ 52 * d \<le> n * 2 ^ scale n d" using n d by (intro scale_big)
  also have "\<dots> < 2 ^ 52 * 2 ^ scale n d" using n by (intro mult_strict_right_mono) simp_all
  finally show ?thesis by simp
qed

lemma round_half_bounds:
  assumes "0 < n" and "0 < d" and "n < 2 ^ 52" and "j = (2 * n + d) div (2 * d)"
  shows "2 * j * 2 ^ scale n d \<le> 2 * rne (n * 2 ^ scale n d) d + 2 ^ scale n d"
    and "2 * rne (n * 2 ^ scale n d) d < (2 * j + 1) * 2 ^ scale n d"
proof -
  define k where "k = scale n d"
  define m where "m = rne (n * 2 ^ k) d"
  have dk: "d < 2 ^ k" using scale_pos [OF assms(1-3)] by (simp add: k_def)
  then obtain i where k: "k = Suc i" using assms(2) by (cases k) auto
  have jlo: "2 * d * j \<le> 2 * n + d" and jhi: "2 * n + d < 2 * d * (j + 1)"
    using assms(2) by (simp_all add: assms(4) dividend_less_times_div)
  have "2 * j * 2 ^ k \<le> 2 * m + 2 ^ k"
  proof (cases j)
    case (Suc j')
    then have "2 * d * j' + d \<le> 2 * n" using jlo by simp
    then have "(2 * d * j' + d) * 2 ^ i \<le> 2 * n * 2 ^ i" by simp
    then have "((2 * j' + 1) * 2 ^ i) * d \<le> n * 2 ^ k" by (simp add: k algebra_simps)
    then have "(2 * j' + 1) * 2 ^ i \<le> m" unfolding m_def by (rule rne_ge [OF assms(2)])
    then show ?thesis by (simp add: Suc k algebra_simps)
  qed simp
  then show "2 * j * 2 ^ scale n d \<le> 2 * rne (n * 2 ^ scale n d) d + 2 ^ scale n d"
    by (simp add: k_def m_def)
  have "2 * n + 1 \<le> (2 * j + 1) * d" using jhi by (simp add: algebra_simps)
  then have "(2 * n + 1) * 2 ^ k \<le> (2 * j + 1) * d * 2 ^ k" by (intro mult_right_mono) simp_all
  moreover have "2 * d * m \<le> 2 * (n * 2 ^ k) + d" using rne_upper [OF assms(2)] by (simp add: m_def)
  ultimately have "2 * d * m < (2 * j + 1) * d * 2 ^ k" using dk by (simp add: algebra_simps)
  then have "d * (2 * m) < d * ((2 * j + 1) * 2 ^ k)" by (simp add: algebra_simps)
  then show "2 * rne (n * 2 ^ scale n d) d < (2 * j + 1) * 2 ^ scale n d"
    by (simp add: k_def m_def)
qed

lemma round_div_nonneg:
  assumes "0 < d" and "0 \<le> v" and "v < 2 ^ 52"
  shows "round_div v d = (2 * v + d) div (2 * d)"
proof (cases "v = 0")
  case True
  then show ?thesis using assms(1)
    by (simp add: round_div_def fdiv_def scale.simps [of 0] rne_def div_pos_pos_trivial)
next
  case False
  define n where "n = nat v"
  define j where "j = (2 * n + d) div (2 * d)"
  have v: "v = int n" using assms by (simp add: n_def)
  have n: "0 < n" "n < 2 ^ 52" using False assms by (simp_all add: v)
  define m p where "m = rne (n * 2 ^ scale n d) d" and "p = (2 :: nat) ^ scale n d"
  have lo: "2 * j * p \<le> 2 * m + p" and hi: "2 * m < (2 * j + 1) * p"
    using round_half_bounds [OF n(1) assms(1) n(2) j_def] by (simp_all add: m_def p_def)
  have p: "0 < p" by (simp add: p_def)
  have "(2 * m + p) div (2 * p) = j"
    using lo hi p by (intro div_nat_eqI) (simp_all add: algebra_simps)
  then have "(2 * int m + int p) div (2 * int p) = int j"
    by (metis of_nat_add of_nat_mult of_nat_numeral zdiv_int)
  moreover have "round_div v d = (2 * int m + int p) div (2 * int p)"
    by (simp add: round_div_def Let_def fdiv_fst fdiv_snd v m_def p_def)
  ultimately show ?thesis
    by (simp add: j_def v zdiv_int)
qed

text \<open>The comparison of a quotient with a dyadic threshold.\<close>

lemma dge_fdiv_intro: "0 < d \<Longrightarrow> 0 < b \<Longrightarrow> b dvd a * 2 ^ scale n d \<Longrightarrow> a * d \<le> b * n \<Longrightarrow> dge (fdiv n d) a b"
proof -
  assume d: "0 < d" "0 < b" and dv: "b dvd a * 2 ^ scale n d" and le: "a * d \<le> b * n"
  obtain c where c: "a * 2 ^ scale n d = b * c" using dv by (rule dvdE)
  have "b * c * d \<le> b * n * 2 ^ scale n d"
    using mult_right_mono [OF le, of "2 ^ scale n d"] by (simp flip: c add: algebra_simps)
  then have "b * (c * d) \<le> b * (n * 2 ^ scale n d)" by (simp only: mult.assoc)
  then have "c * d \<le> n * 2 ^ scale n d" using d(2) by (metis nat_mult_le_cancel1)
  then have "c \<le> rne (n * 2 ^ scale n d) d" by (rule rne_ge [OF d(1)])
  then show ?thesis using c by (simp add: dge_def fdiv_fst fdiv_snd mult.commute)
qed

lemma dge_fdiv_elim:
  assumes "0 < n" and "0 < d" and "n < 2 ^ 50" and "0 < b" and "b \<le> 4" and "dge (fdiv n d) a b"
  shows "a * d \<le> b * n"
proof (rule ccontr)
  assume "\<not> a * d \<le> b * n"
  then have lt: "b * n + 1 \<le> a * d" by simp
  define k where "k = scale n d"
  define m where "m = rne (n * 2 ^ k) d"
  have "2 ^ 52 * d \<le> n * 2 ^ k" unfolding k_def using assms by (intro scale_big)
  also have "\<dots> < 2 ^ 50 * 2 ^ k" using assms by (intro mult_strict_right_mono) simp_all
  finally have dk: "4 * d < 2 ^ k" by simp
  have "a * 2 ^ k \<le> m * b" using assms(6) by (simp add: dge_def fdiv_fst fdiv_snd k_def m_def)
  then have "2 * d * (a * 2 ^ k) \<le> 2 * d * (m * b)" by simp
  also have "\<dots> \<le> b * (2 * (n * 2 ^ k) + d)"
    using mult_left_mono [OF rne_upper [OF assms(2), of "n * 2 ^ k"], of b]
    by (simp add: m_def algebra_simps)
  finally have "2 * (a * d) * 2 ^ k \<le> 2 * (b * n) * 2 ^ k + b * d" by (simp add: algebra_simps)
  moreover have "2 * (b * n + 1) * 2 ^ k \<le> 2 * (a * d) * 2 ^ k" using lt by (intro mult_right_mono) simp_all
  ultimately have "2 * 2 ^ k \<le> b * d" by (simp add: algebra_simps)
  also have "\<dots> \<le> 4 * d" using assms(5) by simp
  finally show False using dk by simp
qed

lemma dge_three_quarters:
  assumes "0 < n" and "n < 2 ^ 50" and "0 < d" and "3 * d \<le> 4 * n"
  shows "dge (fdiv n d) 3 4"
proof (rule dge_fdiv_intro)
  have "2 ^ 52 * d \<le> n * 2 ^ scale n d" using assms by (intro scale_big)
  also have "\<dots> < 2 ^ 50 * 2 ^ scale n d" using assms by (intro mult_strict_right_mono) simp_all
  finally have big: "4 * d < 2 ^ scale n d" by simp
  have "2 \<le> scale n d"
  proof (rule ccontr)
    assume "\<not> 2 \<le> scale n d"
    then have "scale n d = 0 \<or> scale n d = 1" by auto
    then show False using big assms(3) by auto
  qed
  then have "(2 :: nat) ^ 2 dvd 2 ^ scale n d" by (rule le_imp_power_dvd)
  then show "4 dvd (3 :: nat) * 2 ^ scale n d" by (intro dvd_mult) simp
qed (use assms in auto)

subsection \<open>Rendered fixed-point numbers\<close>

text \<open>Evaluation of closed numeric terms by the simplifier.\<close>

lemmas num_eval = fixed_div_def toFixed_def fdiv_def ddiv_def dge_def scale.simps rne_def
  fixed_units_def pad_zeros_def nat_str.simps js_def Let_def int_str_def round_div_def

lemma length_pad_zeros: "length (pad_zeros n s) = max n (length s)"
  by (simp add: pad_zeros_def)

lemma toFixed_nonempty [simp]: "toFixed x f \<noteq> []"
  by (simp add: toFixed_def Let_def)

lemma toFixed_digits: "c \<in> set (toFixed x f) \<Longrightarrow> is_digit c \<or> c = 46"
proof -
  assume "c \<in> set (toFixed x f)"
  then have "c \<in> set (pad_zeros (f + 1) (nat_str (fixed_units x f))) \<or> c \<in> set (js ''.'')"
    by (auto simp: toFixed_def Let_def dest: in_set_takeD in_set_dropD)
  then show ?thesis
    using nat_str_digits by (auto simp: pad_zeros_def js_def is_digit_def split: if_splits)
qed

subsection \<open>Powers of two\<close>

lemma dge_dval: "dge x a 1 \<longleftrightarrow> real a \<le> dval x"
proof -
  have "real a \<le> dval x \<longleftrightarrow> real a * 2 ^ snd x \<le> real (fst x)" by (simp add: dval_def pos_le_divide_eq)
  also have "\<dots> \<longleftrightarrow> a * 2 ^ snd x \<le> fst x" by (metis of_nat_le_iff of_nat_mult of_nat_numeral of_nat_power)
  finally show ?thesis by (simp add: dge_def)
qed

lemma scale_minimal: "0 < d \<Longrightarrow> scale n d = Suc k \<Longrightarrow> n * 2 ^ k < 2 ^ 52 * d"
proof (induction n d arbitrary: k rule: scale.induct)
  case (1 n d)
  have n: "\<not> (n = 0 \<or> 2 ^ 52 * d \<le> n)" and s: "scale (2 * n) d = k"
    using 1 by (auto simp: scale.simps [of n d] split: if_splits)
  show ?case
  proof (cases k)
    case 0
    then show ?thesis using n by simp
  next
    case (Suc k')
    then show ?thesis using "1.IH" [OF n "1.prems"(1), of k'] s by simp
  qed
qed

text \<open>Dividing by a power of two is exact, and its result can be divided again.\<close>

lemma fdiv_pow2:
  assumes "0 < n" "n < 2 ^ 53"
  shows "dval (fdiv n (2 ^ j)) = n / 2 ^ j \<and> 0 < fst (fdiv n (2 ^ j)) \<and> fst (fdiv n (2 ^ j)) < 2 ^ 53"
proof -
  have big: "2 ^ 52 * 2 ^ j \<le> n * 2 ^ scale n (2 ^ j)" using assms by (intro scale_big) simp_all
  have "j \<le> scale n (2 ^ j)"
  proof (rule ccontr)
    assume "\<not> j \<le> scale n (2 ^ j)"
    then have "2 * 2 ^ scale n (2 ^ j) \<le> (2 ^ j :: nat)"
      by (metis not_less_eq_eq one_le_numeral power_Suc power_increasing)
    then have "2 ^ 52 * (2 * 2 ^ scale n (2 ^ j)) \<le> 2 ^ 52 * (2 ^ j :: nat)" by (rule mult_left_mono) simp
    also note big
    finally have "2 ^ 53 * 2 ^ scale n (2 ^ j) \<le> n * 2 ^ scale n (2 ^ j)" by simp
    then show False using assms(2) by simp
  qed
  then obtain i where i: "scale n (2 ^ j) = j + i" by (metis le_add_diff_inverse)
  have f: "fst (fdiv n (2 ^ j)) = n * 2 ^ i"
    using rne_exact [of "2 ^ j" "n * 2 ^ i"] by (simp add: fdiv_fst i power_add algebra_simps)
  have "n * 2 ^ i < 2 ^ 53"
  proof (cases "j + i")
    case 0
    then show ?thesis using assms(2) by simp
  next
    case (Suc k)
    then have "n * 2 ^ k < 2 ^ 52 * 2 ^ j" using scale_minimal [of "2 ^ j" n k] i by simp
    then have "n * 2 ^ Suc k < 2 ^ 53 * 2 ^ j" by simp
    then have "(n * 2 ^ i) * 2 ^ j < 2 ^ 53 * 2 ^ j" by (simp add: Suc [symmetric] power_add algebra_simps)
    then show ?thesis by simp
  qed
  then show ?thesis using assms(1) f by (simp add: dval_def fdiv_snd i power_add)
qed

definition small :: "dbl \<Rightarrow> bool" where
  "small x \<longleftrightarrow> 0 < fst x \<and> fst x < 2 ^ 53"

lemma ddiv_1024: "small x \<Longrightarrow> dval (ddiv x 1024) = dval x / 1024 \<and> small (ddiv x 1024)"
proof -
  assume x: "small x"
  have "1024 * 2 ^ snd x = (2 :: nat) ^ (10 + snd x)" by (simp add: power_add)
  then have d: "ddiv x 1024 = fdiv (fst x) (2 ^ (10 + snd x))" by (simp add: ddiv_def)
  have "dval (fdiv (fst x) (2 ^ (10 + snd x))) = fst x / 2 ^ (10 + snd x)" "small (fdiv (fst x) (2 ^ (10 + snd x)))"
    using fdiv_pow2 [of "fst x" "10 + snd x"] x by (simp_all only: small_def)
  then show ?thesis unfolding d by (simp add: dval_def [of x] power_add)
qed

lemma fdiv_1024: "0 < n \<Longrightarrow> n < 2 ^ 53 \<Longrightarrow> dval (fdiv n 1024) = n / 1024 \<and> small (fdiv n 1024)"
  using fdiv_pow2 [of n 10] by (simp add: small_def)

end
