(* ===== verification/Html.thy ===== *)
theory Html
  imports JsNumber
begin

section \<open>Rendered views\<close>

text \<open>
  A React component is a function from its props and its state to a tree of elements whose event
  handlers refer back to the component. A rendered tree is modelled as data: text, and elements
  with a tag, attributes and children. A handler is the message its event sends, a value of the
  type parameter; a handler that reads \<^verbatim>\<open>event.target.value\<close> or \<^verbatim>\<open>event.target.checked\<close> is a
  function of it. A component that renders \<^verbatim>\<open>null\<close> renders the empty list of nodes, and a
  fragment is the list of its children. Keys, refs and styling that depends on nothing are kept
  out of the attributes; class names are kept.
\<close>

datatype 'm attr =
    A string jstr                \<comment> \<open>an attribute with a string value\<close>
  | B string bool                \<comment> \<open>a boolean attribute\<close>
  | On string 'm                 \<comment> \<open>a handler that ignores the event\<close>
  | OnValue string "jstr \<Rightarrow> 'm"  \<comment> \<open>a handler of \<^verbatim>\<open>event.target.value\<close>\<close>
  | OnCheck string "bool \<Rightarrow> 'm"  \<comment> \<open>a handler of \<^verbatim>\<open>event.target.checked\<close>\<close>

datatype 'm node =
    Text jstr
  | El string "'m attr list" "'m node list"

abbreviation cls :: "string \<Rightarrow> 'm attr" where
  "cls c \<equiv> A ''class'' (js c)"

abbreviation T :: "string \<Rightarrow> 'm node" where
  "T s \<equiv> Text (js s)"

text \<open>Conditional rendering: \<^verbatim>\<open>c ? node : null\<close> and \<^verbatim>\<open>c && node\<close>.\<close>

definition render_if :: "bool \<Rightarrow> 'm node list \<Rightarrow> 'm node list" where
  "render_if c ns = (if c then ns else [])"

lemma render_if_simps [simp]: "render_if True ns = ns" "render_if False ns = []"
  by (simp_all add: render_if_def)

text \<open>A handler that may do nothing.\<close>

definition on_opt :: "string \<Rightarrow> 'm option \<Rightarrow> 'm attr list" where
  "on_opt n m = (case m of None \<Rightarrow> [] | Some x \<Rightarrow> [On n x])"

text \<open>An attribute that may be undefined.\<close>

definition attr_opt :: "string \<Rightarrow> jstr option \<Rightarrow> 'm attr list" where
  "attr_opt n v = (case v of None \<Rightarrow> [] | Some x \<Rightarrow> [A n x])"

lemma on_opt_simps [simp]: "on_opt n None = []" "on_opt n (Some m) = [On n m]"
  by (simp_all add: on_opt_def)

lemma attr_opt_simps [simp]: "attr_opt n None = []" "attr_opt n (Some v) = [A n v]"
  by (simp_all add: attr_opt_def)

text \<open>The messages a user can send by clicking: the click handlers of elements not disabled.\<close>

fun attr_disabled :: "'m attr \<Rightarrow> bool" where
  "attr_disabled (B n b) \<longleftrightarrow> n = ''disabled'' \<and> b"
| "attr_disabled _ \<longleftrightarrow> False"

fun attr_click :: "'m attr \<Rightarrow> 'm list" where
  "attr_click (On n m) = (if n = ''onClick'' then [m] else [])"
| "attr_click _ = []"

fun attr_submit :: "'m attr \<Rightarrow> 'm list" where
  "attr_submit (On n m) = (if n = ''onSubmit'' then [m] else [])"
| "attr_submit _ = []"

fun clicks :: "'m node \<Rightarrow> 'm list" where
  "clicks (Text t) = []"
| "clicks (El tag as ns) =
     (if list_ex attr_disabled as then [] else concat (map attr_click as)) @ concat (map clicks ns)"

definition clicks_of :: "'m node list \<Rightarrow> 'm list" where
  "clicks_of ns = concat (map clicks ns)"

text \<open>The form submissions a tree offers: the browser submits a form only through a submit
  button that is not disabled (or the return key, which needs such a button as well).\<close>

fun submits :: "'m node \<Rightarrow> 'm list" where
  "submits (Text t) = []"
| "submits (El tag as ns) = concat (map attr_submit as) @ concat (map submits ns)"

text \<open>The text a tree shows, in document order.\<close>

fun texts :: "'m node \<Rightarrow> jstr list" where
  "texts (Text t) = [t]"
| "texts (El tag as ns) = concat (map texts ns)"

definition texts_of :: "'m node list \<Rightarrow> jstr list" where
  "texts_of ns = concat (map texts ns)"

text \<open>The values of the string attributes of a given name, in document order.\<close>

fun attr_value :: "string \<Rightarrow> 'm attr \<Rightarrow> jstr list" where
  "attr_value n (A m v) = (if m = n then [v] else [])"
| "attr_value n _ = []"

fun attr_values :: "string \<Rightarrow> 'm node \<Rightarrow> jstr list" where
  "attr_values n (Text t) = []"
| "attr_values n (El tag as ns) = concat (map (attr_value n) as) @ concat (map (attr_values n) ns)"

lemma clicks_of_simps [simp]:
  "clicks_of [] = []" "clicks_of (n # ns) = clicks n @ clicks_of ns"
  "clicks_of (ns @ ms) = clicks_of ns @ clicks_of ms"
  by (simp_all add: clicks_of_def)

lemma texts_of_simps [simp]:
  "texts_of [] = []" "texts_of (n # ns) = texts n @ texts_of ns"
  "texts_of (ns @ ms) = texts_of ns @ texts_of ms"
  by (simp_all add: texts_of_def)

lemma clicks_El: "clicks (El tag as ns) =
    (if list_ex attr_disabled as then [] else concat (map attr_click as)) @ clicks_of ns"
  by (simp add: clicks_of_def)

lemma texts_El: "texts (El tag as ns) = texts_of ns"
  by (simp add: texts_of_def)

declare clicks.simps(2) [simp del] texts.simps(2) [simp del]
declare clicks_El [simp] texts_El [simp]

lemma clicks_render_if: "clicks_of (render_if c ns) = (if c then clicks_of ns else [])"
  by (simp add: render_if_def)

lemma set_clicks_of: "set (clicks_of ns) = (\<Union>n \<in> set ns. set (clicks n))"
  by (auto simp: clicks_of_def)

lemma clicks_of_map: "clicks_of (map f xs) = concat (map (\<lambda>x. clicks (f x)) xs)"
  by (simp add: clicks_of_def comp_def)

text \<open>A child component embedded in a parent: its messages are wrapped into the parent's.\<close>

lemma attr_map [simp]:
  "attr_disabled (map_attr f a) = attr_disabled a" "attr_click (map_attr f a) = map f (attr_click a)"
  by (cases a; simp)+

lemma clicks_map_node [simp]: "clicks (map_node f n) = map f (clicks n)"
proof (induction n)
  case (El tag as ns)
  have "clicks_of (map (map_node f) ns) = map f (clicks_of ns)"
    using El by (induction ns) simp_all
  moreover have "list_ex attr_disabled (map (map_attr f) as) = list_ex attr_disabled as"
    by (induction as) simp_all
  moreover have "concat (map attr_click (map (map_attr f) as)) = map f (concat (map attr_click as))"
    by (induction as) simp_all
  ultimately show ?case by simp
qed simp

lemma clicks_of_map_node [simp]: "clicks_of (map (map_node f) ns) = map f (clicks_of ns)"
  by (induction ns) simp_all

text \<open>The addresses the links of a view lead to.\<close>

definition links_of :: "'m node list \<Rightarrow> jstr list" where
  "links_of ns = concat (map (attr_values ''href'') ns)"

lemma links_of_simps [simp]:
  "links_of [] = []" "links_of (n # ns) = attr_values ''href'' n @ links_of ns" "links_of (ns @ ms) = links_of ns @ links_of ms"
  by (simp_all add: links_of_def)

lemma links_El [simp]: "attr_values ''href'' (El tag as ns) = concat (map (attr_value ''href'') as) @ links_of ns"
  by (simp add: links_of_def)

declare attr_values.simps(2) [simp del]

lemma links_render_if: "links_of (render_if c ns) = (if c then links_of ns else [])"
  by (simp add: render_if_def)

lemma links_of_map: "links_of (map f xs) = concat (map (\<lambda>x. attr_values ''href'' (f x)) xs)"
  by (simp add: links_of_def comp_def)

lemma attr_value_map [simp]: "attr_value n (map_attr f a) = attr_value n a"
  by (cases a) simp_all

lemma links_map_node [simp]: "attr_values ''href'' (map_node f n) = attr_values ''href'' n"
proof (induction n)
  case (El tag as ns)
  have "links_of (map (map_node f) ns) = links_of ns" using El by (induction ns) simp_all
  moreover have "concat (map (attr_value ''href'') (map (map_attr f) as)) = concat (map (attr_value ''href'') as)"
    by (induction as) simp_all
  ultimately show ?case by simp
qed simp

lemma links_map_nodes [simp]: "links_of (map (map_node f) ns) = links_of ns"
  by (induction ns) simp_all

lemma links_attrs [simp]:
  "concat (map (attr_value ''href'') (on_opt n m)) = []" "concat (map (attr_value ''href'') (attr_opt ''href'' v)) = (case v of None \<Rightarrow> [] | Some x \<Rightarrow> [x])"
  "concat (map (attr_value ''href'') (attr_opt ''title'' v)) = []"
  by (cases m; cases v; simp)+

lemmas links_simps = links_render_if links_of_map

lemmas html_simps = clicks_render_if clicks_of_map render_if_def

end
