(* ===== verification/Labels.thy ===== *)
theory Labels
  imports JsString
begin

section \<open>The string table of the dashboard\<close>

text \<open>
  The user interface of \<^verbatim>\<open>web/src\<close> is written in Korean. A JavaScript string is a
  sequence of UTF-16 code units, so every non-ASCII literal of the source is recorded here by its
  code units, under an English name; the component theories refer to the literals by these names.
  ASCII literals are written in place, as \<open>js ''...''\<close>. The table holds data only.
\<close>

definition ko_ac_cost1 :: jstr where
  "ko_ac_cost1 = [0xC790, 0xB3D9, 0x0020, 0xCCB4, 0xC774, 0xB2DD, 0x0020, 0x0032, 0x0034, 0xC2DC, 0xAC04, 0x0020,
     0xBE44, 0xC6A9, 0x0020, 0xC81C, 0xD55C, 0x0028, 0x0024]"

definition ko_ac_depth :: jstr where
  "ko_ac_depth = [0xC790, 0xB3D9, 0x0020, 0xCCB4, 0xC774, 0xB2DD, 0x0020, 0xAE4A, 0xC774, 0x0020, 0xC81C, 0xD55C,
     0x0028]"

definition ko_ac_dry :: jstr where
  "ko_ac_dry = [0xC790, 0xB3D9, 0x0020, 0xCCB4, 0xC774, 0xB2DD, 0x0020, 0x0064, 0x0072, 0x0079, 0x002D, 0x0072,
     0x0075, 0x006E, 0x003A, 0x0020, 0x0040]"

definition ko_ac_dry2 :: jstr where
  "ko_ac_dry2 = [0x0020, 0xC2E4, 0xD589, 0xC744, 0x0020, 0xD050, 0xC5D0, 0x0020, 0xB4F1, 0xB85D, 0xD558, 0xC9C0,
     0x0020, 0xC54A, 0xC558, 0xC2B5, 0xB2C8, 0xB2E4, 0x002E]"

definition ko_ac_dup1 :: jstr where
  "ko_ac_dup1 = [0xC774, 0xBBF8, 0x0020, 0x0040]"

definition ko_ac_dup2 :: jstr where
  "ko_ac_dup2 = [0x0020, 0x0071, 0x0075, 0x0065, 0x0075, 0x0065, 0x0064, 0x0020, 0x0072, 0x0075, 0x006E, 0xC774,
     0x0020, 0xC788, 0xC5B4, 0x0020, 0xC790, 0xB3D9, 0x0020, 0xCCB4, 0xC774, 0xB2DD, 0xC744, 0x0020,
     0xAC74, 0xB108, 0xB6F0, 0xC5C8, 0xC2B5, 0xB2C8, 0xB2E4, 0x002E]"

definition ko_ac_dup3 :: jstr where
  "ko_ac_dup3 = [0xC790, 0xB3D9, 0x0020, 0xCCB4, 0xC774, 0xB2DD, 0x0020, 0xC911, 0xBCF5, 0x0020, 0xBC29, 0xC9C0,
     0xB97C, 0x0020, 0xC704, 0xD574, 0x0020, 0x0040]"

definition ko_ac_dup4 :: jstr where
  "ko_ac_dup4 = [0x0020, 0xC2E4, 0xD589, 0xC744, 0x0020, 0xAC74, 0xB108, 0xB6F0, 0xC5C8, 0xC2B5, 0xB2C8, 0xB2E4,
     0x002E]"

definition ko_ac_none1 :: jstr where
  "ko_ac_none1 = [0xC790, 0xB3D9, 0x0020, 0xCCB4, 0xC774, 0xB2DD, 0x0020, 0xB300, 0xC0C1, 0x0020, 0x0040]"

definition ko_ac_none2 :: jstr where
  "ko_ac_none2 = [0xC744, 0x0020, 0xCC3E, 0xC744, 0x0020, 0xC218, 0x0020, 0xC5C6, 0xC2B5, 0xB2C8, 0xB2E4, 0x002E]"

definition ko_ac_ok1 :: jstr where
  "ko_ac_ok1 = [0xC790, 0xB3D9, 0x0020, 0xCCB4, 0xC774, 0xB2DD, 0xC73C, 0xB85C, 0x0020, 0x0040]"

definition ko_ac_ok2 :: jstr where
  "ko_ac_ok2 = [0x0020, 0xC2E4, 0xD589, 0xC744, 0x0020, 0xD050, 0xC5D0, 0x0020, 0xB4F1, 0xB85D, 0xD588, 0xC2B5,
     0xB2C8, 0xB2E4, 0x002E]"

definition ko_ac_runs1 :: jstr where
  "ko_ac_runs1 = [0xC790, 0xB3D9, 0x0020, 0xCCB4, 0xC774, 0xB2DD, 0x0020, 0x0032, 0x0034, 0xC2DC, 0xAC04, 0x0020,
     0xC2E4, 0xD589, 0x0020, 0xC81C, 0xD55C, 0x0028]"

definition ko_ac_runs2 :: jstr where
  "ko_ac_runs2 = [0x0029, 0xC5D0, 0x0020, 0xB3C4, 0xB2EC, 0xD574, 0x0020, 0xCD94, 0xAC00, 0x0020, 0xC2E4, 0xD589,
     0xC744, 0x0020, 0xB4F1, 0xB85D, 0xD558, 0xC9C0, 0x0020, 0xC54A, 0xC558, 0xC2B5, 0xB2C8, 0xB2E4,
     0x002E]"

definition ko_act_always :: jstr where
  "ko_act_always = [0x0061, 0x006C, 0x0077, 0x0061, 0x0079, 0x0073, 0x0020, 0x2014, 0x0020, 0xBAA8, 0xB4E0, 0x0020,
     0x0072, 0x0075, 0x006E, 0xC5D0, 0x0020, 0xD3EC, 0xD568]"

definition ko_act_manual :: jstr where
  "ko_act_manual = [0x006D, 0x0061, 0x006E, 0x0075, 0x0061, 0x006C, 0x0020, 0x2014, 0x0020, 0x0023, 0x0073, 0x006B,
     0x0069, 0x006C, 0x006C, 0x0073, 0x003A, 0x0020, 0x006E, 0x0061, 0x006D, 0x0065, 0x0020, 0xC9C0,
     0xC815, 0x0020, 0xC2DC]"

definition ko_act_trigger :: jstr where
  "ko_act_trigger = [0x0074, 0x0072, 0x0069, 0x0067, 0x0067, 0x0065, 0x0072, 0x0020, 0x2014, 0x0020, 0xB0B4, 0xC6A9,
     0xACFC, 0x0020, 0x0074, 0x0072, 0x0069, 0x0067, 0x0067, 0x0065, 0x0072, 0x0020, 0x006B, 0x0065,
     0x0079, 0x0077, 0x006F, 0x0072, 0x0064, 0xAC00, 0x0020, 0xB9DE, 0xC744, 0x0020, 0xB54C]"

definition ko_add_agent :: jstr where
  "ko_add_agent = [0xC5D0, 0xC774, 0xC804, 0xD2B8, 0x0020, 0xCD94, 0xAC00]"

definition ko_add_agent_desc :: jstr where
  "ko_add_agent_desc = [0x0043, 0x004C, 0x0049, 0x0020, 0x0072, 0x0075, 0x006E, 0x0074, 0x0069, 0x006D, 0x0065, 0xACFC,
     0x0020, 0xAE30, 0xBCF8, 0x0020, 0xC9C0, 0xC2DC, 0xBB38, 0xC744, 0x0020, 0xC9C0, 0xC815, 0xD574,
     0x0020, 0xC6CC, 0xD06C, 0xC2A4, 0xD398, 0xC774, 0xC2A4, 0xC5D0, 0x0020, 0xC0C8, 0x0020, 0xC791,
     0xC5C5, 0xC790, 0xB97C, 0x0020, 0xCD94, 0xAC00, 0xD569, 0xB2C8, 0xB2E4, 0x002E]"

definition ko_add_agent_failed :: jstr where
  "ko_add_agent_failed = [0xC5D0, 0xC774, 0xC804, 0xD2B8, 0x0020, 0xCD94, 0xAC00, 0xC5D0, 0x0020, 0xC2E4, 0xD328, 0xD588,
     0xC2B5, 0xB2C8, 0xB2E4, 0x002E]"

definition ko_add_rule :: jstr where
  "ko_add_rule = [0xADDC, 0xCE59, 0x0020, 0xCD94, 0xAC00]"

definition ko_adding :: jstr where
  "ko_adding = [0xCD94, 0xAC00, 0x0020, 0xC911]"

definition ko_after_create :: jstr where
  "ko_after_create = [0xC6CC, 0xD06C, 0xC2A4, 0xD398, 0xC774, 0xC2A4, 0x0020, 0xC0DD, 0xC131, 0x0020, 0xD6C4, 0x0020,
     0xD45C, 0xC2DC]"

definition ko_agent :: jstr where
  "ko_agent = [0xC5D0, 0xC774, 0xC804, 0xD2B8]"

definition ko_agent_all :: jstr where
  "ko_agent_all = [0xB2F4, 0xB2F9, 0x0020, 0xC804, 0xCCB4]"

definition ko_agent_filter :: jstr where
  "ko_agent_filter = [0xB2F4, 0xB2F9, 0x0020, 0xC5D0, 0xC774, 0xC804, 0xD2B8, 0x0020, 0xD544, 0xD130]"

definition ko_agent_instructions :: jstr where
  "ko_agent_instructions = [0xC5D0, 0xC774, 0xC804, 0xD2B8, 0x0020, 0xC9C0, 0xC2DC, 0xBB38]"

definition ko_agent_settings :: jstr where
  "ko_agent_settings = [0xC5D0, 0xC774, 0xC804, 0xD2B8, 0x0020, 0xC124, 0xC815]"

definition ko_agent_skills_failed :: jstr where
  "ko_agent_skills_failed = [0xC5D0, 0xC774, 0xC804, 0xD2B8, 0x0020, 0x0053, 0x006B, 0x0069, 0x006C, 0x006C, 0x0020, 0xB85C,
     0xB4DC, 0x0020, 0xC2E4, 0xD328]"

definition ko_agents_desc :: jstr where
  "ko_agents_desc = [0x0043, 0x004C, 0x0049, 0x0020, 0xC5D0, 0xC774, 0xC804, 0xD2B8, 0xB97C, 0x0020, 0xD14C, 0xC774,
     0xBE14, 0xB85C, 0x0020, 0xAD00, 0xB9AC, 0xD558, 0xACE0, 0x0020, 0x0072, 0x0075, 0x006E, 0x0074,
     0x0069, 0x006D, 0x0065, 0x002F, 0xC5ED, 0xD560, 0x0020, 0xAE30, 0xC900, 0xC73C, 0xB85C, 0x0020,
     0xBE60, 0xB974, 0xAC8C, 0x0020, 0xD544, 0xD130, 0xB9C1, 0xD569, 0xB2C8, 0xB2E4, 0x002E]"

definition ko_agents_failed :: jstr where
  "ko_agents_failed = [0xC5D0, 0xC774, 0xC804, 0xD2B8, 0x0020, 0xB85C, 0xB4DC, 0x0020, 0xC2E4, 0xD328]"

definition ko_agents_filter :: jstr where
  "ko_agents_filter = [0xC5D0, 0xC774, 0xC804, 0xD2B8, 0x0020, 0xD544, 0xD130]"

definition ko_agents_list :: jstr where
  "ko_agents_list = [0xC5D0, 0xC774, 0xC804, 0xD2B8, 0x0020, 0xBAA9, 0xB85D]"

definition ko_agents_none :: jstr where
  "ko_agents_none = [0xD45C, 0xC2DC, 0xD560, 0x0020, 0xC5D0, 0xC774, 0xC804, 0xD2B8, 0x0020, 0xC5C6, 0xC74C]"

definition ko_agents_none_hint :: jstr where
  "ko_agents_none_hint = [0xC5D0, 0xC774, 0xC804, 0xD2B8, 0x0020, 0xCD94, 0xAC00, 0x0020, 0xBC84, 0xD2BC, 0xC73C, 0xB85C,
     0x0020, 0xC0C8, 0x0020, 0xC791, 0xC5C5, 0xC790, 0xB97C, 0x0020, 0xB4F1, 0xB85D, 0xD558, 0xC138,
     0xC694, 0x002E]"

definition ko_agents_sep :: jstr where
  "ko_agents_sep = [0xAC1C, 0x002C, 0x0020, 0xC5D0, 0xC774, 0xC804, 0xD2B8, 0x0020]"

definition ko_agents_title :: jstr where
  "ko_agents_title = [0xC5D0, 0xC774, 0xC804, 0xD2B8]"

definition ko_aggregating :: jstr where
  "ko_aggregating = [0xC9D1, 0xACC4, 0x0020, 0xC911]"

definition ko_aggregating_dots :: jstr where
  "ko_aggregating_dots = [0xC9D1, 0xACC4, 0x0020, 0xC911, 0x2026]"

definition ko_all :: jstr where
  "ko_all = [0xC804, 0xCCB4]"

definition ko_all_clean :: jstr where
  "ko_all_clean = [0x0030, 0xAC1C, 0x0020, 0x00B7, 0x0020, 0x0030, 0x0020, 0x0042, 0x0020, 0x0028, 0xBAA8, 0xB450,
     0x0020, 0xC815, 0xB9AC, 0xB428, 0x0029]"

definition ko_all_events :: jstr where
  "ko_all_events = [0xC804, 0xCCB4, 0x0020, 0xC774, 0xBCA4, 0xD2B8]"

definition ko_all_issues :: jstr where
  "ko_all_issues = [0xC804, 0xCCB4, 0x0020, 0xC774, 0xC288]"

definition ko_all_recovered :: jstr where
  "ko_all_recovered = [0x0020, 0x0028, 0xBAA8, 0xB450, 0x0020, 0xBCF5, 0xAD6C, 0xB428, 0x0029]"

definition ko_all_runs :: jstr where
  "ko_all_runs = [0xC804, 0xCCB4, 0x0020, 0x0072, 0x0075, 0x006E]"

definition ko_allow_chain :: jstr where
  "ko_allow_chain = [0x0061, 0x0067, 0x0065, 0x006E, 0x0074, 0x0020, 0xACB0, 0xACFC, 0x0020, 0x0040, 0x006D, 0x0065,
     0x006E, 0x0074, 0x0069, 0x006F, 0x006E, 0x0020, 0xC790, 0xB3D9, 0x0020, 0xCCB4, 0xC774, 0xB2DD,
     0x0020, 0xD5C8, 0xC6A9]"

definition ko_ap_add :: jstr where
  "ko_ap_add = [0xC624, 0xD1A0, 0xD30C, 0xC77C, 0xB7FF, 0x0020, 0xCD94, 0xAC00]"

definition ko_ap_desc :: jstr where
  "ko_ap_desc = [0x0063, 0x0072, 0x006F, 0x006E, 0x0020, 0xAE30, 0xBC18, 0x0020, 0xC815, 0xAE30, 0x0020, 0xC774,
     0xC288, 0x0020, 0xC0DD, 0xC131, 0x0020, 0xADDC, 0xCE59, 0xC744, 0x0020, 0xD14C, 0xC774, 0xBE14,
     0xACFC, 0x0020, 0xD15C, 0xD50C, 0xB9BF, 0xC73C, 0xB85C, 0x0020, 0xAD00, 0xB9AC, 0xD569, 0xB2C8,
     0xB2E4, 0x002E]"

definition ko_ap_dialog_desc :: jstr where
  "ko_ap_dialog_desc = [0x0063, 0x0072, 0x006F, 0x006E, 0x0020, 0xC77C, 0xC815, 0xC5D0, 0x0020, 0xB530, 0xB77C, 0x0020,
     0xC774, 0xC288, 0xB97C, 0x0020, 0xC0DD, 0xC131, 0xD558, 0xAC70, 0xB098, 0x0020, 0xC5D0, 0xC774,
     0xC804, 0xD2B8, 0x0020, 0xC791, 0xC5C5, 0xC744, 0x0020, 0xC608, 0xC57D, 0xD569, 0xB2C8, 0xB2E4,
     0x002E, 0x0020, 0xD3B8, 0xC9D1, 0xD574, 0xB3C4, 0x0020, 0xC2E4, 0xD328, 0x0020, 0xC774, 0xB825,
     0xC740, 0x0020, 0xC720, 0xC9C0, 0xB429, 0xB2C8, 0xB2E4, 0x002E]"

definition ko_ap_edit :: jstr where
  "ko_ap_edit = [0xC624, 0xD1A0, 0xD30C, 0xC77C, 0xB7FF, 0x0020, 0xD3B8, 0xC9D1]"

definition ko_ap_filter :: jstr where
  "ko_ap_filter = [0xC624, 0xD1A0, 0xD30C, 0xC77C, 0xB7FF, 0x0020, 0xD544, 0xD130]"

definition ko_ap_rules :: jstr where
  "ko_ap_rules = [0xC790, 0xB3D9, 0xD654, 0x0020, 0xADDC, 0xCE59]"

definition ko_ap_save_failed :: jstr where
  "ko_ap_save_failed = [0xC624, 0xD1A0, 0xD30C, 0xC77C, 0xB7FF, 0x0020, 0xC800, 0xC7A5, 0xC5D0, 0x0020, 0xC2E4, 0xD328,
     0xD588, 0xC2B5, 0xB2C8, 0xB2E4, 0x002E]"

definition ko_api_request_failed :: jstr where
  "ko_api_request_failed = [0x0041, 0x0050, 0x0049, 0x0020, 0xC694, 0xCCAD, 0x0020, 0xC2E4, 0xD328]"

definition ko_api_state :: jstr where
  "ko_api_state = [0x0041, 0x0050, 0x0049, 0x0020, 0xC0C1, 0xD0DC]"

definition ko_api_token :: jstr where
  "ko_api_token = [0x0041, 0x0050, 0x0049, 0x0020, 0xD1A0, 0xD070]"

definition ko_api_waiting :: jstr where
  "ko_api_waiting = [0x0041, 0x0050, 0x0049, 0x0020, 0xC5F0, 0xACB0, 0x0020, 0xB300, 0xAE30]"

definition ko_ask_cancel :: jstr where
  "ko_ask_cancel = [0xC774, 0xC288, 0xB97C, 0x0020, 0xCDE8, 0xC18C, 0xD560, 0xAE4C, 0xC694, 0x003F]"

definition ko_ask_cancel_queued :: jstr where
  "ko_ask_cancel_queued = [0xB300, 0xAE30, 0x0020, 0x0072, 0x0075, 0x006E, 0xC744, 0x0020, 0xCDE8, 0xC18C, 0xD560, 0xAE4C,
     0xC694, 0x003F]"

definition ko_ask_cancel_run :: jstr where
  "ko_ask_cancel_run = [0xD604, 0xC7AC, 0x0020, 0xC2E4, 0xD589, 0xC744, 0x0020, 0xCDE8, 0xC18C, 0xD560, 0xAE4C, 0xC694,
     0x003F]"

definition ko_ask_cancel_running :: jstr where
  "ko_ask_cancel_running = [0xC2E4, 0xD589, 0x0020, 0xC911, 0xC778, 0x0020, 0x0072, 0x0075, 0x006E, 0xC744, 0x0020, 0xCDE8,
     0xC18C, 0xD560, 0xAE4C, 0xC694, 0x003F]"

definition ko_ask_done :: jstr where
  "ko_ask_done = [0xC774, 0xC288, 0xB97C, 0x0020, 0xC644, 0xB8CC, 0x0020, 0xCC98, 0xB9AC, 0xD560, 0xAE4C, 0xC694,
     0x003F]"

definition ko_ask_reopen :: jstr where
  "ko_ask_reopen = [0xC774, 0xC288, 0xB97C, 0x0020, 0xB2E4, 0xC2DC, 0x0020, 0xC5F4, 0xAE4C, 0xC694, 0x003F]"

definition ko_ask_rerun :: jstr where
  "ko_ask_rerun = [0xC774, 0xC288, 0xB97C, 0x0020, 0xC7AC, 0xC2E4, 0xD589, 0xD560, 0xAE4C, 0xC694, 0x003F]"

definition ko_assign :: jstr where
  "ko_assign = [0xD560, 0xB2F9]"

definition ko_assign_skill :: jstr where
  "ko_assign_skill = [0xAE30, 0xC874, 0x0020, 0x0053, 0x006B, 0x0069, 0x006C, 0x006C, 0x0020, 0xD560, 0xB2F9]"

definition ko_assignee :: jstr where
  "ko_assignee = [0xB2F4, 0xB2F9]"

definition ko_assignee_agent :: jstr where
  "ko_assignee_agent = [0xB2F4, 0xB2F9, 0x0020, 0xC5D0, 0xC774, 0xC804, 0xD2B8]"

definition ko_attach_failed :: jstr where
  "ko_attach_failed = [0xCCA8, 0xBD80, 0x0020, 0xC5C5, 0xB85C, 0xB4DC, 0x0020, 0xC2E4, 0xD328]"

definition ko_attachments :: jstr where
  "ko_attachments = [0xCCA8, 0xBD80, 0x0020, 0xD30C, 0xC77C]"

definition ko_attempt :: jstr where
  "ko_attempt = [0xC2DC, 0xB3C4]"

definition ko_attempt_sp :: jstr where
  "ko_attempt_sp = [0x0020, 0x0028, 0xC2DC, 0xB3C4, 0x0020]"

definition ko_attention :: jstr where
  "ko_attention = [0xC8FC, 0xC758]"

definition ko_auth :: jstr where
  "ko_auth = [0xC778, 0xC99D]"

definition ko_auto_backup :: jstr where
  "ko_auto_backup = [0xC790, 0xB3D9, 0x0020, 0xBC31, 0xC5C5]"

definition ko_auto_chain :: jstr where
  "ko_auto_chain = [0x0061, 0x0067, 0x0065, 0x006E, 0x0074, 0x0020, 0xACB0, 0xACFC, 0x0020, 0x0040, 0x006D, 0x0065,
     0x006E, 0x0074, 0x0069, 0x006F, 0x006E, 0x0020, 0xC790, 0xB3D9, 0x0020, 0xCCB4, 0xC774, 0xB2DD,
     0x0020, 0xD5C8, 0xC6A9]"

definition ko_auto_cleanup :: jstr where
  "ko_auto_cleanup = [0xC790, 0xB3D9, 0x0020, 0xB85C, 0xADF8, 0x0020, 0xC815, 0xB9AC]"

definition ko_auto_close :: jstr where
  "ko_auto_close = [0x0072, 0x0075, 0x006E, 0x0020, 0xC131, 0xACF5, 0x0020, 0xC2DC, 0x0020, 0xC774, 0xC288, 0x0020,
     0xC790, 0xB3D9, 0x0020, 0xC644, 0xB8CC, 0x0020, 0xCC98, 0xB9AC]"

definition ko_auto_main :: jstr where
  "ko_auto_main = [0xBA54, 0xC778, 0x0020, 0xC5D0, 0xC774, 0xC804, 0xD2B8, 0x0020, 0xC790, 0xB3D9, 0x0020, 0xC120,
     0xD0DD]"

definition ko_autopilot :: jstr where
  "ko_autopilot = [0xC624, 0xD1A0, 0xD30C, 0xC77C, 0xB7FF]"

definition ko_backing_up :: jstr where
  "ko_backing_up = [0xBC31, 0xC5C5, 0x0020, 0xC911]"

definition ko_backoff :: jstr where
  "ko_backoff = [0xC7AC, 0xC2DC, 0xB3C4, 0x0020, 0x0062, 0x0061, 0x0063, 0x006B, 0x006F, 0x0066, 0x0066, 0x0020,
     0xCD08]"

definition ko_backoff_help :: jstr where
  "ko_backoff_help = [0xBE44, 0xC6B0, 0xBA74, 0x0020, 0xAE30, 0xBCF8, 0xAC12, 0x0020, 0x0031, 0x0030, 0xCD08, 0x0020,
     0x2192, 0x0020, 0x0036, 0x0030, 0xCD08, 0x0020, 0x2192, 0x0020, 0x0035, 0xBD84, 0xC744, 0x0020,
     0xC0AC, 0xC6A9, 0xD569, 0xB2C8, 0xB2E4, 0x002E]"

definition ko_backoff_hint :: jstr where
  "ko_backoff_hint = [0xC608, 0x003A, 0x0020, 0x0031, 0x0030, 0x002C, 0x0036, 0x0030, 0x002C, 0x0033, 0x0030, 0x0030]"

definition ko_backup_desc :: jstr where
  "ko_backup_desc = [0xD604, 0xC7AC, 0x0020, 0x0053, 0x0051, 0x004C, 0x0069, 0x0074, 0x0065, 0x0020, 0x0044, 0x0042,
     0xB97C, 0x0020, 0xC548, 0xC804, 0xD558, 0xAC8C, 0x0020, 0xBCF5, 0xC0AC, 0xD569, 0xB2C8, 0xB2E4,
     0x002E, 0x0020, 0xACBD, 0xB85C, 0xB97C, 0x0020, 0xBE44, 0xC6B0, 0xBA74, 0x0020, 0xC11C, 0xBC84,
     0xAC00, 0x0020, 0xC790, 0xB3D9, 0xC73C, 0xB85C, 0x0020, 0x0060, 0x002E, 0x0062, 0x0061, 0x006B,
     0x0060, 0x0020, 0xD30C, 0xC77C, 0xBA85, 0xC744, 0x0020, 0xB9CC, 0xB4ED, 0xB2C8, 0xB2E4, 0x002E]"

definition ko_backup_done :: jstr where
  "ko_backup_done = [0xBC31, 0xC5C5, 0x0020, 0xC644, 0xB8CC, 0x003A, 0x0020]"

definition ko_backup_keep :: jstr where
  "ko_backup_keep = [0x004F, 0x004E, 0x0020, 0x00B7, 0x0020, 0xCD5C, 0xADFC, 0x0020]"

definition ko_backup_path :: jstr where
  "ko_backup_path = [0xBC31, 0xC5C5, 0x0020, 0xACBD, 0xB85C, 0x0020, 0xC120, 0xD0DD, 0x0020, 0xC785, 0xB825, 0x0020,
     0x0028, 0xC120, 0xD0DD, 0x0029]"

definition ko_based_on :: jstr where
  "ko_based_on = [0x0020, 0xAE30, 0xC900]"

definition ko_basic :: jstr where
  "ko_basic = [0xAE30, 0xBCF8]"

definition ko_blank_rule :: jstr where
  "ko_blank_rule = [0xBE48, 0x0020, 0xADDC, 0xCE59, 0xC73C, 0xB85C, 0x0020, 0xC2DC, 0xC791]"

definition ko_board_desc :: jstr where
  "ko_board_desc = [0xAE30, 0xC874, 0x0020, 0xC774, 0xC288, 0x002C, 0x0020, 0xC644, 0xB8CC, 0x0020, 0xC774, 0xC288,
     0x002C, 0x0020, 0xCDE8, 0xC18C, 0x0020, 0xC774, 0xC288, 0xB97C, 0x0020, 0xBCF4, 0xB4DC, 0x002F,
     0xB9AC, 0xC2A4, 0xD2B8, 0xB85C, 0x0020, 0xC804, 0xD658, 0xD558, 0xBA70, 0x0020, 0xCD94, 0xC801,
     0xD569, 0xB2C8, 0xB2E4, 0x002E]"

definition ko_board_title :: jstr where
  "ko_board_title = [0xC774, 0xC288, 0x0020, 0xBCF4, 0xB4DC]"

definition ko_body :: jstr where
  "ko_body = [0xBCF8, 0xBB38]"

definition ko_body_template :: jstr where
  "ko_body_template = [0xC774, 0xC288, 0x0020, 0xBCF8, 0xBB38, 0x0020, 0xD15C, 0xD50C, 0xB9BF]"

definition ko_cancel :: jstr where
  "ko_cancel = [0xCDE8, 0xC18C]"

definition ko_cancel_chain :: jstr where
  "ko_cancel_chain = [0xCCB4, 0xC778, 0x0020, 0xCDE8, 0xC18C]"

definition ko_cancel_exec :: jstr where
  "ko_cancel_exec = [0xC2E4, 0xD589, 0x0020, 0xCDE8, 0xC18C]"

definition ko_cancel_failed :: jstr where
  "ko_cancel_failed = [0xC2E4, 0xD589, 0x0020, 0xCDE8, 0xC18C, 0x0020, 0xC2E4, 0xD328]"

definition ko_cancel_issue :: jstr where
  "ko_cancel_issue = [0xC774, 0xC288, 0x0020, 0xCDE8, 0xC18C]"

definition ko_cancel_issue_icon :: jstr where
  "ko_cancel_issue_icon = [0x2715, 0x0020, 0xC774, 0xC288, 0x0020, 0xCDE8, 0xC18C]"

definition ko_cancel_queue :: jstr where
  "ko_cancel_queue = [0xB300, 0xAE30, 0x0020, 0xCDE8, 0xC18C]"

definition ko_cancel_requested :: jstr where
  "ko_cancel_requested = [0xC2E4, 0xD589, 0x0020, 0xCDE8, 0xC18C, 0xB97C, 0x0020, 0xC694, 0xCCAD, 0xD588, 0xC2B5, 0xB2C8,
     0xB2E4, 0x002E]"

definition ko_cancel_run :: jstr where
  "ko_cancel_run = [0xC2E4, 0xD589, 0x0020, 0xCDE8, 0xC18C]"

definition ko_cancel_run_stop :: jstr where
  "ko_cancel_run_stop = [0xD83D, 0xDED1, 0x0020, 0xC2E4, 0xD589, 0x0020, 0xCDE8, 0xC18C]"

definition ko_cancel_wait :: jstr where
  "ko_cancel_wait = [0xB300, 0xAE30, 0x0020, 0xCDE8, 0xC18C]"

definition ko_cancelled_past :: jstr where
  "ko_cancelled_past = [0xCDE8, 0xC18C, 0xB428]"

definition ko_cancelling :: jstr where
  "ko_cancelling = [0xCDE8, 0xC18C, 0x0020, 0xC911]"

definition ko_caret :: jstr where
  "ko_caret = [0x25BE]"

definition ko_caret_down :: jstr where
  "ko_caret_down = [0x25BE]"

definition ko_caret_right :: jstr where
  "ko_caret_right = [0x25B8]"

definition ko_cases :: jstr where
  "ko_cases = [0xAC74]"

definition ko_chain_dashboard :: jstr where
  "ko_chain_dashboard = [0xCCB4, 0xC778, 0x0020, 0xB300, 0xC2DC, 0xBCF4, 0xB4DC]"

definition ko_chain_help1 :: jstr where
  "ko_chain_help1 = [0xAC19, 0xC740, 0x0020]"

definition ko_chain_help2 :: jstr where
  "ko_chain_help2 = [0xC758, 0x0020, 0x0072, 0x0075, 0x006E, 0xC744, 0x0020, 0xBB36, 0xC5B4, 0x0020, 0xC2DC, 0xC791,
     0x002F, 0xB9C8, 0xC9C0, 0xB9C9, 0x0020, 0xD65C, 0xB3D9, 0x002C, 0x0020, 0xCD5C, 0xB300, 0x0020,
     0x0063, 0x0068, 0x0061, 0x0069, 0x006E, 0x005F, 0x0064, 0x0065, 0x0070, 0x0074, 0x0068, 0x002C,
     0x0020, 0xB204, 0xC801, 0x0020, 0x0074, 0x006F, 0x006B, 0x0065, 0x006E, 0x002F, 0x0063, 0x006F,
     0x0073, 0x0074, 0x002C, 0x0020, 0xB9C8, 0xC9C0, 0xB9C9, 0x0020, 0xC0C1, 0xD0DC, 0xB97C, 0x0020,
     0xBCF4, 0xC5EC, 0xC90D, 0xB2C8, 0xB2E4, 0x002E, 0x0020, 0x006D, 0x0061, 0x0069, 0x006E, 0x0020,
     0x0061, 0x0067, 0x0065, 0x006E, 0x0074, 0x0020, 0xC7AC, 0xC9C4, 0xC785, 0xC740, 0x0020, 0x0064,
     0x0065, 0x0070, 0x0074, 0x0068, 0x0020, 0xCE74, 0xC6B4, 0xD2B8, 0xC5D0, 0xC11C, 0x0020, 0xC81C,
     0xC678, 0xB418, 0xBBC0, 0xB85C, 0x0020, 0x006D, 0x0061, 0x0078, 0x005F, 0x0064, 0x0065, 0x0070,
     0x0074, 0x0068, 0xAC00, 0x0020, 0xC791, 0xC544, 0xB3C4, 0x0020, 0x0068, 0x0075, 0x0062, 0x002D,
     0x0050, 0x004D, 0x0020, 0xC6CC, 0xD06C, 0xD50C, 0xB85C, 0xC6B0, 0xAC00, 0x0020, 0xB05D, 0xAE4C,
     0xC9C0, 0x0020, 0xC9C4, 0xD589, 0xB429, 0xB2C8, 0xB2E4, 0x002E]"

definition ko_chain_helper1 :: jstr where
  "ko_chain_helper1 = [0xCF1C, 0xBA74, 0x0020, 0x0061, 0x0067, 0x0065, 0x006E, 0x0074, 0x0020, 0xACB0, 0xACFC, 0x0020,
     0xB313, 0xAE00, 0xC758, 0x0020, 0xCCAB, 0x0020]"

definition ko_chain_helper2 :: jstr where
  "ko_chain_helper2 = [0xC774, 0x0020, 0xC790, 0xB3D9, 0xC73C, 0xB85C, 0x0020, 0xB2E4, 0xC74C, 0x0020, 0x0072, 0x0075,
     0x006E, 0xC73C, 0xB85C, 0x0020, 0x0064, 0x0069, 0x0073, 0x0070, 0x0061, 0x0074, 0x0063, 0x0068,
     0xB429, 0xB2C8, 0xB2E4, 0x002E, 0x0020, 0x0064, 0x0065, 0x0070, 0x0074, 0x0068, 0x002F, 0x0032,
     0x0034, 0x0068, 0x0020, 0x0072, 0x0075, 0x006E, 0x002F, 0x0032, 0x0034, 0x0068, 0x0020, 0x0063,
     0x006F, 0x0073, 0x0074, 0x002F, 0x0064, 0x0072, 0x0079, 0x002D, 0x0072, 0x0075, 0x006E, 0x002F,
     0x006D, 0x0061, 0x0069, 0x006E, 0x0020, 0x0061, 0x0067, 0x0065, 0x006E, 0x0074, 0x0020, 0xC7AC,
     0xC9C4, 0xC785, 0x0020, 0xBA74, 0xC81C, 0x0020, 0xAC00, 0xB4DC, 0xAC00, 0x0020, 0xD568, 0xAED8,
     0x0020, 0xC801, 0xC6A9, 0xB429, 0xB2C8, 0xB2E4, 0x002E, 0x0020, 0xAE30, 0xBCF8, 0xAC12, 0xC740,
     0x0020, 0xB054, 0x0020, 0x2014, 0x0020, 0x0052, 0x0046, 0x0050, 0x00B7, 0x0068, 0x0075, 0x0062,
     0x002D, 0x0050, 0x004D, 0x0020, 0xAC19, 0xC774, 0x0020, 0xD55C, 0x0020, 0xC774, 0xC288, 0xB97C,
     0x0020, 0xC5EC, 0xB7EC, 0x0020, 0x0061, 0x0067, 0x0065, 0x006E, 0x0074, 0xAC00, 0x0020, 0xC21C,
     0xCC28, 0x0020, 0xCC98, 0xB9AC, 0xD558, 0xB294, 0x0020, 0xC6CC, 0xD06C, 0xD50C, 0xB85C, 0xC6B0,
     0xC5D0, 0x0020, 0xAD8C, 0xC7A5, 0xD569, 0xB2C8, 0xB2E4, 0x002E, 0x0020, 0xC0AC, 0xD6C4, 0xC5D0,
     0x0020, 0x0053, 0x0065, 0x0074, 0x0074, 0x0069, 0x006E, 0x0067, 0x0073, 0xC5D0, 0xC11C, 0x0020,
     0xBCC0, 0xACBD, 0xD560, 0x0020, 0xC218, 0x0020, 0xC788, 0xC2B5, 0xB2C8, 0xB2E4, 0x002E]"

definition ko_chain_state :: jstr where
  "ko_chain_state = [0xCCB4, 0xC778, 0x0020, 0xC2E4, 0xD589, 0x0020, 0xD604, 0xD669]"

definition ko_chain_state_desc :: jstr where
  "ko_chain_state_desc = [0xCD5C, 0xADFC, 0x0020, 0x0035, 0x0030, 0x0030, 0xAC1C, 0x0020, 0x0072, 0x0075, 0x006E, 0x0020,
     0xAE30, 0xC900, 0x0020, 0x00B7, 0x0020, 0x0063, 0x0068, 0x0061, 0x0069, 0x006E, 0x0020, 0xCDE8,
     0xC18C, 0x002F, 0xC7AC, 0xC2DC, 0xC791, 0x0020, 0xC561, 0xC158, 0xC740, 0x0020, 0xC774, 0xC288,
     0x0020, 0xC0C1, 0xC138, 0xC640, 0x0020, 0xB3D9, 0xC77C, 0xD55C, 0x0020, 0x0041, 0x0050, 0x0049,
     0xB97C, 0x0020, 0xC0AC, 0xC6A9, 0xD569, 0xB2C8, 0xB2E4, 0x002E]"

definition ko_chain_summary :: jstr where
  "ko_chain_summary = [0xCCB4, 0xC778, 0x0020, 0xC694, 0xC57D]"

definition ko_chains_desc :: jstr where
  "ko_chains_desc = [0xC6CC, 0xD06C, 0xC2A4, 0xD398, 0xC774, 0xC2A4, 0x0020, 0xC804, 0xCCB4, 0x0020, 0x0063, 0x0068,
     0x0061, 0x0069, 0x006E, 0xC758, 0x0020, 0xC9C4, 0xD589, 0x0020, 0xC0C1, 0xD0DC, 0x002C, 0x0020,
     0x0067, 0x0075, 0x0061, 0x0072, 0x0064, 0x0020, 0xC0AC, 0xC6A9, 0xB7C9, 0x002C, 0x0020, 0xB9C8,
     0xC9C0, 0xB9C9, 0x0020, 0xD65C, 0xB3D9, 0xC744, 0x0020, 0xBCF4, 0xB4DC, 0xC640, 0x0020, 0xAC19,
     0xC740, 0x0020, 0xBC00, 0xB3C4, 0xB85C, 0x0020, 0xD655, 0xC778, 0xD569, 0xB2C8, 0xB2E4, 0x002E]"

definition ko_check :: jstr where
  "ko_check = [0x2713]"

definition ko_check_connection :: jstr where
  "ko_check_connection = [0xC5F0, 0xACB0, 0x0020, 0xD655, 0xC778, 0x0020, 0xD544, 0xC694]"

definition ko_check_token :: jstr where
  "ko_check_token = [0x0041, 0x0050, 0x0049, 0x0020, 0xC5F0, 0xACB0, 0x0020, 0xB610, 0xB294, 0x0020, 0xD1A0, 0xD070,
     0xC744, 0x0020, 0xD655, 0xC778, 0xD558, 0xC138, 0xC694, 0x002E]"

definition ko_checking :: jstr where
  "ko_checking = [0xD655, 0xC778, 0x0020, 0xC911]"

definition ko_checking_state :: jstr where
  "ko_checking_state = [0xC0C1, 0xD0DC, 0x0020, 0xD655, 0xC778, 0x0020, 0xC911]"

definition ko_chip_agent :: jstr where
  "ko_chip_agent = [0xB2F4, 0xB2F9, 0x003A, 0x0020, 0x0040]"

definition ko_chip_exec :: jstr where
  "ko_chip_exec = [0xC2E4, 0xD589, 0x003A, 0x0020]"

definition ko_chip_q :: jstr where
  "ko_chip_q = [0xAC80, 0xC0C9, 0x003A, 0x0020]"

definition ko_chip_status :: jstr where
  "ko_chip_status = [0xC0C1, 0xD0DC, 0x003A, 0x0020]"

definition ko_choose :: jstr where
  "ko_choose = [0xC120, 0xD0DD]"

definition ko_choose_ws :: jstr where
  "ko_choose_ws = [0xC6CC, 0xD06C, 0xC2A4, 0xD398, 0xC774, 0xC2A4, 0x0020, 0xC120, 0xD0DD]"

definition ko_claude_sep :: jstr where
  "ko_claude_sep = [0x0020, 0x00B7, 0x0020, 0x0063, 0x006C, 0x0061, 0x0075, 0x0064, 0x0065, 0x0020]"

definition ko_cleaned :: jstr where
  "ko_cleaned = [0xAC1C, 0x0020, 0xC815, 0xB9AC]"

definition ko_cleaning :: jstr where
  "ko_cleaning = [0xC815, 0xB9AC, 0x0020, 0xC911]"

definition ko_cleanup_desc :: jstr where
  "ko_cleanup_desc = [0xC9C0, 0xC815, 0x0020, 0xC77C, 0xC218, 0xBCF4, 0xB2E4, 0x0020, 0xC624, 0xB798, 0xB41C, 0x0020,
     0x0072, 0x0075, 0x006E, 0x0020, 0xB85C, 0xADF8, 0x0020, 0xD30C, 0xC77C, 0xC744, 0x0020, 0xC0AD,
     0xC81C, 0xD569, 0xB2C8, 0xB2E4, 0x002E, 0x0020, 0x0044, 0x0042, 0x0020, 0xC774, 0xC288, 0x002F,
     0xB313, 0xAE00, 0x0020, 0xAE30, 0xB85D, 0xC740, 0x0020, 0xC720, 0xC9C0, 0xB429, 0xB2C8, 0xB2E4,
     0x002E]"

definition ko_cleanup_done :: jstr where
  "ko_cleanup_done = [0xB85C, 0xADF8, 0x0020, 0xC815, 0xB9AC, 0x0020, 0xC644, 0xB8CC, 0x003A, 0x0020]"

definition ko_clear_filter :: jstr where
  "ko_clear_filter = [0xD544, 0xD130, 0x0020, 0xCD08, 0xAE30, 0xD654]"

definition ko_clear_token :: jstr where
  "ko_clear_token = [0xD1A0, 0xD070, 0x0020, 0xC0AD, 0xC81C]"

definition ko_clear_token_desc :: jstr where
  "ko_clear_token_desc = [0xBE0C, 0xB77C, 0xC6B0, 0xC800, 0xC5D0, 0x0020, 0xC800, 0xC7A5, 0xB41C, 0x0020, 0xD1A0, 0xD070,
     0xC744, 0x0020, 0xC81C, 0xAC70, 0xD569, 0xB2C8, 0xB2E4, 0x002E, 0x0020, 0x0074, 0x006F, 0x006B,
     0x0065, 0x006E, 0x0020, 0x006D, 0x006F, 0x0064, 0x0065, 0x0020, 0xC11C, 0xBC84, 0xC5D0, 0xC11C,
     0xB294, 0x0020, 0xB2E4, 0xC2DC, 0x0020, 0xC778, 0xC99D, 0xC774, 0x0020, 0xD544, 0xC694, 0xD569,
     0xB2C8, 0xB2E4, 0x002E]"

definition ko_close :: jstr where
  "ko_close = [0xB2EB, 0xAE30]"

definition ko_codex_sep :: jstr where
  "ko_codex_sep = [0x0020, 0x00B7, 0x0020, 0x0063, 0x006F, 0x0064, 0x0065, 0x0078, 0x0020]"

definition ko_col_empty :: jstr where
  "ko_col_empty = [0xD45C, 0xC2DC, 0xD560, 0x0020, 0xC774, 0xC288, 0xAC00, 0x0020, 0xC5C6, 0xC2B5, 0xB2C8, 0xB2E4,
     0x002E]"

definition ko_col_new :: jstr where
  "ko_col_new = [0x0020, 0xCEEC, 0xB7FC, 0xC5D0, 0xC11C, 0x0020, 0xC0C8, 0x0020, 0xC774, 0xC288]"

definition ko_col_open :: jstr where
  "ko_col_open = [0xC9C4, 0xD589]"

definition ko_command_desc :: jstr where
  "ko_command_desc = [0x0043, 0x004C, 0x0049, 0xC640, 0x0020, 0xC11C, 0xBC84, 0x0020, 0xC0C1, 0xD0DC, 0xB97C, 0x0020,
     0xD55C, 0x0020, 0xBC88, 0xC5D0, 0x0020, 0xC77D, 0xC744, 0x0020, 0xC218, 0x0020, 0xC788, 0xB294,
     0x0020, 0xC6B4, 0xC601, 0x0020, 0xD45C, 0xBA74, 0xC785, 0xB2C8, 0xB2E4, 0x002E]"

definition ko_comment_added :: jstr where
  "ko_comment_added = [0xB313, 0xAE00, 0xC744, 0x0020, 0xB4F1, 0xB85D, 0xD588, 0xC2B5, 0xB2C8, 0xB2E4, 0x002E]"

definition ko_comment_attach :: jstr where
  "ko_comment_attach = [0xB313, 0xAE00, 0x0020, 0xCCA8, 0xBD80, 0x0020, 0x00B7, 0x0020]"

definition ko_comment_failed :: jstr where
  "ko_comment_failed = [0xB313, 0xAE00, 0x0020, 0xB4F1, 0xB85D, 0x0020, 0xC2E4, 0xD328]"

definition ko_comment_thread :: jstr where
  "ko_comment_thread = [0xB313, 0xAE00, 0x0020, 0xC2A4, 0xB808, 0xB4DC]"

definition ko_comments :: jstr where
  "ko_comments = [0xB313, 0xAE00]"

definition ko_comments_sep :: jstr where
  "ko_comments_sep = [0x0020, 0x00B7, 0x0020, 0xB313, 0xAE00, 0x0020]"

definition ko_confirm :: jstr where
  "ko_confirm = [0xD655, 0xC778]"

definition ko_confirm_danger :: jstr where
  "ko_confirm_danger = [0xB418, 0xB3CC, 0xB9AC, 0xAE30, 0x0020, 0xC5B4, 0xB824, 0xC6B4, 0x0020, 0xC791, 0xC5C5, 0xC77C,
     0x0020, 0xC218, 0x0020, 0xC788, 0xC2B5, 0xB2C8, 0xB2E4, 0x002E, 0x0020, 0xB0B4, 0xC6A9, 0xC744,
     0x0020, 0xD655, 0xC778, 0xD55C, 0x0020, 0xB4A4, 0x0020, 0xC9C4, 0xD589, 0xD558, 0xC138, 0xC694,
     0x002E]"

definition ko_confirm_pending :: jstr where
  "ko_confirm_pending = [0xC694, 0xCCAD, 0xC744, 0x0020, 0xCC98, 0xB9AC, 0xD558, 0xACE0, 0x0020, 0xC788, 0xC2B5, 0xB2C8,
     0xB2E4, 0x002E]"

definition ko_confirm_plain :: jstr where
  "ko_confirm_plain = [0xACC4, 0xC18D, 0x0020, 0xC9C4, 0xD589, 0xD558, 0xC2DC, 0xACA0, 0xC2B5, 0xB2C8, 0xAE4C, 0x003F]"

definition ko_confirm_work :: jstr where
  "ko_confirm_work = [0xC791, 0xC5C5, 0x0020, 0xD655, 0xC778]"

definition ko_connected :: jstr where
  "ko_connected = [0xC5F0, 0xACB0, 0xB428]"

definition ko_console :: jstr where
  "ko_console = [0xC791, 0xC5C5, 0x0020, 0xCF58, 0xC194]"

definition ko_console_label :: jstr where
  "ko_console_label = [0xC774, 0xC288, 0x0020, 0xC791, 0xC5C5, 0x0020, 0xCF58, 0xC194]"

definition ko_cost :: jstr where
  "ko_cost = [0xBE44, 0xC6A9]"

definition ko_cost7 :: jstr where
  "ko_cost7 = [0x0037, 0xC77C, 0x0020, 0xBE44, 0xC6A9]"

definition ko_cost_limit :: jstr where
  "ko_cost_limit = [0x0032, 0x0034, 0xC2DC, 0xAC04, 0x0020, 0xC790, 0xB3D9, 0x0020, 0x0063, 0x0068, 0x0061, 0x0069,
     0x006E, 0x0020, 0xBE44, 0xC6A9, 0x0020, 0xC81C, 0xD55C, 0x0028, 0x0024, 0x002C, 0x0020, 0x0030,
     0x003D, 0xBB34, 0xC81C, 0xD55C, 0x0029]"

definition ko_cost_sp :: jstr where
  "ko_cost_sp = [0xBE44, 0xC6A9, 0x0020]"

definition ko_count_sep :: jstr where
  "ko_count_sep = [0xAC1C, 0x0020, 0x00B7, 0x0020]"

definition ko_count_slash :: jstr where
  "ko_count_slash = [0xAC1C, 0x0020, 0x002F, 0x0020]"

definition ko_count_unit :: jstr where
  "ko_count_unit = [0xAC1C]"

definition ko_cr_orphan :: jstr where
  "ko_cr_orphan = [0x006F, 0x0072, 0x0070, 0x0068, 0x0061, 0x006E, 0x0020, 0xD68C, 0xC218]"

definition ko_cr_shutdown :: jstr where
  "ko_cr_shutdown = [0xC885, 0xB8CC, 0x0020, 0xCC98, 0xB9AC]"

definition ko_cr_stale :: jstr where
  "ko_cr_stale = [0x0073, 0x0074, 0x0061, 0x006C, 0x0065, 0x0020, 0xD68C, 0xC218]"

definition ko_cr_user :: jstr where
  "ko_cr_user = [0xC0AC, 0xC6A9, 0xC790, 0x0020, 0xC694, 0xCCAD]"

definition ko_create_first :: jstr where
  "ko_create_first = [0xC6CC, 0xD06C, 0xC2A4, 0xD398, 0xC774, 0xC2A4, 0xB97C, 0x0020, 0xBA3C, 0xC800, 0x0020, 0xC0DD,
     0xC131, 0xD558, 0xC138, 0xC694, 0x002E]"

definition ko_create_issue :: jstr where
  "ko_create_issue = [0xC774, 0xC288, 0x0020, 0xC0DD, 0xC131]"

definition ko_create_issue_failed :: jstr where
  "ko_create_issue_failed = [0xC774, 0xC288, 0x0020, 0xC0DD, 0xC131, 0xC5D0, 0x0020, 0xC2E4, 0xD328, 0xD588, 0xC2B5, 0xB2C8,
     0xB2E4, 0x002E]"

definition ko_create_sub :: jstr where
  "ko_create_sub = [0xD558, 0xC704, 0x0020, 0xC774, 0xC288, 0x0020, 0xC0DD, 0xC131]"

definition ko_create_workspace :: jstr where
  "ko_create_workspace = [0xC6CC, 0xD06C, 0xC2A4, 0xD398, 0xC774, 0xC2A4, 0x0020, 0xC0DD, 0xC131]"

definition ko_create_ws_desc :: jstr where
  "ko_create_ws_desc = [0xC774, 0xC288, 0x0020, 0xBCF4, 0xB4DC, 0x002C, 0x0020, 0xC5D0, 0xC774, 0xC804, 0xD2B8, 0x002C,
     0x0020, 0xC624, 0xD1A0, 0xD30C, 0xC77C, 0xB7FF, 0xC744, 0x0020, 0xBB36, 0xB294, 0x0020, 0xB3C5,
     0xB9BD, 0x0020, 0xC791, 0xC5C5, 0x0020, 0xACF5, 0xAC04, 0xC744, 0x0020, 0xB9CC, 0xB4ED, 0xB2C8,
     0xB2E4, 0x002E]"

definition ko_create_ws_failed :: jstr where
  "ko_create_ws_failed = [0xC6CC, 0xD06C, 0xC2A4, 0xD398, 0xC774, 0xC2A4, 0x0020, 0xC0DD, 0xC131, 0xC5D0, 0x0020, 0xC2E4,
     0xD328, 0xD588, 0xC2B5, 0xB2C8, 0xB2E4, 0x002E]"

definition ko_created :: jstr where
  "ko_created = [0xC0DD, 0xC131]"

definition ko_creating :: jstr where
  "ko_creating = [0xC0DD, 0xC131, 0x0020, 0xC911]"

definition ko_cron_preset :: jstr where
  "ko_cron_preset = [0x0043, 0x0072, 0x006F, 0x006E, 0x0020, 0xD504, 0xB9AC, 0xC14B]"

definition ko_current_usage :: jstr where
  "ko_current_usage = [0xD604, 0xC7AC, 0x0020, 0xC0AC, 0xC6A9, 0xB7C9]"

definition ko_current_ws :: jstr where
  "ko_current_ws = [0xD604, 0xC7AC, 0x0020, 0xC6CC, 0xD06C, 0xC2A4, 0xD398, 0xC774, 0xC2A4]"

definition ko_custom_model :: jstr where
  "ko_custom_model = [0xC9C1, 0xC811, 0x0020, 0xC785, 0xB825, 0xD55C, 0x0020, 0xBAA8, 0xB378, 0x0020, 0x0049, 0x0044,
     0x003A, 0x0020]"

definition ko_cycle_at :: jstr where
  "ko_cycle_at = [0xD83D, 0xDD04, 0x0020, 0x0040]"

definition ko_d_cancel_run :: jstr where
  "ko_d_cancel_run = [0xC758, 0x0020, 0x0071, 0x0075, 0x0065, 0x0075, 0x0065, 0x0064, 0x002F, 0x0072, 0x0075, 0x006E,
     0x006E, 0x0069, 0x006E, 0x0067, 0x0020, 0x0072, 0x0075, 0x006E, 0xC5D0, 0x0020, 0xCDE8, 0xC18C,
     0x0020, 0xC2E0, 0xD638, 0xB97C, 0x0020, 0xBCF4, 0xB0C5, 0xB2C8, 0xB2E4, 0x002E]"

definition ko_d_done :: jstr where
  "ko_d_done = [0xC744, 0x0020, 0xC644, 0xB8CC, 0x0020, 0xC0C1, 0xD0DC, 0xB85C, 0x0020, 0xC804, 0xD658, 0xD569,
     0xB2C8, 0xB2E4, 0x002E, 0x0020, 0x0061, 0x0063, 0x0074, 0x0069, 0x0076, 0x0065, 0x0020, 0x0072,
     0x0075, 0x006E, 0xC774, 0x0020, 0xC788, 0xC73C, 0xBA74, 0x0020, 0xC11C, 0xBC84, 0xAC00, 0x0020,
     0xCC28, 0xB2E8, 0xD569, 0xB2C8, 0xB2E4, 0x002E]"

definition ko_d_rerun :: jstr where
  "ko_d_rerun = [0xC758, 0x0020, 0xC0C8, 0x0020, 0x0072, 0x0075, 0x006E, 0xC744, 0x0020, 0xD050, 0xC5D0, 0x0020,
     0xB4F1, 0xB85D, 0xD569, 0xB2C8, 0xB2E4, 0x002E]"

definition ko_daily9 :: jstr where
  "ko_daily9 = [0xB9E4, 0xC77C, 0x0020, 0xC624, 0xC804, 0x0020, 0x0039, 0xC2DC]"

definition ko_dash :: jstr where
  "ko_dash = [0x2014]"

definition ko_dashboard :: jstr where
  "ko_dashboard = [0xB300, 0xC2DC, 0xBCF4, 0xB4DC]"

definition ko_data_dir :: jstr where
  "ko_data_dir = [0xB370, 0xC774, 0xD130, 0x0020, 0xB514, 0xB809, 0xD1A0, 0xB9AC]"

definition ko_days :: jstr where
  "ko_days = [0xC77C]"

definition ko_days_ago :: jstr where
  "ko_days_ago = [0xC77C, 0x0020, 0xC804]"

definition ko_days_over :: jstr where
  "ko_days_over = [0xC77C, 0x0020, 0xCD08, 0xACFC, 0x0020, 0x0072, 0x0075, 0x006E, 0x0020, 0xB85C, 0xADF8, 0x0020,
     0xC790, 0xB3D9, 0x0020, 0xC0AD, 0xC81C]"

definition ko_db_backup :: jstr where
  "ko_db_backup = [0x0044, 0x0042, 0x0020, 0xBC31, 0xC5C5]"

definition ko_default_error :: jstr where
  "ko_default_error = [0xC694, 0xCCAD, 0x0020, 0xCC98, 0xB9AC, 0x0020, 0xC911, 0x0020, 0xC624, 0xB958, 0xAC00, 0x0020,
     0xBC1C, 0xC0DD, 0xD588, 0xC2B5, 0xB2C8, 0xB2E4, 0x002E]"

definition ko_default_instructions :: jstr where
  "ko_default_instructions = [0xC791, 0xC5C5, 0xC744, 0x0020, 0xC218, 0xD589, 0xD558, 0xACE0, 0x0020, 0xACB0, 0xACFC, 0xB97C,
     0x0020, 0xD55C, 0xAD6D, 0xC5B4, 0x0020, 0x006D, 0x0061, 0x0072, 0x006B, 0x0064, 0x006F, 0x0077,
     0x006E, 0xC73C, 0xB85C, 0x0020, 0xC694, 0xC57D, 0xD558, 0xC138, 0xC694, 0x002E]"

definition ko_default_timeout :: jstr where
  "ko_default_timeout = [0xAE30, 0xBCF8, 0x0020, 0x0074, 0x0069, 0x006D, 0x0065, 0x006F, 0x0075, 0x0074, 0x0020, 0x0028,
     0xCD08, 0x0029]"

definition ko_default_value :: jstr where
  "ko_default_value = [0xAE30, 0xBCF8, 0xAC12]"

definition ko_delete :: jstr where
  "ko_delete = [0xC0AD, 0xC81C]"

definition ko_delete_q :: jstr where
  "ko_delete_q = [0xC744, 0x0028, 0xB97C, 0x0029, 0x0020, 0xC0AD, 0xC81C, 0xD560, 0xAE4C, 0xC694, 0x003F]"

definition ko_deleted_sep :: jstr where
  "ko_deleted_sep = [0xAC1C, 0x0020, 0xC0AD, 0xC81C, 0x002C, 0x0020]"

definition ko_depth_eq :: jstr where
  "ko_depth_eq = [0x0020, 0x00B7, 0x0020, 0x0064, 0x003D]"

definition ko_desc_cancel :: jstr where
  "ko_desc_cancel = [0xC744, 0x0020, 0xCDE8, 0xC18C, 0x0020, 0xC0C1, 0xD0DC, 0xB85C, 0x0020, 0xB2EB, 0xC2B5, 0xB2C8,
     0xB2E4, 0x002E, 0x0020, 0x0071, 0x0075, 0x0065, 0x0075, 0x0065, 0x0064, 0x0020, 0x0072, 0x0075,
     0x006E, 0xC740, 0x0020, 0xD568, 0xAED8, 0x0020, 0xCDE8, 0xC18C, 0xB429, 0xB2C8, 0xB2E4, 0x002E]"

definition ko_desc_cancel_run :: jstr where
  "ko_desc_cancel_run = [0xC758, 0x0020, 0x0061, 0x0063, 0x0074, 0x0069, 0x0076, 0x0065, 0x0020, 0x0072, 0x0075, 0x006E,
     0xC744, 0x0020, 0xCDE8, 0xC18C, 0xD569, 0xB2C8, 0xB2E4, 0x002E, 0x0020, 0xC774, 0xC288, 0x0020,
     0xC790, 0xCCB4, 0xB294, 0x0020, 0x006F, 0x0070, 0x0065, 0x006E, 0x0020, 0xC0C1, 0xD0DC, 0xB85C,
     0x0020, 0xC720, 0xC9C0, 0xB429, 0xB2C8, 0xB2E4, 0x002E]"

definition ko_desc_done :: jstr where
  "ko_desc_done = [0xC744, 0x0020, 0xC644, 0xB8CC, 0x0020, 0xC0C1, 0xD0DC, 0xB85C, 0x0020, 0xC804, 0xD658, 0xD569,
     0xB2C8, 0xB2E4, 0x002E, 0x0020, 0xC11C, 0xBC84, 0xB294, 0x0020, 0x0071, 0x0075, 0x0065, 0x0075,
     0x0065, 0x0064, 0x002F, 0x0072, 0x0075, 0x006E, 0x006E, 0x0069, 0x006E, 0x0067, 0x0020, 0x0072,
     0x0075, 0x006E, 0xC774, 0x0020, 0xC788, 0xC73C, 0xBA74, 0x0020, 0xC694, 0xCCAD, 0xC744, 0x0020,
     0xCC28, 0xB2E8, 0xD569, 0xB2C8, 0xB2E4, 0x002E]"

definition ko_desc_reopen :: jstr where
  "ko_desc_reopen = [0xC744, 0x0020, 0x006F, 0x0070, 0x0065, 0x006E, 0x0020, 0xC0C1, 0xD0DC, 0xB85C, 0x0020, 0xB418,
     0xB3CC, 0xB9BD, 0xB2C8, 0xB2E4, 0x002E]"

definition ko_description :: jstr where
  "ko_description = [0xC124, 0xBA85]"

definition ko_detail_desc :: jstr where
  "ko_detail_desc = [0xC2E4, 0xD589, 0x0020, 0xB85C, 0xADF8, 0x002C, 0x0020, 0xB313, 0xAE00, 0x002C, 0x0020, 0xBA58,
     0xC158, 0x0020, 0xC704, 0xC784, 0x0020, 0xD750, 0xB984, 0xC744, 0x0020, 0xC548, 0xC804, 0xD55C,
     0x0020, 0xD14D, 0xC2A4, 0xD2B8, 0x0020, 0xB80C, 0xB354, 0xB9C1, 0xC73C, 0xB85C, 0x0020, 0xD45C,
     0xC2DC, 0xD569, 0xB2C8, 0xB2E4, 0x002E]"

definition ko_dirs_cleaned :: jstr where
  "ko_dirs_cleaned = [0xAC1C, 0x0020, 0xB514, 0xB809, 0xD130, 0xB9AC, 0x0020, 0xC815, 0xB9AC]"

definition ko_dirs_sep :: jstr where
  "ko_dirs_sep = [0xAC1C, 0x0020, 0xB514, 0xB809, 0xD130, 0xB9AC, 0x0020, 0x00B7, 0x0020]"

definition ko_disabled_ko :: jstr where
  "ko_disabled_ko = [0xBE44, 0xD65C, 0xC131]"

definition ko_done_suffix :: jstr where
  "ko_done_suffix = [0x0020, 0xC644, 0xB8CC]"

definition ko_dot_agents :: jstr where
  "ko_dot_agents = [0x0020, 0x00B7, 0x0020, 0x0061, 0x0067, 0x0065, 0x006E, 0x0074, 0x0073, 0x0020]"

definition ko_dot_at :: jstr where
  "ko_dot_at = [0x0020, 0x00B7, 0x0020, 0x0040]"

definition ko_dot_open :: jstr where
  "ko_dot_open = [0x0020, 0x00B7, 0x0020, 0x006F, 0x0070, 0x0065, 0x006E, 0x0020]"

definition ko_dry_run :: jstr where
  "ko_dry_run = [0x0064, 0x0072, 0x0079, 0x002D, 0x0072, 0x0075, 0x006E, 0x003A, 0x0020, 0xAC10, 0xC9C0, 0xD558,
     0xB418, 0x0020, 0xC2E4, 0xD589, 0x0020, 0xB4F1, 0xB85D, 0x0020, 0xC548, 0x0020, 0xD568]"

definition ko_edit :: jstr where
  "ko_edit = [0xD3B8, 0xC9D1]"

definition ko_elapsed :: jstr where
  "ko_elapsed = [0xACBD, 0xACFC]"

definition ko_ellipsis :: jstr where
  "ko_ellipsis = [0x2026]"

definition ko_envelope :: jstr where
  "ko_envelope = [0xD83D, 0xDCE8]"

definition ko_error :: jstr where
  "ko_error = [0xC624, 0xB958]"

definition ko_ev_cancel_requested :: jstr where
  "ko_ev_cancel_requested = [0xCDE8, 0xC18C, 0x0020, 0xC694, 0xCCAD]"

definition ko_ev_cancelled :: jstr where
  "ko_ev_cancelled = [0xCDE8, 0xC18C, 0x0020, 0xC644, 0xB8CC]"

definition ko_ev_claimed :: jstr where
  "ko_ev_claimed = [0xC6CC, 0xCEE4, 0x0020, 0xD560, 0xB2F9]"

definition ko_ev_completed :: jstr where
  "ko_ev_completed = [0xC644, 0xB8CC]"

definition ko_ev_failed :: jstr where
  "ko_ev_failed = [0xC2E4, 0xD328]"

definition ko_ev_orphan :: jstr where
  "ko_ev_orphan = [0x006F, 0x0072, 0x0070, 0x0068, 0x0061, 0x006E, 0x0020, 0xBCF5, 0xAD6C]"

definition ko_ev_prepare_failed :: jstr where
  "ko_ev_prepare_failed = [0xC900, 0xBE44, 0x0020, 0xC2E4, 0xD328]"

definition ko_ev_queued :: jstr where
  "ko_ev_queued = [0xD050, 0x0020, 0xB4F1, 0xB85D]"

definition ko_ev_stale :: jstr where
  "ko_ev_stale = [0x0073, 0x0074, 0x0061, 0x006C, 0x0065, 0x0020, 0xBCF5, 0xAD6C]"

definition ko_ev_starting :: jstr where
  "ko_ev_starting = [0xC2E4, 0xD589, 0x0020, 0xC2DC, 0xC791]"

definition ko_ev_truncated :: jstr where
  "ko_ev_truncated = [0x0073, 0x0074, 0x0064, 0x006F, 0x0075, 0x0074, 0x0020, 0xC808, 0xB2E8]"

definition ko_events_failed :: jstr where
  "ko_events_failed = [0xC774, 0xBCA4, 0xD2B8, 0x0020, 0xB85C, 0xB4DC, 0x0020, 0xC2E4, 0xD328]"

definition ko_events_label :: jstr where
  "ko_events_label = [0xC774, 0xBCA4, 0xD2B8, 0x0020, 0x0028, 0xBE44, 0xC6B0, 0xBA74, 0x0020, 0xC804, 0xCCB4, 0x0029]"

definition ko_exceeded :: jstr where
  "ko_exceeded = [0xCD08, 0xACFC]"

definition ko_exec_all :: jstr where
  "ko_exec_all = [0xC2E4, 0xD589, 0x0020, 0xC804, 0xCCB4]"

definition ko_exec_filter :: jstr where
  "ko_exec_filter = [0xC2E4, 0xD589, 0x0020, 0xC0C1, 0xD0DC, 0x0020, 0xD544, 0xD130]"

definition ko_exec_status :: jstr where
  "ko_exec_status = [0xC2E4, 0xD589, 0x0020, 0xC0C1, 0xD0DC]"

definition ko_extra_agent :: jstr where
  "ko_extra_agent = [0xCD94, 0xAC00, 0x0020, 0xC5D0, 0xC774, 0xC804, 0xD2B8]"

definition ko_eyebrow_ws :: jstr where
  "ko_eyebrow_ws = [0xC6CC, 0xD06C, 0xC2A4, 0xD398, 0xC774, 0xC2A4, 0x0020, 0x002F, 0x0020]"

definition ko_failed_sep :: jstr where
  "ko_failed_sep = [0x0020, 0x00B7, 0x0020, 0xC2E4, 0xD328, 0x0020]"

definition ko_failed_sp :: jstr where
  "ko_failed_sp = [0xC2E4, 0xD328, 0x0020]"

definition ko_failed_sp2 :: jstr where
  "ko_failed_sp2 = [0xC2E4, 0xD328, 0x0020]"

definition ko_failure_link :: jstr where
  "ko_failure_link = [0x25B8, 0x0020, 0xC774, 0xBCA4, 0xD2B8, 0x0020, 0xD0C0, 0xC784, 0xB77C, 0xC778, 0xC5D0, 0xC11C,
     0x0020, 0xC0C1, 0xC138, 0x0020, 0xBCF4, 0xAE30]"

definition ko_failure_list :: jstr where
  "ko_failure_list = [0xC2E4, 0xD328, 0xD55C, 0x0020, 0xB2E8, 0xACC4, 0x0020, 0xC0C1, 0xC138]"

definition ko_fallback_note :: jstr where
  "ko_fallback_note = [0xC2E4, 0xC2DC, 0xAC04, 0x0020, 0xC5C5, 0xB370, 0xC774, 0xD2B8, 0x0020, 0xC5F0, 0xACB0, 0xC774,
     0x0020, 0xBD88, 0xC548, 0xC815, 0xD574, 0x0020, 0x0033, 0xCD08, 0xB9C8, 0xB2E4, 0x0020, 0xC790,
     0xB3D9, 0x0020, 0xC0C8, 0xB85C, 0xACE0, 0xCE68, 0xC73C, 0xB85C, 0x0020, 0xC804, 0xD658, 0xD588,
     0xC2B5, 0xB2C8, 0xB2E4, 0x002E, 0x0020, 0xC5F0, 0xACB0, 0xC774, 0x0020, 0xBCF5, 0xAD6C, 0xB418,
     0xBA74, 0x0020, 0xB2E4, 0xC2DC, 0x0020, 0xC2E4, 0xC2DC, 0xAC04, 0xC73C, 0xB85C, 0x0020, 0xBC18,
     0xC601, 0xB429, 0xB2C8, 0xB2E4, 0x002E]"

definition ko_files_after :: jstr where
  "ko_files_after = [0xAC1C, 0x0020, 0xD30C, 0xC77C, 0xC744, 0x0020, 0xB313, 0xAE00, 0x0020, 0xB4F1, 0xB85D, 0x0020,
     0xD6C4, 0x0020, 0xD568, 0xAED8, 0x0020, 0xC5C5, 0xB85C, 0xB4DC, 0xD569, 0xB2C8, 0xB2E4, 0x002E]"

definition ko_first_issue :: jstr where
  "ko_first_issue = [0xC0C8, 0x0020, 0xC774, 0xC288, 0x0020, 0xBC84, 0xD2BC, 0xC73C, 0xB85C, 0x0020, 0xCCAB, 0x0020,
     0xC791, 0xC5C5, 0xC744, 0x0020, 0xC0DD, 0xC131, 0xD558, 0xC138, 0xC694, 0x002E]"

definition ko_first_issue_here :: jstr where
  "ko_first_issue_here = [0xBCF4, 0xB4DC, 0xC5D0, 0xC11C, 0x0020, 0xCCAB, 0x0020, 0xC774, 0xC288, 0xB97C, 0x0020, 0xB9CC,
     0xB4E4, 0xBA74, 0x0020, 0xC5EC, 0xAE30, 0xC5D0, 0x0020, 0xD45C, 0xC2DC, 0xB429, 0xB2C8, 0xB2E4,
     0x002E]"

definition ko_flow_graph :: jstr where
  "ko_flow_graph = [0xD750, 0xB984, 0x0020, 0xADF8, 0xB798, 0xD504]"

definition ko_fold :: jstr where
  "ko_fold = [0xC811, 0xAE30]"

definition ko_full_log :: jstr where
  "ko_full_log = [0xC804, 0xCCB4, 0x0020, 0xB85C, 0xADF8, 0x0020, 0xBCF4, 0xAE30]"

definition ko_gc_off :: jstr where
  "ko_gc_off = [0x004F, 0x0046, 0x0046, 0x0020, 0x00B7, 0x0020, 0xC0AD, 0xC81C, 0x0020, 0xC5C6, 0xC774, 0x0020,
     0xC0AC, 0xC6A9, 0xB7C9, 0xB9CC, 0x0020, 0xCE21, 0xC815]"

definition ko_gc_off2 :: jstr where
  "ko_gc_off2 = [0x004F, 0x0046, 0x0046, 0x0020, 0x00B7, 0x0020, 0xC0AC, 0xC6A9, 0xB7C9, 0x0020, 0xCE21, 0xC815,
     0xB9CC, 0x0020, 0xC218, 0xD589]"

definition ko_gc_on :: jstr where
  "ko_gc_on = [0x0020, 0xC774, 0xC0C1, 0x0020, 0xBBF8, 0xC0AC, 0xC6A9, 0x0020, 0x0074, 0x0065, 0x0072, 0x006D,
     0x0069, 0x006E, 0x0061, 0x006C, 0x002F, 0x006F, 0x0072, 0x0070, 0x0068, 0x0061, 0x006E, 0x0020,
     0xB514, 0xB809, 0xD130, 0xB9AC, 0x0020, 0xC815, 0xB9AC]"

definition ko_gc_policy :: jstr where
  "ko_gc_policy = [0x0047, 0x0043, 0x0020, 0xC815, 0xCC45]"

definition ko_gemini_sep :: jstr where
  "ko_gemini_sep = [0x0020, 0x00B7, 0x0020, 0x0067, 0x0065, 0x006D, 0x0069, 0x006E, 0x0069, 0x0020]"

definition ko_global :: jstr where
  "ko_global = [0xC804, 0xC5ED]"

definition ko_go_home :: jstr where
  "ko_go_home = [0xD648, 0xC73C, 0xB85C, 0x0020, 0xC774, 0xB3D9]"

definition ko_graph_empty :: jstr where
  "ko_graph_empty = [0xC544, 0xC9C1, 0x0020, 0xADF8, 0xB798, 0xD504, 0xB85C, 0x0020, 0xD45C, 0xC2DC, 0xD560, 0x0020,
     0xD558, 0xC704, 0x0020, 0xC774, 0xC288, 0xB098, 0x0020, 0x0072, 0x0075, 0x006E, 0x0020, 0x0063,
     0x0068, 0x0061, 0x0069, 0x006E, 0xC774, 0x0020, 0xC5C6, 0xC2B5, 0xB2C8, 0xB2E4, 0x002E]"

definition ko_graph_label :: jstr where
  "ko_graph_label = [0xC774, 0xC288, 0x0020, 0xD750, 0xB984, 0x0020, 0xADF8, 0xB798, 0xD504]"

definition ko_graph_loading :: jstr where
  "ko_graph_loading = [0xADF8, 0xB798, 0xD504, 0xB97C, 0x0020, 0xBD88, 0xB7EC, 0xC624, 0xB294, 0x0020, 0xC911, 0xC785,
     0xB2C8, 0xB2E4, 0x002E]"

definition ko_h_agent :: jstr where
  "ko_h_agent = [0xB2F4, 0xB2F9]"

definition ko_h_comments :: jstr where
  "ko_h_comments = [0xB313, 0xAE00]"

definition ko_h_exec :: jstr where
  "ko_h_exec = [0xC2E4, 0xD589]"

definition ko_h_issue :: jstr where
  "ko_h_issue = [0xC774, 0xC288]"

definition ko_h_status :: jstr where
  "ko_h_status = [0xC0C1, 0xD0DC]"

definition ko_hero_about :: jstr where
  "ko_hero_about = [0x0043, 0x0072, 0x006F, 0x006E, 0x0020, 0x0041, 0x0067, 0x0065, 0x006E, 0x0074, 0x0020, 0x0044,
     0x0061, 0x0073, 0x0068, 0x0062, 0x006F, 0x0061, 0x0072, 0x0064, 0xB294, 0x0020, 0xB85C, 0xCEEC,
     0x0020, 0xC791, 0xC5C5, 0x002C, 0x0020, 0xB7F0, 0xD0C0, 0xC784, 0x002C, 0x0020, 0xC624, 0xD1A0,
     0xD30C, 0xC77C, 0xB7FF, 0xC744, 0x0020, 0xD558, 0xB098, 0xC758, 0x0020, 0xB370, 0xBAA8, 0xD615,
     0x0020, 0xB300, 0xC2DC, 0xBCF4, 0xB4DC, 0xB85C, 0x0020, 0xBB36, 0xC5B4, 0x0020, 0xBCF4, 0xC5EC,
     0xC90D, 0xB2C8, 0xB2E4, 0x002E]"

definition ko_hero_observe :: jstr where
  "ko_hero_observe = [0xAC1C, 0xB97C, 0x0020, 0xC5F0, 0xACB0, 0xD574, 0x0020, 0xC791, 0xC5C5, 0x0020, 0xD750, 0xB984,
     0xC744, 0x0020, 0xAD00, 0xCE21, 0xD569, 0xB2C8, 0xB2E4, 0x002E]"

definition ko_hero_start :: jstr where
  "ko_hero_start = [0xC0C8, 0x0020, 0xC6CC, 0xD06C, 0xC2A4, 0xD398, 0xC774, 0xC2A4, 0xB85C, 0x0020, 0x004D, 0x0043,
     0x0050, 0x0020, 0xBCF4, 0xB4DC, 0xB97C, 0x0020, 0xC2DC, 0xC791, 0xD558, 0xC138, 0xC694]"

definition ko_hint_close1 :: jstr where
  "ko_hint_close1 = [0xC815, 0xC2DD, 0x0020, 0xB9C8, 0xAC10, 0xD558, 0xBA74, 0x0020, 0xBCF4, 0xB4DC, 0xC758, 0x0020]"

definition ko_hint_close2 :: jstr where
  "ko_hint_close2 = [0x0020, 0xCEEC, 0xB7FC, 0xC73C, 0xB85C, 0x0020, 0xC774, 0xB3D9, 0xD558, 0xACE0, 0x002C, 0x0020,
     0xC774, 0x0020, 0xC6CC, 0xD06C, 0xC2A4, 0xD398, 0xC774, 0xC2A4, 0xC758, 0x0020, 0xD6C4, 0xC18D,
     0x0020, 0xC791, 0xC5C5, 0xC774, 0x0020, 0xBCC4, 0xB3C4, 0x0020, 0xC774, 0xC288, 0xB85C, 0x0020,
     0xC2DC, 0xC791, 0xB429, 0xB2C8, 0xB2E4, 0x002E]"

definition ko_hint_code :: jstr where
  "ko_hint_code = [0x0040, 0x0041, 0x0067, 0x0065, 0x006E, 0x0074, 0x004E, 0x0061, 0x006D, 0x0065, 0x0020, 0xCD94,
     0xAC00, 0x0020, 0xC694, 0xCCAD, 0x0020, 0xB0B4, 0xC6A9]"

definition ko_hint_more1 :: jstr where
  "ko_hint_more1 = [0xCD94, 0xAC00, 0x0020, 0xBCF4, 0xAC15, 0xC774, 0x0020, 0xD544, 0xC694, 0xD558, 0xBA74, 0x0020,
     0xC544, 0xB798, 0x0020, 0xB313, 0xAE00, 0x0020, 0xD3FC, 0xC5D0, 0x0020]"

definition ko_hint_more2 :: jstr where
  "ko_hint_more2 = [0x0020, 0xD615, 0xC2DD, 0xC73C, 0xB85C, 0x0020, 0xBA58, 0xC158, 0xD574, 0x0020, 0xC0C8, 0x0020,
     0xB2E8, 0xACC4, 0xB97C, 0x0020, 0xCD94, 0xAC00, 0xD558, 0xC138, 0xC694, 0x002E]"

definition ko_home_desc :: jstr where
  "ko_home_desc = [0xC6CC, 0xD06C, 0xC2A4, 0xD398, 0xC774, 0xC2A4, 0x002C, 0x0020, 0x004D, 0x0043, 0x0050, 0x0020,
     0xC11C, 0xBC84, 0x0020, 0xC0C1, 0xD0DC, 0x002C, 0x0020, 0x0061, 0x0067, 0x0065, 0x006E, 0x0074,
     0x0020, 0xC2E4, 0xD589, 0x0020, 0xD750, 0xB984, 0xC744, 0x0020, 0xD55C, 0x0020, 0xD654, 0xBA74,
     0xC5D0, 0xC11C, 0x0020, 0xC810, 0xAC80, 0xD569, 0xB2C8, 0xB2E4, 0x002E]"

definition ko_home_title :: jstr where
  "ko_home_title = [0xC6B4, 0xC601, 0x0020, 0xD604, 0xD669]"

definition ko_hour_sp :: jstr where
  "ko_hour_sp = [0xC2DC, 0xAC04, 0x0020]"

definition ko_hourglass_waiting :: jstr where
  "ko_hourglass_waiting = [0x23F3, 0x0020, 0xB300, 0xAE30, 0x0020, 0xC911]"

definition ko_hours :: jstr where
  "ko_hours = [0xC2DC, 0xAC04]"

definition ko_hours_ago :: jstr where
  "ko_hours_ago = [0xC2DC, 0xAC04, 0x0020, 0xC804]"

definition ko_hub_suffix :: jstr where
  "ko_hub_suffix = [0x0020, 0x00B7, 0x0020, 0x0068, 0x0075, 0x0062]"

definition ko_ic_cancelled :: jstr where
  "ko_ic_cancelled = [0xD83D, 0xDED1]"

definition ko_ic_done :: jstr where
  "ko_ic_done = [0x2705]"

definition ko_ic_failed :: jstr where
  "ko_ic_failed = [0x274C]"

definition ko_ic_queued :: jstr where
  "ko_ic_queued = [0x23F8]"

definition ko_ic_retrying :: jstr where
  "ko_ic_retrying = [0x23F0]"

definition ko_ic_running :: jstr where
  "ko_ic_running = [0xD83D, 0xDD04]"

definition ko_instr_v :: jstr where
  "ko_instr_v = [0x0020, 0x00B7, 0x0020, 0x0069, 0x006E, 0x0073, 0x0074, 0x0072, 0x0075, 0x0063, 0x0074, 0x0069,
     0x006F, 0x006E, 0x0073, 0x0020, 0x0076]"

definition ko_instructions :: jstr where
  "ko_instructions = [0xC9C0, 0xC2DC, 0xBB38]"

definition ko_issue_detail :: jstr where
  "ko_issue_detail = [0xC774, 0xC288, 0x0020, 0xC0C1, 0xC138]"

definition ko_issue_load_failed :: jstr where
  "ko_issue_load_failed = [0xC774, 0xC288, 0x0020, 0xB85C, 0xB4DC, 0x0020, 0xC2E4, 0xD328]"

definition ko_issue_prefix :: jstr where
  "ko_issue_prefix = [0xC774, 0xC288, 0x0020, 0x0050, 0x0072, 0x0065, 0x0066, 0x0069, 0x0078]"

definition ko_issue_status :: jstr where
  "ko_issue_status = [0xC774, 0xC288, 0x0020, 0xC0C1, 0xD0DC]"

definition ko_issues_failed :: jstr where
  "ko_issues_failed = [0xC774, 0xC288, 0x0020, 0xBAA9, 0xB85D, 0xC744, 0x0020, 0xBD88, 0xB7EC, 0xC624, 0xC9C0, 0x0020,
     0xBABB, 0xD588, 0xC2B5, 0xB2C8, 0xB2E4, 0x002E]"

definition ko_issues_loading :: jstr where
  "ko_issues_loading = [0xC774, 0xC288, 0xB97C, 0x0020, 0xBD88, 0xB7EC, 0xC624, 0xB294, 0x0020, 0xC911]"

definition ko_keep_days :: jstr where
  "ko_keep_days = [0xBCF4, 0xC874, 0x0020, 0xC77C, 0xC218]"

definition ko_keep_suffix :: jstr where
  "ko_keep_suffix = [0xAC1C, 0x0020, 0xBCF4, 0xC874]"

definition ko_last30 :: jstr where
  "ko_last30 = [0xCD5C, 0xADFC, 0x0020, 0x0033, 0x0030, 0xC77C]"

definition ko_last7 :: jstr where
  "ko_last7 = [0xCD5C, 0xADFC, 0x0020, 0x0037, 0xC77C]"

definition ko_last_activity :: jstr where
  "ko_last_activity = [0xB9C8, 0xC9C0, 0xB9C9, 0x0020, 0xD65C, 0xB3D9]"

definition ko_last_cleanup :: jstr where
  "ko_last_cleanup = [0xB9C8, 0xC9C0, 0xB9C9, 0x0020, 0xB85C, 0xADF8, 0x0020, 0xC815, 0xB9AC]"

definition ko_last_error :: jstr where
  "ko_last_error = [0xB9C8, 0xC9C0, 0xB9C9, 0x0020, 0xC624, 0xB958, 0x003A, 0x0020]"

definition ko_last_gc :: jstr where
  "ko_last_gc = [0x0020, 0x00B7, 0x0020, 0xC9C1, 0xC804, 0x0020, 0x0047, 0x0043, 0x0020]"

definition ko_last_gc_result :: jstr where
  "ko_last_gc_result = [0xC9C1, 0xC804, 0x0020, 0x0047, 0x0043, 0x0020, 0xACB0, 0xACFC]"

definition ko_last_issue :: jstr where
  "ko_last_issue = [0xB9C8, 0xC9C0, 0xB9C9, 0x0020, 0xC774, 0xC288]"

definition ko_last_measured :: jstr where
  "ko_last_measured = [0xB9C8, 0xC9C0, 0xB9C9, 0x0020, 0xCE21, 0xC815]"

definition ko_last_stage :: jstr where
  "ko_last_stage = [0xB9C8, 0xC9C0, 0xB9C9, 0x0020, 0xB2E8, 0xACC4, 0x0020]"

definition ko_latest_problem_label :: jstr where
  "ko_latest_problem_label = [0xCD5C, 0xADFC, 0x0020, 0xBB38, 0xC81C]"

definition ko_latest_run :: jstr where
  "ko_latest_run = [0xCD5C, 0xADFC, 0x0020, 0xC2E4, 0xD589]"

definition ko_ldquo :: jstr where
  "ko_ldquo = [0x201C]"

definition ko_legend1 :: jstr where
  "ko_legend1 = [0x0072, 0x0075, 0x006E, 0x0020, 0xB178, 0xB4DC, 0xC758, 0x0020]"

definition ko_legend2 :: jstr where
  "ko_legend2 = [0xC740, 0x0020]"

definition ko_legend3 :: jstr where
  "ko_legend3 = [0xC785, 0xB2C8, 0xB2E4, 0x002E, 0x0020, 0x006D, 0x0061, 0x0069, 0x006E, 0x0020, 0x0061, 0x0067,
     0x0065, 0x006E, 0x0074, 0x0020, 0xC7AC, 0xC9C4, 0xC785, 0xC740, 0x0020, 0x0064, 0x0065, 0x0070,
     0x0074, 0x0068, 0xB97C, 0x0020, 0xC99D, 0xAC00, 0xC2DC, 0xD0A4, 0xC9C0, 0x0020, 0xC54A, 0xC73C,
     0xBA70, 0x0020]"

definition ko_legend4 :: jstr where
  "ko_legend4 = [0x0020, 0xAC00, 0xB4DC, 0xC5D0, 0xC11C, 0xB3C4, 0x0020, 0xC81C, 0xC678, 0xB429, 0xB2C8, 0xB2E4,
     0x002E]"

definition ko_list_checking :: jstr where
  "ko_list_checking = [0xBAA9, 0xB85D, 0x0020, 0xD655, 0xC778, 0x0020, 0xC911]"

definition ko_live :: jstr where
  "ko_live = [0xD83D, 0xDD04, 0x0020, 0x004C, 0x0049, 0x0056, 0x0045]"

definition ko_live_log :: jstr where
  "ko_live_log = [0xB77C, 0xC774, 0xBE0C, 0x0020, 0xB85C, 0xADF8]"

definition ko_loading_dots :: jstr where
  "ko_loading_dots = [0xBD88, 0xB7EC, 0xC624, 0xB294, 0x0020, 0xC911, 0x2026]"

definition ko_loading_plain :: jstr where
  "ko_loading_plain = [0xBD88, 0xB7EC, 0xC624, 0xB294, 0x0020, 0xC911]"

definition ko_log_clean :: jstr where
  "ko_log_clean = [0xB85C, 0xADF8, 0x0020, 0xC815, 0xB9AC]"

definition ko_log_cleanup :: jstr where
  "ko_log_cleanup = [0x0052, 0x0075, 0x006E, 0x0020, 0xB85C, 0xADF8, 0x0020, 0xC815, 0xB9AC]"

definition ko_log_sp :: jstr where
  "ko_log_sp = [0xB85C, 0xADF8, 0x0020]"

definition ko_main_actions :: jstr where
  "ko_main_actions = [0xC8FC, 0xC694, 0x0020, 0xC791, 0xC5C5]"

definition ko_main_agent :: jstr where
  "ko_main_agent = [0xBA54, 0xC778, 0x0020, 0xC5D0, 0xC774, 0xC804, 0xD2B8]"

definition ko_main_agent_name :: jstr where
  "ko_main_agent_name = [0xBA54, 0xC778, 0x0020, 0xC5D0, 0xC774, 0xC804, 0xD2B8, 0x0020, 0xC774, 0xB984]"

definition ko_main_menu :: jstr where
  "ko_main_menu = [0xC8FC, 0xC694, 0x0020, 0xBA54, 0xB274]"

definition ko_main_sep :: jstr where
  "ko_main_sep = [0x0020, 0x00B7, 0x0020, 0x006D, 0x0061, 0x0069, 0x006E, 0x0020]"

definition ko_mark_done :: jstr where
  "ko_mark_done = [0xC644, 0xB8CC, 0x0020, 0xCC98, 0xB9AC]"

definition ko_mark_done_icon :: jstr where
  "ko_mark_done_icon = [0x2705, 0x0020, 0xC644, 0xB8CC, 0x0020, 0xCC98, 0xB9AC]"

definition ko_mask_label :: jstr where
  "ko_mask_label = [0x0070, 0x0061, 0x0079, 0x006C, 0x006F, 0x0061, 0x0064, 0xC5D0, 0xC11C, 0x0020, 0xC774, 0xBA54,
     0xC77C, 0x002F, 0xC804, 0xD654, 0x0020, 0x0050, 0x0049, 0x0049, 0x0020, 0xB9C8, 0xC2A4, 0xD0B9]"

definition ko_max_depth :: jstr where
  "ko_max_depth = [0xCD5C, 0xB300, 0x0020, 0x0063, 0x0068, 0x0061, 0x0069, 0x006E, 0x0020, 0x0064, 0x0065, 0x0070,
     0x0074, 0x0068]"

definition ko_max_retry :: jstr where
  "ko_max_retry = [0xCD5C, 0xB300, 0x0020, 0xC7AC, 0xC2DC, 0xB3C4, 0x0020, 0xD69F, 0xC218]"

definition ko_max_size1 :: jstr where
  "ko_max_size1 = [0xD30C, 0xC77C, 0xC740, 0x0020, 0xCD5C, 0xB300, 0x0020]"

definition ko_max_size2 :: jstr where
  "ko_max_size2 = [0xAE4C, 0xC9C0, 0x0020, 0xC5C5, 0xB85C, 0xB4DC, 0xD560, 0x0020, 0xC218, 0x0020, 0xC788, 0xC2B5,
     0xB2C8, 0xB2E4, 0x002E]"

definition ko_measured_none :: jstr where
  "ko_measured_none = [0x0020, 0x00B7, 0x0020, 0xCE21, 0xC815, 0xB41C, 0x0020, 0x0072, 0x0075, 0x006E, 0x0020, 0xC5C6,
     0xC74C]"

definition ko_measured_run :: jstr where
  "ko_measured_run = [0xCE21, 0xC815, 0x0020, 0x0072, 0x0075, 0x006E, 0x0020]"

definition ko_measured_sep :: jstr where
  "ko_measured_sep = [0x0020, 0x00B7, 0x0020, 0xCE21, 0xC815, 0x0020, 0x0072, 0x0075, 0x006E, 0x0020]"

definition ko_mention_candidates :: jstr where
  "ko_mention_candidates = [0xC5D0, 0xC774, 0xC804, 0xD2B8, 0x0020, 0xBA58, 0xC158, 0x0020, 0xD6C4, 0xBCF4]"

definition ko_mention_hint :: jstr where
  "ko_mention_hint = [0x0040, 0x0020, 0xC785, 0xB825, 0x0020, 0xD6C4, 0x0020, 0xC5D0, 0xC774, 0xC804, 0xD2B8, 0x0020,
     0xC774, 0xB984, 0xC744, 0x0020, 0xC120, 0xD0DD, 0xD558, 0xBA74, 0x0020, 0xC815, 0xD655, 0xD55C,
     0x0020, 0xBA58, 0xC158, 0xC73C, 0xB85C, 0x0020, 0xC790, 0xB3D9, 0x0020, 0xC644, 0xC131, 0xB429,
     0xB2C8, 0xB2E4, 0x002E]"

definition ko_mention_ph :: jstr where
  "ko_mention_ph = [0x0040, 0x0041, 0x0067, 0x0065, 0x006E, 0x0074, 0x004E, 0x0061, 0x006D, 0x0065, 0x0020, 0xBA58,
     0xC158, 0xC73C, 0xB85C, 0x0020, 0xC704, 0xC784, 0xD560, 0x0020, 0xC218, 0x0020, 0xC788, 0xC2B5,
     0xB2C8, 0xB2E4, 0x002E]"

definition ko_mention_queue :: jstr where
  "ko_mention_queue = [0xB300, 0xAE30, 0x0020, 0xC911, 0xC778, 0x0020, 0xBA58, 0xC158, 0x0020, 0xD050]"

definition ko_mention_queued :: jstr where
  "ko_mention_queued = [0xBA58, 0xC158, 0x0020, 0xC2E4, 0xD589, 0xC744, 0x0020, 0xD050, 0xC5D0, 0x0020, 0xB4F1, 0xB85D,
     0xD588, 0xC2B5, 0xB2C8, 0xB2E4, 0x002E]"

definition ko_mention_warning :: jstr where
  "ko_mention_warning = [0xBA58, 0xC158, 0x0020, 0xACBD, 0xACE0]"

definition ko_middot :: jstr where
  "ko_middot = [0x0020, 0x00B7, 0x0020]"

definition ko_middot_at :: jstr where
  "ko_middot_at = [0x0020, 0x00B7, 0x0020, 0x0040]"

definition ko_middot_attempt :: jstr where
  "ko_middot_attempt = [0x0020, 0x00B7, 0x0020, 0x0061, 0x0074, 0x0074, 0x0065, 0x006D, 0x0070, 0x0074, 0x0020]"

definition ko_middot_chain :: jstr where
  "ko_middot_chain = [0x0020, 0x00B7, 0x0020, 0x0063, 0x0068, 0x0061, 0x0069, 0x006E, 0x0020, 0x0064, 0x0065, 0x0070,
     0x0074, 0x0068, 0x0020]"

definition ko_migration_desc :: jstr where
  "ko_migration_desc = [0xC11C, 0xBC84, 0xB294, 0x0020, 0xC2E4, 0xD328, 0xD55C, 0x0020, 0x006D, 0x0069, 0x0067, 0x0072,
     0x0061, 0x0074, 0x0069, 0x006F, 0x006E, 0xC744, 0x0020, 0xD2B8, 0xB79C, 0xC7AD, 0xC158, 0x0020,
     0x0072, 0x006F, 0x006C, 0x006C, 0x0062, 0x0061, 0x0063, 0x006B, 0x0020, 0xD6C4, 0x0020, 0xAE30,
     0xB85D, 0xD569, 0xB2C8, 0xB2E4, 0x002E, 0x0020, 0xAC19, 0xC740, 0x0020, 0xC2E4, 0xD328, 0xAC00,
     0x0020, 0xBC18, 0xBCF5, 0xB418, 0xBA74, 0x0020, 0x0044, 0x0042, 0x0020, 0xBC31, 0xC5C5, 0x0020,
     0xD6C4, 0x0020, 0xB85C, 0xADF8, 0xB97C, 0x0020, 0xD655, 0xC778, 0xD558, 0xC138, 0xC694, 0x002E]"

definition ko_migration_fail :: jstr where
  "ko_migration_fail = [0xB9C8, 0xC774, 0xADF8, 0xB808, 0xC774, 0xC158, 0x0020, 0xC2E4, 0xD328]"

definition ko_migration_suffix :: jstr where
  "ko_migration_suffix = [0xAC74, 0x0020, 0xC774, 0xB825, 0x0020, 0xC788, 0xC74C, 0x0020, 0x00B7, 0x0020, 0xB85C, 0xADF8,
     0x002F, 0x0044, 0x0042, 0x0020, 0xD655, 0xC778, 0x0020, 0xAD8C, 0xC7A5]"

definition ko_migration_title :: jstr where
  "ko_migration_title = [0xCD5C, 0xADFC, 0x0020, 0xB9C8, 0xC774, 0xADF8, 0xB808, 0xC774, 0xC158, 0x0020, 0xC2E4, 0xD328,
     0x0020, 0xC774, 0xB825]"

definition ko_min_ago :: jstr where
  "ko_min_ago = [0xBD84, 0x0020, 0xC804]"

definition ko_minute_sp :: jstr where
  "ko_minute_sp = [0xBD84, 0x0020]"

definition ko_minutes_only :: jstr where
  "ko_minutes_only = [0xBD84]"

definition ko_model :: jstr where
  "ko_model = [0xBAA8, 0xB378]"

definition ko_model_helper_text :: jstr where
  "ko_model_helper_text = [0xBE44, 0xC6CC, 0xB450, 0xBA74, 0x0020, 0xB7F0, 0xD0C0, 0xC784, 0x0020, 0xAE30, 0xBCF8, 0x0020,
     0xBAA8, 0xB378, 0xC744, 0x0020, 0xC0AC, 0xC6A9, 0xD569, 0xB2C8, 0xB2E4, 0x002E, 0x0020, 0xBAA9,
     0xB85D, 0xC5D0, 0x0020, 0xC5C6, 0xB294, 0x0020, 0xBAA8, 0xB378, 0x0020, 0x0049, 0x0044, 0xB3C4,
     0x0020, 0xC9C1, 0xC811, 0x0020, 0xC785, 0xB825, 0xD560, 0x0020, 0xC218, 0x0020, 0xC788, 0xC2B5,
     0xB2C8, 0xB2E4, 0x002E]"

definition ko_model_placeholder :: jstr where
  "ko_model_placeholder = [0xAE30, 0xBCF8, 0x0020, 0x0028, 0xB7F0, 0xD0C0, 0xC784, 0x0020, 0xAE30, 0xBCF8, 0xAC12, 0x0029]"

definition ko_model_sp :: jstr where
  "ko_model_sp = [0xBAA8, 0xB378, 0x0020]"

definition ko_monday :: jstr where
  "ko_monday = [0xB9E4, 0xC8FC, 0x0020, 0xC6D4, 0xC694, 0xC77C]"

definition ko_monthly :: jstr where
  "ko_monthly = [0xB9E4, 0xC6D4, 0x0020, 0x0031, 0xC77C]"

definition ko_more_plus :: jstr where
  "ko_more_plus = [0xB354, 0x0020, 0xBCF4, 0xAE30, 0x0020, 0x0028, 0x002B]"

definition ko_n_recovered :: jstr where
  "ko_n_recovered = [0xAC74, 0x0020, 0xBCF5, 0xAD6C, 0xB428, 0x0029]"

definition ko_name :: jstr where
  "ko_name = [0xC774, 0xB984]"

definition ko_near :: jstr where
  "ko_near = [0xADFC, 0xC811]"

definition ko_never_run :: jstr where
  "ko_never_run = [0xC544, 0xC9C1, 0x0020, 0xC2E4, 0xD589, 0xB418, 0xC9C0, 0x0020, 0xC54A, 0xC74C]"

definition ko_new_issue :: jstr where
  "ko_new_issue = [0xC0C8, 0x0020, 0xC774, 0xC288]"

definition ko_new_issue_desc :: jstr where
  "ko_new_issue_desc = [0xC791, 0xC5C5, 0x0020, 0xC694, 0xCCAD, 0xC744, 0x0020, 0xC0DD, 0xC131, 0xD558, 0xBA74, 0x0020,
     0xB2F4, 0xB2F9, 0x0020, 0xC5D0, 0xC774, 0xC804, 0xD2B8, 0x0020, 0xC2E4, 0xD589, 0xC774, 0x0020,
     0xC790, 0xB3D9, 0xC73C, 0xB85C, 0x0020, 0x0071, 0x0075, 0x0065, 0x0075, 0x0065, 0x0064, 0x0020,
     0xB429, 0xB2C8, 0xB2E4, 0x002E]"

definition ko_new_issue_desc2 :: jstr where
  "ko_new_issue_desc2 = [0xC644, 0xB8CC, 0x002F, 0xCDE8, 0xC18C, 0x0020, 0xCEEC, 0xB7FC, 0xC5D0, 0xC11C, 0xB3C4, 0x0020,
     0xC0C8, 0x0020, 0xC774, 0xC288, 0xB294, 0x0020, 0xC548, 0xC804, 0xD558, 0xAC8C, 0x0020, 0x006F,
     0x0070, 0x0065, 0x006E, 0x0020, 0xC0C1, 0xD0DC, 0xB85C, 0x0020, 0xC0DD, 0xC131, 0xB429, 0xB2C8,
     0xB2E4, 0x002E]"

definition ko_new_skill :: jstr where
  "ko_new_skill = [0xC0C8, 0x0020, 0x0053, 0x006B, 0x0069, 0x006C, 0x006C, 0x0020, 0xB4F1, 0xB85D]"

definition ko_next_retry :: jstr where
  "ko_next_retry = [0xB2E4, 0xC74C, 0x0020, 0xC7AC, 0xC2DC, 0xB3C4, 0x0020]"

definition ko_next_sp :: jstr where
  "ko_next_sp = [0xB2E4, 0xC74C, 0x0020]"

definition ko_next_turn :: jstr where
  "ko_next_turn = [0xB2E4, 0xC74C, 0x0020, 0xCC28, 0xB840, 0x0020, 0x0028]"

definition ko_no_agents :: jstr where
  "ko_no_agents = [0xC5D0, 0xC774, 0xC804, 0xD2B8, 0xAC00, 0x0020, 0xC5C6, 0xC2B5, 0xB2C8, 0xB2E4, 0x002E]"

definition ko_no_attachments :: jstr where
  "ko_no_attachments = [0xCCA8, 0xBD80, 0xB41C, 0x0020, 0xD30C, 0xC77C, 0xC774, 0x0020, 0xC5C6, 0xC2B5, 0xB2C8, 0xB2E4,
     0x002E, 0x0020, 0xC704, 0x0020, 0xC785, 0xB825, 0xC73C, 0xB85C, 0x0020, 0xD30C, 0xC77C, 0xC744,
     0x0020, 0xCD94, 0xAC00, 0xD558, 0xC138, 0xC694, 0x0020, 0x0028, 0xCD5C, 0xB300, 0x0020, 0x0031,
     0x0030, 0x0020, 0x004D, 0x0042, 0x0029, 0x002E]"

definition ko_no_body :: jstr where
  "ko_no_body = [0x0028, 0xBCF8, 0xBB38, 0x0020, 0xC5C6, 0xC74C, 0x0029]"

definition ko_no_comments :: jstr where
  "ko_no_comments = [0xC544, 0xC9C1, 0x0020, 0xB313, 0xAE00, 0xC774, 0x0020, 0xC5C6, 0xC2B5, 0xB2C8, 0xB2E4, 0x002E]"

definition ko_no_events :: jstr where
  "ko_no_events = [0xAE30, 0xB85D, 0xB41C, 0x0020, 0xC774, 0xBCA4, 0xD2B8, 0xAC00, 0x0020, 0xC5C6, 0xC2B5, 0xB2C8,
     0xB2E4, 0x002E]"

definition ko_no_filter :: jstr where
  "ko_no_filter = [0xD544, 0xD130, 0x0020, 0xC5C6, 0xC74C, 0x0020, 0x00B7, 0x0020, 0xC804, 0xCCB4, 0x0020, 0xC774,
     0xC288, 0xB97C, 0x0020, 0xD45C, 0xC2DC, 0xD569, 0xB2C8, 0xB2E4, 0x002E]"

definition ko_no_history :: jstr where
  "ko_no_history = [0xC2E4, 0xD589, 0x0020, 0xC774, 0xB825, 0x0020, 0xC5C6, 0xC74C]"

definition ko_no_issue :: jstr where
  "ko_no_issue = [0xC774, 0xC288, 0x0020, 0xC5C6, 0xC74C]"

definition ko_no_match :: jstr where
  "ko_no_match = [0xC870, 0xAC74, 0xC5D0, 0x0020, 0xB9DE, 0xB294, 0x0020, 0xC774, 0xC288, 0xAC00, 0x0020, 0xC5C6,
     0xC2B5, 0xB2C8, 0xB2E4, 0x002E]"

definition ko_no_match_hint :: jstr where
  "ko_no_match_hint = [0xD544, 0xD130, 0xB97C, 0x0020, 0xC904, 0xC774, 0xAC70, 0xB098, 0x0020, 0xAC80, 0xC0C9, 0xC5B4,
     0xB97C, 0x0020, 0xBE44, 0xC6CC, 0x0020, 0xB2E4, 0xC2DC, 0x0020, 0xD655, 0xC778, 0xD558, 0xC138,
     0xC694, 0x002E]"

definition ko_no_match_run :: jstr where
  "ko_no_match_run = [0xC870, 0xAC74, 0xC5D0, 0x0020, 0xD574, 0xB2F9, 0xD558, 0xB294, 0x0020, 0x0072, 0x0075, 0x006E,
     0x0020, 0xC5C6, 0xC74C]"

definition ko_no_payload :: jstr where
  "ko_no_payload = [0x0028, 0x0070, 0x0061, 0x0079, 0x006C, 0x006F, 0x0061, 0x0064, 0x0020, 0xC5C6, 0xC74C, 0x0029]"

definition ko_no_recent :: jstr where
  "ko_no_recent = [0xCD5C, 0xADFC, 0x0020, 0xC774, 0xC288, 0x0020, 0xC5C6, 0xC74C]"

definition ko_no_records :: jstr where
  "ko_no_records = [0xAE30, 0xB85D, 0x0020, 0xC5C6, 0xC74C]"

definition ko_no_results :: jstr where
  "ko_no_results = [0xAC80, 0xC0C9, 0x0020, 0xACB0, 0xACFC, 0xAC00, 0x0020, 0xC5C6, 0xC2B5, 0xB2C8, 0xB2E4, 0x002E]"

definition ko_no_rule_match :: jstr where
  "ko_no_rule_match = [0xC870, 0xAC74, 0xC5D0, 0x0020, 0xB9DE, 0xB294, 0x0020, 0xADDC, 0xCE59, 0xC774, 0x0020, 0xC5C6,
     0xC2B5, 0xB2C8, 0xB2E4, 0x002E]"

definition ko_no_runs :: jstr where
  "ko_no_runs = [0xC544, 0xC9C1, 0x0020, 0xC2E4, 0xD589, 0x0020, 0xC774, 0xB825, 0xC774, 0x0020, 0xC5C6, 0xC2B5,
     0xB2C8, 0xB2E4, 0x002E]"

definition ko_no_runs_yet :: jstr where
  "ko_no_runs_yet = [0xC544, 0xC9C1, 0x0020, 0xC774, 0x0020, 0xC6CC, 0xD06C, 0xC2A4, 0xD398, 0xC774, 0xC2A4, 0xC5D0,
     0x0020, 0x0072, 0x0075, 0x006E, 0xC774, 0x0020, 0xC5C6, 0xC2B5, 0xB2C8, 0xB2E4, 0x002E]"

definition ko_no_runtime :: jstr where
  "ko_no_runtime = [0x0050, 0x0041, 0x0054, 0x0048, 0xC5D0, 0xC11C, 0x0020, 0xD0D0, 0xC9C0, 0xB41C, 0x0020, 0xB7F0,
     0xD0C0, 0xC784, 0x0020, 0xC5C6, 0xC74C]"

definition ko_no_schedule :: jstr where
  "ko_no_schedule = [0xC608, 0xC57D, 0x0020, 0xC5C6, 0xC74C]"

definition ko_no_subs :: jstr where
  "ko_no_subs = [0xC544, 0xC9C1, 0x0020, 0xD558, 0xC704, 0x0020, 0xC774, 0xC288, 0xAC00, 0x0020, 0xC5C6, 0xC2B5,
     0xB2C8, 0xB2E4, 0x002E]"

definition ko_no_work :: jstr where
  "ko_no_work = [0xC2E4, 0xD589, 0x0020, 0xC911, 0x0020, 0xC791, 0xC5C5, 0x0020, 0xC5C6, 0xC74C]"

definition ko_no_workspace :: jstr where
  "ko_no_workspace = [0xC6CC, 0xD06C, 0xC2A4, 0xD398, 0xC774, 0xC2A4, 0x0020, 0xC5C6, 0xC74C]"

definition ko_none_ko :: jstr where
  "ko_none_ko = [0xC5C6, 0xC74C]"

definition ko_none_queued :: jstr where
  "ko_none_queued = [0xD604, 0xC7AC, 0x0020, 0xC2E4, 0xD589, 0x0020, 0xB300, 0xAE30, 0x0020, 0xC5C6, 0xC74C]"

definition ko_normal :: jstr where
  "ko_normal = [0xC815, 0xC0C1]"

definition ko_not_measured :: jstr where
  "ko_not_measured = [0xC544, 0xC9C1, 0x0020, 0xCE21, 0xC815, 0xB418, 0xC9C0, 0x0020, 0xC54A, 0xC74C]"

definition ko_nothing_waiting :: jstr where
  "ko_nothing_waiting = [0xB300, 0xAE30, 0x0020, 0xC5C6, 0xC74C]"

definition ko_now_selected :: jstr where
  "ko_now_selected = [0xD604, 0xC7AC, 0x0020, 0xC120, 0xD0DD, 0xB428]"

definition ko_of_500 :: jstr where
  "ko_of_500 = [0xCD5C, 0xADFC, 0x0020, 0x0035, 0x0030, 0x0030, 0xAC74, 0x0020, 0xC911, 0x0020]"

definition ko_of_500_filtered :: jstr where
  "ko_of_500_filtered = [0xCD5C, 0xADFC, 0x0020, 0x0035, 0x0030, 0x0030, 0xAC74, 0x0020, 0xC911, 0x0020, 0xD544, 0xD130,
     0x0020, 0xACB0, 0xACFC]"

definition ko_off_paused :: jstr where
  "ko_off_paused = [0x004F, 0x0046, 0x0046, 0x002F, 0xC77C, 0xC2DC, 0xC815, 0xC9C0]"

definition ko_off_sep :: jstr where
  "ko_off_sep = [0x0020, 0x00B7, 0x0020, 0x004F, 0x0046, 0x0046, 0x0020]"

definition ko_ok200 :: jstr where
  "ko_ok200 = [0x0032, 0x0030, 0x0030, 0x0020, 0x004F, 0x004B, 0x0020, 0x0028, 0xC2DC, 0xB3C4, 0x0020]"

definition ko_on_sep :: jstr where
  "ko_on_sep = [0x0020, 0x00B7, 0x0020, 0x004F, 0x004E, 0x0020]"

definition ko_one_line :: jstr where
  "ko_one_line = [0xD55C, 0x0020, 0xC904, 0x0020, 0xC694, 0xC57D]"

definition ko_open_board :: jstr where
  "ko_open_board = [0xBCF4, 0xB4DC, 0x0020, 0xC5F4, 0xAE30]"

definition ko_open_issues_sp :: jstr where
  "ko_open_issues_sp = [0xC5F4, 0xB9B0, 0x0020, 0xC774, 0xC288, 0x0020]"

definition ko_operations :: jstr where
  "ko_operations = [0xC6B4, 0xC601, 0x0020, 0xC791, 0xC5C5]"

definition ko_operations_desc :: jstr where
  "ko_operations_desc = [0x0044, 0x0042, 0xC640, 0x0020, 0x0072, 0x0075, 0x006E, 0x0020, 0xB85C, 0xADF8, 0xB97C, 0x0020,
     0xAD00, 0xB9AC, 0xD558, 0xB294, 0x0020, 0xC989, 0xC2DC, 0x0020, 0xC2E4, 0xD589, 0x0020, 0xC791,
     0xC5C5, 0xC785, 0xB2C8, 0xB2E4, 0x002E]"

definition ko_path_waiting :: jstr where
  "ko_path_waiting = [0x0050, 0x0041, 0x0054, 0x0048, 0x0020, 0xD0D0, 0xC9C0, 0x0020, 0xB300, 0xAE30]"

definition ko_paused :: jstr where
  "ko_paused = [0xC77C, 0xC2DC, 0xC815, 0xC9C0]"

definition ko_per_worktree :: jstr where
  "ko_per_worktree = [0x0072, 0x0075, 0x006E, 0xB9C8, 0xB2E4, 0x0020, 0xBCC4, 0xB3C4, 0x0020, 0x0077, 0x006F, 0x0072,
     0x006B, 0x0074, 0x0072, 0x0065, 0x0065, 0x0020, 0xC0AC, 0xC6A9, 0x0020, 0x0028, 0xC6CC, 0xD06C,
     0xC2A4, 0xD398, 0xC774, 0xC2A4, 0x0020, 0xB3D9, 0xC2DC, 0x0020, 0xC2E4, 0xD589, 0x0020, 0xD5C8,
     0xC6A9, 0x0029]"

definition ko_period :: jstr where
  "ko_period = [0xC8FC, 0xAE30]"

definition ko_pii :: jstr where
  "ko_pii = [0x0050, 0x0049, 0x0049, 0x0020, 0xB9C8, 0xC2A4, 0xD0B9]"

definition ko_pipeline :: jstr where
  "ko_pipeline = [0xD30C, 0xC774, 0xD504, 0xB77C, 0xC778]"

definition ko_pipeline_empty :: jstr where
  "ko_pipeline_empty = [0xC544, 0xC9C1, 0x0020, 0xC2E4, 0xD589, 0xB41C, 0x0020, 0xB2E8, 0xACC4, 0xAC00, 0x0020, 0xC5C6,
     0xC2B5, 0xB2C8, 0xB2E4, 0x002E]"

definition ko_pipeline_label :: jstr where
  "ko_pipeline_label = [0xC5D0, 0xC774, 0xC804, 0xD2B8, 0x0020, 0xD30C, 0xC774, 0xD504, 0xB77C, 0xC778]"

definition ko_pipeline_loading :: jstr where
  "ko_pipeline_loading = [0xD30C, 0xC774, 0xD504, 0xB77C, 0xC778, 0x0020, 0xB85C, 0xB529, 0x0020, 0xC911, 0x2026]"

definition ko_plus_ws :: jstr where
  "ko_plus_ws = [0x002B, 0x0020, 0xC0C8, 0x0020, 0xC6CC, 0xD06C, 0xC2A4, 0xD398, 0xC774, 0xC2A4]"

definition ko_plus_ws_make :: jstr where
  "ko_plus_ws_make = [0x002B, 0x0020, 0xC0C8, 0x0020, 0xC6CC, 0xD06C, 0xC2A4, 0xD398, 0xC774, 0xC2A4, 0x0020, 0xB9CC,
     0xB4E4, 0xAE30]"

definition ko_polling5 :: jstr where
  "ko_polling5 = [0xBA85, 0x0020, 0x00B7, 0x0020, 0x0035, 0xCD08, 0x0020, 0x0070, 0x006F, 0x006C, 0x006C, 0x0069,
     0x006E, 0x0067]"

definition ko_post_comment :: jstr where
  "ko_post_comment = [0xB313, 0xAE00, 0x0020, 0xB4F1, 0xB85D]"

definition ko_posting :: jstr where
  "ko_posting = [0xB4F1, 0xB85D, 0x0020, 0xC911]"

definition ko_preview_desc :: jstr where
  "ko_preview_desc = [0xC120, 0xD0DD, 0xB41C, 0x0020, 0xC6CC, 0xD06C, 0xC2A4, 0xD398, 0xC774, 0xC2A4, 0xC758, 0x0020,
     0xC774, 0xC288, 0x0020, 0xC2A4, 0xD2B8, 0xB9BC, 0xACFC, 0x0020, 0xC2E4, 0xD589, 0x0020, 0xC0C1,
     0xD0DC, 0xB97C, 0x0020, 0xB370, 0xBAA8, 0x0020, 0xCF58, 0xC194, 0xCC98, 0xB7FC, 0x0020, 0xBCF4,
     0xC5EC, 0xC90D, 0xB2C8, 0xB2E4, 0x002E]"

definition ko_priority_sep :: jstr where
  "ko_priority_sep = [0x0020, 0x00B7, 0x0020, 0x0070, 0x0072, 0x0069, 0x006F, 0x0072, 0x0069, 0x0074, 0x0079, 0x0020]"

definition ko_processing :: jstr where
  "ko_processing = [0xCC98, 0xB9AC, 0x0020, 0xC911, 0x002E, 0x002E, 0x002E]"

definition ko_progress_sep :: jstr where
  "ko_progress_sep = [0x0020, 0x00B7, 0x0020, 0xC9C4, 0xD589, 0x0020]"

definition ko_promote :: jstr where
  "ko_promote = [0xBA54, 0xC778, 0xC73C, 0xB85C, 0x0020, 0xC2B9, 0xACA9]"

definition ko_queued_by_mention :: jstr where
  "ko_queued_by_mention = [0xBA58, 0xC158, 0xC73C, 0xB85C, 0x0020, 0xD050, 0xC789]"

definition ko_queued_caps :: jstr where
  "ko_queued_caps = [0x23F3, 0x0020, 0x0051, 0x0055, 0x0045, 0x0055, 0x0045, 0x0044]"

definition ko_queued_time :: jstr where
  "ko_queued_time = [0xB300, 0xAE30, 0x0020, 0xC2DC, 0xAC01]"

definition ko_quick_actions_ko :: jstr where
  "ko_quick_actions_ko = [0xBE60, 0xB978, 0x0020, 0xC561, 0xC158]"

definition ko_quick_agents :: jstr where
  "ko_quick_agents = [0x0043, 0x004C, 0x0049, 0x0020, 0x0072, 0x0075, 0x006E, 0x0074, 0x0069, 0x006D, 0x0065, 0x0020,
     0xC5ED, 0xD560, 0x0020, 0xAD00, 0xB9AC]"

definition ko_quick_board :: jstr where
  "ko_quick_board = [0xC791, 0xC5C5, 0x0020, 0xC0DD, 0xC131, 0x002F, 0xC0C1, 0xD0DC, 0x0020, 0xCD94, 0xC801]"

definition ko_quick_cron :: jstr where
  "ko_quick_cron = [0x0063, 0x0072, 0x006F, 0x006E, 0x0020, 0xC815, 0xAE30, 0x0020, 0xC791, 0xC5C5]"

definition ko_quick_start :: jstr where
  "ko_quick_start = [0xBCF4, 0xB4DC, 0x002C, 0x0020, 0xC5D0, 0xC774, 0xC804, 0xD2B8, 0x002C, 0x0020, 0xC624, 0xD1A0,
     0xD30C, 0xC77C, 0xB7FF, 0x0020, 0xC2DC, 0xC791]"

definition ko_rdquo :: jstr where
  "ko_rdquo = [0x201D]"

definition ko_rec_after :: jstr where
  "ko_rec_after = [0x2705, 0x0020, 0xC774, 0xD6C4, 0x0020]"

definition ko_rec_end :: jstr where
  "ko_rec_end = [0xC73C, 0xB85C, 0x0020, 0xBCF5, 0xAD6C, 0x002E, 0x0020, 0x0028, 0xC7AC, 0xC2E4, 0xD589, 0x0029]"

definition ko_rec_ga :: jstr where
  "ko_rec_ga = [0x0029, 0xAC00]"

definition ko_rec_same_agent :: jstr where
  "ko_rec_same_agent = [0xC5D0, 0xC11C, 0x0020, 0xAC19, 0xC740, 0x0020, 0xC5D0, 0xC774, 0xC804, 0xD2B8, 0x0028, 0x0040]"

definition ko_rec_success :: jstr where
  "ko_rec_success = [0x0020, 0xC131, 0xACF5]"

definition ko_recent_deliveries :: jstr where
  "ko_recent_deliveries = [0xCD5C, 0xADFC, 0x0020, 0xC804, 0xB2EC]"

definition ko_reclaimed :: jstr where
  "ko_reclaimed = [0x0020, 0xD68C, 0xC218]"

definition ko_recommended_models :: jstr where
  "ko_recommended_models = [0xCD94, 0xCC9C, 0x0020, 0xBAA8, 0xB378]"

definition ko_recovery :: jstr where
  "ko_recovery = [0xBCF5, 0xAD6C, 0x0020, 0xBAA8, 0xB4DC]"

definition ko_redeliver_q :: jstr where
  "ko_redeliver_q = [0xAC74, 0xC758, 0x0020, 0x0064, 0x0065, 0x0061, 0x0064, 0x002D, 0x006C, 0x0065, 0x0074, 0x0074,
     0x0065, 0x0072, 0xB97C, 0x0020, 0xBAA8, 0xB450, 0x0020, 0xC7AC, 0xC804, 0xC1A1, 0xD560, 0xAE4C,
     0xC694, 0x003F]"

definition ko_refresh :: jstr where
  "ko_refresh = [0xC0C8, 0xB85C, 0xACE0, 0xCE68]"

definition ko_refreshing :: jstr where
  "ko_refreshing = [0xC0C8, 0xB85C, 0xACE0, 0xCE68, 0x0020, 0xC911]"

definition ko_regular_work :: jstr where
  "ko_regular_work = [0x007B, 0x007B, 0x0064, 0x0061, 0x0074, 0x0065, 0x007D, 0x007D, 0x0020, 0xC815, 0xAE30, 0x0020,
     0xC791, 0xC5C5]"

definition ko_render_error :: jstr where
  "ko_render_error = [0xD654, 0xBA74, 0x0020, 0xB80C, 0xB354, 0x0020, 0xC624, 0xB958]"

definition ko_render_failed :: jstr where
  "ko_render_failed = [0xD654, 0xBA74, 0x0020, 0xB80C, 0xB354, 0x0020, 0xC2E4, 0xD328]"

definition ko_render_help :: jstr where
  "ko_render_help = [0xC77C, 0xC2DC, 0xC801, 0xC778, 0x0020, 0x0055, 0x0049, 0x0020, 0xC624, 0xB958, 0xC77C, 0x0020,
     0xC218, 0x0020, 0xC788, 0xC2B5, 0xB2C8, 0xB2E4, 0x002E, 0x0020, 0xB2E4, 0xC2DC, 0x0020, 0xC2DC,
     0xB3C4, 0xD558, 0xAC70, 0xB098, 0x0020, 0xD648, 0xC73C, 0xB85C, 0x0020, 0xC774, 0xB3D9, 0xD574,
     0x0020, 0xC791, 0xC5C5, 0xC744, 0x0020, 0xC774, 0xC5B4, 0xAC00, 0xC138, 0xC694, 0x002E]"

definition ko_reopen :: jstr where
  "ko_reopen = [0xB2E4, 0xC2DC, 0x0020, 0xC5F4, 0xAE30]"

definition ko_request_failed :: jstr where
  "ko_request_failed = [0xC694, 0xCCAD, 0x0020, 0xC2E4, 0xD328]"

definition ko_rerun :: jstr where
  "ko_rerun = [0xC7AC, 0xC2E4, 0xD589]"

definition ko_rerun_failed :: jstr where
  "ko_rerun_failed = [0xC7AC, 0xC2E4, 0xD589, 0x0020, 0xC2E4, 0xD328]"

definition ko_rerun_queued :: jstr where
  "ko_rerun_queued = [0xC7AC, 0xC2E4, 0xD589, 0xC744, 0x0020, 0xD050, 0xC5D0, 0x0020, 0xB4F1, 0xB85D, 0xD588, 0xC2B5,
     0xB2C8, 0xB2E4, 0x002E]"

definition ko_resend :: jstr where
  "ko_resend = [0xC7AC, 0xC804, 0xC1A1]"

definition ko_resend_all :: jstr where
  "ko_resend_all = [0xBAA8, 0xB450, 0x0020, 0xC7AC, 0xC804, 0xC1A1]"

definition ko_resending :: jstr where
  "ko_resending = [0xC7AC, 0xC804, 0xC1A1, 0x0020, 0xC911]"

definition ko_restart :: jstr where
  "ko_restart = [0xC7AC, 0xC2DC, 0xC791]"

definition ko_restarting :: jstr where
  "ko_restarting = [0xC7AC, 0xC2DC, 0xC791, 0x0020, 0xC911]"

definition ko_result_arrived :: jstr where
  "ko_result_arrived = [0xC758, 0x0020, 0xACB0, 0xACFC, 0xAC00, 0x0020, 0xB313, 0xAE00, 0xB85C, 0x0020, 0xB3C4, 0xCC29,
     0xD588, 0xC2B5, 0xB2C8, 0xB2E4, 0x002E, 0x0020, 0xCD1D, 0x0020]"

definition ko_resume_at :: jstr where
  "ko_resume_at = [0xC815, 0xC9C0, 0x0020, 0xD574, 0xC81C, 0x0020]"

definition ko_retry1 :: jstr where
  "ko_retry1 = [0x0020, 0xC774, 0xC804, 0x0020, 0xC2DC, 0xB3C4, 0x0028, 0x0053, 0x0074, 0x0061, 0x0067, 0x0065,
     0x0020]"

definition ko_retry2 :: jstr where
  "ko_retry2 = [0x0029, 0xAC00, 0x0020, 0xC2E4, 0xD328, 0xD588, 0xC2B5, 0xB2C8, 0xB2E4, 0x002E, 0x0020, 0xB2E4,
     0xC2DC, 0x0020, 0xC9C4, 0xD589, 0xD574, 0xC8FC, 0xC138, 0xC694, 0x002E]"

definition ko_retry3 :: jstr where
  "ko_retry3 = [0x0028, 0xD544, 0xC694, 0xD55C, 0x0020, 0xCD94, 0xAC00, 0x0020, 0xCEE8, 0xD14D, 0xC2A4, 0xD2B8,
     0xB098, 0x0020, 0xBCC0, 0xACBD, 0xB41C, 0x0020, 0xAC00, 0xC815, 0xC774, 0x0020, 0xC788, 0xC73C,
     0xBA74, 0x0020, 0xC5EC, 0xAE30, 0xC5D0, 0x0020, 0xC801, 0xC740, 0x0020, 0xD6C4, 0x0020, 0x005B,
     0xB313, 0xAE00, 0x0020, 0xB4F1, 0xB85D, 0x005D, 0xC744, 0x0020, 0xB204, 0xB974, 0xC138, 0xC694,
     0x0029]"

definition ko_retry_again :: jstr where
  "ko_retry_again = [0x21BB, 0x0020, 0xB2E4, 0xC2DC, 0x0020, 0xC2DC, 0xB3C4]"

definition ko_retry_chain :: jstr where
  "ko_retry_chain = [0xCCB4, 0xC778, 0x0020, 0xC7AC, 0xC2DC, 0xC791]"

definition ko_retry_executor :: jstr where
  "ko_retry_executor = [0x0020, 0x0065, 0x0078, 0x0065, 0x0063, 0x0075, 0x0074, 0x006F, 0x0072, 0x005F, 0x0065, 0x0072,
     0x0072, 0x006F, 0x0072, 0x0020, 0xC7AC, 0xC2DC, 0xB3C4]"

definition ko_retry_help :: jstr where
  "ko_retry_help = [0x0074, 0x0069, 0x006D, 0x0065, 0x006F, 0x0075, 0x0074, 0x0020, 0x002F, 0x0020, 0x0065, 0x0078,
     0x0065, 0x0063, 0x0075, 0x0074, 0x006F, 0x0072, 0x0020, 0xC624, 0xB958, 0xB9CC, 0x0020, 0xC790,
     0xB3D9, 0x0020, 0xC7AC, 0xC2DC, 0xB3C4, 0xD569, 0xB2C8, 0xB2E4, 0x002E, 0x0020, 0x0065, 0x0078,
     0x0069, 0x0074, 0x005F, 0x006E, 0x006F, 0x006E, 0x007A, 0x0065, 0x0072, 0x006F, 0xC640, 0x0020,
     0x0077, 0x006F, 0x0072, 0x006B, 0x0065, 0x0072, 0x005F, 0x0070, 0x0061, 0x006E, 0x0069, 0x0063,
     0xC740, 0x0020, 0xC7AC, 0xC2DC, 0xB3C4, 0xD558, 0xC9C0, 0x0020, 0xC54A, 0xC2B5, 0xB2C8, 0xB2E4,
     0x002E]"

definition ko_retry_pending :: jstr where
  "ko_retry_pending = [0xC7AC, 0xC2DC, 0xB3C4, 0x0020, 0xB300, 0xAE30]"

definition ko_retry_request :: jstr where
  "ko_retry_request = [0xD83D, 0xDD04, 0x0020, 0xC7AC, 0xC2DC, 0xB3C4, 0x0020, 0xC694, 0xCCAD]"

definition ko_retry_timeout :: jstr where
  "ko_retry_timeout = [0x0020, 0x0074, 0x0069, 0x006D, 0x0065, 0x006F, 0x0075, 0x0074, 0x0020, 0xC7AC, 0xC2DC, 0xB3C4]"

definition ko_retry_title :: jstr where
  "ko_retry_title = [0xC774, 0x0020, 0xB2E8, 0xACC4, 0xB97C, 0x0020, 0xB2E4, 0xC2DC, 0x0020, 0xC2E4, 0xD589, 0x0020,
     0xC694, 0xCCAD, 0x0020, 0x0028, 0xB313, 0xAE00, 0x0020, 0xBA58, 0xC158, 0xC73C, 0xB85C, 0x0020,
     0xC790, 0xB3D9, 0x0020, 0xC791, 0xC131, 0x0029]"

definition ko_retry_title_rec :: jstr where
  "ko_retry_title_rec = [0xC774, 0xBBF8, 0x0020, 0xBCF5, 0xAD6C, 0xB410, 0xC9C0, 0xB9CC, 0x0020, 0xAC19, 0xC740, 0x0020,
     0xB2E8, 0xACC4, 0xB97C, 0x0020, 0xD55C, 0x0020, 0xBC88, 0x0020, 0xB354, 0x0020, 0xB3CC, 0xB9AC,
     0xACE0, 0x0020, 0xC2F6, 0xC744, 0x0020, 0xB54C]"

definition ko_reused :: jstr where
  "ko_reused = [0xC7AC, 0xC0AC, 0xC6A9]"

definition ko_review_head :: jstr where
  "ko_review_head = [0xC5D0, 0xC774, 0xC804, 0xD2B8, 0x0020, 0xC791, 0xC5C5, 0xC774, 0x0020, 0xB05D, 0xB0AC, 0xC2B5,
     0xB2C8, 0xB2E4, 0x002E, 0x0020, 0xC0AC, 0xC6A9, 0xC790, 0x0020, 0xD655, 0xC778, 0xC774, 0x0020,
     0xD544, 0xC694, 0xD569, 0xB2C8, 0xB2E4, 0x002E]"

definition ko_review_needed :: jstr where
  "ko_review_needed = [0x0020, 0xACB0, 0xACFC, 0x0020, 0xD655, 0xC778, 0x0020, 0xD544, 0xC694]"

definition ko_review_tail :: jstr where
  "ko_review_tail = [0x0029, 0x0020, 0x2014, 0x0020, 0xACB0, 0xACFC, 0xB97C, 0x0020, 0xAC80, 0xD1A0, 0xD55C, 0x0020,
     0xB4A4, 0x0020, 0xC815, 0xC2DD, 0x0020, 0xB9C8, 0xAC10, 0xD558, 0xAC70, 0xB098, 0x002C, 0x0020,
     0xBA58, 0xC158, 0x0020, 0xB313, 0xAE00, 0xB85C, 0x0020, 0xCD94, 0xAC00, 0x0020, 0xBCF4, 0xAC15,
     0xC744, 0x0020, 0xC694, 0xCCAD, 0xD558, 0xC138, 0xC694, 0x002E]"

definition ko_review_title :: jstr where
  "ko_review_title = [0xC5D0, 0xC774, 0xC804, 0xD2B8, 0x0020, 0xC791, 0xC5C5, 0x0020, 0xC644, 0xB8CC, 0x002C, 0x0020,
     0xC0AC, 0xC6A9, 0xC790, 0x0020, 0xD655, 0xC778, 0x0020, 0xD544, 0xC694]"

definition ko_review_wait :: jstr where
  "ko_review_wait = [0x2713, 0x0020, 0xAC80, 0xD1A0, 0x0020, 0xB300, 0xAE30]"

definition ko_review_wait_sp :: jstr where
  "ko_review_wait_sp = [0x2713, 0x0020, 0xAC80, 0xD1A0, 0x0020, 0xB300, 0xAE30, 0x0020]"

definition ko_role_summary :: jstr where
  "ko_role_summary = [0xC5D0, 0xC774, 0xC804, 0xD2B8, 0x0020, 0xC5ED, 0xD560, 0x0020, 0xC694, 0xC57D]"

definition ko_row_help :: jstr where
  "ko_row_help = [0x0020, 0x00B7, 0x0020, 0xAE30, 0xBCF8, 0x0020, 0x0072, 0x0075, 0x006E, 0x0020, 0x0074, 0x0069,
     0x006D, 0x0065, 0x006F, 0x0075, 0x0074, 0xC744, 0x0020, 0xCD08, 0x0020, 0xB2E8, 0xC704, 0xB85C,
     0x0020, 0xC124, 0xC815, 0xD569, 0xB2C8, 0xB2E4, 0x002E]"

definition ko_rt_detected :: jstr where
  "ko_rt_detected = [0x0020, 0x0043, 0x004C, 0x0049, 0x0020, 0xAC10, 0xC9C0, 0x0020, 0x2014, 0x0020]"

definition ko_rt_known_issue :: jstr where
  "ko_rt_known_issue = [0x26A0, 0x0020, 0xC6B4, 0xC601, 0x0020, 0xC8FC, 0xC758]"

definition ko_rt_not_detected :: jstr where
  "ko_rt_not_detected = [0x26A0, 0x0020, 0xBBF8, 0xAC10, 0xC9C0]"

definition ko_rt_not_in_path :: jstr where
  "ko_rt_not_in_path = [0x0020, 0x0043, 0x004C, 0x0049, 0xAC00, 0x0020, 0x0050, 0x0041, 0x0054, 0x0048, 0xC5D0, 0xC11C,
     0x0020, 0xAC10, 0xC9C0, 0xB418, 0xC9C0, 0x0020, 0xC54A, 0xC2B5, 0xB2C8, 0xB2E4, 0x002E, 0x0020,
     0xC124, 0xCE58, 0x0020, 0xD6C4, 0x0020, 0xC11C, 0xBC84, 0xB97C, 0x0020, 0xC7AC, 0xC2DC, 0xC791,
     0xD558, 0xC138, 0xC694, 0x002E]"

definition ko_rt_ok :: jstr where
  "ko_rt_ok = [0x2713, 0x0020, 0xAD8C, 0xC7A5]"

definition ko_run_feed :: jstr where
  "ko_run_feed = [0xB7F0, 0x0020, 0xD53C, 0xB4DC]"

definition ko_run_history :: jstr where
  "ko_run_history = [0x0052, 0x0075, 0x006E, 0x0020, 0xC774, 0xB825]"

definition ko_run_limit :: jstr where
  "ko_run_limit = [0x0032, 0x0034, 0xC2DC, 0xAC04, 0x0020, 0xC790, 0xB3D9, 0x0020, 0x0063, 0x0068, 0x0061, 0x0069,
     0x006E, 0x0020, 0x0072, 0x0075, 0x006E, 0x0020, 0xC81C, 0xD55C]"

definition ko_run_log :: jstr where
  "ko_run_log = [0xC2E4, 0xD589, 0x0020, 0xB85C, 0xADF8]"

definition ko_run_now :: jstr where
  "ko_run_now = [0xC9C0, 0xAE08, 0x0020, 0xC2E4, 0xD589]"

definition ko_run_sep :: jstr where
  "ko_run_sep = [0x0072, 0x0075, 0x006E, 0x0020, 0x00B7, 0x0020]"

definition ko_run_time :: jstr where
  "ko_run_time = [0xC2E4, 0xD589, 0x0020, 0xC2DC, 0xAC01, 0x003A, 0x0020]"

definition ko_runs_desc :: jstr where
  "ko_runs_desc = [0xC6CC, 0xD06C, 0xC2A4, 0xD398, 0xC774, 0xC2A4, 0x0020, 0xC804, 0xCCB4, 0x0020, 0x0072, 0x0075,
     0x006E, 0xC744, 0x0020, 0xCD5C, 0xC2E0, 0xC21C, 0xC73C, 0xB85C, 0x0020, 0xD655, 0xC778, 0xD558,
     0xACE0, 0x002C, 0x0020, 0xC2E4, 0xD328, 0x0020, 0xC6D0, 0xC778, 0x00B7, 0x0061, 0x0067, 0x0065,
     0x006E, 0x0074, 0x00B7, 0x0063, 0x0068, 0x0061, 0x0069, 0x006E, 0xC744, 0x0020, 0xBE60, 0xB974,
     0xAC8C, 0x0020, 0xC881, 0xD600, 0xBD05, 0xB2C8, 0xB2E4, 0x002E]"

definition ko_runs_search :: jstr where
  "ko_runs_search = [0xAC80, 0xC0C9, 0x0020, 0x0028, 0x0063, 0x0068, 0x0061, 0x0069, 0x006E, 0x005F, 0x0069, 0x0064,
     0x0020, 0x002F, 0x0020, 0x0061, 0x0067, 0x0065, 0x006E, 0x0074, 0x0020, 0x002F, 0x0020, 0x0065,
     0x0072, 0x0072, 0x006F, 0x0072, 0x005F, 0x006D, 0x0065, 0x0073, 0x0073, 0x0061, 0x0067, 0x0065,
     0x0029]"

definition ko_runtime_ko :: jstr where
  "ko_runtime_ko = [0xB7F0, 0xD0C0, 0xC784]"

definition ko_runtimes_sep :: jstr where
  "ko_runtimes_sep = [0xAC1C, 0x002C, 0x0020, 0xB7F0, 0xD0C0, 0xC784, 0x0020]"

definition ko_sample1 :: jstr where
  "ko_sample1 = [0x002D, 0x0020, 0x0073, 0x0065, 0x0074, 0x0074, 0x0069, 0x006E, 0x0067, 0x0073, 0x0020, 0xD398,
     0xC774, 0xC9C0, 0xC5D0, 0x0020, 0xB2E4, 0xD06C, 0x002F, 0xB77C, 0xC774, 0xD2B8, 0x0020, 0xD1A0,
     0xAE00, 0x0020, 0xBC84, 0xD2BC]"

definition ko_sample2 :: jstr where
  "ko_sample2 = [0x002D, 0x0020, 0x006C, 0x006F, 0x0063, 0x0061, 0x006C, 0x0053, 0x0074, 0x006F, 0x0072, 0x0061,
     0x0067, 0x0065, 0x0020, 0x0027, 0x0074, 0x0068, 0x0065, 0x006D, 0x0065, 0x0027, 0x0020, 0xD0A4,
     0xB85C, 0x0020, 0xC601, 0xC18D, 0xD654]"

definition ko_sample3 :: jstr where
  "ko_sample3 = [0x002D, 0x0020, 0xD398, 0xC774, 0xC9C0, 0x0020, 0xB85C, 0xB4DC, 0x0020, 0xC2DC, 0x0020, 0xC800,
     0xC7A5, 0xB41C, 0x0020, 0xAC12, 0x0020, 0xBCF5, 0xC6D0]"

definition ko_sample4 :: jstr where
  "ko_sample4 = [0x002D, 0x0020, 0xD0A4, 0xBCF4, 0xB4DC, 0x0020, 0xB2E8, 0xCD95, 0xD0A4, 0x0020, 0x0060, 0x003F,
     0x0060, 0xB85C, 0x0020, 0xD1A0, 0xAE00, 0x0020, 0xAC00, 0xB2A5]"

definition ko_sample_title :: jstr where
  "ko_sample_title = [0x0053, 0x0065, 0x0074, 0x0074, 0x0069, 0x006E, 0x0067, 0x0073, 0x0020, 0xD398, 0xC774, 0xC9C0,
     0x0020, 0xB2E4, 0xD06C, 0xBAA8, 0xB4DC, 0x0020, 0xD1A0, 0xAE00, 0x0020, 0xCD94, 0xAC00]"

definition ko_save :: jstr where
  "ko_save = [0xC800, 0xC7A5]"

definition ko_save_and_retry :: jstr where
  "ko_save_and_retry = [0xD1A0, 0xD070, 0x0020, 0xC800, 0xC7A5, 0x0020, 0xD6C4, 0x0020, 0xB2E4, 0xC2DC, 0x0020, 0xC2DC,
     0xB3C4]"

definition ko_save_changes :: jstr where
  "ko_save_changes = [0xBCC0, 0xACBD, 0x0020, 0xC800, 0xC7A5]"

definition ko_save_failed :: jstr where
  "ko_save_failed = [0xC800, 0xC7A5, 0x0020, 0xC2E4, 0xD328, 0x003A, 0x0020]"

definition ko_save_token :: jstr where
  "ko_save_token = [0xD1A0, 0xD070, 0x0020, 0xC800, 0xC7A5]"

definition ko_save_token_desc :: jstr where
  "ko_save_token_desc = [0xC800, 0xC7A5, 0x0020, 0xC704, 0xCE58, 0xB97C, 0x0020, 0xC120, 0xD0DD, 0xD558, 0xBA74, 0x0020,
     0xC774, 0xD6C4, 0x0020, 0x0055, 0x0049, 0x0020, 0x0041, 0x0050, 0x0049, 0x0020, 0xC694, 0xCCAD,
     0xC5D0, 0x0020, 0x0041, 0x0075, 0x0074, 0x0068, 0x006F, 0x0072, 0x0069, 0x007A, 0x0061, 0x0074,
     0x0069, 0x006F, 0x006E, 0x0020, 0x0042, 0x0065, 0x0061, 0x0072, 0x0065, 0x0072, 0x0020, 0xD5E4,
     0xB354, 0xB97C, 0x0020, 0xC790, 0xB3D9, 0xC73C, 0xB85C, 0x0020, 0xBD99, 0xC785, 0xB2C8, 0xB2E4,
     0x002E]"

definition ko_saving :: jstr where
  "ko_saving = [0xC800, 0xC7A5, 0x0020, 0xC911]"

definition ko_search_agent :: jstr where
  "ko_search_agent = [0xC5D0, 0xC774, 0xC804, 0xD2B8, 0x0020, 0xAC80, 0xC0C9]"

definition ko_search_issue :: jstr where
  "ko_search_issue = [0xC774, 0xC288, 0x0020, 0xAC80, 0xC0C9]"

definition ko_search_rule :: jstr where
  "ko_search_rule = [0xADDC, 0xCE59, 0x0020, 0xAC80, 0xC0C9]"

definition ko_sec_ago :: jstr where
  "ko_sec_ago = [0xCD08, 0x0020, 0xC804]"

definition ko_sec_ago_healthy :: jstr where
  "ko_sec_ago_healthy = [0xCD08, 0x0020, 0xC804, 0x0020, 0x0028, 0x0068, 0x0065, 0x0061, 0x006C, 0x0074, 0x0068, 0x0079,
     0x0029]"

definition ko_sec_ago_stale :: jstr where
  "ko_sec_ago_stale = [0xCD08, 0x0020, 0xC804, 0x0020, 0x0028, 0x0073, 0x0074, 0x0061, 0x006C, 0x0065, 0x0029]"

definition ko_seconds :: jstr where
  "ko_seconds = [0xCD08]"

definition ko_secret_hint :: jstr where
  "ko_secret_hint = [0xBE44, 0xC6B0, 0xBA74, 0x0020, 0xC11C, 0xBA85, 0x0020, 0xD5E4, 0xB354, 0x0020, 0xC5C6, 0xC774,
     0x0020, 0xC804, 0xC1A1]"

definition ko_secret_label :: jstr where
  "ko_secret_label = [0x0053, 0x0065, 0x0063, 0x0072, 0x0065, 0x0074, 0x0020, 0x0028, 0xC635, 0xC158, 0x002C, 0x0020,
     0x0048, 0x004D, 0x0041, 0x0043, 0x0020, 0xD0A4, 0x0029]"

definition ko_see_all :: jstr where
  "ko_see_all = [0xC804, 0xCCB4, 0x0020, 0xBCF4, 0xAE30]"

definition ko_see_issue :: jstr where
  "ko_see_issue = [0xC0DD, 0xC131, 0x0020, 0xC774, 0xC288, 0x0020, 0xBCF4, 0xAE30]"

definition ko_seed_button :: jstr where
  "ko_seed_button = [0x0041, 0x0049, 0x0020, 0x0044, 0x0065, 0x0076, 0x0020, 0x0054, 0x0065, 0x0061, 0x006D, 0x0020,
     0xC0DD, 0xC131]"

definition ko_seed_failed :: jstr where
  "ko_seed_failed = [0x0041, 0x0049, 0x0020, 0x0044, 0x0065, 0x0076, 0x0020, 0x0054, 0x0065, 0x0061, 0x006D, 0x0020,
     0xC0DD, 0xC131, 0x0020, 0xC2E4, 0xD328]"

definition ko_seed_help1 :: jstr where
  "ko_seed_help1 = [0x0050, 0x004D, 0x0020, 0x002F, 0x0020, 0x0044, 0x0065, 0x0073, 0x0069, 0x0067, 0x006E, 0x0065,
     0x0072, 0x0020, 0x002F, 0x0020, 0x0042, 0x0061, 0x0063, 0x006B, 0x0065, 0x006E, 0x0064, 0x0020,
     0x002F, 0x0020, 0x0046, 0x0072, 0x006F, 0x006E, 0x0074, 0x0065, 0x006E, 0x0064, 0x0020, 0x002F,
     0x0020, 0x0044, 0x0042, 0x0020, 0x002F, 0x0020, 0x0051, 0x0041, 0x0020, 0x002F, 0x0020, 0x0044,
     0x0065, 0x0076, 0x004F, 0x0070, 0x0073, 0x0020, 0x0037, 0xAC1C, 0x0020, 0xC5ED, 0xD560, 0x0020,
     0xC5D0, 0xC774, 0xC804, 0xD2B8, 0xC640, 0x0020, 0x0038, 0xAC1C, 0x0020, 0xC2A4, 0xD0AC, 0xC744,
     0x0020, 0xD55C, 0x0020, 0xBC88, 0xC5D0, 0x0020, 0xC0DD, 0xC131, 0xD569, 0xB2C8, 0xB2E4, 0x002E,
     0x0020, 0x0068, 0x0075, 0x0062, 0x002D, 0x0050, 0x004D, 0x0020, 0xD328, 0xD134, 0x0028]"

definition ko_seed_help2 :: jstr where
  "ko_seed_help2 = [0x0029, 0x002C, 0x0020, 0x0070, 0x0065, 0x0072, 0x002D, 0x0072, 0x0075, 0x006E, 0x0020, 0x0077,
     0x006F, 0x0072, 0x006B, 0x0074, 0x0072, 0x0065, 0x0065, 0x002C, 0x0020, 0x0061, 0x0075, 0x0074,
     0x006F, 0x005F, 0x0063, 0x006C, 0x006F, 0x0073, 0x0065, 0x003D, 0x006F, 0x0066, 0x0066, 0xB85C,
     0x0020, 0xBBF8, 0xB9AC, 0x0020, 0xC124, 0xC815, 0xB429, 0xB2C8, 0xB2E4, 0x002E, 0x0020, 0xC774,
     0xBBF8, 0x0020, 0xAC19, 0xC740, 0x0020, 0x0073, 0x006C, 0x0075, 0x0067, 0xAC00, 0x0020, 0xC788,
     0xC73C, 0xBA74, 0x0020, 0xC0C8, 0xB85C, 0x0020, 0xB9CC, 0xB4E4, 0xC9C0, 0x0020, 0xC54A, 0xACE0,
     0x0020, 0xADF8, 0xB300, 0xB85C, 0x0020, 0xC7AC, 0xC0AC, 0xC6A9, 0xD569, 0xB2C8, 0xB2E4, 0x002E]"

definition ko_seed_title :: jstr where
  "ko_seed_title = [0x0041, 0x0049, 0x0020, 0x0044, 0x0065, 0x0076, 0x0020, 0x0054, 0x0065, 0x0061, 0x006D, 0x0020,
     0xC6CC, 0xD06C, 0xC2A4, 0xD398, 0xC774, 0xC2A4]"

definition ko_selected_issue :: jstr where
  "ko_selected_issue = [0xC120, 0xD0DD, 0xD55C, 0x0020, 0xC774, 0xC288]"

definition ko_self_check :: jstr where
  "ko_self_check = [0x0073, 0x0074, 0x0061, 0x0072, 0x0074, 0x0075, 0x0070, 0x0020, 0x0073, 0x0065, 0x006C, 0x0066,
     0x002D, 0x0063, 0x0068, 0x0065, 0x0063, 0x006B, 0x0020, 0xAE30, 0xBC18]"

definition ko_serial_note :: jstr where
  "ko_serial_note = [0xC6CC, 0xD06C, 0xC2A4, 0xD398, 0xC774, 0xC2A4, 0x0020, 0xB3D9, 0xC2DC, 0x0020, 0xC2E4, 0xD589,
     0x0020, 0x0031, 0xAC74, 0x0020, 0xC81C, 0xC57D, 0x0020, 0x2014, 0x0020, 0xC21C, 0xCC28, 0xB85C,
     0x0020, 0xC2E4, 0xD589, 0xB429, 0xB2C8, 0xB2E4, 0x002E]"

definition ko_server_default :: jstr where
  "ko_server_default = [0xC11C, 0xBC84, 0x0020, 0xAE30, 0xBCF8, 0xAC12]"

definition ko_server_desc :: jstr where
  "ko_server_desc = [0xC544, 0xB798, 0x0020, 0xAC12, 0xC740, 0x0020, 0xD604, 0xC7AC, 0x0020, 0xC2E4, 0xD589, 0x0020,
     0xC911, 0xC778, 0x0020, 0xC11C, 0xBC84, 0x0020, 0xC0C1, 0xD0DC, 0xC785, 0xB2C8, 0xB2E4, 0x002E,
     0x0020, 0xB370, 0xC774, 0xD130, 0x0020, 0xB514, 0xB809, 0xD1A0, 0xB9AC, 0x002C, 0x0020, 0xD0C0,
     0xC784, 0xC874, 0x002C, 0x0020, 0x0077, 0x006F, 0x0072, 0x006B, 0x0065, 0x0072, 0x0020, 0xC218,
     0x002C, 0x0020, 0xC778, 0xC99D, 0x0020, 0xBAA8, 0xB4DC, 0xB294, 0x0020, 0x0043, 0x004C, 0x0049,
     0x0020, 0xD50C, 0xB798, 0xADF8, 0xB098, 0x0020, 0xD658, 0xACBD, 0xBCC0, 0xC218, 0xB85C, 0x0020,
     0xBC14, 0xAFB8, 0xACE0, 0x0020, 0xC11C, 0xBC84, 0xB97C, 0x0020, 0xC7AC, 0xC2DC, 0xC791, 0xD574,
     0xC57C, 0x0020, 0xD569, 0xB2C8, 0xB2E4, 0x002E]"

definition ko_server_settings :: jstr where
  "ko_server_settings = [0xC11C, 0xBC84, 0x0020, 0xC124, 0xC815]"

definition ko_session_only :: jstr where
  "ko_session_only = [0xC774, 0xBC88, 0x0020, 0xC138, 0xC158, 0xB9CC, 0x0020, 0xC800, 0xC7A5]"

definition ko_session_only2 :: jstr where
  "ko_session_only2 = [0xC774, 0xBC88, 0x0020, 0xC138, 0xC158, 0xB9CC, 0x0020, 0xC800, 0xC7A5, 0x0028, 0x0073, 0x0065,
     0x0073, 0x0073, 0x0069, 0x006F, 0x006E, 0x0053, 0x0074, 0x006F, 0x0072, 0x0061, 0x0067, 0x0065,
     0x0029]"

definition ko_settings_desc :: jstr where
  "ko_settings_desc = [0xC11C, 0xBC84, 0x0020, 0xC124, 0xC815, 0xC740, 0x0020, 0xD655, 0xC778, 0x0020, 0xC911, 0xC2EC,
     0xC774, 0xACE0, 0x002C, 0x0020, 0xBE0C, 0xB77C, 0xC6B0, 0xC800, 0x0020, 0xD1A0, 0xD070, 0x002F,
     0xC6B4, 0xC601, 0x0020, 0xC720, 0xC9C0, 0xBCF4, 0xC218, 0x0020, 0xC791, 0xC5C5, 0xC740, 0x0020,
     0xC5EC, 0xAE30, 0xC11C, 0x0020, 0xC9C1, 0xC811, 0x0020, 0xC2E4, 0xD589, 0xD569, 0xB2C8, 0xB2E4,
     0x002E]"

definition ko_settings_title :: jstr where
  "ko_settings_title = [0xC124, 0xC815]"

definition ko_show_error :: jstr where
  "ko_show_error = [0xC624, 0xB958, 0x0020, 0xBA54, 0xC2DC, 0xC9C0, 0x0020, 0xBCF4, 0xAE30]"

definition ko_show_log :: jstr where
  "ko_show_log = [0xB85C, 0xADF8, 0x0020, 0xBCF4, 0xAE30]"

definition ko_shown_hint :: jstr where
  "ko_shown_hint = [0xAC74, 0x0020, 0xD45C, 0xC2DC, 0x0020, 0x00B7, 0x0020, 0xD074, 0xB9AD, 0xD558, 0xBA74, 0x0020,
     0xD574, 0xB2F9, 0x0020, 0xC774, 0xC288, 0x0020, 0xC0C1, 0xC138, 0xB85C, 0x0020, 0xC774, 0xB3D9,
     0xD569, 0xB2C8, 0xB2E4, 0x002E]"

definition ko_signed :: jstr where
  "ko_signed = [0xC11C, 0xBA85, 0x0020, 0xC0AC, 0xC6A9]"

definition ko_skill_add :: jstr where
  "ko_skill_add = [0x0053, 0x006B, 0x0069, 0x006C, 0x006C, 0x0020, 0xB4F1, 0xB85D]"

definition ko_skill_assign_failed :: jstr where
  "ko_skill_assign_failed = [0x0053, 0x006B, 0x0069, 0x006C, 0x006C, 0x0020, 0xD560, 0xB2F9, 0x0020, 0xC2E4, 0xD328]"

definition ko_skill_content :: jstr where
  "ko_skill_content = [0xC774, 0x0020, 0x0073, 0x006B, 0x0069, 0x006C, 0x006C, 0xC758, 0x0020, 0xC7AC, 0xC0AC, 0xC6A9,
     0x0020, 0xC9C0, 0xCE68, 0xC744, 0x0020, 0xC791, 0xC131, 0xD558, 0xC138, 0xC694, 0x002E]"

definition ko_skill_create_failed :: jstr where
  "ko_skill_create_failed = [0x0053, 0x006B, 0x0069, 0x006C, 0x006C, 0x0020, 0xC0DD, 0xC131, 0x0020, 0xC2E4, 0xD328]"

definition ko_skill_hint :: jstr where
  "ko_skill_hint = [0x0052, 0x0065, 0x0064, 0x0064, 0x0069, 0x0074, 0x0020, 0x0041, 0x0049, 0x0020, 0xB17C, 0xC758,
     0x0020, 0xC694, 0xC57D, 0x0020, 0xC791, 0xC131, 0x0020, 0xBC29, 0xC2DD]"

definition ko_skill_unassign_failed :: jstr where
  "ko_skill_unassign_failed = [0x0053, 0x006B, 0x0069, 0x006C, 0x006C, 0x0020, 0xD574, 0xC81C, 0x0020, 0xC2E4, 0xD328]"

definition ko_skills_desc :: jstr where
  "ko_skills_desc = [0x0053, 0x004B, 0x0049, 0x004C, 0x004C, 0x002E, 0x006D, 0x0064, 0x0020, 0xD638, 0xD658, 0x0020,
     0xC9C0, 0xCE68, 0xC744, 0x0020, 0xC6CC, 0xD06C, 0xC2A4, 0xD398, 0xC774, 0xC2A4, 0x0020, 0x0072,
     0x0065, 0x0067, 0x0069, 0x0073, 0x0074, 0x0072, 0x0079, 0xC5D0, 0x0020, 0xC800, 0xC7A5, 0xD558,
     0xACE0, 0x002C, 0x0020, 0xC774, 0x0020, 0xC5D0, 0xC774, 0xC804, 0xD2B8, 0xC5D0, 0x0020, 0x0061,
     0x006C, 0x0077, 0x0061, 0x0079, 0x0073, 0x0020, 0x002F, 0x0020, 0x0074, 0x0072, 0x0069, 0x0067,
     0x0067, 0x0065, 0x0072, 0x0020, 0x002F, 0x0020, 0x006D, 0x0061, 0x006E, 0x0075, 0x0061, 0x006C,
     0x0020, 0xBC29, 0xC2DD, 0xC73C, 0xB85C, 0x0020, 0xD560, 0xB2F9, 0xD569, 0xB2C8, 0xB2E4, 0x002E,
     0x0020, 0xC2A4, 0xD06C, 0xB9BD, 0xD2B8, 0xB294, 0x0020, 0xC2E4, 0xD589, 0xD558, 0xC9C0, 0x0020,
     0xC54A, 0xACE0, 0x0020, 0x0070, 0x0072, 0x006F, 0x006D, 0x0070, 0x0074, 0x0020, 0x0063, 0x006F,
     0x006E, 0x0074, 0x0065, 0x0078, 0x0074, 0xB85C, 0xB9CC, 0x0020, 0xC8FC, 0xC785, 0xB429, 0xB2C8,
     0xB2E4, 0x002E]"

definition ko_skills_failed :: jstr where
  "ko_skills_failed = [0x0053, 0x006B, 0x0069, 0x006C, 0x006C, 0x0020, 0xBAA9, 0xB85D, 0x0020, 0xB85C, 0xB4DC, 0x0020,
     0xC2E4, 0xD328]"

definition ko_skills_none :: jstr where
  "ko_skills_none = [0xC544, 0xC9C1, 0x0020, 0xD560, 0xB2F9, 0xB41C, 0x0020, 0x0073, 0x006B, 0x0069, 0x006C, 0x006C,
     0xC774, 0x0020, 0xC5C6, 0xC2B5, 0xB2C8, 0xB2E4, 0x002E]"

definition ko_slug_hint :: jstr where
  "ko_slug_hint = [0x0073, 0x006C, 0x0075, 0x0067, 0x0020, 0x0028, 0xC608, 0x003A, 0x0020, 0x0061, 0x0069, 0x002D,
     0x006E, 0x0065, 0x0077, 0x0073, 0x0029]"

definition ko_snooze :: jstr where
  "ko_snooze = [0xC77C, 0xC2DC, 0x0020, 0xC815, 0xC9C0]"

definition ko_snooze1 :: jstr where
  "ko_snooze1 = [0x0031, 0xC77C, 0x0020, 0xC815, 0xC9C0]"

definition ko_snooze1_hint :: jstr where
  "ko_snooze1_hint = [0xB0B4, 0xC77C, 0xAE4C, 0xC9C0, 0x0020, 0xC790, 0xB3D9, 0x0020, 0xC0DD, 0xC131, 0x0020, 0xC911,
     0xC9C0]"

definition ko_snooze30 :: jstr where
  "ko_snooze30 = [0xD55C, 0x0020, 0xB2EC, 0x0020, 0xC815, 0xC9C0]"

definition ko_snooze30_hint :: jstr where
  "ko_snooze30_hint = [0x0033, 0x0030, 0xC77C, 0x0020, 0xD6C4, 0x0020, 0xC7AC, 0xAC1C]"

definition ko_snooze7 :: jstr where
  "ko_snooze7 = [0x0031, 0xC8FC, 0xC77C, 0x0020, 0xC815, 0xC9C0]"

definition ko_snooze7_hint :: jstr where
  "ko_snooze7_hint = [0x0037, 0xC77C, 0x0020, 0xD6C4, 0x0020, 0xC7AC, 0xAC1C]"

definition ko_snooze_at :: jstr where
  "ko_snooze_at = [0xC77C, 0xC2DC, 0x0020, 0xC815, 0xC9C0, 0x0020, 0xD574, 0xC81C, 0x0020, 0xC2DC, 0xAC01]"

definition ko_snooze_help :: jstr where
  "ko_snooze_help = [0xC124, 0xC815, 0xD55C, 0x0020, 0xC2DC, 0xAC01, 0x0020, 0xC804, 0xAE4C, 0xC9C0, 0x0020, 0x0063,
     0x0072, 0x006F, 0x006E, 0x0020, 0xC790, 0xB3D9, 0x0020, 0xC2E4, 0xD589, 0xACFC, 0x0020, 0xC218,
     0xB3D9, 0x0020, 0xC2E4, 0xD589, 0xC744, 0x0020, 0xB9C9, 0xC2B5, 0xB2C8, 0xB2E4, 0x002E]"

definition ko_snooze_off :: jstr where
  "ko_snooze_off = [0xD574, 0xC81C]"

definition ko_snooze_off_hint :: jstr where
  "ko_snooze_off_hint = [0xC815, 0xC0C1, 0x0020, 0xC2A4, 0xCF00, 0xC904, 0x0020, 0xBCF5, 0xADC0]"

definition ko_sp_elapsed :: jstr where
  "ko_sp_elapsed = [0x0020, 0xACBD, 0xACFC]"

definition ko_sp_running :: jstr where
  "ko_sp_running = [0x0020, 0xC2E4, 0xD589, 0x0020, 0xC911]"

definition ko_sp_waiting :: jstr where
  "ko_sp_waiting = [0x0020, 0xB300, 0xAE30]"

definition ko_srv_cancel_issue :: jstr where
  "ko_srv_cancel_issue = [0xC774, 0xC288, 0x0020, 0xCDE8, 0xC18C, 0xB85C, 0x0020, 0xC2E4, 0xD589, 0xC774, 0x0020, 0xCDE8,
     0xC18C, 0xB418, 0xC5C8, 0xC2B5, 0xB2C8, 0xB2E4]"

definition ko_srv_cancel_orphan :: jstr where
  "ko_srv_cancel_orphan = [0xC7AC, 0xC2DC, 0xC791, 0x0020, 0xC911, 0x0020, 0xC9C4, 0xD589, 0x0020, 0xC791, 0xC5C5, 0xC774,
     0x0020, 0xCDE8, 0xC18C, 0xB418, 0xC5C8, 0xC2B5, 0xB2C8, 0xB2E4, 0x0020, 0x0028, 0x006F, 0x0072,
     0x0070, 0x0068, 0x0061, 0x006E, 0x0020, 0x0072, 0x0065, 0x0063, 0x006F, 0x0076, 0x0065, 0x0072,
     0x0065, 0x0064, 0x0029]"

definition ko_srv_cancel_shutdown :: jstr where
  "ko_srv_cancel_shutdown = [0xC11C, 0xBC84, 0x0020, 0xC885, 0xB8CC, 0xB85C, 0x0020, 0xC2E4, 0xD589, 0xC774, 0x0020, 0xCDE8,
     0xC18C, 0xB418, 0xC5C8, 0xC2B5, 0xB2C8, 0xB2E4]"

definition ko_srv_cancel_stale :: jstr where
  "ko_srv_cancel_stale = [0xC624, 0xB798, 0xB41C, 0x0020, 0xC9C4, 0xD589, 0x0020, 0xC791, 0xC5C5, 0xC774, 0x0020, 0xCDE8,
     0xC18C, 0xB418, 0xC5C8, 0xC2B5, 0xB2C8, 0xB2E4, 0x0020, 0x0028, 0x0073, 0x0074, 0x0061, 0x006C,
     0x0065, 0x0020, 0x0072, 0x0065, 0x0063, 0x006F, 0x0076, 0x0065, 0x0072, 0x0065, 0x0064, 0x0029]"

definition ko_srv_cancel_user :: jstr where
  "ko_srv_cancel_user = [0xC0AC, 0xC6A9, 0xC790, 0xAC00, 0x0020, 0xC2E4, 0xD589, 0xC744, 0x0020, 0xCDE8, 0xC18C, 0xD588,
     0xC2B5, 0xB2C8, 0xB2E4]"

definition ko_srv_done_empty :: jstr where
  "ko_srv_done_empty = [0xC5D0, 0xC774, 0xC804, 0xD2B8, 0xAC00, 0x0020, 0xCD9C, 0xB825, 0x0020, 0xC5C6, 0xC774, 0x0020,
     0xC644, 0xB8CC, 0xB418, 0xC5C8, 0xC2B5, 0xB2C8, 0xB2E4, 0x002E]"

definition ko_srv_failed :: jstr where
  "ko_srv_failed = [0xC5D0, 0xC774, 0xC804, 0xD2B8, 0x0020, 0xC2E4, 0xD589, 0xC774, 0x0020, 0xC2E4, 0xD328, 0xD588,
     0xC2B5, 0xB2C8, 0xB2E4, 0x003A, 0x0020]"

definition ko_srv_failed_empty :: jstr where
  "ko_srv_failed_empty = [0xC5D0, 0xC774, 0xC804, 0xD2B8, 0x0020, 0xC2E4, 0xD589, 0xC774, 0x0020, 0xC2E4, 0xD328, 0xD588,
     0xC9C0, 0xB9CC, 0x0020, 0xCD9C, 0xB825, 0xC774, 0x0020, 0xC5C6, 0xC2B5, 0xB2C8, 0xB2E4, 0x002E]"

definition ko_srv_issue_cancelled :: jstr where
  "ko_srv_issue_cancelled = [0xC774, 0xC288, 0xAC00, 0x0020, 0xCDE8, 0xC18C, 0xB418, 0xC5C8, 0xC2B5, 0xB2C8, 0xB2E4]"

definition ko_srv_multi1 :: jstr where
  "ko_srv_multi1 = [0xBA58, 0xC158, 0xC774, 0x0020, 0xB458, 0x0020, 0xC774, 0xC0C1, 0xC774, 0xB77C, 0x0020, 0x0040]"

definition ko_srv_multi2 :: jstr where
  "ko_srv_multi2 = [0xB9CC, 0x0020, 0xC801, 0xC6A9, 0xB429, 0xB2C8, 0xB2E4]"

definition ko_srv_retry :: jstr where
  "ko_srv_retry = [0xC77C, 0xC2DC, 0xC801, 0x0020, 0xC624, 0xB958, 0xB85C, 0x0020, 0xC7AC, 0xC2DC, 0xB3C4, 0xB97C,
     0x0020, 0xC608, 0xC57D, 0xD588, 0xC2B5, 0xB2C8, 0xB2E4, 0x0020, 0x0028, 0x0061, 0x0074, 0x0074,
     0x0065, 0x006D, 0x0070, 0x0074, 0x0020]"

definition ko_srv_started :: jstr where
  "ko_srv_started = [0x0020, 0xC2E4, 0xD589, 0xC744, 0x0020, 0xC2DC, 0xC791, 0xD588, 0xC2B5, 0xB2C8, 0xB2E4]"

definition ko_srv_unknown1 :: jstr where
  "ko_srv_unknown1 = [0xC5D0, 0xC774, 0xC804, 0xD2B8, 0x0020, 0x0040]"

definition ko_srv_unknown2 :: jstr where
  "ko_srv_unknown2 = [0xC744, 0x0020, 0xCC3E, 0xC744, 0x0020, 0xC218, 0x0020, 0xC5C6, 0xC2B5, 0xB2C8, 0xB2E4]"

definition ko_st_available :: jstr where
  "ko_st_available = [0xC0AC, 0xC6A9, 0x0020, 0xAC00, 0xB2A5]"

definition ko_st_cancelled :: jstr where
  "ko_st_cancelled = [0xCDE8, 0xC18C]"

definition ko_st_disabled :: jstr where
  "ko_st_disabled = [0xBE44, 0xD65C, 0xC131]"

definition ko_st_done :: jstr where
  "ko_st_done = [0xC644, 0xB8CC]"

definition ko_st_enabled :: jstr where
  "ko_st_enabled = [0xD65C, 0xC131]"

definition ko_st_error :: jstr where
  "ko_st_error = [0xC624, 0xB958]"

definition ko_st_failed :: jstr where
  "ko_st_failed = [0xC2E4, 0xD328]"

definition ko_st_idle :: jstr where
  "ko_st_idle = [0xB300, 0xAE30, 0x0020, 0xC5C6, 0xC74C]"

definition ko_st_missing :: jstr where
  "ko_st_missing = [0xC5C6, 0xC74C]"

definition ko_st_off :: jstr where
  "ko_st_off = [0xAEBC, 0xC9D0]"

definition ko_st_ok :: jstr where
  "ko_st_ok = [0xC815, 0xC0C1]"

definition ko_st_on :: jstr where
  "ko_st_on = [0xCF1C, 0xC9D0]"

definition ko_st_open :: jstr where
  "ko_st_open = [0xC5F4, 0xB9BC]"

definition ko_st_queued :: jstr where
  "ko_st_queued = [0xB300, 0xAE30]"

definition ko_st_ready :: jstr where
  "ko_st_ready = [0xC900, 0xBE44, 0xB428]"

definition ko_st_running :: jstr where
  "ko_st_running = [0xC2E4, 0xD589, 0x0020, 0xC911]"

definition ko_st_unavailable :: jstr where
  "ko_st_unavailable = [0xC0AC, 0xC6A9, 0x0020, 0xBD88, 0xAC00]"

definition ko_st_unknown :: jstr where
  "ko_st_unknown = [0xC54C, 0x0020, 0xC218, 0x0020, 0xC5C6, 0xC74C]"

definition ko_stages_done :: jstr where
  "ko_stages_done = [0xB2E8, 0xACC4, 0x0020, 0x00B7, 0x0020, 0xC644, 0xB8CC, 0x0020]"

definition ko_stages_paren :: jstr where
  "ko_stages_paren = [0xB2E8, 0xACC4, 0x0020, 0x0028, 0xC644, 0xB8CC, 0x0020]"

definition ko_start_board :: jstr where
  "ko_start_board = [0xBCF4, 0xB4DC, 0x0020, 0xC0DD, 0xC131, 0xC744, 0x0020, 0xC2DC, 0xC791, 0xD558, 0xC138, 0xC694]"

definition ko_start_new :: jstr where
  "ko_start_new = [0xC0C8, 0x0020, 0xC6CC, 0xD06C, 0xC2A4, 0xD398, 0xC774, 0xC2A4, 0xB97C, 0x0020, 0xB9CC, 0xB4E4,
     0xC5B4, 0x0020, 0xC2DC, 0xC791]"

definition ko_start_sample :: jstr where
  "ko_start_sample = [0xC0D8, 0xD50C, 0x0020, 0xC774, 0xC288, 0xB85C, 0x0020, 0xC2DC, 0xC791]"

definition ko_started :: jstr where
  "ko_started = [0xC2DC, 0xC791]"

definition ko_state :: jstr where
  "ko_state = [0xC0C1, 0xD0DC]"

definition ko_status :: jstr where
  "ko_status = [0xC0C1, 0xD0DC]"

definition ko_status_failed :: jstr where
  "ko_status_failed = [0xC0C1, 0xD0DC, 0x0020, 0xBCC0, 0xACBD, 0x0020, 0xC2E4, 0xD328]"

definition ko_status_filter :: jstr where
  "ko_status_filter = [0xC774, 0xC288, 0x0020, 0xC0C1, 0xD0DC, 0x0020, 0xD544, 0xD130]"

definition ko_stopped_now :: jstr where
  "ko_stopped_now = [0xC815, 0xC9C0, 0x0020, 0xC911]"

definition ko_stream_end :: jstr where
  "ko_stream_end = [0x0020, 0x0028, 0xC2A4, 0xD2B8, 0xB9BC, 0x0020, 0xC885, 0xB8CC, 0x0029]"

definition ko_sub_body :: jstr where
  "ko_sub_body = [0xD558, 0xC704, 0x0020, 0xC774, 0xC288, 0x0020, 0xBCF8, 0xBB38]"

definition ko_sub_created :: jstr where
  "ko_sub_created = [0xD558, 0xC704, 0x0020, 0xC774, 0xC288, 0xB97C, 0x0020, 0xC0DD, 0xC131, 0xD588, 0xC2B5, 0xB2C8,
     0xB2E4, 0x002E]"

definition ko_sub_failed :: jstr where
  "ko_sub_failed = [0xD558, 0xC704, 0x0020, 0xC774, 0xC288, 0x0020, 0xC0DD, 0xC131, 0x0020, 0xC2E4, 0xD328]"

definition ko_sub_issues :: jstr where
  "ko_sub_issues = [0xD558, 0xC704, 0x0020, 0xC774, 0xC288]"

definition ko_sub_title :: jstr where
  "ko_sub_title = [0xD558, 0xC704, 0x0020, 0xC774, 0xC288, 0x0020, 0xC81C, 0xBAA9]"

definition ko_summary_hint :: jstr where
  "ko_summary_hint = [0xC608, 0x003A, 0x0020, 0xAE34, 0x0020, 0xB9AC, 0xC11C, 0xCE58, 0xB97C, 0x0020, 0xC694, 0xC57D,
     0xD558, 0xB294, 0x0020, 0xC791, 0xC131, 0xC790]"

definition ko_t1_body :: jstr where
  "ko_t1_body = [0xC624, 0xB298, 0xC758, 0x0020, 0x0041, 0x0049, 0x0020, 0xC8FC, 0xC694, 0x0020, 0xB274, 0xC2A4,
     0xB97C, 0x0020, 0x0035, 0xAC1C, 0xB85C, 0x0020, 0xC694, 0xC57D, 0xD558, 0xACE0, 0x002C, 0x0020,
     0xCD9C, 0xCC98, 0x0020, 0xB9C1, 0xD06C, 0xC640, 0x0020, 0xC601, 0xD5A5, 0xB3C4, 0xB97C, 0x0020,
     0xC815, 0xB9AC, 0xD558, 0xC138, 0xC694, 0x002E]"

definition ko_t1_name :: jstr where
  "ko_t1_name = [0xB9E4, 0xC77C, 0x0020, 0x0041, 0x0049, 0x0020, 0xB274, 0xC2A4, 0x0020, 0xBE0C, 0xB9AC, 0xD551]"

definition ko_t1_sum :: jstr where
  "ko_t1_sum = [0xB9E4, 0xC77C, 0x0020, 0xC624, 0xC804, 0x0020, 0x0039, 0xC2DC, 0x0020, 0x0041, 0x0049, 0x0020,
     0xB274, 0xC2A4, 0x0020, 0xC815, 0xB9AC, 0x0020, 0xC774, 0xC288, 0x0020, 0xC0DD, 0xC131]"

definition ko_t1_title :: jstr where
  "ko_t1_title = [0x007B, 0x007B, 0x0064, 0x0061, 0x0074, 0x0065, 0x007D, 0x007D, 0x0020, 0x0041, 0x0049, 0x0020,
     0xB274, 0xC2A4, 0x0020, 0xBE0C, 0xB9AC, 0xD551]"

definition ko_t2_body :: jstr where
  "ko_t2_body = [0xC774, 0xBC88, 0x0020, 0xC8FC, 0x0020, 0xC644, 0xB8CC, 0x002F, 0xC9C4, 0xD589, 0x002F, 0xC2E4,
     0xD328, 0x0020, 0xC791, 0xC5C5, 0xC744, 0x0020, 0xC694, 0xC57D, 0xD558, 0xACE0, 0x0020, 0xB2E4,
     0xC74C, 0x0020, 0xC561, 0xC158, 0xC744, 0x0020, 0xC81C, 0xC548, 0xD558, 0xC138, 0xC694, 0x002E]"

definition ko_t2_name :: jstr where
  "ko_t2_name = [0xC8FC, 0xAC04, 0x0020, 0xC791, 0xC5C5, 0x0020, 0xD68C, 0xACE0]"

definition ko_t2_sum :: jstr where
  "ko_t2_sum = [0xB9E4, 0xC8FC, 0x0020, 0xAE08, 0xC694, 0xC77C, 0x0020, 0xC791, 0xC5C5, 0x0020, 0xD750, 0xB984,
     0x0020, 0xC694, 0xC57D]"

definition ko_t2_title :: jstr where
  "ko_t2_title = [0x007B, 0x007B, 0x0064, 0x0061, 0x0074, 0x0065, 0x007D, 0x007D, 0x0020, 0xC8FC, 0xAC04, 0x0020,
     0xC791, 0xC5C5, 0x0020, 0xD68C, 0xACE0]"

definition ko_t3_body :: jstr where
  "ko_t3_body = [0xCD5C, 0xADFC, 0x0020, 0xBCC0, 0xACBD, 0x0020, 0xC0AC, 0xD56D, 0xACFC, 0x0020, 0xBB38, 0xC11C,
     0xC758, 0x0020, 0xBD88, 0xC77C, 0xCE58, 0xB97C, 0x0020, 0xCC3E, 0xC544, 0x0020, 0xC5C5, 0xB370,
     0xC774, 0xD2B8, 0x0020, 0xD6C4, 0xBCF4, 0xB97C, 0x0020, 0xC81C, 0xC548, 0xD558, 0xC138, 0xC694,
     0x002E]"

definition ko_t3_name :: jstr where
  "ko_t3_name = [0xBB38, 0xC11C, 0x0020, 0xAC2D, 0x0020, 0xC810, 0xAC80]"

definition ko_t3_sum :: jstr where
  "ko_t3_sum = [0xB9E4, 0xC8FC, 0x0020, 0xC6D4, 0xC694, 0xC77C, 0x0020, 0xBB38, 0xC11C, 0x0020, 0xC815, 0xD569,
     0xC131, 0x0020, 0xD655, 0xC778]"

definition ko_t3_title :: jstr where
  "ko_t3_title = [0x007B, 0x007B, 0x0064, 0x0061, 0x0074, 0x0065, 0x007D, 0x007D, 0x0020, 0xBB38, 0xC11C, 0x0020,
     0xAC2D, 0x0020, 0xC810, 0xAC80]"

definition ko_tags :: jstr where
  "ko_tags = [0xD0DC, 0xADF8]"

definition ko_team_activity :: jstr where
  "ko_team_activity = [0xD83D, 0xDC65, 0x0020, 0xD300, 0x0020, 0xD65C, 0xB3D9]"

definition ko_templates :: jstr where
  "ko_templates = [0xC790, 0xC8FC, 0x0020, 0xC4F0, 0xB294, 0x0020, 0xD15C, 0xD50C, 0xB9BF]"

definition ko_theme :: jstr where
  "ko_theme = [0xD14C, 0xB9C8]"

definition ko_theme_help :: jstr where
  "ko_theme_help = [0xC88C, 0xCE21, 0x0020, 0xD558, 0xB2E8, 0x0020, 0x004C, 0x0069, 0x0067, 0x0068, 0x0074, 0x002F,
     0x0044, 0x0061, 0x0072, 0x006B, 0x0020, 0xBC84, 0xD2BC, 0xC5D0, 0xC11C, 0x0020, 0xBCC0, 0xACBD]"

definition ko_timeline :: jstr where
  "ko_timeline = [0xC774, 0xBCA4, 0xD2B8, 0x0020, 0xD0C0, 0xC784, 0xB77C, 0xC778, 0x0020]"

definition ko_timeout_default :: jstr where
  "ko_timeout_default = [0xBE44, 0xC6B0, 0xBA74, 0x0020, 0xC6CC, 0xD06C, 0xC2A4, 0xD398, 0xC774, 0xC2A4, 0x0020, 0xAE30,
     0xBCF8, 0xAC12, 0x0020, 0xC0AC, 0xC6A9]"

definition ko_timeout_override :: jstr where
  "ko_timeout_override = [0xC2E4, 0xD589, 0x0020, 0x0074, 0x0069, 0x006D, 0x0065, 0x006F, 0x0075, 0x0074, 0x0020, 0x006F,
     0x0076, 0x0065, 0x0072, 0x0072, 0x0069, 0x0064, 0x0065, 0x0020, 0x0028, 0xCD08, 0x0029]"

definition ko_times :: jstr where
  "ko_times = [0x00D7]"

definition ko_timezone :: jstr where
  "ko_timezone = [0xD0C0, 0xC784, 0xC874]"

definition ko_title :: jstr where
  "ko_title = [0xC81C, 0xBAA9]"

definition ko_title_template :: jstr where
  "ko_title_template = [0xC774, 0xC288, 0x0020, 0xC81C, 0xBAA9, 0x0020, 0xD15C, 0xD50C, 0xB9BF]"

definition ko_to_theme :: jstr where
  "ko_to_theme = [0x0020, 0xD14C, 0xB9C8, 0xB85C, 0x0020, 0xC804, 0xD658]"

definition ko_toast_cancelled :: jstr where
  "ko_toast_cancelled = [0xC774, 0xC288, 0xB97C, 0x0020, 0xCDE8, 0xC18C, 0xD588, 0xC2B5, 0xB2C8, 0xB2E4, 0x002E]"

definition ko_toast_close :: jstr where
  "ko_toast_close = [0xC54C, 0xB9BC, 0x0020, 0xB2EB, 0xAE30]"

definition ko_toast_done :: jstr where
  "ko_toast_done = [0xC774, 0xC288, 0xB97C, 0x0020, 0xC644, 0xB8CC, 0x0020, 0xCC98, 0xB9AC, 0xD588, 0xC2B5, 0xB2C8,
     0xB2E4, 0x002E]"

definition ko_toast_region :: jstr where
  "ko_toast_region = [0xC54C, 0xB9BC]"

definition ko_toast_reopened :: jstr where
  "ko_toast_reopened = [0xC774, 0xC288, 0xB97C, 0x0020, 0xB2E4, 0xC2DC, 0x0020, 0xC5F4, 0xC5C8, 0xC2B5, 0xB2C8, 0xB2E4,
     0x002E]"

definition ko_token_deleted :: jstr where
  "ko_token_deleted = [0xD1A0, 0xD070, 0xC744, 0x0020, 0xC0AD, 0xC81C, 0xD588, 0xC2B5, 0xB2C8, 0xB2E4, 0x002E]"

definition ko_token_desc :: jstr where
  "ko_token_desc = [0xC11C, 0xBC84, 0xAC00, 0x0020, 0x0074, 0x006F, 0x006B, 0x0065, 0x006E, 0x0020, 0x006D, 0x006F,
     0x0064, 0x0065, 0xB85C, 0x0020, 0xC2E4, 0xD589, 0x0020, 0xC911, 0xC77C, 0x0020, 0xB54C, 0x0020,
     0xC0AC, 0xC6A9, 0xD558, 0xB294, 0x0020, 0xBE0C, 0xB77C, 0xC6B0, 0xC800, 0x0020, 0xB85C, 0xCEEC,
     0x0020, 0xC124, 0xC815, 0xC785, 0xB2C8, 0xB2E4, 0x002E, 0x0020, 0xD1A0, 0xD070, 0xC740, 0x0020,
     0xC11C, 0xBC84, 0xAC00, 0x0020, 0xC544, 0xB2C8, 0xB77C, 0x0020, 0xC774, 0x0020, 0xBE0C, 0xB77C,
     0xC6B0, 0xC800, 0xC758, 0x0020, 0x006C, 0x006F, 0x0063, 0x0061, 0x006C, 0x0053, 0x0074, 0x006F,
     0x0072, 0x0061, 0x0067, 0x0065, 0x0020, 0xB610, 0xB294, 0x0020, 0x0073, 0x0065, 0x0073, 0x0073,
     0x0069, 0x006F, 0x006E, 0x0053, 0x0074, 0x006F, 0x0072, 0x0061, 0x0067, 0x0065, 0xC5D0, 0x0020,
     0xC800, 0xC7A5, 0xB429, 0xB2C8, 0xB2E4, 0x002E]"

definition ko_token_help1 :: jstr where
  "ko_token_help1 = [0xC11C, 0xBC84, 0xAC00, 0x0020, 0x0074, 0x006F, 0x006B, 0x0065, 0x006E, 0x0020, 0x006D, 0x006F,
     0x0064, 0x0065, 0xB85C, 0x0020, 0xC2E4, 0xD589, 0x0020, 0xC911, 0xC785, 0xB2C8, 0xB2E4, 0x002E,
     0x0020, 0x0060, 0x002D, 0x002D, 0x0074, 0x006F, 0x006B, 0x0065, 0x006E, 0x0060, 0x0020, 0xAC12,
     0x0020, 0xB610, 0xB294, 0x0020, 0x0060, 0x0043, 0x0052, 0x004F, 0x004E, 0x005F, 0x0041, 0x0047,
     0x0045, 0x004E, 0x0054, 0x005F, 0x0044, 0x0041, 0x0053, 0x0048, 0x0042, 0x004F, 0x0041, 0x0052,
     0x0044, 0x005F, 0x0054, 0x004F, 0x004B, 0x0045, 0x004E, 0x0060, 0x0020, 0xAC12, 0xC744, 0x0020,
     0xC785, 0xB825, 0xD558, 0xBA74, 0x0020, 0x0055, 0x0049, 0x0020, 0xC694, 0xCCAD, 0xC5D0, 0x0020,
     0xC790, 0xB3D9, 0xC73C, 0xB85C, 0x0020, 0x0042, 0x0065, 0x0061, 0x0072, 0x0065, 0x0072, 0x0020,
     0xD1A0, 0xD070, 0xC744, 0x0020, 0xBD99, 0xC785, 0xB2C8, 0xB2E4, 0x002E]"

definition ko_token_help2 :: jstr where
  "ko_token_help2 = [0xAE30, 0xBCF8, 0xAC12, 0xC740, 0x0020, 0xBE0C, 0xB77C, 0xC6B0, 0xC800, 0x0020, 0x006C, 0x006F,
     0x0063, 0x0061, 0x006C, 0x0053, 0x0074, 0x006F, 0x0072, 0x0061, 0x0067, 0x0065, 0x0020, 0xC800,
     0xC7A5, 0xC774, 0xBA70, 0x002C, 0x0020, 0x201C, 0xC774, 0xBC88, 0x0020, 0xC138, 0xC158, 0xB9CC,
     0x0020, 0xC800, 0xC7A5, 0x201D, 0xC744, 0x0020, 0xC120, 0xD0DD, 0xD558, 0xBA74, 0x0020, 0x0073,
     0x0065, 0x0073, 0x0073, 0x0069, 0x006F, 0x006E, 0x0053, 0x0074, 0x006F, 0x0072, 0x0061, 0x0067,
     0x0065, 0xC5D0, 0xB9CC, 0x0020, 0xC800, 0xC7A5, 0xB429, 0xB2C8, 0xB2E4, 0x002E]"

definition ko_token_needed :: jstr where
  "ko_token_needed = [0x0041, 0x0050, 0x0049, 0x0020, 0xD1A0, 0xD070, 0x0020, 0xD544, 0xC694]"

definition ko_token_saved_local :: jstr where
  "ko_token_saved_local = [0xD1A0, 0xD070, 0xC744, 0x0020, 0xBE0C, 0xB77C, 0xC6B0, 0xC800, 0x0020, 0x006C, 0x006F, 0x0063,
     0x0061, 0x006C, 0x0053, 0x0074, 0x006F, 0x0072, 0x0061, 0x0067, 0x0065, 0xC5D0, 0x0020, 0xC800,
     0xC7A5, 0xD588, 0xC2B5, 0xB2C8, 0xB2E4, 0x002E]"

definition ko_token_saved_session :: jstr where
  "ko_token_saved_session = [0xD1A0, 0xD070, 0xC744, 0x0020, 0xC774, 0xBC88, 0x0020, 0xBE0C, 0xB77C, 0xC6B0, 0xC800, 0x0020,
     0xC138, 0xC158, 0x0028, 0x0073, 0x0065, 0x0073, 0x0073, 0x0069, 0x006F, 0x006E, 0x0053, 0x0074,
     0x006F, 0x0072, 0x0061, 0x0067, 0x0065, 0x0029, 0xC5D0, 0x0020, 0xC800, 0xC7A5, 0xD588, 0xC2B5,
     0xB2C8, 0xB2E4, 0x002E]"

definition ko_token_sp :: jstr where
  "ko_token_sp = [0xD1A0, 0xD070, 0x0020]"

definition ko_tokens :: jstr where
  "ko_tokens = [0xD1A0, 0xD070]"

definition ko_tokens7 :: jstr where
  "ko_tokens7 = [0x0037, 0xC77C, 0x0020, 0xD1A0, 0xD070]"

definition ko_total_sep :: jstr where
  "ko_total_sep = [0x0020, 0x00B7, 0x0020, 0xB204, 0xC801, 0x0020]"

definition ko_total_sp :: jstr where
  "ko_total_sp = [0xC804, 0xCCB4, 0x0020]"

definition ko_tr_completed :: jstr where
  "ko_tr_completed = [0xC815, 0xC0C1, 0x0020, 0xC885, 0xB8CC]"

definition ko_tr_executor_error :: jstr where
  "ko_tr_executor_error = [0xC2E4, 0xD589, 0xAE30, 0x0020, 0xC624, 0xB958]"

definition ko_tr_exit_nonzero :: jstr where
  "ko_tr_exit_nonzero = [0xBE44, 0xC815, 0xC0C1, 0x0020, 0xC885, 0xB8CC]"

definition ko_tr_issue_cancelled :: jstr where
  "ko_tr_issue_cancelled = [0xC774, 0xC288, 0x0020, 0xCDE8, 0xC18C]"

definition ko_tr_orphan :: jstr where
  "ko_tr_orphan = [0xACE0, 0xC544, 0x0020, 0xC2E4, 0xD589, 0x0020, 0xBCF5, 0xAD6C]"

definition ko_tr_prepare_failed :: jstr where
  "ko_tr_prepare_failed = [0xC2E4, 0xD589, 0x0020, 0xC900, 0xBE44, 0x0020, 0xC2E4, 0xD328]"

definition ko_tr_shutdown :: jstr where
  "ko_tr_shutdown = [0xC11C, 0xBC84, 0x0020, 0xC885, 0xB8CC]"

definition ko_tr_stale :: jstr where
  "ko_tr_stale = [0xC624, 0xB798, 0xB41C, 0x0020, 0xC2E4, 0xD589, 0x0020, 0xBCF5, 0xAD6C]"

definition ko_tr_timeout :: jstr where
  "ko_tr_timeout = [0xC2DC, 0xAC04, 0x0020, 0xCD08, 0xACFC]"

definition ko_tr_unknown :: jstr where
  "ko_tr_unknown = [0xC54C, 0x0020, 0xC218, 0x0020, 0xC5C6, 0xB294, 0x0020, 0xC2E4, 0xD328]"

definition ko_tr_user_cancelled :: jstr where
  "ko_tr_user_cancelled = [0xC0AC, 0xC6A9, 0xC790, 0x0020, 0xCDE8, 0xC18C]"

definition ko_tr_worker_panic :: jstr where
  "ko_tr_worker_panic = [0xC6CC, 0xCEE4, 0x0020, 0xD328, 0xB2C9]"

definition ko_trig_autopilot :: jstr where
  "ko_trig_autopilot = [0xC624, 0xD1A0, 0xD30C, 0xC77C, 0xB7FF]"

definition ko_trig_created :: jstr where
  "ko_trig_created = [0xC774, 0xC288, 0x0020, 0xC0DD, 0xC131]"

definition ko_trig_mention :: jstr where
  "ko_trig_mention = [0xBA58, 0xC158]"

definition ko_trig_rerun :: jstr where
  "ko_trig_rerun = [0xC7AC, 0xC2E4, 0xD589]"

definition ko_trigger_failed :: jstr where
  "ko_trigger_failed = [0x0020, 0xC2E4, 0xD589, 0x0020, 0xC2E4, 0xD328, 0x003A, 0x0020]"

definition ko_trigger_ok :: jstr where
  "ko_trigger_ok = [0x0020, 0xC2E4, 0xD589, 0x0020, 0xC774, 0xC288, 0xB97C, 0x0020, 0xC0DD, 0xC131, 0xD588, 0xC2B5,
     0xB2C8, 0xB2E4, 0x002E]"

definition ko_try_again_plain :: jstr where
  "ko_try_again_plain = [0xB2E4, 0xC2DC, 0x0020, 0xC2DC, 0xB3C4]"

definition ko_turn_off :: jstr where
  "ko_turn_off = [0xB044, 0xAE30]"

definition ko_turn_on :: jstr where
  "ko_turn_on = [0xCF1C, 0xAE30]"

definition ko_unassign :: jstr where
  "ko_unassign = [0xD574, 0xC81C]"

definition ko_unknown_error :: jstr where
  "ko_unknown_error = [0xC54C, 0x0020, 0xC218, 0x0020, 0xC5C6, 0xB294, 0x0020, 0xC624, 0xB958]"

definition ko_unrecovered :: jstr where
  "ko_unrecovered = [0x26A0, 0x0020, 0xC544, 0xC9C1, 0x0020, 0xAC19, 0xC740, 0x0020, 0xC5D0, 0xC774, 0xC804, 0xD2B8,
     0xC758, 0x0020, 0xD6C4, 0xC18D, 0x0020, 0xC131, 0xACF5, 0x0020, 0x0072, 0x0075, 0x006E, 0xC774,
     0x0020, 0xC5C6, 0xC2B5, 0xB2C8, 0xB2E4, 0x002E, 0x0020, 0xC7AC, 0xC2DC, 0xB3C4, 0x0020, 0xB610,
     0xB294, 0x0020, 0xBA58, 0xC158, 0x0020, 0xBCF4, 0xAC15, 0xC774, 0x0020, 0xD544, 0xC694, 0xD560,
     0x0020, 0xC218, 0x0020, 0xC788, 0xC2B5, 0xB2C8, 0xB2E4, 0x002E]"

definition ko_upload :: jstr where
  "ko_upload = [0xC5C5, 0xB85C, 0xB4DC]"

definition ko_upload_failed :: jstr where
  "ko_upload_failed = [0xC5C5, 0xB85C, 0xB4DC, 0x0020, 0xC2E4, 0xD328]"

definition ko_uploading :: jstr where
  "ko_uploading = [0xC5C5, 0xB85C, 0xB4DC, 0x0020, 0xC911]"

definition ko_url_needed :: jstr where
  "ko_url_needed = [0x0055, 0x0052, 0x004C, 0xC774, 0x0020, 0xD544, 0xC694, 0xD569, 0xB2C8, 0xB2E4, 0x002E]"

definition ko_usage_desc :: jstr where
  "ko_usage_desc = [0xB7F0, 0xD0C0, 0xC784, 0xC774, 0x0020, 0xBCF4, 0xACE0, 0xD55C, 0x0020, 0x0074, 0x006F, 0x006B,
     0x0065, 0x006E, 0x002F, 0x0063, 0x006F, 0x0073, 0x0074, 0x0020, 0x006D, 0x0065, 0x0074, 0x0072,
     0x0069, 0x0063, 0x0020, 0xAE30, 0xC900, 0xC785, 0xB2C8, 0xB2E4, 0x002E, 0x0020, 0xAC12, 0xC774,
     0x0020, 0x0030, 0xC774, 0xBA74, 0x0020, 0x0043, 0x004C, 0x0049, 0xAC00, 0x0020, 0xC0AC, 0xC6A9,
     0xB7C9, 0xC744, 0x0020, 0xCD9C, 0xB825, 0xD558, 0xC9C0, 0x0020, 0xC54A, 0xC558, 0xAC70, 0xB098,
     0x0020, 0xC544, 0xC9C1, 0x0020, 0xCE21, 0xC815, 0x0020, 0x0072, 0x0075, 0x006E, 0xC774, 0x0020,
     0xC5C6, 0xB294, 0x0020, 0xC0C1, 0xD0DC, 0xC785, 0xB2C8, 0xB2E4, 0x002E]"

definition ko_usage_title :: jstr where
  "ko_usage_title = [0xC0AC, 0xC6A9, 0xB7C9, 0x0020, 0xB300, 0xC2DC, 0xBCF4, 0xB4DC]"

definition ko_use_worktree :: jstr where
  "ko_use_worktree = [0x0072, 0x0075, 0x006E, 0xB9C8, 0xB2E4, 0x0020, 0xBCC4, 0xB3C4, 0x0020, 0x0077, 0x006F, 0x0072,
     0x006B, 0x0074, 0x0072, 0x0065, 0x0065, 0x0020, 0xC0AC, 0xC6A9, 0x0020, 0x0028, 0xC6CC, 0xD06C,
     0xC2A4, 0xD398, 0xC774, 0xC2A4, 0x0020, 0xB3D9, 0xC2DC, 0x0020, 0xC2E4, 0xD589, 0x0020, 0xD5C8,
     0xC6A9, 0x0029]"

definition ko_utc_files :: jstr where
  "ko_utc_files = [0x0020, 0x0055, 0x0054, 0x0043, 0x0020, 0x2014, 0x0020, 0xD30C, 0xC77C, 0x0020]"

definition ko_vacuum_desc :: jstr where
  "ko_vacuum_desc = [0xC0AD, 0xC81C, 0x0020, 0xD6C4, 0x0020, 0xB0A8, 0xC740, 0x0020, 0x0053, 0x0051, 0x004C, 0x0069,
     0x0074, 0x0065, 0x0020, 0xBE48, 0x0020, 0xACF5, 0xAC04, 0xC744, 0x0020, 0xD68C, 0xC218, 0xD574,
     0x0020, 0x0044, 0x0042, 0x0020, 0xD30C, 0xC77C, 0xC744, 0x0020, 0xC815, 0xB9AC, 0xD569, 0xB2C8,
     0xB2E4, 0x002E, 0x0020, 0xB370, 0xC774, 0xD130, 0xB294, 0x0020, 0xC0AD, 0xC81C, 0xD558, 0xC9C0,
     0x0020, 0xC54A, 0xC2B5, 0xB2C8, 0xB2E4, 0x002E]"

definition ko_vacuum_done :: jstr where
  "ko_vacuum_done = [0x0056, 0x0061, 0x0063, 0x0075, 0x0075, 0x006D, 0x0020, 0xC644, 0xB8CC, 0x003A, 0x0020]"

definition ko_version :: jstr where
  "ko_version = [0xBC84, 0xC804]"

definition ko_versions_desc :: jstr where
  "ko_versions_desc = [0xC5D0, 0xC774, 0xC804, 0xD2B8, 0x0020, 0xC9C0, 0xC2DC, 0xBB38, 0xC774, 0x0020, 0xBCC0, 0xACBD,
     0xB420, 0x0020, 0xB54C, 0xB9C8, 0xB2E4, 0x0020, 0xBC84, 0xC804, 0xC744, 0x0020, 0xB0A8, 0xACA8,
     0x002C, 0x0020, 0xACFC, 0xAC70, 0x0020, 0x0072, 0x0075, 0x006E, 0xC774, 0x0020, 0xC5B4, 0xB5A4,
     0x0020, 0xC9C0, 0xC2DC, 0xBB38, 0x0020, 0xAE30, 0xC900, 0xC73C, 0xB85C, 0x0020, 0xC2E4, 0xD589,
     0xB410, 0xB294, 0xC9C0, 0x0020, 0xCD94, 0xC801, 0xD569, 0xB2C8, 0xB2E4, 0x002E]"

definition ko_versions_failed :: jstr where
  "ko_versions_failed = [0x0049, 0x006E, 0x0073, 0x0074, 0x0072, 0x0075, 0x0063, 0x0074, 0x0069, 0x006F, 0x006E, 0x0073,
     0x0020, 0xC774, 0xB825, 0x0020, 0xB85C, 0xB4DC, 0x0020, 0xC2E4, 0xD328]"

definition ko_versions_loading :: jstr where
  "ko_versions_loading = [0xBC84, 0xC804, 0x0020, 0xC774, 0xB825, 0xC744, 0x0020, 0xBD88, 0xB7EC, 0xC624, 0xB294, 0x0020,
     0xC911, 0xC785, 0xB2C8, 0xB2E4, 0x002E]"

definition ko_versions_none :: jstr where
  "ko_versions_none = [0xC544, 0xC9C1, 0x0020, 0xC800, 0xC7A5, 0xB41C, 0x0020, 0x0069, 0x006E, 0x0073, 0x0074, 0x0072,
     0x0075, 0x0063, 0x0074, 0x0069, 0x006F, 0x006E, 0x0073, 0x0020, 0xBC84, 0xC804, 0xC774, 0x0020,
     0xC5C6, 0xC2B5, 0xB2C8, 0xB2E4, 0x002E]"

definition ko_versions_title :: jstr where
  "ko_versions_title = [0x0049, 0x006E, 0x0073, 0x0074, 0x0072, 0x0075, 0x0063, 0x0074, 0x0069, 0x006F, 0x006E, 0x0073,
     0x0020, 0xBC84, 0xC804, 0x0020, 0xC774, 0xB825]"

definition ko_view_board :: jstr where
  "ko_view_board = [0xBCF4, 0xB4DC]"

definition ko_view_kind :: jstr where
  "ko_view_kind = [0xBCF4, 0xAE30, 0x0020, 0xBC29, 0xC2DD]"

definition ko_view_list :: jstr where
  "ko_view_list = [0xB9AC, 0xC2A4, 0xD2B8]"

definition ko_waiting :: jstr where
  "ko_waiting = [0xB300, 0xAE30, 0x0020, 0xC911, 0x002E, 0x002E, 0x002E]"

definition ko_waiting_running :: jstr where
  "ko_waiting_running = [0xC2E4, 0xD589, 0x0020, 0xB300, 0xAE30, 0x002F, 0xC9C4, 0xD589]"

definition ko_waiting_try :: jstr where
  "ko_waiting_try = [0xB300, 0xAE30, 0x0020, 0xC911, 0x0020, 0x0028, 0xC2DC, 0xB3C4, 0x0020]"

definition ko_webhook_add :: jstr where
  "ko_webhook_add = [0x0057, 0x0065, 0x0062, 0x0068, 0x006F, 0x006F, 0x006B, 0x0020, 0xCD94, 0xAC00]"

definition ko_webhook_desc :: jstr where
  "ko_webhook_desc = [0x0072, 0x0075, 0x006E, 0x002F, 0x0069, 0x0073, 0x0073, 0x0075, 0x0065, 0x0020, 0xC885, 0xB8CC,
     0x0020, 0xC774, 0xBCA4, 0xD2B8, 0xB97C, 0x0020, 0xC678, 0xBD80, 0x0020, 0x0055, 0x0052, 0x004C,
     0xB85C, 0x0020, 0xC804, 0xC1A1, 0x0020, 0x0028, 0x0048, 0x004D, 0x0041, 0x0043, 0x002D, 0x0053,
     0x0048, 0x0041, 0x0032, 0x0035, 0x0036, 0x0020, 0xC11C, 0xBA85, 0x002C, 0x0020, 0x0031, 0xD68C,
     0x0020, 0x0072, 0x0065, 0x0074, 0x0072, 0x0079, 0x0029]"

definition ko_webhook_none :: jstr where
  "ko_webhook_none = [0xB4F1, 0xB85D, 0xB41C, 0x0020, 0x0077, 0x0065, 0x0062, 0x0068, 0x006F, 0x006F, 0x006B, 0xC774,
     0x0020, 0xC5C6, 0xC2B5, 0xB2C8, 0xB2E4, 0x002E]"

definition ko_weekday9 :: jstr where
  "ko_weekday9 = [0xD3C9, 0xC77C, 0x0020, 0xC624, 0xC804, 0x0020, 0x0039, 0xC2DC]"

definition ko_working_dir_label :: jstr where
  "ko_working_dir_label = [0x0057, 0x006F, 0x0072, 0x006B, 0x0069, 0x006E, 0x0067, 0x0020, 0x0064, 0x0069, 0x0072, 0x0065,
     0x0063, 0x0074, 0x006F, 0x0072, 0x0079, 0x0020, 0x0028, 0xBE44, 0xC6B0, 0xBA74, 0x0020, 0xC11C,
     0xBC84, 0x0020, 0x0064, 0x0061, 0x0074, 0x0061, 0x005F, 0x0064, 0x0069, 0x0072, 0x0029]"

definition ko_workspace_ko :: jstr where
  "ko_workspace_ko = [0xC6CC, 0xD06C, 0xC2A4, 0xD398, 0xC774, 0xC2A4]"

definition ko_worktree_desc :: jstr where
  "ko_worktree_desc = [0x0053, 0x0065, 0x0074, 0x0074, 0x0069, 0x006E, 0x0067, 0x0073, 0x0020, 0x0041, 0x0050, 0x0049,
     0xC5D0, 0x0020, 0xAE30, 0xB85D, 0xB41C, 0x0020, 0xB9C8, 0xC9C0, 0xB9C9, 0x0020, 0x006D, 0x0061,
     0x0069, 0x006E, 0x0074, 0x0065, 0x006E, 0x0061, 0x006E, 0x0063, 0x0065, 0x0020, 0x0070, 0x0061,
     0x0073, 0x0073, 0x0020, 0xAE30, 0xC900, 0xC785, 0xB2C8, 0xB2E4, 0x002E, 0x0020, 0x0071, 0x0075,
     0x0065, 0x0075, 0x0065, 0x0064, 0x002F, 0x0072, 0x0075, 0x006E, 0x006E, 0x0069, 0x006E, 0x0067,
     0x0020, 0x0072, 0x0075, 0x006E, 0xC758, 0x0020, 0x0077, 0x006F, 0x0072, 0x006B, 0x0074, 0x0072,
     0x0065, 0x0065, 0xB294, 0x0020, 0x0047, 0x0043, 0x0020, 0xB300, 0xC0C1, 0xC5D0, 0xC11C, 0x0020,
     0xBCF4, 0xD638, 0xB429, 0xB2C8, 0xB2E4, 0x002E]"

definition ko_worktree_disk :: jstr where
  "ko_worktree_disk = [0x0077, 0x006F, 0x0072, 0x006B, 0x0074, 0x0072, 0x0065, 0x0065, 0x0020, 0xB514, 0xC2A4, 0xD06C]"

definition ko_worktree_helper1 :: jstr where
  "ko_worktree_helper1 = [0xCF1C, 0xBA74, 0x0020, 0xAC01, 0x0020, 0x0072, 0x0075, 0x006E, 0xC774, 0x0020]"

definition ko_worktree_helper2 :: jstr where
  "ko_worktree_helper2 = [0xC5D0, 0xC11C, 0x0020, 0xC2E4, 0xD589, 0xB418, 0xACE0, 0x002C, 0x0020, 0xAC19, 0xC740, 0x0020,
     0xC6CC, 0xD06C, 0xC2A4, 0xD398, 0xC774, 0xC2A4, 0xC758, 0x0020, 0xB2E4, 0xB978, 0x0020, 0xC774,
     0xC288, 0xAC00, 0x0020, 0xC989, 0xC2DC, 0x0020, 0xBCD1, 0xB82C, 0x0020, 0x0063, 0x006C, 0x0061,
     0x0069, 0x006D, 0xB429, 0xB2C8, 0xB2E4, 0x002E, 0x0020, 0xC6CC, 0xCEE4, 0xD480, 0x0020, 0xD06C,
     0xAE30, 0x0028]"

definition ko_worktree_helper3 :: jstr where
  "ko_worktree_helper3 = [0x0029, 0xB97C, 0x0020, 0xB298, 0xB9AC, 0xB294, 0x0020, 0xAC83, 0xACFC, 0x0020, 0xD568, 0xAED8,
     0x0020, 0xC4F0, 0xC138, 0xC694, 0x002E, 0x0020]"

definition ko_worktree_helper4 :: jstr where
  "ko_worktree_helper4 = [0xC774, 0x0020, 0x0067, 0x0069, 0x0074, 0x0020, 0x0072, 0x0065, 0x0070, 0x006F, 0xC774, 0xBA74,
     0x0020]"

definition ko_worktree_helper5 :: jstr where
  "ko_worktree_helper5 = [0xB97C, 0x0020, 0xC0AC, 0xC6A9, 0xD558, 0xACE0, 0x002C, 0x0020, 0xBE44, 0x002D, 0x0067, 0x0069,
     0x0074, 0x0020, 0xACBD, 0xB85C, 0xB294, 0x0020, 0x0030, 0x0037, 0x0030, 0x0030, 0x0020, 0x0069,
     0x0073, 0x006F, 0x006C, 0x0061, 0x0074, 0x0065, 0x0064, 0x0020, 0x0064, 0x0069, 0x0072, 0x0065,
     0x0063, 0x0074, 0x006F, 0x0072, 0x0079, 0xB85C, 0x0020, 0x0066, 0x0061, 0x006C, 0x006C, 0x0062,
     0x0061, 0x0063, 0x006B, 0xD569, 0xB2C8, 0xB2E4, 0x002E]"

definition ko_worktree_title :: jstr where
  "ko_worktree_title = [0x0050, 0x0065, 0x0072, 0x002D, 0x0072, 0x0075, 0x006E, 0x0020, 0x0077, 0x006F, 0x0072, 0x006B,
     0x0074, 0x0072, 0x0065, 0x0065, 0x0020, 0xB514, 0xC2A4, 0xD06C, 0x0020, 0x002F, 0x0020, 0x0047,
     0x0043]"

definition ko_ws_defaults :: jstr where
  "ko_ws_defaults = [0xC6CC, 0xD06C, 0xC2A4, 0xD398, 0xC774, 0xC2A4, 0x0020, 0xC2E4, 0xD589, 0x0020, 0xAE30, 0xBCF8,
     0xAC12]"

definition ko_ws_defaults_desc :: jstr where
  "ko_ws_defaults_desc = [0xC5D0, 0xC774, 0xC804, 0xD2B8, 0xBCC4, 0x0020, 0x006F, 0x0076, 0x0065, 0x0072, 0x0072, 0x0069,
     0x0064, 0x0065, 0xAC00, 0x0020, 0xC5C6, 0xC744, 0x0020, 0xB54C, 0x0020, 0xC801, 0xC6A9, 0xB418,
     0xB294, 0x0020, 0xAE30, 0xBCF8, 0x0020, 0x0072, 0x0075, 0x006E, 0x0020, 0x0074, 0x0069, 0x006D,
     0x0065, 0x006F, 0x0075, 0x0074, 0xC785, 0xB2C8, 0xB2E4, 0x002E]"

definition ko_ws_list :: jstr where
  "ko_ws_list = [0xC6CC, 0xD06C, 0xC2A4, 0xD398, 0xC774, 0xC2A4, 0x0020, 0xBAA9, 0xB85D]"

definition ko_ws_needed :: jstr where
  "ko_ws_needed = [0xC6CC, 0xD06C, 0xC2A4, 0xD398, 0xC774, 0xC2A4, 0x0020, 0xD544, 0xC694]"

definition ko_ws_none :: jstr where
  "ko_ws_none = [0xC6CC, 0xD06C, 0xC2A4, 0xD398, 0xC774, 0xC2A4, 0xAC00, 0x0020, 0xC544, 0xC9C1, 0x0020, 0xC5C6,
     0xC2B5, 0xB2C8, 0xB2E4, 0x002E]"

definition ko_ws_search :: jstr where
  "ko_ws_search = [0xC774, 0xB984, 0x002C, 0x0020, 0x0073, 0x006C, 0x0075, 0x0067, 0x002C, 0x0020, 0x0070, 0x0072,
     0x0065, 0x0066, 0x0069, 0x0078, 0x0020, 0xAC80, 0xC0C9]"

end
