(* ===== verification/JsDecimal.thy ===== *)
theory JsDecimal
  imports JsNumber
begin

section \<open>Numbers as decimals: reading and printing\<close>

text \<open>
  \<^verbatim>\<open>Number(s)\<close>, \<^verbatim>\<open>String(n)\<close> and the numbers of JSON texts. The numbers the dashboard reads from a form or a
  text are short decimal numerals, so a finite number is modelled by its exact decimal value
  \<open>m \<cdot> 10 ^ e\<close> with \<open>m\<close> not divisible by ten. A double holds every numeral of up to 15 significant
  digits (and a magnitude between \<open>10 ^ -300\<close> and \<open>10 ^ 300\<close>) so that printing gives the numeral
  back, and there the model is the program; a longer numeral is rounded by the program and not here.
  Negative zero is zero.
\<close>

type_synonym dec = "int \<times> int"

function strip10 :: "nat \<Rightarrow> int \<Rightarrow> nat \<times> int" where
  "strip10 m e = (if m = 0 then (0, 0) else if m mod 10 = 0 then strip10 (m div 10) (e + 1) else (m, e))"
  by pat_completeness auto
termination by (relation "measure fst") auto

declare strip10.simps [simp del]

definition mk_dec :: "int \<Rightarrow> int \<Rightarrow> dec" where
  "mk_dec m e = (case strip10 (nat \<bar>m\<bar>) e of (a, b) \<Rightarrow> (sgn m * int a, b))"

definition dec_ok :: "dec \<Rightarrow> bool" where
  "dec_ok d = (case d of (m, e) \<Rightarrow> if m = 0 then e = 0 else m mod 10 \<noteq> 0)"

abbreviation dec_int :: "int \<Rightarrow> dec" where
  "dec_int n \<equiv> mk_dec n 0"

definition dec_neg :: "dec \<Rightarrow> dec" where
  "dec_neg d = (- fst d, snd d)"

datatype js_number = NaN | Infinite bool | Fin dec

subsection \<open>Printing\<close>

text \<open>The notation of \<^verbatim>\<open>Number::toString\<close>: with the digits \<open>s\<close>, \<open>k\<close> of them, and the point after the first \<open>n\<close>.\<close>

definition digits_str :: "jstr \<Rightarrow> int \<Rightarrow> jstr" where
  "digits_str s n =
     (let k = int (length s) in
      if k \<le> n \<and> n \<le> 21 then s @ replicate (nat (n - k)) 48
      else if 0 < n \<and> n \<le> 21 then take (nat n) s @ 46 # drop (nat n) s
      else if - 6 < n \<and> n \<le> 0 then 48 # 46 # replicate (nat (- n)) 48 @ s
      else
        (let x = 101 # (if n - 1 < 0 then 45 else 43) # nat_str (nat \<bar>n - 1\<bar>) in
         if k = 1 then s @ x else take 1 s @ 46 # drop 1 s @ x))"

fun dec_str :: "dec \<Rightarrow> jstr" where
  "dec_str (m, e) =
     (if m = 0 then [48]
      else
        (let s = nat_str (nat \<bar>m\<bar>); b = digits_str s (int (length s) + e)
         in if m < 0 then 45 # b else b))"

declare dec_str.simps [simp del]

definition num_str :: "js_number \<Rightarrow> jstr" where
  "num_str n = (case n of
       NaN \<Rightarrow> js ''NaN'' | Infinite b \<Rightarrow> (if b then js ''-Infinity'' else js ''Infinity'') | Fin d \<Rightarrow> dec_str d)"

subsection \<open>Reading\<close>

text \<open>A decimal numeral: digits, optionally a point and digits, optionally an exponent; what does not
  belong to it is left over.\<close>

definition scan_exp :: "jstr \<Rightarrow> int \<times> jstr" where
  "scan_exp r =
     (if r \<noteq> [] \<and> hd r \<in> {101, 69} then
        (let q = tl r; signed = (q \<noteq> [] \<and> hd q \<in> {43, 45}); neg = (signed \<and> hd q = 45); q' = (if signed then tl q else q);
             ds = takeWhile is_digit q'
         in if ds = [] then (0, r)
            else (if neg then - int (digits_val ds) else int (digits_val ds), dropWhile is_digit q'))
      else (0, r))"

record scanned =
  sc_int :: jstr
  sc_dot :: bool
  sc_frac :: jstr
  sc_exp :: int

definition scan_decimal :: "jstr \<Rightarrow> scanned \<times> jstr" where
  "scan_decimal s =
     (let ip = takeWhile is_digit s; r = dropWhile is_digit s; dot = (r \<noteq> [] \<and> hd r = 46);
          fp = (if dot then takeWhile is_digit (tl r) else []); q = (if dot then dropWhile is_digit (tl r) else r)
      in case scan_exp q of (x, rest) \<Rightarrow> (\<lparr>sc_int = ip, sc_dot = dot, sc_frac = fp, sc_exp = x\<rparr>, rest))"

definition scanned_dec :: "scanned \<Rightarrow> dec" where
  "scanned_dec c = mk_dec (int (digits_val (sc_int c @ sc_frac c))) (sc_exp c - int (length (sc_frac c)))"

text \<open>\<^verbatim>\<open>0x\<close>, \<^verbatim>\<open>0o\<close> and \<^verbatim>\<open>0b\<close> numerals.\<close>

definition radix_digit :: "code_unit \<Rightarrow> nat option" where
  "radix_digit c =
     (if is_digit c then Some (digit_val c)
      else if 97 \<le> c \<and> c \<le> 102 then Some (10 + unat (c - 97))
      else if 65 \<le> c \<and> c \<le> 70 then Some (10 + unat (c - 65)) else None)"

definition radix_value :: "nat \<Rightarrow> jstr \<Rightarrow> nat option" where
  "radix_value b s =
     (if s = [] then None
      else foldl (\<lambda>acc c. case (acc, radix_digit c) of (Some n, Some d) \<Rightarrow> if d < b then Some (b * n + d) else None | _ \<Rightarrow> None)
             (Some 0) s)"

definition radix_literal :: "jstr \<Rightarrow> nat option" where
  "radix_literal t =
     (case t of
        z # p # s \<Rightarrow>
          if z \<noteq> 48 then None
          else if p = 120 \<or> p = 88 then radix_value 16 s
          else if p = 111 \<or> p = 79 then radix_value 8 s
          else if p = 98 \<or> p = 66 then radix_value 2 s
          else None
      | _ \<Rightarrow> None)"

definition Number :: "jstr \<Rightarrow> js_number" where
  "Number s =
     (let t = trim s in
      if t = [] then Fin (0, 0)
      else case radix_literal t of
        Some n \<Rightarrow> Fin (dec_int (int n))
      | None \<Rightarrow>
          (let neg = (hd t = 45); u = (if hd t \<in> {43, 45} then tl t else t) in
           if u = js ''Infinity'' then Infinite neg
           else case scan_decimal u of
             (c, rest) \<Rightarrow>
               if rest \<noteq> [] \<or> sc_int c = [] \<and> sc_frac c = [] then NaN
               else Fin (if neg then dec_neg (scanned_dec c) else scanned_dec c)))"

definition num_truthy :: "js_number \<Rightarrow> bool" where
  "num_truthy n \<longleftrightarrow> n \<noteq> NaN \<and> n \<noteq> Fin (0, 0)"

definition num_or :: "js_number \<Rightarrow> int \<Rightarrow> js_number" where
  "num_or n d = (if num_truthy n then n else Fin (dec_int d))"

text \<open>\<^verbatim>\<open>Number.isFinite(n) && n > 0\<close>.\<close>

definition finite_positive :: "js_number \<Rightarrow> bool" where
  "finite_positive n = (case n of Fin (m, e) \<Rightarrow> 0 < m | _ \<Rightarrow> False)"

subsection \<open>Normal form\<close>

lemma strip10_pow: "m mod 10 \<noteq> 0 \<Longrightarrow> strip10 (m * 10 ^ j) e = (m, e + int j)"
proof (induction j arbitrary: e)
  case 0
  then show ?case by (subst strip10.simps) auto
next
  case (Suc j)
  have "m * 10 ^ Suc j mod 10 = 0" "m * 10 ^ Suc j div 10 = m * 10 ^ j" by simp_all
  moreover have "m \<noteq> 0" using Suc.prems by auto
  ultimately show ?case using Suc.IH [OF Suc.prems, of "e + 1"] by (subst strip10.simps) (simp add: algebra_simps)
qed

lemma strip10_ok: "strip10 m e = (a, b) \<Longrightarrow> if m = 0 then a = 0 \<and> b = 0 else a mod 10 \<noteq> 0"
proof (induction m e rule: strip10.induct)
  case (1 m e)
  show ?case
  proof (cases "m = 0")
    case True
    then show ?thesis using 1(2) by (simp add: strip10.simps [of 0])
  next
    case False
    then show ?thesis using 1 by (cases "m mod 10 = 0") (auto simp: strip10.simps [of m e] split: if_splits)
  qed
qed

lemma nat_abs_mod10: "nat \<bar>m\<bar> mod 10 \<noteq> 0 \<longleftrightarrow> m mod 10 \<noteq> 0"
proof -
  have "nat \<bar>m\<bar> mod 10 = 0 \<longleftrightarrow> \<bar>m\<bar> mod 10 = 0" by (simp flip: dvd_eq_mod_eq_0 add: nat_dvd_iff dvd_nat_abs_iff)
  then show ?thesis by (simp flip: dvd_eq_mod_eq_0)
qed

lemma mk_dec_ok: "dec_ok (mk_dec m e)"
proof -
  obtain a b where ab: "strip10 (nat \<bar>m\<bar>) e = (a, b)" by fastforce
  have "if m = 0 then a = 0 \<and> b = 0 else a mod 10 \<noteq> 0" using strip10_ok [OF ab] by auto
  moreover have "sgn m * int a mod 10 \<noteq> 0" if "a mod 10 \<noteq> 0" "m \<noteq> 0"
  proof -
    have "int a mod 10 \<noteq> 0" using that(1) by (metis of_nat_0_eq_iff of_nat_mod of_nat_numeral)
    then show ?thesis using that(2) by (auto simp: sgn_if dvd_eq_mod_eq_0 [symmetric])
  qed
  ultimately show ?thesis by (auto simp: mk_dec_def ab dec_ok_def split: if_splits)
qed

lemma mk_dec_pow: "0 < m \<Longrightarrow> dec_ok (m, e) \<Longrightarrow> mk_dec (m * 10 ^ j) (e - int j) = (m, e)"
proof -
  assume m: "0 < m" "dec_ok (m, e)"
  then have "nat m mod 10 \<noteq> 0" using nat_abs_mod10 [of m] by (simp add: dec_ok_def)
  from strip10_pow [OF this, of j "e - int j"] m(1) show ?thesis
    by (simp add: mk_dec_def nat_mult_distrib nat_power_eq abs_mult)
qed

lemma mk_dec_id: "dec_ok (m, e) \<Longrightarrow> mk_dec m e = (m, e)"
proof -
  assume ok: "dec_ok (m, e)"
  show ?thesis
  proof (cases "m = 0")
    case True
    then show ?thesis using ok by (simp add: mk_dec_def strip10.simps dec_ok_def)
  next
    case False
    then have "nat \<bar>m\<bar> mod 10 \<noteq> 0"
      using ok nat_abs_mod10 by (simp add: dec_ok_def)
    then show ?thesis using False strip10_pow [of "nat \<bar>m\<bar>" 0 e] by (simp add: mk_dec_def sgn_if)
  qed
qed

subsection \<open>Digits\<close>

lemma digits_val_append: "digits_val (s @ t) = digits_val s * 10 ^ length t + digits_val t"
proof -
  have "foldl (\<lambda>n c. 10 * n + digit_val c) a t = a * 10 ^ length t + digits_val t" for a
  proof (induction t arbitrary: a)
    case (Cons c t)
    have "digits_val (c # t) = foldl (\<lambda>n c. 10 * n + digit_val c) (digit_val c) t" by (simp add: digits_val_def)
    then have "digits_val (c # t) = digit_val c * 10 ^ length t + digits_val t" using Cons by simp
    then show ?case using Cons by (simp add: algebra_simps)
  qed (simp add: digits_val_def)
  note eq = this [of "digits_val s"]
  show ?thesis by (subst eq [symmetric]) (simp add: digits_val_def)
qed

lemma digits_val_Nil [simp]: "digits_val [] = 0"
  by (simp add: digits_val_def)

lemma digits_val_zeros [simp]: "digits_val (replicate j 48) = 0"
  by (induction j) (simp_all add: digits_val_def digit_val_def)

lemma digits_val_Cons0 [simp]: "digits_val (48 # s) = digits_val s"
  by (simp add: digits_val_def digit_val_def)

lemma is_digit_zero [simp]: "is_digit 48"
  by (simp add: is_digit_def)

lemma takeWhile_digits:
  "\<forall>c \<in> set s. is_digit c \<Longrightarrow> r = [] \<or> \<not> is_digit (hd r) \<Longrightarrow> takeWhile is_digit (s @ r) = s"
  "\<forall>c \<in> set s. is_digit c \<Longrightarrow> r = [] \<or> \<not> is_digit (hd r) \<Longrightarrow> dropWhile is_digit (s @ r) = r"
  by (induction s) (cases r; auto)+

lemma hd_nat_str: "0 < n \<Longrightarrow> hd (nat_str n) \<noteq> 48"
proof (induction n rule: nat_str.induct)
  case (1 n)
  show ?case
  proof (cases "n < 10")
    case True
    then have "n \<in> {1, 2, 3, 4, 5, 6, 7, 8, 9}" using 1 by auto
    then show ?thesis using True by (subst nat_str.simps) auto
  next
    case False
    then show ?thesis using 1 by (subst nat_str.simps) simp
  qed
qed


subsection \<open>What is printed is read back\<close>

text \<open>What may follow a numeral so that the reader stops there.\<close>

definition stops :: "jstr \<Rightarrow> bool" where
  "stops r \<longleftrightarrow> r = [] \<or> (\<not> is_digit (hd r) \<and> hd r \<notin> {46, 101, 69})"

lemma stops_no_digit: "stops r \<Longrightarrow> r = [] \<or> \<not> is_digit (hd r)"
  by (auto simp: stops_def)

lemma scan_exp_stops: "stops r \<Longrightarrow> scan_exp r = (0, r)"
  by (auto simp: stops_def scan_exp_def)

lemma scan_exp_printed:
  "stops r \<Longrightarrow> scan_exp (101 # (if x < 0 then 45 else 43) # nat_str (nat \<bar>x\<bar>) @ r) = (x, r)"
proof -
  assume "stops r"
  note tw = takeWhile_digits [OF nat_str_digits stops_no_digit [OF this]]
  show ?thesis by (cases "x < 0") (simp_all add: scan_exp_def Let_def tw)
qed

text \<open>The numeral \<open>ip . fp\<close> followed by what \<open>scan_exp\<close> reads.\<close>

lemma scan_decimal_int:
  "\<forall>c \<in> set ip. is_digit c \<Longrightarrow> q = [] \<or> \<not> is_digit (hd q) \<and> hd q \<noteq> 46 \<Longrightarrow> scan_exp q = (x, r) \<Longrightarrow>
     scan_decimal (ip @ q) = (\<lparr>sc_int = ip, sc_dot = False, sc_frac = [], sc_exp = x\<rparr>, r)"
proof -
  assume ds: "\<forall>c \<in> set ip. is_digit c" and q: "q = [] \<or> \<not> is_digit (hd q) \<and> hd q \<noteq> 46" and x: "scan_exp q = (x, r)"
  then have "q = [] \<or> \<not> is_digit (hd q)" by auto
  note tw = takeWhile_digits [OF ds this]
  show ?thesis using q x unfolding scan_decimal_def Let_def tw by auto
qed

lemma scan_decimal_frac:
  "\<forall>c \<in> set ip. is_digit c \<Longrightarrow> \<forall>c \<in> set fp. is_digit c \<Longrightarrow> q = [] \<or> \<not> is_digit (hd q) \<Longrightarrow> scan_exp q = (x, r) \<Longrightarrow>
     scan_decimal (ip @ 46 # fp @ q) = (\<lparr>sc_int = ip, sc_dot = True, sc_frac = fp, sc_exp = x\<rparr>, r)"
proof -
  assume ds: "\<forall>c \<in> set ip. is_digit c" "\<forall>c \<in> set fp. is_digit c" "q = [] \<or> \<not> is_digit (hd q)" "scan_exp q = (x, r)"
  have "\<not> is_digit 46" by (simp add: is_digit_def)
  then have "takeWhile is_digit (ip @ 46 # fp @ q) = ip" "dropWhile is_digit (ip @ 46 # fp @ q) = 46 # fp @ q"
    by (intro takeWhile_digits; simp add: ds)+
  then show ?thesis using ds(4) takeWhile_digits [OF ds(2,3)] unfolding scan_decimal_def Let_def by simp
qed

definition numeral_ok :: "scanned \<Rightarrow> bool" where
  "numeral_ok c \<longleftrightarrow> sc_int c \<noteq> [] \<and> (length (sc_int c) > 1 \<longrightarrow> hd (sc_int c) \<noteq> 48) \<and> (sc_dot c \<longrightarrow> sc_frac c \<noteq> [])"

lemma scan_digits_str:
  assumes m: "0 < m" "dec_ok (m, e)" and r: "stops r"
  defines "s \<equiv> nat_str (nat m)"
  shows "\<exists>c. scan_decimal (digits_str s (int (length s) + e) @ r) = (c, r) \<and> numeral_ok c \<and> scanned_dec c = (m, e)"
proof -
  define n where "n = int (length s) + e"
  have s: "\<forall>c \<in> set s. is_digit c" "s \<noteq> []" "hd s \<noteq> 48" "int (digits_val s) = m"
    using nat_str_digits hd_nat_str [of "nat m"] m by (simp_all add: s_def)
  have r': "r = [] \<or> \<not> is_digit (hd r)" "r = [] \<or> \<not> is_digit (hd r) \<and> hd r \<noteq> 46" "scan_exp r = (0, r)"
    using r by (auto simp: stops_def scan_exp_stops)
  have e: "\<not> is_digit 101" by (simp add: is_digit_def)
  have x: "scan_exp (101 # (if n - 1 < 0 then 45 else 43) # nat_str (nat \<bar>n - 1\<bar>) @ r) = (n - 1, r)"
    using scan_exp_printed [OF r] .
  have mk: "mk_dec m e = (m, e)" "mk_dec (m * 10 ^ nat e) (e - int (nat e)) = (m, e)"
    using mk_dec_id [OF m(2)] mk_dec_pow [OF m, of "nat e"] by (simp_all only:)
  let ?k = "int (length s)" and ?x = "101 # (if n - 1 < 0 then 45 else 43) # nat_str (nat \<bar>n - 1\<bar>)"
  consider (int) "?k \<le> n" "n \<le> 21" | (point) "\<not> ?k \<le> n" "0 < n" "n \<le> 21" | (small) "\<not> ?k \<le> n" "- 6 < n" "n \<le> 0"
    | (exp1) "\<not> (?k \<le> n \<and> n \<le> 21)" "\<not> (0 < n \<and> n \<le> 21)" "\<not> (- 6 < n \<and> n \<le> 0)" "?k = 1"
    | (exp) "\<not> (?k \<le> n \<and> n \<le> 21)" "\<not> (0 < n \<and> n \<le> 21)" "\<not> (- 6 < n \<and> n \<le> 0)" "?k \<noteq> 1"
    using s(2) by (cases s) auto
  then have "\<exists>c. scan_decimal (digits_str s n @ r) = (c, r) \<and> numeral_ok c \<and> scanned_dec c = (m, e)"
  proof cases
    case int
    let ?z = "replicate (nat (n - ?k)) 48"
    have "digits_str s n = s @ ?z" using int by (simp add: digits_str_def Let_def)
    moreover have "scan_decimal ((s @ ?z) @ r) = (\<lparr>sc_int = s @ ?z, sc_dot = False, sc_frac = [], sc_exp = 0\<rparr>, r)"
      by (rule scan_decimal_int) (use s r' in auto)
    moreover have "nat (n - ?k) = nat e" "0 \<le> e" using int(1) by (simp_all add: n_def)
    ultimately show ?thesis using s mk by (simp add: numeral_ok_def scanned_dec_def digits_val_append)
  next
    case point
    have "digits_str s n = take (nat n) s @ 46 # drop (nat n) s" using point by (simp add: digits_str_def Let_def)
    moreover have "scan_decimal (take (nat n) s @ 46 # drop (nat n) s @ r) =
        (\<lparr>sc_int = take (nat n) s, sc_dot = True, sc_frac = drop (nat n) s, sc_exp = 0\<rparr>, r)"
      by (rule scan_decimal_frac) (use s r' in \<open>auto dest: in_set_takeD in_set_dropD\<close>)
    moreover have "int (length s - nat n) = - e" "nat n < length s" using point by (simp_all add: n_def)
    ultimately show ?thesis using point s mk by (simp add: numeral_ok_def scanned_dec_def hd_take)
  next
    case small
    let ?z = "replicate (nat (- n)) 48"
    have "digits_str s n = [48] @ 46 # ?z @ s" using small by (simp add: digits_str_def Let_def)
    moreover have "scan_decimal ([48] @ 46 # (?z @ s) @ r) =
        (\<lparr>sc_int = [48], sc_dot = True, sc_frac = ?z @ s, sc_exp = 0\<rparr>, r)"
      by (rule scan_decimal_frac) (use s r' in auto)
    moreover have "int (nat (- n) + length s) = - e" using small by (simp add: n_def)
    ultimately show ?thesis using s mk by (simp add: numeral_ok_def scanned_dec_def digits_val_append)
  next
    case exp1
    then have "digits_str s n = s @ ?x" by (auto simp: digits_str_def Let_def)
    moreover have "scan_decimal (s @ ?x @ r) = (\<lparr>sc_int = s, sc_dot = False, sc_frac = [], sc_exp = n - 1\<rparr>, r)"
      by (rule scan_decimal_int) (use s x e in auto)
    ultimately show ?thesis using exp1 s mk by (simp add: numeral_ok_def scanned_dec_def n_def)
  next
    case exp
    then obtain a t where at: "s = a # t" "t \<noteq> []" using s(2) by (cases s) auto
    from exp have "digits_str s n = [a] @ 46 # t @ ?x" by (auto simp: digits_str_def Let_def at)
    moreover have "scan_decimal ([a] @ 46 # t @ ?x @ r) = (\<lparr>sc_int = [a], sc_dot = True, sc_frac = t, sc_exp = n - 1\<rparr>, r)"
      by (rule scan_decimal_frac) (use s x e at in auto)
    ultimately show ?thesis using s mk at by (simp add: numeral_ok_def scanned_dec_def n_def)
  qed
  then show ?thesis by (simp add: n_def)
qed


lemma digits_str_ok: "s \<noteq> [] \<Longrightarrow> \<forall>c \<in> set s. is_digit c \<Longrightarrow> digits_str s n \<noteq> [] \<and> is_digit (hd (digits_str s n))"
  by (cases s) (auto simp: digits_str_def Let_def take_Cons')

lemma dec_str_hd: "dec_str d \<noteq> []" "hd (dec_str d) = 45 \<or> is_digit (hd (dec_str d))"
  using digits_str_ok [OF nat_str_nonempty nat_str_digits] by (cases d; simp add: dec_str.simps Let_def)+

lemma set_digits_str: "\<forall>c \<in> set s. is_digit c \<Longrightarrow> c \<in> set (digits_str s n) \<Longrightarrow> is_digit c \<or> c \<in> {43, 45, 46, 101}"
  using nat_str_digits by (auto simp: digits_str_def Let_def split: if_splits dest: in_set_takeD in_set_dropD)

lemma set_dec_str: "c \<in> set (dec_str d) \<Longrightarrow> is_digit c \<or> c \<in> {43, 45, 46, 101}"
  using set_digits_str [OF nat_str_digits] by (cases d) (auto simp: dec_str.simps Let_def split: if_splits)

lemma nat_str_pow: "0 < m \<Longrightarrow> nat_str (m * 10 ^ j) = nat_str m @ replicate j 48"
proof (induction j)
  case (Suc j)
  have "\<not> m * 10 ^ Suc j < 10" "m * 10 ^ Suc j div 10 = m * 10 ^ j" "m * 10 ^ Suc j mod 10 = 0"
    using Suc.prems by simp_all
  then show ?case using Suc by (subst nat_str.simps) (simp add: replicate_append_same)
qed simp

lemma nat_str_length: "0 < k \<Longrightarrow> n < 10 ^ k \<Longrightarrow> length (nat_str n) \<le> k"
proof (induction k arbitrary: n)
  case (Suc k)
  show ?case
  proof (cases "n < 10")
    case True
    then show ?thesis by (subst nat_str.simps) simp
  next
    case False
    moreover from this have "0 < k" using Suc.prems by (cases k) auto
    moreover have "n div 10 < 10 ^ k" using Suc.prems by (simp add: less_mult_imp_div_less mult.commute)
    ultimately show ?thesis using Suc.IH [of "n div 10"] by (subst nat_str.simps) simp
  qed
qed simp

lemma strip10_val: "strip10 m e = (a, b) \<Longrightarrow> 0 < m \<Longrightarrow> e \<le> b \<and> m = a * 10 ^ nat (b - e)"
proof (induction m e rule: strip10.induct)
  case (1 m e)
  show ?case
  proof (cases "m mod 10 = 0")
    case True
    then have "e + 1 \<le> b \<and> m div 10 = a * 10 ^ nat (b - (e + 1))"
      using 1 by (auto simp: strip10.simps [of m e] split: if_splits)
    moreover from this have "nat (b - e) = Suc (nat (b - (e + 1)))" by auto
    ultimately show ?thesis using True by auto
  next
    case False
    then show ?thesis using 1 by (auto simp: strip10.simps [of m e] split: if_splits)
  qed
qed

text \<open>Below \<open>10 ^ 21\<close> an integer is printed with its digits alone.\<close>

lemma dec_str_int: "\<bar>n\<bar> < 10 ^ 21 \<Longrightarrow> dec_str (dec_int n) = int_str n"
proof -
  assume small: "\<bar>n\<bar> < 10 ^ 21"
  show ?thesis
  proof (cases "n = 0")
    case True
    then show ?thesis by (simp add: mk_dec_def strip10.simps dec_str.simps int_str_def nat_str.simps)
  next
    case False
    obtain a b where ab: "strip10 (nat \<bar>n\<bar>) 0 = (a, b)" by fastforce
    then have b: "0 \<le> b" and v: "nat \<bar>n\<bar> = a * 10 ^ nat b" using strip10_val [OF ab] False by auto
    have a: "0 < a" using v False by (cases a) auto
    have len: "length (nat_str (nat \<bar>n\<bar>)) \<le> 21" using small by (intro nat_str_length) auto
    then have "length (nat_str a) + nat b \<le> 21" using v nat_str_pow [OF a, of "nat b"] by simp
    moreover from this have "int (length (nat_str a)) + b \<le> 21" using b by linarith
    ultimately have "digits_str (nat_str a) (int (length (nat_str a)) + b) = nat_str (nat \<bar>n\<bar>)"
      using b v nat_str_pow [OF a, of "nat b"] by (simp add: digits_str_def Let_def)
    moreover have "nat \<bar>sgn n * int a\<bar> = a" using False by (simp add: sgn_if)
    ultimately show ?thesis using False a ab
      by (auto simp: mk_dec_def dec_str.simps Let_def int_str_def sgn_if)
  qed
qed

lemma digit_not_ws: "is_digit c \<Longrightarrow> \<not> is_ws c"
  using order_trans [where x = 48 and y = c and z = 13] order_trans [where x = "0x2000" and y = c and z = 57]
  by (auto simp: is_ws_def is_digit_def)

lemma dec_str_not_ws: "c \<in> set (dec_str d) \<Longrightarrow> \<not> is_ws c"
  using set_dec_str [of c d] digit_not_ws [of c] by (auto simp: is_ws_def)

lemma trim_dec_str [simp]: "trim (dec_str d) = dec_str d"
  using dec_str_not_ws [OF hd_in_set] dec_str_not_ws [OF last_in_set] by (intro trim_id) (simp add: dec_str_hd)

lemma radix_literal_dec_str: "radix_literal (dec_str d) = None"
proof -
  have "\<not> is_digit c \<and> c \<notin> {43, 45, 46, 101}" if "c \<in> {120, 88, 111, 79, 98, 66 :: code_unit}" for c
    using that by (auto simp: is_digit_def)
  then have "c \<notin> {120, 88, 111, 79, 98, 66}" if "c \<in> set (dec_str d)" for c
    using set_dec_str [OF that] by blast
  then show ?thesis by (auto simp: radix_literal_def split: list.split)
qed

lemma Number_dec_str: "dec_ok d \<Longrightarrow> Number (dec_str d) = Fin d"
proof -
  assume ok: "dec_ok d"
  obtain m e where d: "d = (m, e)" by fastforce
  define s where "s = nat_str (nat \<bar>m\<bar>)"
  define b where "b = digits_str s (int (length s) + e)"
  have hd_b: "b \<noteq> []" "is_digit (hd b)" using digits_str_ok nat_str_digits by (auto simp: b_def s_def)
  then have "hd b \<notin> {43, 45}" "b \<noteq> js ''Infinity''" by (auto simp: is_digit_def js_def)
  show ?thesis
  proof (cases "m = 0")
    case True
    then show ?thesis using ok
      by (simp add: d dec_ok_def dec_str.simps Number_def trim_id [of "[48]"] is_ws_def radix_literal_def js_def
          scan_decimal_def scan_exp_def scanned_dec_def mk_dec_def strip10.simps)
  next
    case False
    then have "0 < \<bar>m\<bar>" "dec_ok (\<bar>m\<bar>, e)" using ok by (auto simp: d dec_ok_def abs_if dvd_eq_mod_eq_0 [symmetric])
    from scan_digits_str [OF this, of "[]"] obtain c
      where c: "scan_decimal b = (c, [])" "numeral_ok c" "scanned_dec c = (\<bar>m\<bar>, e)"
      by (auto simp: b_def s_def stops_def)
    have "dec_str d = (if m < 0 then 45 # b else b)" using False by (simp add: d dec_str.simps b_def s_def Let_def)
    then show ?thesis
      using c hd_b \<open>hd b \<notin> {43, 45}\<close> \<open>b \<noteq> js ''Infinity''\<close> radix_literal_dec_str [of d] trim_dec_str [of d]
      by (auto simp: Number_def Let_def numeral_ok_def dec_neg_def d js_def split: if_splits)
  qed
qed

subsection \<open>Numerals with a fixed number of decimals are read back\<close>

lemma digits_pad_zeros: "digits_val (pad_zeros n (nat_str u)) = u" "\<forall>c \<in> set (pad_zeros n (nat_str u)). is_digit c"
  using nat_str_digits by (auto simp: pad_zeros_def digits_val_append)

lemma radix_literal_plain: "\<forall>c \<in> set s. is_digit c \<or> c = 46 \<Longrightarrow> radix_literal s = None"
proof -
  assume dig: "\<forall>c \<in> set s. is_digit c \<or> c = 46"
  have "\<not> is_digit c \<and> c \<noteq> 46" if "c \<in> {120, 88, 111, 79, 98, 66 :: code_unit}" for c
    using that by (auto simp: is_digit_def)
  then have "c \<notin> {120, 88, 111, 79, 98, 66}" if "c \<in> set s" for c using dig that by blast
  then show ?thesis by (auto simp: radix_literal_def split: list.split)
qed

lemma Number_plain:
  assumes "\<forall>c \<in> set ip. is_digit c" "ip \<noteq> []" "\<forall>c \<in> set fp. is_digit c"
  shows "Number (ip @ 46 # fp) = Fin (mk_dec (int (digits_val (ip @ fp))) (- int (length fp)))"
proof -
  let ?s = "ip @ 46 # fp"
  have dig: "c \<in> set ?s \<Longrightarrow> is_digit c \<or> c = 46" for c using assms by auto
  have "\<not> is_ws c" if "c \<in> set ?s" for c using dig [OF that] digit_not_ws [of c] by (auto simp: is_ws_def)
  then have "trim ?s = ?s" using hd_in_set [of ?s] last_in_set [of ?s] by (intro trim_id) blast
  moreover have "radix_literal ?s = None" by (rule radix_literal_plain) (use dig in blast)
  moreover have "scan_decimal (ip @ 46 # fp @ []) = (\<lparr>sc_int = ip, sc_dot = True, sc_frac = fp, sc_exp = 0\<rparr>, [])"
    by (rule scan_decimal_frac) (use assms in \<open>simp_all add: scan_exp_def\<close>)
  moreover have "is_digit (hd ?s)" using assms by simp
  then have "hd ?s \<notin> {43, 45}" "?s \<noteq> js ''Infinity''" by (auto simp: is_digit_def js_def)
  ultimately show ?thesis using assms(2) by (simp add: Number_def Let_def scanned_dec_def)
qed

lemma Number_toFixed: "0 < f \<Longrightarrow> Number (toFixed x f) = Fin (mk_dec (int (fixed_units x f)) (- int f))"
proof -
  assume f: "0 < f"
  define s where "s = pad_zeros (f + 1) (nat_str (fixed_units x f))"
  have len: "f < length s" by (simp add: s_def length_pad_zeros)
  have dig: "\<forall>c \<in> set s. is_digit c" "digits_val s = fixed_units x f" by (simp_all add: s_def digits_pad_zeros)
  have "toFixed x f = take (length s - f) s @ 46 # drop (length s - f) s"
    by (simp add: toFixed_def Let_def s_def js_def)
  moreover have "Number (take (length s - f) s @ 46 # drop (length s - f) s) =
      Fin (mk_dec (int (digits_val (take (length s - f) s @ drop (length s - f) s))) (- int (length (drop (length s - f) s))))"
    by (rule Number_plain) (use dig len in \<open>auto dest: in_set_takeD in_set_dropD\<close>)
  ultimately show ?thesis using len dig(2) by simp
qed

text \<open>A whole number of units of the last digit is shown exactly.\<close>

lemma fixed_units_exact:
  assumes "k * d = n * 10 ^ f" "0 < d" "k < 2 ^ 52"
  shows "fixed_units (fdiv n d) f = k"
proof -
  let ?u = "fixed_units (fdiv n d) f"
  have q: "real n / real d = real k / 10 ^ f"
  proof -
    have "real k * real d = real n * 10 ^ f" using arg_cong [OF assms(1), of real] by simp
    then show ?thesis using assms(2) by (simp add: field_simps)
  qed
  have "\<bar>real ?u / 10 ^ f - real n / real d\<bar> \<le> 1 / (2 * 10 ^ f) + real n / real d / 2 ^ 53"
    using toFixed_error [OF assms(2)] .
  moreover have "\<bar>real ?u / 10 ^ f - real k / 10 ^ f\<bar> = \<bar>real ?u - real k\<bar> / 10 ^ f"
    by (simp flip: diff_divide_distrib)
  moreover have "1 / (2 * 10 ^ f) + real k / 10 ^ f / 2 ^ 53 = (1 / 2 + real k / 2 ^ 53) / 10 ^ f"
    by (simp add: add_divide_distrib)
  ultimately have "\<bar>real ?u - real k\<bar> / 10 ^ f \<le> (1 / 2 + real k / 2 ^ 53) / 10 ^ f" by (simp only: q)
  then have "\<bar>real ?u - real k\<bar> \<le> 1 / 2 + real k / 2 ^ 53" by (simp add: divide_le_cancel)
  moreover have "real k < 2 ^ 52" using assms(3) by (metis of_nat_less_iff of_nat_numeral of_nat_power)
  then have "real k / 2 ^ 53 < 1 / 2" by simp
  ultimately have "\<bar>real ?u - real k\<bar> < 1" by linarith
  then show ?thesis by linarith
qed

end
