(* ===== verification/Json.thy ===== *)
theory Json
  imports JsDecimal Prelude
begin

section \<open>JSON values and texts\<close>

text \<open>
  The values of JSON, and \<^verbatim>\<open>JSON.parse\<close> and \<^verbatim>\<open>JSON.stringify\<close> of the language: the reader of the JSON grammar, the
  object it builds (a repeated name keeps its place and takes the last value; names that are array
  indices come first, in numeric order), the compact and the indented printer with their escapes.
  What is printed is read back as the same value, whatever the indentation.
\<close>

subsection \<open>Values\<close>

datatype json =
    JNull
  | JBool bool
  | JNum dec
  | JStr jstr
  | JArr "json list"
  | JObj "(jstr \<times> json) list"

text \<open>An object with literal names.\<close>

definition jobj :: "(string \<times> json) list \<Rightarrow> json" where
  "jobj fs = JObj (map (\<lambda>(k, v). (js k, v)) fs)"

text \<open>The order of an object's names: array indices (canonical numerals below \<open>2 ^ 32 - 1\<close>) by their
  value, then the others as they were created.\<close>

definition array_index :: "jstr \<Rightarrow> nat option" where
  "array_index k =
     (if k \<noteq> [] \<and> list_all is_digit k \<and> nat_str (digits_val k) = k \<and> digits_val k < 2 ^ 32 - 1
      then Some (digits_val k) else None)"

definition key_compare :: "jstr \<times> json \<Rightarrow> jstr \<times> json \<Rightarrow> int" where
  "key_compare a b = (case (array_index (fst a), array_index (fst b)) of
       (Some m, Some n) \<Rightarrow> int m - int n | (Some m, None) \<Rightarrow> -1 | (None, Some n) \<Rightarrow> 1 | (None, None) \<Rightarrow> 0)"

definition make_object :: "(jstr \<times> json) list \<Rightarrow> json" where
  "make_object fs = JObj (js_sort key_compare (fold (\<lambda>(k, v). omap_set k v) fs []))"

text \<open>\<^verbatim>\<open>String(value)\<close> on a JSON value.\<close>

fun js_String :: "json \<Rightarrow> jstr" where
  "js_String JNull = js ''null''"
| "js_String (JBool b) = (if b then js ''true'' else js ''false'')"
| "js_String (JNum n) = dec_str n"
| "js_String (JStr s) = s"
| "js_String (JArr vs) = join (js '','') (map (\<lambda>v. if v = JNull then [] else js_String v) vs)"
| "js_String (JObj fs) = js ''[object Object]''"

subsection \<open>Reading\<close>

definition json_ws :: "code_unit \<Rightarrow> bool" where
  "json_ws c \<longleftrightarrow> c \<in> {9, 10, 13, 32}"

definition skip_ws :: "jstr \<Rightarrow> jstr" where
  "skip_ws s = dropWhile json_ws s"

definition json_number :: "jstr \<Rightarrow> (dec \<times> jstr) option" where
  "json_number s =
     (let neg = (s \<noteq> [] \<and> hd s = 45); t = (if neg then tl s else s) in
      case scan_decimal t of
        (c, rest) \<Rightarrow> if numeral_ok c then Some (if neg then dec_neg (scanned_dec c) else scanned_dec c, rest) else None)"

text \<open>The escapes of one character: quote, backslash, slash, b, f, n, r, t.\<close>

definition simple_escapes :: "(code_unit \<times> code_unit) list" where
  "simple_escapes = [(34, 34), (92, 92), (47, 47), (98, 8), (102, 12), (110, 10), (114, 13), (116, 9)]"

definition hex4 :: "code_unit \<Rightarrow> code_unit \<Rightarrow> code_unit \<Rightarrow> code_unit \<Rightarrow> code_unit option" where
  "hex4 a b c d = (case radix_value 16 [a, b, c, d] of None \<Rightarrow> None | Some n \<Rightarrow> Some (of_nat n))"

text \<open>The characters of a string after its opening quote.\<close>

fun json_string :: "jstr \<Rightarrow> (jstr \<times> jstr) option" where
  "json_string [] = None"
| "json_string (c # s) =
     (if c = 34 then Some ([], s)
      else if c < 32 then None
      else if c \<noteq> 92 then map_option (\<lambda>(t, r). (c # t, r)) (json_string s)
      else (case s of
          [] \<Rightarrow> None
        | e # s1 \<Rightarrow>
            if e = 117 then
              (case s1 of
                 h1 # h2 # h3 # h4 # s2 \<Rightarrow>
                   (case hex4 h1 h2 h3 h4 of
                      None \<Rightarrow> None | Some u \<Rightarrow> map_option (\<lambda>(t, r). (u # t, r)) (json_string s2))
               | _ \<Rightarrow> None)
            else (case map_of simple_escapes e of
                None \<Rightarrow> None | Some u \<Rightarrow> map_option (\<lambda>(t, r). (u # t, r)) (json_string s1))))"

definition strip_word :: "string \<Rightarrow> json \<Rightarrow> jstr \<Rightarrow> (json \<times> jstr) option" where
  "strip_word w v s = (if startsWith s (js w) then Some (v, drop (length w) s) else None)"

lemma skip_ws_length: "length (skip_ws s) \<le> length s"
  by (simp add: skip_ws_def length_dropWhile_le)

lemma skip_ws_Cons: "skip_ws s = c # r \<Longrightarrow> length r < length s"
  using skip_ws_length [of s] by simp

lemma json_string_length: "json_string s = Some (t, r) \<Longrightarrow> length r < length s"
proof (induction s arbitrary: t r rule: json_string.induct)
  case (2 c s)
  then show ?case
    by (auto split: if_splits list.splits option.splits simp: less_SucI)
qed simp

text \<open>Values, the elements of an array after its bracket or comma, the members of an object after its
  brace or comma. Each call is on a shorter text or, from the elements to the value, on the same one.\<close>

function json_value :: "jstr \<Rightarrow> (json \<times> jstr) option"
  and json_elements :: "jstr \<Rightarrow> (json list \<times> jstr) option"
  and json_members :: "jstr \<Rightarrow> ((jstr \<times> json) list \<times> jstr) option" where
  "json_value s =
     (case skip_ws s of
        [] \<Rightarrow> None
      | c # r \<Rightarrow>
          if c = 123 then
            (case skip_ws r of
               d # r' \<Rightarrow>
                 if d = 125 then Some (JObj [], r')
                 else (case json_members r of None \<Rightarrow> None | Some (fs, q) \<Rightarrow> Some (make_object fs, q))
             | [] \<Rightarrow> None)
          else if c = 91 then
            (case skip_ws r of
               d # r' \<Rightarrow>
                 if d = 93 then Some (JArr [], r')
                 else (case json_elements r of None \<Rightarrow> None | Some (vs, q) \<Rightarrow> Some (JArr vs, q))
             | [] \<Rightarrow> None)
          else if c = 34 then map_option (\<lambda>(t, q). (JStr t, q)) (json_string r)
          else if c = 116 then strip_word ''true'' (JBool True) (c # r)
          else if c = 102 then strip_word ''false'' (JBool False) (c # r)
          else if c = 110 then strip_word ''null'' JNull (c # r)
          else map_option (\<lambda>(d, q). (JNum d, q)) (json_number (c # r)))"
| "json_elements s =
     (case json_value s of
        None \<Rightarrow> None
      | Some (v, r) \<Rightarrow>
          if length r < length s then
            (case skip_ws r of
               [] \<Rightarrow> None
             | c # r' \<Rightarrow>
                 if c = 44 then (case json_elements r' of None \<Rightarrow> None | Some (vs, q) \<Rightarrow> Some (v # vs, q))
                 else if c = 93 then Some ([v], r') else None)
          else None)"
| "json_members s =
     (case skip_ws s of
        [] \<Rightarrow> None
      | c # r \<Rightarrow>
          if c \<noteq> 34 then None
          else (case json_string r of
              None \<Rightarrow> None
            | Some (k, r1) \<Rightarrow>
                (case skip_ws r1 of
                   [] \<Rightarrow> None
                 | d # r2 \<Rightarrow>
                     if d \<noteq> 58 then None
                     else (case json_value r2 of
                         None \<Rightarrow> None
                       | Some (v, r3) \<Rightarrow>
                           if length r3 < length r2 then
                             (case skip_ws r3 of
                                [] \<Rightarrow> None
                              | e # r4 \<Rightarrow>
                                  if e = 44 then (case json_members r4 of None \<Rightarrow> None | Some (fs, q) \<Rightarrow> Some ((k, v) # fs, q))
                                  else if e = 125 then Some ([(k, v)], r4) else None)
                           else None))))"
  by pat_completeness auto
termination
proof (relation "measure (\<lambda>x. case x of Inl s \<Rightarrow> 2 * length s | Inr (Inl s) \<Rightarrow> 2 * length s + 1 | Inr (Inr s) \<Rightarrow> 2 * length s + 1)",
    goal_cases)
qed (auto dest!: skip_ws_Cons json_string_length)

declare json_value.simps [simp del] json_elements.simps [simp del] json_members.simps [simp del]

definition JSON_parse :: "jstr \<Rightarrow> json option" where
  "JSON_parse s = (case json_value s of None \<Rightarrow> None | Some (v, r) \<Rightarrow> if skip_ws r = [] then Some v else None)"


subsection \<open>The reader consumes what it reads\<close>

lemma scan_exp_length: "scan_exp s = (x, r) \<Longrightarrow> length r \<le> length s"
proof -
  have "length (dropWhile is_digit q) \<le> length q" for q by (rule length_dropWhile_le)
  from this [of "tl s"] this [of "tl (tl s)"] show "scan_exp s = (x, r) \<Longrightarrow> length r \<le> length s"
    by (auto simp: scan_exp_def Let_def split: if_splits)
qed

lemma scan_decimal_length: "scan_decimal s = (c, r) \<Longrightarrow> length r + length (sc_int c) \<le> length s"
proof -
  assume "scan_decimal s = (c, r)"
  moreover have "length (takeWhile is_digit s) + length (dropWhile is_digit s) = length s"
    by (metis length_append takeWhile_dropWhile_id)
  moreover have "length (dropWhile is_digit (tl (dropWhile is_digit s))) \<le> length (dropWhile is_digit s)"
    using length_dropWhile_le [of is_digit "tl (dropWhile is_digit s)"] by simp
  ultimately show ?thesis
    by (auto simp: scan_decimal_def Let_def split: prod.splits if_splits dest!: scan_exp_length)
qed

lemma json_number_length: "json_number s = Some (d, r) \<Longrightarrow> length r < length s"
proof -
  assume num: "json_number s = Some (d, r)"
  define t where "t = (if s \<noteq> [] \<and> hd s = 45 then tl s else s)"
  from num obtain c where "scan_decimal t = (c, r)" "sc_int c \<noteq> []"
    by (auto simp: json_number_def Let_def t_def numeral_ok_def split: prod.splits if_splits)
  from scan_decimal_length [OF this(1)] this(2) have "length r < length t" by (cases "sc_int c") auto
  then show ?thesis by (auto simp: t_def split: if_splits)
qed

lemma strip_word_length: "w \<noteq> [] \<Longrightarrow> strip_word w v s = Some (x, r) \<Longrightarrow> length r < length s"
  by (cases s) (auto simp: strip_word_def startsWith_def js_def split: if_splits)

lemma json_value_length: "json_value s = Some (v, r) \<Longrightarrow> length r < length s"
  and json_elements_length: "json_elements s = Some (vs, q) \<Longrightarrow> length q < length s"
  and json_members_length: "json_members s = Some (fs, t) \<Longrightarrow> length t < length s"
proof (induction s and s and s arbitrary: v r and vs q and fs t rule: json_value_json_elements_json_members.induct)
  case (1 s)
  show ?case
  proof (cases "skip_ws s")
    case (Cons c u)
    then have u: "length u < length s" by (rule skip_ws_Cons)
    have obj: "length q < length s" if "c = 123" "skip_ws u = d # w" "d \<noteq> 125" "json_members u = Some (fs, q)" for d w fs q
      using less_trans [OF "1.IH"(1) [OF Cons that] u] .
    have arr: "length q < length s" if "c = 91" "skip_ws u = d # w" "d \<noteq> 93" "json_elements u = Some (vs, q)" for d w vs q
    proof -
      have "c \<noteq> 123" using that(1) by simp
      from less_trans [OF "1.IH"(2) [OF Cons this that] u] show ?thesis .
    qed
    have word: "length r < length s" if "strip_word w x (c' # u) = Some (v, r)" "w \<noteq> []" for w x c'
      using strip_word_length [OF that(2,1)] u by simp
    from "1.prems" u show ?thesis
      by (auto simp: json_value.simps [of s] Cons dest: obj arr word skip_ws_Cons
          dest!: json_number_length json_string_length split: if_splits list.splits option.splits)
  qed (use 1 in \<open>simp add: json_value.simps\<close>)
next
  case (2 s)
  from "2.prems" obtain x u c w where u: "json_value s = Some (x, u)" "length u < length s" and w: "skip_ws u = c # w"
    by (auto simp: json_elements.simps [of s] split: if_splits list.splits option.splits)
  have "length q < length w" if "c = 44" "json_elements w = Some (ys, q)" for ys
    using "2.IH"(2) [OF u(1) refl u(2) w that] .
  with "2.prems" u w skip_ws_Cons [OF w] show ?case
    by (auto simp: json_elements.simps [of s] split: if_splits option.splits intro: less_trans)
next
  case (3 s)
  from "3.prems" obtain u k u1 u2 x u3 e u4 where w: "skip_ws s = 34 # u" and k: "json_string u = Some (k, u1)"
    and c: "skip_ws u1 = 58 # u2" and x: "json_value u2 = Some (x, u3)" "length u3 < length u2" and e: "skip_ws u3 = e # u4"
    by (auto simp: json_members.simps [of s] split: if_splits list.splits option.splits)
  have "length t < length u4" if "e = 44" "json_members u4 = Some (ys, t)" for ys
    using "3.IH"(2) [OF w _ k refl c _ x(1) refl x(2) e that] by simp
  moreover have "length u4 < length s"
    using skip_ws_Cons [OF w] json_string_length [OF k] skip_ws_Cons [OF c] x(2) skip_ws_Cons [OF e] by linarith
  ultimately show ?case using "3.prems" w k c x e
    by (auto simp: json_members.simps [of s] split: if_splits option.splits intro: less_trans)
qed

text \<open>So the guards of the equations always hold, and white space in front changes nothing.\<close>

lemma json_elements_eq:
  "json_elements s =
     (case json_value s of
        None \<Rightarrow> None
      | Some (v, r) \<Rightarrow>
          (case skip_ws r of
             [] \<Rightarrow> None
           | c # r' \<Rightarrow>
               if c = 44 then (case json_elements r' of None \<Rightarrow> None | Some (vs, q) \<Rightarrow> Some (v # vs, q))
               else if c = 93 then Some ([v], r') else None))"
  by (subst json_elements.simps) (auto dest: json_value_length split: option.splits)

lemma json_value_skip: "skip_ws s = skip_ws t \<Longrightarrow> json_value s = json_value t"
  by (simp add: json_value.simps [of s] json_value.simps [of t])

lemma json_elements_skip: "skip_ws s = skip_ws t \<Longrightarrow> json_elements s = json_elements t"
  by (simp add: json_elements_eq [of s] json_elements_eq [of t] json_value_skip [of s t])

lemma json_members_skip: "skip_ws s = skip_ws t \<Longrightarrow> json_members s = json_members t"
  by (simp add: json_members.simps [of s] json_members.simps [of t])

subsection \<open>Printing\<close>

definition hex_lower :: "nat \<Rightarrow> code_unit" where
  "hex_lower n = of_nat (if n < 10 then 48 + n else 87 + n)"

definition unicode_escape :: "code_unit \<Rightarrow> jstr" where
  "unicode_escape c = (let n = unat c in
     [92, 117, hex_lower (n div 4096), hex_lower (n div 256 mod 16), hex_lower (n div 16 mod 16), hex_lower (n mod 16)])"

definition high_surrogate :: "code_unit \<Rightarrow> bool" where
  "high_surrogate c \<longleftrightarrow> 0xD800 \<le> c \<and> c \<le> 0xDBFF"

definition low_surrogate :: "code_unit \<Rightarrow> bool" where
  "low_surrogate c \<longleftrightarrow> 0xDC00 \<le> c \<and> c \<le> 0xDFFF"

definition json_char :: "code_unit \<Rightarrow> jstr" where
  "json_char c =
     (case map_of [(8, 98), (9, 116), (10, 110), (12, 102), (13, 114), (34, 34), (92, 92)] c of
        Some e \<Rightarrow> [92, e]
      | None \<Rightarrow> if c < 32 \<or> high_surrogate c \<or> low_surrogate c then unicode_escape c else [c])"

text \<open>A surrogate is escaped unless it belongs to a pair.\<close>

fun json_chars :: "jstr \<Rightarrow> jstr" where
  "json_chars [] = []"
| "json_chars [c] = json_char c"
| "json_chars (c # d # s) =
     (if high_surrogate c \<and> low_surrogate d then c # d # json_chars s else json_char c @ json_chars (d # s))"

definition json_quote :: "jstr \<Rightarrow> jstr" where
  "json_quote s = 34 # json_chars s @ [34]"

text \<open>\<^verbatim>\<open>JSON.stringify(v, null, gap)\<close> at an indentation; without a gap there is no white space.\<close>

definition new_line :: "jstr \<Rightarrow> jstr \<Rightarrow> jstr" where
  "new_line gap ind = (if gap = [] then [] else 10 # ind)"

fun json_print :: "jstr \<Rightarrow> jstr \<Rightarrow> json \<Rightarrow> jstr" where
  "json_print gap ind JNull = js ''null''"
| "json_print gap ind (JBool b) = (if b then js ''true'' else js ''false'')"
| "json_print gap ind (JNum d) = dec_str d"
| "json_print gap ind (JStr s) = json_quote s"
| "json_print gap ind (JArr vs) =
     (if vs = [] then js ''[]''
      else 91 # new_line gap (ind @ gap) @
        join (44 # new_line gap (ind @ gap)) (map (json_print gap (ind @ gap)) vs) @ new_line gap ind @ [93])"
| "json_print gap ind (JObj fs) =
     (if fs = [] then js ''{}''
      else 123 # new_line gap (ind @ gap) @
        join (44 # new_line gap (ind @ gap))
          (map (\<lambda>(k, v). json_quote k @ 58 # (if gap = [] then [] else [32]) @ json_print gap (ind @ gap) v) fs) @
        new_line gap ind @ [125])"

definition JSON_stringify :: "json \<Rightarrow> jstr" where
  "JSON_stringify v = json_print [] [] v"

definition JSON_stringify2 :: "json \<Rightarrow> jstr" where
  "JSON_stringify2 v = json_print (js ''  '') [] v"


subsection \<open>What is printed is read back\<close>

lemma radix_hex_lower: "n < 16 \<Longrightarrow> radix_digit (hex_lower n) = Some n"
proof -
  assume "n < 16"
  moreover have "\<forall>n \<in> set [0..<16]. radix_digit (hex_lower n) = Some n" by code_simp
  ultimately show ?thesis by simp
qed

lemma hex4_unicode_escape:
  "hex4 (hex_lower (unat c div 4096)) (hex_lower (unat c div 256 mod 16)) (hex_lower (unat c div 16 mod 16)) (hex_lower (unat c mod 16)) = Some c"
proof -
  have "unat c < 2 ^ LENGTH(16)" by (rule unsigned_less)
  then have c: "unat c < 65536" by simp
  have "unat c div 4096 = unat c div 256 div 16" "unat c div 256 = unat c div 16 div 16"
    by (simp_all add: div_mult2_eq [symmetric])
  then have "((unat c div 4096 * 16 + unat c div 256 mod 16) * 16 + unat c div 16 mod 16) * 16 + unat c mod 16 = unat c"
    by (simp only: div_mult_mod_eq)
  moreover have "unat c div 4096 < 16" using c by auto
  ultimately show ?thesis by (simp add: hex4_def radix_value_def radix_hex_lower algebra_simps)
qed

lemma json_string_char: "json_string (json_char c @ s) = map_option (\<lambda>(t, r). (c # t, r)) (json_string s)"
proof (cases "map_of [(8, 98), (9, 116), (10, 110), (12, 102), (13, 114), (34, 34), (92, 92)] c")
  case None
  then show ?thesis by (auto simp: json_char_def unicode_escape_def Let_def hex4_unicode_escape split: if_splits)
next
  case (Some e)
  then show ?thesis by (auto simp: json_char_def simple_escapes_def split: if_splits)
qed

lemma surrogate_plain: "high_surrogate c \<or> low_surrogate c \<Longrightarrow> c \<noteq> 34 \<and> \<not> c < 32 \<and> c \<noteq> 92"
proof -
  assume "high_surrogate c \<or> low_surrogate c"
  then have "0xD800 \<le> c"
    using order_trans [where x = "0xD800" and y = "0xDC00" and z = c] by (auto simp: high_surrogate_def low_surrogate_def)
  then show ?thesis using order_le_less_trans [where x = "0xD800" and y = c and z = 32] by auto
qed

lemma json_string_chars: "json_string (json_chars s @ 34 # r) = Some (s, r)"
proof (induction s rule: json_chars.induct)
  case (3 c d s)
  then show ?case using surrogate_plain [of c] surrogate_plain [of d] by (auto simp: json_string_char)
qed (simp_all add: json_string_char)

lemma json_number_dec_str: "dec_ok d \<Longrightarrow> stops r \<Longrightarrow> json_number (dec_str d @ r) = Some (d, r)"
proof -
  assume ok: "dec_ok d" and r: "stops r"
  obtain m e where d: "d = (m, e)" by fastforce
  define s where "s = nat_str (nat \<bar>m\<bar>)"
  define b where "b = digits_str s (int (length s) + e)"
  have hd_b: "b \<noteq> []" "is_digit (hd b)" using digits_str_ok nat_str_digits by (auto simp: b_def s_def)
  show ?thesis
  proof (cases "m = 0")
    case True
    have "scan_decimal ([48] @ r) = (\<lparr>sc_int = [48], sc_dot = False, sc_frac = [], sc_exp = 0\<rparr>, r)"
      by (rule scan_decimal_int) (use r in \<open>auto simp: stops_def scan_exp_stops\<close>)
    then show ?thesis using True ok
      by (simp add: d dec_ok_def dec_str.simps json_number_def numeral_ok_def scanned_dec_def mk_dec_def strip10.simps)
  next
    case False
    then have "0 < \<bar>m\<bar>" "dec_ok (\<bar>m\<bar>, e)" using ok by (auto simp: d dec_ok_def abs_if dvd_eq_mod_eq_0 [symmetric])
    from scan_digits_str [OF this r] obtain c
      where c: "scan_decimal (b @ r) = (c, r)" "numeral_ok c" "scanned_dec c = (\<bar>m\<bar>, e)"
      by (auto simp: b_def s_def)
    have "dec_str d = (if m < 0 then 45 # b else b)" using False by (simp add: d dec_str.simps b_def s_def Let_def)
    moreover have "hd b \<noteq> 45" using hd_b by (auto simp: is_digit_def)
    ultimately show ?thesis using c hd_b by (auto simp: json_number_def Let_def dec_neg_def d split: if_splits)
  qed
qed

text \<open>Values as the reader builds them.\<close>

fun json_ok :: "json \<Rightarrow> bool" where
  "json_ok (JNum d) = dec_ok d"
| "json_ok (JArr vs) = (\<forall>v \<in> set vs. json_ok v)"
| "json_ok (JObj fs) = (make_object fs = JObj fs \<and> (\<forall>(k, v) \<in> set fs. json_ok v))"
| "json_ok _ = True"

abbreviation blank :: "jstr \<Rightarrow> bool" where
  "blank w \<equiv> \<forall>c \<in> set w. json_ws c"

lemma skip_blank: "blank w \<Longrightarrow> skip_ws (w @ s) = skip_ws s"
  by (simp add: skip_ws_def)

lemma blank_new_line: "blank ind \<Longrightarrow> blank (new_line gap ind)"
  by (auto simp: new_line_def json_ws_def)

lemma skip_ws_solid: "s \<noteq> [] \<Longrightarrow> \<not> json_ws (hd s) \<Longrightarrow> skip_ws (s @ r) = s @ r"
  by (cases s) (auto simp: skip_ws_def)

definition solid :: "jstr \<Rightarrow> bool" where
  "solid s \<longleftrightarrow> s \<noteq> [] \<and> \<not> json_ws (hd s) \<and> hd s \<noteq> 93 \<and> hd s \<noteq> 125"

lemma json_print_solid: "solid (json_print gap ind v)"
proof (cases v)
  case (JNum d)
  have "x \<noteq> 93 \<and> x \<noteq> 125 \<and> \<not> json_ws x" if "x = 45 \<or> is_digit x" for x
    using that by (auto simp: is_digit_def json_ws_def)
  then show ?thesis using dec_str_hd [of d] JNum by (auto simp: solid_def)
qed (auto simp: solid_def json_ws_def js_def json_quote_def)


lemma stops_json [simp]: "stops (44 # r)" "stops (93 # r)" "stops (125 # r)" "stops (10 # r)" "stops []"
  by (simp_all add: stops_def is_digit_def)

lemma stops_new_line: "stops r \<Longrightarrow> stops (new_line gap ind @ r)"
  by (auto simp: new_line_def)

lemma skip_punctuation [simp]: "skip_ws (44 # r) = 44 # r" "skip_ws (93 # r) = 93 # r" "skip_ws (125 # r) = 125 # r" "skip_ws (58 # r) = 58 # r"
  "skip_ws (34 # r) = 34 # r" "skip_ws (91 # r) = 91 # r" "skip_ws (123 # r) = 123 # r"
  by (simp_all add: skip_ws_def json_ws_def)

lemma json_elements_join:
  assumes "vs \<noteq> []" "blank w" "blank e" "stops (e @ 93 # r)"
    and "\<And>v q. v \<in> set vs \<Longrightarrow> stops q \<Longrightarrow> json_value (p v @ q) = Some (v, q)"
  shows "json_elements (join (44 # w) (map p vs) @ e @ 93 # r) = Some (vs, r)"
  using assms(1,5)
proof (induction vs rule: list_nonempty_induct)
  case (single v)
  then show ?case using assms(3,4) by (subst json_elements_eq) (simp add: skip_blank)
next
  case (cons v vs)
  let ?rest = "join (44 # w) (map p vs) @ e @ 93 # r"
  have "json_elements (w @ ?rest) = Some (vs, r)"
    using cons assms(2) by (subst json_elements_skip [OF skip_blank]) auto
  moreover have "json_value (p v @ 44 # w @ ?rest) = Some (v, 44 # w @ ?rest)" using cons.prems by simp
  ultimately show ?case using cons.hyps by (subst json_elements_eq) (simp add: join_Cons)
qed

lemma json_members_join:
  assumes "fs \<noteq> []" "blank w" "blank e" "blank g" "stops (e @ 125 # r)"
    and "\<And>k v q. (k, v) \<in> set fs \<Longrightarrow> stops q \<Longrightarrow> json_value (p v @ q) = Some (v, q)"
  shows "json_members (join (44 # w) (map (\<lambda>(k, v). json_quote k @ 58 # g @ p v) fs) @ e @ 125 # r) = Some (fs, r)"
proof -
  have val: "json_value (g @ p v @ q) = Some (v, q)" if "(k, v) \<in> set fs" "stops q" for k v q
    using assms(6) [OF that] json_value_skip [OF skip_blank [OF assms(4), of "p v @ q"]] by simp
  from assms(1) val show ?thesis
  proof (induction fs rule: list_nonempty_induct)
    case (single f)
    then show ?case using assms(3,5)
      by (cases f) (simp add: json_members.simps json_quote_def json_string_chars skip_blank, use json_value_length in fastforce)
  next
    case (cons f fs)
    let ?rest = "join (44 # w) (map (\<lambda>(k, v). json_quote k @ 58 # g @ p v) fs) @ e @ 125 # r"
    obtain k v where f: "f = (k, v)" by fastforce
    have "json_members (w @ ?rest) = Some (fs, r)"
      using cons assms(2) by (subst json_members_skip [OF skip_blank]) auto
    moreover have "json_value (g @ p v @ 44 # w @ ?rest) = Some (v, 44 # w @ ?rest)"
      by (rule cons.prems [of k]) (simp_all add: f)
    moreover from json_value_length [OF this] have "Suc (length w + length ?rest) < length g + length (p v @ 44 # w @ ?rest)" by simp
    ultimately show ?case using cons.hyps f
      by (subst json_members.simps) (simp add: join_Cons json_quote_def json_string_chars)
  qed
qed

lemma solid_join: "xs \<noteq> [] \<Longrightarrow> \<forall>x \<in> set xs. solid x \<Longrightarrow> solid (join sep xs @ r)"
  by (cases xs rule: remdups_adj.cases) (auto simp: solid_def)

text \<open>The opening of an array and of an object, before something that is not its end.\<close>

lemma json_value_array:
  assumes "solid s" "blank w"
  shows "json_value (91 # w @ s) = map_option (\<lambda>(vs, q). (JArr vs, q)) (json_elements s)"
proof -
  have "skip_ws (w @ s) = s" using assms skip_ws_solid [of s "[]"] by (simp add: skip_blank solid_def)
  moreover have "json_elements (w @ s) = json_elements s" using assms(2) by (intro json_elements_skip skip_blank)
  moreover obtain d t where "s = d # t" "d \<noteq> 93" using assms(1) by (cases s) (auto simp: solid_def)
  ultimately show ?thesis by (subst json_value.simps) (auto split: option.split)
qed

lemma json_value_object:
  assumes "solid s" "blank w"
  shows "json_value (123 # w @ s) = map_option (\<lambda>(fs, q). (make_object fs, q)) (json_members s)"
proof -
  have "skip_ws (w @ s) = s" using assms skip_ws_solid [of s "[]"] by (simp add: skip_blank solid_def)
  moreover have "json_members (w @ s) = json_members s" using assms(2) by (intro json_members_skip skip_blank)
  moreover obtain d t where "s = d # t" "d \<noteq> 125" using assms(1) by (cases s) (auto simp: solid_def)
  ultimately show ?thesis by (subst json_value.simps) (auto split: option.split)
qed

lemma json_value_print:
  "json_ok v \<Longrightarrow> blank gap \<Longrightarrow> blank ind \<Longrightarrow> stops r \<Longrightarrow> json_value (json_print gap ind v @ r) = Some (v, r)"
proof (induction v arbitrary: ind r)
  case JNull
  then show ?case by (simp add: json_value.simps js_def skip_ws_def json_ws_def strip_word_def startsWith_def)
next
  case (JBool b)
  then show ?case by (cases b) (simp_all add: json_value.simps js_def skip_ws_def json_ws_def strip_word_def startsWith_def)
next
  case (JNum d)
  have "hd (dec_str d) \<notin> {123, 91, 34, 116, 102, 110}" "\<not> json_ws (hd (dec_str d))"
    using dec_str_hd(2) [of d] by (auto simp: is_digit_def json_ws_def)
  moreover obtain c s where "dec_str d = c # s" using dec_str_hd(1) [of d] by (cases "dec_str d") auto
  ultimately show ?case using json_number_dec_str [of d r] JNum
    by (subst json_value.simps) (auto simp: skip_ws_def)
next
  case (JStr s)
  then show ?case by (simp add: json_value.simps json_quote_def json_string_chars)
next
  case (JArr vs)
  let ?ind = "ind @ gap"
  show ?case
  proof (cases "vs = []")
    case False
    let ?s = "join (44 # new_line gap ?ind) (map (json_print gap ?ind) vs) @ new_line gap ind @ 93 # r"
    have bl: "blank (new_line gap ?ind)" "blank (new_line gap ind)" using JArr.prems by (intro blank_new_line; auto)+
    have "json_value (json_print gap ?ind v @ q) = Some (v, q)" if "v \<in> set vs" "stops q" for v q
      by (rule JArr.IH) (use JArr.prems that in auto)
    then have "json_elements ?s = Some (vs, r)"
      by (intro json_elements_join) (use False bl in \<open>auto intro: stops_new_line\<close>)
    moreover have "solid ?s" using False by (intro solid_join) (auto simp: json_print_solid)
    ultimately show ?thesis using False bl(1) by (simp add: json_value_array)
  qed (simp add: json_value.simps js_def)
next
  case (JObj fs)
  let ?ind = "ind @ gap" and ?g = "if gap = [] then [] else [32]"
  show ?case
  proof (cases "fs = []")
    case False
    let ?p = "\<lambda>(k, v). json_quote k @ 58 # ?g @ json_print gap ?ind v"
    let ?s = "join (44 # new_line gap ?ind) (map ?p fs) @ new_line gap ind @ 125 # r"
    have bl: "blank (new_line gap ?ind)" "blank (new_line gap ind)" using JObj.prems by (intro blank_new_line; auto)+
    have "json_value (json_print gap ?ind v @ q) = Some (v, q)" if "(k, v) \<in> set fs" "stops q" for k v q
      by (rule JObj.IH [OF that(1)]) (use JObj.prems that in \<open>auto intro: snds.intros\<close>)
    then have "json_members ?s = Some (fs, r)"
      by (intro json_members_join) (use False bl in \<open>auto intro: stops_new_line simp: json_ws_def\<close>)
    moreover have "solid ?s" using False by (intro solid_join) (auto simp: solid_def json_quote_def json_ws_def)
    ultimately show ?thesis using False bl(1) JObj.prems(1) by (simp add: json_value_object)
  qed (simp add: json_value.simps js_def)
qed

lemma JSON_parse_print: "json_ok v \<Longrightarrow> blank gap \<Longrightarrow> JSON_parse (json_print gap [] v) = Some v"
  using json_value_print [of v gap "[]" "[]"] by (simp add: JSON_parse_def skip_ws_def)


subsection \<open>What is read is well-formed\<close>

lemma comparator_key_compare: "comparator key_compare"
proof
  show "key_compare x y < 0 \<longleftrightarrow> 0 < key_compare y x" for x y
    by (auto simp: key_compare_def split: option.split)
  show "key_compare x y \<le> 0 \<Longrightarrow> key_compare y z \<le> 0 \<Longrightarrow> key_compare x z \<le> 0" for x y z
    by (auto simp: key_compare_def split: option.splits)
qed

interpretation key_order: comparator key_compare
  by (rule comparator_key_compare)

lemma fold_omap_distinct: "distinct (map fst m) \<Longrightarrow> distinct (map fst (fold (\<lambda>(k, v). omap_set k v) fs m))"
  by (induction fs arbitrary: m) (auto simp: omap_distinct_set)

lemma omap_set_new: "k \<notin> fst ` set m \<Longrightarrow> omap_set k v m = m @ [(k, v)]"
  by (induction m) auto

lemma fold_omap_id: "distinct (map fst (m @ fs)) \<Longrightarrow> fold (\<lambda>(k, v). omap_set k v) fs m = m @ fs"
  by (induction fs arbitrary: m) (auto simp: omap_set_new)

lemma make_object_idem: "make_object fs = JObj gs \<Longrightarrow> make_object gs = JObj gs"
proof -
  assume "make_object fs = JObj gs"
  then have gs: "gs = js_sort key_compare (fold (\<lambda>(k, v). omap_set k v) fs [])" by (simp add: make_object_def)
  then have "distinct (map fst gs)" using fold_omap_distinct [of "[]" fs] by simp
  then have "fold (\<lambda>(k, v). omap_set k v) gs [] = gs" using fold_omap_id [of "[]" gs] by simp
  then show ?thesis using key_order.sort_idem gs by (simp add: make_object_def)
qed

lemma set_fold_omap: "set (fold (\<lambda>(k, v). omap_set k v) fs m) \<subseteq> set m \<union> set fs"
proof -
  have "set (omap_set k v m) \<subseteq> insert (k, v) (set m)" for k :: 'a and v :: 'b and m
    by (induction m) (auto split: if_splits)
  note omap = this
  show ?thesis
  proof (induction fs arbitrary: m)
    case (Cons f fs)
    obtain k v where f: "f = (k, v)" by fastforce
    from Cons [of "omap_set k v m"] omap [of k v m] show ?case unfolding f by (simp only: fold.simps comp_def) auto
  qed simp
qed

lemma json_ok_make_object: "\<forall>(k, v) \<in> set fs. json_ok v \<Longrightarrow> json_ok (make_object fs)"
proof -
  assume ok: "\<forall>(k, v) \<in> set fs. json_ok v"
  obtain gs where gs: "make_object fs = JObj gs" by (simp add: make_object_def)
  then have "set gs \<subseteq> set fs" using set_fold_omap [of fs "[]"] by (auto simp: make_object_def)
  then show ?thesis using ok gs make_object_idem [OF gs] by auto
qed

lemma dec_ok_neg: "dec_ok d \<Longrightarrow> dec_ok (dec_neg d)"
  by (cases d) (auto simp: dec_ok_def dec_neg_def dvd_eq_mod_eq_0 [symmetric])

lemma json_number_ok: "json_number s = Some (d, r) \<Longrightarrow> dec_ok d"
  by (auto simp: json_number_def Let_def scanned_dec_def mk_dec_ok dec_ok_neg split: prod.splits if_splits)

lemma strip_word_ok: "strip_word w v s = Some (x, r) \<Longrightarrow> x = v"
  by (simp add: strip_word_def split: if_splits)

lemma json_value_ok: "json_value s = Some (v, r) \<Longrightarrow> json_ok v"
  and json_elements_ok: "json_elements s = Some (vs, q) \<Longrightarrow> \<forall>v \<in> set vs. json_ok v"
  and json_members_ok: "json_members s = Some (fs, t) \<Longrightarrow> \<forall>(k, v) \<in> set fs. json_ok v"
proof (induction s and s and s arbitrary: v r and vs q and fs t rule: json_value_json_elements_json_members.induct)
  case (1 s)
  show ?case
  proof (cases "skip_ws s")
    case (Cons c u)
    have obj: "json_ok (make_object fs)" if "c = 123" "skip_ws u = d # w" "d \<noteq> 125" "json_members u = Some (fs, q)" for d w fs q
      using json_ok_make_object [OF "1.IH"(1) [OF Cons that]] .
    have arr: "\<forall>x \<in> set vs. json_ok x" if "c = 91" "skip_ws u = d # w" "d \<noteq> 93" "json_elements u = Some (vs, q)" for d w vs q
    proof -
      have "c \<noteq> 123" using that(1) by simp
      from "1.IH"(2) [OF Cons this that] show ?thesis .
    qed
    from "1.prems" show ?thesis
      by (auto simp: json_value.simps [of s] Cons make_object_def dest: obj arr dest!: json_number_ok strip_word_ok
          split: if_splits list.splits option.splits)
  qed (use 1 in \<open>simp add: json_value.simps\<close>)
next
  case (2 s)
  from "2.prems" obtain x u c w where u: "json_value s = Some (x, u)" "length u < length s" and w: "skip_ws u = c # w"
    by (auto simp: json_elements.simps [of s] split: if_splits list.splits option.splits)
  have "\<forall>v \<in> set ys. json_ok v" if "c = 44" "json_elements w = Some (ys, q)" for ys
    using "2.IH"(2) [OF u(1) refl u(2) w that] .
  moreover have "json_ok x" using "2.IH"(1) [OF u(1)] .
  ultimately show ?case using "2.prems" u w
    by (auto simp: json_elements.simps [of s] split: if_splits option.splits)
next
  case (3 s)
  from "3.prems" obtain u k u1 u2 x u3 e u4 where w: "skip_ws s = 34 # u" and k: "json_string u = Some (k, u1)"
    and c: "skip_ws u1 = 58 # u2" and x: "json_value u2 = Some (x, u3)" "length u3 < length u2" and e: "skip_ws u3 = e # u4"
    by (auto simp: json_members.simps [of s] split: if_splits list.splits option.splits)
  have "\<forall>(k, v) \<in> set ys. json_ok v" if "e = 44" "json_members u4 = Some (ys, t)" for ys
    using "3.IH"(2) [OF w _ k refl c _ x(1) refl x(2) e that] by simp
  moreover have "json_ok x" using "3.IH"(1) [OF w _ k refl c _ x(1)] by simp
  ultimately show ?case using "3.prems" w k c x e
    by (auto simp: json_members.simps [of s] split: if_splits option.splits)
qed

lemma JSON_parse_ok: "JSON_parse s = Some v \<Longrightarrow> json_ok v"
  by (auto simp: JSON_parse_def split: option.splits prod.splits if_splits dest: json_value_ok)

end
