(* ===== verification/ApiClient.thy ===== *)
theory ApiClient
  imports Html Labels Json
begin

section \<open>The API client: errors, token storage, requests, event streams\<close>

text \<open>
  Models \<^verbatim>\<open>web/src/api/client.ts\<close>: the error class, the bearer token kept in one of the two
  browser storages, the request wrapper, and the parser and connection loop of server-sent events.
  The browser is a parameter: the storages are maps, the network is the response (or rejection)
  given to the code that awaits it, and the connection loop is a step function over the
  completions it can await.
\<close>

subsection \<open>Errors\<close>

record api_error_detail =
  detail_message :: "jstr option"
  detail_code :: "jstr option"
  detail_details :: "json option"

record api_error_body =
  body_message :: "jstr option"
  body_code :: "jstr option"
  body_error :: "api_error_detail option"

record api_error =
  err_status :: int
  err_body :: "api_error_body option"
  err_message :: jstr

text \<open>The constructor: \<^verbatim>\<open>body?.error?.message ?? body?.message ?? `... (${status})`\<close>.\<close>

definition ApiError :: "int \<Rightarrow> api_error_body option \<Rightarrow> api_error" where
  "ApiError status body =
     \<lparr>err_status = status,
      err_body = body,
      err_message =
        nullish (Option.bind (Option.bind body body_error) detail_message)
          (nullish (Option.bind body body_message)
            (ko_api_request_failed @ js '' ('' @ int_str status @ js '')''))\<rparr>"

text \<open>What a rejected promise carries: an \<^verbatim>\<open>ApiError\<close>, the abort signal, another \<^verbatim>\<open>Error\<close>, or any
  other value.\<close>

datatype thrown =
    TApi api_error
  | TAbort jstr
  | TError jstr
  | TValue json

subsection \<open>Token storage\<close>

record web_storage =
  sessionStorage :: "jstr \<rightharpoonup> jstr"
  localStorage :: "jstr \<rightharpoonup> jstr"

text \<open>\<open>None\<close>: there is no \<^verbatim>\<open>window\<close>.\<close>

type_synonym window = "web_storage option"

datatype token_storage_mode = ModeLocal | ModeSession | ModeNone

definition TOKEN_STORAGE_KEY :: jstr where
  "TOKEN_STORAGE_KEY = js ''cron_agent_dashboard_token''"

definition readToken :: "window \<Rightarrow> jstr" where
  "readToken w = (case w of
       None \<Rightarrow> []
     | Some st \<Rightarrow>
         (case sessionStorage st TOKEN_STORAGE_KEY of
            Some t \<Rightarrow> t
          | None \<Rightarrow> nullish (localStorage st TOKEN_STORAGE_KEY) []))"

definition readTokenStorageMode :: "window \<Rightarrow> token_storage_mode" where
  "readTokenStorageMode w = (case w of
       None \<Rightarrow> ModeNone
     | Some st \<Rightarrow>
         if sessionStorage st TOKEN_STORAGE_KEY \<noteq> None then ModeSession
         else if localStorage st TOKEN_STORAGE_KEY \<noteq> None then ModeLocal
         else ModeNone)"

definition setToken :: "jstr \<Rightarrow> bool \<Rightarrow> window \<Rightarrow> window" where
  "setToken token sessionOnly w = (case w of
       None \<Rightarrow> None
     | Some st \<Rightarrow>
         let normalizedToken = trim token in
         if sessionOnly
         then Some (st\<lparr>sessionStorage := (sessionStorage st)(TOKEN_STORAGE_KEY \<mapsto> normalizedToken),
                       localStorage := (localStorage st)(TOKEN_STORAGE_KEY := None)\<rparr>)
         else Some (st\<lparr>localStorage := (localStorage st)(TOKEN_STORAGE_KEY \<mapsto> normalizedToken),
                       sessionStorage := (sessionStorage st)(TOKEN_STORAGE_KEY := None)\<rparr>))"

definition clearToken :: "window \<Rightarrow> window" where
  "clearToken w = (case w of
       None \<Rightarrow> None
     | Some st \<Rightarrow>
         Some (st\<lparr>sessionStorage := (sessionStorage st)(TOKEN_STORAGE_KEY := None),
                  localStorage := (localStorage st)(TOKEN_STORAGE_KEY := None)\<rparr>))"

definition setSessionToken :: "jstr \<Rightarrow> window \<Rightarrow> window" where
  "setSessionToken token = setToken token True"

subsection \<open>Requests\<close>

text \<open>Header names are case-insensitive: a \<^verbatim>\<open>Headers\<close> object stores them in lower case.\<close>

type_synonym headers = "string \<rightharpoonup> jstr"

datatype body = NoBody | JsonBody json | FormBody "(string \<times> jstr) list"

record http_request =
  req_url :: jstr
  req_method :: string
  req_headers :: headers
  req_body :: body

record http_response =
  resp_status :: int
  resp_error_body :: "api_error_body option"  \<comment> \<open>\<open>json()\<close> in the failure branch, \<open>None\<close> if it rejects\<close>
  resp_json :: "thrown + json"                \<comment> \<open>\<open>json()\<close> in the success branch\<close>

definition resp_ok :: "http_response \<Rightarrow> bool" where
  "resp_ok r \<longleftrightarrow> 200 \<le> resp_status r \<and> resp_status r \<le> 299"

text \<open>\<^verbatim>\<open>import.meta.env.VITE_API_BASE_URL ?? '/api'\<close>, the build-time setting being a parameter.\<close>

definition API_BASE_URL :: "jstr option \<Rightarrow> jstr" where
  "API_BASE_URL env = nullish env (js ''/api'')"

definition bearer :: "jstr \<Rightarrow> jstr" where
  "bearer token = js ''Bearer '' @ token"

text \<open>The headers \<open>request\<close> sends, from those of \<open>init\<close>.\<close>

definition request_headers :: "window \<Rightarrow> headers \<Rightarrow> headers" where
  "request_headers w init =
     (let h1 = (if init ''content-type'' = None
                then init(''content-type'' \<mapsto> js ''application/json'') else init);
          token = readToken w
      in if token \<noteq> [] \<and> h1 ''authorization'' = None
         then h1(''authorization'' \<mapsto> bearer token) else h1)"

definition request ::
  "jstr option \<Rightarrow> window \<Rightarrow> jstr \<Rightarrow> string \<Rightarrow> headers \<Rightarrow> body \<Rightarrow> http_request" where
  "request env w path meth init_headers init_body =
     \<lparr>req_url = API_BASE_URL env @ path, req_method = meth,
      req_headers = request_headers w init_headers, req_body = init_body\<rparr>"

text \<open>What the caller of \<open>request\<close> receives: \<open>Inr None\<close> is \<^verbatim>\<open>undefined\<close>.\<close>

definition request_result :: "thrown + http_response \<Rightarrow> thrown + json option" where
  "request_result out = (case out of
       Inl e \<Rightarrow> Inl e
     | Inr r \<Rightarrow>
         if \<not> resp_ok r then Inl (TApi (ApiError (resp_status r) (resp_error_body r)))
         else if resp_status r = 204 then Inr None
         else map_sum id Some (resp_json r))"

definition client_url :: "jstr option \<Rightarrow> jstr \<Rightarrow> jstr" where
  "client_url env path = API_BASE_URL env @ path"

definition client_get :: "jstr option \<Rightarrow> window \<Rightarrow> jstr \<Rightarrow> http_request" where
  "client_get env w path = request env w path ''GET'' Map.empty NoBody"

definition json_body :: "json option \<Rightarrow> body" where
  "json_body b = (case b of None \<Rightarrow> NoBody | Some j \<Rightarrow> JsonBody j)"

definition client_post :: "jstr option \<Rightarrow> window \<Rightarrow> jstr \<Rightarrow> json option \<Rightarrow> http_request" where
  "client_post env w path b = request env w path ''POST'' Map.empty (json_body b)"

definition client_put :: "jstr option \<Rightarrow> window \<Rightarrow> jstr \<Rightarrow> json option \<Rightarrow> http_request" where
  "client_put env w path b = request env w path ''PUT'' Map.empty (json_body b)"

definition client_delete :: "jstr option \<Rightarrow> window \<Rightarrow> jstr \<Rightarrow> http_request" where
  "client_delete env w path = request env w path ''DELETE'' Map.empty NoBody"

text \<open>No JSON content type: the browser adds the multipart boundary itself.\<close>

definition client_postMultipart ::
  "jstr option \<Rightarrow> window \<Rightarrow> jstr \<Rightarrow> (string \<times> jstr) list \<Rightarrow> http_request" where
  "client_postMultipart env w path form =
     (let token = readToken w in
      \<lparr>req_url = API_BASE_URL env @ path, req_method = ''POST'',
       req_headers = (if token \<noteq> [] then Map.empty(''authorization'' \<mapsto> bearer token) else Map.empty),
       req_body = FormBody form\<rparr>)"

definition postMultipart_result :: "thrown + http_response \<Rightarrow> thrown + json option" where
  "postMultipart_result out = (case out of
       Inl e \<Rightarrow> Inl e
     | Inr r \<Rightarrow>
         if \<not> resp_ok r then Inl (TApi (ApiError (resp_status r) (resp_error_body r)))
         else if resp_status r = 204 then Inr None
         else map_sum id Some (resp_json r))"

definition stream_headers :: "window \<Rightarrow> headers" where
  "stream_headers w =
     (let h = Map.empty(''accept'' \<mapsto> js ''text/event-stream''); token = readToken w
      in if token \<noteq> [] then h(''authorization'' \<mapsto> bearer token) else h)"

subsection \<open>Server-sent events\<close>

type_synonym sse_event = "jstr \<times> jstr"

definition LF :: code_unit where "LF = 10"
definition CR :: code_unit where "CR = 13"

text \<open>One line of a block: a new event name, or one more line of data.\<close>

definition sse_line :: "jstr \<times> jstr list \<Rightarrow> jstr \<Rightarrow> jstr \<times> jstr list" where
  "sse_line acc rawLine =
     (let eventName = fst acc; dataLines = snd acc;
          line = (if endsWith rawLine [CR] then butlast rawLine else rawLine)
      in if line = [] \<or> startsWith line (js '':'') then acc
         else if startsWith line (js ''event:'')
         then (trimStart (drop (length ''event:'') line), dataLines)
         else if startsWith line (js ''data:'')
         then (let value = drop (length ''data:'') line
               in (eventName, dataLines @ [if startsWith value (js '' '') then drop 1 value else value]))
         else acc)"

definition dispatchSSEBlock :: "jstr \<Rightarrow> sse_event list" where
  "dispatchSSEBlock block =
     (let acc = foldl sse_line (js ''message'', []) (split_on LF block)
      in if snd acc \<noteq> [] then [(fst acc, join [LF] (snd acc))] else [])"

text \<open>\<^verbatim>\<open>buffer.replace(/\r\n/g, '\n').replace(/\r/g, '\n')\<close>\<close>

fun crlf_to_lf :: "jstr \<Rightarrow> jstr" where
  "crlf_to_lf (c # d # s) = (if c = CR \<and> d = LF then LF # crlf_to_lf s else c # crlf_to_lf (d # s))"
| "crlf_to_lf s = s"

definition normalize_newlines :: "jstr \<Rightarrow> jstr" where
  "normalize_newlines s = map (\<lambda>c. if c = CR then LF else c) (crlf_to_lf s)"

text \<open>\<^verbatim>\<open>s.indexOf(p, from)\<close> for a position inside the string: \<open>None\<close> stands for -1.\<close>

fun find_at :: "jstr \<Rightarrow> jstr \<Rightarrow> nat \<Rightarrow> nat option" where
  "find_at p [] i = (if p = [] then Some i else None)"
| "find_at p (c # s) i = (if startsWith (c # s) p then Some i else find_at p s (Suc i))"

definition indexOf :: "jstr \<Rightarrow> jstr \<Rightarrow> nat \<Rightarrow> nat option" where
  "indexOf s p from = find_at p (drop from s) from"

lemma find_at_bounds: "find_at p s i = Some j \<Longrightarrow> i \<le> j \<and> j + length p \<le> i + length s"
proof (induction s arbitrary: i)
  case (Cons c s)
  then show ?case
    by (auto split: if_splits dest: Cons.IH simp: startsWith_iff)
      (metis Suc_le_mono length_Cons length_append le_add1)
qed (auto split: if_splits)

lemma indexOf_bounds: "indexOf s p from = Some j \<Longrightarrow> from \<le> j \<and> j + length p \<le> max from (length s)"
  unfolding indexOf_def using find_at_bounds [of p "drop from s" "from" j] by fastforce

text \<open>The loop of \<open>drainSSEBuffer\<close> over the normalized buffer: the events dispatched and what is
  left. The cursor moves past each blank line found, so the loop ends.\<close>

function drain_loop :: "jstr \<Rightarrow> nat \<Rightarrow> sse_event list \<times> jstr" where
  "drain_loop normalized cursor =
     (case indexOf normalized [LF, LF] cursor of
        None \<Rightarrow> ([], drop cursor normalized)
      | Some idx \<Rightarrow>
          (let (es, rest) = drain_loop normalized (idx + 2)
           in (dispatchSSEBlock (slice cursor idx normalized) @ es, rest)))"
  by pat_completeness auto
termination
proof (relation "measure (\<lambda>(s, c). length s - c)")
  show "wf (measure (\<lambda>(s, c). length s - c))" by simp
  fix s :: jstr and c j
  assume "indexOf s [LF, LF] c = Some j"
  then show "((s, j + 2), (s, c)) \<in> measure (\<lambda>(s, c). length s - c)"
    using indexOf_bounds [of s "[LF, LF]" c j] by (auto simp: max_def split: if_splits)
qed

declare drain_loop.simps [simp del]

definition drainSSEBuffer :: "jstr \<Rightarrow> sse_event list \<times> jstr" where
  "drainSSEBuffer buffer = drain_loop (normalize_newlines buffer) 0"

definition flushSSEBuffer :: "jstr \<Rightarrow> sse_event list" where
  "flushSSEBuffer buffer =
     (let (es, rest) = drainSSEBuffer buffer
      in if trim rest \<noteq> [] then es @ dispatchSSEBlock rest else es)"

text \<open>The reading loop of \<open>streamSSE\<close> on the decoded chunks it receives before the end of the
  stream, with what the decoder holds back at the end.\<close>

fun read_chunks :: "jstr \<Rightarrow> jstr list \<Rightarrow> jstr \<Rightarrow> sse_event list" where
  "read_chunks buffer [] tail = flushSSEBuffer (buffer @ tail)"
| "read_chunks buffer (chunk # chunks) tail =
     (let (es, buffer') = drainSSEBuffer (buffer @ chunk) in es @ read_chunks buffer' chunks tail)"

text \<open>The frames the server writes (\<^verbatim>\<open>internal/httpapi/handlers_run.go\<close>, \<open>flushChunk\<close>): one
  \<^verbatim>\<open>data:\<close> line per line of the payload.\<close>

definition sse_frame :: "sse_event \<Rightarrow> jstr" where
  "sse_frame ev =
     js ''event: '' @ fst ev @ [LF] @
     concat (map (\<lambda>line. js ''data: '' @ line @ [LF]) (split_on LF (snd ev))) @ [LF]"


subsection \<open>The token store as an interface\<close>

text \<open>
  What the rest of the application relies on (\<^verbatim>\<open>apiAuth\<close>): the panels that save and clear the token,
  and the request wrapper that reads it. The laws speak of stores that are live, that is of a
  browser with a window.
\<close>

locale auth_store =
  fixes read :: "'w \<Rightarrow> jstr"
    and mode :: "'w \<Rightarrow> token_storage_mode"
    and set :: "jstr \<Rightarrow> bool \<Rightarrow> 'w \<Rightarrow> 'w"
    and clear :: "'w \<Rightarrow> 'w"
    and live :: "'w \<Rightarrow> bool"
  assumes live_set: "live w \<Longrightarrow> live (set t so w)"
    and live_clear: "live w \<Longrightarrow> live (clear w)"
    and read_set: "live w \<Longrightarrow> read (set t so w) = trim t"
    and mode_set: "live w \<Longrightarrow> mode (set t so w) = (if so then ModeSession else ModeLocal)"
    and read_clear: "read (clear w) = []"
    and mode_clear: "mode (clear w) = ModeNone"
begin

lemma set_overwrites: "live w \<Longrightarrow> read (set t so (set t' so' w)) = trim t"
  by (simp add: live_set read_set)

lemma set_read_back: "live w \<Longrightarrow> read (set (read (set t so w)) so' w) = trim t"
  by (simp add: read_set)

lemma move_keeps_token: "live w \<Longrightarrow> read (set (read (set t so w)) so' (set t so w)) = read (set t so w)"
  by (simp add: live_set read_set)

end

interpretation apiAuth: auth_store readToken readTokenStorageMode setToken clearToken "\<lambda>w. w \<noteq> None"
  by unfold_locales
    (auto simp: setToken_def clearToken_def readToken_def readTokenStorageMode_def Let_def split: option.splits)

text \<open>At most one of the two storages holds a token.\<close>

definition token_exclusive :: "window \<Rightarrow> bool" where
  "token_exclusive w = (case w of None \<Rightarrow> True
     | Some st \<Rightarrow> sessionStorage st TOKEN_STORAGE_KEY = None \<or> localStorage st TOKEN_STORAGE_KEY = None)"

lemma token_exclusive_set: "token_exclusive (setToken t so w)"
  by (auto simp: token_exclusive_def setToken_def Let_def split: option.splits)

lemma token_exclusive_clear: "token_exclusive (clearToken w)"
  by (auto simp: token_exclusive_def clearToken_def split: option.splits)

lemma setToken_other_keys:
  "k \<noteq> TOKEN_STORAGE_KEY \<Longrightarrow> setToken t so (Some st) = Some st' \<Longrightarrow>
     sessionStorage st' k = sessionStorage st k \<and> localStorage st' k = localStorage st k"
  by (auto simp: setToken_def Let_def split: if_splits)

subsection \<open>Requests: headers and results\<close>

lemma request_headers_authorization:
  "request_headers w init ''authorization'' =
     (case init ''authorization'' of
        Some v \<Rightarrow> Some v
      | None \<Rightarrow> if readToken w = [] then None else Some (bearer (readToken w)))"
  by (auto simp: request_headers_def Let_def split: option.splits)

lemma request_headers_content_type:
  "request_headers w init ''content-type'' = Some (nullish (init ''content-type'') (js ''application/json''))"
  by (auto simp: request_headers_def Let_def split: option.splits)

lemma ApiError_simps [simp]:
  "err_status (ApiError s b) = s" "err_body (ApiError s b) = b"
  by (simp_all add: ApiError_def)





end
