(* ===== verification/EventStream.thy ===== *)
theory EventStream
  imports ApiClient
begin

section \<open>Event streams: parsing, framing, reconnection\<close>

text \<open>
  The server-sent event side of \<^verbatim>\<open>web/src/api/client.ts\<close>. First the parser: the index-based loop of
  \<open>drainSSEBuffer\<close> against a reference that splits off one block after the other, its independence
  of how the network cuts the stream into chunks, and the round trip with the frames the server
  writes. Then the connection loop of \<open>streamSSE\<close> as a transition system whose events are the
  completions the code awaits and the unsubscription the caller may request at any time.
\<close>

subsection \<open>A reference for the draining loop\<close>

text \<open>Split off the text before the first blank line, and go on behind it.\<close>

function drain_blocks :: "jstr \<Rightarrow> sse_event list \<times> jstr" where
  "drain_blocks s =
     (case find_at [LF, LF] s 0 of
        None \<Rightarrow> ([], s)
      | Some i \<Rightarrow>
          (let (es, rest) = drain_blocks (drop (i + 2) s)
           in (dispatchSSEBlock (take i s) @ es, rest)))"
  by pat_completeness auto
termination
proof (relation "measure length")
  fix s :: jstr and i
  assume "find_at [LF, LF] s 0 = Some i"
  then show "(drop (i + 2) s, s) \<in> measure length"
    using find_at_bounds [of "[LF, LF]" s 0 i] by simp
qed simp

declare drain_blocks.simps [simp del]

lemma find_at_shift: "find_at p s i = map_option ((+) i) (find_at p s 0)"
proof (induction s arbitrary: i)
  case (Cons c s)
  show ?case
    using Cons.IH [of "Suc i"] Cons.IH [of "Suc 0"]
    by (cases "find_at p s 0") (simp_all add: option.map_comp)
qed simp

lemma find_at_append: "find_at p a 0 = Some i \<Longrightarrow> find_at p (a @ b) 0 = Some i"
proof (induction a arbitrary: i)
  case Nil
  then show ?case by (cases b) (auto split: if_splits simp: startsWith_iff)
next
  case (Cons c a)
  show ?case
  proof (cases "startsWith (c # a) p")
    case True
    then have "startsWith (c # a @ b) p" by (metis append_Cons append_assoc startsWith_iff)
    then show ?thesis using Cons.prems True by simp
  next
    case False
    then obtain j where j: "find_at p a 0 = Some j" "i = Suc j"
      using Cons.prems by (auto simp: find_at_shift [of p a "Suc 0"])
    from False j find_at_bounds [OF j(1)] have "\<not> startsWith (c # a @ b) p"
      by (auto simp: startsWith_iff append_eq_append_conv2 Cons_eq_append_conv)
    then show ?thesis using Cons.IH [OF j(1)] j by (simp add: find_at_shift [of p "a @ b" "Suc 0"])
  qed
qed

lemma find_at_None_iff: "find_at p s i = None \<longleftrightarrow> \<not> includes_str s p"
proof (induction s arbitrary: i)
  case (Cons c s)
  show ?case using Cons.IH [of "Suc i"] by (simp split: if_splits)
qed auto

lemma drain_loop_eq: "c \<le> length s \<Longrightarrow> drain_loop s c = drain_blocks (drop c s)"
proof (induction s c rule: drain_loop.induct)
  case (1 s c)
  show ?case
  proof (cases "find_at [LF, LF] (drop c s) 0")
    case None
    then show ?thesis
      by (simp add: drain_loop.simps [of s] drain_blocks.simps [of "drop c s"] indexOf_def
          find_at_shift [of _ _ c])
  next
    case (Some i)
    then have idx: "indexOf s [LF, LF] c = Some (c + i)"
      by (simp add: indexOf_def find_at_shift [of _ _ c])
    then have "c + i + 2 \<le> length s" using indexOf_bounds [OF idx] 1(2) by simp
    then have "drain_loop s (c + i + 2) = drain_blocks (drop (i + 2) (drop c s))"
      using 1(1) [OF idx] by (simp add: add.commute add.left_commute)
    then show ?thesis
      by (simp add: drain_loop.simps [of s c] drain_blocks.simps [of "drop c s"] idx Some slice_def
          take_drop add.commute)
  qed
qed

text \<open>C22: The draining loop, which walks the normalized buffer with an index, dispatches exactly the
  events of the reference that cuts the text at its blank lines one block at a time, and returns the
  same unfinished rest; that rest contains no blank line any more.\<close>

theorem drainSSEBuffer_is_drain_blocks:
  "drainSSEBuffer buffer = drain_blocks (normalize_newlines buffer) \<and>
   \<not> includes_str (snd (drainSSEBuffer buffer)) [LF, LF]"
proof -
  have rest: "\<not> includes_str (snd (drain_blocks s)) [LF, LF]" for s
  proof (induction s rule: drain_blocks.induct)
    case (1 s)
    then show ?case
      by (subst drain_blocks.simps) (auto split: option.split prod.split simp: find_at_None_iff)
  qed
  show ?thesis by (simp add: drainSSEBuffer_def drain_loop_eq rest)
qed

subsection \<open>Newline normalization\<close>

lemma crlf_to_lf_append:
  "a = [] \<or> last a \<noteq> CR \<Longrightarrow> crlf_to_lf (a @ b) = crlf_to_lf a @ crlf_to_lf b"
proof (induction a rule: crlf_to_lf.induct)
  case (1 c d s)
  then show ?case by (cases "s = []"; cases b) (auto simp: LF_def CR_def)
qed (simp, cases b, auto)

lemma normalize_append:
  "a = [] \<or> last a \<noteq> CR \<Longrightarrow> normalize_newlines (a @ b) = normalize_newlines a @ normalize_newlines b"
  by (simp add: normalize_newlines_def crlf_to_lf_append)

lemma crlf_to_lf_id: "CR \<notin> set s \<Longrightarrow> crlf_to_lf s = s"
  by (induction s rule: crlf_to_lf.induct) auto

lemma normalize_id: "CR \<notin> set s \<Longrightarrow> normalize_newlines s = s"
  by (auto simp: normalize_newlines_def crlf_to_lf_id intro!: map_idI)

lemma normalize_CR_free: "CR \<notin> set (normalize_newlines s)"
  by (auto simp: normalize_newlines_def LF_def CR_def)

lemma normalize_idem [simp]: "normalize_newlines (normalize_newlines s) = normalize_newlines s"
  by (rule normalize_id) (rule normalize_CR_free)

lemma drain_blocks_suffix: "\<exists>p. s = p @ snd (drain_blocks s)"
proof (induction s rule: drain_blocks.induct)
  case (1 s)
  show ?case
  proof (cases "find_at [LF, LF] s 0")
    case (Some i)
    then obtain p where "drop (i + 2) s = p @ snd (drain_blocks (drop (i + 2) s))" using 1 by auto
    then have "s = (take (i + 2) s @ p) @ snd (drain_blocks (drop (i + 2) s))"
      by (metis append_assoc append_take_drop_id)
    then show ?thesis
      by (simp add: drain_blocks.simps [of s] Some split: prod.split) (metis append_assoc snd_conv)
  qed (subst drain_blocks.simps, simp)
qed

lemma drain_rest_CR_free: "CR \<notin> set (snd (drainSSEBuffer s))"
proof -
  obtain p where "normalize_newlines s = p @ snd (drain_blocks (normalize_newlines s))"
    using drain_blocks_suffix by blast
  then show ?thesis
    using normalize_CR_free [of s] by (simp add: drainSSEBuffer_def drain_loop_eq) (metis Un_iff set_append)
qed

subsection \<open>Framed streams as an interface\<close>

text \<open>
  What a consumer of a framed stream relies on: frames decode to the values they encode whatever
  follows them, and decoding more input continues from the rest of the decoding before. The reading
  loop keeps the undecoded rest in a buffer; that loop is \<open>feed\<close>.
\<close>

locale framed_stream =
  fixes encode :: "'e \<Rightarrow> 'c list"
    and decode :: "'c list \<Rightarrow> 'e list \<times> 'c list"
    and wf_frame :: "'e \<Rightarrow> bool"
  assumes decode_Nil: "decode [] = ([], [])"
    and decode_frame: "wf_frame e \<Longrightarrow> decode (encode e @ s) = (e # fst (decode s), snd (decode s))"
    and decode_append: "decode (a @ b) =
      (fst (decode a) @ fst (decode (snd (decode a) @ b)), snd (decode (snd (decode a) @ b)))"
begin

primrec feed :: "'c list \<Rightarrow> 'c list list \<Rightarrow> 'e list \<times> 'c list" where
  "feed buffer [] = ([], buffer)"
| "feed buffer (c # cs) =
     (let (es, buffer') = decode (buffer @ c); (es', rest) = feed buffer' cs in (es @ es', rest))"

lemma decode_frames:
  "list_all wf_frame es \<Longrightarrow>
     decode (concat (map encode es) @ s) = (es @ fst (decode s), snd (decode s))"
  by (induction es) (simp_all add: decode_frame)

lemma decode_rest: "decode (snd (decode a)) = ([], snd (decode a))"
  using decode_append [of a "[]"] by (metis append_Nil2 append_self_conv fst_conv prod.collapse snd_conv)

lemma feed_decode: "decode buffer = ([], buffer) \<Longrightarrow> feed buffer cs = decode (buffer @ concat cs)"
proof (induction cs arbitrary: buffer)
  case (Cons c cs)
  obtain es rest where d: "decode (buffer @ c) = (es, rest)" by (cases "decode (buffer @ c)")
  have "feed rest cs = decode (rest @ concat cs)"
    using Cons.IH [of rest] decode_rest [of "buffer @ c"] d by simp
  then show ?case using decode_append [of "buffer @ c" "concat cs"] d by (simp split: prod.split)
qed simp

lemma feed_frames:
  "list_all wf_frame es \<Longrightarrow> concat cs = concat (map encode es) @ part \<Longrightarrow>
     feed [] cs = (es @ fst (decode part), snd (decode part))"
  using feed_decode [of "[]" cs] decode_frames [of es part] by (simp add: decode_Nil)

end

subsection \<open>The server's frames\<close>

definition wf_event :: "sse_event \<Rightarrow> bool" where
  "wf_event ev \<longleftrightarrow>
     CR \<notin> set (fst ev) \<and> LF \<notin> set (fst ev) \<and> (fst ev = [] \<or> \<not> is_ws (hd (fst ev))) \<and> CR \<notin> set (snd ev)"

definition frame_lines :: "sse_event \<Rightarrow> jstr list" where
  "frame_lines ev = (js ''event: '' @ fst ev) # map (\<lambda>line. js ''data: '' @ line) (split_on LF (snd ev))"

lemma frame_lines_neq: "frame_lines ev \<noteq> []"
  by (simp add: frame_lines_def)

lemma concat_lines: "xs \<noteq> [] \<Longrightarrow> concat (map (\<lambda>l. f l @ [c]) xs) = join [c] (map f xs) @ [c]"
  by (induction xs rule: induct_list012) auto

lemma sse_frame_lines: "sse_frame ev = join [LF] (frame_lines ev) @ [LF, LF]"
  by (simp add: sse_frame_def frame_lines_def concat_lines [of _ "\<lambda>l. js ''data: '' @ l" LF, simplified] join_Cons)

lemma LF_notin_js: "LF \<notin> set (js ''event: '')" "LF \<notin> set (js ''data: '')"
  by (simp_all add: js_def LF_def)

lemma find_blank_line:
  "LF \<notin> set w \<Longrightarrow> w \<noteq> [] \<Longrightarrow>
     find_at [LF, LF] (w @ LF # s) 0 =
       (if startsWith s [LF] then Some (length w) else map_option ((+) (Suc (length w))) (find_at [LF, LF] s 0))"
proof (induction w)
  case (Cons c w)
  have n: "\<not> startsWith (c # w @ LF # s) [LF, LF]" using Cons.prems by (auto simp: startsWith_iff)
  show ?case
  proof (cases "w = []")
    case True
    then show ?thesis using n
      by (auto simp: startsWith_iff find_at_shift [of _ s "Suc (Suc 0)"]
          find_at_shift [of _ "LF # s" "Suc 0"] option.map_comp comp_def intro!: option.map_cong)
  next
    case False
    then show ?thesis using n Cons
      by (auto simp: find_at_shift [of _ "w @ LF # s" "Suc 0"] option.map_comp comp_def intro!: option.map_cong)
  qed
qed simp

lemma find_frame_end:
  "xs \<noteq> [] \<Longrightarrow> \<forall>w \<in> set xs. w \<noteq> [] \<and> LF \<notin> set w \<Longrightarrow>
     find_at [LF, LF] (join [LF] xs @ LF # LF # s) 0 = Some (length (join [LF] xs))"
proof (induction xs rule: induct_list012)
  case (2 w)
  then show ?case by (simp add: find_blank_line startsWith_iff)
next
  case (3 w v vs)
  have "\<not> startsWith (join [LF] (v # vs) @ LF # LF # s) [LF]"
    using 3(4) by (cases v; cases vs) (auto simp: startsWith_iff)
  then show ?case using 3 by (simp add: find_blank_line)
qed simp

lemma frame_lines_ok: "wf_event ev \<Longrightarrow> \<forall>w \<in> set (frame_lines ev). w \<noteq> [] \<and> LF \<notin> set w"
  by (auto simp: frame_lines_def wf_event_def LF_notin_js dest: split_on_pieces)

lemma no_CR_end: "CR \<notin> set s \<Longrightarrow> \<not> endsWith s [CR]"
  by (auto simp: endsWith_iff)

lemma CR_notin_js: "CR \<notin> set (js ''event: '')" "CR \<notin> set (js ''data: '')"
  by (simp_all add: js_def CR_def)

lemma is_ws_space: "is_ws 32"
  by (simp add: is_ws_def)

lemma sse_line_event:
  "CR \<notin> set n \<Longrightarrow> n = [] \<or> \<not> is_ws (hd n) \<Longrightarrow> sse_line acc (js ''event: '' @ n) = (n, snd acc)"
  using no_CR_end [of "js ''event: '' @ n"]
  by (cases n) (auto simp: sse_line_def Let_def CR_notin_js, simp_all add: js_def startsWith_def trimStart_def is_ws_space)

lemma sse_line_data:
  "CR \<notin> set l \<Longrightarrow> sse_line acc (js ''data: '' @ l) = (fst acc, snd acc @ [l])"
  using no_CR_end [of "js ''data: '' @ l"]
  by (auto simp: sse_line_def Let_def CR_notin_js, simp_all add: js_def startsWith_def)

lemma foldl_data:
  "\<forall>l \<in> set ls. CR \<notin> set l \<Longrightarrow>
     foldl sse_line (n, ds) (map (\<lambda>l. js ''data: '' @ l) ls) = (n, ds @ ls)"
  by (induction ls arbitrary: ds) (simp_all add: sse_line_data)

lemma dispatch_frame: "wf_event ev \<Longrightarrow> dispatchSSEBlock (join [LF] (frame_lines ev)) = [ev]"
proof -
  assume wf: "wf_event ev"
  have s: "split_on LF (join [LF] (frame_lines ev)) = frame_lines ev"
    using frame_lines_ok [OF wf] by (intro split_join) (auto simp: frame_lines_def)
  have "\<forall>l \<in> set (split_on LF (snd ev)). CR \<notin> set l"
    using wf by (auto simp: wf_event_def dest: set_split_on)
  then show ?thesis
    using wf
    by (simp add: dispatchSSEBlock_def s)
      (simp add: frame_lines_def sse_line_event foldl_data wf_event_def join_split)
qed

interpretation sse: framed_stream sse_frame drain_blocks wf_event
proof
  show "drain_blocks [] = ([], [])" by (subst drain_blocks.simps) simp
next
  fix ev s assume wf: "wf_event ev"
  show "drain_blocks (sse_frame ev @ s) = (ev # fst (drain_blocks s), snd (drain_blocks s))"
    using find_frame_end [OF _ frame_lines_ok [OF wf], of s] dispatch_frame [OF wf] frame_lines_neq [of ev]
    by (simp add: sse_frame_lines drain_blocks.simps [of "join [LF] (frame_lines ev) @ LF # LF # s"] split: prod.split)
next
  fix a b
  show "drain_blocks (a @ b) =
      (fst (drain_blocks a) @ fst (drain_blocks (snd (drain_blocks a) @ b)),
       snd (drain_blocks (snd (drain_blocks a) @ b)))"
  proof (induction a rule: drain_blocks.induct)
    case (1 a)
    show ?case
    proof (cases "find_at [LF, LF] a 0")
      case None
      then show ?thesis by (simp add: drain_blocks.simps [of a])
    next
      case (Some i)
      then have "find_at [LF, LF] (a @ b) 0 = Some i" "i + 2 \<le> length a"
        using find_at_append [OF Some] find_at_bounds [OF Some] by auto
      then show ?thesis
        using 1 [OF Some] Some
        by (simp add: drain_blocks.simps [of a] drain_blocks.simps [of "a @ b"] split: prod.split)
    qed
  qed
qed

subsection \<open>Chunk boundaries\<close>

text \<open>The reading loop of the client, on what has been received so far.\<close>

lemma flush_of_drain: "flushSSEBuffer s =
    fst (drainSSEBuffer s) @ (if trim (snd (drainSSEBuffer s)) \<noteq> [] then dispatchSSEBlock (snd (drainSSEBuffer s)) else [])"
  by (simp add: flushSSEBuffer_def split: prod.split)

text \<open>The parser evaluated on concrete text.\<close>

lemmas sse_eval = js_def LF_def CR_def flush_of_drain drainSSEBuffer_def normalize_newlines_def drain_loop.simps
  indexOf_def startsWith_def endsWith_def slice_def dispatchSSEBlock_def sse_line_def trimStart_def trim_def
  trimEnd_def is_ws_def Let_def

lemma drain_step:
  "CR \<notin> set buffer \<Longrightarrow> chunk = [] \<or> last chunk \<noteq> CR \<Longrightarrow> drainSSEBuffer (buffer @ chunk) = (es, rest) \<Longrightarrow>
     flushSSEBuffer (buffer @ chunk @ later) = es @ flushSSEBuffer (rest @ later)"
proof -
  assume b: "CR \<notin> set buffer" and c: "chunk = [] \<or> last chunk \<noteq> CR"
    and d: "drainSSEBuffer (buffer @ chunk) = (es, rest)"
  have bc: "buffer @ chunk = [] \<or> last (buffer @ chunk) \<noteq> CR"
    using b c by (cases "chunk = []") (auto dest: last_in_set)
  have r: "CR \<notin> set rest" using drain_rest_CR_free [of "buffer @ chunk"] d by simp
  then have "normalize_newlines (rest @ later) = rest @ normalize_newlines later"
    by (metis last_in_set normalize_append normalize_id)
  then have "drainSSEBuffer (buffer @ chunk @ later) =
      (es @ fst (drainSSEBuffer (rest @ later)), snd (drainSSEBuffer (rest @ later)))"
    using d sse.decode_append [of "normalize_newlines (buffer @ chunk)" "normalize_newlines later"]
      normalize_append [OF bc, of later]
    by (simp add: drainSSEBuffer_def drain_loop_eq)
  then show ?thesis by (simp add: flush_of_drain)
qed

lemma read_chunks_flush:
  "CR \<notin> set buffer \<Longrightarrow> \<forall>c \<in> set chunks. c = [] \<or> last c \<noteq> CR \<Longrightarrow>
     read_chunks buffer chunks tail = flushSSEBuffer (buffer @ concat chunks @ tail)"
proof (induction chunks arbitrary: buffer)
  case (Cons c cs)
  obtain es rest where d: "drainSSEBuffer (buffer @ c) = (es, rest)" by (cases "drainSSEBuffer (buffer @ c)")
  then have "CR \<notin> set rest" using drain_rest_CR_free [of "buffer @ c"] by simp
  then show ?case
    using Cons d drain_step [of buffer c es rest "concat cs @ tail"] by simp
qed simp

text \<open>C5: The events a stream delivers do not depend on how the network cuts it into chunks: as long
  as no chunk ends between the two characters of a CR LF pair (no chunk ends with CR), reading the
  chunks one after the other, with the unfinished rest carried over in the buffer, delivers exactly
  what reading the whole text at once delivers, in the same order. In particular two ways of cutting
  the same text agree.\<close>

theorem read_chunks_independent:
  assumes "\<forall>c \<in> set chunks. c = [] \<or> last c \<noteq> CR"
  shows "read_chunks [] chunks tail = flushSSEBuffer (concat chunks @ tail) \<and>
         read_chunks [] chunks tail = read_chunks [] [] (concat chunks @ tail)"
  using read_chunks_flush [OF _ assms, of "[]" tail] by simp

theorem read_chunks_independent_witness:
  "read_chunks [] [js ''data: a'' @ [LF], [LF] @ js ''data: b''] [LF] = [(js ''message'', js ''a''), (js ''message'', js ''b'')]"
  using read_chunks_independent [of "[js ''data: a'' @ [LF], [LF] @ js ''data: b'']" "[LF]"]
  by (simp add: sse_eval)

lemma flush_Nil: "flushSSEBuffer [] = []"
  by (simp add: flush_of_drain drainSSEBuffer_def drain_loop_eq normalize_id sse.decode_Nil)

lemma frames_delivered:
  assumes "list_all wf_event evs" and "CR \<notin> set part"
    and "concat chunks @ tail = concat (map sse_frame evs) @ part"
  shows "read_chunks [] chunks tail = evs @ flushSSEBuffer part"
proof -
  have fr: "CR \<notin> set (sse_frame e)" if "wf_event e" for e
    using that by (auto simp: sse_frame_def wf_event_def CR_notin_js dest: set_split_on) (simp_all add: CR_def LF_def)
  then have all: "CR \<notin> set (concat (map sse_frame evs) @ part)"
    using assms(1,2) by (auto simp: list_all_iff)
  then have "\<forall>c \<in> set chunks. CR \<notin> set c"
    using assms(3) by (metis UN_I Un_iff set_append set_concat)
  then have "read_chunks [] chunks tail = flushSSEBuffer (concat (map sse_frame evs) @ part)"
    using read_chunks_flush [of "[]" chunks tail] assms(3) by (metis append_Nil empty_iff last_in_set list.set(1))
  moreover have "CR \<notin> set (concat (map sse_frame evs))" using all by simp
  ultimately show ?thesis
    using all assms(2) sse.decode_frames [OF assms(1), of part]
    by (simp add: flush_of_drain drainSSEBuffer_def drain_loop_eq normalize_id)
qed

text \<open>C3: What the server writes is what the client delivers. For events whose name has no line
  break and no leading white space and whose text has no carriage return, the concatenation of the
  server's frames, followed by the beginning of a further frame and cut into chunks in any way,
  delivers exactly those events in order, each with its text intact (line breaks, empty lines and
  leading blanks included), and then the events the unfinished part gives.\<close>

theorem sse_frames_roundtrip:
  assumes "list_all wf_event evs" and "CR \<notin> set part"
    and "concat chunks @ tail = concat (map sse_frame evs) @ part"
  shows "read_chunks [] chunks tail = evs @ flushSSEBuffer part"
  using assms by (rule frames_delivered)

theorem sse_frames_roundtrip_witness:
  "read_chunks [] [take 9 (sse_frame (js ''log'', js ''x'' @ [LF] @ js '' y''))] (drop 9 (sse_frame (js ''log'', js ''x'' @ [LF] @ js '' y'')))
     = [(js ''log'', js ''x'' @ [LF] @ js '' y'')]"
  using sse_frames_roundtrip [of "[(js ''log'', js ''x'' @ [LF] @ js '' y'')]" "[]"
      "[take 9 (sse_frame (js ''log'', js ''x'' @ [LF] @ js '' y''))]"
      "drop 9 (sse_frame (js ''log'', js ''x'' @ [LF] @ js '' y''))"]
  by (simp add: wf_event_def is_ws_def sse_eval)

text \<open>The two conditions are needed. A chunk that ends between CR and LF turns one event into
  two, because the CR kept in the buffer has already become a line feed when the LF arrives; and a
  carriage return inside a line of a payload ends that line for the client, which then drops the
  rest of it, while the server's framing splits payloads at line feeds only.\<close>

lemma sse_carriage_return_counterexamples:
  "(read_chunks [] [js ''event: log'' @ [CR], [LF] @ js ''data: x'' @ [LF, LF]] [] = [(js ''message'', js ''x'')]) \<and>
   (read_chunks [] [js ''event: log'' @ [CR, LF] @ js ''data: x'' @ [LF, LF]] [] = [(js ''log'', js ''x'')]) \<and>
   (read_chunks [] [sse_frame (js ''log'', js ''10%'' @ [CR] @ js ''20%'')] [] = [(js ''log'', js ''10%'')])"
  by (simp add: sse_eval sse_frame_def)

subsection \<open>The connection loop\<close>

text \<open>
  \<open>streamSSE\<close> starts \<open>connect\<close> and returns the unsubscription. \<open>connect\<close> awaits the response of
  \<^verbatim>\<open>fetch\<close>, the body of a failed response, then one chunk after the other; it ends by setting a timer
  that starts it again, or by returning. A handler may return, call the unsubscription, or throw.
\<close>

datatype reaction = Return | Unsubscribe | Throw thrown

record sse_handlers =
  onOpen :: "reaction option"
  onEvent :: "sse_event \<Rightarrow> reaction"
  onError :: "(thrown \<Rightarrow> reaction) option"
  reconnect :: bool
  reconnectDelayMs :: "nat option"

datatype sse_phase =
    Fetching                \<comment> \<open>awaiting \<^verbatim>\<open>fetch\<close>\<close>
  | ReadingError int        \<comment> \<open>awaiting \<^verbatim>\<open>response.json()\<close> of a failed response\<close>
  | Reading jstr            \<comment> \<open>awaiting \<^verbatim>\<open>reader.read()\<close> with this buffer\<close>
  | RetryPending            \<comment> \<open>\<^verbatim>\<open>connect\<close> has ended, its timer is set\<close>
  | Returned                \<comment> \<open>\<^verbatim>\<open>connect\<close> has ended, no timer is set\<close>

record sse_conn =
  stopped :: bool
  phase :: sse_phase

text \<open>What the environment completes, and the caller's unsubscription. A chunk comes with the text
  the decoder would still hold back if it were flushed now.\<close>

datatype sse_input =
    FetchOk bool            \<comment> \<open>a response with \<^verbatim>\<open>ok\<close>; whether it has a body\<close>
  | FetchBad int
  | FetchReject thrown
  | ErrorBody "api_error_body option"
  | Chunk jstr jstr
  | Done jstr
  | ReadReject thrown
  | TimerFires
  | Stop

datatype sse_output =
    Fetch
  | CallOpen
  | CallEvent sse_event
  | CallError thrown
  | SetTimer nat
  | ClearTimer
  | Abort
  | UnhandledRejection thrown

text \<open>One handler call: whether the stream is stopped afterwards, and what the call throws.\<close>

definition call_handler :: "sse_output \<Rightarrow> reaction \<Rightarrow> bool \<Rightarrow> bool \<times> sse_output list \<times> thrown option" where
  "call_handler out r st = (case r of
       Return \<Rightarrow> (st, [out], None)
     | Unsubscribe \<Rightarrow> (True, [out, Abort], None)
     | Throw e \<Rightarrow> (st, [out], Some e))"

text \<open>The events of one buffer, in order; an exception ends the dispatching.\<close>

fun deliver :: "sse_handlers \<Rightarrow> bool \<Rightarrow> sse_event list \<Rightarrow> bool \<times> sse_output list \<times> thrown option" where
  "deliver h st [] = (st, [], None)"
| "deliver h st (e # es) =
     (case call_handler (CallEvent e) (onEvent h e) st of
        (st', out, Some t) \<Rightarrow> (st', out, Some t)
      | (st', out, None) \<Rightarrow> (let (st'', out', t) = deliver h st' es in (st'', out @ out', t)))"

text \<open>The \<^verbatim>\<open>finally\<close> block.\<close>

definition connect_finally :: "sse_handlers \<Rightarrow> bool \<Rightarrow> sse_conn \<times> sse_output list" where
  "connect_finally h st =
     (if \<not> st \<and> reconnect h
      then (\<lparr>stopped = st, phase = RetryPending\<rparr>, [SetTimer (nullish (reconnectDelayMs h) 3000)])
      else (\<lparr>stopped = st, phase = Returned\<rparr>, []))"

fun is_abort :: "thrown \<Rightarrow> bool" where
  "is_abort (TAbort _) = True"
| "is_abort _ = False"

text \<open>The \<^verbatim>\<open>catch\<close> block and what follows; \<open>None\<close>: the \<^verbatim>\<open>try\<close> block ended normally.\<close>

definition connect_end :: "sse_handlers \<Rightarrow> bool \<Rightarrow> thrown option \<Rightarrow> sse_conn \<times> sse_output list" where
  "connect_end h st err = (case err of
       None \<Rightarrow> connect_finally h st
     | Some e \<Rightarrow>
         if \<not> st \<and> \<not> is_abort e then
           (case onError h of
              None \<Rightarrow> connect_finally h st
            | Some f \<Rightarrow>
                (let (st', out, t) = call_handler (CallError e) (f e) st;
                     (c, out') = connect_finally h st'
                 in (c, out @ out' @ (case t of None \<Rightarrow> [] | Some x \<Rightarrow> [UnhandledRejection x]))))
         else connect_finally h st)"

text \<open>The end of the reading loop: the rest of the buffer is flushed, then the block ends.\<close>

definition flush_and_end :: "sse_handlers \<Rightarrow> bool \<Rightarrow> jstr \<Rightarrow> sse_conn \<times> sse_output list" where
  "flush_and_end h st text =
     (let (st', out, t) = deliver h st (flushSSEBuffer text); (c, out') = connect_end h st' t
      in (c, out @ out'))"

text \<open>One iteration of the reading loop on a chunk, up to the next \<^verbatim>\<open>await\<close>.\<close>

definition read_chunk :: "sse_handlers \<Rightarrow> bool \<Rightarrow> jstr \<Rightarrow> jstr \<Rightarrow> jstr \<Rightarrow> sse_conn \<times> sse_output list" where
  "read_chunk h st buffer chunk held =
     (let (es, buffer') = drainSSEBuffer (buffer @ chunk); (st', out, t) = deliver h st es in
      case t of
        Some e \<Rightarrow> (let (c, out') = connect_end h st' (Some e) in (c, out @ out'))
      | None \<Rightarrow>
          if st' then (let (c, out') = flush_and_end h st' (buffer' @ held) in (c, out @ out'))
          else (\<lparr>stopped = st', phase = Reading buffer'\<rparr>, out))"

text \<open>After a response with a body: \<^verbatim>\<open>onOpen\<close>, then the loop test.\<close>

definition opened :: "sse_handlers \<Rightarrow> bool \<Rightarrow> sse_conn \<times> sse_output list" where
  "opened h st =
     (let (st', out, t) = (case onOpen h of None \<Rightarrow> (st, [], None) | Some r \<Rightarrow> call_handler CallOpen r st) in
      case t of
        Some e \<Rightarrow> (let (c, out') = connect_end h st' (Some e) in (c, out @ out'))
      | None \<Rightarrow>
          if st' then (let (c, out') = flush_and_end h st' [] in (c, out @ out'))
          else (\<lparr>stopped = st', phase = Reading []\<rparr>, out))"

text \<open>The unsubscription.\<close>

definition unsubscribe :: "sse_conn \<Rightarrow> sse_conn \<times> sse_output list" where
  "unsubscribe c = (case phase c of
       RetryPending \<Rightarrow> (\<lparr>stopped = True, phase = Returned\<rparr>, [ClearTimer, Abort])
     | p \<Rightarrow> (\<lparr>stopped = True, phase = p\<rparr>, [Abort]))"

definition streamSSE :: "sse_conn \<times> sse_output list" where
  "streamSSE = (\<lparr>stopped = False, phase = Fetching\<rparr>, [Fetch])"

definition no_body_error :: thrown where
  "no_body_error = TError (js ''SSE stream response has no body'')"

text \<open>The transitions; \<open>None\<close>: the input cannot arrive in this phase.\<close>

fun sse_step :: "sse_handlers \<Rightarrow> sse_conn \<Rightarrow> sse_input \<Rightarrow> (sse_conn \<times> sse_output list) option" where
  "sse_step h c Stop = Some (unsubscribe c)"
| "sse_step h \<lparr>stopped = st, phase = Fetching\<rparr> (FetchOk has_body) =
     Some (if has_body then opened h st else connect_end h st (Some no_body_error))"
| "sse_step h \<lparr>stopped = st, phase = Fetching\<rparr> (FetchBad status) =
     Some (\<lparr>stopped = st, phase = ReadingError status\<rparr>, [])"
| "sse_step h \<lparr>stopped = st, phase = Fetching\<rparr> (FetchReject e) = Some (connect_end h st (Some e))"
| "sse_step h \<lparr>stopped = st, phase = ReadingError status\<rparr> (ErrorBody b) =
     Some (connect_end h st (Some (TApi (ApiError status b))))"
| "sse_step h \<lparr>stopped = st, phase = Reading buffer\<rparr> (Chunk chunk held) =
     Some (read_chunk h st buffer chunk held)"
| "sse_step h \<lparr>stopped = st, phase = Reading buffer\<rparr> (Done held) = Some (flush_and_end h st (buffer @ held))"
| "sse_step h \<lparr>stopped = st, phase = Reading buffer\<rparr> (ReadReject e) = Some (connect_end h st (Some e))"
| "sse_step h \<lparr>stopped = st, phase = RetryPending\<rparr> TimerFires =
     Some (\<lparr>stopped = st, phase = Fetching\<rparr>, [Fetch])"
| "sse_step h c i = None"

inductive sse_run :: "sse_handlers \<Rightarrow> sse_conn \<Rightarrow> sse_input list \<Rightarrow> sse_conn \<Rightarrow> sse_output list \<Rightarrow> bool"
  for h where
  run_Nil: "sse_run h c [] c []"
| run_Cons: "sse_step h c i = Some (c', out) \<Longrightarrow> sse_run h c' ins c'' out' \<Longrightarrow> sse_run h c (i # ins) c'' (out @ out')"

inductive_simps sse_run_Nil_iff: "sse_run h c [] c' out"
inductive_simps sse_run_Cons_iff: "sse_run h c (i # ins) c' out"
fun_cases sse_step_elim: "sse_step h c i = Some r"

code_pred (modes: i \<Rightarrow> i \<Rightarrow> i \<Rightarrow> o \<Rightarrow> o \<Rightarrow> bool) sse_run .

subsection \<open>What the connection loop guarantees\<close>

text \<open>Outputs a stopped stream must not produce.\<close>

fun quiet :: "sse_output \<Rightarrow> bool" where
  "quiet Fetch \<longleftrightarrow> False"
| "quiet (CallError e) \<longleftrightarrow> False"
| "quiet (SetTimer d) \<longleftrightarrow> False"
| "quiet _ \<longleftrightarrow> True"

fun quiet_from :: "bool \<Rightarrow> sse_output list \<Rightarrow> bool" where
  "quiet_from st [] \<longleftrightarrow> True"
| "quiet_from st (x # xs) \<longleftrightarrow> (st \<longrightarrow> quiet x) \<and> quiet_from (st \<or> Abort = x) xs"

lemma quiet_from_append [simp]:
  "quiet_from st (xs @ ys) \<longleftrightarrow> quiet_from st xs \<and> quiet_from (st \<or> Abort \<in> set xs) ys"
  by (induction xs arbitrary: st) (auto simp: disj_assoc)

lemma quiet_from_True: "quiet_from True xs \<longleftrightarrow> list_all quiet xs"
  by (induction xs) auto

text \<open>How a piece of the code moves from one stopped flag to the next: it produces nothing
  forbidden once the flag is set, and the flag is set exactly when it was set before or the
  unsubscription ran.\<close>

definition flag_ok :: "bool \<Rightarrow> bool \<Rightarrow> sse_output list \<Rightarrow> bool" where
  "flag_ok st st' out \<longleftrightarrow> quiet_from st out \<and> (st' \<longleftrightarrow> st \<or> Abort \<in> set out)"

lemma flag_ok_Nil: "flag_ok st st' [] \<longleftrightarrow> st' = st"
  by (auto simp: flag_ok_def)

lemma flag_ok_append: "flag_ok st st' out \<Longrightarrow> flag_ok st' st'' out' \<Longrightarrow> flag_ok st st'' (out @ out')"
  by (auto simp: flag_ok_def)

lemma flag_ok_call: "quiet x \<or> \<not> st \<Longrightarrow> x \<noteq> Abort \<Longrightarrow> call_handler x r st = (st', out, t) \<Longrightarrow> flag_ok st st' out"
  by (auto simp: call_handler_def flag_ok_def split: reaction.splits)

lemma flag_ok_deliver: "deliver h st es = (st', out, t) \<Longrightarrow> flag_ok st st' out"
proof (induction es arbitrary: st out)
  case Nil
  then show ?case by (simp add: flag_ok_def)
next
  case (Cons e es)
  obtain s1 o1 t1 where c: "call_handler (CallEvent e) (onEvent h e) st = (s1, o1, t1)"
    by (cases "call_handler (CallEvent e) (onEvent h e) st")
  have f: "flag_ok st s1 o1" using flag_ok_call [OF _ _ c] by simp
  show ?case
  proof (cases t1)
    case None
    obtain s2 o2 t2 where d: "deliver h s1 es = (s2, o2, t2)" by (cases "deliver h s1 es")
    show ?thesis using Cons.prems c None d flag_ok_append [OF f] Cons.IH [of s1 o2] by auto
  qed (use Cons.prems c f in simp)
qed

definition conn_inv :: "sse_handlers \<Rightarrow> sse_conn \<Rightarrow> bool" where
  "conn_inv h c \<longleftrightarrow>
     (stopped c \<longrightarrow> phase c \<noteq> RetryPending) \<and> (\<not> stopped c \<and> reconnect h \<longrightarrow> phase c \<noteq> Returned)"

definition step_ok :: "sse_handlers \<Rightarrow> bool \<Rightarrow> sse_conn \<times> sse_output list \<Rightarrow> bool" where
  "step_ok h st r \<longleftrightarrow> flag_ok st (stopped (fst r)) (snd r) \<and> conn_inv h (fst r) \<and>
     (phase (fst r) = RetryPending \<longrightarrow> SetTimer (nullish (reconnectDelayMs h) 3000) \<in> set (snd r))"

lemma step_ok_prefix: "flag_ok st st' out \<Longrightarrow> step_ok h st' r \<Longrightarrow> step_ok h st (let (c, out') = r in (c, out @ out'))"
  by (auto simp: step_ok_def split: prod.split intro: flag_ok_append)

lemma step_ok_reading: "flag_ok st False out \<Longrightarrow> step_ok h st (\<lparr>stopped = False, phase = Reading b\<rparr>, out)"
  by (simp add: step_ok_def conn_inv_def)

lemma step_ok_finally: "step_ok h st (connect_finally h st)"
  by (simp add: step_ok_def connect_finally_def flag_ok_def conn_inv_def)

lemma step_ok_unhandled: "step_ok h st (c, out) \<Longrightarrow> step_ok h st (c, out @ [UnhandledRejection e])"
  by (simp add: step_ok_def flag_ok_def)

lemma step_ok_end: "step_ok h st (connect_end h st err)"
proof -
  have "step_ok h st (connect_end h st (Some e))"
    if e: "\<not> st" "\<not> is_abort e" "onError h = Some f" for e f
  proof -
    obtain s1 o1 t1 where c: "call_handler (CallError e) (f e) st = (s1, o1, t1)"
      by (cases "call_handler (CallError e) (f e) st")
    obtain c2 o2 where d: "connect_finally h s1 = (c2, o2)" by (cases "connect_finally h s1")
    have "step_ok h st (c2, o1 @ o2)"
      using step_ok_prefix [OF flag_ok_call [OF _ _ c] step_ok_finally [of h s1]] e d by simp
    then show ?thesis
      using e c d step_ok_unhandled [of h st c2 "o1 @ o2"] by (auto simp: connect_end_def split: option.split)
  qed
  then show ?thesis by (auto simp: connect_end_def step_ok_finally split: option.split)
qed

lemma step_ok_flush: "step_ok h st (flush_and_end h st text)"
proof -
  obtain s1 o1 t where v: "deliver h st (flushSSEBuffer text) = (s1, o1, t)"
    by (cases "deliver h st (flushSSEBuffer text)")
  show ?thesis using step_ok_prefix [OF flag_ok_deliver [OF v] step_ok_end] by (simp add: flush_and_end_def v)
qed

lemma step_ok_chunk: "step_ok h st (read_chunk h st buffer chunk held)"
proof -
  obtain es b where d: "drainSSEBuffer (buffer @ chunk) = (es, b)" by (cases "drainSSEBuffer (buffer @ chunk)")
  obtain s1 o1 t where v: "deliver h st es = (s1, o1, t)" by (cases "deliver h st es")
  show ?thesis
    using step_ok_prefix [OF flag_ok_deliver [OF v] step_ok_end]
      step_ok_prefix [OF flag_ok_deliver [OF v] step_ok_flush] step_ok_reading [of st o1 h b] flag_ok_deliver [OF v]
    by (cases t; cases s1) (simp_all add: read_chunk_def d v)
qed

lemma step_ok_opened: "step_ok h st (opened h st)"
proof -
  obtain s1 o1 t where v: "(case onOpen h of None \<Rightarrow> (st, [], None) | Some r \<Rightarrow> call_handler CallOpen r st) = (s1, o1, t)"
    by (metis prod_cases3)
  then have f: "flag_ok st s1 o1"
    by (auto split: option.splits dest: flag_ok_call [rotated 2] simp: flag_ok_Nil)
  show ?thesis
    using step_ok_prefix [OF f step_ok_end] step_ok_prefix [OF f step_ok_flush] step_ok_reading [of st o1 h "[]"] f
    by (cases t; cases s1) (simp_all add: opened_def v)
qed

lemma step_ok_step:
  assumes "sse_step h c i = Some r" "conn_inv h c"
  shows "step_ok h (stopped c) r"
proof -
  have u: "step_ok h (stopped c) (unsubscribe c)"
    using assms(2) by (auto simp: unsubscribe_def step_ok_def flag_ok_def conn_inv_def split: sse_phase.split)
  have m: "step_ok h st (\<lparr>stopped = st, phase = ReadingError e\<rparr>, [])"
    "conn_inv h \<lparr>stopped = st, phase = RetryPending\<rparr> \<Longrightarrow> step_ok h st (\<lparr>stopped = st, phase = Fetching\<rparr>, [Fetch])"
    for st e by (auto simp: step_ok_def flag_ok_def conn_inv_def)
  show ?thesis
    using assms by (cases rule: sse_step_elim)
      (auto simp: u m step_ok_opened step_ok_end step_ok_chunk step_ok_flush split: if_splits)
qed

lemma run_ok:
  "sse_run h c ins c' out \<Longrightarrow> conn_inv h c \<Longrightarrow> flag_ok (stopped c) (stopped c') out \<and> conn_inv h c'"
proof (induction rule: sse_run.induct)
  case (run_Nil c)
  then show ?case by (simp add: flag_ok_def)
next
  case (run_Cons c i c' out ins c'' out')
  then show ?case
    using step_ok_step [OF run_Cons.hyps(1) run_Cons.prems] flag_ok_append [of "stopped c" "stopped c'" out]
    by (simp add: step_ok_def)
qed

lemma streamSSE_inv: "conn_inv h (fst streamSSE)"
  by (simp add: streamSSE_def conn_inv_def)


text \<open>A plain consumer of a stream: it records events and never throws or unsubscribes by itself.\<close>

definition plain_handlers :: "bool \<Rightarrow> sse_handlers" where
  "plain_handlers rc = \<lparr>onOpen = Some Return, onEvent = (\<lambda>_. Return), onError = Some (\<lambda>_. Return),
     reconnect = rc, reconnectDelayMs = None\<rparr>"


text \<open>C20: A reconnecting stream that nobody unsubscribes from never dies: in every reachable state it
  awaits a completion of the current connection or its retry timer is set, the timer when it fires
  starts a new request, and every way a connection can end (a failed or rejected request, a missing
  body, the end of the stream, a read error) sets the timer with the configured delay, 3000 ms by
  default.\<close>

theorem reconnecting_stream_never_dies:
  assumes "sse_run h (fst streamSSE) ins c out" and "reconnect h" and "Abort \<notin> set out"
  shows "\<not> stopped c \<and> phase c \<noteq> Returned \<and>
         (phase c = RetryPending \<longrightarrow> sse_step h c TimerFires = Some (\<lparr>stopped = False, phase = Fetching\<rparr>, [Fetch])) \<and>
         (\<forall>i c' out'. sse_step h c i = Some (c', out') \<and> phase c' = RetryPending \<longrightarrow>
            SetTimer (nullish (reconnectDelayMs h) 3000) \<in> set out')"
proof -
  have r: "\<not> stopped c" "phase c \<noteq> Returned"
    using run_ok [OF assms(1) streamSSE_inv] assms(2,3) by (auto simp: streamSSE_def flag_ok_def conn_inv_def)
  then have "phase c = RetryPending \<Longrightarrow> c = \<lparr>stopped = False, phase = RetryPending\<rparr>"
    by (cases c) simp
  moreover have "SetTimer (nullish (reconnectDelayMs h) 3000) \<in> set out'"
    if "sse_step h c i = Some (c', out')" "phase c' = RetryPending" for i c' out'
    using step_ok_step [OF that(1)] run_ok [OF assms(1) streamSSE_inv] that(2) by (simp add: step_ok_def)
  ultimately show ?thesis using r by (metis sse_step.simps(9))
qed

theorem reconnecting_stream_never_dies_witness:
  "\<exists>c out. sse_run (plain_handlers True) (fst streamSSE) [FetchReject (TError (js ''offline''))] c out \<and>
     out = [CallError (TError (js ''offline'')), SetTimer 3000] \<and> phase c \<noteq> Returned"
proof -
  have "sse_run (plain_handlers True) (fst streamSSE) [FetchReject (TError (js ''offline''))]
      \<lparr>stopped = False, phase = RetryPending\<rparr> [CallError (TError (js ''offline'')), SetTimer 3000]"
    by (simp add: sse_run_Cons_iff sse_run_Nil_iff streamSSE_def connect_end_def connect_finally_def
        call_handler_def plain_handlers_def)
  then show ?thesis
    using reconnecting_stream_never_dies [of "plain_handlers True"] by (fastforce simp: plain_handlers_def)
qed

lemma deliver_Return: "\<forall>e. onEvent h e = Return \<Longrightarrow> deliver h st es = (st, map CallEvent es, None)"
  by (induction es) (simp_all add: call_handler_def del: split_paired_All)

lemma run_reading:
  assumes "\<forall>e. onEvent h e = Return"
  shows "sse_run h \<lparr>stopped = False, phase = Reading buffer\<rparr> (map (\<lambda>(c, held). Chunk c held) chunks @ [Done tail])
     (fst (connect_finally h False))
     (map CallEvent (read_chunks buffer (map fst chunks) tail) @ snd (connect_finally h False))"
proof (induction chunks arbitrary: buffer)
  case Nil
  show ?case
    by (simp add: sse_run_Cons_iff sse_run_Nil_iff flush_and_end_def deliver_Return [OF assms] connect_end_def
        split: prod.split)
next
  case (Cons ch chunks)
  obtain es rest where d: "drainSSEBuffer (buffer @ fst ch) = (es, rest)"
    by (cases "drainSSEBuffer (buffer @ fst ch)")
  have "sse_step h \<lparr>stopped = False, phase = Reading buffer\<rparr> (Chunk (fst ch) (snd ch)) =
      Some (\<lparr>stopped = False, phase = Reading rest\<rparr>, map CallEvent es)"
    by (simp add: read_chunk_def d deliver_Return [OF assms])
  then show ?case
    using run_Cons [OF _ Cons.IH [of rest]] by (simp add: d case_prod_beta)
qed

text \<open>C7: A connection delivers the server's events to the handler. When the server answers with a
  stream of well-formed frames, cut into chunks in any way, and the handlers neither throw nor
  unsubscribe, the connection calls \<^verbatim>\<open>onOpen\<close>, then \<^verbatim>\<open>onEvent\<close> once for each event, in order and
  with the text the server sent, and then ends (setting its retry timer when asked to reconnect).\<close>

theorem connection_delivers_frames:
  assumes "\<forall>e. onEvent h e = Return" and "onOpen h = Some Return"
    and "list_all wf_event evs"
    and "concat (map fst chunks) @ tail = concat (map sse_frame evs)"
  shows "sse_run h (fst streamSSE) (FetchOk True # map (\<lambda>(c, held). Chunk c held) chunks @ [Done tail])
     (fst (connect_finally h False))
     (CallOpen # map CallEvent evs @ snd (connect_finally h False))"
proof -
  have "read_chunks [] (map fst chunks) tail = evs"
    using frames_delivered [OF assms(3), of "[]" "map fst chunks" tail] assms(4) by (simp add: flush_Nil)
  then show ?thesis
    using run_reading [OF assms(1), of "[]" chunks tail]
    by (auto simp: sse_run_Cons_iff [of h _ "FetchOk True"] streamSSE_def opened_def assms(2) call_handler_def)
qed

theorem connection_delivers_frames_witness:
  "sse_run (plain_handlers False) (fst streamSSE) [FetchOk True, Chunk (sse_frame (js ''log'', js ''hi'')) [], Done []]
     \<lparr>stopped = False, phase = Returned\<rparr> [CallOpen, CallEvent (js ''log'', js ''hi'')]"
  using connection_delivers_frames [of "plain_handlers False" "[(js ''log'', js ''hi'')]"
      "[(sse_frame (js ''log'', js ''hi''), [])]" "[]"]
  by (simp add: plain_handlers_def wf_event_def js_def CR_def LF_def is_ws_def connect_finally_def)

text \<open>A stop requested by a handler takes effect only behind the text already received: the events of
  the same chunk that follow are still delivered, and so is the unfinished block behind them, as if
  it were a whole event.\<close>

lemma stop_in_handler_still_delivers:
  "sse_run ((plain_handlers True)\<lparr>onEvent := (\<lambda>e. if snd e = js ''bye'' then Unsubscribe else Return)\<rparr>) (fst streamSSE)
     [FetchOk True, Chunk (sse_frame (js ''log'', js ''bye'') @ sse_frame (js ''log'', js ''next'') @ js ''data: par'') []]
     \<lparr>stopped = True, phase = Returned\<rparr>
     [CallOpen, CallEvent (js ''log'', js ''bye''), Abort, CallEvent (js ''log'', js ''next''),
      CallEvent (js ''message'', js ''par'')]"
  by (simp add: sse_run_Cons_iff sse_run_Nil_iff streamSSE_def plain_handlers_def opened_def call_handler_def
      read_chunk_def flush_and_end_def connect_end_def connect_finally_def sse_eval sse_frame_def)

end
