(* ===== verification/ApiTypes.thy ===== *)
theory ApiTypes
  imports ApiClient
begin

section \<open>The data of the API\<close>

text \<open>
  The types of \<^verbatim>\<open>web/src/api/queries.ts\<close>, one record per object type, with the fields in the order
  of the source and under a prefix of the type. An optional field (\<^verbatim>\<open>f?: t\<close>) and one that may be
  null is an option; a number is an \<open>int\<close> (counts, sizes, seconds and micro-units are whole numbers
  in the server's structs). A union of string literals is a datatype, together with the string it
  stands for; where the source widens the union to any string, so does the record.
\<close>

subsection \<open>Workspaces, agents, skills\<close>

record workspace =
  ws_id :: jstr
  ws_slug :: jstr
  ws_name :: jstr
  ws_description :: jstr
  ws_identifier_prefix :: jstr
  ws_working_dir :: "jstr option"
  ws_output_dir :: "jstr option"
  ws_default_timeout_seconds :: "int option"
  ws_auto_chain_enabled :: "bool option"
  ws_auto_chain_max_depth :: "int option"
  ws_auto_chain_daily_run_limit :: "int option"
  ws_auto_chain_daily_cost_micros :: "int option"
  ws_auto_chain_dry_run :: "bool option"
  ws_auto_close_on_run_done :: "bool option"
  ws_per_run_worktree :: "bool option"
  ws_agent_count :: "int option"
  ws_open_issue_count :: "int option"

record agent =
  ag_id :: jstr
  ag_name :: jstr
  ag_runtime :: jstr
  ag_model :: "jstr option"
  ag_instructions :: jstr
  ag_instructions_version :: "int option"
  ag_summary :: "jstr option"
  ag_tags :: "jstr option"
  ag_is_main :: bool
  ag_timeout_seconds_override :: "int option"
  ag_retry_policy_json :: "jstr option"

record instruction_version =
  iv_id :: jstr
  iv_agent_id :: jstr
  iv_version :: int
  iv_instructions :: jstr
  iv_created_at :: jstr

record skill =
  sk_id :: jstr
  sk_workspace_id :: jstr
  sk_name :: jstr
  sk_description :: jstr
  sk_triggers :: "jstr list"
  sk_content :: jstr
  sk_source_type :: jstr
  sk_source_url :: "jstr option"
  sk_source_ref :: "jstr option"
  sk_local_path :: "jstr option"
  sk_content_hash :: jstr
  sk_trust_level :: jstr
  sk_enabled :: bool
  sk_created_at :: jstr
  sk_updated_at :: jstr

datatype activation_mode = ActAlways | ActTrigger | ActManual

record agent_skill =
  as_agent_id :: jstr
  as_skill_id :: jstr
  as_activation_mode :: "activation_mode"
  as_priority :: int
  as_enabled :: bool
  as_created_at :: jstr
  as_updated_at :: jstr
  as_skill :: "skill option"

subsection \<open>Issues, comments, runs\<close>

datatype issue_status = IOpen | IDone | ICancelled

datatype exec_status = EIdle | EQueued | ERunning | EDone | EFailed | ECancelled

fun issue_status_str :: "issue_status \<Rightarrow> jstr" where
  "issue_status_str IOpen = js ''open''"
| "issue_status_str IDone = js ''done''"
| "issue_status_str ICancelled = js ''cancelled''"

fun exec_status_str :: "exec_status \<Rightarrow> jstr" where
  "exec_status_str EIdle = js ''idle''"
| "exec_status_str EQueued = js ''queued''"
| "exec_status_str ERunning = js ''running''"
| "exec_status_str EDone = js ''done''"
| "exec_status_str EFailed = js ''failed''"
| "exec_status_str ECancelled = js ''cancelled''"

lemma issue_status_str_inject [simp]: "issue_status_str a = issue_status_str b \<longleftrightarrow> a = b"
  by (cases a; cases b) simp_all

lemma exec_status_str_inject [simp]: "exec_status_str a = exec_status_str b \<longleftrightarrow> a = b"
  by (cases a; cases b) simp_all

record issue =
  issue_id :: jstr
  issue_workspace_id :: "jstr option"
  issue_identifier :: jstr
  issue_title :: jstr
  issue_body :: jstr
  issue_status :: "issue_status"
  issue_execution_status :: "exec_status"
  issue_assignee_agent_id :: "jstr option"
  issue_assignee_agent_name :: "jstr option"
  issue_parent_issue_id :: "jstr option"
  issue_created_by :: "jstr option"
  issue_autopilot_rule_id :: "jstr option"
  issue_last_run_agent_id :: "jstr option"
  issue_last_run_agent_name :: "jstr option"
  issue_comment_count :: int
  issue_created_at :: "jstr option"
  issue_updated_at :: "jstr option"

record comment =
  cm_id :: jstr
  cm_author_type :: jstr
  cm_author_agent_name :: "jstr option"
  cm_run_id :: "jstr option"
  cm_content :: jstr
  cm_truncated :: "bool option"
  cm_log_url :: "jstr option"
  cm_created_at :: jstr

record run =
  run_id :: jstr
  run_issue_id :: "jstr option"
  run_agent_id :: "jstr option"
  run_agent_name :: "jstr option"
  run_status :: jstr
  run_trigger_type :: jstr
  run_trigger_comment_id :: "jstr option"
  run_trigger_content_snapshot :: "jstr option"
  run_parent_run_id :: "jstr option"
  run_chain_id :: "jstr option"
  run_chain_depth :: "int option"
  run_agent_instructions_version :: "int option"
  run_log_url :: "jstr option"
  run_error_message :: "jstr option"
  run_exit_code :: "int option"
  run_stdout_size_bytes :: "int option"
  run_input_tokens :: "int option"
  run_output_tokens :: "int option"
  run_total_cost_micros :: "int option"
  run_model_resolved :: "jstr option"
  run_attempt :: "int option"
  run_max_attempts :: "int option"
  run_next_retry_at :: "jstr option"
  run_enqueued_at :: "jstr option"
  run_claimed_at :: "jstr option"
  run_claimed_by :: "jstr option"
  run_started_at :: "jstr option"
  run_heartbeat_at :: "jstr option"
  run_finished_at :: "jstr option"
  run_terminal_reason :: "jstr option"
  run_failure_kind :: "jstr option"
  run_cancel_reason :: "jstr option"

record run_event =
  ev_id :: jstr
  ev_run_id :: jstr
  ev_issue_id :: jstr
  ev_seq :: int
  ev_event_type :: jstr
  ev_severity :: jstr
  ev_message :: "jstr option"
  ev_details :: "((jstr \<times> json) list) option"
  ev_created_at :: jstr

subsection \<open>Autopilot, health, settings\<close>

record autopilot_rule =
  rule_id :: jstr
  rule_name :: jstr
  rule_cron_expr :: jstr
  rule_issue_title_template :: jstr
  rule_issue_body_template :: jstr
  rule_assignee_agent_id :: "jstr option"
  rule_assignee_agent_name :: "jstr option"
  rule_enabled :: bool
  rule_last_run_at :: "jstr option"
  rule_next_run_at :: "jstr option"
  rule_snooze_until :: "jstr option"
  rule_last_error :: "jstr option"
  rule_consecutive_failures :: int
  rule_last_triggered_issue_id :: "jstr option"

record autopilot_trigger_result =
  tr_ok :: bool
  tr_rule :: "autopilot_rule"
  tr_issue :: "issue option"
  tr_run :: "run option"
  tr_error :: "jstr option"

record autopilot_trigger_response =
  tp_trigger_result :: "autopilot_trigger_result"
  tp_rule :: "autopilot_rule"
  tp_issue :: "issue option"
  tp_run :: "run option"

record health_response =
  hl_status :: jstr
  hl_version :: "jstr option"
  hl_uptime_seconds :: "int option"
  hl_db_ok :: "bool option"
  hl_available_runtimes :: "(jstr list) option"

record usage_summary =
  us_since :: jstr
  us_run_count :: int
  us_input_tokens :: int
  us_output_tokens :: int
  us_total_tokens :: int
  us_total_cost_micros :: int
  us_measured_run_count :: int

record migration_failure =
  mf_id :: int
  mf_version :: int
  mf_name :: jstr
  mf_error :: jstr
  mf_failed_at :: jstr

record maintenance =
  mt_auto_backup :: bool
  mt_auto_backup_keep :: int
  mt_auto_cleanup_log_days :: int
  mt_interval_seconds :: int
  mt_worktree_gc_after_seconds :: "int option"
  mt_last_log_cleanup_at :: "jstr option"
  mt_last_log_cleanup_files :: "jstr option"
  mt_last_log_cleanup_bytes :: "jstr option"
  mt_worktree_bytes :: "jstr option"
  mt_worktree_dir_count :: "jstr option"
  mt_worktree_pruned_last_pass :: "jstr option"
  mt_worktree_measured_at :: "jstr option"

record run_lifecycle =
  rl_heartbeat_interval_seconds :: int
  rl_stale_after_seconds :: int
  rl_stale_scan_interval_seconds :: int

record runtime_info =
  rt_name :: jstr
  rt_version :: jstr
  rt_path :: jstr
  rt_supported :: "bool option"
  rt_warning :: "jstr option"

record settings_response =
  st_version :: jstr
  st_data_dir :: jstr
  st_worker_pool_size :: int
  st_auth_mode :: jstr
  st_timezone :: jstr
  st_usage_7d :: "usage_summary option"
  st_migration_fail_count :: "int option"
  st_migration_failures :: "(migration_failure list) option"
  st_maintenance :: "maintenance option"
  st_run_lifecycle :: "run_lifecycle option"
  st_available_runtimes :: "runtime_info list"

subsection \<open>Attachments, webhooks, activity\<close>

record attachment =
  at_id :: jstr
  at_issue_id :: jstr
  at_comment_id :: "jstr option"
  at_uploaded_by :: jstr
  at_filename :: jstr
  at_content_type :: jstr
  at_size_bytes :: int
  at_sha256 :: jstr
  at_download_url :: jstr
  at_created_at :: jstr

record webhook =
  wh_id :: jstr
  wh_workspace_id :: jstr
  wh_url :: jstr
  wh_has_secret :: bool
  wh_events :: "jstr list"
  wh_enabled :: bool
  wh_mask_pii :: bool
  wh_failed_delivery_count :: int
  wh_created_at :: jstr
  wh_updated_at :: jstr

datatype delivery_status = DPending | DDelivered | DFailed

record webhook_delivery =
  wd_id :: jstr
  wd_webhook_id :: jstr
  wd_event_type :: jstr
  wd_payload_json :: "jstr option"
  wd_status :: "delivery_status"
  wd_status_code :: int
  wd_response_body :: "jstr option"
  wd_error_message :: "jstr option"
  wd_attempt :: int
  wd_next_attempt_at :: jstr
  wd_delivered_at :: "jstr option"
  wd_created_at :: jstr

record agent_activity =
  aa_agent_id :: jstr
  aa_agent_name :: jstr
  aa_runtime :: jstr
  aa_is_main :: bool
  aa_latest_run_id :: "jstr option"
  aa_latest_run_status :: "jstr option"
  aa_latest_run_finished_at :: "jstr option"
  aa_latest_run_enqueued_at :: "jstr option"
  aa_latest_issue_id :: "jstr option"
  aa_latest_issue_identifier :: "jstr option"

subsection \<open>Objects with only their required fields\<close>

definition bare_run :: "jstr \<Rightarrow> jstr \<Rightarrow> run" where
  "bare_run i st = \<lparr>run_id = i, run_issue_id = None, run_agent_id = None, run_agent_name = None,
     run_status = st, run_trigger_type = js ''rerun'', run_trigger_comment_id = None,
     run_trigger_content_snapshot = None, run_parent_run_id = None, run_chain_id = None,
     run_chain_depth = None, run_agent_instructions_version = None, run_log_url = None,
     run_error_message = None, run_exit_code = None, run_stdout_size_bytes = None,
     run_input_tokens = None, run_output_tokens = None, run_total_cost_micros = None,
     run_model_resolved = None, run_attempt = None, run_max_attempts = None,
     run_next_retry_at = None, run_enqueued_at = None, run_claimed_at = None, run_claimed_by = None,
     run_started_at = None, run_heartbeat_at = None, run_finished_at = None,
     run_terminal_reason = None, run_failure_kind = None, run_cancel_reason = None\<rparr>"

definition bare_issue :: "jstr \<Rightarrow> jstr \<Rightarrow> issue_status \<Rightarrow> exec_status \<Rightarrow> issue" where
  "bare_issue i ident st ex = \<lparr>issue_id = i, issue_workspace_id = None, issue_identifier = ident,
     issue_title = [], issue_body = [], issue_status = st, issue_execution_status = ex,
     issue_assignee_agent_id = None, issue_assignee_agent_name = None, issue_parent_issue_id = None,
     issue_created_by = None, issue_autopilot_rule_id = None, issue_last_run_agent_id = None,
     issue_last_run_agent_name = None, issue_comment_count = 0, issue_created_at = None,
     issue_updated_at = None\<rparr>"

definition bare_agent :: "jstr \<Rightarrow> jstr \<Rightarrow> agent" where
  "bare_agent i n = \<lparr>ag_id = i, ag_name = n, ag_runtime = js ''claude'', ag_model = None,
     ag_instructions = [], ag_instructions_version = None, ag_summary = None, ag_tags = None,
     ag_is_main = False, ag_timeout_seconds_override = None, ag_retry_policy_json = None\<rparr>"

end
