(* ===== verification/Queries.thy ===== *)
theory Queries
  imports ApiTypes
begin

section \<open>Query hooks\<close>

text \<open>
  The hooks of \<^verbatim>\<open>web/src/api/queries.ts\<close>. Each hands TanStack Query a key, an enabled flag, a
  polling interval and the request to make; that description is the hook's meaning here, and what
  the library returns for it (data, loading and error flags) is an input of the components that use
  the hook. The issue list's query string goes through the browser's \<^verbatim>\<open>URLSearchParams\<close>, modelled
  with its serialization of UTF-16 text to percent-encoded UTF-8.
\<close>

subsection \<open>URLSearchParams\<close>

text \<open>A pair of surrogates is one code point; a surrogate alone becomes U+FFFD.\<close>

fun code_points :: "jstr \<Rightarrow> nat list" where
  "code_points [] = []"
| "code_points [c] = [if 0xD800 \<le> c \<and> c \<le> 0xDFFF then 0xFFFD else unat c]"
| "code_points (c # d # s) =
     (if 0xD800 \<le> c \<and> c \<le> 0xDBFF \<and> 0xDC00 \<le> d \<and> d \<le> 0xDFFF
      then (0x10000 + (unat c - 0xD800) * 0x400 + (unat d - 0xDC00)) # code_points s
      else (if 0xD800 \<le> c \<and> c \<le> 0xDFFF then 0xFFFD else unat c) # code_points (d # s))"

definition utf8_point :: "nat \<Rightarrow> nat list" where
  "utf8_point n =
     (if n < 0x80 then [n]
      else if n < 0x800 then [0xC0 + n div 64, 0x80 + n mod 64]
      else if n < 0x10000 then [0xE0 + n div 4096, 0x80 + n div 64 mod 64, 0x80 + n mod 64]
      else [0xF0 + n div 262144, 0x80 + n div 4096 mod 64, 0x80 + n div 64 mod 64, 0x80 + n mod 64])"

definition utf8 :: "jstr \<Rightarrow> nat list" where
  "utf8 s = concat (map utf8_point (code_points s))"

text \<open>The bytes the form serializer leaves alone: letters, digits and \<^verbatim>\<open>* - . _\<close>.\<close>

definition form_safe :: "nat \<Rightarrow> bool" where
  "form_safe b \<longleftrightarrow> (48 \<le> b \<and> b \<le> 57) \<or> (65 \<le> b \<and> b \<le> 90) \<or> (97 \<le> b \<and> b \<le> 122) \<or> b \<in> {42, 45, 46, 95}"

definition hex_digit :: "nat \<Rightarrow> code_unit" where
  "hex_digit n = of_nat (if n < 10 then 48 + n else 55 + n)"

definition form_byte :: "nat \<Rightarrow> jstr" where
  "form_byte b =
     (if b = 32 then js ''+''
      else if form_safe b then [of_nat b]
      else [37, hex_digit (b div 16), hex_digit (b mod 16)])"

definition form_encode :: "jstr \<Rightarrow> jstr" where
  "form_encode s = concat (map form_byte (utf8 s))"

text \<open>\<^verbatim>\<open>search.set\<close> on an ordered list of pairs: a new name goes to the end.\<close>

type_synonym search_params = "(jstr, jstr) omap"

definition search_str :: "search_params \<Rightarrow> jstr" where
  "search_str ps = join (js ''&'') (map (\<lambda>(k, v). form_encode k @ js ''='' @ form_encode v) ps)"

subsection \<open>The issue list's query string\<close>

text \<open>\<^verbatim>\<open>status?: IssueStatus | 'all'\<close>: \<open>Some None\<close> is \<^verbatim>\<open>'all'\<close>.\<close>

record issues_query_params =
  qp_status :: "issue_status option option"
  qp_execution :: "exec_status option option"
  qp_assignee :: "jstr option"
  qp_q :: "jstr option"
  qp_limit :: "nat option"

definition set_if :: "bool \<Rightarrow> string \<Rightarrow> jstr \<Rightarrow> search_params \<Rightarrow> search_params" where
  "set_if c k v ps = (if c then omap_set (js k) v ps else ps)"

definition issues_search :: "issues_query_params \<Rightarrow> search_params" where
  "issues_search params =
     (let s0 = [];
          s1 = (case qp_status params of
                  Some (Some st) \<Rightarrow> omap_set (js ''status'') (issue_status_str st) s0 | _ \<Rightarrow> s0);
          s2 = (case qp_execution params of
                  Some (Some ex) \<Rightarrow> omap_set (js ''execution'') (exec_status_str ex) s1 | _ \<Rightarrow> s1);
          s3 = set_if (truthy_str (qp_assignee params)) ''assignee'' (oor_str (qp_assignee params) []) s2;
          q = map_option trim (qp_q params);
          s4 = set_if (truthy_str q) ''q'' (oor_str q []) s3
      in set_if (truthy_num (map_option int (qp_limit params))) ''limit'' (nat_str (nullish (qp_limit params) 0)) s4)"

definition buildIssuesQuery :: "issues_query_params \<Rightarrow> jstr" where
  "buildIssuesQuery params =
     (let v = search_str (issues_search params) in if v \<noteq> [] then js ''?'' @ v else [])"

subsection \<open>Hook descriptions\<close>

datatype key_part = KS jstr | KN int | KUndef

abbreviation kopt :: "jstr option \<Rightarrow> key_part" where
  "kopt v \<equiv> (case v of None \<Rightarrow> KUndef | Some s \<Rightarrow> KS s)"

abbreviation kname :: "string \<Rightarrow> key_part" where
  "kname s \<equiv> KS (js s)"

text \<open>\<^verbatim>\<open>${v}\<close> in a template string.\<close>

definition tpl :: "jstr option \<Rightarrow> jstr" where
  "tpl v = nullish v (js ''undefined'')"

record query =
  q_key :: "key_part list"
  q_enabled :: bool
  q_path :: jstr                    \<comment> \<open>the path given to \<^verbatim>\<open>apiClient.get\<close> (to \<^verbatim>\<open>fetch\<close> for the health check)\<close>
  q_field :: "string option"        \<comment> \<open>the field of the response the hook returns\<close>
  q_or_empty :: bool                \<comment> \<open>whether a missing field is replaced by the empty list\<close>
  q_refetch :: "nat option"         \<comment> \<open>polling interval in milliseconds\<close>

abbreviation mk_query :: "key_part list \<Rightarrow> bool \<Rightarrow> jstr \<Rightarrow> string option \<Rightarrow> bool \<Rightarrow> nat option \<Rightarrow> query" where
  "mk_query k e p f o_e r \<equiv>
     \<lparr>q_key = k, q_enabled = e, q_path = p, q_field = f, q_or_empty = o_e, q_refetch = r\<rparr>"

definition fetchHealth :: "thrown + http_response \<Rightarrow> thrown + json" where
  "fetchHealth out = (case out of
       Inl e \<Rightarrow> Inl e
     | Inr r \<Rightarrow>
         if \<not> resp_ok r
         then Inl (TError (js ''health check failed ('' @ int_str (resp_status r) @ js '')''))
         else resp_json r)"

definition useHealthQuery :: query where
  "useHealthQuery = mk_query [kname ''health''] True (js ''/healthz'') None False None"

definition useWorkspaceQuery :: "jstr option \<Rightarrow> query" where
  "useWorkspaceQuery slug = mk_query [kname ''workspace'', kopt slug] (truthy_str slug)
     (js ''/workspaces/'' @ tpl slug) (Some ''workspace'') False None"

definition useSettingsQuery :: query where
  "useSettingsQuery = mk_query [kname ''settings''] True (js ''/settings'') None False None"

definition useUsageSummaryQuery :: "int \<Rightarrow> query" where
  "useUsageSummaryQuery days = mk_query [kname ''usage-summary'', KN days] True
     (js ''/usage/summary?days='' @ int_str days) (Some ''usage'') False None"

definition useWorkspacesQuery :: query where
  "useWorkspacesQuery = mk_query [kname ''workspaces''] True (js ''/workspaces'') (Some ''workspaces'') True None"

definition useAgentsQuery :: "jstr option \<Rightarrow> query" where
  "useAgentsQuery slug = mk_query [kname ''agents'', kopt slug] (truthy_str slug)
     (js ''/workspaces/'' @ tpl slug @ js ''/agents'') (Some ''agents'') True None"

definition useAgentQuery :: "jstr option \<Rightarrow> query" where
  "useAgentQuery i = mk_query [kname ''agent'', kopt i] (truthy_str i)
     (js ''/agents/'' @ tpl i) (Some ''agent'') False None"

definition useAgentInstructionVersionsQuery :: "jstr option \<Rightarrow> query" where
  "useAgentInstructionVersionsQuery i = mk_query [kname ''agent-instructions'', kopt i] (truthy_str i)
     (js ''/agents/'' @ tpl i @ js ''/instructions'') (Some ''versions'') True None"

definition useIssueAttachmentsQuery :: "jstr option \<Rightarrow> query" where
  "useIssueAttachmentsQuery issueID = mk_query [kname ''attachments'', kopt issueID] (truthy_str issueID)
     (js ''/issues/'' @ tpl issueID @ js ''/attachments'') (Some ''attachments'') True None"

definition useWorkspaceWebhooksQuery :: "jstr option \<Rightarrow> query" where
  "useWorkspaceWebhooksQuery slug = mk_query [kname ''webhooks'', kopt slug] (truthy_str slug)
     (js ''/workspaces/'' @ tpl slug @ js ''/webhooks'') (Some ''webhooks'') True None"

text \<open>The source's default for the second argument is 5.\<close>

definition useWebhookDeliveriesQuery :: "jstr option \<Rightarrow> nat option \<Rightarrow> query" where
  "useWebhookDeliveriesQuery webhookID limit_arg =
     (let limit = nullish limit_arg 5 in
      mk_query [kname ''webhook-deliveries'', kopt webhookID, KN (int limit)] (truthy_str webhookID)
        (js ''/webhooks/'' @ tpl webhookID @ js ''/deliveries?limit='' @ nat_str limit) (Some ''deliveries'') True
        (Some 15000))"

definition useWorkspaceSkillsQuery :: "jstr option \<Rightarrow> query" where
  "useWorkspaceSkillsQuery slug = mk_query [kname ''workspace-skills'', kopt slug] (truthy_str slug)
     (js ''/workspaces/'' @ tpl slug @ js ''/skills'') (Some ''skills'') True None"

definition useAgentActivityQuery :: "jstr option \<Rightarrow> query" where
  "useAgentActivityQuery slug = mk_query [kname ''agent-activity'', kopt slug] (truthy_str slug)
     (js ''/workspaces/'' @ tpl slug @ js ''/agents/activity'') (Some ''activity'') True (Some 5000)"

definition useAgentSkillsQuery :: "jstr option \<Rightarrow> query" where
  "useAgentSkillsQuery i = mk_query [kname ''agent-skills'', kopt i] (truthy_str i)
     (js ''/agents/'' @ tpl i @ js ''/skills'') (Some ''skills'') True None"

definition useIssuesQuery :: "jstr option \<Rightarrow> issues_query_params \<Rightarrow> query" where
  "useIssuesQuery slug params =
     (let queryString = buildIssuesQuery params in
      mk_query [kname ''issues'', kopt slug, KS queryString] (truthy_str slug)
        (js ''/workspaces/'' @ tpl slug @ js ''/issues'' @ queryString) (Some ''issues'') True (Some 5000))"

text \<open>The polling interval of the issue query depends on the issue it returned last.\<close>

definition useWorkspaceIssueQuery :: "jstr option \<Rightarrow> jstr option \<Rightarrow> issue option \<Rightarrow> query" where
  "useWorkspaceIssueQuery slug identifier issue_data =
     mk_query [kname ''issue'', kopt slug, kopt identifier] (truthy_str slug \<and> truthy_str identifier)
       (js ''/workspaces/'' @ tpl slug @ js ''/issues/'' @ tpl identifier) (Some ''issue'') False
       (case issue_data of
          Some issue \<Rightarrow>
            if issue_execution_status issue = EQueued \<or> issue_execution_status issue = ERunning
            then Some 3000 else None
        | None \<Rightarrow> None)"

definition useSubIssuesQuery :: "jstr option \<Rightarrow> query" where
  "useSubIssuesQuery issueId = mk_query [kname ''subissues'', kopt issueId] (truthy_str issueId)
     (js ''/issues/'' @ tpl issueId @ js ''/subissues'') (Some ''issues'') True None"

definition busy_interval :: "jstr option \<Rightarrow> nat option" where
  "busy_interval executionStatus =
     (if executionStatus = Some (js ''queued'') \<or> executionStatus = Some (js ''running'') then Some 3000 else None)"

definition useCommentsQuery :: "jstr option \<Rightarrow> jstr option \<Rightarrow> query" where
  "useCommentsQuery issueId executionStatus = mk_query [kname ''comments'', kopt issueId] (truthy_str issueId)
     (js ''/issues/'' @ tpl issueId @ js ''/comments'') (Some ''comments'') False (busy_interval executionStatus)"

definition useRunsQuery :: "jstr option \<Rightarrow> jstr option \<Rightarrow> query" where
  "useRunsQuery issueId executionStatus = mk_query [kname ''runs'', kopt issueId] (truthy_str issueId)
     (js ''/issues/'' @ tpl issueId @ js ''/runs'') (Some ''runs'') False (busy_interval executionStatus)"

definition useRunEventsQuery :: "jstr option \<Rightarrow> jstr option \<Rightarrow> query" where
  "useRunEventsQuery runId executionStatus = mk_query [kname ''run-events'', kopt runId] (truthy_str runId)
     (js ''/runs/'' @ tpl runId @ js ''/events'') (Some ''events'') True (busy_interval executionStatus)"

definition useAutopilotRulesQuery :: "jstr option \<Rightarrow> query" where
  "useAutopilotRulesQuery slug = mk_query [kname ''autopilot'', kopt slug] (truthy_str slug)
     (js ''/workspaces/'' @ tpl slug @ js ''/autopilot'') (Some ''rules'') True None"

lemmas query_defs = useHealthQuery_def useWorkspaceQuery_def useSettingsQuery_def useUsageSummaryQuery_def
  useWorkspacesQuery_def useAgentsQuery_def useAgentQuery_def useAgentInstructionVersionsQuery_def
  useIssueAttachmentsQuery_def useWorkspaceWebhooksQuery_def useWebhookDeliveriesQuery_def
  useWorkspaceSkillsQuery_def useAgentActivityQuery_def useAgentSkillsQuery_def useIssuesQuery_def
  useWorkspaceIssueQuery_def useSubIssuesQuery_def useCommentsQuery_def useRunsQuery_def
  useRunEventsQuery_def useAutopilotRulesQuery_def

text \<open>A use of a hook, with its arguments.\<close>

datatype hook =
    HHealth | HWorkspace "jstr option" | HSettings | HUsage int | HWorkspaces | HAgents "jstr option"
  | HAgent "jstr option" | HInstructions "jstr option" | HAttachments "jstr option"
  | HWebhooks "jstr option" | HDeliveries "jstr option" "nat option" | HSkills "jstr option"
  | HActivity "jstr option" | HAgentSkills "jstr option" | HIssues "jstr option" issues_query_params
  | HIssue "jstr option" "jstr option" "issue option" | HSubIssues "jstr option"
  | HComments "jstr option" "jstr option" | HRuns "jstr option" "jstr option"
  | HEvents "jstr option" "jstr option" | HRules "jstr option"

fun hook_query :: "hook \<Rightarrow> query" where
  "hook_query HHealth = useHealthQuery"
| "hook_query (HWorkspace s) = useWorkspaceQuery s"
| "hook_query HSettings = useSettingsQuery"
| "hook_query (HUsage n) = useUsageSummaryQuery n"
| "hook_query HWorkspaces = useWorkspacesQuery"
| "hook_query (HAgents s) = useAgentsQuery s"
| "hook_query (HAgent i) = useAgentQuery i"
| "hook_query (HInstructions i) = useAgentInstructionVersionsQuery i"
| "hook_query (HAttachments i) = useIssueAttachmentsQuery i"
| "hook_query (HWebhooks s) = useWorkspaceWebhooksQuery s"
| "hook_query (HDeliveries w n) = useWebhookDeliveriesQuery w n"
| "hook_query (HSkills s) = useWorkspaceSkillsQuery s"
| "hook_query (HActivity s) = useAgentActivityQuery s"
| "hook_query (HAgentSkills i) = useAgentSkillsQuery i"
| "hook_query (HIssues s p) = useIssuesQuery s p"
| "hook_query (HIssue s i d) = useWorkspaceIssueQuery s i d"
| "hook_query (HSubIssues i) = useSubIssuesQuery i"
| "hook_query (HComments i e) = useCommentsQuery i e"
| "hook_query (HRuns i e) = useRunsQuery i e"
| "hook_query (HEvents r e) = useRunEventsQuery r e"
| "hook_query (HRules s) = useAutopilotRulesQuery s"

text \<open>What a component sees of a query.\<close>

record 'a query_result =
  qr_data :: "'a option"
  qr_isLoading :: bool
  qr_isFetching :: bool
  qr_error :: "thrown option"

abbreviation qr_isError :: "'a query_result \<Rightarrow> bool" where
  "qr_isError q \<equiv> qr_error q \<noteq> None"

subsection \<open>The cache key determines the request\<close>

lemma kopt_inject [simp]: "kopt a = kopt b \<longleftrightarrow> a = b"
  by (cases a; cases b) auto

text \<open>C25: The cache never mixes up two requests: whenever two uses of query hooks, of the same or of
  different hooks and with any arguments, have the same cache key, they request the same path,
  return the same field of the response with the same default, and are both enabled or both
  disabled. An enabled use never interpolates an undefined value into its path.\<close>

theorem query_key_determines_request:
  "(q_key (hook_query h) = q_key (hook_query h') \<longrightarrow>
     q_path (hook_query h) = q_path (hook_query h') \<and> q_field (hook_query h) = q_field (hook_query h') \<and>
     q_or_empty (hook_query h) = q_or_empty (hook_query h') \<and> q_enabled (hook_query h) = q_enabled (hook_query h')) \<and>
   (q_enabled (hook_query h) \<longrightarrow> KUndef \<notin> set (q_key (hook_query h)))"
proof -
  have p1: "q_key (hook_query h) = q_key (hook_query h') \<Longrightarrow>
     q_path (hook_query h) = q_path (hook_query h') \<and> q_field (hook_query h) = q_field (hook_query h') \<and>
     q_or_empty (hook_query h) = q_or_empty (hook_query h') \<and> q_enabled (hook_query h) = q_enabled (hook_query h')"
    by (cases h; cases h') (simp_all add: query_defs Let_def)
  have p2: "q_enabled (hook_query h) \<Longrightarrow> KUndef \<notin> set (q_key (hook_query h))"
    by (cases h) (auto simp: query_defs Let_def truthy_str_iff)
  show ?thesis using p1 p2 by blast
qed

theorem query_key_determines_request_witness:
  "q_path (hook_query (HRuns (Some (js ''i1'')) (Some (js ''running'')))) =
     q_path (hook_query (HRuns (Some (js ''i1'')) None)) \<and>
   KUndef \<notin> set (q_key (hook_query (HIssue (Some (js ''team'')) (Some (js ''CAD-1'')) None)))"
  using query_key_determines_request [of "HRuns (Some (js ''i1'')) (Some (js ''running''))" "HRuns (Some (js ''i1'')) None"]
    query_key_determines_request [of "HIssue (Some (js ''team'')) (Some (js ''CAD-1'')) None"]
  by (simp add: query_defs)

subsection \<open>The query string read back\<close>

text \<open>The server's reading of a query string (the form-urlencoded parser): pieces between \<^verbatim>\<open>&\<close>, the
  first \<^verbatim>\<open>=\<close> separates name and value, \<^verbatim>\<open>+\<close> is a blank and \<^verbatim>\<open>%XX\<close> a byte.\<close>

definition hex_val :: "code_unit \<Rightarrow> nat" where
  "hex_val c = (if c \<le> 57 then unat c - 48 else unat c - 55)"

fun form_unescape :: "jstr \<Rightarrow> nat list" where
  "form_unescape [] = []"
| "form_unescape (c # s) =
     (if c = 43 then 32 # form_unescape s
      else if c = 37 then
        (case s of h # l # s' \<Rightarrow> (16 * hex_val h + hex_val l) # form_unescape s' | _ \<Rightarrow> unat c # form_unescape s)
      else unat c # form_unescape s)"

definition form_pair :: "jstr \<Rightarrow> nat list \<times> nat list" where
  "form_pair s = (form_unescape (takeWhile (\<lambda>c. c \<noteq> 61) s), form_unescape (drop 1 (dropWhile (\<lambda>c. c \<noteq> 61) s)))"

definition form_parse :: "jstr \<Rightarrow> (nat list \<times> nat list) list" where
  "form_parse s = (if s = [] then [] else map form_pair (split_on 38 s))"

lemma hex_digit_bounds: "n < 16 \<Longrightarrow> 48 \<le> hex_digit n \<and> hex_digit n \<le> 70 \<and> hex_digit n \<noteq> 61 \<and> hex_val (hex_digit n) = n"
proof -
  assume "n < 16"
  then have "n \<in> set [0..<16]" by simp
  then show ?thesis by (auto simp: upt_rec hex_digit_def hex_val_def)
qed

lemma form_safe_range: "form_safe b \<Longrightarrow> b < 123"
  by (auto simp: form_safe_def)

lemma unescape_byte: "b < 256 \<Longrightarrow> form_unescape (form_byte b @ s) = b # form_unescape s"
proof -
  assume b: "b < 256"
  have h: "b div 16 < 16" "b mod 16 < 16" using b by auto
  have "form_safe b \<Longrightarrow> (of_nat b :: code_unit) \<noteq> 43 \<and> (of_nat b :: code_unit) \<noteq> 37 \<and> unat (of_nat b :: code_unit) = b"
    using form_safe_range [of b] code_of_nat_eq [of b 43] code_of_nat_eq [of b 37] unat_code_of_nat [of b]
    by (auto simp: form_safe_def)
  then show ?thesis
    using hex_digit_bounds [OF h(1)] hex_digit_bounds [OF h(2)] by (auto simp: form_byte_def js_def)
qed

lemma form_byte_clean: "b < 256 \<Longrightarrow> 38 \<notin> set (form_byte b) \<and> 61 \<notin> set (form_byte b) \<and> form_byte b \<noteq> []"
proof -
  assume b: "b < 256"
  have h: "b div 16 < 16" "b mod 16 < 16" using b by auto
  have "form_safe b \<Longrightarrow> (of_nat b :: code_unit) \<noteq> 38 \<and> (of_nat b :: code_unit) \<noteq> 61"
    using form_safe_range [of b] code_of_nat_eq [of b 38] code_of_nat_eq [of b 61]
    by (auto simp: form_safe_def)
  then show ?thesis
    using hex_digit_bounds [OF h(1)] hex_digit_bounds [OF h(2)] by (auto simp: form_byte_def js_def)
qed

lemma unescape_bytes:
  "\<forall>b \<in> set bs. b < 256 \<Longrightarrow> form_unescape (concat (map form_byte bs)) = bs"
  using unescape_byte by (induction bs) auto

lemma code_points_range: "\<forall>n \<in> set (code_points s). n < 0x110000"
proof (induction s rule: code_points.induct)
  case (2 c)
  have "unat c < 65536" by (rule unat_code_less)
  then show ?case by simp
next
  case (3 c d s)
  have "unat c < 65536" by (rule unat_code_less)
  moreover have "unat c \<le> 0xDBFF" if "c \<le> 0xDBFF" using that by (simp add: word_le_nat_alt)
  moreover have "unat d \<le> 0xDFFF" if "d \<le> 0xDFFF" using that by (simp add: word_le_nat_alt)
  ultimately show ?case using 3 by auto
qed simp

lemma utf8_bytes: "\<forall>b \<in> set (utf8 s). b < 256"
proof -
  have "\<forall>b \<in> set (utf8_point n). b < 256" if "n < 0x110000" for n
    using that by (auto simp: utf8_point_def)
  then show ?thesis using code_points_range by (fastforce simp: utf8_def)
qed

lemma form_encode_clean: "38 \<notin> set (form_encode s)" "61 \<notin> set (form_encode s)"
  using utf8_bytes [of s] form_byte_clean by (auto simp: form_encode_def)

lemma form_unescape_encode: "form_unescape (form_encode s) = utf8 s"
  by (simp add: form_encode_def unescape_bytes utf8_bytes)

lemma takeWhile_sep: "c \<notin> set a \<Longrightarrow> takeWhile (\<lambda>x. x \<noteq> c) (a @ c # b) = a"
  by (induction a) auto

lemma dropWhile_sep: "c \<notin> set a \<Longrightarrow> dropWhile (\<lambda>x. x \<noteq> c) (a @ c # b) = c # b"
  by (induction a) auto

lemma search_str_nonempty: "ps \<noteq> [] \<Longrightarrow> search_str ps \<noteq> []"
  by (cases ps rule: list.exhaust; cases "tl ps")
    (auto simp: search_str_def js_def join_Cons split: prod.split)

lemma form_parse_search: "form_parse (search_str ps) = map (\<lambda>(k, v). (utf8 k, utf8 v)) ps"
proof (cases "ps = []")
  case False
  have pair: "form_pair (form_encode k @ 61 # form_encode v) = (utf8 k, utf8 v)" for k v
    by (simp add: form_pair_def takeWhile_sep dropWhile_sep form_encode_clean form_unescape_encode)
  have "split_on 38 (search_str ps) = map (\<lambda>(k, v). form_encode k @ js ''='' @ form_encode v) ps"
    using False unfolding search_str_def js_def
    by (simp add: split_join form_encode_clean split_beta)
  then show ?thesis using search_str_nonempty [OF False] by (simp add: form_parse_def js_def pair split_beta)
qed (simp add: form_parse_def search_str_def)

text \<open>The pairs the query string carries, in order.\<close>

definition issues_pairs :: "issues_query_params \<Rightarrow> (jstr \<times> jstr) list" where
  "issues_pairs params =
     (case qp_status params of Some (Some st) \<Rightarrow> [(js ''status'', issue_status_str st)] | _ \<Rightarrow> []) @
     (case qp_execution params of Some (Some ex) \<Rightarrow> [(js ''execution'', exec_status_str ex)] | _ \<Rightarrow> []) @
     (case qp_assignee params of Some a \<Rightarrow> if a = [] then [] else [(js ''assignee'', a)] | None \<Rightarrow> []) @
     (case qp_q params of Some q \<Rightarrow> if trim q = [] then [] else [(js ''q'', trim q)] | None \<Rightarrow> []) @
     (case qp_limit params of Some n \<Rightarrow> if n = 0 then [] else [(js ''limit'', nat_str n)] | None \<Rightarrow> [])"

lemma issues_search_pairs: "issues_search params = issues_pairs params"
  by (simp add: issues_search_def issues_pairs_def set_if_def Let_def oor_str_def split: option.split)

text \<open>C29: The issue list's query string carries exactly the active filters. Reading it back the way
  the server does gives, in order, one pair for each filter that is set: the status and the
  execution status unless absent or "all", the assignee unless empty, the search text trimmed and
  unless blank, the limit unless zero, each value as the UTF-8 bytes of its text whatever
  characters it contains; the string is empty exactly when no filter is active.\<close>

theorem buildIssuesQuery_roundtrip:
  "form_parse (drop 1 (buildIssuesQuery params)) = map (\<lambda>(k, v). (utf8 k, utf8 v)) (issues_pairs params) \<and>
   (buildIssuesQuery params = [] \<longleftrightarrow> issues_pairs params = []) \<and>
   (buildIssuesQuery params = [] \<or> hd (buildIssuesQuery params) = 63)"
proof (cases "issues_pairs params = []")
  case True
  then show ?thesis
    by (simp add: buildIssuesQuery_def issues_search_pairs search_str_def form_parse_def)
next
  case False
  then have "buildIssuesQuery params = 63 # search_str (issues_pairs params)"
    by (simp add: buildIssuesQuery_def issues_search_pairs search_str_nonempty js_def)
  then show ?thesis using False by (simp add: form_parse_search)
qed

end
