(* ===== verification/ChainSummary.thy ===== *)
theory ChainSummary
  imports ApiTypes
begin

section \<open>Chain summaries\<close>

text \<open>
  Models \<^verbatim>\<open>web/src/lib/chainSummary.ts\<close>: the runs of an issue grouped into chains with their totals.
  The source builds the groups in one pass over a map, then sorts the runs of every group and the
  groups; the specification below says the same per chain, without a map.
\<close>

record chain_summary =
  chainID :: jstr
  cs_runs :: "run list"
  totalRuns :: int
  maxChainDepth :: int
  totalInputTokens :: int
  totalOutputTokens :: int
  totalCostMicros :: int
  firstEnqueuedAt :: "jstr option"
  lastActivityAt :: "jstr option"
  lastStatus :: "jstr option"
  lastAgentName :: "jstr option"

text \<open>\<^verbatim>\<open>run.chain_id?.trim() || run.id\<close>\<close>

definition chain_key :: "run \<Rightarrow> jstr" where
  "chain_key run = oor_str (map_option trim (run_chain_id run)) (run_id run)"

definition new_summary :: "jstr \<Rightarrow> chain_summary" where
  "new_summary key =
     \<lparr>chainID = key, cs_runs = [], totalRuns = 0, maxChainDepth = 0, totalInputTokens = 0,
      totalOutputTokens = 0, totalCostMicros = 0, firstEnqueuedAt = None, lastActivityAt = None,
      lastStatus = None, lastAgentName = None\<rparr>"

text \<open>The body of the first loop, on the summary of the run's group.\<close>

definition add_run :: "run \<Rightarrow> chain_summary \<Rightarrow> chain_summary" where
  "add_run run s =
     s\<lparr>cs_runs := cs_runs s @ [run],
       totalRuns := totalRuns s + 1,
       maxChainDepth :=
         (let depth = nullish (run_chain_depth run) 0 in if depth > maxChainDepth s then depth else maxChainDepth s),
       totalInputTokens := totalInputTokens s + nullish (run_input_tokens run) 0,
       totalOutputTokens := totalOutputTokens s + nullish (run_output_tokens run) 0,
       totalCostMicros := totalCostMicros s + nullish (run_total_cost_micros run) 0\<rparr>"

definition group_step :: "(jstr, chain_summary) omap \<Rightarrow> run \<Rightarrow> (jstr, chain_summary) omap" where
  "group_step groups run =
     (let key = chain_key run;
          summary = (case omap_get groups key of None \<Rightarrow> new_summary key | Some s \<Rightarrow> s)
      in omap_set key (add_run run summary) groups)"

definition run_order :: "platform \<Rightarrow> run \<Rightarrow> run \<Rightarrow> int" where
  "run_order E a b = localeCompare E (nullish (run_enqueued_at a) []) (nullish (run_enqueued_at b) [])"

text \<open>The body of the second loop. A group has at least one run.\<close>

definition run_activity :: "run \<Rightarrow> jstr option" where
  "run_activity r =
     oor (map_option trim (run_finished_at r))
       (oor (map_option trim (run_heartbeat_at r))
         (oor (map_option trim (run_started_at r)) (run_enqueued_at r)))"

definition finish_summary :: "platform \<Rightarrow> chain_summary \<Rightarrow> chain_summary" where
  "finish_summary E s =
     (let runs = js_sort (run_order E) (cs_runs s);
          first = (case runs of [] \<Rightarrow> None | r # _ \<Rightarrow> run_enqueued_at r);
          l = (if runs = [] then None else Some (last runs))
      in s\<lparr>cs_runs := runs,
           firstEnqueuedAt := first,
           lastActivityAt := Option.bind l run_activity,
           lastStatus := map_option run_status l,
           lastAgentName := Option.bind l run_agent_name\<rparr>)"

definition summary_order :: "platform \<Rightarrow> chain_summary \<Rightarrow> chain_summary \<Rightarrow> int" where
  "summary_order E a b = localeCompare E (nullish (firstEnqueuedAt b) []) (nullish (firstEnqueuedAt a) [])"

definition summarizeChains :: "platform \<Rightarrow> run list \<Rightarrow> chain_summary list" where
  "summarizeChains E runs =
     (let groups = foldl group_step [] runs
      in js_sort (summary_order E) (map (finish_summary E \<circ> snd) groups))"

subsection \<open>Specification per chain\<close>

definition chain_runs :: "run list \<Rightarrow> jstr \<Rightarrow> run list" where
  "chain_runs runs k = filter (\<lambda>r. chain_key r = k) runs"

definition total_of :: "(run \<Rightarrow> int option) \<Rightarrow> run list \<Rightarrow> int" where
  "total_of f rs = sum_list (map (\<lambda>r. nullish (f r) 0) rs)"

definition max_depth :: "run list \<Rightarrow> int" where
  "max_depth rs = fold (\<lambda>r. max (nullish (run_chain_depth r) 0)) rs 0"

definition chain_spec :: "platform \<Rightarrow> run list \<Rightarrow> jstr \<Rightarrow> chain_summary" where
  "chain_spec E runs k =
     (let rs = chain_runs runs k; sorted = js_sort (run_order E) rs in
      \<lparr>chainID = k, cs_runs = sorted, totalRuns = int (length rs), maxChainDepth = max_depth rs,
       totalInputTokens = total_of run_input_tokens rs, totalOutputTokens = total_of run_output_tokens rs,
       totalCostMicros = total_of run_total_cost_micros rs,
       firstEnqueuedAt = run_enqueued_at (hd sorted), lastActivityAt = run_activity (last sorted),
       lastStatus = Some (run_status (last sorted)), lastAgentName = run_agent_name (last sorted)\<rparr>)"

lemma fold_add_run:
  "fold add_run rs s =
     s\<lparr>cs_runs := cs_runs s @ rs, totalRuns := totalRuns s + int (length rs),
       maxChainDepth := fold (\<lambda>r. max (nullish (run_chain_depth r) 0)) rs (maxChainDepth s),
       totalInputTokens := totalInputTokens s + total_of run_input_tokens rs,
       totalOutputTokens := totalOutputTokens s + total_of run_output_tokens rs,
       totalCostMicros := totalCostMicros s + total_of run_total_cost_micros rs\<rparr>"
  by (induction rs arbitrary: s) (simp_all add: add_run_def total_of_def max_def Let_def)

lemma foldl_group_step: "foldl group_step m runs = omap.group chain_key new_summary add_run m runs"
  by (simp add: omap.group_def group_step_def [abs_def] nullish_def Let_def)

lemma group_entries:
  "foldl group_step [] runs = map (\<lambda>k. (k, fold add_run (chain_runs runs k) (new_summary k)))
     (map fst (foldl group_step [] runs))" (is "?g = _")
proof -
  have d: "distinct (map fst ?g)"
    using omap.invar_group [OF omap.invar_empty] by (simp add: foldl_group_step)
  have "snd e = fold add_run (chain_runs runs (fst e)) (new_summary (fst e))" if "e \<in> set ?g" for e
  proof -
    have "omap_get ?g (fst e) = Some (snd e)" using d that by (simp add: map_of_eq_Some_iff)
    then show ?thesis
      using omap.get_group_empty [of chain_key new_summary add_run runs "fst e"]
      by (auto simp: foldl_group_step chain_runs_def split: if_splits)
  qed
  then have "map (\<lambda>e. (fst e, fold add_run (chain_runs runs (fst e)) (new_summary (fst e)))) ?g = map (\<lambda>e. e) ?g"
    by (intro map_cong) (auto simp: prod_eq_iff)
  then show ?thesis by (simp add: comp_def)
qed

lemma finish_group:
  "k \<in> chain_key ` set runs \<Longrightarrow>
     finish_summary E (fold add_run (chain_runs runs k) (new_summary k)) = chain_spec E runs k"
proof -
  assume "k \<in> chain_key ` set runs"
  then have ne: "chain_runs runs k \<noteq> []" by (auto simp: chain_runs_def filter_empty_conv)
  then have "js_sort (run_order E) (chain_runs runs k) \<noteq> []" by simp
  then show ?thesis
    by (auto simp: finish_summary_def chain_spec_def fold_add_run new_summary_def max_depth_def Let_def
        split: list.split)
qed

lemma summarizeChains_spec:
  "\<exists>ks. distinct ks \<and> set ks = chain_key ` set runs \<and>
     summarizeChains E runs = js_sort (summary_order E) (map (chain_spec E runs) ks)"
proof -
  let ?ks = "map fst (foldl group_step [] runs)"
  have ks: "set ?ks = chain_key ` set runs" "distinct ?ks"
    using omap.keys_group [OF omap.invar_empty, of chain_key new_summary add_run runs]
      omap.invar_group [OF omap.invar_empty] by (simp_all add: foldl_group_step)
  have "map (finish_summary E \<circ> snd) (foldl group_step [] runs) = map (chain_spec E runs) ?ks"
    using ks(1) by (subst group_entries) (auto simp: finish_group simp flip: ks(1))
  then have "summarizeChains E runs = js_sort (summary_order E) (map (chain_spec E runs) ?ks)"
    unfolding summarizeChains_def Let_def by (rule arg_cong)
  then show ?thesis using ks by blast
qed

text \<open>C13: The one-pass grouping implements the specification per chain: the summaries are, in some
  order, the specified summaries of the distinct chain keys of the runs, one per key, and they are
  sorted newest first by the enqueue time of their first run.\<close>

theorem summarizeChains_refines_spec:
  assumes "comparator (localeCompare E)"
  shows "mset (summarizeChains E runs) = mset_set (chain_spec E runs ` chain_key ` set runs) \<and>
         distinct (map chainID (summarizeChains E runs)) \<and>
         sorted_wrt (\<lambda>a b. localeCompare E (nullish (firstEnqueuedAt b) []) (nullish (firstEnqueuedAt a) []) \<le> 0)
           (summarizeChains E runs)"
proof -
  obtain ks where ks: "distinct ks" "set ks = chain_key ` set runs"
    and s: "summarizeChains E runs = js_sort (summary_order E) (map (chain_spec E runs) ks)"
    using summarizeChains_spec by blast
  have "inj_on (chain_spec E runs) (set ks)" by (rule inj_onI) (simp add: chain_spec_def Let_def)
  then have "distinct (map (chain_spec E runs) ks)" using ks(1) by (simp add: distinct_map)
  moreover have "map chainID (map (chain_spec E runs) ks) = ks" by (simp add: chain_spec_def Let_def comp_def)
  moreover have "comparator (summary_order E)"
    using comparator_rev [OF comparator_key [OF assms, of "\<lambda>s. nullish (firstEnqueuedAt s) []"]]
    by (simp add: summary_order_def [abs_def])
  moreover have "mset (map (chain_spec E runs) ks) = mset_set (chain_spec E runs ` chain_key ` set runs)"
    using mset_set_set [OF calculation(1)] ks(2) by simp
  ultimately show ?thesis
    using ks(1) comparator.sort_sorted [of "summary_order E" "map (chain_spec E runs) ks"]
    unfolding s summary_order_def by (simp add: distinct_map_js_sort del: map_map)
qed

theorem summarizeChains_refines_spec_witness:
  "distinct (map chainID (summarizeChains ascii_platform [bare_run (js ''r1'') (js ''done''), bare_run (js ''r2'') (js ''done'')]))"
  using summarizeChains_refines_spec [OF ascii.collation] by blast

lemma chain_spec_simps:
  "chainID (chain_spec E runs k) = k"
  "cs_runs (chain_spec E runs k) = js_sort (run_order E) (chain_runs runs k)"
  "totalRuns (chain_spec E runs k) = int (length (chain_runs runs k))"
  "maxChainDepth (chain_spec E runs k) = max_depth (chain_runs runs k)"
  "totalInputTokens (chain_spec E runs k) = total_of run_input_tokens (chain_runs runs k)"
  "totalOutputTokens (chain_spec E runs k) = total_of run_output_tokens (chain_runs runs k)"
  "totalCostMicros (chain_spec E runs k) = total_of run_total_cost_micros (chain_runs runs k)"
  "lastStatus (chain_spec E runs k) = Some (run_status (last (js_sort (run_order E) (chain_runs runs k))))"
  by (simp_all add: chain_spec_def Let_def)

lemma total_of_mset: "mset xs = mset ys \<Longrightarrow> total_of f xs = total_of f ys"
  unfolding total_of_def sum_mset_sum_list [symmetric] mset_map by simp

lemma total_of_concat: "total_of f (concat xss) = sum_list (map (total_of f) xss)"
  by (induction xss) (simp_all add: total_of_def)

lemma of_nat_sum_list_int: "int (sum_list (map f xs)) = sum_list (map (\<lambda>x. int (f x)) xs)"
  by (induction xs) simp_all

lemma max_depth_bound: "r \<in> set rs \<Longrightarrow> nullish (run_chain_depth r) 0 \<le> max_depth rs"
proof -
  have "n \<le> fold (\<lambda>r. max (nullish (run_chain_depth r) 0)) rs n \<and>
      (\<forall>r \<in> set rs. nullish (run_chain_depth r) 0 \<le> fold (\<lambda>r. max (nullish (run_chain_depth r) 0)) rs n)" for n
  proof (induction rs arbitrary: n)
    case (Cons a rs)
    from Cons.IH [of "max (nullish (run_chain_depth a) 0) n"] show ?case by auto
  qed simp
  then show "r \<in> set rs \<Longrightarrow> nullish (run_chain_depth r) 0 \<le> max_depth rs" by (simp add: max_depth_def)
qed

text \<open>C14: Nothing is lost or counted twice: the runs of all summaries together are exactly the runs
  given, the counts, token and cost totals of the summaries add up to those of all the runs, within
  a summary the runs are in order of their enqueue time, the depth shown bounds the depth of every
  run of the chain, and the status shown is that of the last run.\<close>

theorem summarizeChains_partitions_runs:
  assumes "comparator (localeCompare E)"
  shows "mset (concat (map cs_runs (summarizeChains E runs))) = mset runs \<and>
         sum_list (map totalRuns (summarizeChains E runs)) = int (length runs) \<and>
         sum_list (map totalInputTokens (summarizeChains E runs)) = total_of run_input_tokens runs \<and>
         sum_list (map totalOutputTokens (summarizeChains E runs)) = total_of run_output_tokens runs \<and>
         sum_list (map totalCostMicros (summarizeChains E runs)) = total_of run_total_cost_micros runs \<and>
         (\<forall>s \<in> set (summarizeChains E runs).
            cs_runs s \<noteq> [] \<and> (\<forall>r \<in> set (cs_runs s). chain_key r = chainID s \<and> nullish (run_chain_depth r) 0 \<le> maxChainDepth s) \<and>
            sorted_wrt (\<lambda>a b. run_order E a b \<le> 0) (cs_runs s) \<and> lastStatus s = Some (run_status (last (cs_runs s))))"
proof -
  obtain ks where ks: "distinct ks" "set ks = chain_key ` set runs"
    and s: "summarizeChains E runs = js_sort (summary_order E) (map (chain_spec E runs) ks)"
    using summarizeChains_spec by blast
  have part: "mset (concat (map (chain_runs runs) ks)) = mset runs"
    using mset_concat_filter [OF ks(1), of chain_key runs] ks(2) by (simp add: chain_runs_def [abs_def])
  have total: "sum_list (map (\<lambda>k. total_of f (chain_runs runs k)) ks) = total_of f runs" for f
    using total_of_mset [OF part] by (simp add: total_of_concat comp_def)
  have "sum_list (map (\<lambda>k. int (length (chain_runs runs k))) ks) = int (length runs)"
    using arg_cong [OF part, of size] by (simp add: length_concat comp_def flip: of_nat_sum_list_int)
  moreover have "sum_list (map (\<lambda>k. mset (chain_runs runs k)) ks) = mset runs"
    using part by (simp add: mset_concat comp_def)
  moreover have "\<forall>k \<in> set ks. chain_runs runs k \<noteq> []"
    using ks(2) by (auto simp: chain_runs_def filter_empty_conv)
  moreover have "sorted_wrt (\<lambda>a b. run_order E a b \<le> 0) (js_sort (run_order E) rs)" for rs
    using comparator.sort_sorted [OF comparator_key [OF assms, of "\<lambda>r. nullish (run_enqueued_at r) []"]]
    by (simp add: run_order_def [abs_def])
  moreover have "\<forall>r \<in> set (chain_runs runs k). chain_key r = k" for k
    by (simp add: chain_runs_def)
  ultimately show ?thesis
    using max_depth_bound
    by (simp add: s mset_concat sum_list_map_js_sort comp_def chain_spec_simps total)
qed

theorem summarizeChains_partitions_runs_witness:
  "sum_list (map totalRuns (summarizeChains ascii_platform
     [bare_run (js ''r1'') (js ''done''), bare_run (js ''r2'') (js ''done'')])) = 2"
  using summarizeChains_partitions_runs [OF ascii.collation,
      of "[bare_run (js ''r1'') (js ''done''), bare_run (js ''r2'') (js ''done'')]"] by simp

end
