(* ===== verification/RunLabels.thy ===== *)
theory RunLabels
  imports ApiTypes
begin

section \<open>Labels of runs and their events\<close>

text \<open>
  Models \<^verbatim>\<open>web/src/lib/runLabels.ts\<close>: tables from the server's codes to the labels shown, and a
  lookup that shows an unknown code as it is. A table is a JavaScript object used as a dictionary;
  its own entries are modelled, not the names every object inherits, which are not codes of the
  server.
\<close>

type_synonym label_table = "(jstr \<times> jstr) list"

definition triggerLabels :: label_table where
  "triggerLabels =
     [(js ''issue_created'', ko_trig_created), (js ''rerun'', ko_trig_rerun),
      (js ''mention'', ko_trig_mention), (js ''autopilot'', ko_trig_autopilot)]"

definition terminalReasonLabels :: label_table where
  "terminalReasonLabels =
     [(js ''completed'', ko_tr_completed), (js ''exit_nonzero'', ko_tr_exit_nonzero),
      (js ''timeout'', ko_tr_timeout), (js ''executor_error'', ko_tr_executor_error),
      (js ''worker_panic'', ko_tr_worker_panic),
      (js ''claim_preparation_failed'', ko_tr_prepare_failed),
      (js ''unknown_failure'', ko_tr_unknown), (js ''user_cancelled'', ko_tr_user_cancelled),
      (js ''issue_cancelled'', ko_tr_issue_cancelled), (js ''shutdown'', ko_tr_shutdown),
      (js ''orphan_recovered'', ko_tr_orphan), (js ''stale_recovered'', ko_tr_stale)]"

definition failureKindLabels :: label_table where
  "failureKindLabels =
     [(js ''exit_nonzero'', js ''exit non-zero''), (js ''timeout'', js ''timeout''),
      (js ''executor_error'', js ''executor error''), (js ''worker_panic'', js ''worker panic''),
      (js ''claim_preparation_failed'', js ''prepare failed''), (js ''unknown'', js ''unknown failure'')]"

definition cancelReasonLabels :: label_table where
  "cancelReasonLabels =
     [(js ''user'', ko_cr_user), (js ''issue'', ko_tr_issue_cancelled), (js ''shutdown'', ko_cr_shutdown),
      (js ''orphan'', ko_cr_orphan), (js ''stale'', ko_cr_stale)]"

definition runEventLabels :: label_table where
  "runEventLabels =
     [(js ''run_queued'', ko_ev_queued), (js ''run_claimed'', ko_ev_claimed),
      (js ''executor_starting'', ko_ev_starting), (js ''stdout_truncated'', ko_ev_truncated),
      (js ''cancel_requested'', ko_ev_cancel_requested), (js ''run_cancelled'', ko_ev_cancelled),
      (js ''run_completed'', ko_ev_completed), (js ''run_failed'', ko_ev_failed),
      (js ''run_prepare_failed'', ko_ev_prepare_failed), (js ''orphan_recovered'', ko_ev_orphan),
      (js ''stale_recovered'', ko_ev_stale)]"

definition getMappedLabel :: "label_table \<Rightarrow> jstr \<Rightarrow> jstr" where
  "getMappedLabel labels v = nullish (map_of labels v) v"

definition getTriggerLabel :: "jstr \<Rightarrow> jstr" where
  "getTriggerLabel = getMappedLabel triggerLabels"

definition getTerminalReasonLabel :: "jstr \<Rightarrow> jstr" where
  "getTerminalReasonLabel = getMappedLabel terminalReasonLabels"

definition getFailureKindLabel :: "jstr \<Rightarrow> jstr" where
  "getFailureKindLabel = getMappedLabel failureKindLabels"

definition getCancelReasonLabel :: "jstr \<Rightarrow> jstr" where
  "getCancelReasonLabel = getMappedLabel cancelReasonLabels"

definition getRunEventLabel :: "jstr \<Rightarrow> jstr" where
  "getRunEventLabel = getMappedLabel runEventLabels"

subsection \<open>Label tables as an interface\<close>

text \<open>
  What the views rely on: a table has one label per code and no empty label, so a lookup never shows
  an empty text for a non-empty code, and two codes of the table show the same text only if the
  table says so.
\<close>

locale label_lookup =
  fixes table :: label_table
  assumes distinct_codes: "distinct (map fst table)"
    and labels_nonempty: "list_all (\<lambda>(c, l). c \<noteq> [] \<and> l \<noteq> []) table"
begin

lemma label_of_entry: "(c, l) \<in> set table \<Longrightarrow> getMappedLabel table c = l"
  using distinct_codes by (simp add: getMappedLabel_def)

lemma label_of_unknown: "c \<notin> fst ` set table \<Longrightarrow> getMappedLabel table c = c"
  by (simp add: getMappedLabel_def map_of_eq_None_iff [THEN iffD2])

lemma label_nonempty: "c \<noteq> [] \<Longrightarrow> getMappedLabel table c \<noteq> []"
  using labels_nonempty label_of_unknown [of c] label_of_entry
  by (cases "c \<in> fst ` set table") (auto simp: list_all_iff)

end

lemmas label_table_defs = triggerLabels_def terminalReasonLabels_def failureKindLabels_def
  cancelReasonLabels_def runEventLabels_def

interpretation trigger: label_lookup triggerLabels
  by unfold_locales (simp_all add: label_table_defs ko_trig_created_def ko_trig_rerun_def ko_trig_mention_def
      ko_trig_autopilot_def)

interpretation terminal: label_lookup terminalReasonLabels
  by unfold_locales (simp_all add: label_table_defs ko_tr_completed_def ko_tr_exit_nonzero_def ko_tr_timeout_def
      ko_tr_executor_error_def ko_tr_worker_panic_def ko_tr_prepare_failed_def ko_tr_unknown_def
      ko_tr_user_cancelled_def ko_tr_issue_cancelled_def ko_tr_shutdown_def ko_tr_orphan_def ko_tr_stale_def)

interpretation failure: label_lookup failureKindLabels
  by unfold_locales (simp_all add: label_table_defs)

interpretation cancel: label_lookup cancelReasonLabels
  by unfold_locales (simp_all add: label_table_defs ko_cr_user_def ko_tr_issue_cancelled_def ko_cr_shutdown_def
      ko_cr_orphan_def ko_cr_stale_def)

interpretation run_event: label_lookup runEventLabels
  by unfold_locales (simp_all add: label_table_defs ko_ev_queued_def ko_ev_claimed_def ko_ev_starting_def
      ko_ev_truncated_def ko_ev_cancel_requested_def ko_ev_cancelled_def ko_ev_completed_def ko_ev_failed_def
      ko_ev_prepare_failed_def ko_ev_orphan_def ko_ev_stale_def)

end
