(* ===== verification/Widgets.thy ===== *)
theory Widgets
  imports ApiTypes
begin

section \<open>Shared components\<close>

text \<open>
  The small components the pages are made of: \<^verbatim>\<open>StatusPill\<close>, \<^verbatim>\<open>DateTimeText\<close>,
  \<^verbatim>\<open>MutationErrorAlert\<close>, \<^verbatim>\<open>PageHeader\<close>, \<^verbatim>\<open>BrandMark\<close>, \<^verbatim>\<open>Modal\<close>, \<^verbatim>\<open>ConfirmDialog\<close>,
  \<^verbatim>\<open>RuntimeBadge\<close>, \<^verbatim>\<open>ModelSelect\<close> and \<^verbatim>\<open>MarkdownText\<close> (all under \<^verbatim>\<open>web/src/components\<close>). Callback props
  are messages of the component that renders them.
\<close>

subsection \<open>Status pills\<close>

datatype pill_kind = PIssue | PExecution | PRun | PRule | PRuntime

fun pill_kind_str :: "pill_kind \<Rightarrow> jstr" where
  "pill_kind_str PIssue = js ''issue''"
| "pill_kind_str PExecution = js ''execution''"
| "pill_kind_str PRun = js ''run''"
| "pill_kind_str PRule = js ''rule''"
| "pill_kind_str PRuntime = js ''runtime''"

fun STATUS_LABELS :: "pill_kind \<Rightarrow> (jstr \<times> jstr) list" where
  "STATUS_LABELS PIssue =
     [(js ''open'', ko_st_open), (js ''done'', ko_st_done), (js ''cancelled'', ko_st_cancelled)]"
| "STATUS_LABELS PExecution =
     [(js ''idle'', ko_st_idle), (js ''queued'', ko_st_queued), (js ''running'', ko_st_running),
      (js ''done'', ko_st_done), (js ''failed'', ko_st_failed), (js ''cancelled'', ko_st_cancelled)]"
| "STATUS_LABELS PRun =
     [(js ''queued'', ko_st_queued), (js ''running'', ko_st_running), (js ''done'', ko_st_done),
      (js ''failed'', ko_st_failed), (js ''cancelled'', ko_st_cancelled)]"
| "STATUS_LABELS PRule =
     [(js ''enabled'', ko_st_enabled), (js ''disabled'', ko_st_disabled), (js ''active'', ko_st_enabled),
      (js ''inactive'', ko_st_disabled), (js ''on'', ko_st_on), (js ''off'', ko_st_off)]"
| "STATUS_LABELS PRuntime =
     [(js ''available'', ko_st_available), (js ''unavailable'', ko_st_unavailable),
      (js ''ready'', ko_st_ready), (js ''ok'', ko_st_ok), (js ''error'', ko_st_error),
      (js ''missing'', ko_st_missing), (js ''unknown'', ko_st_unknown)]"

text \<open>\<^verbatim>\<open>s.replace(/[...]+/g, r)\<close>: every maximal run of characters of a class becomes \<open>r\<close>.\<close>

function collapse :: "(code_unit \<Rightarrow> bool) \<Rightarrow> jstr \<Rightarrow> jstr \<Rightarrow> jstr" where
  "collapse P r [] = []"
| "collapse P r (c # s) =
     (if P c then r @ collapse P r (dropWhile P s) else c # collapse P r s)"
  by pat_completeness auto
termination
  by (relation "measure (\<lambda>(P, r, s). length s)") (auto simp: less_Suc_eq_le length_dropWhile_le)

definition normalizeStatus :: "platform \<Rightarrow> jstr \<Rightarrow> jstr" where
  "normalizeStatus E status = collapse (\<lambda>c. is_ws c \<or> c = 95) (js ''-'') (toLowerCase E (trim status))"

definition class_char :: "code_unit \<Rightarrow> bool" where
  "class_char c \<longleftrightarrow> (97 \<le> c \<and> c \<le> 122) \<or> (48 \<le> c \<and> c \<le> 57) \<or> c = 45"

text \<open>\<^verbatim>\<open>.replace(/^-|-$/g, '')\<close>\<close>

definition strip_dash :: "jstr \<Rightarrow> jstr" where
  "strip_dash s = (let s1 = (if startsWith s [45] then tl s else s) in if endsWith s1 [45] then butlast s1 else s1)"

definition safeClassSegment :: "jstr \<Rightarrow> jstr" where
  "safeClassSegment v =
     oor_str (Some (strip_dash (collapse (\<lambda>c. c = 45) (js ''-'') (map (\<lambda>c. if class_char c then c else 45) v))))
       (js ''unknown'')"

definition fallbackLabel :: "jstr \<Rightarrow> jstr" where
  "fallbackLabel status =
     (let trimmedStatus = trim status in
      if trimmedStatus = [] then ko_st_unknown
      else collapse (\<lambda>c. is_ws c \<or> c = 95 \<or> c = 45) (js '' '') trimmedStatus)"

definition getStatusPillLabel :: "platform \<Rightarrow> pill_kind \<Rightarrow> jstr \<Rightarrow> jstr" where
  "getStatusPillLabel E kind status =
     nullish (map_of (STATUS_LABELS kind) (normalizeStatus E status)) (fallbackLabel status)"

definition pill_class :: "platform \<Rightarrow> pill_kind \<Rightarrow> jstr \<Rightarrow> bool \<Rightarrow> jstr list" where
  "pill_class E kind status pulse =
     (let safeStatus = safeClassSegment (oor_str (Some (normalizeStatus E status)) (js ''unknown'')) in
      filter (\<lambda>c. c \<noteq> [])
        [js ''status-pill'', js ''status-pill--'' @ pill_kind_str kind, js ''status-pill--'' @ safeStatus,
         js ''status-'' @ safeStatus, if pulse then js ''status-pill--pulse'' else []])"

definition StatusPill :: "platform \<Rightarrow> pill_kind \<Rightarrow> jstr \<Rightarrow> bool \<Rightarrow> 'm node" where
  "StatusPill E kind status pulse =
     (let label = getStatusPillLabel E kind status in
      El ''span''
        [A ''class'' (join (js '' '') (pill_class E kind status pulse)), A ''data-kind'' (pill_kind_str kind),
         A ''data-status'' (oor_str (Some (normalizeStatus E status)) (js ''unknown'')), A ''title'' label]
        [Text label])"

subsection \<open>Dates\<close>

datatype date_mode = Absolute | Relative | Both

fun date_mode_str :: "date_mode \<Rightarrow> jstr" where
  "date_mode_str Absolute = js ''absolute''"
| "date_mode_str Relative = js ''relative''"
| "date_mode_str Both = js ''both''"

definition minuteMs :: nat where "minuteMs = 60000"
definition hourMs :: nat where "hourMs = 60 * minuteMs"
definition dayMs :: nat where "dayMs = 24 * hourMs"
definition weekMs :: nat where "weekMs = 7 * dayMs"
definition monthMs :: nat where "monthMs = 30 * dayMs"
definition yearMs :: nat where "yearMs = 365 * dayMs"

lemmas time_units = minuteMs_def hourMs_def dayMs_def weekMs_def monthMs_def yearMs_def

text \<open>The number and the unit given to the formatter.\<close>

definition relative_parts :: "int \<Rightarrow> int \<Rightarrow> int \<times> string" where
  "relative_parts time baseTime =
     (let diffMs = time - baseTime; absMs = \<bar>diffMs\<bar> in
      if absMs < int minuteMs then (round_div diffMs 1000, ''second'')
      else if absMs < int hourMs then (round_div diffMs minuteMs, ''minute'')
      else if absMs < int dayMs then (round_div diffMs hourMs, ''hour'')
      else if absMs < int weekMs then (round_div diffMs dayMs, ''day'')
      else if absMs < int monthMs then (round_div diffMs weekMs, ''week'')
      else if absMs < int yearMs then (round_div diffMs monthMs, ''month'')
      else (round_div diffMs yearMs, ''year''))"

definition formatRelativeTime :: "platform \<Rightarrow> int \<Rightarrow> int \<Rightarrow> jstr" where
  "formatRelativeTime E time baseTime = (case relative_parts time baseTime of (n, u) \<Rightarrow> fmt_rel E n u)"

text \<open>The component, with \<open>now_ms E\<close> for its state \<^verbatim>\<open>now\<close>; the effect refreshes that state every minute
  when the text depends on it.\<close>

definition DateTimeText_interval :: "platform \<Rightarrow> jstr option \<Rightarrow> date_mode \<Rightarrow> nat option" where
  "DateTimeText_interval E v mode =
     (let trimmedValue = map_option trim v in
      if \<not> truthy_str trimmedValue \<or> mode = Absolute then None
      else if date_ms E (nullish trimmedValue []) = None then None
      else Some 60000)"

definition DateTimeText :: "platform \<Rightarrow> jstr option \<Rightarrow> date_mode \<Rightarrow> jstr \<Rightarrow> 'm node" where
  "DateTimeText E v mode emptyText =
     (let trimmedValue = oor_str (map_option trim v) [] in
      if trimmedValue = [] then El ''span'' [cls ''date-time-text date-time-text--empty''] [Text emptyText]
      else (case date_ms E trimmedValue of
              None \<Rightarrow> El ''span'' [cls ''date-time-text date-time-text--invalid''] [Text trimmedValue]
            | Some time \<Rightarrow>
                (let absolute = fmt_abs E time;
                     relative = formatRelativeTime E time (now_ms E);
                     text = (case mode of Relative \<Rightarrow> relative
                             | Both \<Rightarrow> absolute @ js '' ('' @ relative @ js '')''
                             | Absolute \<Rightarrow> absolute)
                 in El ''time''
                      [A ''class'' (js ''date-time-text date-time-text--'' @ date_mode_str mode),
                       A ''datetime'' (to_iso E time),
                       A ''title'' (if mode = Absolute then relative else absolute)]
                      [Text text])))"

subsection \<open>Error alerts\<close>

definition DEFAULT_ERROR_MESSAGE :: jstr where
  "DEFAULT_ERROR_MESSAGE = ko_default_error"

definition withCode :: "jstr \<Rightarrow> jstr option \<Rightarrow> jstr" where
  "withCode message code =
     (let trimmedMessage = oor_str (Some (trim message)) DEFAULT_ERROR_MESSAGE in
      case code of
        None \<Rightarrow> trimmedMessage
      | Some c \<Rightarrow>
          if c = [] then trimmedMessage
          else if includes_str trimmedMessage c then trimmedMessage
          else trimmedMessage @ js '' ('' @ c @ js '')'')"

definition readString :: "json option \<Rightarrow> jstr option" where
  "readString v = (case v of Some (JStr s) \<Rightarrow> if trim s \<noteq> [] then Some (trim s) else None | _ \<Rightarrow> None)"

definition isRecord :: "json option \<Rightarrow> bool" where
  "isRecord v = (case v of Some (JObj _) \<Rightarrow> True | Some (JArr _) \<Rightarrow> True | _ \<Rightarrow> False)"

text \<open>\<^verbatim>\<open>v.name\<close> on a record; an array has none of the names used.\<close>

definition field :: "string \<Rightarrow> json option \<Rightarrow> json option" where
  "field n v = (case v of Some (JObj fs) \<Rightarrow> map_of fs (js n) | _ \<Rightarrow> None)"

definition formatApiError :: "api_error \<Rightarrow> jstr" where
  "formatApiError e =
     (let body = err_body e;
          bodyMessage = (case Option.bind (Option.bind body body_error) detail_message of
                           Some m \<Rightarrow> Some m | None \<Rightarrow> Option.bind body body_message);
          message = nullish bodyMessage (err_message e);
          code = (case Option.bind (Option.bind body body_error) detail_code of
                    Some c \<Rightarrow> Some c | None \<Rightarrow> Option.bind body body_code);
          suffix = (case code of
                      Some c \<Rightarrow> Some c
                    | None \<Rightarrow> if truthy_str bodyMessage then Some (js ''HTTP '' @ int_str (err_status e)) else None)
      in withCode (oor_str (Some message) DEFAULT_ERROR_MESSAGE) suffix)"

definition record_message :: "json option \<Rightarrow> jstr" where
  "record_message e =
     (let nestedError = field ''error'' e;
          nestedMessage = (if isRecord nestedError then readString (field ''message'' nestedError)
                           else readString nestedError);
          directMessage = readString (field ''message'' e);
          code = (case readString (field ''code'' e) of
                    Some c \<Rightarrow> Some c
                  | None \<Rightarrow> if isRecord nestedError then readString (field ''code'' nestedError) else None);
          message = (case nestedMessage of Some m \<Rightarrow> Some m | None \<Rightarrow> directMessage)
      in if truthy_str message then withCode (nullish message []) code
         else if truthy_str code then DEFAULT_ERROR_MESSAGE @ js '' ('' @ nullish code [] @ js '')''
         else DEFAULT_ERROR_MESSAGE)"

definition getMutationErrorMessage :: "thrown \<Rightarrow> jstr" where
  "getMutationErrorMessage error = (case error of
       TApi e \<Rightarrow> formatApiError e
     | TAbort m \<Rightarrow> oor_str (Some (trim m)) DEFAULT_ERROR_MESSAGE
     | TError m \<Rightarrow> oor_str (Some (trim m)) DEFAULT_ERROR_MESSAGE
     | TValue (JStr s) \<Rightarrow> oor_str (Some (trim s)) DEFAULT_ERROR_MESSAGE
     | TValue v \<Rightarrow> if isRecord (Some v) then record_message (Some v) else DEFAULT_ERROR_MESSAGE)"

definition MutationErrorAlert :: "thrown option \<Rightarrow> jstr option \<Rightarrow> 'm node list" where
  "MutationErrorAlert error title =
     (if error = None \<or> error = Some (TValue JNull) then []
      else [El ''div'' [cls ''mutation-error-alert'', A ''role'' (js ''alert'')]
              [El ''strong'' [] [Text (nullish title ko_request_failed)],
               El ''p'' [] [Text (getMutationErrorMessage (the error))]]])"

subsection \<open>Headers, dialogs\<close>

definition PageHeader :: "jstr option \<Rightarrow> jstr \<Rightarrow> jstr \<Rightarrow> 'm node list \<Rightarrow> 'm node" where
  "PageHeader eyebrow title description actions =
     El ''header'' [cls ''page-header'']
       (render_if (truthy_str eyebrow) [El ''p'' [cls ''eyebrow''] [Text (nullish eyebrow [])]] @
        [El ''h1'' [] [Text title], El ''p'' [] [Text description]] @
        render_if (actions \<noteq> []) [El ''div'' [cls ''page-header-actions''] actions])"

definition BrandMark :: "int option \<Rightarrow> jstr option \<Rightarrow> 'm node" where
  "BrandMark size_arg title_arg =
     (let sz = int_str (nullish size_arg 20); title = nullish title_arg (js ''Cron Agent'');
          dot = (\<lambda>cx cy r. El ''circle'' [A ''cx'' (js cx), A ''cy'' (js cy), A ''r'' (js r)] [])
      in El ''svg'' [A ''width'' sz, A ''height'' sz, A ''viewBox'' (js ''0 0 24 24''), A ''fill'' (js ''currentColor''),
             A ''xmlns'' (js ''http://www.w3.org/2000/svg''), A ''role'' (js ''img''), A ''aria-label'' title]
           [El ''title'' [] [Text title], dot ''7'' ''7'' ''1.7'', dot ''17'' ''7'' ''1.7'', dot ''12'' ''12'' ''2.4'',
            dot ''7'' ''17'' ''1.7'', dot ''17'' ''17'' ''1.7''])"

text \<open>A dialog closes on Escape, on a click on the backdrop itself and on its close button. The close
  callback may be one that does nothing.\<close>

definition Modal_escape :: "bool \<Rightarrow> 'm option \<Rightarrow> 'm list" where
  "Modal_escape is_open onClose = (if is_open then (case onClose of None \<Rightarrow> [] | Some m \<Rightarrow> [m]) else [])"

definition Modal ::
  "jstr \<Rightarrow> jstr option \<Rightarrow> bool \<Rightarrow> 'm option \<Rightarrow> 'm node list \<Rightarrow> 'm node list option \<Rightarrow> 'm node list" where
  "Modal title description is_open onClose children footer =
     (if \<not> is_open then []
      else [El ''div'' ([cls ''modal-backdrop'', A ''role'' (js ''presentation'')] @ on_opt ''onClick'' onClose)
        [El ''section'' [cls ''modal-panel'', A ''role'' (js ''dialog''), A ''aria-modal'' (js ''true''),
            A ''aria-labelledby'' (js ''modal-title'')]
          ([El ''header'' [cls ''modal-header'']
              [El ''div'' []
                 ([El ''h2'' [A ''id'' (js ''modal-title'')] [Text title]] @
                  render_if (truthy_str description) [El ''p'' [] [Text (nullish description [])]]),
               El ''button'' ([cls ''icon-button'', A ''type'' (js ''button'')] @ on_opt ''onClick'' onClose @
                   [A ''aria-label'' ko_close]) [Text ko_times]],
            El ''div'' [cls ''modal-body''] children] @
           (case footer of None \<Rightarrow> [] | Some f \<Rightarrow> [El ''footer'' [cls ''modal-footer''] f]))]])"

datatype tone = ToneDefault | ToneDanger

fun tone_str :: "tone \<Rightarrow> jstr" where
  "tone_str ToneDefault = js ''default''"
| "tone_str ToneDanger = js ''danger''"

record 'm confirm_props =
  cd_open :: bool
  cd_title :: jstr
  cd_description :: "jstr option"
  cd_confirmLabel :: "jstr option"
  cd_cancelLabel :: "jstr option"
  cd_tone :: tone
  cd_pending :: bool
  cd_onConfirm :: 'm
  cd_onClose :: 'm

definition closeIfIdle :: "'m confirm_props \<Rightarrow> 'm option" where
  "closeIfIdle p = (if \<not> cd_pending p then Some (cd_onClose p) else None)"

definition ConfirmDialog :: "'m confirm_props \<Rightarrow> 'm node list" where
  "ConfirmDialog p =
     Modal (cd_title p) (cd_description p) (cd_open p) (closeIfIdle p)
       [El ''div'' ([A ''class'' (js ''confirm-dialog-content confirm-dialog-content--'' @ tone_str (cd_tone p))] @
            (if cd_pending p then [A ''aria-live'' (js ''polite'')] else []))
          ([El ''p'' [] [Text (if cd_tone p = ToneDanger
               then ko_confirm_danger
               else ko_confirm_plain)]] @
           render_if (cd_pending p) [El ''p'' [cls ''confirm-dialog-pending''] [Text ko_confirm_pending]])]
       (Some
         [El ''button'' ([cls ''button secondary'', A ''type'' (js ''button'')] @ on_opt ''onClick'' (closeIfIdle p) @
              [B ''disabled'' (cd_pending p)]) [Text (nullish (cd_cancelLabel p) ko_cancel)],
          El ''button'' [A ''class'' (js ''button'' @ (if cd_tone p = ToneDanger then js '' danger'' else [])),
              A ''type'' (js ''button''), On ''onClick'' (cd_onConfirm p), B ''disabled'' (cd_pending p)]
            [Text (if cd_pending p then ko_processing else nullish (cd_confirmLabel p) ko_confirm)]])"

text \<open>\<^verbatim>\<open>react-markdown\<close> is a parameter of the components that show Markdown: a function from the text to
  what it renders.\<close>

definition MarkdownText :: "(jstr \<Rightarrow> 'm node list) \<Rightarrow> jstr \<Rightarrow> 'm node" where
  "MarkdownText reactMarkdown v = El ''div'' [cls ''markdown-content''] (reactMarkdown v)"

subsection \<open>Runtimes and models\<close>

definition KNOWN_RUNTIME_ISSUES :: "(jstr \<times> jstr) list" where
  "KNOWN_RUNTIME_ISSUES = []"

datatype runtime_variant = VOk | VKnownIssue | VNotDetected

fun runtime_variant_str :: "runtime_variant \<Rightarrow> jstr" where
  "runtime_variant_str VOk = js ''ok''"
| "runtime_variant_str VKnownIssue = js ''warn-known-issue''"
| "runtime_variant_str VNotDetected = js ''warn-not-detected''"

record runtime_classification =
  rc_variant :: runtime_variant
  rc_label :: jstr
  rc_description :: jstr

definition classifyRuntime :: "platform \<Rightarrow> jstr \<Rightarrow> runtime_info list option \<Rightarrow> runtime_classification" where
  "classifyRuntime E runtime runtimes =
     (let trimmed = toLowerCase E (trim runtime);
          info = Option.bind runtimes (find (\<lambda>r. toLowerCase E (trim (rt_name r)) = trimmed));
          knownIssue = map_of KNOWN_RUNTIME_ISSUES trimmed
      in case info of
           None \<Rightarrow> \<lparr>rc_variant = VNotDetected, rc_label = ko_rt_not_detected,
              rc_description = runtime @ ko_rt_not_in_path\<rparr>
         | Some i \<Rightarrow>
             if rt_supported i = Some False then
               \<lparr>rc_variant = VNotDetected, rc_label = ko_rt_not_detected,
                rc_description = oor_str (map_option trim (rt_warning i)) (runtime @ ko_rt_not_in_path)\<rparr>
             else if truthy_str knownIssue then
               \<lparr>rc_variant = VKnownIssue, rc_label = ko_rt_known_issue, rc_description = nullish knownIssue []\<rparr>
             else
               \<lparr>rc_variant = VOk, rc_label = ko_rt_ok,
                rc_description = runtime @ ko_rt_detected @ rt_path i @
                  (if rt_version i \<noteq> [] then ko_middot @ rt_version i else [])\<rparr>)"

definition RuntimeBadge :: "platform \<Rightarrow> jstr \<Rightarrow> runtime_info list option \<Rightarrow> 'm node" where
  "RuntimeBadge E runtime runtimes =
     (let c = classifyRuntime E runtime runtimes in
      El ''span'' [A ''class'' (js ''runtime-badge runtime-badge--'' @ runtime_variant_str (rc_variant c)),
          A ''data-runtime'' runtime, A ''data-variant'' (runtime_variant_str (rc_variant c)),
          A ''title'' (rc_description c)] [Text (rc_label c)])"

record model_option =
  mo_id :: jstr
  mo_label :: jstr
  mo_provider :: jstr

abbreviation mk_model :: "string \<Rightarrow> string \<Rightarrow> string \<Rightarrow> model_option" where
  "mk_model i l p \<equiv> \<lparr>mo_id = js i, mo_label = js l, mo_provider = js p\<rparr>"

definition modelOptions :: "(jstr \<times> model_option list) list" where
  "modelOptions =
     [(js ''codex'',
        [mk_model ''gpt-5.5'' ''GPT-5.5'' ''OpenAI'', mk_model ''gpt-5.4'' ''GPT-5.4'' ''OpenAI'',
         mk_model ''gpt-5.4-mini'' ''GPT-5.4 Mini'' ''OpenAI'', mk_model ''gpt-5.3-codex'' ''GPT-5.3 Codex'' ''OpenAI'',
         mk_model ''gpt-5.3-codex-spark'' ''GPT-5.3 Codex Spark'' ''OpenAI'', mk_model ''gpt-5.2'' ''GPT-5.2'' ''OpenAI'']),
      (js ''claude'',
        [mk_model ''claude-sonnet-4.5'' ''Claude Sonnet 4.5'' ''Anthropic'',
         mk_model ''claude-opus-4.1'' ''Claude Opus 4.1'' ''Anthropic'',
         mk_model ''sonnet'' ''Sonnet alias'' ''Anthropic'', mk_model ''opus'' ''Opus alias'' ''Anthropic'']),
      (js ''gemini'',
        [mk_model ''gemini-3-pro'' ''Gemini 3 Pro'' ''Google'', mk_model ''gemini-2.5-pro'' ''Gemini 2.5 Pro'' ''Google'',
         mk_model ''gemini-2.5-flash'' ''Gemini 2.5 Flash'' ''Google''])]"

definition displayRuntime :: "jstr \<Rightarrow> jstr" where
  "displayRuntime runtime = oor_str (Some runtime) (js ''runtime'')"

definition model_helper :: jstr where
  "model_helper = ko_model_helper_text"

text \<open>\<open>reactId\<close> is what \<^verbatim>\<open>useId\<close> returns.\<close>

definition ModelSelect ::
  "jstr \<Rightarrow> jstr \<Rightarrow> jstr \<Rightarrow> (jstr \<Rightarrow> 'm) \<Rightarrow> bool \<Rightarrow> jstr option \<Rightarrow> jstr option \<Rightarrow> 'm node" where
  "ModelSelect reactId runtime v onChange disabled label helper =
     (let inputId = js ''agent-model-'' @ reactId;
          listId = js ''agent-model-options-'' @ reactId;
          options = nullish (map_of modelOptions runtime) [];
          selected = find (\<lambda>opt. mo_id opt = v) options;
          custom = v \<noteq> [] \<and> selected = None
      in El ''div'' [cls ''field-label model-select'']
        [El ''label'' [cls ''model-select-header'', A ''for'' inputId]
           [El ''span'' [] [Text (nullish label ko_model)],
            El ''span'' [cls ''model-runtime-pill''] [Text (displayRuntime runtime)]],
         El ''div'' [cls ''model-input-row'']
           ([El ''input'' [A ''id'' inputId, A ''list'' listId, A ''value'' v,
               A ''placeholder'' ko_model_placeholder, OnValue ''onChange'' onChange,
               B ''disabled'' disabled, A ''autocomplete'' (js ''off'')] [],
             El ''datalist'' [A ''id'' listId]
               (map (\<lambda>opt. El ''option'' [A ''value'' (mo_id opt),
                    A ''label'' (mo_label opt @ ko_middot @ mo_provider opt)] []) options)] @
            render_if (v \<noteq> [])
              [El ''button'' [cls ''button secondary model-clear-button'', A ''type'' (js ''button''),
                 On ''onClick'' (onChange []), B ''disabled'' disabled] [Text ko_default_value]]),
         El ''div'' [cls ''model-chip-row'', A ''aria-label'' ko_recommended_models]
           ([El ''button'' [cls (if v = [] then ''model-chip active'' else ''model-chip''), A ''type'' (js ''button''),
               On ''onClick'' (onChange []), B ''disabled'' disabled] [Text ko_basic]] @
            map (\<lambda>opt. El ''button''
                  [cls (if v = mo_id opt then ''model-chip active'' else ''model-chip''), A ''type'' (js ''button''),
                   A ''title'' (mo_id opt), On ''onClick'' (onChange (mo_id opt)), B ''disabled'' disabled]
                  [Text (mo_label opt)]) (take 5 options)),
         El ''small'' []
           [Text (case selected of
                    Some opt \<Rightarrow> mo_provider opt @ ko_middot @ mo_id opt
                  | None \<Rightarrow> if custom then ko_custom_model @ v else nullish helper model_helper)]])"

subsection \<open>Class segments are safe\<close>

lemma set_collapse: "set (collapse P r s) \<subseteq> set r \<union> {c \<in> set s. \<not> P c}"
proof (induction P r s rule: collapse.induct)
  case (2 P r c s)
  then show ?case by (auto dest: set_dropWhileD split: if_splits)
qed simp

text \<open>No two dashes in a row.\<close>

fun no_double :: "jstr \<Rightarrow> bool" where
  "no_double (a # b # s) \<longleftrightarrow> \<not> (a = 45 \<and> b = 45) \<and> no_double (b # s)"
| "no_double s \<longleftrightarrow> True"

lemma no_double_Cons: "no_double (a # s) \<longleftrightarrow> (s = [] \<or> \<not> (a = 45 \<and> hd s = 45)) \<and> no_double s"
  by (cases s) auto

lemma no_double_butlast: "no_double s \<Longrightarrow> no_double (butlast s)"
proof (induction s rule: no_double.induct)
  case (1 a b s)
  then show ?case by (cases s) auto
qed auto

lemma no_double_last2: "no_double s \<Longrightarrow> s \<noteq> [] \<Longrightarrow> last s = 45 \<Longrightarrow> butlast s \<noteq> [] \<Longrightarrow> last (butlast s) \<noteq> 45"
proof (induction s rule: no_double.induct)
  case (1 a b s)
  then show ?case by (cases s) auto
qed auto

lemma collapse_dash_hd: "collapse (\<lambda>c. c = 45) [45] s \<noteq> [] \<Longrightarrow> s \<noteq> [] \<and> hd (collapse (\<lambda>c. c = 45) [45] s) = hd s"
  by (cases s) auto

lemma collapse_no_double: "no_double (collapse (\<lambda>c. c = 45) [45] s)"
proof (induction "length s" arbitrary: s rule: less_induct)
  case less
  show ?case
  proof (cases s)
    case (Cons c t)
    let ?d = "dropWhile (\<lambda>c. c = 45) t"
    have "no_double (collapse (\<lambda>c. c = 45) [45] ?d)" "no_double (collapse (\<lambda>c. c = 45) [45] t)"
      using less Cons by (auto simp: less_Suc_eq_le length_dropWhile_le)
    moreover have "?d = [] \<or> hd ?d \<noteq> 45" using hd_dropWhile [of "\<lambda>c. c = 45" t] by auto
    ultimately show ?thesis
      using Cons collapse_dash_hd [of ?d] by (auto simp: no_double_Cons)
  qed simp
qed

definition safe_segment :: "jstr \<Rightarrow> bool" where
  "safe_segment s \<longleftrightarrow> s \<noteq> [] \<and> list_all class_char s \<and> no_double s \<and> hd s \<noteq> 45 \<and> last s \<noteq> 45"

lemma strip_dash_ok:
  "no_double s \<Longrightarrow> list_all class_char s \<Longrightarrow> strip_dash s \<noteq> [] \<Longrightarrow> safe_segment (strip_dash s)"
proof -
  assume nd: "no_double s" and cc: "list_all class_char s" and ne: "strip_dash s \<noteq> []"
  define t where "t = (if startsWith s [45] then tl s else s)"
  have t: "no_double t" "list_all class_char t" "t = [] \<or> hd t \<noteq> 45"
    using nd cc by (cases s; auto simp: t_def startsWith_iff no_double_Cons)+
  have sd: "strip_dash s = (if endsWith t [45] then butlast t else t)"
    by (simp add: strip_dash_def t_def Let_def)
  show ?thesis
  proof (cases "endsWith t [45]")
    case True
    then have l: "t \<noteq> []" "last t = 45" by (auto simp: endsWith_iff)
    with ne sd True t have "hd (butlast t) \<noteq> 45" by (cases t) (auto split: if_splits)
    then show ?thesis
      using sd True ne t no_double_butlast [of t] no_double_last2 [of t] l
      by (auto simp: safe_segment_def list_all_iff dest: in_set_butlastD)
  next
    case False
    then have "t \<noteq> [] \<Longrightarrow> last t \<noteq> 45"
      by (metis append_butlast_last_id endsWith_iff)
    then show ?thesis using sd False ne t by (auto simp: safe_segment_def)
  qed
qed

lemma safe_class: "safe_segment (safeClassSegment v)"
proof -
  let ?c = "collapse (\<lambda>c. c = 45) [45] (map (\<lambda>c. if class_char c then c else 45) v)"
  have "list_all class_char ?c"
    using set_collapse [of "\<lambda>c. c = 45" "[45]" "map (\<lambda>c. if class_char c then c else 45) v"]
    by (auto simp: list_all_iff class_char_def split: if_splits)
  then have "strip_dash ?c \<noteq> [] \<Longrightarrow> safe_segment (strip_dash ?c)"
    using strip_dash_ok collapse_no_double by blast
  moreover have "safe_segment (js ''unknown'')"
    by (simp add: safe_segment_def js_def class_char_def)
  ultimately show ?thesis by (auto simp: safeClassSegment_def oor_str_def js_def)
qed

lemma collapse_id: "no_double s \<Longrightarrow> collapse (\<lambda>c. c = 45) [45] s = s"
proof (induction s rule: no_double.induct)
  case (1 a b s)
  then show ?case by auto
qed auto

lemma safe_class_id: "safe_segment s \<Longrightarrow> safeClassSegment s = s"
proof -
  assume s: "safe_segment s"
  then have "map (\<lambda>c. if class_char c then c else 45) s = s"
    by (intro map_idI) (auto simp: safe_segment_def list_all_iff)
  moreover have "strip_dash s = s" using s
    by (cases s rule: rev_cases) (auto simp: strip_dash_def safe_segment_def startsWith_iff endsWith_iff)
  ultimately show ?thesis using s
    by (auto simp: safeClassSegment_def safe_segment_def collapse_id oor_str_def js_def)
qed

text \<open>Whatever status text the server sends, the class list of a status pill is well formed: the
  segment derived from the status is not empty, consists of lower-case letters, digits and dashes
  only, has no dash at either end and no two dashes in a row; the class attribute splits at blanks
  into exactly the intended class names; and a status that already is such a segment is used as it
  is.\<close>

lemma status_pill_classes_safe:
  "safe_segment (safeClassSegment v) \<and>
   (safe_segment v \<longrightarrow> safeClassSegment v = v) \<and>
   split_on 32 (join (js '' '') (pill_class E kind status pulse)) =
     [js ''status-pill'', js ''status-pill--'' @ pill_kind_str kind,
      js ''status-pill--'' @ safeClassSegment (oor_str (Some (normalizeStatus E status)) (js ''unknown'')),
      js ''status-'' @ safeClassSegment (oor_str (Some (normalizeStatus E status)) (js ''unknown''))] @
     (if pulse then [js ''status-pill--pulse''] else [])"
proof -
  have "\<forall>w \<in> set (pill_class E kind status pulse). 32 \<notin> set w"
    using safe_class [of "oor_str (Some (normalizeStatus E status)) (js ''unknown'')"]
    by (cases kind) (auto simp: pill_class_def Let_def safe_segment_def list_all_iff class_char_def js_def)
  moreover have "pill_class E kind status pulse \<noteq> []" by (simp add: pill_class_def Let_def)
  ultimately have "split_on 32 (join [32] (pill_class E kind status pulse)) = pill_class E kind status pulse"
    by (intro split_join)
  moreover have "js '' '' = [32]" by (simp add: js_def)
  ultimately show ?thesis
    using safe_class [of v] safe_class_id [of v] by (simp add: pill_class_def Let_def)
qed

lemma status_pill_classes_safe_instance:
  "safeClassSegment (js ''timed-out'') = js ''timed-out''"
proof -
  have "safe_segment (js ''timed-out'')" by (simp add: safe_segment_def js_def class_char_def)
  then show ?thesis using status_pill_classes_safe [of "js ''timed-out''" ascii_platform PRun "[]" False] by blast
qed

subsection \<open>Error messages are never blank\<close>

definition nonblank :: "jstr \<Rightarrow> bool" where
  "nonblank s \<longleftrightarrow> trim s \<noteq> []"

lemma nonblank_append: "nonblank a \<Longrightarrow> nonblank (a @ b)"
  by (auto simp: nonblank_def trim_eq_Nil)

lemma nonblank_default: "nonblank DEFAULT_ERROR_MESSAGE"
  by (simp add: nonblank_def trim_eq_Nil DEFAULT_ERROR_MESSAGE_def ko_default_error_def is_ws_def)

lemma nonblank_or_default: "nonblank (oor_str (Some (trim s)) DEFAULT_ERROR_MESSAGE)"
  using nonblank_default by (auto simp: oor_str_def nonblank_def)

lemma withCode_nonblank: "nonblank (withCode m c)"
  by (auto simp: withCode_def Let_def nonblank_or_default nonblank_append split: option.split)

lemma withCode_includes: "c \<noteq> [] \<Longrightarrow> includes_str (withCode m (Some c)) c"
  using includes_append [of "oor_str (Some (trim m)) DEFAULT_ERROR_MESSAGE @ js '' (''" c "js '')''"]
  by (simp add: withCode_def Let_def)

text \<open>The machine-readable code of an API error: the nested one first.\<close>

definition api_error_code :: "api_error \<Rightarrow> jstr option" where
  "api_error_code e =
     (case Option.bind (Option.bind (err_body e) body_error) detail_code of
        Some c \<Rightarrow> Some c | None \<Rightarrow> Option.bind (err_body e) body_code)"

text \<open>An error alert always says something: for every error value a request or handler can throw,
  the message shown is not blank; and when the server's error body carries a code that is not empty, the message
  contains that code. An alert is shown for every error but null.\<close>

lemma error_message_informative:
  "(nonblank (getMutationErrorMessage t)) \<and>
   (api_error_code e = Some c \<longrightarrow> c \<noteq> [] \<longrightarrow> includes_str (getMutationErrorMessage (TApi e)) c) \<and>
   (MutationErrorAlert error title = [] \<longleftrightarrow> error = None \<or> error = Some (TValue JNull))"
proof -
  have r: "nonblank (record_message v)" for v
    by (auto simp: record_message_def Let_def withCode_nonblank nonblank_default nonblank_append)
  have p1: "nonblank (getMutationErrorMessage t)"
    by (auto simp: getMutationErrorMessage_def formatApiError_def Let_def withCode_nonblank r nonblank_default
        nonblank_or_default split: thrown.split json.split)
  have p2: "api_error_code e = Some c \<Longrightarrow> c \<noteq> [] \<Longrightarrow> includes_str (getMutationErrorMessage (TApi e)) c"
    by (auto simp: getMutationErrorMessage_def formatApiError_def Let_def api_error_code_def withCode_includes
        split: option.splits)
  have p3: "MutationErrorAlert error title = [] \<longleftrightarrow> error = None \<or> error = Some (TValue JNull)"
    by (auto simp: MutationErrorAlert_def)
  show ?thesis using p1 p2 p3 by blast
qed

lemma error_message_informative_instance:
  "includes_str (getMutationErrorMessage (TApi (ApiError 409 (Some \<lparr>body_message = Some (js ''busy''),
     body_code = Some (js ''conflict''), body_error = None\<rparr>)))) (js ''conflict'')"
  using error_message_informative [THEN conjunct2, THEN conjunct1, rule_format, where e = "ApiError 409 (Some \<lparr>body_message = Some (js ''busy''),
     body_code = Some (js ''conflict''), body_error = None\<rparr>)" and c = "js ''conflict''"]
  by (simp add: api_error_code_def)

subsection \<open>Relative times\<close>

lemma int_div_less: "0 < (b :: int) \<Longrightarrow> a < c * b \<Longrightarrow> a div b < c"
proof (rule ccontr)
  assume b: "0 < b" "a < c * b" and "\<not> a div b < c"
  then have "c * b \<le> a div b * b" by (intro mult_right_mono) auto
  then show False using b div_mult_mod_eq [of a b] pos_mod_sign [of b a] by linarith
qed

lemma round_div_neg_bounds:
  assumes "0 < d" and "0 < v" and "v < 2 ^ 52"
  shows "- round_div (- v) d \<le> round_div v d" and "int d \<le> v \<Longrightarrow> 1 \<le> - round_div (- v) d"
    and "round_div (- v) d \<le> 0"
proof -
  define m p where "m = int (fst (fdiv (nat v) d))" and "p = (2 :: int) ^ snd (fdiv (nat v) d)"
  have p: "0 < p" by (simp add: p_def)
  have pos: "round_div v d = (2 * m + p) div (2 * p)" and neg: "round_div (- v) d = (p - 2 * m) div (2 * p)"
    using assms(2) by (simp_all add: round_div_def Let_def m_def p_def)
  have "p - 2 * m = - (2 * m + p) + 2 * p" by simp
  then have "(p - 2 * m) div (2 * p) = (- (2 * m + p)) div (2 * p) + 1"
    using p by (metis div_add_self2 less_numeral_extra(3) mult_pos_pos zero_less_numeral)
  moreover have "- ((2 * m + p) div (2 * p)) - 1 \<le> (- (2 * m + p)) div (2 * p)"
    using p zdiv_zminus1_eq_if [of "2 * p" "2 * m + p"] by (auto split: if_splits)
  ultimately show "- round_div (- v) d \<le> round_div v d" using pos neg by linarith
  have "(p - 2 * m) div (2 * p) \<le> p div (2 * p)" using p by (intro zdiv_mono1) (simp_all add: m_def)
  then show "round_div (- v) d \<le> 0" using p neg by (simp add: zdiv_eq_0_iff)
  assume "int d \<le> v"
  then have "dge (fdiv (nat v) d) 1 1" using assms by (intro dge_fdiv_intro) auto
  then have "p \<le> m" unfolding dge_def m_def p_def by (simp add: of_nat_le_iff [symmetric] del: of_nat_le_iff)
  then have "(p - 2 * m) div (2 * p) < 0" using p by (intro int_div_less) auto
  then show "1 \<le> - round_div (- v) d" using neg by linarith
qed

lemma round_div_bounds:
  assumes "0 < d" and "\<bar>v\<bar> < 2 ^ 52" and "2 * \<bar>v\<bar> < int (2 * k + 1) * int d"
  shows "\<bar>round_div v d\<bar> \<le> int k" and "int d \<le> \<bar>v\<bar> \<Longrightarrow> 1 \<le> \<bar>round_div v d\<bar> \<and> (0 < round_div v d \<longleftrightarrow> 0 < v)"
proof -
  have up: "round_div \<bar>v\<bar> d \<le> int k"
  proof -
    have "(2 * \<bar>v\<bar> + int d) < (int k + 1) * (2 * int d)" using assms(3) by (simp add: algebra_simps)
    then have "(2 * \<bar>v\<bar> + int d) div (2 * int d) < int k + 1" using assms(1) by (intro int_div_less) auto
    then show ?thesis using assms by (simp add: round_div_nonneg)
  qed
  have low: "0 \<le> round_div \<bar>v\<bar> d" "int d \<le> \<bar>v\<bar> \<Longrightarrow> 1 \<le> round_div \<bar>v\<bar> d"
    using assms(1,2) by (auto simp: round_div_nonneg pos_imp_zdiv_nonneg_iff int_one_le_iff_zero_less pos_imp_zdiv_pos_iff)
  consider "0 \<le> v" | "v < 0" by linarith
  then show "\<bar>round_div v d\<bar> \<le> int k"
  proof cases
    case 2
    then show ?thesis using round_div_neg_bounds(1,3) [of d "- v"] assms up by auto
  qed (use up low in auto)
  show "int d \<le> \<bar>v\<bar> \<Longrightarrow> 1 \<le> \<bar>round_div v d\<bar> \<and> (0 < round_div v d \<longleftrightarrow> 0 < v)"
    using low round_div_neg_bounds(2) [of d "- v"] assms by (cases "0 \<le> v") auto
qed

text \<open>Relative times stay in the range of their unit: for any two instants less than 2 ^ 52 ms apart the
  number given to the formatter is at most 60 seconds, 60 minutes, 24 hours, 7 days, 4 weeks or 12
  months in magnitude, is never zero for a unit above the second, and has the sign of the difference
  (past negative, future positive).\<close>

lemma relative_time_in_range:
  assumes "\<bar>time - base\<bar> < 2 ^ 52" and "relative_parts time base = (n, u)"
  shows "(u = ''second'' \<longrightarrow> \<bar>n\<bar> \<le> 60) \<and> (u = ''minute'' \<longrightarrow> \<bar>n\<bar> \<le> 60) \<and> (u = ''hour'' \<longrightarrow> \<bar>n\<bar> \<le> 24) \<and>
         (u = ''day'' \<longrightarrow> \<bar>n\<bar> \<le> 7) \<and> (u = ''week'' \<longrightarrow> \<bar>n\<bar> \<le> 4) \<and> (u = ''month'' \<longrightarrow> \<bar>n\<bar> \<le> 12) \<and>
         (u \<noteq> ''second'' \<longrightarrow> n \<noteq> 0 \<and> (0 < n \<longleftrightarrow> base < time))"
proof -
  let ?v = "time - base"
  have far: "1 \<le> \<bar>round_div ?v d\<bar> \<and> (0 < round_div ?v d \<longleftrightarrow> 0 < ?v)" if "0 < d" "int d \<le> \<bar>?v\<bar>" for d
  proof -
    have "2 * \<bar>?v\<bar> < int (2 * nat \<bar>?v\<bar> + 1) * 1" by simp
    also have "\<dots> \<le> int (2 * nat \<bar>?v\<bar> + 1) * int d" using that(1) by (intro mult_left_mono) auto
    finally have "2 * \<bar>?v\<bar> < int (2 * nat \<bar>?v\<bar> + 1) * int d" .
    then show ?thesis using round_div_bounds(2) [OF that(1) assms(1)] that(2) by blast
  qed
  consider "\<bar>?v\<bar> < int minuteMs" "n = round_div ?v 1000" "u = ''second''"
    | "int minuteMs \<le> \<bar>?v\<bar>" "\<bar>?v\<bar> < int hourMs" "n = round_div ?v minuteMs" "u = ''minute''"
    | "int hourMs \<le> \<bar>?v\<bar>" "\<bar>?v\<bar> < int dayMs" "n = round_div ?v hourMs" "u = ''hour''"
    | "int dayMs \<le> \<bar>?v\<bar>" "\<bar>?v\<bar> < int weekMs" "n = round_div ?v dayMs" "u = ''day''"
    | "int weekMs \<le> \<bar>?v\<bar>" "\<bar>?v\<bar> < int monthMs" "n = round_div ?v weekMs" "u = ''week''"
    | "int monthMs \<le> \<bar>?v\<bar>" "\<bar>?v\<bar> < int yearMs" "n = round_div ?v monthMs" "u = ''month''"
    | "int yearMs \<le> \<bar>?v\<bar>" "n = round_div ?v yearMs" "u = ''year''"
    using assms(2) unfolding relative_parts_def Let_def by (metis linorder_not_le prod.inject)
  then show ?thesis
  proof cases
    case 1
    then show ?thesis using round_div_bounds(1) [of 1000 ?v 60] assms(1) by (simp add: time_units)
  next
    case 2
    then show ?thesis using round_div_bounds(1) [of minuteMs ?v 60] far [of minuteMs] assms(1) by (auto simp: time_units)
  next
    case 3
    then show ?thesis using round_div_bounds(1) [of hourMs ?v 24] far [of hourMs] assms(1) by (auto simp: time_units)
  next
    case 4
    then show ?thesis using round_div_bounds(1) [of dayMs ?v 7] far [of dayMs] assms(1) by (auto simp: time_units)
  next
    case 5
    then show ?thesis using round_div_bounds(1) [of weekMs ?v 4] far [of weekMs] assms(1) by (auto simp: time_units)
  next
    case 6
    then show ?thesis using round_div_bounds(1) [of monthMs ?v 12] far [of monthMs] assms(1) by (auto simp: time_units)
  next
    case 7
    then show ?thesis using far [of yearMs] by (auto simp: time_units)
  qed
qed

lemma relative_time_in_range_instance:
  "\<exists>n. relative_parts 0 5400000 = (n, ''hour'') \<and> \<bar>n\<bar> \<le> 24 \<and> n < 0"
proof -
  obtain n where n: "relative_parts 0 5400000 = (n, ''hour'')"
    by (simp add: relative_parts_def time_units)
  then show ?thesis using relative_time_in_range [OF _ n] by auto
qed

subsection \<open>What the shared components offer to click\<close>

lemma clicks_Modal:
  "clicks_of (Modal title desc is_open onClose children footer) =
     (if is_open
      then (case onClose of None \<Rightarrow> [] | Some m \<Rightarrow> [m, m]) @ clicks_of children @
        (case footer of None \<Rightarrow> [] | Some f \<Rightarrow> clicks_of f)
      else [])"
  by (auto simp: Modal_def html_simps split: option.split)

lemma clicks_ConfirmDialog:
  "clicks_of (ConfirmDialog p) =
     (if cd_open p \<and> \<not> cd_pending p then [cd_onClose p, cd_onClose p, cd_onClose p, cd_onConfirm p] else [])"
  by (auto simp: ConfirmDialog_def clicks_Modal closeIfIdle_def html_simps)

lemma clicks_plain [simp]:
  "clicks (StatusPill E k st pulse) = []"
  "clicks (DateTimeText E v mode emptyText) = []"
  "clicks_of (MutationErrorAlert e t) = []"
  "clicks (RuntimeBadge E r rs) = []"
  "clicks (BrandMark n t) = []"
  by (simp_all add: StatusPill_def DateTimeText_def MutationErrorAlert_def RuntimeBadge_def BrandMark_def Let_def
      split: option.split)

lemma clicks_PageHeader [simp]: "clicks (PageHeader eb t d acts) = clicks_of acts"
  by (auto simp: PageHeader_def html_simps)

end
