(* ===== verification/Toasts.thy ===== *)
theory Toasts
  imports Widgets
begin

section \<open>Toast notifications\<close>

text \<open>
  Models \<^verbatim>\<open>web/src/components/ToastProvider.tsx\<close>: the list of toasts shown, newest first, and its
  operations. A toast without a given id gets one from the browser (\<^verbatim>\<open>createToastId\<close>), which is an
  argument here. Each card owns a timer while it is mounted, so the timers running are a function of
  the list.
\<close>

datatype toast_tone = Success | Error | Info | Warning

fun toast_tone_str :: "toast_tone \<Rightarrow> jstr" where
  "toast_tone_str Success = js ''success''"
| "toast_tone_str Error = js ''error''"
| "toast_tone_str Info = js ''info''"
| "toast_tone_str Warning = js ''warning''"

record toast_options =
  to_description :: "jstr option"
  to_action :: "(jstr \<times> jstr) option"  \<comment> \<open>label and href\<close>
  to_durationMs :: "int option"
  to_id :: "jstr option"

record toast =
  toast_id :: jstr
  toast_tone :: toast_tone
  toast_title :: jstr
  toast_description :: "jstr option"
  toast_action :: "(jstr \<times> jstr) option"
  toast_durationMs :: "int option"

definition no_options :: toast_options where
  "no_options = \<lparr>to_description = None, to_action = None, to_durationMs = None, to_id = None\<rparr>"

fun DEFAULT_DURATION_MS :: "toast_tone \<Rightarrow> int" where
  "DEFAULT_DURATION_MS Success = 4000"
| "DEFAULT_DURATION_MS Info = 5000"
| "DEFAULT_DURATION_MS Warning = 6000"
| "DEFAULT_DURATION_MS Error = 8000"

fun TOAST_ICON :: "toast_tone \<Rightarrow> jstr" where
  "TOAST_ICON Success = ko_check"
| "TOAST_ICON Error = js ''!''"
| "TOAST_ICON Info = js ''i''"
| "TOAST_ICON Warning = js ''!''"

definition dismissToast :: "jstr \<Rightarrow> toast list \<Rightarrow> toast list" where
  "dismissToast i toasts = filter (\<lambda>t. toast_id t \<noteq> i) toasts"

definition make_toast :: "jstr \<Rightarrow> toast_tone \<Rightarrow> jstr \<Rightarrow> toast_options \<Rightarrow> toast" where
  "make_toast fresh tone title opts =
     \<lparr>toast_id = nullish (to_id opts) fresh, toast_tone = tone, toast_title = title,
      toast_description = to_description opts, toast_action = to_action opts,
      toast_durationMs = to_durationMs opts\<rparr>"

text \<open>The new list and the id returned. The shortcuts \<^verbatim>\<open>success\<close>, \<^verbatim>\<open>error\<close>, \<^verbatim>\<open>info\<close> and \<^verbatim>\<open>warning\<close> are
  this function at their tone.\<close>

definition showToast :: "jstr \<Rightarrow> toast_tone \<Rightarrow> jstr \<Rightarrow> toast_options \<Rightarrow> toast list \<Rightarrow> toast list \<times> jstr" where
  "showToast fresh tone title opts toasts =
     (let toast = make_toast fresh tone title opts in
      (take 5 (toast # filter (\<lambda>t. toast_id t \<noteq> toast_id toast) toasts), toast_id toast))"

text \<open>The effect of a card: dismiss after the duration, unless the duration is not positive.\<close>

definition card_timer :: "toast \<Rightarrow> (jstr \<times> int) option" where
  "card_timer t =
     (let durationMs = nullish (toast_durationMs t) (DEFAULT_DURATION_MS (toast_tone t)) in
      if durationMs \<le> 0 then None else Some (toast_id t, durationMs))"

definition toast_timers :: "toast list \<Rightarrow> (jstr \<times> int) list" where
  "toast_timers toasts = List.map_filter card_timer toasts"

definition ToastCard :: "(jstr \<Rightarrow> 'm) \<Rightarrow> toast \<Rightarrow> 'm node" where
  "ToastCard onDismiss t =
     El ''section'' [A ''class'' (js ''toast-card toast-card--'' @ toast_tone_str (toast_tone t)),
         A ''role'' (if toast_tone t = Error then js ''alert'' else js ''status'')]
       [El ''span'' [cls ''toast-icon'', A ''aria-hidden'' (js ''true'')] [Text (TOAST_ICON (toast_tone t))],
        El ''div'' [cls ''toast-content'']
          ([El ''strong'' [] [Text (toast_title t)]] @
           render_if (truthy_str (toast_description t)) [El ''p'' [] [Text (nullish (toast_description t) [])]] @
           (case toast_action t of
              None \<Rightarrow> []
            | Some (label, href) \<Rightarrow>
                [El ''a'' [cls ''toast-action'', A ''href'' href, On ''onClick'' (onDismiss (toast_id t))] [Text label]])),
        El ''button'' [cls ''toast-close'', A ''type'' (js ''button''), On ''onClick'' (onDismiss (toast_id t)),
            A ''aria-label'' ko_toast_close] [Text ko_times]]"

definition ToastProvider :: "(jstr \<Rightarrow> 'm) \<Rightarrow> toast list \<Rightarrow> 'm node" where
  "ToastProvider onDismiss toasts =
     El ''div'' [cls ''toast-viewport'', A ''role'' (js ''region''), A ''aria-label'' ko_toast_region]
       (map (ToastCard onDismiss) toasts)"

subsection \<open>The invariant of the list\<close>

definition toasts_ok :: "toast list \<Rightarrow> bool" where
  "toasts_ok toasts \<longleftrightarrow> length toasts \<le> 5 \<and> distinct (map toast_id toasts)"

datatype toast_op = Show jstr toast_tone jstr toast_options | Dismiss jstr

fun toast_step :: "toast_op \<Rightarrow> toast list \<Rightarrow> toast list" where
  "toast_step (Show fresh tone title opts) ts = fst (showToast fresh tone title opts ts)"
| "toast_step (Dismiss i) ts = dismissToast i ts"

inductive toasts_reachable :: "toast list \<Rightarrow> bool" where
  start: "toasts_reachable []"
| step: "toasts_reachable ts \<Longrightarrow> toasts_reachable (toast_step op ts)"

lemma toasts_ok_dismiss: "toasts_ok ts \<Longrightarrow> toasts_ok (dismissToast i ts)"
  using le_trans [OF filter_eq_length_le] by (auto simp: toasts_ok_def dismissToast_def distinct_map_filter)

lemma distinct_map_take: "distinct (map f xs) \<Longrightarrow> distinct (map f (take n xs))"
  by (metis distinct_take take_map)

lemma toasts_ok_show: "toasts_ok ts \<Longrightarrow> toasts_ok (fst (showToast fresh tone title opts ts))"
proof -
  assume ts: "toasts_ok ts"
  let ?t = "make_toast fresh tone title opts"
  have "distinct (map toast_id (?t # filter (\<lambda>t. toast_id t \<noteq> toast_id ?t) ts))"
    using ts by (auto simp: toasts_ok_def distinct_map_filter)
  then have "distinct (map toast_id (take 5 (?t # filter (\<lambda>t. toast_id t \<noteq> toast_id ?t) ts)))"
    by (rule distinct_map_take)
  then show ?thesis unfolding toasts_ok_def showToast_def Let_def by simp
qed

text \<open>C26: However toasts are shown and dismissed, at most five are on screen and no two have the same
  id. Showing one puts it first, replaces an earlier toast of the same id, keeps the order of the
  others and drops only from the old end; and whenever it is not permanent a timer to dismiss it is
  running, so that firing the timers one after the other empties the screen of every such toast.\<close>

theorem toasts_bounded_and_distinct:
  "(toasts_reachable ts \<longrightarrow> toasts_ok ts) \<and>
   (hd (fst (showToast fresh tone title opts us)) = make_toast fresh tone title opts \<and>
   (\<exists>old. filter (\<lambda>t. toast_id t \<noteq> snd (showToast fresh tone title opts us)) us =
      tl (fst (showToast fresh tone title opts us)) @ old)) \<and>
   (t \<in> set us \<longrightarrow> 0 < nullish (toast_durationMs t) (DEFAULT_DURATION_MS (toast_tone t)) \<longrightarrow>
     (toast_id t, nullish (toast_durationMs t) (DEFAULT_DURATION_MS (toast_tone t))) \<in> set (toast_timers us)) \<and>
   (toast_timers (fold dismissToast (map fst (toast_timers us)) us) = [])"
proof -
  have p1: "toasts_ok ts" if "toasts_reachable ts"
    using that
  proof induction
    case (step ts op)
    then show ?case by (cases op) (simp_all add: toasts_ok_show toasts_ok_dismiss)
  qed (simp add: toasts_ok_def)
  have p2: "hd (fst (showToast fresh tone title opts us)) = make_toast fresh tone title opts \<and>
   (\<exists>old. filter (\<lambda>t. toast_id t \<noteq> snd (showToast fresh tone title opts us)) us =
      tl (fst (showToast fresh tone title opts us)) @ old)"
    by (simp add: showToast_def Let_def numeral_eq_Suc) (metis append_take_drop_id)
  have p3: "t \<in> set us \<Longrightarrow> 0 < nullish (toast_durationMs t) (DEFAULT_DURATION_MS (toast_tone t)) \<Longrightarrow>
     (toast_id t, nullish (toast_durationMs t) (DEFAULT_DURATION_MS (toast_tone t))) \<in> set (toast_timers us)" for t us
    by (force simp: toast_timers_def card_timer_def map_filter_def Let_def image_iff)
  have fold: "fold dismissToast is us = filter (\<lambda>t. toast_id t \<notin> set is) us" for "is" and us :: "toast list"
    by (induction "is" arbitrary: us) (auto simp: dismissToast_def intro: filter_cong)
  have p4: "toast_timers (fold dismissToast (map fst (toast_timers us)) us) = []"
  proof -
    have "card_timer t = None" if "t \<in> set us" "toast_id t \<notin> set (map fst (toast_timers us))" for t
      using that p3 [of t us] by (force simp: card_timer_def Let_def)
    then show ?thesis by (auto simp: fold toast_timers_def [of "filter _ us"] map_filter_def filter_empty_conv)
  qed
  show ?thesis using p1 p2 p3 p4 by blast
qed

theorem toasts_bounded_and_distinct_witness:
  "toasts_ok (toast_step (Show (js ''a'') Info (js ''hello'') no_options) []) \<and>
   (js ''a'', 5000) \<in> set (toast_timers [make_toast (js ''a'') Info (js ''hello'') no_options])"
  using toasts_bounded_and_distinct [THEN conjunct1, rule_format, OF toasts_reachable.step [OF toasts_reachable.start, of "Show (js ''a'') Info (js ''hello'') no_options"]]
    toasts_bounded_and_distinct [where t = "make_toast (js ''a'') Info (js ''hello'') no_options" and
      us = "[make_toast (js ''a'') Info (js ''hello'') no_options]"]
  by (simp add: make_toast_def no_options_def)

end
