(* ===== verification/RunViews.thy ===== *)
theory RunViews
  imports Widgets RunLabels
begin

section \<open>Run panels of an issue\<close>

text \<open>
  The panels that show the runs of an issue: \<^verbatim>\<open>LiveRunCard\<close>, \<^verbatim>\<open>AgentPipelineStrip\<close>,
  \<^verbatim>\<open>MentionQueuePanel\<close>, \<^verbatim>\<open>ReviewBanner\<close> and \<^verbatim>\<open>IssueSummaryRail\<close> of \<^verbatim>\<open>web/src/components\<close>, with their
  formatting and text clean-up helpers.
\<close>

subsection \<open>Regular-expression replacements\<close>

text \<open>\<^verbatim>\<open>s.replace(/.../g, r)\<close> for a pattern given by the length of its match at the head of a text.\<close>

function replace_all :: "(jstr \<Rightarrow> nat option) \<Rightarrow> jstr \<Rightarrow> jstr \<Rightarrow> jstr" where
  "replace_all m r [] = []"
| "replace_all m r (c # s) =
     (case m (c # s) of
        Some (Suc n) \<Rightarrow> r @ replace_all m r (drop n s)
      | _ \<Rightarrow> c # replace_all m r s)"
  by pat_completeness auto
termination
  by (relation "measure (\<lambda>(m, r, s). length s)") auto

definition ci_eq :: "jstr \<Rightarrow> jstr \<Rightarrow> bool" where
  "ci_eq a b \<longleftrightarrow> map ascii_lower a = map ascii_lower b"

text \<open>A literal, ignoring case.\<close>

definition match_ci :: "jstr \<Rightarrow> jstr \<Rightarrow> nat option" where
  "match_ci p s = (if ci_eq (take (length p) s) p then Some (length p) else None)"

text \<open>\<^verbatim>\<open>/<br\s*\/?>/i\<close>, and with an optional line feed behind.\<close>

definition match_br :: "jstr \<Rightarrow> nat option" where
  "match_br s =
     (if ci_eq (take 3 s) (js ''<br'') then
        (let ws = takeWhile is_ws (drop 3 s); t = drop (3 + length ws) s;
             sl = (if startsWith t (js ''/'') then 1 else 0)
         in if startsWith (drop sl t) (js ''>'') then Some (3 + length ws + sl + 1) else None)
      else None)"

definition match_br_nl :: "jstr \<Rightarrow> nat option" where
  "match_br_nl s =
     map_option (\<lambda>n. if startsWith (drop n s) [LF] then n + 1 else n) (match_br s)"

definition is_letter :: "code_unit \<Rightarrow> bool" where
  "is_letter c \<longleftrightarrow> (97 \<le> c \<and> c \<le> 122) \<or> (65 \<le> c \<and> c \<le> 90)"

text \<open>\<^verbatim>\<open>/&[a-z]+;/i\<close>\<close>

definition match_entity :: "jstr \<Rightarrow> nat option" where
  "match_entity s =
     (if startsWith s (js ''&'') then
        (let ls = takeWhile is_letter (drop 1 s) in
         if ls \<noteq> [] \<and> startsWith (drop (1 + length ls) s) (js '';'') then Some (2 + length ls) else None)
      else None)"

text \<open>\<^verbatim>\<open>.replace(/^stderr:\s*/i, 'stderr:\n')\<close>\<close>

definition stderr_prefix :: "jstr \<Rightarrow> jstr" where
  "stderr_prefix s =
     (if ci_eq (take 7 s) (js ''stderr:'') then js ''stderr:'' @ [LF] @ dropWhile is_ws (drop 7 s) else s)"

definition normalizeRunMessage :: "jstr option \<Rightarrow> jstr" where
  "normalizeRunMessage v = (case v of
       None \<Rightarrow> []
     | Some s \<Rightarrow>
         if s = [] then []
         else trim (stderr_prefix
           (replace_all (match_ci (js ''&amp;'')) (js ''&'')
           (replace_all (match_ci (js ''&#39;'')) [39]
           (replace_all (match_ci (js ''&quot;'')) [34]
           (replace_all (match_ci (js ''&gt;'')) (js ''>'')
           (replace_all (match_ci (js ''&lt;'')) (js ''<'')
           (replace_all (match_ci (js ''&nbsp;'')) (js '' '')
           (replace_all match_br [LF] s)))))))))"

subsection \<open>Numbers and durations\<close>

definition formatTokens :: "int option \<Rightarrow> jstr" where
  "formatTokens v =
     (let n = max 0 (nullish v 0) in
      if n \<ge> 1000000 then fixed_div n 1000000 2 @ js ''M''
      else if n \<ge> 1000 then fixed_div n 1000 1 @ js ''k''
      else int_str n)"

definition formatCostMicros :: "int option \<Rightarrow> jstr" where
  "formatCostMicros v = js ''$'' @ fixed_div (max 0 (nullish v 0)) 1000000 4"

record run_usage =
  u_inputTokens :: int
  u_outputTokens :: int
  u_totalTokens :: int
  u_totalCostMicros :: int
  u_measuredRuns :: int

definition add_usage :: "run_usage \<Rightarrow> run \<Rightarrow> run_usage" where
  "add_usage acc run =
     (let inp = nullish (run_input_tokens run) 0; out = nullish (run_output_tokens run) 0 in
      acc\<lparr>u_inputTokens := u_inputTokens acc + inp,
          u_outputTokens := u_outputTokens acc + out,
          u_totalTokens := u_totalTokens acc + (inp + out),
          u_totalCostMicros := u_totalCostMicros acc + nullish (run_total_cost_micros run) 0,
          u_measuredRuns := (if inp > 0 \<or> out > 0 \<or> nullish (run_total_cost_micros run) 0 > 0
                             then u_measuredRuns acc + 1 else u_measuredRuns acc)\<rparr>)"

definition summarizeRunUsage :: "run list \<Rightarrow> run_usage" where
  "summarizeRunUsage runs = foldl add_usage
     \<lparr>u_inputTokens = 0, u_outputTokens = 0, u_totalTokens = 0, u_totalCostMicros = 0, u_measuredRuns = 0\<rparr> runs"

definition runHasUsage :: "run \<Rightarrow> bool" where
  "runHasUsage run \<longleftrightarrow> nullish (run_input_tokens run) 0 > 0 \<or> nullish (run_output_tokens run) 0 > 0 \<or>
     nullish (run_total_cost_micros run) 0 > 0"

text \<open>\<open>None\<close>: undefined. Without a second argument the time runs to now.\<close>

definition secondsBetween :: "platform \<Rightarrow> jstr option \<Rightarrow> jstr option \<Rightarrow> int option" where
  "secondsBetween E since till =
     (if \<not> truthy_str since then None
      else (case (date_ms E (nullish since []), if truthy_str till then date_ms E (nullish till []) else Some (now_ms E)) of
              (Some start, Some stop) \<Rightarrow> Some (max 0 (round_div (stop - start) 1000))
            | _ \<Rightarrow> None))"

definition formatElapsed :: "int option \<Rightarrow> jstr" where
  "formatElapsed v = (case v of
       None \<Rightarrow> ko_dash
     | Some s \<Rightarrow>
         if s < 60 then int_str s @ js ''s''
         else int_str (s div 60) @ js ''m '' @ int_str (s mod 60) @ js ''s'')"

subsection \<open>LiveRunCard\<close>

datatype hb_tone = Healthy | Stale | Unknown

fun hb_tone_str :: "hb_tone \<Rightarrow> jstr" where
  "hb_tone_str Healthy = js ''healthy''"
| "hb_tone_str Stale = js ''stale''"
| "hb_tone_str Unknown = js ''unknown''"

definition heartbeatHealth :: "platform \<Rightarrow> jstr option \<Rightarrow> jstr \<times> hb_tone" where
  "heartbeatHealth E heartbeatAt =
     (if \<not> truthy_str heartbeatAt then (ko_dash, Unknown)
      else (case secondsBetween E heartbeatAt None of
              None \<Rightarrow> (ko_dash, Unknown)
            | Some ago \<Rightarrow>
                if ago \<le> 30 then (int_str ago @ ko_sec_ago_healthy, Healthy)
                else if ago \<le> 120 then (int_str ago @ ko_sec_ago, Healthy)
                else (int_str (ago div 60) @ ko_minute_sp @ int_str (ago mod 60) @ ko_sec_ago_stale, Stale)))"

definition agent_or_default :: "jstr option \<Rightarrow> jstr" where
  "agent_or_default n = oor_str n ko_agent"

definition LiveRunCard :: "platform \<Rightarrow> run option \<Rightarrow> 'm option \<Rightarrow> bool \<Rightarrow> 'm node list" where
  "LiveRunCard E run_opt onCancel cancelDisabled = (case run_opt of
       None \<Rightarrow> []
     | Some run \<Rightarrow>
         if run_status run \<noteq> js ''running'' \<and> run_status run \<noteq> js ''queued'' then []
         else
           (let elapsed = secondsBetween E (oor (run_started_at run) (oor (run_claimed_at run) (run_enqueued_at run))) None;
                hb = heartbeatHealth E (run_heartbeat_at run);
                tokens = nullish (run_input_tokens run) 0 + nullish (run_output_tokens run) 0;
                cost = (if truthy_num (run_total_cost_micros run)
                        then js ''$'' @ fixed_div (nullish (run_total_cost_micros run) 0) 1000000 4
                        else js ''$0.0000'');
                attempt = (if truthy_num (run_attempt run) \<and> truthy_num (run_max_attempts run)
                           then int_str (nullish (run_attempt run) 0) @ js ''/'' @ int_str (nullish (run_max_attempts run) 0)
                           else ko_dash);
                stat = (\<lambda>dt attrs dd. El ''div'' [] [El ''dt'' [] [Text dt], El ''dd'' attrs [Text dd]])
            in [El ''section'' [A ''class'' (js ''live-run-card live-run-'' @ run_status run), A ''aria-live'' (js ''polite'')]
              ([El ''header'' [cls ''live-run-head'']
                  [El ''span'' [cls ''live-run-dot'', A ''aria-hidden'' (js ''true'')] [],
                   El ''strong'' [] [Text (if run_status run = js ''running'' then ko_live else ko_queued_caps)],
                   El ''span'' [cls ''live-run-agent''] [T ''@'', Text (agent_or_default (run_agent_name run))]],
                El ''dl'' [cls ''live-run-stats'']
                  ([stat ko_elapsed [] (formatElapsed elapsed),
                    stat (js ''heartbeat'') [A ''class'' (js ''hb-'' @ hb_tone_str (snd hb))] (fst hb),
                    stat ko_attempt [] attempt,
                    stat ko_tokens [] (toLocaleString E tokens),
                    stat ko_cost [] cost] @
                   render_if (truthy_str (run_model_resolved run))
                     [stat ko_model [cls ''muted''] (nullish (run_model_resolved run) [])])] @
               (case onCancel of
                  None \<Rightarrow> []
                | Some m \<Rightarrow>
                    [El ''button'' [cls ''button micro danger live-run-cancel'', A ''type'' (js ''button''),
                       On ''onClick'' m, B ''disabled'' cancelDisabled] [Text ko_cancel_run_stop]]))]))"

subsection \<open>AgentPipelineStrip\<close>

datatype stage_state = SDone | SRunning | SQueued | SFailed | SCancelled | SRetrying

fun stage_state_str :: "stage_state \<Rightarrow> jstr" where
  "stage_state_str SDone = js ''done''"
| "stage_state_str SRunning = js ''running''"
| "stage_state_str SQueued = js ''queued''"
| "stage_state_str SFailed = js ''failed''"
| "stage_state_str SCancelled = js ''cancelled''"
| "stage_state_str SRetrying = js ''retrying''"

record stage =
  stage_index :: nat
  stage_run :: run
  stage_state :: stage_state
  stage_durationMs :: "int option"

definition durationOf :: "platform \<Rightarrow> run \<Rightarrow> int option" where
  "durationOf E run =
     (let start = oor (run_started_at run) (oor (run_claimed_at run) (run_enqueued_at run)); fin = run_finished_at run in
      if \<not> truthy_str start \<or> \<not> truthy_str fin then None
      else (case (date_ms E (nullish fin []), date_ms E (nullish start [])) of
              (Some e, Some s) \<Rightarrow> if e - s \<ge> 0 then Some (e - s) else None
            | _ \<Rightarrow> None))"

definition formatDuration :: "int option \<Rightarrow> jstr" where
  "formatDuration v = (case v of
       None \<Rightarrow> []
     | Some ms \<Rightarrow>
         (let s = round_div ms 1000 in
          if s < 60 then int_str s @ js ''s''
          else int_str (s div 60) @ js ''m '' @ int_str (s mod 60) @ js ''s''))"

definition stateOf :: "run \<Rightarrow> stage_state" where
  "stateOf run =
     (let s = run_status run in
      if s = js ''done'' then SDone
      else if s = js ''failed'' then SFailed
      else if s = js ''cancelled'' then SCancelled
      else if s = js ''running'' then SRunning
      else if s = js ''queued'' then (if truthy_str (run_next_retry_at run) then SRetrying else SQueued)
      else SQueued)"

fun stateIcon :: "stage_state \<Rightarrow> jstr" where
  "stateIcon SDone = ko_ic_done"
| "stateIcon SRunning = ko_ic_running"
| "stateIcon SQueued = ko_ic_queued"
| "stateIcon SFailed = ko_ic_failed"
| "stateIcon SCancelled = ko_ic_cancelled"
| "stateIcon SRetrying = ko_ic_retrying"

fun stateLabel :: "stage_state \<Rightarrow> jstr" where
  "stateLabel SDone = ko_st_done"
| "stateLabel SRunning = ko_st_running"
| "stateLabel SQueued = ko_st_queued"
| "stateLabel SFailed = ko_st_failed"
| "stateLabel SCancelled = ko_st_cancelled"
| "stateLabel SRetrying = ko_retry_pending"

definition pipeline_key :: "run \<Rightarrow> jstr" where
  "pipeline_key r = oor_str (run_enqueued_at r) (oor_str (run_claimed_at r) (oor_str (run_started_at r) []))"

definition pipeline_stages :: "platform \<Rightarrow> run list \<Rightarrow> stage list" where
  "pipeline_stages E runs =
     (let sorted = js_sort (\<lambda>a b. localeCompare E (pipeline_key a) (pipeline_key b)) runs in
      map (\<lambda>(index, run). \<lparr>stage_index = index, stage_run = run, stage_state = stateOf run,
             stage_durationMs = durationOf E run\<rparr>) (enumerate 0 sorted))"

definition stage_total :: "stage list \<Rightarrow> int" where
  "stage_total stages = foldl (\<lambda>acc s. acc + nullish (stage_durationMs s) 0) 0 stages"

definition stage_count :: "stage_state \<Rightarrow> stage list \<Rightarrow> nat" where
  "stage_count st stages = length (filter (\<lambda>s. stage_state s = st) stages)"

definition stage_view :: "nat \<Rightarrow> stage \<Rightarrow> 'm node" where
  "stage_view n stage =
     (let r = stage_run stage in
      El ''li'' [A ''class'' (js ''pipeline-stage stage-'' @ stage_state_str (stage_state stage)), A ''role'' (js ''listitem'')]
        [El ''div'' [cls ''stage-line'', A ''aria-hidden'' (js ''true'')]
           ([El ''span'' [cls ''stage-icon''] [Text (stateIcon (stage_state stage))]] @
            render_if (stage_index stage + 1 < n) [El ''span'' [cls ''stage-connector''] []]),
         El ''div'' [cls ''stage-card'']
           ([El ''header'' [cls ''stage-head'']
               [El ''span'' [cls ''stage-num''] [Text (nat_str (stage_index stage + 1))],
                El ''strong'' [] [T ''@'', Text (agent_or_default (run_agent_name r))]],
             El ''small'' [cls ''stage-state-label''] [Text (stateLabel (stage_state stage))]] @
            render_if (stage_durationMs stage \<noteq> None)
              [El ''small'' [cls ''stage-duration''] [Text (formatDuration (stage_durationMs stage))]] @
            render_if (truthy_num (run_max_attempts r) \<and> nullish (run_max_attempts r) 0 > 1 \<and> truthy_num (run_attempt r))
              [El ''small'' [cls ''stage-attempt'']
                 [T ''attempt '', Text (int_str (nullish (run_attempt r) 0)), T ''/'',
                  Text (int_str (nullish (run_max_attempts r) 0))]] @
            render_if (truthy_str (run_failure_kind r) \<and> stage_state stage = SFailed)
              [El ''small'' [cls ''stage-failure''] [Text (nullish (run_failure_kind r) [])]])])"

definition AgentPipelineStrip :: "platform \<Rightarrow> run list \<Rightarrow> bool \<Rightarrow> 'm node" where
  "AgentPipelineStrip E runs loading =
     (if loading \<and> runs = [] then
        El ''article'' [cls ''pipeline-strip empty'', A ''role'' (js ''status'')]
          [El ''p'' [cls ''muted-copy''] [Text ko_pipeline_loading]]
      else if runs = [] then
        El ''article'' [cls ''pipeline-strip empty''] [El ''p'' [cls ''muted-copy''] [Text ko_pipeline_empty]]
      else
        (let stages = pipeline_stages E runs in
         El ''article'' [cls ''pipeline-strip'', A ''aria-label'' ko_pipeline_label]
           [El ''header'' [cls ''pipeline-strip-header'']
              [El ''strong'' [] [Text ko_pipeline],
               El ''small'' []
                 [Text (nat_str (length stages)), Text ko_stages_done, Text (nat_str (stage_count SDone stages)),
                  Text ko_progress_sep, Text (nat_str (stage_count SRunning stages)),
                  Text ko_failed_sep, Text (nat_str (stage_count SFailed stages)),
                  Text ko_total_sep, Text (formatDuration (Some (stage_total stages)))]],
            El ''ol'' [cls ''pipeline-stages'', A ''role'' (js ''list'')] (map (stage_view (length stages)) stages)]))"

subsection \<open>MentionQueuePanel\<close>

definition queued_runs :: "platform \<Rightarrow> run list \<Rightarrow> run list" where
  "queued_runs E runs =
     js_sort (\<lambda>a b. localeCompare E (oor_str (run_enqueued_at a) []) (oor_str (run_enqueued_at b) []))
       (filter (\<lambda>r. run_status r = js ''queued'') runs)"

definition MentionQueuePanel :: "platform \<Rightarrow> run list \<Rightarrow> 'm node list" where
  "MentionQueuePanel E runs =
     (let queued = queued_runs E runs in
      if queued = [] then []
      else [El ''section'' [cls ''mention-queue-panel'', A ''aria-label'' ko_mention_queue]
        [El ''header'' [cls ''mention-queue-head'']
           [El ''span'' [cls ''mention-queue-icon'', A ''aria-hidden'' (js ''true'')] [Text ko_envelope],
            El ''strong'' [] [Text ko_next_turn, Text (nat_str (length queued)), T '')''],
            El ''small'' [] [Text ko_serial_note]],
         El ''ol'' [cls ''mention-queue-list'']
           (map (\<lambda>(i, r).
              El ''li'' [cls ''mention-queue-item'']
                [El ''span'' [cls ''queue-num''] [Text (nat_str (i + 1))],
                 El ''div'' [cls ''queue-copy'']
                   [El ''strong'' [] [T ''@'', Text (agent_or_default (run_agent_name r))],
                    El ''small'' []
                      [Text (if truthy_str (run_next_retry_at r) then ko_retry_pending
                             else if run_trigger_type r = js ''mention'' then ko_queued_by_mention
                             else run_trigger_type r),
                       Text (if truthy_num (run_chain_depth r)
                             then ko_middot_chain @ int_str (nullish (run_chain_depth r) 0) else [])]]])
              (enumerate 0 queued))]])"

subsection \<open>ReviewBanner\<close>

definition shortReason :: "run \<Rightarrow> jstr" where
  "shortReason run =
     (let r = oor_str (run_terminal_reason run) []; fk = oor_str (run_failure_kind run) [] in
      join ko_middot (filter (\<lambda>x. x \<noteq> []) [r, if fk \<noteq> [] \<and> fk \<noteq> r then fk else []]))"

definition shortError :: "jstr option \<Rightarrow> jstr" where
  "shortError msg = (case msg of
       None \<Rightarrow> []
     | Some m \<Rightarrow>
         if m = [] then []
         else (let trimmed = trim (replace_all match_entity (js '' '') (replace_all match_br_nl [LF] m)) in
               if length trimmed > 220 then take 220 trimmed @ ko_ellipsis else trimmed))"

definition recovery_time :: "run \<Rightarrow> jstr" where
  "recovery_time r = oor_str (run_enqueued_at r) (oor_str (run_started_at r) [])"

definition findRecovery :: "run \<Rightarrow> run list \<Rightarrow> run option" where
  "findRecovery failedRun all =
     find (\<lambda>r. run_agent_id r = run_agent_id failedRun \<and> run_status r = js ''done'' \<and>
               str_less (recovery_time failedRun) (recovery_time r)) all"

text \<open>\<^verbatim>\<open>findIndex(...) + 1\<close>: 0 when the run is not in the list.\<close>

fun position :: "('a \<Rightarrow> bool) \<Rightarrow> 'a list \<Rightarrow> nat" where
  "position P [] = 0"
| "position P (x # xs) = (if P x then 1 else (case position P xs of 0 \<Rightarrow> 0 | Suc n \<Rightarrow> Suc (Suc n)))"

definition stageIndexOf :: "platform \<Rightarrow> run \<Rightarrow> run list \<Rightarrow> nat" where
  "stageIndexOf E run all =
     position (\<lambda>r. run_id r = run_id run)
       (js_sort (\<lambda>a b. localeCompare E (oor_str (run_enqueued_at a) []) (oor_str (run_enqueued_at b) [])) all)"

definition is_finished :: "run \<Rightarrow> bool" where
  "is_finished r \<longleftrightarrow> run_status r = js ''done'' \<or> run_status r = js ''failed'' \<or> run_status r = js ''cancelled''"

definition failed_runs :: "run list \<Rightarrow> run list" where
  "failed_runs runs = filter (\<lambda>r. run_status r = js ''failed'') runs"

definition recovered_count :: "run list \<Rightarrow> nat" where
  "recovered_count runs = length (filter (\<lambda>r. findRecovery r runs \<noteq> None) (failed_runs runs))"

record 'm review_props =
  rv_onMarkDone :: 'm
  rv_onCancelIssue :: 'm
  rv_onRetryStage :: "(jstr \<Rightarrow> nat \<Rightarrow> 'm) option"
  rv_disabled :: bool
  rv_onToggle :: 'm          \<comment> \<open>the component's own \<^verbatim>\<open>setExpandFailures\<close>\<close>

text \<open>When the banner shows.\<close>

definition review_due :: "issue option \<Rightarrow> run list \<Rightarrow> bool" where
  "review_due issue_opt runs = (case issue_opt of
       None \<Rightarrow> False
     | Some issue \<Rightarrow>
         issue_status issue = IOpen \<and> issue_execution_status issue = EDone \<and> runs \<noteq> [] \<and>
         filter is_finished runs \<noteq> [])"

definition failure_item :: "platform \<Rightarrow> 'm review_props \<Rightarrow> run list \<Rightarrow> run \<Rightarrow> 'm node" where
  "failure_item E p runs fr =
     (let recovery = findRecovery fr runs; stage = stageIndexOf E fr runs in
      El ''li'' [cls ''review-banner-failure-item'']
        ([El ''header'' []
            [El ''span'' [cls ''failure-icon'', A ''aria-hidden'' (js ''true'')] [Text ko_ic_failed],
             El ''strong'' [] [T ''Stage '', Text (nat_str stage), Text ko_middot_at, Text (agent_or_default (run_agent_name fr))],
             El ''small'' [cls ''failure-meta'']
               [Text (shortReason fr), Text ko_middot_attempt, Text (int_str (nullish (run_attempt fr) 1)), T ''/'',
                Text (int_str (nullish (run_max_attempts fr) 1)),
                Text (if truthy_str (run_finished_at fr) then ko_middot @ slice 11 19 (nullish (run_finished_at fr) []) else [])]]] @
         render_if (truthy_str (run_error_message fr))
           [El ''pre'' [cls ''failure-error''] [Text (shortError (run_error_message fr))]] @
         (case recovery of
            Some rec \<Rightarrow>
              [El ''p'' [cls ''failure-recovery'']
                 [Text ko_rec_after, El ''strong'' [] [T ''Stage '', Text (nat_str (stageIndexOf E rec runs))],
                  Text ko_rec_same_agent, Text (nullish (run_agent_name rec) []), Text ko_rec_ga,
                  El ''strong'' [] [Text ko_rec_success], Text ko_rec_end]]
          | None \<Rightarrow>
              [El ''p'' [cls ''failure-recovery unrecovered'']
                 [Text ko_unrecovered]]) @
         [El ''div'' [cls ''failure-actions'']
            ((case rv_onRetryStage p of
                None \<Rightarrow> []
              | Some retry \<Rightarrow>
                  [El ''button''
                     [A ''type'' (js ''button''),
                      cls (if recovery \<noteq> None then ''button micro secondary'' else ''button micro''),
                      On ''onClick'' (retry (agent_or_default (run_agent_name fr)) stage), B ''disabled'' (rv_disabled p),
                      A ''title'' (if recovery \<noteq> None then ko_retry_title_rec
                                   else ko_retry_title)]
                     [Text (if recovery \<noteq> None then ko_retry_again else ko_retry_request)]]) @
             [El ''a'' [cls ''failure-link'', A ''href'' (js ''#run-'' @ run_id fr)]
                [Text ko_failure_link]])]))"

definition ReviewBanner :: "platform \<Rightarrow> 'm review_props \<Rightarrow> bool \<Rightarrow> issue option \<Rightarrow> run list \<Rightarrow> 'm node list" where
  "ReviewBanner E p expandFailures issue_opt runs =
     (if \<not> review_due issue_opt runs then []
      else
        (let lastDone = find (\<lambda>r. run_status r = js ''done'') (rev runs);
             lastAgent = Option.bind lastDone run_agent_name;
             failedRuns = failed_runs runs;
             recoveredCount = recovered_count runs;
             totalDone = length (filter (\<lambda>r. run_status r = js ''done'') runs);
             totalFailed = length failedRuns
         in [El ''section'' [cls ''review-banner'', A ''role'' (js ''status''), A ''aria-live'' (js ''polite'')]
           [El ''div'' [cls ''review-banner-icon'', A ''aria-hidden'' (js ''true'')] [Text ko_check],
            El ''div'' [cls ''review-banner-copy'']
              ([El ''strong'' [] [Text ko_review_head],
                El ''p'' []
                  ([Text ko_last_stage, El ''strong'' [] [T ''@'', Text (agent_or_default lastAgent)],
                    Text ko_result_arrived, Text (nat_str (length runs)),
                    Text ko_stages_paren, Text (nat_str totalDone)] @
                   render_if (totalFailed > 0)
                     [Text ko_middot,
                      El ''button'' [A ''type'' (js ''button''), cls ''review-banner-failure-toggle'', On ''onClick'' (rv_onToggle p),
                          B ''aria-expanded'' expandFailures]
                        [Text ko_failed_sp, Text (nat_str totalFailed),
                         Text (if recoveredCount = totalFailed then ko_all_recovered
                               else if recoveredCount > 0 then js '' ('' @ nat_str recoveredCount @ ko_n_recovered else []),
                         El ''span'' [cls ''review-banner-caret'', A ''aria-hidden'' (js ''true'')]
                           [Text (if expandFailures then ko_caret_down else ko_caret_right)]]] @
                   [Text ko_review_tail])] @
               render_if (expandFailures \<and> totalFailed > 0)
                 [El ''ul'' [cls ''review-banner-failure-list'', A ''aria-label'' ko_failure_list]
                    (map (failure_item E p runs) failedRuns)] @
               [El ''ul'' [cls ''review-banner-hints'']
                  [El ''li'' [] [Text ko_hint_close1, El ''strong'' [] [Text ko_st_done],
                     Text ko_hint_close2],
                   El ''li'' [] [Text ko_hint_more1, El ''code'' [] [Text ko_hint_code],
                     Text ko_hint_more2]]]),
            El ''div'' [cls ''review-banner-actions'']
              [El ''button'' [cls ''button'', A ''type'' (js ''button''), On ''onClick'' (rv_onMarkDone p), B ''disabled'' (rv_disabled p)]
                 [Text ko_mark_done_icon],
               El ''button'' [cls ''button secondary'', A ''type'' (js ''button''), On ''onClick'' (rv_onCancelIssue p),
                   B ''disabled'' (rv_disabled p)] [Text ko_cancel_issue_icon]]]]))"

subsection \<open>IssueSummaryRail\<close>

record 'm rail_props =
  rail_busy :: bool
  rail_actionPending :: bool
  rail_onRerun :: 'm
  rail_onCancelRun :: 'm
  rail_onMarkDone :: 'm
  rail_onCancelIssue :: 'm
  rail_onReopen :: 'm

text \<open>The component has its own copy of the trigger labels.\<close>

definition triggerLabel :: "jstr \<Rightarrow> jstr" where
  "triggerLabel trigger =
     nullish (map_of [(js ''issue_created'', ko_trig_created), (js ''rerun'', ko_trig_rerun),
       (js ''mention'', ko_trig_mention), (js ''autopilot'', ko_trig_autopilot)] trigger) trigger"

definition latest_problem :: "run list \<Rightarrow> run option" where
  "latest_problem runs = find (\<lambda>r. run_status r = js ''failed'' \<or> run_status r = js ''cancelled'') (rev runs)"

definition rail_actions :: "'m rail_props \<Rightarrow> issue option \<Rightarrow> 'm node" where
  "rail_actions p issue =
     (let canOperate = (issue \<noteq> None \<and> \<not> rail_actionPending p); busy = rail_busy p;
          issueStatus = nullish (map_option issue_status issue) IOpen;
          executionStatus = nullish (map_option issue_execution_status issue) EIdle
      in El ''div'' [cls ''summary-actions'']
        [El ''button'' [cls ''button'', A ''type'' (js ''button''), On ''onClick'' (rail_onRerun p),
             B ''disabled'' (\<not> canOperate \<or> busy)] [Text ko_rerun],
         (if busy then
            El ''button'' [cls ''button danger'', A ''type'' (js ''button''), On ''onClick'' (rail_onCancelRun p),
                B ''disabled'' (\<not> canOperate)]
              [Text (if executionStatus = EQueued then ko_cancel_queue else ko_cancel_run)]
          else
            El ''button'' [cls ''button danger'', A ''type'' (js ''button''), On ''onClick'' (rail_onCancelIssue p),
                B ''disabled'' (\<not> canOperate \<or> issueStatus = ICancelled)] [Text ko_cancel_issue]),
         El ''button'' [cls ''button secondary'', A ''type'' (js ''button''), On ''onClick'' (rail_onMarkDone p),
             B ''disabled'' (\<not> canOperate \<or> busy \<or> issueStatus = IDone)] [Text ko_mark_done],
         El ''button'' [cls ''button secondary'', A ''type'' (js ''button''), On ''onClick'' (rail_onReopen p),
             B ''disabled'' (\<not> canOperate \<or> issueStatus = IOpen)] [Text ko_reopen]])"

definition IssueSummaryRail :: "platform \<Rightarrow> 'm rail_props \<Rightarrow> issue option \<Rightarrow> run list \<Rightarrow> 'm node" where
  "IssueSummaryRail E p issue runs =
     (let latestRun = (if runs \<noteq> [] then Some (last runs) else None);
          usage = summarizeRunUsage runs;
          issueStatus = nullish (map_option issue_status issue) IOpen;
          executionStatus = nullish (map_option issue_execution_status issue) EIdle;
          cell = (\<lambda>label nodes. El ''div'' [] (El ''span'' [] [Text label] # nodes))
      in El ''aside'' [cls ''issue-summary-rail panel'', A ''aria-label'' ko_console_label]
        ([El ''div'' [cls ''section-heading compact'']
            [El ''h2'' [] [Text ko_console], El ''span'' [cls ''badge''] [T ''live'']],
          El ''div'' [cls ''summary-status-grid'']
            [cell ko_issue_status [StatusPill E PIssue (issue_status_str issueStatus) False],
             cell ko_exec_status [StatusPill E PExecution (exec_status_str executionStatus) (rail_busy p)],
             cell ko_assignee
               [El ''strong'' [] [T ''@'',
                  Text (oor_str (Option.bind issue issue_last_run_agent_name)
                    (oor_str (Option.bind issue issue_assignee_agent_name) ko_main_agent))]],
             cell ko_comments [El ''strong'' [] [Text (int_str (nullish (map_option issue_comment_count issue) 0)), Text ko_count_unit]],
             cell ko_tokens [El ''strong'' [] [Text (formatTokens (Some (u_totalTokens usage)))]],
             cell ko_cost [El ''strong'' [] [Text (formatCostMicros (Some (u_totalCostMicros usage)))]]],
          rail_actions p issue,
          El ''div'' [cls ''summary-block'']
            [El ''h3'' [] [Text ko_latest_run],
             (case latestRun of
                Some r \<Rightarrow>
                  El ''div'' [cls ''latest-run-card'']
                    ([StatusPill E PRun (run_status r) (run_status r = js ''running''),
                      El ''strong'' [] [T ''@'', Text (oor_str (run_agent_name r) (js ''-''))],
                      El ''span'' [] [Text (triggerLabel (run_trigger_type r))],
                      El ''small'' [] [DateTimeText E (oor (run_finished_at r) (oor (run_started_at r) (run_enqueued_at r))) Both (js ''-'')]] @
                     render_if (runHasUsage r)
                       [El ''small'' []
                          [Text (formatTokens (Some (nullish (run_input_tokens r) 0 + nullish (run_output_tokens r) 0))),
                           Text ko_middot, Text (formatCostMicros (run_total_cost_micros r))]])
              | None \<Rightarrow> El ''p'' [cls ''muted-copy''] [Text ko_no_runs])]] @
         (case latest_problem runs of
            None \<Rightarrow> []
          | Some r \<Rightarrow>
              [El ''div'' [cls ''summary-block warning'']
                 ([El ''h3'' [] [Text ko_latest_problem_label],
                   El ''p'' [] [Text (oor_str (run_terminal_reason r) (oor_str (run_failure_kind r)
                      (oor_str (run_cancel_reason r) (run_status r))))]] @
                  render_if (truthy_str (run_error_message r))
                    [El ''pre'' [] [Text (normalizeRunMessage (run_error_message r))]])])))"

subsection \<open>What the panels offer\<close>

lemma clicks_live_card:
  "clicks_of (LiveRunCard E (Some r) onCancel dis) =
     (if (run_status r = js ''running'' \<or> run_status r = js ''queued'') \<and> \<not> dis
      then (case onCancel of None \<Rightarrow> [] | Some m \<Rightarrow> [m]) else [])"
  by (auto simp: LiveRunCard_def Let_def html_simps split: option.split)

lemma clicks_live_card_none [simp]: "clicks_of (LiveRunCard E None onCancel dis) = []"
  by (simp add: LiveRunCard_def)

lemma clicks_stage [simp]: "clicks (stage_view n s) = []"
  by (simp add: stage_view_def Let_def html_simps)

lemma clicks_pipeline [simp]: "clicks (AgentPipelineStrip E runs loading) = []"
  by (simp add: AgentPipelineStrip_def Let_def clicks_of_def)

lemma clicks_queue_panel [simp]: "clicks_of (MentionQueuePanel E runs) = []"
  by (auto simp: MentionQueuePanel_def Let_def clicks_of_def split: prod.split)

lemma clicks_rail: "clicks (IssueSummaryRail E p issue runs) = clicks (rail_actions p issue)"
  by (simp add: IssueSummaryRail_def Let_def html_simps split: option.split)

text \<open>The issue console offers exactly the actions the state allows: nothing without an issue or
  while an action is pending; while a run is queued or running only cancelling that run, and reopening unless the
  issue is open; otherwise rerunning, cancelling the issue unless it is cancelled, marking it done
  unless it is done, and reopening it unless it is open.\<close>

lemma issue_console_actions:
  "clicks (IssueSummaryRail E p issue runs) =
     (case issue of
        None \<Rightarrow> []
      | Some i \<Rightarrow>
          if rail_actionPending p then []
          else if rail_busy p then rail_onCancelRun p # (if issue_status i = IOpen then [] else [rail_onReopen p])
          else rail_onRerun p #
            (if issue_status i = ICancelled then [] else [rail_onCancelIssue p]) @
            (if issue_status i = IDone then [] else [rail_onMarkDone p]) @
            (if issue_status i = IOpen then [] else [rail_onReopen p]))"
  by (simp add: clicks_rail rail_actions_def Let_def split: option.split)

lemma failure_clicks:
  "clicks (failure_item E p runs fr) =
     (case rv_onRetryStage p of
        None \<Rightarrow> []
      | Some retry \<Rightarrow> if rv_disabled p then [] else [retry (agent_or_default (run_agent_name fr)) (stageIndexOf E fr runs)])"
  by (simp add: failure_item_def Let_def html_simps split: option.split)

lemma recovered_le_failed: "recovered_count runs \<le> length (failed_runs runs)"
  by (simp add: recovered_count_def)

lemma findRecovery_Some:
  "findRecovery fr runs = Some r \<Longrightarrow>
     r \<in> set runs \<and> run_agent_id r = run_agent_id fr \<and> run_status r = js ''done'' \<and> str_less (recovery_time fr) (recovery_time r)"
  by (auto simp: findRecovery_def dest: find_Some_in)

lemma findRecovery_None:
  "findRecovery fr runs = None \<longleftrightarrow>
     (\<forall>r \<in> set runs. \<not> (run_agent_id r = run_agent_id fr \<and> run_status r = js ''done'' \<and> str_less (recovery_time fr) (recovery_time r)))"
  by (auto simp: findRecovery_def find_None_iff)

text \<open>The review banner asks for a decision exactly when the issue is open, its execution is done and
  at least one run has finished; then marking done and cancelling the issue are on offer unless
  disabled. The count of recovered failures never exceeds the count of failures, and the two are
  equal (the banner says that all failures are recovered) exactly when every failed run has a later
  successful run of the same agent.\<close>

lemma review_banner_correct:
  "(ReviewBanner E p ex issue runs \<noteq> [] \<longleftrightarrow>
     (\<exists>i. issue = Some i \<and> issue_status i = IOpen \<and> issue_execution_status i = EDone \<and> (\<exists>r \<in> set runs. is_finished r))) \<and>
   (review_due issue runs \<longrightarrow> \<not> rv_disabled p \<longrightarrow>
     {rv_onMarkDone p, rv_onCancelIssue p} \<subseteq> set (clicks_of (ReviewBanner E p ex issue runs))) \<and>
   (rv_disabled p \<longrightarrow> set (clicks_of (ReviewBanner E p ex issue runs)) \<subseteq> {rv_onToggle p}) \<and>
   (recovered_count runs \<le> length (failed_runs runs)) \<and>
   (recovered_count runs = length (failed_runs runs) \<longleftrightarrow>
     (\<forall>f \<in> set runs. run_status f = js ''failed'' \<longrightarrow>
        (\<exists>r \<in> set runs. run_agent_id r = run_agent_id f \<and> run_status r = js ''done'' \<and>
           str_less (recovery_time f) (recovery_time r))))"
proof -
  have p1: "ReviewBanner E p ex issue runs \<noteq> [] \<longleftrightarrow>
     (\<exists>i. issue = Some i \<and> issue_status i = IOpen \<and> issue_execution_status i = EDone \<and> (\<exists>r \<in> set runs. is_finished r))"
    by (auto simp: ReviewBanner_def review_due_def Let_def filter_empty_conv split: option.split)
  have p2: "review_due issue runs \<Longrightarrow> \<not> rv_disabled p \<Longrightarrow>
     {rv_onMarkDone p, rv_onCancelIssue p} \<subseteq> set (clicks_of (ReviewBanner E p ex issue runs))"
    by (simp add: ReviewBanner_def Let_def html_simps)
  have p3: "rv_disabled p \<Longrightarrow> set (clicks_of (ReviewBanner E p ex issue runs)) \<subseteq> {rv_onToggle p}"
    by (auto simp: ReviewBanner_def Let_def html_simps failure_clicks split: if_splits option.splits)
  have p4: "recovered_count runs \<le> length (failed_runs runs)" by (rule recovered_le_failed)
  have "recovered_count runs = length (failed_runs runs) \<longleftrightarrow> (\<forall>f \<in> set (failed_runs runs). findRecovery f runs \<noteq> None)"
    by (simp add: recovered_count_def length_filter_all)
  then have p5: "recovered_count runs = length (failed_runs runs) \<longleftrightarrow>
     (\<forall>f \<in> set runs. run_status f = js ''failed'' \<longrightarrow>
        (\<exists>r \<in> set runs. run_agent_id r = run_agent_id f \<and> run_status r = js ''done'' \<and>
           str_less (recovery_time f) (recovery_time r)))"
    by (auto simp: failed_runs_def findRecovery_None)
  show ?thesis using p1 p2 p3 p4 p5 by blast
qed

lemma review_banner_correct_instance:
  "{1, 2} \<subseteq> set (clicks_of (ReviewBanner ascii_platform \<lparr>rv_onMarkDone = 1 :: nat, rv_onCancelIssue = 2, rv_onRetryStage = None,
       rv_disabled = False, rv_onToggle = 3\<rparr> False (Some (bare_issue [] [] IOpen EDone)) [bare_run [] (js ''done'')]))"
  using review_banner_correct [where issue = "Some (bare_issue [] [] IOpen EDone)" and runs = "[bare_run [] (js ''done'')]" and
      p = "\<lparr>rv_onMarkDone = 1 :: nat, rv_onCancelIssue = 2, rv_onRetryStage = None, rv_disabled = False, rv_onToggle = 3\<rparr>"]
  by (simp add: review_due_def bare_issue_def bare_run_def is_finished_def)

subsection \<open>Stage numbers\<close>

lemma position_nth:
  "distinct (map f xs) \<Longrightarrow> i < length xs \<Longrightarrow> position (\<lambda>r. f r = f (xs ! i)) xs = Suc i"
proof (induction xs arbitrary: i)
  case (Cons x xs)
  show ?case
  proof (cases i)
    case (Suc j)
    then have "f (xs ! j) \<in> f ` set xs" using Cons.prems by simp
    then have "f x \<noteq> f (xs ! j)" using Cons.prems by auto
    then show ?thesis using Suc Cons by simp
  qed simp
qed simp

text \<open>The banner and the pipeline number the stages alike: when every run has its enqueue time and the
  ids are distinct, the stage number the review banner shows for a run is the number of its card in
  the pipeline strip, and these numbers are 1, 2, ... in order of the cards.\<close>

lemma stage_numbers_agree:
  assumes "\<forall>r \<in> set runs. truthy_str (run_enqueued_at r)" and "distinct (map run_id runs)"
  shows "map (\<lambda>s. stageIndexOf E (stage_run s) runs) (pipeline_stages E runs) = [1..<length runs + 1]"
proof -
  let ?sort = "\<lambda>key. js_sort (\<lambda>a b. localeCompare E (key a) (key b)) runs"
  have keys: "pipeline_key r = oor_str (run_enqueued_at r) []" if "r \<in> set runs" for r
    using assms(1) that by (auto simp: pipeline_key_def truthy_str_iff oor_str_def)
  have ins: "js_insert c x ys = js_insert d x ys" if "\<forall>y \<in> set ys. c x y = d x y" for c d :: "run \<Rightarrow> run \<Rightarrow> int" and x ys
    using that by (induction ys) auto
  have "js_sort c xs = js_sort d xs" if "\<forall>x \<in> set xs. \<forall>y \<in> set xs. c x y = d x y" for c d :: "run \<Rightarrow> run \<Rightarrow> int" and xs
    using that by (induction xs) (simp_all add: ins)
  then have sort: "?sort pipeline_key = ?sort (\<lambda>r. oor_str (run_enqueued_at r) [])" using keys by simp
  have "distinct (map run_id (?sort (\<lambda>r. oor_str (run_enqueued_at r) [])))" using assms(2) by simp
  then have "map (\<lambda>r. stageIndexOf E r runs) (?sort (\<lambda>r. oor_str (run_enqueued_at r) [])) = [1..<length runs + 1]"
    unfolding stageIndexOf_def by (intro nth_equalityI) (simp_all add: position_nth del: upt_Suc)
  moreover have "map stage_run (pipeline_stages E runs) = ?sort pipeline_key"
    by (simp add: pipeline_stages_def Let_def comp_def case_prod_beta)
  moreover have "map (\<lambda>s. stageIndexOf E (stage_run s) runs) (pipeline_stages E runs) =
      map (\<lambda>r. stageIndexOf E r runs) (map stage_run (pipeline_stages E runs))"
    by simp
  ultimately show ?thesis by (simp only: sort)
qed

lemma stage_numbers_agree_instance:
  "map (\<lambda>s. stageIndexOf ascii_platform (stage_run s) [(bare_run (js ''b'') (js ''done''))\<lparr>run_enqueued_at := Some (js ''2'')\<rparr>,
        (bare_run (js ''a'') (js ''done''))\<lparr>run_enqueued_at := Some (js ''1'')\<rparr>])
     (pipeline_stages ascii_platform [(bare_run (js ''b'') (js ''done''))\<lparr>run_enqueued_at := Some (js ''2'')\<rparr>,
        (bare_run (js ''a'') (js ''done''))\<lparr>run_enqueued_at := Some (js ''1'')\<rparr>]) = [1, 2]"
  using stage_numbers_agree [of "[(bare_run (js ''b'') (js ''done''))\<lparr>run_enqueued_at := Some (js ''2'')\<rparr>,
        (bare_run (js ''a'') (js ''done''))\<lparr>run_enqueued_at := Some (js ''1'')\<rparr>]" ascii_platform]
  by (simp add: bare_run_def upt_rec)

subsection \<open>Heartbeats\<close>

text \<open>A heartbeat is reported stale exactly when it is at least 120.5 seconds old, and healthy when it
  is younger or from the future; unknown only without a readable time.\<close>

lemma heartbeat_stale_iff:
  assumes "hb \<noteq> []" and "date_ms E hb = Some t" and "\<bar>now_ms E - t\<bar> < 2 ^ 52"
  shows "snd (heartbeatHealth E (Some hb)) = (if now_ms E - t \<ge> 120500 then Stale else Healthy)"
proof -
  let ?v = "now_ms E - t"
  have "max 0 (round_div ?v 1000) \<le> 120 \<longleftrightarrow> ?v < 120500"
  proof (cases "0 \<le> ?v")
    case True
    then have "round_div ?v 1000 = (2 * ?v + 1000) div 2000" using assms(3) by (simp add: round_div_nonneg)
    then show ?thesis by auto
  next
    case False
    then have "round_div ?v 1000 \<le> 0" using round_div_neg_bounds(3) [of 1000 "- ?v"] assms(3) by simp
    then show ?thesis using False by auto
  qed
  then show ?thesis using assms(1,2) by (auto simp: heartbeatHealth_def secondsBetween_def Let_def)
qed

lemma heartbeat_stale_iff_instance:
  "snd (heartbeatHealth (ascii_platform\<lparr>now_ms := 200000\<rparr>) (Some (js ''0''))) = Stale"
  using heartbeat_stale_iff [of "js ''0''" "ascii_platform\<lparr>now_ms := 200000\<rparr>" 0]
  by (simp add: ascii_platform_def js_def is_digit_def digits_val_def digit_val_def)

subsection \<open>Escaped error text\<close>

text \<open>The server's error messages may arrive with HTML escapes.\<close>

definition html_escape_char :: "code_unit \<Rightarrow> jstr" where
  "html_escape_char c =
     (if c = 38 then js ''&amp;'' else if c = 60 then js ''&lt;'' else if c = 62 then js ''&gt;''
      else if c = 34 then js ''&quot;'' else if c = 39 then js ''&#39;'' else [c])"

definition html_escape :: "jstr \<Rightarrow> jstr" where
  "html_escape s = concat (map html_escape_char s)"

text \<open>A text made of tokens: single characters other than the ampersand, and entities.\<close>

definition entities :: "jstr set" where
  "entities = {js ''&amp;'', js ''&lt;'', js ''&gt;'', js ''&quot;'', js ''&#39;''}"

definition token :: "jstr \<Rightarrow> bool" where
  "token t \<longleftrightarrow> (\<exists>c. c \<noteq> 38 \<and> t = [c]) \<or> t \<in> entities"

lemma replace_all_skip:
  "\<forall>k < length w. m (drop k w @ s) = None \<Longrightarrow> replace_all m r (w @ s) = w @ replace_all m r s"
proof (induction w)
  case (Cons c w)
  have "m (c # w @ s) = None" using Cons.prems [rule_format, of 0] by simp
  moreover have "\<forall>k < length w. m (drop k w @ s) = None" using Cons.prems by fastforce
  ultimately show ?case using Cons.IH by simp
qed simp

lemma replace_all_hit: "m (w @ s) = Some (length w) \<Longrightarrow> w \<noteq> [] \<Longrightarrow> replace_all m r (w @ s) = r @ replace_all m r s"
  by (cases w) auto

lemma match_ci_char: "c \<noteq> 38 \<Longrightarrow> match_ci (38 # p) (c # s) = None"
  by (auto simp: match_ci_def ci_eq_def ascii_lower_def split: if_splits)

lemma match_ci_entity:
  assumes "e \<in> insert (js ''&nbsp;'') entities" and "t \<in> entities"
  shows "match_ci e (t @ s) = (if t = e then Some (length e) else None)"
  using assms by (auto simp: entities_def match_ci_def ci_eq_def js_def ascii_lower_def)

lemma entity_tail: "t \<in> entities \<Longrightarrow> 0 < k \<Longrightarrow> k < length t \<Longrightarrow> \<exists>c u. drop k t = c # u \<and> c \<noteq> 38"
proof -
  assume t: "t \<in> entities" and k: "0 < k" "k < length t"
  have "38 \<notin> set (drop 1 t)" using t by (auto simp: entities_def js_def)
  moreover have "set (drop k t) \<subseteq> set (drop 1 t)" using k by (intro set_drop_subset_set_drop) simp
  moreover obtain c u where "drop k t = c # u" using k by (cases "drop k t") auto
  ultimately show ?thesis by auto
qed

lemma entity_literal: "e \<in> insert (js ''&nbsp;'') entities \<Longrightarrow> \<exists>p. e = 38 # p"
  by (auto simp: entities_def js_def)

lemma replace_entity:
  assumes e: "e \<in> insert (js ''&nbsp;'') entities"
  shows "\<forall>c \<in> set s. token (f c) \<Longrightarrow>
    replace_all (match_ci e) r (concat (map f s)) = concat (map (\<lambda>c. if f c = e then r else f c) s)"
proof (induction s)
  case (Cons c s)
  obtain p where p: "e = 38 # p" using entity_literal [OF e] by blast
  let ?rest = "concat (map f s)"
  consider d where "d \<noteq> 38" "f c = [d]" | "f c \<in> entities" "f c = e" | "f c \<in> entities" "f c \<noteq> e"
    using Cons.prems by (auto simp: token_def)
  then have "replace_all (match_ci e) r (f c @ ?rest) = (if f c = e then r else f c) @ replace_all (match_ci e) r ?rest"
  proof cases
    case 1
    then show ?thesis using p match_ci_char [of d p ?rest] by simp
  next
    case 2
    then have "match_ci e (f c @ ?rest) = Some (length (f c))" using match_ci_entity [OF e 2(1), of ?rest] by simp
    then show ?thesis using replace_all_hit [of "match_ci e" "f c" ?rest r] p 2(2) by simp
  next
    case 3
    have "match_ci e (drop k (f c) @ ?rest) = None" if k: "k < length (f c)" for k
    proof (cases k)
      case 0
      then show ?thesis using match_ci_entity [OF e 3(1)] 3(2) by simp
    next
      case (Suc j)
      then obtain d u where "drop k (f c) = d # u" "d \<noteq> 38" using entity_tail [OF 3(1) _ k] by auto
      then show ?thesis using p match_ci_char by simp
    qed
    then show ?thesis using replace_all_skip [of "f c" "match_ci e" ?rest r] 3(2) by simp
  qed
  then show ?case using Cons by simp
qed simp

lemma concat_map_single: "(\<And>c. c \<in> set s \<Longrightarrow> h c = [c]) \<Longrightarrow> concat (map h s) = s"
  by (induction s) auto

lemma replace_br_id: "60 \<notin> set s \<Longrightarrow> replace_all match_br r s = s"
proof -
  assume s: "60 \<notin> set s"
  have "match_br (drop k s) = None" if k: "k < length s" for k
  proof -
    obtain c u where c: "drop k s = c # u" using k by (cases "drop k s") auto
    then have "c \<noteq> 60" using s set_drop_subset [of k s] by auto
    then have "ascii_lower c \<noteq> 60" by (auto simp: ascii_lower_def split: if_splits)
    then have "\<not> ci_eq (take 3 (c # u)) (js ''<br'')" by (simp add: ci_eq_def js_def) (simp add: ascii_lower_def)
    then show ?thesis unfolding c match_br_def by simp
  qed
  then show ?thesis using replace_all_skip [of s match_br "[]" r] by simp
qed

lemma unescape_html:
  "replace_all (match_ci (js ''&amp;'')) (js ''&'')
    (replace_all (match_ci (js ''&#39;'')) [39]
    (replace_all (match_ci (js ''&quot;'')) [34]
    (replace_all (match_ci (js ''&gt;'')) (js ''>'')
    (replace_all (match_ci (js ''&lt;'')) (js ''<'')
    (replace_all (match_ci (js ''&nbsp;'')) (js '' '')
    (replace_all match_br [LF] (html_escape s))))))) = s"
proof -
  have "60 \<notin> set (html_escape s)"
    by (auto simp: html_escape_def html_escape_char_def js_def split: if_splits)
  then have br: "replace_all match_br [LF] (html_escape s) = concat (map html_escape_char s)"
    by (simp add: replace_br_id html_escape_def)
  have e: "js ''&nbsp;'' \<in> insert (js ''&nbsp;'') entities" "js ''&lt;'' \<in> insert (js ''&nbsp;'') entities"
    "js ''&gt;'' \<in> insert (js ''&nbsp;'') entities" "js ''&quot;'' \<in> insert (js ''&nbsp;'') entities"
    "js ''&#39;'' \<in> insert (js ''&nbsp;'') entities" "js ''&amp;'' \<in> insert (js ''&nbsp;'') entities"
    by (simp_all add: entities_def)
  have tok: "token (html_escape_char c)" "token [60]" "token [62]" "token [34]" "token [39]" "token [32]" for c
    by (auto simp: token_def entities_def html_escape_char_def)
  have chars: "js ''>'' = [62]" "js ''<'' = [60]" "js '' '' = [32]" "js ''&'' = [38]" by (simp_all add: js_def)
  show ?thesis
    unfolding br
    by (simp add: replace_entity [OF e(1)] replace_entity [OF e(2)] replace_entity [OF e(3)] replace_entity [OF e(4)]
        replace_entity [OF e(5)] replace_entity [OF e(6)] tok chars, rule concat_map_single)
      (auto simp: html_escape_char_def js_def)
qed

text \<open>Error text survives HTML escaping: for every text, cleaning up its escaped form (ampersand, angle
  brackets, quotes) gives back the text itself, trimmed and with the line break behind a leading
  stderr mark; nothing is decoded twice, and the line-break clean-up does not touch escaped tags.\<close>

lemma normalizeRunMessage_unescapes:
  "normalizeRunMessage (Some (html_escape s)) = trim (stderr_prefix s)"
proof (cases "s = []")
  case False
  then have "html_escape s \<noteq> []"
    by (cases s) (auto simp: html_escape_def html_escape_char_def js_def)
  then show ?thesis using unescape_html [of s] by (simp add: normalizeRunMessage_def)
qed (simp add: normalizeRunMessage_def html_escape_def stderr_prefix_def ci_eq_def js_def)

text \<open>The token counts shown are rounded to the nearest displayed unit (up to the rounding of one
  double division), but the unit is chosen before rounding: 999950 tokens are shown as 1000.0k, not
  as 1.00M.\<close>

lemma formatTokens_rounds:
  "(0 \<le> n \<longrightarrow> n < 1000 \<longrightarrow> formatTokens (Some n) = int_str n) \<and>
   (1000 \<le> n \<longrightarrow> n < 1000000 \<longrightarrow>
     formatTokens (Some n) = toFixed (fdiv (nat n) 1000) 1 @ js ''k'' \<and>
     \<bar>fixed_units (fdiv (nat n) 1000) 1 / 10 - n / 1000\<bar> \<le> 1 / 20 + n / 1000 / 2 ^ 53) \<and>
   (1000000 \<le> n \<longrightarrow>
     formatTokens (Some n) = toFixed (fdiv (nat n) 1000000) 2 @ js ''M'' \<and>
     \<bar>fixed_units (fdiv (nat n) 1000000) 2 / 100 - n / 1000000\<bar> \<le> 1 / 200 + n / 1000000 / 2 ^ 53) \<and>
   (formatTokens (Some 999950) = js ''1000.0k'')"
proof -
  have p1: "0 \<le> n \<Longrightarrow> n < 1000 \<Longrightarrow> formatTokens (Some n) = int_str n" by (simp add: formatTokens_def)
  have p2: "formatTokens (Some 999950) = js ''1000.0k''" by (simp add: formatTokens_def num_eval)
  have p3: "formatTokens (Some n) = toFixed (fdiv (nat n) 1000) 1 @ js ''k'' \<and>
     \<bar>fixed_units (fdiv (nat n) 1000) 1 / 10 - n / 1000\<bar> \<le> 1 / 20 + n / 1000 / 2 ^ 53"
    if "1000 \<le> n" "n < 1000000"
    using toFixed_error [of 1000 "nat n" 1] that by (simp add: formatTokens_def fixed_div_def)
  have p4: "formatTokens (Some n) = toFixed (fdiv (nat n) 1000000) 2 @ js ''M'' \<and>
     \<bar>fixed_units (fdiv (nat n) 1000000) 2 / 100 - n / 1000000\<bar> \<le> 1 / 200 + n / 1000000 / 2 ^ 53"
    if "1000000 \<le> n"
    using toFixed_error [of 1000000 "nat n" 2] that by (simp add: formatTokens_def fixed_div_def)
  show ?thesis using p1 p2 p3 p4 by blast
qed

lemma formatTokens_rounds_instance:
  "formatTokens (Some 999) = js ''999'' \<and> formatTokens (Some 1500) = toFixed (fdiv 1500 1000) 1 @ js ''k'' \<and>
   formatTokens (Some 2500000) = toFixed (fdiv 2500000 1000000) 2 @ js ''M''"
  using formatTokens_rounds [of 999] formatTokens_rounds [of 1500] formatTokens_rounds [of 2500000]
  by (simp add: int_str_def nat_str.simps js_def)

end
