(* ===== verification/Mentions.thy ===== *)
theory Mentions
  imports Widgets
begin

section \<open>Mention autocompletion\<close>

text \<open>
  Models \<^verbatim>\<open>web/src/components/MentionAutocomplete.tsx\<close>: the mention being typed before the cursor, the
  agents suggested for it, the keyboard handling of the suggestion list, and the insertion of a
  chosen agent. The cursor is \<^verbatim>\<open>selectionStart\<close> of the text area, an input of every step.
\<close>

record mention_query =
  mq_start :: nat
  mq_end :: nat
  mq_term :: jstr

definition maxSuggestions :: nat where
  "maxSuggestions = 6"

definition mention_char :: "code_unit \<Rightarrow> bool" where
  "mention_char c \<longleftrightarrow> c \<noteq> 64 \<and> \<not> is_ws c"

text \<open>\<^verbatim>\<open>/(^|\s)@([^@\s]*)$/\<close>: the term is the longest suffix without a blank or an at sign (a match has
  to reach the end of the text), an at sign has to precede it, and before that the text begins or
  has a blank.\<close>

definition getMentionQuery :: "jstr \<Rightarrow> nat \<Rightarrow> mention_query option" where
  "getMentionQuery v cursor =
     (let beforeCursor = take cursor v;
          term = rev (takeWhile mention_char (rev beforeCursor));
          front = take (length beforeCursor - length term) beforeCursor
      in if front \<noteq> [] \<and> last front = 64 \<and> (butlast front = [] \<or> is_ws (last (butlast front)))
         then Some \<lparr>mq_start = length beforeCursor - length term - 1, mq_end = cursor, mq_term = term\<rparr>
         else None)"

definition suggestions :: "platform \<Rightarrow> agent list \<Rightarrow> mention_query option \<Rightarrow> agent list" where
  "suggestions E agents query = (case query of
       None \<Rightarrow> []
     | Some q \<Rightarrow>
         (let term = toLowerCase E (mq_term q) in
          take maxSuggestions
            (filter (\<lambda>agent. term = [] \<or> includes_str (toLowerCase E (ag_name agent)) term) agents)))"

definition showSuggestions :: "platform \<Rightarrow> agent list \<Rightarrow> mention_query option \<Rightarrow> bool" where
  "showSuggestions E agents query \<longleftrightarrow> query \<noteq> None \<and> suggestions E agents query \<noteq> []"

text \<open>The text handed to \<^verbatim>\<open>onChange\<close> and the cursor restored afterwards.\<close>

definition insertAgent :: "jstr \<Rightarrow> mention_query option \<Rightarrow> agent \<Rightarrow> (jstr \<times> nat) option" where
  "insertAgent v query agent = (case query of
       None \<Rightarrow> None
     | Some q \<Rightarrow>
         Some (take (mq_start q) v @ js ''@'' @ ag_name agent @ js '' '' @ drop (mq_end q) v,
               mq_start q + length (ag_name agent) + 2))"

datatype mention_key = ArrowDown | ArrowUp | Enter | Tab | OtherKey

text \<open>The handler of a key: the new highlighted index and the agent inserted; \<open>None\<close>: the key is left to
  the browser.\<close>

definition mention_keydown ::
  "platform \<Rightarrow> agent list \<Rightarrow> jstr \<Rightarrow> nat \<Rightarrow> nat \<Rightarrow> mention_key \<Rightarrow> (nat \<times> (jstr \<times> nat) option) option" where
  "mention_keydown E agents v cursor highlighted key =
     (let query = getMentionQuery v cursor; sug = suggestions E agents query; n = length sug in
      if \<not> showSuggestions E agents query then None
      else (case key of
              ArrowDown \<Rightarrow> Some ((highlighted + 1) mod n, None)
            | ArrowUp \<Rightarrow> Some (nat ((int highlighted - 1 + int n) mod int n), None)
            | OtherKey \<Rightarrow> None
            | _ \<Rightarrow> (let agent = (if highlighted < n then sug ! highlighted else sug ! 0) in
                   Some (0, insertAgent v query agent))))"

text \<open>The messages: a change of the text (which resets the highlight), a key, and a click on an agent.\<close>

definition MentionAutocomplete ::
  "platform \<Rightarrow> jstr \<Rightarrow> agent list \<Rightarrow> jstr option \<Rightarrow> bool \<Rightarrow> bool \<Rightarrow> nat \<Rightarrow> nat \<Rightarrow> jstr \<Rightarrow>
   (jstr \<Rightarrow> 'm) \<Rightarrow> 'm \<Rightarrow> (agent \<Rightarrow> 'm) \<Rightarrow> 'm node" where
  "MentionAutocomplete E v agents placeholder required disabled cursor highlighted helpID onChange onKeyDown onInsert =
     (let query = getMentionQuery v cursor; sug = suggestions E agents query in
      El ''div'' [cls ''mention-autocomplete'']
        ([El ''textarea'' (attr_opt ''placeholder'' placeholder @
             [A ''value'' v, B ''required'' required, B ''disabled'' disabled, A ''aria-describedby'' helpID,
              OnValue ''onChange'' onChange, On ''onKeyDown'' onKeyDown]) [],
          El ''p'' [A ''id'' helpID, cls ''field-hint'']
            [Text ko_mention_hint]] @
         render_if (showSuggestions E agents query)
           [El ''div'' [cls ''mention-suggestions'', A ''role'' (js ''listbox''), A ''aria-label'' ko_mention_candidates]
              (map (\<lambda>(index, agent).
                 El ''button'' [A ''type'' (js ''button''), A ''role'' (js ''option''), B ''aria-selected'' (index = highlighted),
                     cls (if index = highlighted then ''active'' else ''''), On ''onClick'' (onInsert agent)]
                   [El ''strong'' [] [T ''@'', Text (ag_name agent)],
                    El ''small'' [] [Text (ag_runtime agent),
                      Text (if truthy_str (ag_model agent) then ko_middot @ nullish (ag_model agent) [] else [])]])
                 (enumerate 0 sug))]))"

subsection \<open>The query before the cursor\<close>

lemma query_shape:
  assumes "getMentionQuery v cursor = Some q"
  shows "\<exists>pre. take cursor v = pre @ [64] @ mq_term q \<and> mq_start q = length pre \<and> mq_end q = cursor \<and>
    (pre = [] \<or> is_ws (last pre)) \<and> list_all mention_char (mq_term q)"
proof -
  define b t where "b = take cursor v" and "t = rev (takeWhile mention_char (rev b))"
  have split: "b = take (length b - length t) b @ t"
  proof -
    have "rev b = takeWhile mention_char (rev b) @ dropWhile mention_char (rev b)" by simp
    then have "b = rev (dropWhile mention_char (rev b)) @ t" by (metis rev_append rev_rev_ident t_def)
    then show ?thesis by (metis append_eq_conv_conj length_append diff_add_inverse2)
  qed
  define f where "f = take (length b - length t) b"
  have q: "f \<noteq> []" "last f = 64" "butlast f = [] \<or> is_ws (last (butlast f))"
    "q = \<lparr>mq_start = length b - length t - 1, mq_end = cursor, mq_term = t\<rparr>"
    using assms unfolding getMentionQuery_def Let_def b_def [symmetric] t_def [symmetric] f_def [symmetric]
    by (auto split: if_splits)
  then have fb: "f = butlast f @ [64]" by (metis append_butlast_last_id)
  then have "b = butlast f @ [64] @ t" using split f_def by (metis append_assoc)
  moreover have "length b - length t - 1 = length (butlast f)" using split f_def by (metis diff_add_inverse2 length_append length_butlast)
  moreover have "list_all mention_char t" by (auto simp: t_def list_all_iff dest: set_takeWhileD)
  ultimately show ?thesis using q b_def by auto
qed

text \<open>C27: Choosing a suggestion replaces exactly the mention being typed: the text before the at sign and
  the text behind the cursor stay as they are, the mention becomes the agent's name followed by a
  blank, the cursor lands behind that blank, and no mention is being typed there any more, so the
  list closes.\<close>

theorem insertAgent_correct:
  assumes "getMentionQuery v cursor = Some q" and "cursor \<le> length v"
  shows "\<exists>pre post. v = pre @ js ''@'' @ mq_term q @ post \<and> length (pre @ js ''@'' @ mq_term q) = cursor \<and>
    insertAgent v (Some q) agent =
      Some (pre @ js ''@'' @ ag_name agent @ js '' '' @ post, length (pre @ js ''@'' @ ag_name agent @ js '' '')) \<and>
    getMentionQuery (pre @ js ''@'' @ ag_name agent @ js '' '' @ post)
      (length (pre @ js ''@'' @ ag_name agent @ js '' '')) = None"
proof -
  obtain pre where pre: "take cursor v = pre @ [64] @ mq_term q" "mq_start q = length pre" "mq_end q = cursor"
    using query_shape [OF assms(1)] by blast
  have v: "v = pre @ [64] @ mq_term q @ drop cursor v"
    using append_take_drop_id [of cursor v] pre(1) by simp
  have len: "length (pre @ [64] @ mq_term q) = cursor" using pre(1) assms(2) by (metis length_take min.absorb2)
  have front: "take (length pre) v = pre" using v by (metis append_eq_conv_conj)
  have chars: "js ''@'' = [64]" "js '' '' = [32]" by (simp_all add: js_def)
  have closed: "getMentionQuery (w @ [32] @ post) (length (w @ [32])) = None" for w post
    by (simp add: getMentionQuery_def mention_char_def is_ws_def)
  show ?thesis unfolding chars
  proof (intro exI conjI)
    show "v = pre @ [64] @ mq_term q @ drop cursor v" by (rule v)
    show "length (pre @ [64] @ mq_term q) = cursor" by (rule len)
    show "insertAgent v (Some q) agent =
        Some (pre @ [64] @ ag_name agent @ [32] @ drop cursor v, length (pre @ [64] @ ag_name agent @ [32]))"
      by (simp add: insertAgent_def pre(2,3) front chars)
    show "getMentionQuery (pre @ [64] @ ag_name agent @ [32] @ drop cursor v) (length (pre @ [64] @ ag_name agent @ [32])) = None"
      using closed [of "pre @ [64] @ ag_name agent" "drop cursor v"] by simp
  qed
qed

theorem insertAgent_correct_witness:
  "let q = \<lparr>mq_start = 3, mq_end = 6, mq_term = js ''le''\<rparr>; lead = bare_agent (js ''1'') (js ''lead'') in
   getMentionQuery (js ''hi @le'') 6 = Some q \<and>
   (\<exists>pre post. js ''hi @le'' = pre @ js ''@'' @ mq_term q @ post \<and> length (pre @ js ''@'' @ mq_term q) = 6 \<and>
    insertAgent (js ''hi @le'') (Some q) lead =
      Some (pre @ js ''@'' @ ag_name lead @ js '' '' @ post, length (pre @ js ''@'' @ ag_name lead @ js '' '')) \<and>
    getMentionQuery (pre @ js ''@'' @ ag_name lead @ js '' '' @ post)
      (length (pre @ js ''@'' @ ag_name lead @ js '' '')) = None)"
proof -
  have q: "getMentionQuery (js ''hi @le'') 6 = Some \<lparr>mq_start = 3, mq_end = 6, mq_term = js ''le''\<rparr>"
    by (simp add: getMentionQuery_def js_def mention_char_def is_ws_def)
  have "6 \<le> length (js ''hi @le'')" by simp
  then show ?thesis unfolding Let_def using q insertAgent_correct [OF q] by blast
qed

text \<open>The suggestion list is bounded and the keyboard never leaves it: at most six agents are
  suggested, each with the typed term in its name (ignoring case) and in the order of the roster;
  while the list is shown the arrow keys move the highlight to a position inside the list, up and
  down undo each other, and Enter and Tab insert a suggested agent.\<close>

lemma mention_keyboard_stays_in_list:
  assumes "showSuggestions E agents (getMentionQuery v cursor)"
  shows "let q = the (getMentionQuery v cursor); sug = suggestions E agents (Some q); n = length sug in
    getMentionQuery v cursor = Some q \<and> 0 < n \<and> n \<le> 6 \<and> set sug \<subseteq> set agents \<and>
    (\<forall>a \<in> set sug. includes_str (toLowerCase E (ag_name a)) (toLowerCase E (mq_term q))) \<and>
    (\<exists>down up. mention_keydown E agents v cursor h ArrowDown = Some (down, None) \<and> down < n \<and>
       mention_keydown E agents v cursor h ArrowUp = Some (up, None) \<and> up < n \<and>
       (h < n \<longrightarrow> mention_keydown E agents v cursor down ArrowUp = Some (h, None) \<and>
                  mention_keydown E agents v cursor up ArrowDown = Some (h, None))) \<and>
    (\<exists>a \<in> set sug. mention_keydown E agents v cursor h Enter = Some (0, insertAgent v (Some q) a) \<and>
       mention_keydown E agents v cursor h Tab = Some (0, insertAgent v (Some q) a))"
proof -
  obtain q where q: "getMentionQuery v cursor = Some q"
    and ne: "suggestions E agents (Some q) \<noteq> []" using assms by (auto simp: showSuggestions_def)
  define sug n where "sug = suggestions E agents (Some q)" and "n = length sug"
  have n: "0 < n" "n \<le> 6" using ne by (auto simp: n_def sug_def suggestions_def maxSuggestions_def Let_def)
  have kd: "mention_keydown E agents v cursor i ArrowDown = Some ((i + 1) mod n, None)"
    "mention_keydown E agents v cursor i ArrowUp = Some (nat ((int i - 1 + int n) mod int n), None)" for i
    using assms by (simp_all add: mention_keydown_def Let_def q n_def sug_def)
  have up: "(nat ((int i - 1 + int n) mod int n)) = (if i = 0 then n - 1 else i - 1)" if "i < n" for i
  proof -
    have "int i - 1 + int n = int (i + n - 1)" using n(1) by simp
    then have "nat ((int i - 1 + int n) mod int n) = (i + n - 1) mod n" by (simp only: nat_int flip: zmod_int)
    then show ?thesis using that by (cases i) auto
  qed
  have "(let agent = (if h < n then sug ! h else sug ! 0) in agent) \<in> set sug" using n(1) by (simp add: n_def)
  then have ins: "\<exists>a \<in> set sug. mention_keydown E agents v cursor h Enter = Some (0, insertAgent v (Some q) a) \<and>
       mention_keydown E agents v cursor h Tab = Some (0, insertAgent v (Some q) a)"
    using assms by (intro bexI [of _ "if h < n then sug ! h else sug ! 0"])
      (simp_all add: mention_keydown_def Let_def q n_def sug_def)
  have upd: "nat ((int ((h + 1) mod n) - 1 + int n) mod int n) = h" "(nat ((int h - 1 + int n) mod int n) + 1) mod n = h" if "h < n"
    using up [of "(h + 1) mod n"] up [OF that] that by (cases "h + 1 = n"; auto)+
  have sub: "set sug \<subseteq> set agents" "\<forall>a \<in> set sug. includes_str (toLowerCase E (ag_name a)) (toLowerCase E (mq_term q))"
    by (auto simp: sug_def suggestions_def Let_def dest!: in_set_takeD)
      (metis append_Nil includes_append)
  show ?thesis
    unfolding Let_def q option.sel sug_def [symmetric] n_def [symmetric]
    using n sub ins upd by (simp add: kd nat_less_iff)
qed

lemma mention_keyboard_stays_in_list_instance:
  "length (suggestions ascii_platform [bare_agent (js ''1'') (js ''lead'')] (getMentionQuery (js ''@L'') 2)) \<le> 6 \<and>
   showSuggestions ascii_platform [bare_agent (js ''1'') (js ''lead'')] (getMentionQuery (js ''@L'') 2)"
proof -
  have s: "showSuggestions ascii_platform [bare_agent (js ''1'') (js ''lead'')] (getMentionQuery (js ''@L'') 2)"
    by (simp add: showSuggestions_def suggestions_def getMentionQuery_def js_def mention_char_def is_ws_def
        maxSuggestions_def bare_agent_def ascii_lower_def startsWith_def)
  then show ?thesis
    using mention_keyboard_stays_in_list [OF s, of 0] by (auto simp: Let_def showSuggestions_def)
qed

end
