(* ===== verification/Effects.thy ===== *)
theory Effects
  imports Queries Toasts "HOL-Library.Sublist"
begin

section \<open>Effects of event handlers\<close>

text \<open>
  What the handlers of the pages do outside their own state: start a mutation, which sends a request
  of the API client, mark cached queries as stale, show a toast, change the address, and refetch.
  A handler is modelled by a function to the new state and the list of its effects, in order. The
  outcome of a mutation comes back as a message of its own, as TanStack Query calls the mutation's
  callbacks.
\<close>

datatype api_call =
    CGet jstr
  | CPost jstr "json option"
  | CPut jstr "json option"
  | CDelete jstr
  | CPostForm jstr "(string \<times> jstr) list"

fun call_path :: "api_call \<Rightarrow> jstr" where
  "call_path (CGet p) = p"
| "call_path (CPost p b) = p"
| "call_path (CPut p b) = p"
| "call_path (CDelete p) = p"
| "call_path (CPostForm p f) = p"

text \<open>The request the client sends for a call.\<close>

fun call_request :: "jstr option \<Rightarrow> window \<Rightarrow> api_call \<Rightarrow> http_request" where
  "call_request env w (CGet p) = client_get env w p"
| "call_request env w (CPost p b) = client_post env w p b"
| "call_request env w (CPut p b) = client_put env w p b"
| "call_request env w (CDelete p) = client_delete env w p"
| "call_request env w (CPostForm p f) = client_postMultipart env w p f"

datatype effect =
    Mutate api_call
  | Invalidate "key_part list"
  | ShowToast toast_tone jstr "jstr option"   \<comment> \<open>tone, title, description\<close>
  | SetSearch search_params                   \<comment> \<open>\<^verbatim>\<open>setSearchParams(..., { replace: true })\<close>\<close>
  | Navigate jstr
  | Refetch "key_part list"

text \<open>What a component sees of a mutation.\<close>

record mutation =
  m_pending :: bool
  m_error :: "thrown option"

abbreviation m_isError :: "mutation \<Rightarrow> bool" where
  "m_isError m \<equiv> m_error m \<noteq> None"

definition idle_mutation :: mutation where
  "idle_mutation = \<lparr>m_pending = False, m_error = None\<rparr>"

lemma idle_mutation_simps [simp]: "m_pending idle_mutation = False" "m_error idle_mutation = None"
  by (simp_all add: idle_mutation_def)

text \<open>A query with the given data, neither loading nor failed.\<close>

definition loaded_query :: "'a option \<Rightarrow> 'a query_result" where
  "loaded_query d = \<lparr>qr_data = d, qr_isLoading = False, qr_isFetching = False, qr_error = None\<rparr>"

lemma loaded_query_simps [simp]:
  "qr_data (loaded_query d) = d" "qr_isLoading (loaded_query d) = False" "qr_isFetching (loaded_query d) = False"
  "qr_error (loaded_query d) = None"
  by (simp_all add: loaded_query_def)

text \<open>\<^verbatim>\<open>invalidateQueries({ queryKey })\<close> marks the queries whose key starts with the given key; that is the
  documented behaviour of the library and a parameter where a property depends on it.\<close>

definition key_covers :: "key_part list \<Rightarrow> key_part list \<Rightarrow> bool" where
  "key_covers k k' \<longleftrightarrow> prefix k k'"

text \<open>\<^verbatim>\<open>error instanceof Error ? error.message : fallback\<close>, a helper many pages repeat.\<close>

definition error_message_or :: "jstr \<Rightarrow> thrown \<Rightarrow> jstr" where
  "error_message_or fallback error = (case error of
       TApi e \<Rightarrow> err_message e | TAbort m \<Rightarrow> m | TError m \<Rightarrow> m | TValue _ \<Rightarrow> fallback)"

text \<open>The calls among the effects.\<close>

fun effect_call :: "effect \<Rightarrow> api_call option" where
  "effect_call (Mutate c) = Some c"
| "effect_call _ = None"

definition calls :: "effect list \<Rightarrow> api_call list" where
  "calls fx = List.map_filter effect_call fx"

lemma calls_simps [simp]:
  "calls [] = []" "calls (Mutate c # fx) = c # calls fx" "calls (Invalidate k # fx) = calls fx"
  "calls (ShowToast a b d # fx) = calls fx" "calls (SetSearch p # fx) = calls fx"
  "calls (Navigate url # fx) = calls fx" "calls (Refetch k # fx) = calls fx"
  "calls (fx @ gx) = calls fx @ calls gx"
  by (simp_all add: calls_def map_filter_def)

lemma calls_map_Invalidate [simp]: "calls (map (\<lambda>x. Invalidate (f x)) xs) = []"
  by (induction xs) simp_all

subsection \<open>Actions that need a confirmation\<close>

text \<open>
  The pages let an action that changes an issue wait for the confirmation dialog: a request stores it,
  the dialog's buttons confirm or close it. The interface: what waits in a state, the step of a
  message, the messages, the call an action stands for in a state, and the messages that send a call
  without asking. The client's theorem is about whole sequences of messages.
\<close>

fun steps :: "('m \<Rightarrow> 's \<Rightarrow> 's \<times> effect list) \<Rightarrow> 'm list \<Rightarrow> 's \<Rightarrow> 's" where
  "steps step [] s = s"
| "steps step (m # ms) s = steps step ms (fst (step m s))"

text \<open>The calls of a sequence of messages, each with the message that sent it.\<close>

fun sent :: "('m \<Rightarrow> 's \<Rightarrow> 's \<times> effect list) \<Rightarrow> 'm list \<Rightarrow> 's \<Rightarrow> ('m \<times> api_call) list" where
  "sent step [] s = []"
| "sent step (m # ms) s = map (Pair m) (calls (snd (step m s))) @ sent step ms (fst (step m s))"

lemma sent_append: "sent step (ms @ ns) s = sent step ms s @ sent step ns (steps step ms s)"
  by (induction ms arbitrary: s) simp_all

lemma steps_append: "steps step (ms @ ns) s = steps step ns (steps step ms s)"
  by (induction ms arbitrary: s) simp_all

text \<open>
  An interface for what holds in every session: an invariant that each message keeps, as long as the
  messages are of an allowed kind. A component can moreover be reloadable: what it shows again when it
  is started anew, from what it has left in the address or the storage, is what it showed.
\<close>

locale preserved =
  fixes step :: "'m \<Rightarrow> 's \<Rightarrow> 's \<times> effect list"
    and allowed :: "'m \<Rightarrow> bool"
    and inv :: "'s \<Rightarrow> bool"
  assumes inv_step: "inv s \<Longrightarrow> allowed m \<Longrightarrow> inv (fst (step m s))"
begin

lemma inv_steps: "inv s \<Longrightarrow> list_all allowed ms \<Longrightarrow> inv (steps step ms s)"
  by (induction ms arbitrary: s) (simp_all add: inv_step)

lemma inv_session: "inv s \<Longrightarrow> list_all allowed (ms @ m # ns) \<Longrightarrow> inv (fst (step m (steps step ms s)))"
  by (simp add: inv_step inv_steps)

end

locale reloadable = preserved +
  fixes reload :: "'s \<Rightarrow> 's"
    and shown :: "'s \<Rightarrow> 'v"
  assumes shown_reload: "inv s \<Longrightarrow> shown (reload s) = shown s"
begin

lemma reload_steps: "inv s \<Longrightarrow> list_all allowed ms \<Longrightarrow> shown (reload (steps step ms s)) = shown (steps step ms s)"
  by (simp add: shown_reload inv_steps)

end

lemma sent_split:
  "(m, c) \<in> set (sent step ms s) \<Longrightarrow>
     \<exists>ms1 ms2. ms = ms1 @ m # ms2 \<and> c \<in> set (calls (snd (step m (steps step ms1 s))))"
proof (induction ms arbitrary: s)
  case (Cons n ms)
  then consider "m = n" "c \<in> set (calls (snd (step n s)))" | "(m, c) \<in> set (sent step ms (fst (step n s)))"
    by auto
  then show ?case
  proof cases
    case 1
    then show ?thesis by (intro exI [of _ "[]"] exI [of _ ms]) simp
  next
    case 2
    from Cons.IH [OF this] obtain ms1 ms2 where
      "ms = ms1 @ m # ms2" "c \<in> set (calls (snd (step m (steps step ms1 (fst (step n s))))))" by blast
    then show ?thesis by (intro exI [of _ "n # ms1"] exI [of _ ms2]) simp
  qed
qed simp

locale confirmed_action =
  fixes pending :: "'s \<Rightarrow> 'p option"
    and step :: "'m \<Rightarrow> 's \<Rightarrow> 's \<times> effect list"
    and request :: "'p \<Rightarrow> 'm"
    and confirm :: 'm
    and close :: 'm
    and direct :: "'m \<Rightarrow> bool"
    and call_of :: "'s \<Rightarrow> 'p \<Rightarrow> api_call list"
  assumes pending_request: "pending (fst (step (request p) s)) = Some p"
    and pending_close: "pending (fst (step close s)) = None"
    and pending_only: "pending (fst (step m s)) = Some p \<Longrightarrow> pending s = Some p \<or> m = request p"
    and confirm_calls: "calls (snd (step confirm s)) = (case pending s of None \<Rightarrow> [] | Some p \<Rightarrow> call_of s p)"
    and quiet: "\<not> direct m \<Longrightarrow> m \<noteq> confirm \<Longrightarrow> calls (snd (step m s)) = []"
begin

text \<open>What waits was requested, with no closing since.\<close>

lemma pending_was_requested:
  "pending (steps step ms s) = Some p \<Longrightarrow> pending s \<noteq> Some p \<Longrightarrow>
     \<exists>ms1 ms2. ms = ms1 @ request p # ms2 \<and> close \<notin> set ms2"
proof (induction ms rule: rev_induct)
  case (snoc m ms)
  have "m \<noteq> close" using snoc.prems(1) pending_close by (auto simp: steps_append)
  from pending_only [of m "steps step ms s" p] snoc.prems(1)
  consider "pending (steps step ms s) = Some p" | "m = request p" by (auto simp: steps_append)
  then show ?case
  proof cases
    case 1
    from snoc.IH [OF this snoc.prems(2)] obtain ms1 ms2
      where "ms = ms1 @ request p # ms2" "close \<notin> set ms2" by blast
    then show ?thesis using \<open>m \<noteq> close\<close> by (intro exI [of _ ms1] exI [of _ "ms2 @ [m]"]) simp
  next
    case 2
    then show ?thesis by (intro exI [of _ ms] exI [of _ "[]"]) simp
  qed
qed simp

lemma sent_was_confirmed:
  assumes "pending s = None" "(m, c) \<in> set (sent step ms s)" "\<not> direct m"
  shows "m = confirm \<and> (\<exists>p ms1 ms2 ms3. ms = ms1 @ request p # ms2 @ confirm # ms3 \<and> close \<notin> set ms2 \<and>
           c \<in> set (call_of (steps step (ms1 @ request p # ms2) s) p))"
proof -
  from sent_split [OF assms(2)] obtain ms0 ms3 where
    ms: "ms = ms0 @ m # ms3" and c: "c \<in> set (calls (snd (step m (steps step ms0 s))))" by blast
  have m: "m = confirm" using quiet [OF assms(3)] c by fastforce
  from c obtain p where p: "pending (steps step ms0 s) = Some p" and cp: "c \<in> set (call_of (steps step ms0 s) p)"
    unfolding m confirm_calls by (cases "pending (steps step ms0 s)") auto
  from pending_was_requested [OF p] assms(1) obtain ms1 ms2
    where "ms0 = ms1 @ request p # ms2" "close \<notin> set ms2" by auto
  then show ?thesis using m ms cp by auto
qed

lemma request_confirm: "sent step [request p, confirm] s =
    map (Pair (request p)) (calls (snd (step (request p) s))) @ map (Pair confirm) (call_of (fst (step (request p) s)) p)"
  by (simp add: confirm_calls pending_request)

lemma close_confirm: "\<not> direct close \<Longrightarrow> close \<noteq> confirm \<Longrightarrow> sent step [close, confirm] s = []"
  by (simp add: confirm_calls pending_close quiet)

end

end
