(* ===== verification/IssuePanels.thy ===== *)
theory IssuePanels
  imports Effects ChainSummary RunLabels
begin

section \<open>Graph, chain and attachment panels of an issue\<close>

text \<open>
  Models \<^verbatim>\<open>IssueFlowGraph.tsx\<close>, \<^verbatim>\<open>ChainSummaryPanel.tsx\<close> and \<^verbatim>\<open>IssueAttachmentsPanel.tsx\<close> of
  \<^verbatim>\<open>web/src/components\<close>. The drawing of the graph itself is the library's (\<^verbatim>\<open>@xyflow/react\<close>): its nodes
  and edges are modelled.
\<close>

subsection \<open>The flow graph\<close>

record flow_node =
  fn_id :: jstr
  fn_label :: jstr
  fn_x :: int
  fn_y :: int
  fn_class :: jstr

record flow_edge =
  fe_id :: jstr
  fe_source :: jstr
  fe_target :: jstr
  fe_animated :: bool

definition normalizeAgentName :: "platform \<Rightarrow> jstr option \<Rightarrow> jstr" where
  "normalizeAgentName E name = toLowerCase E (trim (nullish name []))"

definition graphNode :: "jstr \<Rightarrow> jstr \<Rightarrow> int \<Rightarrow> int \<Rightarrow> jstr \<Rightarrow> flow_node" where
  "graphNode i label x y kind =
     \<lparr>fn_id = i, fn_label = label, fn_x = x, fn_y = y, fn_class = js ''flow-node flow-node-'' @ kind\<rparr>"

definition graphEdge :: "jstr \<Rightarrow> jstr \<Rightarrow> jstr \<Rightarrow> flow_edge" where
  "graphEdge source target i =
     \<lparr>fe_id = i, fe_source = source, fe_target = target, fe_animated = startsWith target (js ''run-'')\<rparr>"

text \<open>\<^verbatim>\<open>(index - (n - 1) / 2) * 220\<close> is a whole number.\<close>

definition graph_x :: "nat \<Rightarrow> nat \<Rightarrow> int" where
  "graph_x index n = (2 * int index - (int n - 1)) * 110"

definition sub_node :: "nat \<Rightarrow> nat \<times> issue \<Rightarrow> flow_node" where
  "sub_node n p = (case p of (index, sub) \<Rightarrow>
     graphNode (js ''subissue-'' @ issue_id sub) (issue_identifier sub @ [LF] @ issue_title sub) (graph_x index n) 150
       (js ''issue-'' @ issue_status_str (issue_status sub)))"

definition sub_edge :: "issue \<Rightarrow> issue \<Rightarrow> flow_edge" where
  "sub_edge issue sub =
     graphEdge (js ''issue-'' @ issue_id issue) (js ''subissue-'' @ issue_id sub) (js ''edge-sub-'' @ issue_id sub)"

definition run_node :: "platform \<Rightarrow> jstr \<Rightarrow> nat \<Rightarrow> bool \<Rightarrow> nat \<times> run \<Rightarrow> flow_node" where
  "run_node E mainAgentKey n has_subs p = (case p of (index, run) \<Rightarrow>
     (let isHub = (mainAgentKey \<noteq> [] \<and> normalizeAgentName E (run_agent_name run) = mainAgentKey);
          depthSuffix = (case run_chain_depth run of Some depth \<Rightarrow> ko_depth_eq @ int_str depth | None \<Rightarrow> []);
          hubSuffix = (if isHub then ko_hub_suffix else []);
          label = js ''@'' @ oor_str (run_agent_name run) (js ''-'') @ hubSuffix @ [LF] @ run_status run @ ko_middot @
            getTriggerLabel (run_trigger_type run) @ depthSuffix;
          kind = js ''run-'' @ run_status run @ (if isHub then js '' run-hub'' else [])
      in graphNode (js ''run-'' @ run_id run) label (graph_x index n) (if has_subs then 330 else 160) kind))"

definition run_edge :: "issue \<Rightarrow> run \<Rightarrow> flow_edge" where
  "run_edge issue run =
     graphEdge
       (if truthy_str (run_parent_run_id run) then js ''run-'' @ nullish (run_parent_run_id run) []
        else js ''issue-'' @ issue_id issue)
       (js ''run-'' @ run_id run) (js ''edge-run-'' @ run_id run)"

definition buildIssueFlowGraph ::
  "platform \<Rightarrow> issue \<Rightarrow> issue list \<Rightarrow> run list \<Rightarrow> jstr option \<Rightarrow> flow_node list \<times> flow_edge list" where
  "buildIssueFlowGraph E issue subIssues runs mainAgentName =
     (let mainAgentKey = normalizeAgentName E mainAgentName;
          sortedRuns = js_sort (run_order E) runs
      in ([graphNode (js ''issue-'' @ issue_id issue) (issue_identifier issue @ [LF] @ issue_title issue) 0 0 (js ''issue'')] @
            map (sub_node (length subIssues)) (enumerate 0 subIssues) @
            map (run_node E mainAgentKey (length sortedRuns) (subIssues \<noteq> [])) (enumerate 0 sortedRuns),
          map (sub_edge issue) subIssues @ map (run_edge issue) sortedRuns))"

text \<open>\<open>reactFlow\<close> stands for the drawing library.\<close>

definition IssueFlowGraph ::
  "(flow_node list \<times> flow_edge list \<Rightarrow> 'm node) \<Rightarrow> platform \<Rightarrow> issue \<Rightarrow> issue list \<Rightarrow> run list \<Rightarrow> jstr option \<Rightarrow> 'm node" where
  "IssueFlowGraph reactFlow E issue subIssues runs mainAgentName =
     (let graph = buildIssueFlowGraph E issue subIssues runs mainAgentName in
      if length (fst graph) \<le> 1
      then El ''p'' [cls ''muted-copy''] [Text ko_graph_empty]
      else El ''div'' [cls ''issue-flow-graph-wrap'', A ''aria-label'' ko_graph_label]
        [El ''p'' [cls ''issue-flow-graph__legend'']
           [Text ko_legend1, El ''code'' [] [T ''d=N''], Text ko_legend2, El ''code'' [] [T ''chain_depth''],
            Text ko_legend3, El ''code'' [] [T ''max_depth''],
            Text ko_legend4],
         El ''div'' [cls ''issue-flow-graph''] [reactFlow graph]])"

subsection \<open>Chain summaries with guards\<close>

datatype guard_status = GOk | GWarn | GOver

fun guard_str :: "guard_status \<Rightarrow> jstr" where
  "guard_str GOk = js ''ok''"
| "guard_str GWarn = js ''warn''"
| "guard_str GOver = js ''over''"

text \<open>The quotient is a double; the default of \<^verbatim>\<open>warnAt\<close>, 0.75, is used by every call.\<close>

definition classifyGuard :: "int \<Rightarrow> int option \<Rightarrow> guard_status" where
  "classifyGuard used limit = (case limit of
       None \<Rightarrow> GOk
     | Some l \<Rightarrow>
         if l \<le> 0 \<or> used < 0 then GOk
         else (let ratio = fdiv (nat used) (nat l) in
               if dge ratio 1 1 then GOver else if dge ratio 3 4 then GWarn else GOk))"

definition chain_formatCostMicros :: "int \<Rightarrow> jstr" where
  "chain_formatCostMicros v = (if v = 0 then js ''$0.0000'' else js ''$'' @ fixed_div v 1000000 4)"

definition plain_formatTokens :: "int \<Rightarrow> jstr" where
  "plain_formatTokens v =
     (if v \<ge> 1000000 then fixed_div v 1000000 2 @ js ''M''
      else if v \<ge> 1000 then fixed_div v 1000 1 @ js ''k''
      else int_str v)"

text \<open>\<^verbatim>\<open>s.replace('T', ' ')\<close> replaces the first occurrence.\<close>

fun replace_first :: "code_unit \<Rightarrow> code_unit \<Rightarrow> jstr \<Rightarrow> jstr" where
  "replace_first a b [] = []"
| "replace_first a b (c # s) = (if c = a then b # s else c # replace_first a b s)"

definition shortDate :: "jstr option \<Rightarrow> jstr" where
  "shortDate v = (if \<not> truthy_str v then ko_dash else replace_first 84 32 (take 19 (nullish v [])))"

definition isCancellable :: "chain_summary \<Rightarrow> bool" where
  "isCancellable s \<longleftrightarrow> lastStatus s = Some (js ''queued'') \<or> lastStatus s = Some (js ''running'')"

definition isRetryable :: "chain_summary \<Rightarrow> bool" where
  "isRetryable s \<longleftrightarrow> lastStatus s = Some (js ''failed'')"

definition row_guard :: "guard_status \<Rightarrow> guard_status \<Rightarrow> guard_status" where
  "row_guard depthGuard costGuard =
     (if depthGuard = GOver \<or> costGuard = GOver then GOver
      else if depthGuard = GWarn \<or> costGuard = GWarn then GWarn else GOk)"

datatype chain_msg = CancelChain jstr | RetryChain jstr | ChainDone

record chain_row_mutations =
  cr_cancel_pending :: bool
  cr_retry_pending :: bool

definition ChainSummaryRow :: "platform \<Rightarrow> chain_row_mutations \<Rightarrow> workspace option \<Rightarrow> chain_summary \<Rightarrow> chain_msg node" where
  "ChainSummaryRow E ms workspace s =
     (let depthLimit = Option.bind workspace ws_auto_chain_max_depth;
          costLimitMicros = Option.bind workspace ws_auto_chain_daily_cost_micros;
          depthGuard = classifyGuard (maxChainDepth s) depthLimit;
          costGuard = classifyGuard (totalCostMicros s) costLimitMicros
      in El ''div'' [cls ''chain-summary-row'', A ''data-guard'' (guard_str (row_guard depthGuard costGuard))]
        [El ''span'' [] [El ''code'' [cls ''chain-summary-row__id''] [T ''chain '', Text (take 8 (chainID s))]],
         El ''span'' [] [if truthy_str (lastStatus s) then StatusPill E PRun (nullish (lastStatus s) []) False else Text ko_dash],
         El ''span'' [cls ''chain-summary-cell-muted'']
           [Text (if truthy_str (lastAgentName s) then js ''@'' @ nullish (lastAgentName s) [] else ko_dash)],
         El ''span'' [] [Text (int_str (totalRuns s))],
         El ''span'' [A ''data-guard'' (guard_str depthGuard)]
           [Text (int_str (maxChainDepth s)),
            Text (if truthy_num depthLimit then js '' / '' @ int_str (nullish depthLimit 0) else [])],
         El ''span'' [] [Text (plain_formatTokens (totalInputTokens s)), T '' / '', Text (plain_formatTokens (totalOutputTokens s))],
         El ''span'' [A ''data-guard'' (guard_str costGuard)]
           [Text (chain_formatCostMicros (totalCostMicros s)),
            Text (if truthy_num costLimitMicros \<and> costGuard \<noteq> GOk
                  then ko_middot @ (if costGuard = GOver then ko_exceeded else ko_near) else [])],
         El ''span'' [cls ''chain-summary-cell-muted''] [Text (shortDate (firstEnqueuedAt s))],
         El ''span'' [cls ''chain-summary-cell-muted''] [Text (shortDate (lastActivityAt s))],
         El ''span'' [cls ''chain-summary-row__actions'']
           (render_if (isCancellable s)
              [El ''button'' [A ''type'' (js ''button''), A ''aria-label'' ko_cancel_chain,
                  cls ''button danger ghost chain-summary-row__cancel'', On ''onClick'' (CancelChain (chainID s)),
                  B ''disabled'' (cr_cancel_pending ms)]
                 [Text (if cr_cancel_pending ms then ko_cancelling else ko_cancel)]] @
            render_if (isRetryable s)
              [El ''button'' [A ''type'' (js ''button''), A ''aria-label'' ko_retry_chain,
                  cls ''button secondary ghost chain-summary-row__retry'', On ''onClick'' (RetryChain (chainID s)),
                  B ''disabled'' (cr_retry_pending ms)]
                 [Text (if cr_retry_pending ms then ko_restarting else ko_restart)]] @
            render_if (\<not> isCancellable s \<and> \<not> isRetryable s)
              [El ''span'' [cls ''chain-summary-cell-muted''] [Text ko_dash]])])"

definition invalidateAfterAction :: "jstr option \<Rightarrow> workspace option \<Rightarrow> effect list" where
  "invalidateAfterAction issueID workspace =
     (if truthy_str issueID then
        [Invalidate [kname ''issue'', kopt issueID], Invalidate [kname ''runs'', kopt issueID],
         Invalidate [kname ''comments'', kopt issueID]]
      else []) @
     (if truthy_str (map_option ws_slug workspace) then
        [Invalidate [kname ''workspace-runs'', kopt (map_option ws_slug workspace)],
         Invalidate [kname ''workspace-runs-feed'', kopt (map_option ws_slug workspace)]]
      else [])"

text \<open>The row's handlers; \<open>confirmed\<close> is the answer of \<^verbatim>\<open>window.confirm\<close>.\<close>

fun chain_update :: "jstr option \<Rightarrow> workspace option \<Rightarrow> bool \<Rightarrow> chain_msg \<Rightarrow> effect list" where
  "chain_update issueID workspace confirmed (CancelChain c) =
     (if confirmed then [Mutate (CPost (js ''/runs/chain/'' @ c @ js ''/cancel'') (Some (jobj [])))] else [])"
| "chain_update issueID workspace confirmed (RetryChain c) =
     [Mutate (CPost (js ''/runs/chain/'' @ c @ js ''/retry'') (Some (jobj [])))]"
| "chain_update issueID workspace confirmed ChainDone = invalidateAfterAction issueID workspace"

definition ChainSummaryPanel ::
  "platform \<Rightarrow> (jstr \<Rightarrow> chain_row_mutations) \<Rightarrow> run list \<Rightarrow> workspace option \<Rightarrow> chain_msg node list" where
  "ChainSummaryPanel E ms runs workspace =
     (if runs = [] then []
      else
        (let summaries = summarizeChains E runs in
         if summaries = [] then []
         else [El ''article'' [cls ''panel chain-summary-panel'']
           [El ''div'' [cls ''section-heading compact'']
              [El ''h2'' [] [Text ko_chain_summary], El ''span'' [cls ''badge''] [Text (nat_str (length summaries))]],
            El ''p'' [cls ''muted-copy'']
              [Text ko_chain_help1, El ''code'' [] [T ''chain_id''],
               Text ko_chain_help2],
            El ''div'' [cls ''chain-summary-table'']
              (El ''div'' [cls ''chain-summary-head'']
                 [El ''span'' [] [T ''Chain''], El ''span'' [] [Text ko_status], El ''span'' [] [T ''Agent''],
                  El ''span'' [] [T ''Run''], El ''span'' [] [T ''Depth''], El ''span'' [] [T ''Token''],
                  El ''span'' [] [T ''Cost''], El ''span'' [] [Text ko_started], El ''span'' [] [Text ko_last_activity],
                  El ''span'' [] [T ''Action'']] #
               map (\<lambda>s. ChainSummaryRow E (ms (chainID s)) workspace s) summaries)]]))"

subsection \<open>Attachments\<close>

definition MAX_BYTES :: nat where
  "MAX_BYTES = 10 * 1024 * 1024"

definition formatSize :: "int \<Rightarrow> jstr" where
  "formatSize bytes =
     (if bytes < 1024 then int_str bytes @ js '' B''
      else if bytes < 1024 * 1024 then fixed_div bytes 1024 1 @ js '' KB''
      else fixed_div bytes (1024 * 1024) 1 @ js '' MB'')"

record picked_file =
  file_name :: jstr
  file_size :: nat

record attachments_state =
  as_selected :: "picked_file option"
  as_error :: jstr

datatype attachments_msg =
    Pick "picked_file option"
  | Upload
  | UploadOk
  | UploadFailed thrown
  | Remove jstr jstr        \<comment> \<open>id and file name, before the question\<close>
  | RemoveOk

definition attachments_start :: attachments_state where
  "attachments_start = \<lparr>as_selected = None, as_error = []\<rparr>"

definition onPick :: "picked_file option \<Rightarrow> attachments_state \<Rightarrow> attachments_state" where
  "onPick f s =
     (if \<exists>x. f = Some x \<and> file_size x > MAX_BYTES
      then s\<lparr>as_error := ko_max_size1 @ formatSize (int MAX_BYTES) @ ko_max_size2, as_selected := None\<rparr>
      else s\<lparr>as_error := [], as_selected := f\<rparr>)"

fun attachments_update ::
  "jstr \<Rightarrow> bool \<Rightarrow> attachments_msg \<Rightarrow> attachments_state \<Rightarrow> attachments_state \<times> effect list" where
  "attachments_update issueID confirmed (Pick f) s = (onPick f s, [])"
| "attachments_update issueID confirmed Upload s =
     (s, case as_selected s of
           None \<Rightarrow> []
         | Some f \<Rightarrow> [Mutate (CPostForm (js ''/issues/'' @ issueID @ js ''/attachments'') [(''file'', file_name f)])])"
| "attachments_update issueID confirmed UploadOk s =
     (\<lparr>as_selected = None, as_error = []\<rparr>, [Invalidate [kname ''attachments'', KS issueID]])"
| "attachments_update issueID confirmed (UploadFailed e) s =
     (s\<lparr>as_error := error_message_or ko_upload_failed e\<rparr>, [])"
| "attachments_update issueID confirmed (Remove i name) s =
     (s, if confirmed then [Mutate (CDelete (js ''/attachments/'' @ i))] else [])"
| "attachments_update issueID confirmed RemoveOk s = (s, [Invalidate [kname ''attachments'', KS issueID]])"

definition AttachmentRow :: "attachment \<Rightarrow> attachments_msg node" where
  "AttachmentRow a =
     El ''li'' [cls ''attachment-row'']
       (render_if (startsWith (at_content_type a) (js ''image/''))
          [El ''a'' [cls ''attachment-row__preview'', A ''href'' (at_download_url a), A ''target'' (js ''_blank''), A ''rel'' (js ''noreferrer'')]
             [El ''img'' [A ''src'' (at_download_url a), A ''alt'' (at_filename a), A ''loading'' (js ''lazy'')] []]] @
        [El ''a'' [cls ''attachment-row__name'', A ''href'' (at_download_url a), A ''target'' (js ''_blank''), A ''rel'' (js ''noreferrer'')]
           [Text (at_filename a)],
         El ''span'' [cls ''muted-copy'']
           [Text (formatSize (at_size_bytes a)), Text ko_middot, Text (at_content_type a), Text ko_middot,
            Text (replace_first 84 32 (take 19 (at_created_at a)))],
         El ''button'' [cls ''button danger ghost'', A ''type'' (js ''button''), On ''onClick'' (Remove (at_id a) (at_filename a))]
           [Text ko_delete]])"

text \<open>Truthiness of \<^verbatim>\<open>a.comment_id\<close> separates the attachments of the issue from those of comments.\<close>

definition issueAttachments :: "attachment list \<Rightarrow> attachment list" where
  "issueAttachments as = filter (\<lambda>a. \<not> truthy_str (at_comment_id a)) as"

definition byComment :: "attachment list \<Rightarrow> (jstr, attachment list) omap" where
  "byComment as =
     foldl (\<lambda>m a. if \<not> truthy_str (at_comment_id a) then m
       else (let c = nullish (at_comment_id a) []; arr = nullish (omap_get m c) [] in omap_set c (arr @ [a]) m)) [] as"

definition AttachmentGroups :: "attachment list \<Rightarrow> attachments_msg node list" where
  "AttachmentGroups as =
     render_if (issueAttachments as \<noteq> []) [El ''ul'' [cls ''attachment-list''] (map AttachmentRow (issueAttachments as))] @
     map (\<lambda>(commentID, rows).
       El ''section'' [cls ''attachment-comment-group'']
         [El ''p'' [cls ''muted-copy''] [Text ko_comment_attach, El ''code'' [] [Text (take 8 commentID)]],
          El ''ul'' [cls ''attachment-list''] (map AttachmentRow rows)]) (byComment as)"

definition IssueAttachmentsPanel ::
  "attachment list option \<Rightarrow> mutation \<Rightarrow> attachments_state \<Rightarrow> attachments_msg node" where
  "IssueAttachmentsPanel data upload s =
     El ''article'' [cls ''panel'']
       ([El ''div'' [cls ''section-heading compact'']
           [El ''h2'' [] [Text ko_attachments], El ''span'' [cls ''badge''] [Text (nat_str (length (nullish data [])))]],
         El ''div'' [cls ''attachment-panel__upload'']
           ([El ''input'' [A ''type'' (js ''file'')] [],
             El ''button'' [A ''type'' (js ''button''), cls ''button secondary'',
                 B ''disabled'' (as_selected s = None \<or> m_pending upload), On ''onClick'' Upload]
               [Text (if m_pending upload then ko_uploading else ko_upload)]] @
            (case as_selected s of
               None \<Rightarrow> []
             | Some f \<Rightarrow> [El ''span'' [cls ''muted-copy''] [Text (file_name f), Text ko_middot, Text (formatSize (int (file_size f)))]]))] @
        render_if (as_error s \<noteq> []) [El ''p'' [cls ''error-text''] [Text (as_error s)]] @
        (if nullish data [] = [] then
           [El ''p'' [cls ''muted-copy''] [Text ko_no_attachments]]
         else AttachmentGroups (nullish data [])))"

subsection \<open>The graph is a forest on the right nodes\<close>

lemma graph_ids:
  "map fn_id (fst (buildIssueFlowGraph E issue subs runs main)) =
     [js ''issue-'' @ issue_id issue] @ map (\<lambda>s. js ''subissue-'' @ issue_id s) subs @
     map (\<lambda>r. js ''run-'' @ run_id r) (js_sort (run_order E) runs)"
proof -
  have "map (fn_id \<circ> sub_node n) (enumerate k subs) = map (\<lambda>s. js ''subissue-'' @ issue_id s) subs" for n k
    by (induction subs arbitrary: k) (simp_all add: sub_node_def graphNode_def)
  moreover have "map (fn_id \<circ> run_node E key n b) (enumerate k rs) = map (\<lambda>r. js ''run-'' @ run_id r) rs" for key n b k rs
    by (induction rs arbitrary: k) (simp_all add: run_node_def graphNode_def Let_def)
  ultimately show ?thesis by (simp add: buildIssueFlowGraph_def Let_def graphNode_def)
qed

lemma graph_targets:
  "map fe_target (snd (buildIssueFlowGraph E issue subs runs main)) =
     map (\<lambda>s. js ''subissue-'' @ issue_id s) subs @ map (\<lambda>r. js ''run-'' @ run_id r) (js_sort (run_order E) runs)"
  by (simp add: buildIssueFlowGraph_def Let_def sub_edge_def run_edge_def graphEdge_def comp_def)

lemma distinct_prefixed: "distinct (map (\<lambda>x. c @ f x) xs) \<longleftrightarrow> distinct (map f xs)"
  by (induction xs) auto



subsection \<open>Guards\<close>

text \<open>The guard colours are exact, although computed with a rounded quotient: for a limit above zero and any
  amount below 2 ^ 50 the guard reports over exactly when the amount has reached the limit, warn
  exactly when it is below it but has reached three quarters of it, and ok otherwise; without a
  limit, or with a limit of zero, it is always ok.\<close>

lemma classifyGuard_exact:
  assumes "0 \<le> used" and "used < 2 ^ 50" and "0 < limit"
  shows "classifyGuard used (Some limit) =
           (if limit \<le> used then GOver else if 3 * limit \<le> 4 * used then GWarn else GOk) \<and>
         classifyGuard used None = GOk \<and> classifyGuard used (Some 0) = GOk"
proof -
  have l: "0 < nat limit" using assms(3) by simp
  have "dge (fdiv (nat used) (nat limit)) 1 1 \<longleftrightarrow> nat limit \<le> nat used"
  proof (cases "used = 0")
    case True
    then show ?thesis using assms(3) by (simp add: dge_def fdiv_def rne_def Let_def scale.simps)
  next
    case False
    then show ?thesis
      using dge_fdiv_intro [OF l, of 1 1 "nat used"] dge_fdiv_elim [of "nat used" "nat limit" 1 1] l assms by auto
  qed
  moreover have "dge (fdiv (nat used) (nat limit)) 3 4 \<longleftrightarrow> 3 * nat limit \<le> 4 * nat used"
  proof (cases "used = 0")
    case True
    then show ?thesis using assms(3) by (simp add: dge_def fdiv_def rne_def Let_def scale.simps)
  next
    case False
    then have pos: "0 < nat used" "nat used < 2 ^ 50" using assms by auto
    show ?thesis
    proof
      assume le: "3 * nat limit \<le> 4 * nat used"
      show "dge (fdiv (nat used) (nat limit)) 3 4" using dge_three_quarters [OF pos l le] .
    qed (use dge_fdiv_elim [OF pos(1) l pos(2), of 4 3] in simp)
  qed
  ultimately show ?thesis using assms by (auto simp: classifyGuard_def Let_def nat_le_eq_zle)
qed

lemma classifyGuard_exact_instance:
  "classifyGuard 3 (Some 4) = GWarn"
  using classifyGuard_exact [of 3 4] by simp

subsection \<open>Chain actions\<close>

lemma row_clicks:
  "clicks (ChainSummaryRow E ms ws s) =
     (if isCancellable s \<and> \<not> cr_cancel_pending ms then [CancelChain (chainID s)] else []) @
     (if isRetryable s \<and> \<not> cr_retry_pending ms then [RetryChain (chainID s)] else [])"
  by (simp add: ChainSummaryRow_def Let_def html_simps)

text \<open>The chain table offers cancelling exactly for the chains whose last run is queued or running and
  retrying exactly for those whose last run failed, never both, and not while the same request is
  under way. Cancelling sends nothing unless the question is confirmed, and the request sent names
  that chain.\<close>

lemma chain_row_actions:
  "(CancelChain c \<in> set (clicks (ChainSummaryRow E ms ws s)) \<longleftrightarrow>
     c = chainID s \<and> (lastStatus s = Some (js ''queued'') \<or> lastStatus s = Some (js ''running'')) \<and> \<not> cr_cancel_pending ms) \<and>
   (RetryChain c \<in> set (clicks (ChainSummaryRow E ms ws s)) \<longleftrightarrow>
     c = chainID s \<and> lastStatus s = Some (js ''failed'') \<and> \<not> cr_retry_pending ms) \<and>
   (length (clicks (ChainSummaryRow E ms ws s)) \<le> 1) \<and>
   (chain_update i ws False (CancelChain c) = []) \<and>
   (calls (chain_update i ws True (CancelChain c)) = [CPost (js ''/runs/chain/'' @ c @ js ''/cancel'') (Some (jobj []))]) \<and>
   (calls (chain_update i ws b (RetryChain c)) = [CPost (js ''/runs/chain/'' @ c @ js ''/retry'') (Some (jobj []))])"
  by (auto simp: row_clicks isCancellable_def isRetryable_def)

text \<open>After a chain action the row marks the issue's runs and comments stale, but not the issue itself: whatever
  the library's matching of keys is, as long as it is by prefix, none of the keys it names covers
  the key under which the issue page caches the issue (that key starts with the workspace slug, the
  row's with the issue's id).\<close>

lemma chain_action_misses_issue_query:
  assumes "\<And>k k'. matches k k' \<Longrightarrow> prefix k k'"
    and "slug \<noteq> issueID" and "Invalidate k \<in> set (chain_update (Some issueID) (Some ws) confirmed ChainDone)"
  shows "\<not> matches k (q_key (useWorkspaceIssueQuery (Some slug) identifier d))"
proof
  assume "matches k (q_key (useWorkspaceIssueQuery (Some slug) identifier d))"
  then have "prefix k (q_key (useWorkspaceIssueQuery (Some slug) identifier d))" by (rule assms(1))
  then show False using assms(2,3) by (auto simp: invalidateAfterAction_def useWorkspaceIssueQuery_def split: if_splits)
qed

lemma chain_action_misses_issue_query_instance:
  "\<not> key_covers [kname ''issue'', KS (js ''uuid-1'')] (q_key (useWorkspaceIssueQuery (Some (js ''team'')) (Some (js ''CAD-1'')) None))"
proof -
  let ?ws = "\<lparr>ws_id = [], ws_slug = js ''team'', ws_name = [], ws_description = [], ws_identifier_prefix = [], ws_working_dir = None,
    ws_output_dir = None, ws_default_timeout_seconds = None, ws_auto_chain_enabled = None, ws_auto_chain_max_depth = None,
    ws_auto_chain_daily_run_limit = None, ws_auto_chain_daily_cost_micros = None, ws_auto_chain_dry_run = None,
    ws_auto_close_on_run_done = None, ws_per_run_worktree = None, ws_agent_count = None, ws_open_issue_count = None\<rparr>"
  have "Invalidate [kname ''issue'', KS (js ''uuid-1'')] \<in> set (chain_update (Some (js ''uuid-1'')) (Some ?ws) True ChainDone)"
    by (simp add: invalidateAfterAction_def)
  then show ?thesis
    using chain_action_misses_issue_query [of key_covers "js ''team''" "js ''uuid-1''" _ ?ws True] by (simp add: key_covers_def)
qed

subsection \<open>Attachments: sizes and groups\<close>

inductive attachments_reachable :: "jstr \<Rightarrow> attachments_state \<Rightarrow> bool" for issueID where
  start: "attachments_reachable issueID attachments_start"
| step: "attachments_reachable issueID s \<Longrightarrow> attachments_reachable issueID (fst (attachments_update issueID confirmed m s))"

lemma selected_small:
  "attachments_reachable issueID s \<Longrightarrow> as_selected s = Some f \<Longrightarrow> file_size f \<le> MAX_BYTES"
proof (induction arbitrary: f rule: attachments_reachable.induct)
  case start
  then show ?case by (simp add: attachments_start_def)
next
  case (step s confirmed m)
  then show ?case
    by (cases m) (auto simp: onPick_def not_less split: if_splits)
qed

lemma byComment_group:
  "foldl (\<lambda>m a. if \<not> truthy_str (at_comment_id a) then m
       else (let c = nullish (at_comment_id a) []; arr = nullish (omap_get m c) [] in omap_set c (arr @ [a]) m)) m as =
   omap.group (\<lambda>a. nullish (at_comment_id a) []) (\<lambda>_. []) (\<lambda>a arr. arr @ [a]) m (filter (\<lambda>a. truthy_str (at_comment_id a)) as)"
  by (induction as arbitrary: m) (simp_all add: Let_def)

lemma fold_snoc: "fold (\<lambda>a arr. arr @ [a]) xs ys = ys @ xs"
  by (induction xs arbitrary: ys) auto

lemma byComment_entry:
  assumes "(c, rows) \<in> set (byComment as)"
  shows "rows = filter (\<lambda>a. at_comment_id a = Some c) as \<and> c \<noteq> []"
proof -
  let ?f = "filter (\<lambda>a. truthy_str (at_comment_id a)) as"
  have g: "byComment as = omap.group (\<lambda>a. nullish (at_comment_id a) []) (\<lambda>_. []) (\<lambda>a arr. arr @ [a]) [] ?f"
    unfolding byComment_def by (rule byComment_group)
  have "distinct (map fst (byComment as))" unfolding g by (rule omap.invar_group [OF omap.invar_empty])
  then have get: "omap_get (byComment as) c = Some rows" using assms by simp
  then have c: "c \<in> (\<lambda>a. nullish (at_comment_id a) []) ` set ?f"
    and r: "rows = filter (\<lambda>a. nullish (at_comment_id a) [] = c) ?f"
    unfolding g omap.get_group_empty by (auto simp: fold_snoc split: if_splits)
  from c have "c \<noteq> []" by (auto simp: truthy_str_iff)
  then show ?thesis using r by (auto simp: truthy_str_iff intro!: filter_cong)
qed

text \<open>Attachments: a file above 10 MB is never selected and so never uploaded, whatever is picked; and the
  panel lists every attachment exactly once, those of the issue first and then those of each
  comment under its own heading, in their order.\<close>

lemma attachments_panel_correct:
  "(attachments_reachable issueID s \<longrightarrow> as_selected s = Some f \<longrightarrow> file_size f \<le> 10485760) \<and>
   (mset (issueAttachments as) + mset (concat (map snd (byComment as))) = mset as) \<and>
   (distinct (map fst (byComment as))) \<and>
   ((c, rows) \<in> set (byComment as) \<longrightarrow> rows = filter (\<lambda>a. at_comment_id a = Some c) as)"
proof -
  let ?key = "\<lambda>a. nullish (at_comment_id a) []"
  let ?f = "filter (\<lambda>a. truthy_str (at_comment_id a)) as"
  have g: "byComment as = omap.group ?key (\<lambda>_. []) (\<lambda>a arr. arr @ [a]) [] ?f"
    unfolding byComment_def by (rule byComment_group)
  have p1: "file_size f \<le> 10485760" if "attachments_reachable issueID s" "as_selected s = Some f"
    using selected_small [OF that] by (simp add: MAX_BYTES_def)
  have p2: "distinct (map fst (byComment as))" unfolding g by (rule omap.invar_group [OF omap.invar_empty])
  have p3: "rows = filter (\<lambda>a. at_comment_id a = Some c) as" if "(c, rows) \<in> set (byComment as)"
    using byComment_entry [OF that] by simp
  have keys: "set (map fst (byComment as)) = ?key ` set ?f"
    unfolding g using omap.keys_group [OF omap.invar_empty, of ?key "\<lambda>_. []" "\<lambda>a arr. arr @ [a]" ?f] by simp
  have rows: "map snd (byComment as) = map (\<lambda>k. filter (\<lambda>a. ?key a = k) ?f) (map fst (byComment as))"
  proof -
    have "filter (\<lambda>a. at_comment_id a = Some c) as = filter (\<lambda>a. ?key a = c) ?f" if "c \<noteq> []" for c
      using that by (auto simp: truthy_str_iff intro!: filter_cong)
    then have "snd e = filter (\<lambda>a. ?key a = fst e) ?f" if "e \<in> set (byComment as)" for e
      using byComment_entry [of "fst e" "snd e" as] that by simp
    then show ?thesis by simp
  qed
  have "?key ` set ?f \<subseteq> set (map fst (byComment as))" using keys by simp
  then have "mset (concat (map snd (byComment as))) = mset ?f"
    unfolding rows by (rule mset_concat_filter [OF p2])
  then have p4: "mset (issueAttachments as) + mset (concat (map snd (byComment as))) = mset as"
    using mset_filter_partition [of "\<lambda>a. truthy_str (at_comment_id a)" as] by (simp add: issueAttachments_def add.commute)
  show ?thesis using p1 p2 p3 p4 by blast
qed

lemma attachments_panel_correct_instance:
  "as_selected (fst (attachments_update (js ''1'') True (Pick (Some \<lparr>file_name = js ''a'', file_size = 5\<rparr>)) attachments_start)) =
     Some \<lparr>file_name = js ''a'', file_size = 5\<rparr> \<and> file_size \<lparr>file_name = js ''a'', file_size = 5\<rparr> \<le> 10485760"
proof -
  have "as_selected (fst (attachments_update (js ''1'') True (Pick (Some \<lparr>file_name = js ''a'', file_size = 5\<rparr>)) attachments_start)) =
     Some \<lparr>file_name = js ''a'', file_size = 5\<rparr>"
    by (simp add: onPick_def MAX_BYTES_def)
  then show ?thesis
    using attachments_panel_correct [THEN conjunct1, rule_format, OF attachments_reachable.step [OF attachments_reachable.start]] by blast
qed

end
