(* ===== verification/Board.thy ===== *)
theory Board
  imports Effects
begin

section \<open>The issue board\<close>

text \<open>
  Models \<^verbatim>\<open>web/src/pages/BoardPage.tsx\<close> with \<^verbatim>\<open>web/src/components/CreateIssueDialog.tsx\<close>. The filters live in
  the address: \<open>searchParams\<close> is an input of the page and changed through the effect \<open>SetSearch\<close>. The
  page's own state is the view mode, the dialog and the action waiting for confirmation.
\<close>

subsection \<open>Search parameters\<close>

definition url_get :: "string \<Rightarrow> search_params \<Rightarrow> jstr option" where
  "url_get k ps = map_of ps (js k)"

definition url_delete :: "string \<Rightarrow> search_params \<Rightarrow> search_params" where
  "url_delete k ps = filter (\<lambda>p. fst p \<noteq> js k) ps"

text \<open>\<^verbatim>\<open>set\<close> replaces the first pair of the name and removes the others.\<close>

fun url_set_key :: "jstr \<Rightarrow> jstr \<Rightarrow> search_params \<Rightarrow> search_params" where
  "url_set_key k v [] = [(k, v)]"
| "url_set_key k v (p # ps) =
     (if fst p = k then (k, v) # filter (\<lambda>p. fst p \<noteq> k) ps else p # url_set_key k v ps)"

definition url_set :: "string \<Rightarrow> jstr \<Rightarrow> search_params \<Rightarrow> search_params" where
  "url_set k v ps = url_set_key (js k) v ps"

lemma map_of_filter_fst: "map_of (filter (\<lambda>p. fst p \<noteq> k) ps) j = (if j = k then None else map_of ps j)"
  by (induction ps) auto

lemma map_of_url_set_key: "map_of (url_set_key k v ps) j = (if j = k then Some v else map_of ps j)"
  by (induction ps) (auto simp: map_of_filter_fst)

lemma url_get_set: "url_get j (url_set k v ps) = (if j = k then Some v else url_get j ps)"
  by (simp add: url_get_def url_set_def map_of_url_set_key)

lemma url_get_delete: "url_get j (url_delete k ps) = (if j = k then None else url_get j ps)"
  by (simp add: url_get_def url_delete_def map_of_filter_fst)

text \<open>The address after the effects of a handler.\<close>

fun apply_url :: "effect list \<Rightarrow> search_params \<Rightarrow> search_params" where
  "apply_url [] u = u"
| "apply_url (SetSearch p # fx) u = apply_url fx p"
| "apply_url (_ # fx) u = apply_url fx u"

subsection \<open>The dialog for a new issue\<close>

record issue_form =
  if_title :: jstr
  if_body :: jstr
  if_assignee :: jstr

definition empty_issue_form :: issue_form where
  "empty_issue_form = \<lparr>if_title = [], if_body = [], if_assignee = []\<rparr>"

datatype create_issue_msg = CiTitle jstr | CiBody jstr | CiAssignee jstr | CiSubmit | CiSuccess

text \<open>The effect that fills in a prefill when the dialog opens.\<close>

definition apply_prefill :: "bool \<Rightarrow> (jstr option \<times> jstr option) option \<Rightarrow> issue_form \<Rightarrow> issue_form" where
  "apply_prefill is_open prefill form =
     (if \<not> is_open then form
      else (case prefill of
              None \<Rightarrow> form
            | Some (t, b) \<Rightarrow> \<lparr>if_title = nullish t [], if_body = nullish b [], if_assignee = []\<rparr>))"

definition form_json :: "issue_form \<Rightarrow> json" where
  "form_json f = jobj [(''title'', JStr (if_title f)), (''body'', JStr (if_body f)), (''assignee_agent_id'', JStr (if_assignee f))]"

text \<open>The new form, the effects, and whether \<^verbatim>\<open>onClose\<close> is called.\<close>

fun create_issue_update :: "jstr option \<Rightarrow> create_issue_msg \<Rightarrow> issue_form \<Rightarrow> issue_form \<times> effect list \<times> bool" where
  "create_issue_update slug (CiTitle t) f = (f\<lparr>if_title := t\<rparr>, [], False)"
| "create_issue_update slug (CiBody b) f = (f\<lparr>if_body := b\<rparr>, [], False)"
| "create_issue_update slug (CiAssignee a) f = (f\<lparr>if_assignee := a\<rparr>, [], False)"
| "create_issue_update slug CiSubmit f =
     (f, [Mutate (CPost (js ''/workspaces/'' @ tpl slug @ js ''/issues'') (Some (form_json f)))], False)"
| "create_issue_update slug CiSuccess f = (empty_issue_form, [Invalidate [kname ''issues'', kopt slug]], True)"

definition CreateIssueDialog ::
  "bool \<Rightarrow> jstr option \<Rightarrow> issue_status \<Rightarrow> agent list \<Rightarrow> mutation \<Rightarrow> issue_form \<Rightarrow> 'm \<Rightarrow> (create_issue_msg \<Rightarrow> 'm) \<Rightarrow> 'm node list" where
  "CreateIssueDialog is_open slug statusHint agents createIssue form onClose lift =
     Modal ko_new_issue
       (Some (if statusHint = IOpen
          then ko_new_issue_desc
          else ko_new_issue_desc2))
       is_open (Some onClose)
       [El ''form'' [A ''id'' (js ''create-issue-form''), cls ''form-grid'', On ''onSubmit'' (lift CiSubmit)]
          ([El ''label'' [cls ''field-label'']
              [Text ko_title, El ''input'' [A ''placeholder'' ko_title, A ''value'' (if_title form),
                 OnValue ''onChange'' (\<lambda>v. lift (CiTitle v)), B ''required'' True] []],
            El ''label'' [cls ''field-label'']
              [Text ko_assignee_agent,
               El ''select'' [A ''value'' (if_assignee form), OnValue ''onChange'' (\<lambda>v. lift (CiAssignee v))]
                 (El ''option'' [A ''value'' []] [Text ko_auto_main] #
                  map (\<lambda>a. El ''option'' [A ''value'' (ag_id a)] [T ''@'', Text (ag_name a), Text ko_middot, Text (ag_runtime a)]) agents)],
            El ''label'' [cls ''field-label'']
              [Text ko_body, El ''textarea'' [A ''placeholder'' ko_body, A ''value'' (if_body form),
                 OnValue ''onChange'' (\<lambda>v. lift (CiBody v))] []]] @
           render_if (m_isError createIssue) [El ''p'' [cls ''error-text''] [Text ko_create_issue_failed]])]
       (Some
         [El ''button'' [cls ''button secondary'', A ''type'' (js ''button''), On ''onClick'' onClose] [Text ko_cancel],
          El ''button'' [cls ''button'', A ''type'' (js ''submit''), A ''form'' (js ''create-issue-form''),
              B ''disabled'' (m_pending createIssue \<or> \<not> truthy_str slug)]
            [Text (if m_pending createIssue then ko_creating else ko_create_issue)]])"

subsection \<open>Data of the page\<close>

datatype view_mode = BoardView | ListView

datatype pending_action =
    PendingStatus issue issue_status
  | PendingCancelExecution issue

definition DEV_TEAM_AGENT_NAMES :: "jstr list" where
  "DEV_TEAM_AGENT_NAMES = map js [''lead'', ''designer'', ''backend'', ''frontend'', ''db'', ''qa'', ''devops'']"

definition SAMPLE_DEV_TEAM_ISSUE :: "jstr option \<times> jstr option" where
  "SAMPLE_DEV_TEAM_ISSUE =
     (Some ko_sample_title,
      Some (join [LF]
        [js ''## Acceptance criteria'', ko_sample1,
         ko_sample2, ko_sample3,
         ko_sample4]))"

definition statuses :: "(issue_status \<times> jstr \<times> jstr) list" where
  "statuses = [(IOpen, ko_col_open, js ''Open''), (IDone, ko_st_done, js ''Done''), (ICancelled, ko_st_cancelled, js ''Cancelled'')]"

definition statusFilterOptions :: "(issue_status option \<times> jstr) list" where
  "statusFilterOptions =
     [(None, ko_all), (Some IOpen, ko_col_open), (Some IDone, ko_st_done), (Some ICancelled, ko_cancelled_past)]"

definition executionFilterOptions :: "(exec_status option \<times> jstr) list" where
  "executionFilterOptions =
     [(None, ko_exec_all), (Some EIdle, ko_st_idle), (Some EQueued, ko_st_queued), (Some ERunning, ko_st_running),
      (Some EDone, ko_st_done), (Some EFailed, ko_st_failed), (Some ECancelled, ko_st_cancelled)]"

text \<open>\<open>None\<close> is the filter \<^verbatim>\<open>'all'\<close>.\<close>

definition validStatusFilter :: "jstr option \<Rightarrow> issue_status option" where
  "validStatusFilter v = find (\<lambda>st. v = Some (issue_status_str st)) [IOpen, IDone, ICancelled]"

definition validExecutionFilter :: "jstr option \<Rightarrow> exec_status option" where
  "validExecutionFilter v =
     find (\<lambda>st. v = Some (exec_status_str st)) [EIdle, EQueued, ERunning, EDone, EFailed, ECancelled]"

definition status_filter_str :: "issue_status option \<Rightarrow> jstr" where
  "status_filter_str f = (case f of None \<Rightarrow> js ''all'' | Some st \<Rightarrow> issue_status_str st)"

definition execution_filter_str :: "exec_status option \<Rightarrow> jstr" where
  "execution_filter_str f = (case f of None \<Rightarrow> js ''all'' | Some st \<Rightarrow> exec_status_str st)"

definition statusLabel :: "jstr \<Rightarrow> jstr" where
  "statusLabel status =
     nullish (map_of [(js ''all'', ko_all), (js ''open'', ko_col_open), (js ''done'', ko_st_done), (js ''cancelled'', ko_st_cancelled)] status) status"

definition executionLabel :: "jstr \<Rightarrow> jstr" where
  "executionLabel status =
     nullish (map_of [(js ''all'', ko_all), (js ''idle'', ko_st_idle), (js ''queued'', ko_st_queued), (js ''running'', ko_st_running),
       (js ''done'', ko_st_done), (js ''failed'', ko_st_failed), (js ''cancelled'', ko_st_cancelled)] status) status"

text \<open>What the page asks the server for.\<close>

definition board_query_params :: "search_params \<Rightarrow> issues_query_params" where
  "board_query_params u =
     \<lparr>qp_status = Some (validStatusFilter (url_get ''status'' u)),
      qp_execution = Some (validExecutionFilter (url_get ''execution'' u)),
      qp_assignee = Some (nullish (url_get ''agent'' u) []),
      qp_q = Some (nullish (url_get ''q'' u) []),
      qp_limit = Some 200\<rparr>"

definition issue_busy :: "issue \<Rightarrow> bool" where
  "issue_busy issue \<longleftrightarrow> issue_execution_status issue = EQueued \<or> issue_execution_status issue = ERunning"

definition issue_agent :: "issue \<Rightarrow> jstr" where
  "issue_agent issue = oor_str (issue_last_run_agent_name issue) (oor_str (issue_assignee_agent_name issue) ko_main_agent)"

definition isDevTeamWorkspace :: "platform \<Rightarrow> agent list \<Rightarrow> bool" where
  "isDevTeamWorkspace E agents \<longleftrightarrow>
     list_all (\<lambda>n. n \<in> set (map (\<lambda>a. toLowerCase E (ag_name a)) agents)) DEV_TEAM_AGENT_NAMES"

definition grouped :: "issue list \<Rightarrow> issue_status \<Rightarrow> issue list" where
  "grouped allIssues st = filter (\<lambda>i. issue_status i = st) allIssues"

definition counts :: "issue list \<Rightarrow> issue_status \<Rightarrow> nat" where
  "counts allIssues st = length (filter (\<lambda>i. issue_status i = st) allIssues)"

definition issue_path :: "jstr option \<Rightarrow> jstr \<Rightarrow> jstr" where
  "issue_path slug identifier = js ''/w/'' @ tpl slug @ js ''/issues/'' @ identifier"

subsection \<open>Messages and handlers\<close>

datatype board_msg =
    RequestStatus issue issue_status
  | RequestCancelExecution issue
  | SetParam string jstr
  | SetView view_mode
  | ClearFilters
  | OpenSample
  | OpenNew
  | OpenColumn issue_status
  | CloseDialog
  | ConfirmPending
  | ClosePending
  | Refresh
  | UpdateStatusOk issue issue_status
  | UpdateStatusFailed thrown
  | CancelExecutionOk issue
  | CancelExecutionFailed thrown
  | MutationSettled
  | DialogMsg create_issue_msg

record board_state =
  b_viewMode :: view_mode
  b_dialogStatus :: "issue_status option"
  b_dialogPrefill :: "(jstr option \<times> jstr option) option"
  b_pendingAction :: "pending_action option"
  b_form :: issue_form                        \<comment> \<open>the state of \<^verbatim>\<open>CreateIssueDialog\<close>\<close>

definition board_start :: "search_params \<Rightarrow> board_state" where
  "board_start u =
     \<lparr>b_viewMode = (if url_get ''view'' u = Some (js ''list'') then ListView else BoardView),
      b_dialogStatus = None, b_dialogPrefill = None, b_pendingAction = None, b_form = empty_issue_form\<rparr>"

definition setParam :: "string \<Rightarrow> jstr \<Rightarrow> search_params \<Rightarrow> search_params" where
  "setParam key v u =
     (let next = (if v = [] \<or> v = js ''all'' then url_delete key u else url_set key v u)
      in if key \<noteq> ''view'' then url_delete ''cursor'' next else next)"

definition statusToast :: "issue_status \<Rightarrow> jstr" where
  "statusToast st = (case st of
       IOpen \<Rightarrow> ko_toast_reopened
     | IDone \<Rightarrow> ko_toast_done
     | ICancelled \<Rightarrow> ko_toast_cancelled)"

definition board_errorMessage :: "thrown \<Rightarrow> jstr" where
  "board_errorMessage = error_message_or ko_default_error"

definition status_call :: "jstr \<Rightarrow> issue_status \<Rightarrow> api_call" where
  "status_call i st = CPut (js ''/issues/'' @ i) (Some (jobj [(''status'', JStr (issue_status_str st))]))"

definition cancel_call :: "jstr \<Rightarrow> api_call" where
  "cancel_call i = CPost (js ''/issues/'' @ i @ js ''/cancel'') None"

text \<open>The request a pending action stands for.\<close>

fun pending_call :: "pending_action \<Rightarrow> api_call" where
  "pending_call (PendingStatus i st) = status_call (issue_id i) st"
| "pending_call (PendingCancelExecution i) = cancel_call (issue_id i)"

definition executePendingAction :: "board_state \<Rightarrow> effect list" where
  "executePendingAction s = (case b_pendingAction s of
       None \<Rightarrow> []
     | Some (PendingStatus i st) \<Rightarrow> [Mutate (status_call (issue_id i) st)]
     | Some (PendingCancelExecution i) \<Rightarrow> [Mutate (cancel_call (issue_id i))])"

definition invalidateIssues :: "jstr option \<Rightarrow> effect" where
  "invalidateIssues slug = Invalidate [kname ''issues'', kopt slug]"

text \<open>Opening the dialog runs its prefill effect.\<close>

definition with_dialog :: "issue_status option \<Rightarrow> (jstr option \<times> jstr option) option \<Rightarrow> board_state \<Rightarrow> board_state" where
  "with_dialog st prefill s =
     s\<lparr>b_dialogStatus := st, b_dialogPrefill := prefill, b_form := apply_prefill (st \<noteq> None) prefill (b_form s)\<rparr>"

fun board_update :: "jstr option \<Rightarrow> search_params \<Rightarrow> board_msg \<Rightarrow> board_state \<Rightarrow> board_state \<times> effect list" where
  "board_update slug u (RequestStatus i st) s = (s\<lparr>b_pendingAction := Some (PendingStatus i st)\<rparr>, [])"
| "board_update slug u (RequestCancelExecution i) s = (s\<lparr>b_pendingAction := Some (PendingCancelExecution i)\<rparr>, [])"
| "board_update slug u (SetParam k v) s = (s, [SetSearch (setParam k v u)])"
| "board_update slug u (SetView v) s =
     (s\<lparr>b_viewMode := v\<rparr>, [SetSearch (setParam ''view'' (if v = BoardView then [] else js ''list'') u)])"
| "board_update slug u ClearFilters s = (s, [SetSearch []])"
| "board_update slug u OpenSample s = (with_dialog (Some IOpen) (Some SAMPLE_DEV_TEAM_ISSUE) s, [])"
| "board_update slug u OpenNew s = (with_dialog (Some IOpen) None s, [])"
| "board_update slug u (OpenColumn st) s = (with_dialog (Some st) (b_dialogPrefill s) s, [])"
| "board_update slug u CloseDialog s = (with_dialog None None s, [])"
| "board_update slug u ConfirmPending s = (s, executePendingAction s)"
| "board_update slug u ClosePending s = (s\<lparr>b_pendingAction := None\<rparr>, [])"
| "board_update slug u Refresh s =
     (s, [Refetch (q_key (useIssuesQuery slug (board_query_params u))), Refetch (q_key (useAgentsQuery slug))])"
| "board_update slug u (UpdateStatusOk i st) s =
     (s, [invalidateIssues slug, ShowToast Success (statusToast st) (Some (issue_identifier i))])"
| "board_update slug u (UpdateStatusFailed e) s = (s, [ShowToast Error ko_status_failed (Some (board_errorMessage e))])"
| "board_update slug u (CancelExecutionOk i) s =
     (s, [invalidateIssues slug, ShowToast Success ko_cancel_requested (Some (issue_identifier i))])"
| "board_update slug u (CancelExecutionFailed e) s =
     (s, [ShowToast Error ko_cancel_failed (Some (board_errorMessage e))])"
| "board_update slug u MutationSettled s = (s\<lparr>b_pendingAction := None\<rparr>, [])"
| "board_update slug u (DialogMsg m) s =
     (let (f, fx, closed) = create_issue_update slug m (b_form s); s' = s\<lparr>b_form := f\<rparr>
      in (if closed then with_dialog None None s' else s', fx))"

text \<open>A step on the page and the address together.\<close>

definition board_step :: "jstr option \<Rightarrow> board_msg \<Rightarrow> board_state \<times> search_params \<Rightarrow> (board_state \<times> search_params) \<times> effect list" where
  "board_step slug m su =
     (let (s', fx) = board_update slug (snd su) m (fst su) in ((s', apply_url fx (snd su)), fx))"

subsection \<open>Views\<close>

definition IssueCard :: "platform \<Rightarrow> issue \<Rightarrow> jstr option \<Rightarrow> bool \<Rightarrow> board_msg node" where
  "IssueCard E issue slug disabled =
     (let busy = issue_busy issue;
          reviewPending = (issue_status issue = IOpen \<and> issue_execution_status issue = EDone \<and> issue_comment_count issue > 0)
      in El ''article'' [A ''class'' (js ''kanban-card'' @ (if reviewPending then js '' review-pending'' else []))]
           (render_if reviewPending
              [El ''span'' [cls ''review-pending-tag'', A ''title'' ko_review_title]
                 [Text ko_review_wait]] @
            [El ''a'' [cls ''kanban-card-link'', A ''href'' (issue_path slug (issue_identifier issue))]
               [El ''span'' [cls ''issue-id''] [Text (issue_identifier issue)],
                El ''strong'' [] [Text (issue_title issue)],
                El ''div'' [cls ''card-status-row'']
                  [StatusPill E PExecution (exec_status_str (issue_execution_status issue)) busy,
                   StatusPill E PIssue (issue_status_str (issue_status issue)) False],
                El ''small'' []
                  [T ''@'', Text (issue_agent issue), Text ko_comments_sep, Text (int_str (issue_comment_count issue))]],
             El ''div'' [cls ''card-actions'']
               (render_if (issue_status issue \<noteq> IOpen)
                  [El ''button'' [cls ''button micro secondary'', A ''type'' (js ''button''),
                      On ''onClick'' (RequestStatus issue IOpen), B ''disabled'' disabled] [Text ko_reopen]] @
                render_if (issue_status issue = IOpen)
                  [El ''button'' [cls ''button micro secondary'', A ''type'' (js ''button''),
                      On ''onClick'' (RequestStatus issue IDone), B ''disabled'' (busy \<or> disabled)] [Text ko_st_done]] @
                (if busy then
                   [El ''button'' [cls ''button micro danger'', A ''type'' (js ''button''),
                       On ''onClick'' (RequestCancelExecution issue), B ''disabled'' disabled]
                      [Text (if issue_execution_status issue = EQueued then ko_cancel_wait else ko_cancel_exec)]]
                 else render_if (issue_status issue \<noteq> ICancelled)
                   [El ''button'' [cls ''button micro danger'', A ''type'' (js ''button''),
                       On ''onClick'' (RequestStatus issue ICancelled), B ''disabled'' disabled] [Text ko_cancel_issue]]))]))"

definition filter_chips :: "issue_status option \<Rightarrow> exec_status option \<Rightarrow> jstr \<Rightarrow> jstr \<Rightarrow> agent list \<Rightarrow> jstr list" where
  "filter_chips status execution agentId q agents =
     filter (\<lambda>c. c \<noteq> [])
       [(if status \<noteq> None then ko_chip_status @ statusLabel (status_filter_str status) else []),
        (if execution \<noteq> None then ko_chip_exec @ executionLabel (execution_filter_str execution) else []),
        (case find (\<lambda>a. ag_id a = agentId) agents of None \<Rightarrow> [] | Some a \<Rightarrow> ko_chip_agent @ ag_name a),
        (if trim q \<noteq> [] then ko_chip_q @ trim q else [])]"

definition ActiveFilterSummary ::
  "issue_status option \<Rightarrow> exec_status option \<Rightarrow> jstr \<Rightarrow> jstr \<Rightarrow> agent list \<Rightarrow> 'm \<Rightarrow> 'm node" where
  "ActiveFilterSummary status execution agentId q agents onClear =
     (let chips = filter_chips status execution agentId q agents in
      if chips = [] then El ''p'' [cls ''filter-summary''] [Text ko_no_filter]
      else El ''div'' [cls ''filter-summary active'']
        (map (\<lambda>c. El ''span'' [cls ''badge muted''] [Text c]) chips @
         [El ''button'' [cls ''button micro secondary'', A ''type'' (js ''button''), On ''onClick'' onClear] [Text ko_clear_filter]]))"

definition pendingTitle :: "pending_action option \<Rightarrow> jstr" where
  "pendingTitle a = (case a of
       None \<Rightarrow> ko_confirm_work
     | Some (PendingCancelExecution i) \<Rightarrow>
         (if issue_execution_status i = EQueued then ko_ask_cancel_queued
          else ko_ask_cancel_running)
     | Some (PendingStatus i st) \<Rightarrow> (case st of
           IOpen \<Rightarrow> ko_ask_reopen
         | IDone \<Rightarrow> ko_ask_done
         | ICancelled \<Rightarrow> ko_ask_cancel))"

fun pending_issue :: "pending_action \<Rightarrow> issue" where
  "pending_issue (PendingStatus i st) = i"
| "pending_issue (PendingCancelExecution i) = i"

definition pendingDescription :: "pending_action option \<Rightarrow> jstr option" where
  "pendingDescription a = (case a of
       None \<Rightarrow> None
     | Some act \<Rightarrow>
         (let target = ko_ldquo @ issue_identifier (pending_issue act) @ ko_middot @ issue_title (pending_issue act) @ ko_rdquo in
          Some (case act of
              PendingCancelExecution i \<Rightarrow> target @ ko_desc_cancel_run
            | PendingStatus i st \<Rightarrow>
                (if st = IDone then target @ ko_desc_done
                 else if st = ICancelled then target @ ko_desc_cancel
                 else target @ ko_desc_reopen))))"

definition pendingConfirmLabel :: "pending_action option \<Rightarrow> jstr" where
  "pendingConfirmLabel a = (case a of
       None \<Rightarrow> ko_confirm
     | Some (PendingCancelExecution i) \<Rightarrow> ko_cancel_exec
     | Some (PendingStatus i st) \<Rightarrow> (case st of IOpen \<Rightarrow> ko_reopen | IDone \<Rightarrow> ko_mark_done | ICancelled \<Rightarrow> ko_cancel_issue))"

definition pending_tone :: "pending_action option \<Rightarrow> tone" where
  "pending_tone a = (case a of
       Some (PendingCancelExecution i) \<Rightarrow> ToneDanger
     | Some (PendingStatus i st) \<Rightarrow> if st = ICancelled then ToneDanger else ToneDefault
     | None \<Rightarrow> ToneDefault)"

text \<open>What the page reads: the parameters of the route and the address, the queries and the mutations.\<close>

record board_env =
  be_slug :: "jstr option"
  be_search :: search_params
  be_issues :: "issue list query_result"
  be_agents :: "agent list query_result"
  be_updateStatus :: mutation
  be_cancelExecution :: mutation
  be_createIssue :: mutation

definition anyMutationPending :: "board_env \<Rightarrow> bool" where
  "anyMutationPending v \<longleftrightarrow> m_pending (be_updateStatus v) \<or> m_pending (be_cancelExecution v)"

definition board_toolbar :: "platform \<Rightarrow> board_env \<Rightarrow> board_state \<Rightarrow> board_msg node" where
  "board_toolbar E v s =
     (let u = be_search v; allIssues = nullish (qr_data (be_issues v)) []; agents = nullish (qr_data (be_agents v)) [];
          statusFilter = validStatusFilter (url_get ''status'' u); executionFilter = validExecutionFilter (url_get ''execution'' u);
          agentFilter = nullish (url_get ''agent'' u) []; query = nullish (url_get ''q'' u) [];
          active = (\<lambda>b. A ''class'' (if b then js ''active'' else []))
      in El ''div'' [cls ''board-toolbar panel'']
           [El ''div'' [cls ''toolbar-main'']
              [El ''div'' []
                 [El ''h2'' [] [Text ko_all_issues],
                  El ''p'' [] [T ''open '', Text (int_str (int (counts allIssues IOpen))), Text ko_middot, T ''done '',
                    Text (int_str (int (counts allIssues IDone))), Text ko_middot, T ''cancelled '',
                    Text (int_str (int (counts allIssues ICancelled)))]],
               El ''div'' [cls ''board-toolbar__actions'']
                 (render_if (isDevTeamWorkspace E agents \<and> allIssues = [])
                    [El ''button'' [cls ''button secondary'', A ''type'' (js ''button''), On ''onClick'' OpenSample]
                       [Text ko_start_sample]] @
                  [El ''button'' [cls ''button'', A ''type'' (js ''button''), On ''onClick'' OpenNew] [Text ko_new_issue]])],
            El ''div'' [cls ''toolbar-controls board-filter-grid'']
              [El ''div'' [cls ''segmented'', A ''role'' (js ''tablist''), A ''aria-label'' ko_status_filter]
                 (map (\<lambda>(f, l). El ''button'' [A ''type'' (js ''button''), active (statusFilter = f),
                     On ''onClick'' (SetParam ''status'' (status_filter_str f))] [Text l]) statusFilterOptions),
               El ''select'' [cls ''toolbar-select'', A ''value'' (execution_filter_str executionFilter),
                   OnValue ''onChange'' (SetParam ''execution''), A ''aria-label'' ko_exec_filter]
                 (map (\<lambda>(f, l). El ''option'' [A ''value'' (execution_filter_str f)] [Text l]) executionFilterOptions),
               El ''select'' [cls ''toolbar-select'', A ''value'' agentFilter,
                   OnValue ''onChange'' (SetParam ''agent''), A ''aria-label'' ko_agent_filter]
                 (El ''option'' [A ''value'' []] [Text ko_agent_all] #
                  map (\<lambda>a. El ''option'' [A ''value'' (ag_id a)] [T ''@'', Text (ag_name a)]) agents),
               El ''div'' [cls ''segmented'', A ''role'' (js ''tablist''), A ''aria-label'' ko_view_kind]
                 [El ''button'' [A ''type'' (js ''button''), active (b_viewMode s = BoardView), On ''onClick'' (SetView BoardView)]
                    [Text ko_view_board],
                  El ''button'' [A ''type'' (js ''button''), active (b_viewMode s = ListView), On ''onClick'' (SetView ListView)]
                    [Text ko_view_list]],
               El ''input'' [cls ''toolbar-search'', A ''placeholder'' ko_search_issue, A ''value'' query,
                   OnValue ''onChange'' (SetParam ''q'')] []],
            ActiveFilterSummary statusFilter executionFilter agentFilter query agents ClearFilters])"

definition kanban_column :: "platform \<Rightarrow> board_env \<Rightarrow> issue list \<Rightarrow> issue_status \<times> jstr \<times> jstr \<Rightarrow> board_msg node" where
  "kanban_column E v allIssues col = (case col of (st, label, hint) \<Rightarrow>
     El ''section'' [A ''class'' (js ''kanban-column '' @ issue_status_str st)]
       [El ''header'' [cls ''kanban-column-header'']
          [El ''div'' [] [El ''h2'' [] [Text label], El ''small'' [] [Text hint]],
           El ''div'' [cls ''column-actions'']
             [El ''span'' [cls ''badge''] [Text (int_str (int (length (grouped allIssues st))))],
              El ''button'' [cls ''icon-button'', A ''type'' (js ''button''), On ''onClick'' (OpenColumn st),
                  A ''aria-label'' (label @ ko_col_new)] [T ''+'']]],
        El ''div'' [cls ''kanban-column-body'']
          (map (\<lambda>i. IssueCard E i (be_slug v) (anyMutationPending v)) (grouped allIssues st) @
           render_if (grouped allIssues st = []) [El ''p'' [cls ''column-empty''] [Text ko_col_empty]])])"

definition issue_row :: "platform \<Rightarrow> jstr option \<Rightarrow> issue \<Rightarrow> 'm node" where
  "issue_row E slug issue =
     El ''a'' [cls ''data-row'', A ''href'' (issue_path slug (issue_identifier issue))]
       [El ''span'' [] [El ''span'' [cls ''issue-id''] [Text (issue_identifier issue)], El ''strong'' [] [Text (issue_title issue)]],
        El ''span'' [] [StatusPill E PIssue (issue_status_str (issue_status issue)) False],
        El ''span'' [] [StatusPill E PExecution (exec_status_str (issue_execution_status issue)) (issue_busy issue)],
        El ''span'' [] [T ''@'', Text (issue_agent issue)],
        El ''span'' [] [Text (int_str (issue_comment_count issue))]]"

definition issue_table :: "platform \<Rightarrow> board_env \<Rightarrow> issue list \<Rightarrow> 'm node" where
  "issue_table E v allIssues =
     El ''article'' [cls ''panel table-panel'']
       ([El ''div'' [cls ''data-table issue-table'']
           (El ''div'' [cls ''data-row data-head'']
              (map (\<lambda>t. El ''span'' [] [Text t]) [ko_h_issue, ko_h_status, ko_h_exec, ko_h_agent, ko_h_comments]) #
            map (issue_row E (be_slug v)) allIssues)] @
        render_if (\<not> qr_isLoading (be_issues v) \<and> allIssues = []) [El ''p'' [] [Text ko_no_match]])"

definition board_confirm :: "board_env \<Rightarrow> board_state \<Rightarrow> board_msg confirm_props" where
  "board_confirm v s =
     \<lparr>cd_open = (b_pendingAction s \<noteq> None), cd_title = pendingTitle (b_pendingAction s),
      cd_description = pendingDescription (b_pendingAction s), cd_confirmLabel = Some (pendingConfirmLabel (b_pendingAction s)),
      cd_cancelLabel = None, cd_tone = pending_tone (b_pendingAction s), cd_pending = anyMutationPending v,
      cd_onConfirm = ConfirmPending, cd_onClose = ClosePending\<rparr>"

definition BoardPage :: "platform \<Rightarrow> board_env \<Rightarrow> board_state \<Rightarrow> board_msg node" where
  "BoardPage E v s =
     (let allIssues = nullish (qr_data (be_issues v)) [];
          refreshPending = (qr_isFetching (be_issues v) \<or> qr_isFetching (be_agents v))
      in El ''section'' [cls ''page-stack'']
           ([PageHeader (Some (ko_eyebrow_ws @ tpl (be_slug v))) ko_board_title
               ko_board_desc
               [El ''button'' [cls ''button micro secondary'', A ''type'' (js ''button''), On ''onClick'' Refresh, B ''disabled'' refreshPending]
                  [Text (if refreshPending then ko_refreshing else ko_refresh)]],
             board_toolbar E v s] @
            render_if (m_isError (be_updateStatus v)) (MutationErrorAlert (m_error (be_updateStatus v)) (Some ko_status_failed)) @
            render_if (m_isError (be_cancelExecution v)) (MutationErrorAlert (m_error (be_cancelExecution v)) (Some ko_cancel_failed)) @
            [if b_viewMode s = BoardView
             then El ''div'' [cls ''kanban-board''] (map (kanban_column E v allIssues) statuses)
             else issue_table E v allIssues] @
            render_if (\<not> qr_isLoading (be_issues v) \<and> allIssues = [])
              [El ''article'' [cls ''panel empty-state'']
                 [El ''h2'' [] [Text ko_no_issue],
                  El ''p'' [] [Text (if qr_isError (be_issues v) then ko_issues_failed
                    else ko_first_issue)]]] @
            CreateIssueDialog (b_dialogStatus s \<noteq> None) (be_slug v) (nullish (b_dialogStatus s) IOpen)
              (nullish (qr_data (be_agents v)) []) (be_createIssue v) (b_form s) CloseDialog DialogMsg @
            ConfirmDialog (board_confirm v s)))"

subsection \<open>What a card offers\<close>

lemma clicks_IssueCard:
  "clicks (IssueCard E issue slug disabled) =
     (if disabled then []
      else (if issue_status issue \<noteq> IOpen then [RequestStatus issue IOpen] else []) @
           (if issue_status issue = IOpen \<and> \<not> issue_busy issue then [RequestStatus issue IDone] else []) @
           (if issue_busy issue then [RequestCancelExecution issue]
            else if issue_status issue \<noteq> ICancelled then [RequestStatus issue ICancelled] else []))"
  by (simp add: IssueCard_def Let_def html_simps)

lemma clicks_issue_row [simp]: "clicks (issue_row E slug i) = []"
  by (simp add: issue_row_def)

lemma clicks_issue_table [simp]: "clicks (issue_table E v iss) = []"
  by (auto simp: issue_table_def html_simps)

lemma clicks_column:
  "set (clicks (kanban_column E v iss (st, l, h))) =
     insert (OpenColumn st) (\<Union>i \<in> set (grouped iss st). set (clicks (IssueCard E i (be_slug v) (anyMutationPending v))))"
  by (auto simp: kanban_column_def html_simps)

lemma clicks_toolbar:
  "set (clicks (board_toolbar E v s)) \<subseteq>
     {OpenSample, OpenNew, SetView BoardView, SetView ListView, ClearFilters} \<union> range (\<lambda>f. SetParam ''status'' (status_filter_str f))"
  by (auto simp: board_toolbar_def ActiveFilterSummary_def Let_def html_simps clicks_of_map statusFilterOptions_def executionFilterOptions_def)

lemma clicks_create_dialog:
  "set (clicks_of (CreateIssueDialog opn slug st as m f onClose lift)) \<subseteq> {onClose}"
  by (auto simp: CreateIssueDialog_def clicks_Modal html_simps)

lemma clicks_board:
  assumes "m \<in> set (clicks (BoardPage E v s))"
  shows "m \<in> {OpenSample, OpenNew, SetView BoardView, SetView ListView, ClearFilters, Refresh, CloseDialog} \<union>
           range (\<lambda>f. SetParam ''status'' (status_filter_str f)) \<union> range OpenColumn \<or>
         (b_viewMode s = BoardView \<and>
          (\<exists>i \<in> set (nullish (qr_data (be_issues v)) []). m \<in> set (clicks (IssueCard E i (be_slug v) (anyMutationPending v))))) \<or>
         (m \<in> {ConfirmPending, ClosePending} \<and> b_pendingAction s \<noteq> None \<and> \<not> anyMutationPending v)"
proof -
  let ?is = "nullish (qr_data (be_issues v)) []"
  from assms consider "m = Refresh" | "m \<in> set (clicks (board_toolbar E v s))"
    | "b_viewMode s = BoardView" "\<exists>col \<in> set statuses. m \<in> set (clicks (kanban_column E v ?is col))"
    | "m \<in> set (clicks_of (CreateIssueDialog (b_dialogStatus s \<noteq> None) (be_slug v) (nullish (b_dialogStatus s) IOpen)
              (nullish (qr_data (be_agents v)) []) (be_createIssue v) (b_form s) CloseDialog DialogMsg))"
    | "m \<in> set (clicks_of (ConfirmDialog (board_confirm v s)))"
    by (auto simp: BoardPage_def Let_def html_simps split: if_splits)
  then show ?thesis
  proof cases
    case 3
    then show ?thesis by (force simp: statuses_def clicks_column grouped_def)
  next
    case 5
    then show ?thesis by (auto simp: clicks_ConfirmDialog board_confirm_def split: if_splits)
  next
    case 2
    then show ?thesis using clicks_toolbar [of E v s] by auto
  next
    case 4
    then have "m = CloseDialog" using subsetD [OF clicks_create_dialog] by fast
    then show ?thesis by simp
  qed simp
qed

text \<open>A card of the board offers exactly the actions the issue's state allows (none while a change is
  under way, no closing of a busy issue, cancelling the run only of a busy one), and no click
  anywhere on the page sends a request to the server except the confirmation of a waiting action
  while no other change is under way.\<close>

lemma board_clicks_safe:
  "clicks (IssueCard E issue slug disabled) =
     (if disabled then []
      else (if issue_status issue \<noteq> IOpen then [RequestStatus issue IOpen] else []) @
           (if issue_status issue = IOpen \<and> \<not> issue_busy issue then [RequestStatus issue IDone] else []) @
           (if issue_busy issue then [RequestCancelExecution issue]
            else if issue_status issue \<noteq> ICancelled then [RequestStatus issue ICancelled] else [])) \<and>
   (\<forall>m. m \<in> set (clicks (BoardPage E v s)) \<longrightarrow> calls (snd (board_update slug' u m s)) \<noteq> [] \<longrightarrow>
      m = ConfirmPending \<and> b_pendingAction s \<noteq> None \<and> \<not> anyMutationPending v)"
proof (intro conjI allI impI)
  fix m
  assume "m \<in> set (clicks (BoardPage E v s))" and c: "calls (snd (board_update slug' u m s)) \<noteq> []"
  from clicks_board [OF this(1)] have "m = ConfirmPending \<and> b_pendingAction s \<noteq> None \<and> \<not> anyMutationPending v"
    using c by (auto simp: clicks_IssueCard split: if_splits)
  then show "m = ConfirmPending" "b_pendingAction s \<noteq> None" "\<not> anyMutationPending v" by auto
qed (rule clicks_IssueCard)

lemma board_clicks_safe_instance:
  "let i = bare_issue (js ''1'') (js ''CAD-1'') IOpen EIdle;
       s = (board_start [])\<lparr>b_pendingAction := Some (PendingStatus i IDone)\<rparr>;
       v = \<lparr>be_slug = Some (js ''a''), be_search = [], be_issues = loaded_query None, be_agents = loaded_query None, be_updateStatus = idle_mutation,
            be_cancelExecution = idle_mutation, be_createIssue = idle_mutation\<rparr>
   in ConfirmPending \<in> set (clicks (BoardPage ascii_platform v s)) \<and>
      calls (snd (board_update (Some (js ''a'')) [] ConfirmPending s)) \<noteq> [] \<and> b_pendingAction s \<noteq> None \<and> \<not> anyMutationPending v"
proof -
  let ?i = "bare_issue (js ''1'') (js ''CAD-1'') IOpen EIdle"
  let ?s = "(board_start [])\<lparr>b_pendingAction := Some (PendingStatus ?i IDone)\<rparr>"
  let ?v = "\<lparr>be_slug = Some (js ''a''), be_search = [], be_issues = loaded_query None, be_agents = loaded_query None, be_updateStatus = idle_mutation,
            be_cancelExecution = idle_mutation, be_createIssue = idle_mutation\<rparr>"
  have "ConfirmPending \<in> set (clicks (BoardPage ascii_platform ?v ?s))"
    by (simp add: BoardPage_def Let_def clicks_ConfirmDialog board_confirm_def anyMutationPending_def)
  moreover have "calls (snd (board_update (Some (js ''a'')) [] ConfirmPending ?s)) \<noteq> []"
    by (simp add: executePendingAction_def)
  ultimately show ?thesis
    using board_clicks_safe [of ascii_platform ?i None False ?v ?s "Some (js ''a'')" "[]"] unfolding Let_def by blast
qed

subsection \<open>Confirmed changes\<close>

fun request_msg :: "pending_action \<Rightarrow> board_msg" where
  "request_msg (PendingStatus i st) = RequestStatus i st"
| "request_msg (PendingCancelExecution i) = RequestCancelExecution i"

lemma board_step_simps:
  "fst (fst (board_step slug m su)) = fst (board_update slug (snd su) m (fst su))"
  "snd (board_step slug m su) = snd (board_update slug (snd su) m (fst su))"
  by (simp_all add: board_step_def split: prod.split)

interpretation board: confirmed_action "\<lambda>su. b_pendingAction (fst su)" "board_step slug" request_msg ConfirmPending ClosePending
  "\<lambda>m. m = DialogMsg CiSubmit" "\<lambda>su p. [pending_call p]" for slug
proof
  fix m su and p :: pending_action
  show "b_pendingAction (fst (fst (board_step slug (request_msg p) su))) = Some p"
    by (cases p) (simp_all add: board_step_simps)
  show "b_pendingAction (fst (fst (board_step slug ClosePending su))) = None"
    by (simp add: board_step_simps)
  show "calls (snd (board_step slug ConfirmPending su)) = (case b_pendingAction (fst su) of None \<Rightarrow> [] | Some p \<Rightarrow> [pending_call p])"
    by (auto simp: board_step_simps executePendingAction_def split: option.split pending_action.split)
  show "m \<noteq> DialogMsg CiSubmit \<Longrightarrow> m \<noteq> ConfirmPending \<Longrightarrow> calls (snd (board_step slug m su)) = []"
    by (cases m; (cases "case m of DialogMsg d \<Rightarrow> d | _ \<Rightarrow> CiSubmit")?)
       (simp_all add: board_step_simps invalidateIssues_def split: prod.splits)
  assume "b_pendingAction (fst (fst (board_step slug m su))) = Some p"
  then show "b_pendingAction (fst su) = Some p \<or> m = request_msg p"
    by (cases m) (auto simp: board_step_simps with_dialog_def Let_def split: prod.splits if_splits)
qed

text \<open>C11: The board changes an issue only after a confirmation: in every sequence of messages from the
  start of the page, whatever is sent other than by submitting the new-issue form is sent by
  confirming, is the request of an action asked for earlier and not closed since, and asking and
  confirming sends exactly that one request, while closing and confirming sends none.\<close>

theorem board_changes_confirmed:
  "(\<forall>m c. (m, c) \<in> set (sent (board_step slug) ms (board_start u, u)) \<longrightarrow> m \<noteq> DialogMsg CiSubmit \<longrightarrow>
      m = ConfirmPending \<and>
      (\<exists>p ms1 ms2 ms3. ms = ms1 @ request_msg p # ms2 @ ConfirmPending # ms3 \<and> ClosePending \<notin> set ms2 \<and> c = pending_call p)) \<and>
   map snd (sent (board_step slug) [request_msg p, ConfirmPending] su) = [pending_call p] \<and>
   sent (board_step slug) [ClosePending, ConfirmPending] su = []"
proof (intro conjI allI impI)
  fix m c
  assume "(m, c) \<in> set (sent (board_step slug) ms (board_start u, u))" and "m \<noteq> DialogMsg CiSubmit"
  from board.sent_was_confirmed [OF _ this]
  show "m = ConfirmPending"
    and "\<exists>p ms1 ms2 ms3. ms = ms1 @ request_msg p # ms2 @ ConfirmPending # ms3 \<and> ClosePending \<notin> set ms2 \<and> c = pending_call p"
    by (auto simp: board_start_def)
next
  show "map snd (sent (board_step slug) [request_msg p, ConfirmPending] su) = [pending_call p]"
    unfolding board.request_confirm by (cases p) (simp_all add: board_step_simps)
  show "sent (board_step slug) [ClosePending, ConfirmPending] su = []"
    by (rule board.close_confirm) simp_all
qed

theorem board_changes_confirmed_witness:
  "let i = bare_issue (js ''1'') (js ''CAD-1'') IOpen EIdle; ms = [Refresh, RequestStatus i IDone, ConfirmPending]
   in map snd (sent (board_step None) ms (board_start [], [])) = [status_call (js ''1'') IDone] \<and>
      (\<exists>p ms1 ms2 ms3. ms = ms1 @ request_msg p # ms2 @ ConfirmPending # ms3 \<and> ClosePending \<notin> set ms2 \<and>
         status_call (js ''1'') IDone = pending_call p)"
proof -
  let ?ms = "[Refresh, RequestStatus (bare_issue (js ''1'') (js ''CAD-1'') IOpen EIdle) IDone, ConfirmPending]"
  have e: "sent (board_step None) ?ms (board_start [], []) = [(ConfirmPending, status_call (js ''1'') IDone)]"
    by (simp add: board_step_def executePendingAction_def bare_issue_def)
  show ?thesis
    using board_changes_confirmed [of None ?ms "[]"] unfolding e Let_def by simp
qed

subsection \<open>Columns\<close>

text \<open>The columns of the board show every issue of the list exactly once, in the list's order within a column,
  and the totals of the header are the lengths of the columns and add up to the number of issues.\<close>

lemma board_columns_partition:
  "mset (concat (map (grouped allIssues) (map fst statuses))) = mset allIssues \<and>
   counts allIssues st = length (grouped allIssues st) \<and>
   sum_list (map (counts allIssues) (map fst statuses)) = length allIssues \<and>
   subseq (grouped allIssues st) allIssues"
proof (intro conjI)
  show "mset (concat (map (grouped allIssues) (map fst statuses))) = mset allIssues"
  proof (induction allIssues)
    case (Cons i iss)
    then show ?case by (cases "issue_status i") (simp_all add: grouped_def statuses_def)
  qed (simp add: grouped_def)
  show "sum_list (map (counts allIssues) (map fst statuses)) = length allIssues"
  proof (induction allIssues)
    case (Cons i iss)
    then show ?case by (cases "issue_status i") (simp_all add: counts_def statuses_def)
  qed (simp add: counts_def statuses_def)
qed (simp_all add: counts_def grouped_def)

subsection \<open>Filters and the address\<close>

lemma valid_status_str [simp]: "validStatusFilter (Some (issue_status_str st)) = Some st"
  by (cases st) (simp_all add: validStatusFilter_def js_def)

lemma valid_execution_str [simp]: "validExecutionFilter (Some (exec_status_str st)) = Some st"
  by (cases st) (simp_all add: validExecutionFilter_def js_def)

lemma valid_none [simp]: "validStatusFilter None = None" "validExecutionFilter None = None"
  by (simp_all add: validStatusFilter_def validExecutionFilter_def)

lemma filter_str_all [simp]: "status_filter_str None = js ''all''" "execution_filter_str None = js ''all''"
  by (simp_all add: status_filter_str_def execution_filter_str_def)

lemma status_str_neq [simp]: "issue_status_str st \<noteq> js ''all''" "issue_status_str st \<noteq> []"
  by (cases st; simp add: js_def)+

lemma exec_str_neq [simp]: "exec_status_str ex \<noteq> js ''all''" "exec_status_str ex \<noteq> []"
  by (cases ex; simp add: js_def)+

lemma url_get_setParam:
  "url_get k (setParam key v u) =
     (if k = ''cursor'' \<and> key \<noteq> ''view'' then None
      else if k = key then (if v = [] \<or> v = js ''all'' then None else Some v) else url_get k u)"
  by (auto simp: setParam_def Let_def url_get_set url_get_delete)


text \<open>The view mode and the address.\<close>

definition view_synced :: "board_state \<times> search_params \<Rightarrow> bool" where
  "view_synced su \<longleftrightarrow> (b_viewMode (fst su) = ListView \<longleftrightarrow> url_get ''view'' (snd su) = Some (js ''list''))"

fun keeps_view :: "board_msg \<Rightarrow> bool" where
  "keeps_view ClearFilters \<longleftrightarrow> False"
| "keeps_view (SetParam k v) \<longleftrightarrow> k \<noteq> ''view''"
| "keeps_view _ \<longleftrightarrow> True"

lemma view_synced_step: "view_synced su \<Longrightarrow> keeps_view m \<Longrightarrow> view_synced (fst (board_step slug m su))"
proof (cases m)
  case (DialogMsg d)
  assume "view_synced su"
  then show ?thesis
    by (cases d) (auto simp: DialogMsg board_step_def view_synced_def with_dialog_def Let_def)
next
  case ConfirmPending
  assume "view_synced su"
  then show ?thesis
    by (auto simp: ConfirmPending board_step_def view_synced_def executePendingAction_def split: option.split pending_action.split)
next
  case (SetView w)
  then show ?thesis
    by (cases w) (auto simp: board_step_def view_synced_def url_get_setParam js_def)
qed (auto simp: board_step_def view_synced_def with_dialog_def url_get_setParam invalidateIssues_def)

text \<open>The board is reloadable: what it is started from is the address.\<close>

interpretation board_view: reloadable "board_step slug" keeps_view view_synced "\<lambda>su. (board_start (snd su), snd su)" "\<lambda>su. b_viewMode (fst su)"
  for slug
proof
  fix su :: "board_state \<times> search_params"
  assume "view_synced su"
  then show "b_viewMode (fst (board_start (snd su), snd su)) = b_viewMode (fst su)"
    by (cases "b_viewMode (fst su)") (auto simp: view_synced_def board_start_def)
qed (rule view_synced_step)

text \<open>The view mode and the address stay in step, so that reloading or sharing the address shows the same
  view, after any sequence of messages without clearing the filters. Clearing the filters breaks it:
  after switching to the list and clearing, the page still shows the list while its address says
  board.\<close>

lemma board_view_synced:
  "(list_all keeps_view ms \<longrightarrow>
      b_viewMode (board_start (snd (steps (board_step slug) ms (board_start u, u)))) =
      b_viewMode (fst (steps (board_step slug) ms (board_start u, u)))) \<and>
   (let (s, u') = steps (board_step slug) [SetView ListView, ClearFilters] (board_start u, u)
    in b_viewMode s = ListView \<and> b_viewMode (board_start u') = BoardView)"
proof (intro conjI impI)
  assume ms: "list_all keeps_view ms"
  have "view_synced (board_start u, u)" by (simp add: view_synced_def board_start_def)
  from board_view.reload_steps [OF this ms, of slug]
  show "b_viewMode (board_start (snd (steps (board_step slug) ms (board_start u, u)))) =
      b_viewMode (fst (steps (board_step slug) ms (board_start u, u)))"
    by simp
qed (simp add: board_step_def board_start_def url_get_def)

lemma board_view_synced_instance:
  "b_viewMode (board_start (snd (steps (board_step None) [SetView ListView, SetParam ''q'' (js ''x'')] (board_start [], [])))) = ListView"
  using board_view_synced [of "[SetView ListView, SetParam ''q'' (js ''x'')]" None "[]"]
  by (simp add: board_step_def)

end
