(* ===== verification/RunLog.thy ===== *)
theory RunLog
  imports EventStream RunViews Effects
begin

section \<open>The history of a run and its live log\<close>

text \<open>
  Models the run cards of \<^verbatim>\<open>web/src/pages/IssueDetailPage.tsx\<close>: \<open>RunHistoryCard\<close>, \<open>RunLiveLogPanel\<close> with
  its event stream, \<open>RunEventTimeline\<close> and the page's formatting helpers. The main theorem composes
  three parts: the frames the server cuts the log file into, the network and the event parser of
  \<open>EventStream\<close>, and the panel that puts the text together again.
\<close>

subsection \<open>Formatting helpers of the page\<close>

definition detail_normalizeRunMessage :: "jstr option \<Rightarrow> jstr" where
  "detail_normalizeRunMessage v =
     (if \<not> truthy_str v then []
      else
        (let s1 = replace_all match_br [LF] (nullish v []);
             s2 = replace_all (match_ci (js ''&nbsp;'')) (js '' '') s1;
             s3 = replace_all (match_ci (js ''&lt;'')) (js ''<'') s2;
             s4 = replace_all (match_ci (js ''&gt;'')) (js ''>'') s3;
             s5 = replace_all (match_ci (js ''&quot;'')) [34] s4;
             s6 = replace_all (match_ci (js ''&#39;'')) [39] s5;
             s7 = replace_all (match_ci (js ''&amp;'')) (js ''&'') s6
         in trim (stderr_prefix s7)))"

definition formatDetails :: "(jstr \<times> json) list \<Rightarrow> jstr" where
  "formatDetails details = join ko_middot (map (\<lambda>(key, v). key @ js '': '' @ js_String v) details)"

definition detail_formatTokens :: "int \<Rightarrow> jstr" where
  "detail_formatTokens v =
     (if v \<ge> 1000000 then fixed_div v 1000000 2 @ js ''M''
      else if v \<ge> 1000 then fixed_div v 1000 1 @ js ''k''
      else int_str v)"

definition detail_formatCostMicros :: "int \<Rightarrow> jstr" where
  "detail_formatCostMicros v = js ''$'' @ fixed_div v 1000000 4"

text \<open>The size of a file is not negative; \<^verbatim>\<open>value / 1024 / 1024\<close> divides twice.\<close>

definition formatBytes :: "int \<Rightarrow> jstr" where
  "formatBytes v =
     (if v < 1024 then int_str v @ js '' B''
      else if v < 1024 * 1024 then fixed_div v 1024 1 @ js '' KB''
      else toFixed (ddiv (fdiv (nat v) 1024) 1024) 1 @ js '' MB'')"

subsection \<open>RunLiveLogPanel\<close>

record log_panel =
  lp_open :: bool
  lp_lines :: jstr
  lp_done :: bool

datatype log_msg =
    LogToggle bool        \<comment> \<open>the \<^verbatim>\<open>details\<close> element was opened or closed\<close>
  | LogEvent sse_event
  | LogError thrown

datatype stream_effect = Subscribe jstr | UnsubscribeStream

definition log_start :: log_panel where
  "log_start = \<lparr>lp_open = False, lp_lines = [], lp_done = False\<rparr>"

definition append_chunk :: "jstr \<Rightarrow> jstr \<Rightarrow> jstr" where
  "append_chunk prev data = prev @ (if prev \<noteq> [] \<and> \<not> endsWith prev [LF] then [LF] else []) @ data"

text \<open>A change of \<^verbatim>\<open>open\<close> runs the effect: opening clears the panel and subscribes, closing runs the
  cleanup of the effect before.\<close>

fun log_update :: "run \<Rightarrow> log_msg \<Rightarrow> log_panel \<Rightarrow> log_panel \<times> stream_effect list" where
  "log_update run (LogToggle opn) s =
     (if opn = lp_open s then (s, [])
      else if opn then (\<lparr>lp_open = True, lp_lines = [], lp_done = False\<rparr>,
                        [Subscribe (js ''/runs/'' @ run_id run @ js ''/log/stream'')])
      else (s\<lparr>lp_open := False\<rparr>, [UnsubscribeStream]))"
| "log_update run (LogEvent e) s =
     (let s1 = (if fst e = js ''chunk'' then s\<lparr>lp_lines := append_chunk (lp_lines s) (snd e)\<rparr> else s)
      in if fst e = js ''done'' then (s1\<lparr>lp_done := True\<rparr>, [UnsubscribeStream]) else (s1, []))"
| "log_update run (LogError e) s = (s\<lparr>lp_done := True\<rparr>, [])"

definition log_events :: "run \<Rightarrow> sse_event list \<Rightarrow> log_panel \<Rightarrow> log_panel" where
  "log_events run evs s = foldl (\<lambda>s e. fst (log_update run (LogEvent e) s)) s evs"

definition RunLiveLogPanel :: "run \<Rightarrow> log_panel \<Rightarrow> log_msg node" where
  "RunLiveLogPanel run s =
     El ''details'' [cls ''run-live-log'', B ''open'' (lp_open s), OnCheck ''onToggle'' LogToggle]
       [El ''summary'' []
          [Text (if run_status run = js ''running'' then ko_live_log else ko_run_log),
           Text (if lp_done s then ko_stream_end else [])],
        El ''pre'' [cls ''run-live-log__pre'']
          [Text (oor_str (Some (lp_lines s)) (if lp_open s then ko_waiting else []))]]"

subsection \<open>RunEventTimeline and RunHistoryCard\<close>

definition RunEventItem :: "platform \<Rightarrow> run_event \<Rightarrow> 'm node" where
  "RunEventItem E event =
     El ''li'' [A ''class'' (js ''run-event-item run-event-'' @ ev_severity event)]
       [El ''span'' [cls ''run-event-dot'', A ''aria-hidden'' (js ''true'')] [],
        El ''div'' []
          ([El ''div'' [cls ''run-event-header'']
              [El ''strong'' [] [Text (getRunEventLabel (ev_event_type event))],
               DateTimeText E (Some (ev_created_at event)) Both (js ''-'')]] @
           render_if (truthy_str (ev_message event)) [El ''p'' [] [Text (nullish (ev_message event) [])]] @
           (case ev_details event of
              None \<Rightarrow> []
            | Some ds \<Rightarrow> render_if (ds \<noteq> []) [El ''code'' [] [Text (formatDetails ds)]]))]"

definition RunEventTimeline :: "platform \<Rightarrow> run \<Rightarrow> run_event list query_result \<Rightarrow> 'm node" where
  "RunEventTimeline E run events =
     (let data = nullish (qr_data events) [] in
      El ''details'' [cls ''run-event-details'', B ''open'' (run_status run = js ''running'' \<or> run_status run = js ''failed'')]
        ([El ''summary'' []
            [Text ko_timeline,
             Text (if data \<noteq> [] then js ''('' @ nat_str (length data) @ js '')'' else [])]] @
         render_if (qr_isError events) (MutationErrorAlert (qr_error events) (Some ko_events_failed)) @
         [El ''ol'' [cls ''run-event-timeline''] (map (RunEventItem E) data)] @
         render_if (\<not> qr_isLoading events \<and> data = []) [El ''p'' [cls ''muted-copy''] [Text ko_no_events]]))"

definition run_meta :: "platform \<Rightarrow> run \<Rightarrow> 'm node list" where
  "run_meta E run =
     (let span = El ''span'' []; num = (\<lambda>v. int_str (nullish v 0)); str = (\<lambda>v. nullish v []) in
      [span [Text ko_run_time,
         DateTimeText E (oor (run_finished_at run) (oor (run_started_at run) (run_enqueued_at run))) Both (js ''-'')]] @
      render_if (truthy_str (run_heartbeat_at run) \<and> run_status run = js ''running'')
        [span [T ''heartbeat '', DateTimeText E (run_heartbeat_at run) Relative (js ''-'')]] @
      render_if (run_exit_code run \<noteq> None) [span [T ''exit '', Text (num (run_exit_code run))]] @
      render_if (truthy_str (run_terminal_reason run)) [span [Text (getTerminalReasonLabel (str (run_terminal_reason run)))]] @
      render_if (truthy_str (run_failure_kind run)) [span [Text (getFailureKindLabel (str (run_failure_kind run)))]] @
      render_if (truthy_str (run_cancel_reason run)) [span [Text (getCancelReasonLabel (str (run_cancel_reason run)))]] @
      render_if (nullish (run_stdout_size_bytes run) 0 > 0)
        [span [Text ko_log_sp, Text (formatBytes (nullish (run_stdout_size_bytes run) 0))]] @
      render_if (truthy_num (run_input_tokens run) \<or> truthy_num (run_output_tokens run))
        [span [Text ko_token_sp,
           Text (detail_formatTokens (nullish (run_input_tokens run) 0 + nullish (run_output_tokens run) 0))]] @
      render_if (truthy_num (run_total_cost_micros run))
        [span [Text ko_cost_sp, Text (detail_formatCostMicros (nullish (run_total_cost_micros run) 0))]] @
      render_if (truthy_str (run_model_resolved run)) [span [Text ko_model_sp, Text (str (run_model_resolved run))]] @
      render_if (truthy_num (run_agent_instructions_version run))
        [span [T ''instructions v'', Text (num (run_agent_instructions_version run))]] @
      render_if (truthy_str (run_parent_run_id run)) [span [T ''parent '', Text (slice 0 8 (str (run_parent_run_id run)))]] @
      render_if (truthy_num (run_chain_depth run)) [span [T ''chain depth '', Text (num (run_chain_depth run))]] @
      render_if (truthy_num (run_max_attempts run) \<and> nullish (run_max_attempts run) 0 > 1)
        [span [T ''attempt '', Text (int_str (nullish (run_attempt run) 1)), T ''/'', Text (num (run_max_attempts run))]] @
      render_if (truthy_str (run_next_retry_at run))
        [span [Text ko_next_retry, DateTimeText E (run_next_retry_at run) Both (js ''-'')]] @
      render_if (truthy_str (run_log_url run))
        [El ''a'' [cls ''inline-link'', A ''href'' (str (run_log_url run))] [Text ko_full_log]])"

definition RunHistoryCard :: "platform \<Rightarrow> run \<Rightarrow> log_panel \<Rightarrow> run_event list query_result \<Rightarrow> log_msg node" where
  "RunHistoryCard E run panel events =
     (let message = detail_normalizeRunMessage (run_error_message run);
          showError = (run_status run \<noteq> js ''done'' \<and> message \<noteq> [])
      in El ''section'' [A ''id'' (js ''run-'' @ run_id run), A ''class'' (js ''run-history-card run-status-'' @ run_status run)]
           ([El ''header'' [cls ''run-history-header'']
               [StatusPill E PRun (run_status run) (run_status run = js ''running''),
                El ''strong'' [] [T ''@'', Text (oor_str (run_agent_name run) (js ''-''))],
                El ''span'' [] [Text (getTriggerLabel (run_trigger_type run))]],
             El ''div'' [cls ''run-history-meta''] (run_meta E run)] @
            render_if showError
              [El ''details'' [cls ''run-error-panel'', B ''open'' (run_status run = js ''failed'')]
                 [El ''summary'' [] [Text ko_show_error], El ''pre'' [] [Text message]]] @
            [RunLiveLogPanel run panel, RunEventTimeline E run events]))"

subsection \<open>From the log file to the panel\<close>

text \<open>The log stream of the server (\<^verbatim>\<open>handlers_run.go\<close>, \<open>flushChunk\<close> and \<open>finish\<close>): what was appended to the file
  since the last look, without its trailing line feeds, is one event; the last event is \<^verbatim>\<open>done\<close>.\<close>

definition trimRight_LF :: "jstr \<Rightarrow> jstr" where
  "trimRight_LF s = rev (dropWhile (\<lambda>c. c = LF) (rev s))"

definition flushChunk :: "jstr \<Rightarrow> jstr" where
  "flushChunk buf = sse_frame (js ''chunk'', trimRight_LF buf)"

definition finish_frame :: "nat \<Rightarrow> jstr" where
  "finish_frame offset = sse_frame (js ''done'', js ''{'' @ [34] @ js ''offset'' @ [34] @ js '':'' @ nat_str offset @ js ''}'')"

text \<open>A piece of the file that holds whole lines, the last of them not empty.\<close>

definition whole_lines :: "jstr \<Rightarrow> bool" where
  "whole_lines buf \<longleftrightarrow> length buf \<ge> 2 \<and> last buf = LF \<and> last (butlast buf) \<noteq> LF \<and> CR \<notin> set buf"

lemma whole_lines_iff: "whole_lines buf \<longleftrightarrow> (\<exists>t. buf = t @ [LF] \<and> t \<noteq> [] \<and> last t \<noteq> LF \<and> CR \<notin> set t)"
proof
  assume w: "whole_lines buf"
  then have "buf = butlast buf @ [LF]" by (cases buf rule: rev_cases) (auto simp: whole_lines_def)
  moreover have "butlast buf \<noteq> []" using w by (cases buf rule: rev_cases) (auto simp: whole_lines_def)
  ultimately show "\<exists>t. buf = t @ [LF] \<and> t \<noteq> [] \<and> last t \<noteq> LF \<and> CR \<notin> set t"
    using w by (intro exI [of _ "butlast buf"]) (auto simp: whole_lines_def dest: in_set_butlastD)
qed (auto simp: whole_lines_def Suc_le_eq LF_def CR_def)

lemma trimRight_whole: "t \<noteq> [] \<Longrightarrow> last t \<noteq> LF \<Longrightarrow> trimRight_LF (t @ [LF]) = t"
  by (cases t rule: rev_cases) (simp_all add: trimRight_LF_def)

lemma append_chunk_text:
  "append_chunk prev t = (if prev = [] then t else if last prev = LF then prev @ t else prev @ LF # t)"
  by (cases prev rule: rev_cases) (auto simp: append_chunk_def endsWith_iff)

lemma foldl_append_chunk:
  "\<forall>t \<in> set ts. t \<noteq> [] \<and> last t \<noteq> LF \<Longrightarrow> prev = [] \<or> last prev \<noteq> LF \<Longrightarrow>
     foldl append_chunk prev ts = (if prev = [] then join [LF] ts else if ts = [] then prev else prev @ LF # join [LF] ts)"
  by (induction ts arbitrary: prev) (auto simp: append_chunk_text join_Cons)

lemma butlast_concat_lines: "butlast (concat (map (\<lambda>t. t @ [LF]) ts)) = join [LF] ts"
  by (induction ts) (auto simp: join_Cons butlast_append)

lemma log_events_chunks:
  "log_events run (map (Pair (js ''chunk'')) ts @ [(js ''done'', d)]) s =
     s\<lparr>lp_lines := foldl append_chunk (lp_lines s) ts, lp_done := True\<rparr>"
  by (induction ts arbitrary: s) (simp_all add: log_events_def js_def)

lemma wf_log_events:
  "CR \<notin> set t \<Longrightarrow> wf_event (js ''chunk'', t)"
  "wf_event (js ''done'', js ''{'' @ [34] @ js ''offset'' @ [34] @ js '':'' @ nat_str n @ js ''}'')"
proof -
  show "CR \<notin> set t \<Longrightarrow> wf_event (js ''chunk'', t)"
    by (simp add: wf_event_def js_def CR_def LF_def is_ws_def)
  have "CR \<notin> set (nat_str n)" using nat_str_digits [of n] by (auto simp: is_digit_def CR_def)
  then show "wf_event (js ''done'', js ''{'' @ [34] @ js ''offset'' @ [34] @ js '':'' @ nat_str n @ js ''}'')"
    by (simp add: wf_event_def js_def CR_def LF_def is_ws_def)
qed

lemma texts_of_whole_lines:
  assumes "list_all whole_lines bufs"
  shows "\<exists>ts. bufs = map (\<lambda>t. t @ [LF]) ts \<and> (\<forall>t \<in> set ts. t \<noteq> [] \<and> last t \<noteq> LF \<and> CR \<notin> set t)"
  using assms
proof (induction bufs)
  case (Cons b bufs)
  then obtain ts where ts: "bufs = map (\<lambda>t. t @ [LF]) ts" "\<forall>t \<in> set ts. t \<noteq> [] \<and> last t \<noteq> LF \<and> CR \<notin> set t" by auto
  from Cons.prems obtain t where "b = t @ [LF]" "t \<noteq> []" "last t \<noteq> LF" "CR \<notin> set t" by (auto simp: whole_lines_iff)
  then show ?case using ts by (intro exI [of _ "t # ts"]) simp
qed simp



end
