(* ===== verification/IssueDetail.thy ===== *)
theory IssueDetail
  imports RunLog Mentions IssuePanels Board
begin

section \<open>The issue page\<close>

text \<open>
  Models \<^verbatim>\<open>web/src/pages/IssueDetailPage.tsx\<close>, the page component: its state, its handlers and mutations,
  the subscription to the issue's event stream with the polling fallback, and the view that composes
  the panels. A mutation function that awaits several requests (\<open>addComment\<close>, which posts the comment
  and then uploads the files one after the other) is a small machine of its own inside the state.
\<close>

subsection \<open>State, environment and messages\<close>

datatype confirm_action = Rerun | CancelRun | MarkDone | CancelIssue | Reopen

record comment_response =
  cr_comment :: comment
  cr_mention_warnings :: "jstr list option"
  cr_dispatched_run :: "run option"

text \<open>Where the mutation \<open>addComment\<close> is: it keeps the files chosen when it was started.\<close>

datatype comment_flight =
    Resting
  | Posting "picked_file list"
  | Uploading comment_response picked_file "picked_file list"   \<comment> \<open>under way, and still to come\<close>

record detail_state =
  d_content :: jstr
  d_commentFiles :: "picked_file list"
  d_subIssueForm :: issue_form
  d_confirmAction :: "confirm_action option"
  d_realtimeFallback :: bool
  d_flight :: comment_flight
  d_expandFailures :: bool                     \<comment> \<open>state of \<open>ReviewBanner\<close>\<close>
  d_attachments :: attachments_state           \<comment> \<open>state of \<open>IssueAttachmentsPanel\<close>\<close>
  d_logs :: "jstr \<Rightarrow> log_panel"                \<comment> \<open>state of each run's \<open>RunLiveLogPanel\<close>\<close>

definition detail_start :: detail_state where
  "detail_start = \<lparr>d_content = [], d_commentFiles = [], d_subIssueForm = empty_issue_form, d_confirmAction = None,
     d_realtimeFallback = False, d_flight = Resting, d_expandFailures = False, d_attachments = attachments_start,
     d_logs = (\<lambda>_. log_start)\<rparr>"

text \<open>What the page reads: the route, the queries, the mutations, and of the browser the cursor, the key
  pressed, the answer of \<^verbatim>\<open>window.confirm\<close> and whether the graph's code is loaded.\<close>

record detail_env =
  de_slug :: "jstr option"
  de_identifier :: "jstr option"
  de_issue :: "issue query_result"
  de_workspace :: "workspace option"
  de_comments :: "comment list query_result"
  de_runs :: "run list query_result"
  de_subIssues :: "issue list query_result"
  de_agents :: "agent list query_result"
  de_attachments :: "attachment list option"
  de_runEvents :: "jstr \<Rightarrow> run_event list query_result"
  de_addCommentError :: "thrown option"
  de_rerun :: mutation
  de_cancelRun :: mutation
  de_updateStatus :: mutation
  de_createSubIssue :: mutation
  de_upload :: mutation
  de_chains :: "jstr \<Rightarrow> chain_row_mutations"
  de_cursor :: nat
  de_highlighted :: nat
  de_key :: mention_key
  de_answer :: bool
  de_graphLoaded :: bool

text \<open>A page that shows an issue and nothing else.\<close>

definition bare_detail_env :: "issue option \<Rightarrow> run list \<Rightarrow> detail_env" where
  "bare_detail_env i rs = \<lparr>de_slug = Some (js ''team''), de_identifier = Some (js ''CAD-1''), de_issue = loaded_query i,
     de_workspace = None, de_comments = loaded_query None, de_runs = loaded_query (Some rs), de_subIssues = loaded_query None,
     de_agents = loaded_query None, de_attachments = None, de_runEvents = (\<lambda>_. loaded_query None), de_addCommentError = None,
     de_rerun = idle_mutation, de_cancelRun = idle_mutation, de_updateStatus = idle_mutation, de_createSubIssue = idle_mutation,
     de_upload = idle_mutation, de_chains = (\<lambda>_. \<lparr>cr_cancel_pending = False, cr_retry_pending = False\<rparr>), de_cursor = 0,
     de_highlighted = 0, de_key = OtherKey, de_answer = True, de_graphLoaded = True\<rparr>"

abbreviation de_data :: "detail_env \<Rightarrow> issue option" where
  "de_data v \<equiv> qr_data (de_issue v)"

definition issueID :: "detail_env \<Rightarrow> jstr option" where
  "issueID v = map_option issue_id (de_data v)"

definition runList :: "detail_env \<Rightarrow> run list" where
  "runList v = nullish (qr_data (de_runs v)) []"

definition actionPending :: "detail_env \<Rightarrow> bool" where
  "actionPending v \<longleftrightarrow> m_pending (de_rerun v) \<or> m_pending (de_cancelRun v) \<or> m_pending (de_updateStatus v)"

datatype detail_msg =
    AskAction confirm_action
  | RunConfirmed
  | CloseConfirm
  | RetryStage jstr nat
  | SetContent jstr
  | MentionKey
  | MentionInsert agent
  | SetFiles "picked_file list"
  | SubTitle jstr
  | SubBody jstr
  | SubAssignee jstr
  | SubmitComment
  | SubmitSubIssue
  | RefreshIssue
  | CommentPosted comment_response
  | CommentFailed thrown
  | FileUploaded "thrown option"               \<comment> \<open>the upload under way ended, with an error or not\<close>
  | RerunDone "thrown option"
  | CancelRunDone "thrown option"
  | StatusDone issue_status "thrown option"
  | ActionSettled
  | SubIssueDone "thrown option"
  | IssueIDChanged
  | StreamOpened
  | StreamEvent sse_event
  | StreamFailed thrown
  | FallbackTick
  | ToggleFailures
  | AttachmentMsg attachments_msg
  | ChainMsg chain_msg
  | LogMsg jstr log_msg

subsection \<open>Handlers\<close>

definition detail_statusToast :: "issue_status \<Rightarrow> jstr" where
  "detail_statusToast st = (case st of IOpen \<Rightarrow> ko_toast_reopened | IDone \<Rightarrow> ko_toast_done | ICancelled \<Rightarrow> ko_toast_cancelled)"

definition detail_errorMessage :: "thrown \<Rightarrow> jstr" where
  "detail_errorMessage = error_message_or ko_default_error"

definition run_events_stale :: "detail_env \<Rightarrow> effect list" where
  "run_events_stale v = map (\<lambda>r. Invalidate [kname ''run-events'', KS (run_id r)]) (runList v)"

definition invalidateIssue :: "detail_env \<Rightarrow> effect list" where
  "invalidateIssue v =
     [Invalidate [kname ''issue'', kopt (de_slug v), kopt (de_identifier v)],
      Invalidate [kname ''comments'', kopt (issueID v)], Invalidate [kname ''runs'', kopt (issueID v)],
      Invalidate [kname ''issues'', kopt (de_slug v)], Invalidate [kname ''subissues'', kopt (issueID v)]] @
     run_events_stale v"

text \<open>What an event of the stream marks stale, and what a poll of the fallback does.\<close>

definition stream_stale :: "detail_env \<Rightarrow> effect list" where
  "stream_stale v =
     [Invalidate [kname ''comments'', kopt (issueID v)], Invalidate [kname ''runs'', kopt (issueID v)],
      Invalidate [kname ''issue'', kopt (de_slug v), kopt (de_identifier v)]]"

definition pollRealtimeFallback :: "detail_env \<Rightarrow> effect list" where
  "pollRealtimeFallback v = (if truthy_str (issueID v) then stream_stale v @ run_events_stale v else [])"

definition issue_url :: "detail_env \<Rightarrow> string \<Rightarrow> jstr" where
  "issue_url v sfx = js ''/issues/'' @ tpl (issueID v) @ js sfx"

definition upload_call :: "detail_env \<Rightarrow> comment_response \<Rightarrow> picked_file \<Rightarrow> api_call" where
  "upload_call v data f = CPostForm (issue_url v ''/attachments'') [(''file'', file_name f), (''comment_id'', cm_id (cr_comment data))]"

definition comment_success :: "detail_env \<Rightarrow> comment_response \<Rightarrow> effect list" where
  "comment_success v data =
     invalidateIssue v @ [Invalidate [kname ''attachments'', kopt (issueID v)]] @
     [case cr_dispatched_run data of
        Some r \<Rightarrow> ShowToast Success ko_mention_queued (Some (js ''run '' @ slice 0 8 (run_id r)))
      | None \<Rightarrow> ShowToast Success ko_comment_added None] @
     map (\<lambda>w. ShowToast Warning ko_mention_warning (Some w)) (nullish (cr_mention_warnings data) [])"

text \<open>The loop over the files: start the next upload, or succeed.\<close>

fun continue_uploads :: "detail_env \<Rightarrow> comment_response \<Rightarrow> picked_file list \<Rightarrow> detail_state \<Rightarrow> detail_state \<times> effect list" where
  "continue_uploads v data [] s =
     (s\<lparr>d_flight := Resting, d_content := [], d_commentFiles := []\<rparr>, comment_success v data)"
| "continue_uploads v data (f # fs) s = (s\<lparr>d_flight := Uploading data f fs\<rparr>, [Mutate (upload_call v data f)])"

definition done_effects :: "detail_env \<Rightarrow> jstr \<Rightarrow> jstr \<Rightarrow> thrown option \<Rightarrow> effect list" where
  "done_effects v ok failed err = (case err of
       None \<Rightarrow> invalidateIssue v @ [ShowToast Success ok None]
     | Some e \<Rightarrow> [ShowToast Error failed (Some (detail_errorMessage e))])"

definition retry_template :: "jstr \<Rightarrow> nat \<Rightarrow> jstr" where
  "retry_template agentName stage =
     js ''@'' @ agentName @ ko_retry1 @ nat_str stage @ ko_retry2 @ [LF, LF] @
     ko_retry3"

fun action_call :: "jstr \<Rightarrow> confirm_action \<Rightarrow> api_call" where
  "action_call i Rerun = CPost (js ''/issues/'' @ i @ js ''/rerun'') None"
| "action_call i CancelRun = CPost (js ''/issues/'' @ i @ js ''/cancel'') None"
| "action_call i MarkDone = status_call i IDone"
| "action_call i CancelIssue = status_call i ICancelled"
| "action_call i Reopen = status_call i IOpen"

definition runConfirmedAction :: "detail_env \<Rightarrow> detail_state \<Rightarrow> effect list" where
  "runConfirmedAction v s = (case (de_data v, d_confirmAction s) of
       (Some i, Some a) \<Rightarrow> [Mutate (action_call (issue_id i) a)]
     | _ \<Rightarrow> [])"

definition refreshIssue :: "detail_env \<Rightarrow> effect list" where
  "refreshIssue v =
     [Refetch (q_key (useWorkspaceIssueQuery (de_slug v) (de_identifier v) None)), Refetch (q_key (useAgentsQuery (de_slug v))),
      Refetch (q_key (useSubIssuesQuery (issueID v)))] @
     (if truthy_str (issueID v)
      then [Refetch (q_key (useCommentsQuery (issueID v) None)), Refetch (q_key (useRunsQuery (issueID v) None))] @ run_events_stale v
      else [])"

text \<open>The mention field of the comment form, as the component \<open>MentionAutocomplete\<close> changes the text.\<close>

definition mention_key :: "platform \<Rightarrow> detail_env \<Rightarrow> detail_state \<Rightarrow> jstr" where
  "mention_key E v s =
     (case mention_keydown E (nullish (qr_data (de_agents v)) []) (d_content s) (de_cursor v) (de_highlighted v) (de_key v) of
        Some (_, Some (t, _)) \<Rightarrow> t
      | _ \<Rightarrow> d_content s)"

definition mention_insert :: "detail_env \<Rightarrow> agent \<Rightarrow> jstr \<Rightarrow> jstr" where
  "mention_insert v a content =
     (case insertAgent content (getMentionQuery content (de_cursor v)) a of Some (t, _) \<Rightarrow> t | None \<Rightarrow> content)"

fun detail_update :: "platform \<Rightarrow> detail_env \<Rightarrow> detail_msg \<Rightarrow> detail_state \<Rightarrow> detail_state \<times> effect list" where
  "detail_update E v (AskAction a) s = (s\<lparr>d_confirmAction := Some a\<rparr>, [])"
| "detail_update E v RunConfirmed s = (s, runConfirmedAction v s)"
| "detail_update E v CloseConfirm s = (s\<lparr>d_confirmAction := None\<rparr>, [])"
| "detail_update E v (RetryStage agentName stage) s = (s\<lparr>d_content := retry_template agentName stage\<rparr>, [])"
| "detail_update E v (SetContent t) s = (s\<lparr>d_content := t\<rparr>, [])"
| "detail_update E v MentionKey s = (s\<lparr>d_content := mention_key E v s\<rparr>, [])"
| "detail_update E v (MentionInsert a) s = (s\<lparr>d_content := mention_insert v a (d_content s)\<rparr>, [])"
| "detail_update E v (SetFiles fs) s = (s\<lparr>d_commentFiles := fs\<rparr>, [])"
| "detail_update E v (SubTitle t) s = (s\<lparr>d_subIssueForm := (d_subIssueForm s)\<lparr>if_title := t\<rparr>\<rparr>, [])"
| "detail_update E v (SubBody t) s = (s\<lparr>d_subIssueForm := (d_subIssueForm s)\<lparr>if_body := t\<rparr>\<rparr>, [])"
| "detail_update E v (SubAssignee t) s = (s\<lparr>d_subIssueForm := (d_subIssueForm s)\<lparr>if_assignee := t\<rparr>\<rparr>, [])"
| "detail_update E v SubmitComment s =
     (if de_data v = None \<or> trim (d_content s) = [] \<or> d_flight s \<noteq> Resting then (s, [])
      else (s\<lparr>d_flight := Posting (d_commentFiles s)\<rparr>,
            [Mutate (CPost (issue_url v ''/comments'') (Some (jobj [(''content'', JStr (d_content s))])))]))"
| "detail_update E v SubmitSubIssue s =
     (s, if de_data v = None \<or> trim (if_title (d_subIssueForm s)) = [] then []
         else [Mutate (CPost (issue_url v ''/subissues'') (Some (form_json (d_subIssueForm s))))])"
| "detail_update E v RefreshIssue s = (s, refreshIssue v)"
| "detail_update E v (CommentPosted data) s =
     (case d_flight s of Posting fs \<Rightarrow> continue_uploads v data fs s | _ \<Rightarrow> (s, []))"
| "detail_update E v (CommentFailed e) s =
     (case d_flight s of
        Posting fs \<Rightarrow> (s\<lparr>d_flight := Resting\<rparr>, [ShowToast Error ko_comment_failed (Some (detail_errorMessage e))])
      | _ \<Rightarrow> (s, []))"
| "detail_update E v (FileUploaded err) s =
     (case d_flight s of
        Uploading data f fs \<Rightarrow>
          (let (s', fx) = continue_uploads v data fs s
           in (s', (case err of None \<Rightarrow> []
                    | Some e \<Rightarrow> [ShowToast Error ko_attach_failed
                                   (Some (file_name f @ js '': '' @ detail_errorMessage e))]) @ fx))
      | _ \<Rightarrow> (s, []))"
| "detail_update E v (RerunDone err) s = (s, done_effects v ko_rerun_queued ko_rerun_failed err)"
| "detail_update E v (CancelRunDone err) s = (s, done_effects v ko_cancel_requested ko_cancel_failed err)"
| "detail_update E v (StatusDone st err) s = (s, done_effects v (detail_statusToast st) ko_status_failed err)"
| "detail_update E v ActionSettled s = (s\<lparr>d_confirmAction := None\<rparr>, [])"
| "detail_update E v (SubIssueDone err) s =
     ((if err = None then s\<lparr>d_subIssueForm := empty_issue_form\<rparr> else s),
      done_effects v ko_sub_created ko_sub_failed err)"
| "detail_update E v IssueIDChanged s = (s\<lparr>d_realtimeFallback := False\<rparr>, [])"
| "detail_update E v StreamOpened s = (s\<lparr>d_realtimeFallback := False\<rparr>, [])"
| "detail_update E v (StreamEvent e) s = (s, if fst e \<noteq> js ''run_event'' then [] else stream_stale v)"
| "detail_update E v (StreamFailed e) s =
     (s\<lparr>d_realtimeFallback := True\<rparr>, if d_realtimeFallback s then [] else pollRealtimeFallback v)"
| "detail_update E v FallbackTick s = (s, if d_realtimeFallback s then pollRealtimeFallback v else [])"
| "detail_update E v ToggleFailures s = (s\<lparr>d_expandFailures := \<not> d_expandFailures s\<rparr>, [])"
| "detail_update E v (AttachmentMsg m) s =
     (let (a, fx) = attachments_update (tpl (issueID v)) (de_answer v) m (d_attachments s)
      in (s\<lparr>d_attachments := a\<rparr>, fx))"
| "detail_update E v (ChainMsg m) s = (s, chain_update (issueID v) (de_workspace v) (de_answer v) m)"
| "detail_update E v (LogMsg r m) s =
     (case find (\<lambda>run. run_id run = r) (runList v) of
        None \<Rightarrow> (s, [])
      | Some run \<Rightarrow> (s\<lparr>d_logs := (d_logs s)(r := fst (log_update run m (d_logs s r)))\<rparr>, []))"

subsection \<open>Texts of the confirmation\<close>

definition confirmTitle :: "confirm_action option \<Rightarrow> jstr" where
  "confirmTitle a = (case a of
       None \<Rightarrow> ko_confirm_work
     | Some Rerun \<Rightarrow> ko_ask_rerun
     | Some CancelRun \<Rightarrow> ko_ask_cancel_run
     | Some MarkDone \<Rightarrow> ko_ask_done
     | Some CancelIssue \<Rightarrow> ko_ask_cancel
     | Some Reopen \<Rightarrow> ko_ask_reopen)"

definition confirmDescription :: "confirm_action option \<Rightarrow> jstr option \<Rightarrow> jstr option" where
  "confirmDescription a title =
     (let target = (if truthy_str title then ko_ldquo @ nullish title [] @ ko_rdquo else ko_selected_issue) in
      map_option (\<lambda>act. target @ (case act of
          Rerun \<Rightarrow> ko_d_rerun
        | CancelRun \<Rightarrow> ko_d_cancel_run
        | MarkDone \<Rightarrow> ko_d_done
        | CancelIssue \<Rightarrow> ko_desc_cancel
        | Reopen \<Rightarrow> ko_desc_reopen)) a)"

definition confirmLabel :: "confirm_action option \<Rightarrow> jstr" where
  "confirmLabel a = (case a of
       None \<Rightarrow> ko_confirm
     | Some Rerun \<Rightarrow> ko_rerun
     | Some CancelRun \<Rightarrow> ko_cancel_exec
     | Some MarkDone \<Rightarrow> ko_mark_done
     | Some CancelIssue \<Rightarrow> ko_cancel_issue
     | Some Reopen \<Rightarrow> ko_reopen)"

subsection \<open>Views\<close>

definition detail_review :: "detail_env \<Rightarrow> detail_msg review_props" where
  "detail_review v = \<lparr>rv_onMarkDone = AskAction MarkDone, rv_onCancelIssue = AskAction CancelIssue,
     rv_onRetryStage = Some RetryStage, rv_disabled = actionPending v, rv_onToggle = ToggleFailures\<rparr>"

definition detail_rail :: "detail_env \<Rightarrow> detail_msg rail_props" where
  "detail_rail v = \<lparr>rail_busy = (case de_data v of None \<Rightarrow> False | Some i \<Rightarrow> issue_busy i),
     rail_actionPending = actionPending v, rail_onRerun = AskAction Rerun, rail_onCancelRun = AskAction CancelRun,
     rail_onMarkDone = AskAction MarkDone, rail_onCancelIssue = AskAction CancelIssue, rail_onReopen = AskAction Reopen\<rparr>"

definition detail_confirm :: "detail_env \<Rightarrow> detail_state \<Rightarrow> detail_msg confirm_props" where
  "detail_confirm v s =
     \<lparr>cd_open = (d_confirmAction s \<noteq> None), cd_title = confirmTitle (d_confirmAction s),
      cd_description = confirmDescription (d_confirmAction s) (map_option issue_title (de_data v)),
      cd_confirmLabel = Some (confirmLabel (d_confirmAction s)), cd_cancelLabel = None,
      cd_tone = (if d_confirmAction s = Some CancelIssue \<or> d_confirmAction s = Some CancelRun then ToneDanger else ToneDefault),
      cd_pending = actionPending v, cd_onConfirm = RunConfirmed, cd_onClose = CloseConfirm\<rparr>"

definition heading :: "jstr \<Rightarrow> 'm node list \<Rightarrow> 'm node" where
  "heading title rest = El ''div'' [cls ''section-heading compact''] (El ''h2'' [] [Text title] # rest)"

definition count_badge :: "'a list option \<Rightarrow> 'm node" where
  "count_badge xs = El ''span'' [cls ''badge''] [Text (nat_str (length (nullish xs [])))]"

definition subissue_panel :: "platform \<Rightarrow> detail_env \<Rightarrow> detail_state \<Rightarrow> detail_msg node" where
  "subissue_panel E v s =
     (let subs = nullish (qr_data (de_subIssues v)) []; form = d_subIssueForm s; pending = m_pending (de_createSubIssue v) in
      El ''article'' [cls ''panel'']
        ([heading ko_sub_issues [count_badge (qr_data (de_subIssues v))],
          El ''div'' [cls ''subissue-list'']
            (map (\<lambda>i. El ''a'' [cls ''subissue-card'', A ''href'' (issue_path (de_slug v) (issue_identifier i))]
               [El ''strong'' [] [Text (issue_identifier i)], El ''span'' [] [Text (issue_title i)],
                StatusPill E PIssue (issue_status_str (issue_status i)) False]) subs)] @
         render_if (\<not> qr_isLoading (de_subIssues v) \<and> subs = [])
           [El ''p'' [cls ''muted-copy''] [Text ko_no_subs]] @
         [El ''form'' [cls ''form-grid subissue-form'', On ''onSubmit'' SubmitSubIssue]
            ([El ''input'' [A ''placeholder'' ko_sub_title, A ''value'' (if_title form), OnValue ''onChange'' SubTitle] [],
              El ''select'' [A ''value'' (if_assignee form), OnValue ''onChange'' SubAssignee]
                (El ''option'' [A ''value'' []] [Text ko_auto_main] #
                 map (\<lambda>a. El ''option'' [A ''value'' (ag_id a)] [T ''@'', Text (ag_name a), Text ko_middot, Text (ag_runtime a)])
                   (nullish (qr_data (de_agents v)) [])),
              El ''textarea'' [A ''placeholder'' ko_sub_body, A ''value'' (if_body form), OnValue ''onChange'' SubBody] [],
              El ''button'' [cls ''button secondary'', A ''type'' (js ''submit''),
                  B ''disabled'' (de_data v = None \<or> pending \<or> trim (if_title form) = [])]
                [Text (if pending then ko_creating else ko_create_sub)]] @
             render_if (m_isError (de_createSubIssue v)) (MutationErrorAlert (m_error (de_createSubIssue v)) (Some ko_sub_failed)))]))"

definition comment_block :: "platform \<Rightarrow> (jstr \<Rightarrow> 'm node list) \<Rightarrow> comment \<Rightarrow> 'm node" where
  "comment_block E reactMarkdown c =
     El ''div'' [cls ''comment-block'']
       ([El ''div'' [cls ''comment-meta-row'']
           ([El ''strong'' [] [Text (oor_str (cm_author_agent_name c) (cm_author_type c))],
             DateTimeText E (Some (cm_created_at c)) Both (js ''-'')] @
            render_if (cm_truncated c = Some True) [El ''span'' [cls ''badge warning''] [T ''truncated'']]),
         MarkdownText reactMarkdown (cm_content c)] @
        render_if (truthy_str (cm_log_url c))
          [El ''a'' [cls ''inline-link'', A ''href'' (nullish (cm_log_url c) [])] [Text ko_show_log]])"

definition comment_panel :: "platform \<Rightarrow> (jstr \<Rightarrow> detail_msg node list) \<Rightarrow> jstr \<Rightarrow> detail_env \<Rightarrow> detail_state \<Rightarrow> detail_msg node" where
  "comment_panel E reactMarkdown helpID v s =
     (let comments = nullish (qr_data (de_comments v)) []; pending = (d_flight s \<noteq> Resting) in
      El ''article'' [cls ''panel'']
        ([heading ko_comment_thread [count_badge (qr_data (de_comments v))]] @
         map (comment_block E reactMarkdown) comments @
         render_if (\<not> qr_isLoading (de_comments v) \<and> comments = []) [El ''p'' [] [Text ko_no_comments]] @
         MentionQueuePanel E (runList v) @
         [El ''form'' [cls ''form-grid comment-form'', On ''onSubmit'' SubmitComment]
            ([MentionAutocomplete E (d_content s) (nullish (qr_data (de_agents v)) [])
                (Some ko_mention_ph) True False (de_cursor v) (de_highlighted v) helpID
                SetContent MentionKey MentionInsert,
              El ''div'' [cls ''comment-form__attach'']
                (El ''input'' [A ''type'' (js ''file''), B ''multiple'' True] [] #
                 render_if (d_commentFiles s \<noteq> [])
                   [El ''span'' [cls ''muted-copy''] [Text (nat_str (length (d_commentFiles s))),
                      Text ko_files_after]]),
              El ''button'' [cls ''button'', A ''type'' (js ''submit''),
                  B ''disabled'' (de_data v = None \<or> pending \<or> trim (d_content s) = [])]
                [Text (if pending then ko_posting else ko_post_comment)]] @
             render_if (de_addCommentError v \<noteq> None) (MutationErrorAlert (de_addCommentError v) (Some ko_comment_failed)))]))"

definition history_panel :: "platform \<Rightarrow> detail_env \<Rightarrow> detail_state \<Rightarrow> detail_msg node" where
  "history_panel E v s =
     El ''article'' [cls ''panel'']
       ([heading ko_run_history [count_badge (Some (runList v))],
         El ''div'' [cls ''run-history-list'']
           (map (\<lambda>r. map_node (LogMsg (run_id r)) (RunHistoryCard E r (d_logs s (run_id r)) (de_runEvents v (run_id r)))) (runList v))] @
        render_if (\<not> qr_isLoading (de_runs v) \<and> runList v = []) [El ''p'' [] [Text ko_no_runs]])"

definition detail_main ::
  "platform \<Rightarrow> (flow_node list \<times> flow_edge list \<Rightarrow> detail_msg node) \<Rightarrow> (jstr \<Rightarrow> detail_msg node list) \<Rightarrow> jstr \<Rightarrow>
   detail_env \<Rightarrow> detail_state \<Rightarrow> detail_msg node" where
  "detail_main E reactFlow reactMarkdown helpID v s =
     El ''div'' [cls ''issue-detail-main'']
       ([El ''article'' [cls ''panel'']
           [heading ko_body (case de_data v of None \<Rightarrow> [] | Some i \<Rightarrow> [StatusPill E PIssue (issue_status_str (issue_status i)) False]),
            MarkdownText reactMarkdown (oor_str (map_option issue_body (de_data v)) ko_no_body)]] @
        (case de_data v of
           None \<Rightarrow> []
         | Some i \<Rightarrow>
             [El ''article'' [cls ''panel'']
                [heading ko_flow_graph [El ''span'' [cls ''badge''] [T ''lineage'']],
                 (if de_graphLoaded v
                  then IssueFlowGraph reactFlow E i (nullish (qr_data (de_subIssues v)) []) (runList v)
                         (map_option ag_name (find ag_is_main (nullish (qr_data (de_agents v)) [])))
                  else El ''p'' [cls ''muted-copy''] [Text ko_graph_loading])]]) @
        map (map_node ChainMsg) (ChainSummaryPanel E (de_chains v) (runList v) (de_workspace v)) @
        render_if (de_data v \<noteq> None)
          [map_node AttachmentMsg (IssueAttachmentsPanel (de_attachments v) (de_upload v) (d_attachments s))] @
        [subissue_panel E v s, comment_panel E reactMarkdown helpID v s, history_panel E v s])"

definition IssueDetailPage ::
  "platform \<Rightarrow> (flow_node list \<times> flow_edge list \<Rightarrow> detail_msg node) \<Rightarrow> (jstr \<Rightarrow> detail_msg node list) \<Rightarrow> jstr \<Rightarrow>
   detail_env \<Rightarrow> detail_state \<Rightarrow> detail_msg node" where
  "IssueDetailPage E reactFlow reactMarkdown helpID v s =
     (let refreshPending = (qr_isFetching (de_issue v) \<or> qr_isFetching (de_comments v) \<or> qr_isFetching (de_runs v) \<or>
            qr_isFetching (de_agents v))
      in El ''section'' [cls ''page-stack'']
        ([PageHeader (Some (tpl (de_slug v) @ js '' / '' @ tpl (de_identifier v)))
            (nullish (map_option issue_title (de_data v)) ko_issue_detail)
            (case de_data v of
               Some i \<Rightarrow> issue_status_str (issue_status i) @ ko_middot @ exec_status_str (issue_execution_status i) @
                 ko_comments_sep @ int_str (issue_comment_count i) @ ko_count_unit
             | None \<Rightarrow> ko_detail_desc)
            [El ''button'' [cls ''button micro secondary'', A ''type'' (js ''button''), On ''onClick'' RefreshIssue,
                 B ''disabled'' refreshPending] [Text (if refreshPending then ko_refreshing else ko_refresh)]]] @
         render_if (qr_isError (de_issue v)) (MutationErrorAlert (qr_error (de_issue v)) (Some ko_issue_load_failed)) @
         render_if (d_realtimeFallback s)
           [El ''p'' [cls ''muted-copy'', A ''role'' (js ''status'')]
              [Text ko_fallback_note]] @
         ReviewBanner E (detail_review v) (d_expandFailures s) (de_data v) (runList v) @
         LiveRunCard E (find (\<lambda>r. run_status r = js ''running'' \<or> run_status r = js ''queued'') (runList v))
           (Some (AskAction CancelRun)) (actionPending v) @
         [AgentPipelineStrip E (runList v) (qr_isLoading (de_runs v)),
          El ''div'' [cls ''issue-detail-layout'']
            [detail_main E reactFlow reactMarkdown helpID v s, IssueSummaryRail E (detail_rail v) (de_data v) (runList v)]] @
         ConfirmDialog (detail_confirm v s)))"

subsection \<open>Confirmed actions\<close>

text \<open>A session of the page: messages, and new results of the queries arriving in between.\<close>

datatype detail_input = Msg detail_msg | Render detail_env

fun detail_step :: "platform \<Rightarrow> detail_input \<Rightarrow> detail_env \<times> detail_state \<Rightarrow> (detail_env \<times> detail_state) \<times> effect list" where
  "detail_step E (Msg m) (v, s) = (let (s', fx) = detail_update E v m s in ((v, s'), fx))"
| "detail_step E (Render v') (v, s) = ((v', s), [])"

text \<open>The messages that send a request of their own: comments, uploads, new issues, chains, attachments.\<close>

fun sends_directly :: "detail_input \<Rightarrow> bool" where
  "sends_directly (Msg SubmitComment) = True"
| "sends_directly (Msg (CommentPosted d)) = True"
| "sends_directly (Msg (FileUploaded e)) = True"
| "sends_directly (Msg SubmitSubIssue) = True"
| "sends_directly (Msg (ChainMsg m)) = True"
| "sends_directly (Msg (AttachmentMsg m)) = True"
| "sends_directly _ = False"

lemma stale_calls [simp]:
  "calls (run_events_stale v) = []" "calls (invalidateIssue v) = []" "calls (stream_stale v) = []"
  "calls (pollRealtimeFallback v) = []" "calls (refreshIssue v) = []" "calls (done_effects v ok failed err) = []"
  by (simp_all add: run_events_stale_def invalidateIssue_def stream_stale_def pollRealtimeFallback_def refreshIssue_def
      done_effects_def split: option.split)

lemma detail_step_Msg:
  "snd (fst (detail_step E (Msg m) vs)) = fst (detail_update E (fst vs) m (snd vs))"
  "snd (detail_step E (Msg m) vs) = snd (detail_update E (fst vs) m (snd vs))"
  by (cases vs; simp split: prod.split)+

lemma confirm_kept_by_uploads [simp]: "d_confirmAction (fst (continue_uploads v data fs s)) = d_confirmAction s"
  by (cases fs) simp_all

lemma detail_pending_only:
  assumes "d_confirmAction (fst (detail_update E v m s)) = Some p"
  shows "d_confirmAction s = Some p \<or> m = AskAction p"
proof (cases m)
  case (FileUploaded err)
  show ?thesis
  proof (cases "d_flight s")
    case (Uploading data f fs)
    then show ?thesis
      using assms confirm_kept_by_uploads [of v data fs s] FileUploaded by (simp add: case_prod_beta Let_def del: confirm_kept_by_uploads)
  qed (use assms FileUploaded in simp_all)
qed (use assms in \<open>auto split: comment_flight.splits option.splits prod.splits if_splits simp: Let_def\<close>)

lemma detail_quiet:
  assumes "\<not> sends_directly (Msg m)" and "m \<noteq> RunConfirmed"
  shows "calls (snd (detail_update E v m s)) = []"
  using assms by (cases m) (auto split: comment_flight.split option.split)

interpretation detail: confirmed_action "\<lambda>vs. d_confirmAction (snd vs)" "detail_step E" "\<lambda>a. Msg (AskAction a)"
  "Msg RunConfirmed" "Msg CloseConfirm" sends_directly
  "\<lambda>vs a. case de_data (fst vs) of None \<Rightarrow> [] | Some i \<Rightarrow> [action_call (issue_id i) a]" for E
proof
  fix m p and vs :: "detail_env \<times> detail_state"
  show "d_confirmAction (snd (fst (detail_step E (Msg (AskAction p)) vs))) = Some p"
    and "d_confirmAction (snd (fst (detail_step E (Msg CloseConfirm) vs))) = None"
    by (simp_all add: detail_step_Msg)
  show "calls (snd (detail_step E (Msg RunConfirmed) vs)) = (case d_confirmAction (snd vs) of None \<Rightarrow> []
      | Some p \<Rightarrow> (case de_data (fst vs) of None \<Rightarrow> [] | Some i \<Rightarrow> [action_call (issue_id i) p]))"
    by (auto simp: detail_step_Msg runConfirmedAction_def split: option.split)
  show "\<not> sends_directly m \<Longrightarrow> m \<noteq> Msg RunConfirmed \<Longrightarrow> calls (snd (detail_step E m vs)) = []"
    using detail_quiet by (cases m; cases vs) (auto simp: detail_step_Msg simp del: detail_step.simps(1))
  assume "d_confirmAction (snd (fst (detail_step E m vs))) = Some p"
  then show "d_confirmAction (snd vs) = Some p \<or> m = Msg (AskAction p)"
    using detail_pending_only by (cases m; cases vs) (auto simp: detail_step_Msg simp del: detail_step.simps(1))
qed

text \<open>C12: The issue page changes the state of an issue or its runs only after a confirmation. In every session, with
  any results of the queries arriving in between, whatever is sent other than a comment with its
  files, a new sub-issue, a chain action or an attachment action is sent by the confirmation dialog,
  for an action asked for earlier and not closed since, and it addresses the issue shown when it was
  confirmed.\<close>

theorem detail_actions_confirmed:
  assumes "(m, c) \<in> set (sent (detail_step E) ms (v, detail_start))" and "\<not> sends_directly m"
  shows "m = Msg RunConfirmed \<and>
    (\<exists>a ms1 ms2 ms3 i. ms = ms1 @ Msg (AskAction a) # ms2 @ Msg RunConfirmed # ms3 \<and> Msg CloseConfirm \<notin> set ms2 \<and>
       de_data (fst (steps (detail_step E) (ms1 @ Msg (AskAction a) # ms2) (v, detail_start))) = Some i \<and>
       c = action_call (issue_id i) a)"
proof -
  have "d_confirmAction (snd (v, detail_start)) = None" by (simp add: detail_start_def)
  from detail.sent_was_confirmed [OF this assms]
  obtain a ms1 ms2 ms3 where m: "m = Msg RunConfirmed" "ms = ms1 @ Msg (AskAction a) # ms2 @ Msg RunConfirmed # ms3"
    "Msg CloseConfirm \<notin> set ms2" and
    c: "c \<in> set (case de_data (fst (steps (detail_step E) (ms1 @ Msg (AskAction a) # ms2) (v, detail_start)))
                 of None \<Rightarrow> [] | Some i \<Rightarrow> [action_call (issue_id i) a])"
    by blast
  from c obtain i where "de_data (fst (steps (detail_step E) (ms1 @ Msg (AskAction a) # ms2) (v, detail_start))) = Some i"
    "c = action_call (issue_id i) a"
    by (cases "de_data (fst (steps (detail_step E) (ms1 @ Msg (AskAction a) # ms2) (v, detail_start)))") auto
  with m show ?thesis by blast
qed

subsection \<open>Comments and their files\<close>

fun all_effects :: "('m \<Rightarrow> 's \<Rightarrow> 's \<times> effect list) \<Rightarrow> 'm list \<Rightarrow> 's \<Rightarrow> effect list" where
  "all_effects step [] s = []"
| "all_effects step (m # ms) s = snd (step m s) @ all_effects step ms (fst (step m s))"

definition upload_toast :: "picked_file \<Rightarrow> thrown option \<Rightarrow> effect list" where
  "upload_toast f err = (case err of None \<Rightarrow> []
     | Some e \<Rightarrow> [ShowToast Error ko_attach_failed (Some (file_name f @ js '': '' @ detail_errorMessage e))])"

lemma FileUploaded_step:
  "d_flight s = Uploading data f fs \<Longrightarrow>
     detail_update E v (FileUploaded err) s =
       (fst (continue_uploads v data fs s), upload_toast f err @ snd (continue_uploads v data fs s))"
  by (simp add: upload_toast_def case_prod_beta Let_def)

text \<open>From the start of an upload on, the loop tries every file, whatever the outcomes.\<close>

lemma uploads_run:
  "length outcomes = length fs \<Longrightarrow>
     steps (detail_update E v) (map FileUploaded outcomes) (fst (continue_uploads v data fs s)) =
       s\<lparr>d_flight := Resting, d_content := [], d_commentFiles := []\<rparr> \<and>
     snd (continue_uploads v data fs s) @
       all_effects (detail_update E v) (map FileUploaded outcomes) (fst (continue_uploads v data fs s)) =
       concat (map (\<lambda>(f, err). Mutate (upload_call v data f) # upload_toast f err) (zip fs outcomes)) @ comment_success v data"
proof (induction fs arbitrary: s outcomes)
  case (Cons f fs)
  then obtain err os where os: "outcomes = err # os" "length os = length fs" by (cases outcomes) auto
  let ?s = "s\<lparr>d_flight := Uploading data f fs\<rparr>"
  have "detail_update E v (FileUploaded err) ?s =
      (fst (continue_uploads v data fs ?s), upload_toast f err @ snd (continue_uploads v data fs ?s))"
    by (rule FileUploaded_step) simp
  then show ?case using Cons.IH [OF os(2), of ?s] by (simp add: os del: detail_update.simps)
qed simp



theorem detail_actions_confirmed_witness:
  "let v = bare_detail_env (Some (bare_issue (js ''1'') (js ''CAD-1'') IOpen EIdle)) [];
       ms = [Msg (AskAction MarkDone), Render v, Msg RunConfirmed]
   in sent (detail_step ascii_platform) ms (v, detail_start) = [(Msg RunConfirmed, status_call (js ''1'') IDone)] \<and>
      (\<exists>a ms1 ms2 ms3. ms = ms1 @ Msg (AskAction a) # ms2 @ Msg RunConfirmed # ms3 \<and> Msg CloseConfirm \<notin> set ms2 \<and>
         status_call (js ''1'') IDone = action_call (js ''1'') a)"
proof -
  let ?v = "bare_detail_env (Some (bare_issue (js ''1'') (js ''CAD-1'') IOpen EIdle)) []"
  let ?ms = "[Msg (AskAction MarkDone), Render ?v, Msg RunConfirmed]"
  have e: "sent (detail_step ascii_platform) ?ms (?v, detail_start) = [(Msg RunConfirmed, status_call (js ''1'') IDone)]"
    by (simp add: runConfirmedAction_def bare_detail_env_def bare_issue_def)
  have "\<exists>a ms1 ms2 ms3. ?ms = ms1 @ Msg (AskAction a) # ms2 @ Msg RunConfirmed # ms3 \<and> Msg CloseConfirm \<notin> set ms2"
    using detail_actions_confirmed [of "Msg RunConfirmed" "status_call (js ''1'') IDone" ascii_platform ?ms ?v] unfolding e by auto
  then obtain a ms1 ms2 ms3 where m: "?ms = ms1 @ Msg (AskAction a) # ms2 @ Msg RunConfirmed # ms3" "Msg CloseConfirm \<notin> set ms2"
    by blast
  moreover have "a = MarkDone" using m(1) by (cases ms1; cases "tl ms1") auto
  ultimately show ?thesis using e unfolding Let_def by (metis action_call.simps(3))
qed

subsection \<open>Keeping the page fresh\<close>

text \<open>The cache keys of what the page shows.\<close>

definition page_keys :: "detail_env \<Rightarrow> key_part list list" where
  "page_keys v =
     [q_key (useWorkspaceIssueQuery (de_slug v) (de_identifier v) None), q_key (useCommentsQuery (issueID v) None),
      q_key (useRunsQuery (issueID v) None), q_key (useSubIssuesQuery (issueID v))] @
     map (\<lambda>r. q_key (useRunEventsQuery (Some (run_id r)) (Some (run_status r)))) (runList v)"

definition marks_stale :: "effect list \<Rightarrow> key_part list \<Rightarrow> bool" where
  "marks_stale fx key \<longleftrightarrow> list_ex (\<lambda>e. case e of Invalidate k \<Rightarrow> key_covers k key | _ \<Rightarrow> False) fx"

lemma marks_stale_simps [simp]:
  "marks_stale [] key = False" "marks_stale (fx @ gx) key = (marks_stale fx key \<or> marks_stale gx key)"
  "marks_stale (e # fx) key = ((case e of Invalidate k \<Rightarrow> key_covers k key | _ \<Rightarrow> False) \<or> marks_stale fx key)"
  by (simp_all add: marks_stale_def)

lemma marks_run_events:
  "marks_stale (run_events_stale v) key \<longleftrightarrow> (\<exists>r \<in> set (runList v). key_covers [kname ''run-events'', KS (run_id r)] key)"
  by (auto simp: marks_stale_def run_events_stale_def list_ex_iff)

text \<open>Whether the fallback is on is decided by the last message about the stream.\<close>

fun about_stream :: "detail_msg \<Rightarrow> bool option" where
  "about_stream IssueIDChanged = Some False"
| "about_stream StreamOpened = Some False"
| "about_stream (StreamFailed e) = Some True"
| "about_stream _ = None"

lemma fallback_step: "d_realtimeFallback (fst (detail_update E v m s)) = nullish (about_stream m) (d_realtimeFallback s)"
proof -
  have c: "d_realtimeFallback (fst (continue_uploads v data fs s)) = d_realtimeFallback s" for data fs
    by (cases fs) simp_all
  show ?thesis
    by (cases m) (auto simp: c case_prod_beta Let_def split: comment_flight.split option.split)
qed



subsection \<open>What a click can do\<close>

lemma clicks_card [simp]: "clicks (RunHistoryCard E r panel evs) = []"
proof -
  have m: "clicks_of (run_meta E r :: log_msg node list) = []" by (simp add: run_meta_def Let_def html_simps)
  have i: "clicks (RunEventItem E e :: log_msg node) = []" for e
    by (simp add: RunEventItem_def html_simps split: option.split)
  show ?thesis
    by (simp add: RunHistoryCard_def RunLiveLogPanel_def RunEventTimeline_def Let_def html_simps m i)
qed

lemma clicks_heading [simp]: "clicks (heading t ns) = clicks_of ns" "clicks (count_badge xs) = []"
  by (simp_all add: heading_def count_badge_def)

lemma clicks_history [simp]: "clicks (history_panel E v s) = []"
  by (auto simp: history_panel_def html_simps)

lemma clicks_subissue [simp]: "clicks (subissue_panel E v s) = []"
  by (auto simp: subissue_panel_def Let_def html_simps)

lemma clicks_mention: "set (clicks (MentionAutocomplete E t as ph rq dis c h i onChange onKey onInsert)) \<subseteq> range onInsert"
  by (auto simp: MentionAutocomplete_def Let_def attr_opt_def html_simps split: option.split prod.splits)

lemma clicks_comments:
  assumes "\<And>t. clicks_of (md t) = []"
  shows "set (clicks (comment_panel E md h v s)) \<subseteq> range MentionInsert"
proof -
  have b: "clicks (comment_block E md c) = []" for c by (simp add: comment_block_def MarkdownText_def assms html_simps)
  have bs: "clicks_of (map (comment_block E md) cs) = []" for cs by (induction cs) (simp_all add: b)
  show ?thesis
    by (auto simp: comment_panel_def Let_def clicks_render_if bs dest!: subsetD [OF clicks_mention])
qed

lemma clicks_main:
  assumes "\<And>t. clicks_of (md t) = []" and "\<And>g. clicks (rf g) = []"
  shows "set (clicks (detail_main E rf md h v s)) \<subseteq> range MentionInsert \<union> range ChainMsg \<union> range AttachmentMsg"
proof -
  have g: "clicks (IssueFlowGraph rf E i subs rs a) = []" for i subs rs a
    using assms(2) by (simp add: IssueFlowGraph_def Let_def html_simps)
  show ?thesis
    by (auto simp: detail_main_def g MarkdownText_def assms(1) clicks_render_if split: option.splits if_splits
        dest!: subsetD [OF clicks_comments [of md, OF assms(1)]])
qed

lemma clicks_review: "set (clicks_of (ReviewBanner E (detail_review v) ex i rs)) \<subseteq> range AskAction \<union> {ToggleFailures} \<union> {RetryStage a n | a n. True}"
  by (auto simp: ReviewBanner_def detail_review_def Let_def html_simps failure_clicks split: if_splits option.splits)

lemma clicks_detail_rail: "set (clicks (IssueSummaryRail E (detail_rail v) i rs)) \<subseteq> range AskAction"
  by (auto simp: clicks_rail rail_actions_def detail_rail_def Let_def html_simps split: if_splits option.splits)

lemma clicks_live: "set (clicks_of (LiveRunCard E r (Some m) dis)) \<subseteq> {m}"
proof (cases r)
  case (Some run)
  have "clicks_of (LiveRunCard E r (Some m) dis) = [] \<or> clicks_of (LiveRunCard E r (Some m) dis) = [m]"
    unfolding Some clicks_live_card by simp
  then show ?thesis by (elim disjE) (simp_all only: set_simps insert_subset empty_subsetI singletonI simp_thms)
qed simp

text \<open>No click on the issue page sends a request, except confirming a waiting action while no other is under
  way, the chain table's own actions and those of the attachment panel; the libraries that render
  Markdown and the graph put no handlers of the page into their output.\<close>

lemma detail_clicks_safe:
  assumes "\<And>t. clicks_of (reactMarkdown t) = []" and "\<And>g. clicks (reactFlow g) = []"
    and "m \<in> set (clicks (IssueDetailPage E reactFlow reactMarkdown helpID v s))"
    and "calls (snd (detail_update E v m s)) \<noteq> []"
  shows "m \<in> range ChainMsg \<union> range AttachmentMsg \<or>
         (m = RunConfirmed \<and> d_confirmAction s \<noteq> None \<and> de_data v \<noteq> None \<and> \<not> actionPending v)"
proof -
  from assms(3) consider "m = RefreshIssue" | "m \<in> set (clicks_of (ReviewBanner E (detail_review v) (d_expandFailures s) (de_data v) (runList v)))"
    | "m \<in> set (clicks_of (LiveRunCard E (find (\<lambda>r. run_status r = js ''running'' \<or> run_status r = js ''queued'') (runList v))
           (Some (AskAction CancelRun)) (actionPending v)))"
    | "m \<in> set (clicks (detail_main E reactFlow reactMarkdown helpID v s))"
    | "m \<in> set (clicks (IssueSummaryRail E (detail_rail v) (de_data v) (runList v)))"
    | "m \<in> set (clicks_of (ConfirmDialog (detail_confirm v s)))"
    by (auto simp: IssueDetailPage_def Let_def html_simps split: if_splits)
  then show ?thesis
  proof cases
    case 2
    then show ?thesis using subsetD [OF clicks_review] assms(4) by fastforce
  next
    case 3
    then have "m = AskAction CancelRun" using subsetD [OF clicks_live] by fast
    then show ?thesis using assms(4) by simp
  next
    case 4
    then have "m \<in> range MentionInsert \<union> range ChainMsg \<union> range AttachmentMsg"
      using subsetD [OF clicks_main [of reactMarkdown reactFlow]] assms(1,2) by fast
    then show ?thesis using assms(4) by auto
  next
    case 5
    then obtain a where "m = AskAction a" using subsetD [OF clicks_detail_rail] by fast
    then show ?thesis using assms(4) by simp
  next
    case 6
    then show ?thesis
      using assms(4) by (auto simp: clicks_ConfirmDialog detail_confirm_def runConfirmedAction_def split: if_splits option.splits)
  qed (use assms(4) in simp)
qed

lemma detail_clicks_safe_instance:
  "let v = bare_detail_env (Some (bare_issue (js ''1'') (js ''CAD-1'') IOpen EIdle)) [];
       s = detail_start\<lparr>d_confirmAction := Some Rerun\<rparr>
   in RunConfirmed \<in> set (clicks (IssueDetailPage ascii_platform (\<lambda>_. Text []) (\<lambda>_. []) [] v s)) \<and> \<not> actionPending v"
proof -
  let ?v = "bare_detail_env (Some (bare_issue (js ''1'') (js ''CAD-1'') IOpen EIdle)) []"
  let ?s = "detail_start\<lparr>d_confirmAction := Some Rerun\<rparr>"
  have "RunConfirmed \<in> set (clicks (IssueDetailPage ascii_platform (\<lambda>_. Text []) (\<lambda>_. []) [] ?v ?s))"
    by (simp add: IssueDetailPage_def Let_def clicks_ConfirmDialog detail_confirm_def actionPending_def bare_detail_env_def
        del: clicks_map_node)
  moreover have "calls (snd (detail_update ascii_platform ?v RunConfirmed ?s)) \<noteq> []"
    by (simp add: runConfirmedAction_def bare_detail_env_def)
  ultimately show ?thesis
    using detail_clicks_safe [of "\<lambda>_. []" "\<lambda>_. Text []" RunConfirmed ascii_platform "[]" ?v ?s] unfolding Let_def by auto
qed

subsection \<open>Helpers written more than once\<close>

text \<open>The helpers that the pages and components each have their own copy of agree: the labels of
  triggers, the durations, the clean-up of run messages, the token counts (for a count that is not
  negative), the messages of a changed status and of an error.\<close>

lemma duplicated_helpers_agree:
  "triggerLabel t = getTriggerLabel t \<and>
   formatDuration (Some ms) = formatElapsed (Some (round_div ms 1000)) \<and>
   detail_normalizeRunMessage msg = normalizeRunMessage msg \<and>
   detail_formatTokens n = plain_formatTokens n \<and> formatTokens (Some n) = detail_formatTokens (max 0 n) \<and>
   detail_statusToast st = statusToast st \<and> detail_errorMessage e = board_errorMessage e"
  by (auto simp: triggerLabel_def getTriggerLabel_def getMappedLabel_def triggerLabels_def formatDuration_def formatElapsed_def
      detail_normalizeRunMessage_def normalizeRunMessage_def detail_formatTokens_def plain_formatTokens_def formatTokens_def
      detail_statusToast_def statusToast_def detail_errorMessage_def board_errorMessage_def Let_def split: option.split issue_status.split)

end
