(* ===== verification/Autopilot.thy ===== *)
theory Autopilot
  imports Board
begin

section \<open>Autopilot rules\<close>

text \<open>
  Models \<^verbatim>\<open>web/src/pages/AutopilotPage.tsx\<close> and \<^verbatim>\<open>web/src/components/AutopilotDialog.tsx\<close>: the table of rules
  with its filters, the actions of a row, the notice of a triggered rule, and the dialog that creates
  or edits a rule, with the snooze controls. The calendar of the browser's time zone is the parameter
  \<open>local_parts\<close>: year, month (from 1), day, hour and minute of an instant.
\<close>

subsection \<open>Data\<close>

datatype rule_filter = AllRules | EnabledRules | PausedRules

datatype notice_tone = NoticeSuccess | NoticeError

fun notice_tone_str :: "notice_tone \<Rightarrow> jstr" where
  "notice_tone_str NoticeSuccess = js ''success''"
| "notice_tone_str NoticeError = js ''error''"

record trigger_notice =
  tn_tone :: notice_tone
  tn_message :: jstr
  tn_issueHref :: "jstr option"

definition rule_filters :: "(rule_filter \<times> jstr) list" where
  "rule_filters = [(AllRules, ko_all), (EnabledRules, js ''ON''), (PausedRules, ko_off_paused)]"

text \<open>A template may carry fields the form does not have; the list of the page adds a summary.\<close>

record autopilot_template =
  at_name :: jstr
  at_cron_expr :: jstr
  at_issue_title_template :: jstr
  at_issue_body_template :: jstr
  at_summary :: jstr

definition mk_template :: "jstr \<Rightarrow> string \<Rightarrow> jstr \<Rightarrow> jstr \<Rightarrow> jstr \<Rightarrow> autopilot_template" where
  "mk_template name cron title body summary =
     \<lparr>at_name = name, at_cron_expr = js cron, at_issue_title_template = title, at_issue_body_template = body, at_summary = summary\<rparr>"

definition templates :: "autopilot_template list" where
  "templates =
     [mk_template ko_t1_name ''0 9 * * *'' ko_t1_title
        ko_t1_body ko_t1_sum,
      mk_template ko_t2_name ''0 17 * * 5'' ko_t2_title
        ko_t2_body ko_t2_sum,
      mk_template ko_t3_name ''0 10 * * 1'' ko_t3_title
        ko_t3_body ko_t3_sum]"

record rule_form =
  rf_name :: jstr
  rf_cron_expr :: jstr
  rf_title :: jstr
  rf_body :: jstr
  rf_assignee :: jstr
  rf_enabled :: bool
  rf_snooze_until :: jstr
  rf_extra :: "(string \<times> json) list"         \<comment> \<open>fields spread in from a template\<close>

definition emptyForm :: rule_form where
  "emptyForm = \<lparr>rf_name = [], rf_cron_expr = js ''0 9 * * *'', rf_title = ko_regular_work, rf_body = [],
     rf_assignee = [], rf_enabled = True, rf_snooze_until = [], rf_extra = []\<rparr>"

definition cronPresets :: "(jstr \<times> jstr) list" where
  "cronPresets =
     [(ko_daily9, js ''0 9 * * *''), (ko_weekday9, js ''0 9 * * 1-5''),
      (ko_monday, js ''0 10 * * 1''), (ko_monthly, js ''0 9 1 * *'')]"

definition form_fields :: "rule_form \<Rightarrow> json" where
  "form_fields f = jobj
     ([(''name'', JStr (rf_name f)), (''cron_expr'', JStr (rf_cron_expr f)), (''issue_title_template'', JStr (rf_title f)),
       (''issue_body_template'', JStr (rf_body f)), (''assignee_agent_id'', JStr (rf_assignee f)),
       (''enabled'', JBool (rf_enabled f)), (''snooze_until'', JStr (rf_snooze_until f))] @ rf_extra f)"

text \<open>The form of a rule being edited, and \<^verbatim>\<open>{ ...emptyForm, ...(template ?? {}) }\<close>.\<close>

definition form_of_rule :: "autopilot_rule \<Rightarrow> rule_form" where
  "form_of_rule rule =
     \<lparr>rf_name = rule_name rule, rf_cron_expr = rule_cron_expr rule, rf_title = rule_issue_title_template rule,
      rf_body = rule_issue_body_template rule, rf_assignee = nullish (rule_assignee_agent_id rule) [],
      rf_enabled = rule_enabled rule, rf_snooze_until = nullish (rule_snooze_until rule) [], rf_extra = []\<rparr>"

definition form_of_template :: "autopilot_template option \<Rightarrow> rule_form" where
  "form_of_template t = (case t of
       None \<Rightarrow> emptyForm
     | Some x \<Rightarrow> emptyForm\<lparr>rf_name := at_name x, rf_cron_expr := at_cron_expr x, rf_title := at_issue_title_template x,
         rf_body := at_issue_body_template x, rf_extra := [(''summary'', JStr (at_summary x))]\<rparr>)"

subsection \<open>Times\<close>

definition isRuleSnoozed :: "platform \<Rightarrow> autopilot_rule \<Rightarrow> bool" where
  "isRuleSnoozed E rule =
     (if \<not> truthy_str (rule_snooze_until rule) then False
      else (case date_ms E (nullish (rule_snooze_until rule) []) of None \<Rightarrow> False | Some t \<Rightarrow> t > now_ms E))"

definition formatDateTime :: "platform \<Rightarrow> jstr option \<Rightarrow> jstr" where
  "formatDateTime E v =
     (if \<not> truthy_str v then ko_no_schedule
      else (case date_ms E (nullish v []) of None \<Rightarrow> nullish v [] | Some t \<Rightarrow> fmt_abs E t))"

definition formatSnooze :: "platform \<Rightarrow> jstr option \<Rightarrow> jstr" where
  "formatSnooze E v = (if \<not> truthy_str v then ko_paused else ko_resume_at @ formatDateTime E v)"

definition snoozeForDays :: "platform \<Rightarrow> int \<Rightarrow> jstr" where
  "snoozeForDays E days = to_iso E (now_ms E + days * 24 * 60 * 60 * 1000)"

type_synonym local_time = "int \<times> int \<times> int \<times> int \<times> int"

definition pad2 :: "int \<Rightarrow> jstr" where
  "pad2 n = pad_zeros 2 (int_str n)"

fun local_str :: "local_time \<Rightarrow> jstr" where
  "local_str (y, mo, d, h, mi) =
     int_str y @ js ''-'' @ pad2 mo @ js ''-'' @ pad2 d @ js ''T'' @ pad2 h @ js '':'' @ pad2 mi"

definition toDateTimeLocalInput :: "platform \<Rightarrow> (int \<Rightarrow> local_time) \<Rightarrow> jstr \<Rightarrow> jstr" where
  "toDateTimeLocalInput E local_parts v =
     (if v = [] then [] else (case date_ms E v of None \<Rightarrow> [] | Some t \<Rightarrow> local_str (local_parts t)))"

definition fromDateTimeLocalInput :: "platform \<Rightarrow> jstr \<Rightarrow> jstr" where
  "fromDateTimeLocalInput E v = (if v = [] then [] else (case date_ms E v of None \<Rightarrow> [] | Some t \<Rightarrow> to_iso E t))"

subsection \<open>Filters\<close>

definition passes_filter :: "platform \<Rightarrow> rule_filter \<Rightarrow> autopilot_rule \<Rightarrow> bool" where
  "passes_filter E f rule =
     (let snoozed = isRuleSnoozed E rule in
      if f = EnabledRules \<and> (\<not> rule_enabled rule \<or> snoozed) then False
      else if f = PausedRules \<and> rule_enabled rule \<and> \<not> snoozed then False
      else True)"

definition matches_query :: "platform \<Rightarrow> jstr \<Rightarrow> autopilot_rule \<Rightarrow> bool" where
  "matches_query E query rule =
     (let q = toLowerCase E (trim query) in
      q = [] \<or>
      list_ex (\<lambda>v. truthy_str v \<and> includes_str (toLowerCase E (nullish v [])) q)
        [Some (rule_name rule), Some (rule_cron_expr rule), Some (rule_issue_title_template rule),
         rule_assignee_agent_name rule, rule_last_error rule])"

definition visibleRules :: "platform \<Rightarrow> rule_filter \<Rightarrow> jstr \<Rightarrow> autopilot_rule list \<Rightarrow> autopilot_rule list" where
  "visibleRules E f query rules = filter (\<lambda>r. passes_filter E f r \<and> matches_query E query r) rules"

text \<open>The numbers of the header: all, on, off and failing.\<close>

definition rule_counts :: "platform \<Rightarrow> autopilot_rule list \<Rightarrow> nat \<times> nat \<times> nat \<times> nat" where
  "rule_counts E xs =
     (length xs,
      length (filter (\<lambda>r. rule_enabled r \<and> \<not> isRuleSnoozed E r) xs),
      length (filter (\<lambda>r. \<not> rule_enabled r \<or> isRuleSnoozed E r) xs),
      length (filter (\<lambda>r. rule_consecutive_failures r > 0) xs))"

subsection \<open>State and handlers\<close>

datatype rule_form_msg =
    FName jstr | FCron jstr | FAssignee jstr | FTitle jstr | FBody jstr | FSnoozeDays int | FSnoozeClear | FSnoozeAt jstr
  | FEnabled bool | FSubmit | FSaved

record autopilot_state =
  ap_filter :: rule_filter
  ap_query :: jstr
  ap_dialogOpen :: bool
  ap_selectedTemplate :: "autopilot_template option"
  ap_editingRule :: "autopilot_rule option"
  ap_triggerNotice :: "trigger_notice option"
  ap_form :: rule_form                          \<comment> \<open>state of \<open>AutopilotDialog\<close>\<close>

datatype autopilot_msg =
    SetFilter rule_filter
  | SetQuery jstr
  | OpenCreate "autopilot_template option"
  | OpenEdit autopilot_rule
  | CloseRuleDialog
  | TriggerRule autopilot_rule
  | TriggerOk autopilot_trigger_response autopilot_rule
  | TriggerFailed thrown autopilot_rule
  | ToggleRule autopilot_rule
  | DeleteRule jstr
  | RulesChanged                                \<comment> \<open>success of switching or deleting\<close>
  | DismissNotice
  | RefreshRules
  | FormMsg rule_form_msg

definition autopilot_start :: autopilot_state where
  "autopilot_start = \<lparr>ap_filter = AllRules, ap_query = [], ap_dialogOpen = False, ap_selectedTemplate = None,
     ap_editingRule = None, ap_triggerNotice = None, ap_form = emptyForm\<rparr>"

definition apiErrorMessage :: "thrown \<Rightarrow> jstr" where
  "apiErrorMessage error = (case error of
       TApi e \<Rightarrow> nullish (Option.bind (Option.bind (err_body e) body_error) detail_message) (err_message e)
     | TAbort m \<Rightarrow> m | TError m \<Rightarrow> m
     | TValue _ \<Rightarrow> ko_unknown_error)"

definition toggle_body :: "autopilot_rule \<Rightarrow> json" where
  "toggle_body rule = jobj
     [(''name'', JStr (rule_name rule)), (''cron_expr'', JStr (rule_cron_expr rule)),
      (''issue_title_template'', JStr (rule_issue_title_template rule)), (''issue_body_template'', JStr (rule_issue_body_template rule)),
      (''assignee_agent_id'', JStr (nullish (rule_assignee_agent_id rule) [])), (''enabled'', JBool (\<not> rule_enabled rule)),
      (''snooze_until'', JStr (nullish (rule_snooze_until rule) []))]"

definition trigger_success :: "jstr option \<Rightarrow> autopilot_trigger_response \<Rightarrow> autopilot_rule \<Rightarrow> trigger_notice" where
  "trigger_success slug data rule =
     (let issue = (case tp_issue data of Some i \<Rightarrow> Some i | None \<Rightarrow> tr_issue (tp_trigger_result data)) in
      \<lparr>tn_tone = NoticeSuccess,
       tn_message = oor_str (Some (rule_name (tp_rule data))) (rule_name rule) @ ko_trigger_ok,
       tn_issueHref = map_option (\<lambda>i. issue_path slug (oor_str (Some (issue_identifier i)) (issue_id i))) issue\<rparr>)"

definition rules_stale :: "jstr option \<Rightarrow> effect" where
  "rules_stale slug = Invalidate [kname ''autopilot'', kopt slug]"

text \<open>The effect of the dialog when it opens or its subject changes.\<close>

definition open_dialog :: "autopilot_template option \<Rightarrow> autopilot_rule option \<Rightarrow> autopilot_state \<Rightarrow> autopilot_state" where
  "open_dialog template rule s =
     s\<lparr>ap_dialogOpen := True, ap_selectedTemplate := template, ap_editingRule := rule,
       ap_form := (case rule of Some r \<Rightarrow> form_of_rule r | None \<Rightarrow> form_of_template template)\<rparr>"

definition close_dialog :: "autopilot_state \<Rightarrow> autopilot_state" where
  "close_dialog s = s\<lparr>ap_dialogOpen := False, ap_selectedTemplate := None, ap_editingRule := None\<rparr>"

definition saveRule_call :: "jstr option \<Rightarrow> autopilot_state \<Rightarrow> api_call" where
  "saveRule_call slug s = (case ap_editingRule s of
       Some r \<Rightarrow> CPut (js ''/autopilot/'' @ rule_id r) (Some (form_fields (ap_form s)))
     | None \<Rightarrow> CPost (js ''/workspaces/'' @ tpl slug @ js ''/autopilot'') (Some (form_fields (ap_form s))))"

fun form_update :: "platform \<Rightarrow> rule_form_msg \<Rightarrow> rule_form \<Rightarrow> rule_form" where
  "form_update E (FName t) f = f\<lparr>rf_name := t\<rparr>"
| "form_update E (FCron t) f = f\<lparr>rf_cron_expr := t\<rparr>"
| "form_update E (FAssignee t) f = f\<lparr>rf_assignee := t\<rparr>"
| "form_update E (FTitle t) f = f\<lparr>rf_title := t\<rparr>"
| "form_update E (FBody t) f = f\<lparr>rf_body := t\<rparr>"
| "form_update E (FSnoozeDays n) f = f\<lparr>rf_snooze_until := snoozeForDays E n\<rparr>"
| "form_update E FSnoozeClear f = f\<lparr>rf_snooze_until := []\<rparr>"
| "form_update E (FSnoozeAt t) f = f\<lparr>rf_snooze_until := fromDateTimeLocalInput E t\<rparr>"
| "form_update E (FEnabled b) f = f\<lparr>rf_enabled := b\<rparr>"
| "form_update E FSubmit f = f"
| "form_update E FSaved f = f"

fun autopilot_update :: "platform \<Rightarrow> jstr option \<Rightarrow> autopilot_msg \<Rightarrow> autopilot_state \<Rightarrow> autopilot_state \<times> effect list" where
  "autopilot_update E slug (SetFilter f) s = (s\<lparr>ap_filter := f\<rparr>, [])"
| "autopilot_update E slug (SetQuery q) s = (s\<lparr>ap_query := q\<rparr>, [])"
| "autopilot_update E slug (OpenCreate t) s = (open_dialog t None s, [])"
| "autopilot_update E slug (OpenEdit r) s = (open_dialog None (Some r) s, [])"
| "autopilot_update E slug CloseRuleDialog s = (close_dialog s, [])"
| "autopilot_update E slug (TriggerRule r) s = (s, [Mutate (CPost (js ''/autopilot/'' @ rule_id r @ js ''/trigger'') None)])"
| "autopilot_update E slug (TriggerOk data r) s = (s\<lparr>ap_triggerNotice := Some (trigger_success slug data r)\<rparr>, [rules_stale slug])"
| "autopilot_update E slug (TriggerFailed e r) s =
     (s\<lparr>ap_triggerNotice := Some \<lparr>tn_tone = NoticeError,
        tn_message = rule_name r @ ko_trigger_failed @ apiErrorMessage e, tn_issueHref = None\<rparr>\<rparr>, [rules_stale slug])"
| "autopilot_update E slug (ToggleRule r) s = (s, [Mutate (CPut (js ''/autopilot/'' @ rule_id r) (Some (toggle_body r)))])"
| "autopilot_update E slug (DeleteRule i) s = (s, [Mutate (CDelete (js ''/autopilot/'' @ i))])"
| "autopilot_update E slug RulesChanged s = (s, [rules_stale slug])"
| "autopilot_update E slug DismissNotice s = (s\<lparr>ap_triggerNotice := None\<rparr>, [])"
| "autopilot_update E slug RefreshRules s = (s, [Refetch (q_key (useAutopilotRulesQuery slug))])"
| "autopilot_update E slug (FormMsg m) s =
     (case m of
        FSubmit \<Rightarrow> (s, [Mutate (saveRule_call slug s)])
      | FSaved \<Rightarrow> (close_dialog s, [rules_stale slug])
      | _ \<Rightarrow> (s\<lparr>ap_form := form_update E m (ap_form s)\<rparr>, []))"

subsection \<open>Views\<close>

record autopilot_env =
  ae_slug :: "jstr option"
  ae_rules :: "autopilot_rule list query_result"
  ae_agents :: "agent list query_result"
  ae_trigger :: mutation
  ae_triggerVariables :: "jstr option"          \<comment> \<open>id of the rule being triggered\<close>
  ae_save :: mutation

definition preset_button :: "'m attr list \<Rightarrow> 'm \<Rightarrow> jstr \<Rightarrow> jstr \<Rightarrow> 'm node" where
  "preset_button as m label hint =
     El ''button'' (A ''type'' (js ''button'') # as @ [On ''onClick'' m]) [El ''span'' [] [Text label], El ''small'' [] [Text hint]]"

definition AutopilotDialog ::
  "platform \<Rightarrow> (int \<Rightarrow> local_time) \<Rightarrow> autopilot_env \<Rightarrow> autopilot_state \<Rightarrow> autopilot_msg node list" where
  "AutopilotDialog E local_parts v s =
     (let form = ap_form s; isEdit = (ap_editingRule s \<noteq> None); pending = m_pending (ae_save v);
          formID = (if isEdit then js ''edit-autopilot-form'' else js ''create-autopilot-form'');
          field = (\<lambda>l ns. El ''label'' [cls ''field-label''] (Text l # ns));
          change = (\<lambda>f. OnValue ''onChange'' (\<lambda>t. FormMsg (f t)))
      in Modal (if isEdit then ko_ap_edit else ko_ap_add)
        (Some ko_ap_dialog_desc)
        (ap_dialogOpen s) (Some CloseRuleDialog)
        [El ''form'' [A ''id'' formID, cls ''form-grid'', On ''onSubmit'' (FormMsg FSubmit)]
           ([field ko_name [El ''input'' [A ''placeholder'' ko_name, A ''value'' (rf_name form), change FName, B ''required'' True] []],
             field (js ''Cron'') [El ''input'' [A ''placeholder'' (js ''cron''), A ''value'' (rf_cron_expr form), change FCron, B ''required'' True] []],
             El ''div'' [cls ''field-label'']
               [Text ko_cron_preset,
                El ''div'' [cls ''cron-preset-grid'']
                  (map (\<lambda>(label, val). preset_button [A ''class'' (if rf_cron_expr form = val then js ''active'' else [])]
                     (FormMsg (FCron val)) label val) cronPresets)],
             field ko_assignee_agent
               [El ''select'' [A ''value'' (rf_assignee form), change FAssignee]
                  (El ''option'' [A ''value'' []] [Text ko_auto_main] #
                   map (\<lambda>a. El ''option'' [A ''value'' (ag_id a)] [T ''@'', Text (ag_name a), Text ko_middot, Text (ag_runtime a)])
                     (nullish (qr_data (ae_agents v)) []))],
             field ko_title_template
               [El ''input'' [A ''placeholder'' ko_title_template, A ''value'' (rf_title form), change FTitle, B ''required'' True] []],
             field ko_body_template
               [El ''textarea'' [A ''placeholder'' ko_body_template, A ''value'' (rf_body form), change FBody] []],
             El ''div'' [cls ''field-label'']
               [Text ko_snooze,
                El ''div'' [cls ''cron-preset-grid'']
                  [preset_button [] (FormMsg (FSnoozeDays 1)) ko_snooze1 ko_snooze1_hint,
                   preset_button [] (FormMsg (FSnoozeDays 7)) ko_snooze7 ko_snooze7_hint,
                   preset_button [] (FormMsg (FSnoozeDays 30)) ko_snooze30 ko_snooze30_hint,
                   preset_button [] (FormMsg FSnoozeClear) ko_snooze_off ko_snooze_off_hint],
                El ''input'' [A ''type'' (js ''datetime-local''), A ''value'' (toDateTimeLocalInput E local_parts (rf_snooze_until form)),
                    change FSnoozeAt, A ''aria-label'' ko_snooze_at] [],
                El ''p'' [cls ''field-hint''] [Text ko_snooze_help]],
             El ''label'' [cls ''check-row'']
               [El ''input'' [A ''type'' (js ''checkbox''), B ''checked'' (rf_enabled form), OnCheck ''onChange'' (\<lambda>b. FormMsg (FEnabled b))] [],
                T '' ON'']] @
            render_if (m_isError (ae_save v)) [El ''p'' [cls ''error-text''] [Text ko_ap_save_failed]])]
        (Some
          [El ''button'' [cls ''button secondary'', A ''type'' (js ''button''), On ''onClick'' CloseRuleDialog] [Text ko_cancel],
           El ''button'' [cls ''button'', A ''type'' (js ''submit''), A ''form'' formID, B ''disabled'' (pending \<or> \<not> truthy_str (ae_slug v))]
             [Text (if pending then ko_saving else if isEdit then ko_save_changes else ko_ap_add)]]))"

definition rule_row :: "platform \<Rightarrow> autopilot_env \<Rightarrow> autopilot_rule \<Rightarrow> autopilot_msg node" where
  "rule_row E v rule =
     (let triggerBusy = (m_pending (ae_trigger v) \<and> ae_triggerVariables v = Some (rule_id rule)); snoozed = isRuleSnoozed E rule;
          micro = cls ''button micro secondary''; btn = A ''type'' (js ''button'')
      in El ''div'' [cls ''data-row'']
        [El ''span'' []
           ([El ''strong'' [] [Text (rule_name rule)], El ''small'' [] [Text (rule_issue_title_template rule)]] @
            render_if (truthy_str (rule_last_error rule))
              [El ''small'' [cls ''autopilot-error'', A ''title'' (nullish (rule_last_error rule) [])]
                 [Text ko_last_error, Text (nullish (rule_last_error rule) [])]]),
         El ''span'' [] [Text (rule_cron_expr rule)],
         El ''span'' [] [Text (if truthy_str (rule_assignee_agent_name rule) then js ''@'' @ nullish (rule_assignee_agent_name rule) [] else ko_main_agent)],
         El ''span'' []
           (render_if snoozed [El ''small'' [cls ''badge warning''] [Text (formatSnooze E (rule_snooze_until rule))]] @
            [El ''span'' [] [Text (formatDateTime E (rule_next_run_at rule))]]),
         El ''span'' [] [Text (formatDateTime E (rule_last_run_at rule))],
         El ''span'' [cls ''row-actions'']
           ([El ''span'' [cls (if snoozed then ''badge warning'' else if rule_enabled rule then ''badge'' else ''badge muted'')]
               [Text (if snoozed then ko_paused else if rule_enabled rule then js ''ON'' else js ''OFF'')]] @
            render_if (rule_consecutive_failures rule > 0)
              [El ''span'' [cls ''badge danger''] [Text ko_failed_sp, Text (int_str (rule_consecutive_failures rule))]] @
            [El ''button'' [micro, btn, On ''onClick'' (OpenEdit rule)] [Text ko_edit],
             El ''button'' [micro, btn, On ''onClick'' (ToggleRule rule)] [Text (if rule_enabled rule then ko_turn_off else ko_turn_on)],
             El ''button'' [micro, btn, On ''onClick'' (TriggerRule rule), B ''disabled'' (triggerBusy \<or> snoozed)]
               [Text (if snoozed then ko_stopped_now else if triggerBusy then ko_st_running else ko_run_now)]] @
            render_if (truthy_str (rule_last_triggered_issue_id rule))
              [El ''a'' [micro, A ''href'' (issue_path (ae_slug v) (nullish (rule_last_triggered_issue_id rule) []))]
                 [Text ko_last_issue]] @
            [El ''button'' [cls ''button micro danger'', btn, On ''onClick'' (DeleteRule (rule_id rule))] [Text ko_delete]])])"

definition notice_view :: "trigger_notice \<Rightarrow> autopilot_msg node" where
  "notice_view n =
     El ''div'' [A ''class'' (js ''autopilot-notice '' @ notice_tone_str (tn_tone n)), A ''role'' (js ''status'')]
       (El ''span'' [] [Text (tn_message n)] #
        render_if (truthy_str (tn_issueHref n))
          [El ''a'' [cls ''button micro secondary'', A ''href'' (nullish (tn_issueHref n) [])] [Text ko_see_issue]] @
        [El ''button'' [cls ''button micro secondary'', A ''type'' (js ''button''), On ''onClick'' DismissNotice] [Text ko_close]])"

definition template_panel :: "autopilot_msg node" where
  "template_panel =
     El ''article'' [cls ''panel template-panel'']
       [El ''div'' [cls ''section-heading''] [El ''h2'' [] [Text ko_templates], El ''span'' [cls ''badge''] [T ''start'']],
        El ''div'' [cls ''template-grid'']
          (map (\<lambda>t. El ''button'' [cls ''template-card'', A ''type'' (js ''button''), On ''onClick'' (OpenCreate (Some t))]
             [El ''strong'' [] [Text (at_name t)], El ''span'' [] [Text (at_summary t)], El ''small'' [] [Text (at_cron_expr t)]]) templates),
        El ''button'' [cls ''button secondary'', A ''type'' (js ''button''), On ''onClick'' (OpenCreate None)] [Text ko_blank_rule]]"

definition AutopilotPage ::
  "platform \<Rightarrow> (int \<Rightarrow> local_time) \<Rightarrow> autopilot_env \<Rightarrow> autopilot_state \<Rightarrow> autopilot_msg node" where
  "AutopilotPage E local_parts v s =
     (let rules = nullish (qr_data (ae_rules v)) []; visible = visibleRules E (ap_filter s) (ap_query s) rules;
          num = (\<lambda>n. Text (nat_str n)); fetching = qr_isFetching (ae_rules v)
      in case rule_counts E rules of (n_all, n_on, n_off, n_failed) \<Rightarrow>
        El ''section'' [cls ''page-stack'']
          ([PageHeader (Some (ko_eyebrow_ws @ tpl (ae_slug v))) ko_autopilot
              ko_ap_desc
              [El ''button'' [cls ''button micro secondary'', A ''type'' (js ''button''), On ''onClick'' RefreshRules, B ''disabled'' fetching]
                 [Text (if fetching then ko_refreshing else ko_refresh)]],
            El ''div'' [cls ''board-toolbar panel'']
              [El ''div'' [cls ''toolbar-main'']
                 [El ''div'' []
                    [El ''h2'' [] [Text ko_ap_rules],
                     El ''p'' [] [Text ko_total_sp, num n_all, Text ko_on_sep, num n_on, Text ko_off_sep, num n_off,
                       Text ko_failed_sep, num n_failed]],
                  El ''button'' [cls ''button'', A ''type'' (js ''button''), On ''onClick'' (OpenCreate None)] [Text ko_add_rule]],
               El ''div'' [cls ''toolbar-controls'']
                 [El ''div'' [cls ''segmented'', A ''role'' (js ''tablist''), A ''aria-label'' ko_ap_filter]
                    (map (\<lambda>(f, label). El ''button'' [A ''type'' (js ''button''), A ''class'' (if ap_filter s = f then js ''active'' else []),
                        On ''onClick'' (SetFilter f)] [Text label]) rule_filters),
                  El ''input'' [cls ''toolbar-search'', A ''placeholder'' ko_search_rule, A ''value'' (ap_query s),
                      OnValue ''onChange'' SetQuery] []]]] @
           (case ap_triggerNotice s of None \<Rightarrow> [] | Some n \<Rightarrow> [notice_view n]) @
           render_if (\<not> qr_isLoading (ae_rules v) \<and> rules = []) [template_panel] @
           [El ''article'' [cls ''panel table-panel'']
              (El ''div'' [cls ''data-table autopilot-table'']
                 (El ''div'' [cls ''data-row data-head'']
                    (map (\<lambda>t. El ''span'' [] [T t]) [''Rule'', ''Cron'', ''Agent'', ''Next'', ''Last'', ''Actions'']) #
                  map (rule_row E v) visible) #
               render_if (\<not> qr_isLoading (ae_rules v) \<and> visible = [] \<and> rules \<noteq> []) [El ''p'' [] [Text ko_no_rule_match]])] @
           AutopilotDialog E local_parts v s))"

subsection \<open>The filters and the header agree\<close>

lemma passes_filter_simps:
  "passes_filter E AllRules r" "passes_filter E EnabledRules r \<longleftrightarrow> rule_enabled r \<and> \<not> isRuleSnoozed E r"
  "passes_filter E PausedRules r \<longleftrightarrow> \<not> passes_filter E EnabledRules r"
  by (auto simp: passes_filter_def)

text \<open>The two filters of the rule table divide the rules and agree with the numbers of the header: with no
  search text every rule is shown under exactly one of on and off, and the header counts the rules
  each of them shows. A search only narrows a filter.\<close>

lemma rule_filters_partition:
  "mset (visibleRules E EnabledRules q rules) + mset (visibleRules E PausedRules q rules) = mset (visibleRules E AllRules q rules)"
  "trim q = [] \<Longrightarrow> toLowerCase E [] = [] \<Longrightarrow> visibleRules E AllRules q rules = rules \<and>
      rule_counts E rules = (length rules, length (visibleRules E EnabledRules q rules), length (visibleRules E PausedRules q rules),
        length (filter (\<lambda>r. rule_consecutive_failures r > 0) rules))"
proof -
  show "mset (visibleRules E EnabledRules q rules) + mset (visibleRules E PausedRules q rules) = mset (visibleRules E AllRules q rules)"
    by (induction rules) (auto simp: visibleRules_def passes_filter_simps)
  assume "trim q = []" "toLowerCase E [] = []"
  then show "visibleRules E AllRules q rules = rules \<and>
      rule_counts E rules = (length rules, length (visibleRules E EnabledRules q rules), length (visibleRules E PausedRules q rules),
        length (filter (\<lambda>r. rule_consecutive_failures r > 0) rules))"
    by (auto simp: visibleRules_def passes_filter_simps matches_query_def rule_counts_def)
qed

subsection \<open>Snoozed rules and saved rules\<close>

lemma clicks_rule_row:
  "clicks (rule_row E v rule) =
     [OpenEdit rule, ToggleRule rule] @
     (if isRuleSnoozed E rule \<or> m_pending (ae_trigger v) \<and> ae_triggerVariables v = Some (rule_id rule) then [] else [TriggerRule rule]) @
     [DeleteRule (rule_id rule)]"
  by (simp add: rule_row_def Let_def html_simps)

text \<open>Snoozing works as the dialog says. If the ISO texts of the two instants concerned denote the instants they were made from,
  a rule snoozed for a number of days counts as snoozed: it is listed under off and not under on,
  and its row offers every action but running it now; clearing the snooze ends that. The instant
  picked in the local calendar is shown again as it was picked.\<close>

lemma autopilot_snooze_consistent:
  assumes iso: "\<And>u. u = now_ms E + d * 24 * 60 * 60 * 1000 \<or> u = t \<Longrightarrow> date_ms E (to_iso E u) = Some u \<and> to_iso E u \<noteq> []"
    and "0 < d"
  shows "(let r = rule\<lparr>rule_snooze_until := Some (rf_snooze_until (form_update E (FSnoozeDays d) f))\<rparr> in
            isRuleSnoozed E r \<and> passes_filter E PausedRules r \<and> \<not> passes_filter E EnabledRules r \<and>
            clicks (rule_row E v r) = [OpenEdit r, ToggleRule r, DeleteRule (rule_id r)]) \<and>
         \<not> isRuleSnoozed E (rule\<lparr>rule_snooze_until := Some (rf_snooze_until (form_update E FSnoozeClear f))\<rparr>) \<and>
         (date_ms E (local_str (local_parts t)) = Some t \<longrightarrow>
            toDateTimeLocalInput E local_parts (rf_snooze_until (form_update E (FSnoozeAt (local_str (local_parts t))) f)) =
              local_str (local_parts t))"
proof -
  have "isRuleSnoozed E (rule\<lparr>rule_snooze_until := Some (snoozeForDays E d)\<rparr>)"
    using iso [of "now_ms E + d * 24 * 60 * 60 * 1000"] assms(2) by (simp add: isRuleSnoozed_def snoozeForDays_def)
  moreover have "\<not> isRuleSnoozed E (rule\<lparr>rule_snooze_until := Some []\<rparr>)" by (simp add: isRuleSnoozed_def)
  moreover have "local_str (local_parts t) \<noteq> []" by (cases "local_parts t") (simp add: js_def)
  ultimately show ?thesis
    using iso [of t] by (simp add: Let_def passes_filter_simps clicks_rule_row toDateTimeLocalInput_def fromDateTimeLocalInput_def
        del: local_str.simps)
qed

lemma autopilot_snooze_consistent_instance:
  "let E = ascii_platform\<lparr>date_ms := (\<lambda>s. Some 86400000), to_iso := (\<lambda>t. js ''1970-01-02T00:00:00.000Z'')\<rparr>;
       r = \<lparr>rule_id = [], rule_name = [], rule_cron_expr = [], rule_issue_title_template = [], rule_issue_body_template = [],
         rule_assignee_agent_id = None, rule_assignee_agent_name = None, rule_enabled = True, rule_last_run_at = None,
         rule_next_run_at = None, rule_snooze_until = Some (snoozeForDays E 1), rule_last_error = None,
         rule_consecutive_failures = 0, rule_last_triggered_issue_id = None\<rparr>
   in isRuleSnoozed E r \<and> passes_filter E PausedRules r \<and>
      toDateTimeLocalInput E (\<lambda>_. (1970, 1, 2, 9, 0)) (fromDateTimeLocalInput E (local_str (1970, 1, 2, 9, 0))) = local_str (1970, 1, 2, 9, 0)"
proof -
  let ?E = "ascii_platform\<lparr>date_ms := (\<lambda>s. Some 86400000), to_iso := (\<lambda>t. js ''1970-01-02T00:00:00.000Z'')\<rparr>"
  let ?r = "\<lparr>rule_id = [], rule_name = [], rule_cron_expr = [], rule_issue_title_template = [], rule_issue_body_template = [],
         rule_assignee_agent_id = None, rule_assignee_agent_name = None, rule_enabled = True, rule_last_run_at = None,
         rule_next_run_at = None, rule_snooze_until = None, rule_last_error = None,
         rule_consecutive_failures = 0, rule_last_triggered_issue_id = None\<rparr>"
  have "now_ms ?E = 0" by (simp add: ascii_platform_def)
  then show ?thesis
    using autopilot_snooze_consistent [where E = ?E and d = 1 and t = 86400000 and rule = ?r and f = emptyForm and
        local_parts = "\<lambda>_. (1970, 1, 2, 9, 0)" and
        v = "\<lparr>ae_slug = None, ae_rules = loaded_query None, ae_agents = loaded_query None, ae_trigger = idle_mutation,
          ae_triggerVariables = None, ae_save = idle_mutation\<rparr>"]
    by (simp add: Let_def js_def del: local_str.simps)
qed


end
