(* ===== verification/Agents.thy ===== *)
theory Agents
  imports RunLog
begin

section \<open>Agents\<close>

text \<open>
  Models \<^verbatim>\<open>web/src/pages/AgentsPage.tsx\<close>, \<^verbatim>\<open>web/src/pages/AgentDetailPage.tsx\<close> and
  \<^verbatim>\<open>web/src/components/CreateAgentDialog.tsx\<close>: the table of agents with its filters, the dialog for a new agent,
  and the page of one agent with its settings form, the retry policy stored as a JSON text, the
  history of instructions and the assignment of skills.
\<close>

text \<open>A labelled control, as every form of the dashboard writes it.\<close>

definition labelled :: "jstr \<Rightarrow> 'm node list \<Rightarrow> 'm node" where
  "labelled l ns = El ''label'' [cls ''field-label''] (Text l # ns)"

lemma clicks_labelled [simp]: "clicks (labelled l ns) = clicks_of ns"
  by (simp add: labelled_def)

subsection \<open>The table of agents\<close>

datatype agent_filter = AgentsAll | AgentsMain | AgentsCodex | AgentsClaude | AgentsGemini

fun agent_filter_str :: "agent_filter \<Rightarrow> jstr" where
  "agent_filter_str AgentsAll = js ''all''"
| "agent_filter_str AgentsMain = js ''main''"
| "agent_filter_str AgentsCodex = js ''codex''"
| "agent_filter_str AgentsClaude = js ''claude''"
| "agent_filter_str AgentsGemini = js ''gemini''"

definition agent_filters :: "(agent_filter \<times> jstr) list" where
  "agent_filters = [(AgentsAll, ko_all), (AgentsMain, js ''Main''), (AgentsCodex, js ''codex''), (AgentsClaude, js ''claude''),
     (AgentsGemini, js ''gemini'')]"

definition agent_visible :: "platform \<Rightarrow> agent_filter \<Rightarrow> jstr \<Rightarrow> agent \<Rightarrow> bool" where
  "agent_visible E f query agent =
     (let q = toLowerCase E (trim query) in
      if f = AgentsMain \<and> \<not> ag_is_main agent then False
      else if f \<noteq> AgentsAll \<and> f \<noteq> AgentsMain \<and> ag_runtime agent \<noteq> agent_filter_str f then False
      else if q = [] then True
      else list_ex (\<lambda>v. truthy_str v \<and> includes_str (toLowerCase E (nullish v [])) q)
        [Some (ag_name agent), Some (ag_runtime agent), Some (oor_str (ag_model agent) ko_basic), ag_summary agent, ag_tags agent,
         Some (ag_instructions agent)])"

definition visibleAgents :: "platform \<Rightarrow> agent_filter \<Rightarrow> jstr \<Rightarrow> agent list \<Rightarrow> agent list" where
  "visibleAgents E f query agents = filter (agent_visible E f query) agents"

definition agent_counts :: "agent list \<Rightarrow> nat list" where
  "agent_counts xs =
     [length xs, length (filter ag_is_main xs), length (filter (\<lambda>a. ag_runtime a = js ''codex'') xs),
      length (filter (\<lambda>a. ag_runtime a = js ''claude'') xs), length (filter (\<lambda>a. ag_runtime a = js ''gemini'') xs)]"

subsection \<open>The dialog for a new agent\<close>

record new_agent =
  na_name :: jstr
  na_runtime :: jstr
  na_model :: jstr
  na_summary :: jstr
  na_tags :: jstr
  na_instructions :: jstr

definition empty_agent :: new_agent where
  "empty_agent = \<lparr>na_name = [], na_runtime = js ''codex'', na_model = [], na_summary = [], na_tags = [], na_instructions = []\<rparr>"

definition new_agent_json :: "new_agent \<Rightarrow> json" where
  "new_agent_json f = jobj
     [(''name'', JStr (na_name f)), (''runtime'', JStr (na_runtime f)), (''model'', JStr (na_model f)),
      (''summary'', JStr (na_summary f)), (''tags'', JStr (na_tags f)), (''instructions'', JStr (na_instructions f))]"

datatype new_agent_msg =
    NaName jstr | NaRuntime jstr | NaModel jstr | NaSummary jstr | NaTags jstr | NaInstructions jstr | NaSubmit | NaCreated

text \<open>The new form, the effects, and whether \<^verbatim>\<open>onClose\<close> is called.\<close>

fun create_agent_update :: "jstr option \<Rightarrow> new_agent_msg \<Rightarrow> new_agent \<Rightarrow> new_agent \<times> effect list \<times> bool" where
  "create_agent_update slug (NaName t) f = (f\<lparr>na_name := t\<rparr>, [], False)"
| "create_agent_update slug (NaRuntime t) f = (f\<lparr>na_runtime := t\<rparr>, [], False)"
| "create_agent_update slug (NaModel t) f = (f\<lparr>na_model := t\<rparr>, [], False)"
| "create_agent_update slug (NaSummary t) f = (f\<lparr>na_summary := t\<rparr>, [], False)"
| "create_agent_update slug (NaTags t) f = (f\<lparr>na_tags := t\<rparr>, [], False)"
| "create_agent_update slug (NaInstructions t) f = (f\<lparr>na_instructions := t\<rparr>, [], False)"
| "create_agent_update slug NaSubmit f =
     (f, [Mutate (CPost (js ''/workspaces/'' @ tpl slug @ js ''/agents'') (Some (new_agent_json f)))], False)"
| "create_agent_update slug NaCreated f =
     (empty_agent, [Invalidate [kname ''agents'', kopt slug], Invalidate [kname ''workspaces'']], True)"

definition runtime_select :: "jstr \<Rightarrow> (jstr \<Rightarrow> 'm) \<Rightarrow> platform \<Rightarrow> settings_response query_result \<Rightarrow> 'm node" where
  "runtime_select runtime onChange E settings =
     El ''div'' [cls ''runtime-select-row'']
       [El ''select'' [A ''value'' runtime, OnValue ''onChange'' onChange]
          (map (\<lambda>r. El ''option'' [A ''value'' (js r)] [T r]) [''codex'', ''claude'', ''gemini'']),
        RuntimeBadge E runtime (map_option st_available_runtimes (qr_data settings))]"

definition CreateAgentDialog ::
  "platform \<Rightarrow> jstr \<Rightarrow> bool \<Rightarrow> jstr option \<Rightarrow> settings_response query_result \<Rightarrow> mutation \<Rightarrow> new_agent \<Rightarrow> 'm \<Rightarrow> (new_agent_msg \<Rightarrow> 'm) \<Rightarrow> 'm node list" where
  "CreateAgentDialog E reactId is_open slug settings createAgent form onClose lift =
     Modal ko_add_agent (Some ko_add_agent_desc)
       is_open (Some onClose)
       [El ''form'' [A ''id'' (js ''create-agent-form''), cls ''form-grid'', On ''onSubmit'' (lift NaSubmit)]
          ([labelled ko_name [El ''input'' [B ''autofocus'' True, A ''placeholder'' ko_name, A ''value'' (na_name form),
              OnValue ''onChange'' (\<lambda>t. lift (NaName t)), B ''required'' True] []],
            labelled (js ''Runtime'') [runtime_select (na_runtime form) (\<lambda>t. lift (NaRuntime t)) E settings],
            ModelSelect reactId (na_runtime form) (na_model form) (\<lambda>t. lift (NaModel t)) False None None,
            labelled ko_one_line [El ''input'' [A ''placeholder'' ko_summary_hint, A ''value'' (na_summary form),
              OnValue ''onChange'' (\<lambda>t. lift (NaSummary t))] []],
            labelled ko_tags [El ''input'' [A ''placeholder'' (js ''research,writing,korean''), A ''value'' (na_tags form),
              OnValue ''onChange'' (\<lambda>t. lift (NaTags t))] []],
            labelled ko_instructions [El ''textarea'' [A ''placeholder'' ko_instructions, A ''value'' (na_instructions form),
              OnValue ''onChange'' (\<lambda>t. lift (NaInstructions t)), B ''required'' True] []]] @
           render_if (m_isError createAgent) [El ''p'' [cls ''error-text''] [Text ko_add_agent_failed]])]
       (Some
         [El ''button'' [cls ''button secondary'', A ''type'' (js ''button''), On ''onClick'' onClose] [Text ko_cancel],
          El ''button'' [cls ''button'', A ''type'' (js ''submit''), A ''form'' (js ''create-agent-form''),
              B ''disabled'' (m_pending createAgent \<or> \<not> truthy_str slug)]
            [Text (if m_pending createAgent then ko_adding else ko_add_agent)]])"

subsection \<open>The page of all agents\<close>

record agents_state =
  as_filter :: agent_filter
  as_query :: jstr
  as_createOpen :: bool
  as_form :: new_agent                          \<comment> \<open>state of \<open>CreateAgentDialog\<close>\<close>

datatype agents_msg = AgentsFilter agent_filter | AgentsQuery jstr | AgentsCreate | AgentsClose | AgentsForm new_agent_msg

definition agents_start :: agents_state where
  "agents_start = \<lparr>as_filter = AgentsAll, as_query = [], as_createOpen = False, as_form = empty_agent\<rparr>"

fun agents_update :: "jstr option \<Rightarrow> agents_msg \<Rightarrow> agents_state \<Rightarrow> agents_state \<times> effect list" where
  "agents_update slug (AgentsFilter f) s = (s\<lparr>as_filter := f\<rparr>, [])"
| "agents_update slug (AgentsQuery q) s = (s\<lparr>as_query := q\<rparr>, [])"
| "agents_update slug AgentsCreate s = (s\<lparr>as_createOpen := True\<rparr>, [])"
| "agents_update slug AgentsClose s = (s\<lparr>as_createOpen := False\<rparr>, [])"
| "agents_update slug (AgentsForm m) s =
     (case create_agent_update slug m (as_form s) of
        (f, fx, closes) \<Rightarrow> (s\<lparr>as_form := f, as_createOpen := (if closes then False else as_createOpen s)\<rparr>, fx))"

record agents_env =
  ge_slug :: "jstr option"
  ge_agents :: "agent list query_result"
  ge_settings :: "settings_response query_result"
  ge_create :: mutation
  ge_reactId :: jstr

definition agent_row :: "jstr option \<Rightarrow> agent \<Rightarrow> 'm node" where
  "agent_row slug agent =
     El ''a'' [cls ''data-row'', A ''href'' (js ''/w/'' @ tpl slug @ js ''/agents/'' @ ag_id agent)]
       [El ''span'' [] [El ''span'' [cls ''agent-avatar''] [T ''@''], El ''strong'' [] [Text (ag_name agent)]],
        El ''span'' [] [Text (ag_runtime agent)],
        El ''span'' [] [Text (oor_str (ag_model agent) ko_basic)],
        El ''span'' [] [if ag_is_main agent then El ''span'' [cls ''badge''] [T ''main''] else T ''worker''],
        El ''span'' [cls ''truncate'']
          [Text (oor_str (oor (ag_summary agent) (oor (ag_tags agent) (Some (ag_instructions agent)))) (js ''-''))]]"

definition AgentsPage :: "platform \<Rightarrow> agents_env \<Rightarrow> agents_state \<Rightarrow> agents_msg node" where
  "AgentsPage E v s =
     (let agents = nullish (qr_data (ge_agents v)) []; visible = visibleAgents E (as_filter s) (as_query s) agents;
          n = (\<lambda>i. Text (nat_str (agent_counts agents ! i))); failed = qr_isError (ge_agents v)
      in El ''section'' [cls ''page-stack'']
        ([PageHeader (Some (ko_eyebrow_ws @ tpl (ge_slug v))) ko_agents_title
            ko_agents_desc [],
          El ''div'' [cls ''board-toolbar panel'']
            [El ''div'' [cls ''toolbar-main'']
               [El ''div'' []
                  [El ''h2'' [] [Text ko_agents_list],
                   El ''p'' [] [Text ko_total_sp, n 0, Text ko_main_sep, n 1, Text ko_codex_sep, n 2,
                     Text ko_claude_sep, n 3, Text ko_gemini_sep, n 4]],
                El ''button'' [cls ''button'', A ''type'' (js ''button''), On ''onClick'' AgentsCreate] [Text ko_add_agent]],
             El ''div'' [cls ''toolbar-controls'']
               [El ''div'' [cls ''segmented'', A ''role'' (js ''tablist''), A ''aria-label'' ko_agents_filter]
                  (map (\<lambda>(f, label). El ''button'' [A ''type'' (js ''button''), A ''class'' (if as_filter s = f then js ''active'' else []),
                      On ''onClick'' (AgentsFilter f)] [Text label]) agent_filters),
                El ''input'' [cls ''toolbar-search'', A ''placeholder'' ko_search_agent, A ''value'' (as_query s),
                    OnValue ''onChange'' AgentsQuery] []]],
          El ''article'' [cls ''panel table-panel'']
            (El ''div'' [cls ''data-table agent-table'']
               (El ''div'' [cls ''data-row data-head'']
                  (map (\<lambda>t. El ''span'' [] [T t]) [''Agent'', ''Runtime'', ''Model'', ''Role'', ''Summary / Tags'']) #
                map (agent_row (ge_slug v)) visible) #
             render_if (\<not> qr_isLoading (ge_agents v) \<and> visible = [])
               [El ''div'' [cls ''empty-state compact'']
                  [El ''h2'' [] [Text (if failed then ko_agents_failed else ko_agents_none)],
                   El ''p'' [] [Text (if failed then ko_check_token
                     else ko_agents_none_hint)]]])] @
         CreateAgentDialog E (ge_reactId v) (as_createOpen s) (ge_slug v) (ge_settings v) (ge_create v) (as_form s) AgentsClose AgentsForm))"


subsection \<open>The retry policy\<close>

record retry_form =
  rp_max_attempts :: jstr
  rp_backoff_seconds :: jstr
  rp_on_timeout :: bool
  rp_on_executor_error :: bool

definition fallback_policy :: retry_form where
  "fallback_policy = \<lparr>rp_max_attempts = js ''1'', rp_backoff_seconds = [], rp_on_timeout = True, rp_on_executor_error = True\<rparr>"

text \<open>Reading a property: \<open>Inl ()\<close> is the \<^verbatim>\<open>TypeError\<close> on \<^verbatim>\<open>null\<close>, \<open>None\<close> is \<^verbatim>\<open>undefined\<close>.\<close>

definition get_prop :: "string \<Rightarrow> json \<Rightarrow> unit + json option" where
  "get_prop n v = (case v of JNull \<Rightarrow> Inl () | JObj fs \<Rightarrow> Inr (map_of fs (js n)) | _ \<Rightarrow> Inr None)"

text \<open>\<^verbatim>\<open>v ?? d\<close> on a property, where \<^verbatim>\<open>null\<close> counts as missing.\<close>

definition json_nullish :: "json option \<Rightarrow> json \<Rightarrow> json" where
  "json_nullish v d = (case v of None \<Rightarrow> d | Some x \<Rightarrow> if x = JNull then d else x)"

text \<open>\<^verbatim>\<open>v.includes(w)\<close>: of an array the elements, of a string the substrings; other values have no such method.\<close>

definition json_includes :: "json \<Rightarrow> jstr \<Rightarrow> bool option" where
  "json_includes v w = (case v of JArr vs \<Rightarrow> Some (JStr w \<in> set vs) | JStr s \<Rightarrow> Some (includes_str s w) | _ \<Rightarrow> None)"

text \<open>\<^verbatim>\<open>v?.join(',') ?? ''\<close>.\<close>

definition json_join :: "json option \<Rightarrow> jstr option" where
  "json_join v = (case v of None \<Rightarrow> Some [] | Some JNull \<Rightarrow> Some [] | Some (JArr vs) \<Rightarrow> Some (js_String (JArr vs)) | _ \<Rightarrow> None)"

definition policy_of_json :: "json \<Rightarrow> retry_form option" where
  "policy_of_json parsed =
     (case (get_prop ''retry_on'' parsed, get_prop ''max_attempts'' parsed, get_prop ''backoff_seconds'' parsed) of
        (Inr ro, Inr ma, Inr bs) \<Rightarrow>
          (let retryOn = json_nullish ro (JArr [JStr (js ''timeout''), JStr (js ''executor_error'')]) in
           case (json_join bs, json_includes retryOn (js ''timeout''), json_includes retryOn (js ''executor_error'')) of
             (Some b, Some t, Some x) \<Rightarrow>
               Some \<lparr>rp_max_attempts = js_String (json_nullish ma (JNum (dec_int 1))), rp_backoff_seconds = b,
                 rp_on_timeout = t, rp_on_executor_error = x\<rparr>
           | _ \<Rightarrow> None)
      | _ \<Rightarrow> None)"

definition retryPolicyFromJSON :: "jstr option \<Rightarrow> retry_form" where
  "retryPolicyFromJSON v =
     (if \<not> truthy_str v then fallback_policy
      else nullish (Option.bind (JSON_parse (nullish v [])) policy_of_json) fallback_policy)"

text \<open>What \<^verbatim>\<open>JSON.stringify\<close> makes of a number.\<close>

definition json_num :: "js_number \<Rightarrow> json" where
  "json_num n = (case n of Fin d \<Rightarrow> JNum d | _ \<Rightarrow> JNull)"

definition backoff_numbers :: "jstr \<Rightarrow> js_number list" where
  "backoff_numbers s = filter finite_positive (map (\<lambda>w. Number (trim w)) (split_on 44 s))"

definition retry_on_list :: "retry_form \<Rightarrow> json list" where
  "retry_on_list f = (if rp_on_timeout f then [JStr (js ''timeout'')] else []) @ (if rp_on_executor_error f then [JStr (js ''executor_error'')] else [])"

definition policy_json :: "retry_form \<Rightarrow> json" where
  "policy_json f =
     (let backoff_seconds = backoff_numbers (rp_backoff_seconds f) in
      jobj ((''max_attempts'', json_num (num_or (Number (rp_max_attempts f)) 1)) #
        (if backoff_seconds \<noteq> [] then [(''backoff_seconds'', JArr (map json_num backoff_seconds))] else []) @
        [(''retry_on'', JArr (retry_on_list f))]))"

definition retryPolicyJSON :: "retry_form \<Rightarrow> jstr" where
  "retryPolicyJSON f = JSON_stringify (policy_json f)"

subsection \<open>The page of one agent\<close>

record agent_form =
  gf_name :: jstr
  gf_runtime :: jstr
  gf_model :: jstr
  gf_summary :: jstr
  gf_tags :: jstr
  gf_instructions :: jstr
  gf_timeout :: jstr
  gf_retry :: retry_form

definition blank_agent_form :: agent_form where
  "blank_agent_form = \<lparr>gf_name = [], gf_runtime = js ''codex'', gf_model = [], gf_summary = [], gf_tags = [], gf_instructions = [],
     gf_timeout = [], gf_retry = fallback_policy\<rparr>"

definition form_of_agent :: "agent \<Rightarrow> agent_form" where
  "form_of_agent a =
     \<lparr>gf_name = ag_name a, gf_runtime = ag_runtime a, gf_model = nullish (ag_model a) [], gf_summary = nullish (ag_summary a) [],
      gf_tags = nullish (ag_tags a) [], gf_instructions = ag_instructions a,
      gf_timeout = (if truthy_num (ag_timeout_seconds_override a) then int_str (nullish (ag_timeout_seconds_override a) 0) else []),
      gf_retry = retryPolicyFromJSON (ag_retry_policy_json a)\<rparr>"

record skill_form =
  sf_name :: jstr
  sf_description :: jstr
  sf_triggers :: jstr
  sf_content :: jstr

definition empty_skill :: skill_form where
  "empty_skill = \<lparr>sf_name = [], sf_description = [], sf_triggers = [], sf_content = []\<rparr>"

record assignment_form =
  af_skill_id :: jstr
  af_activation_mode :: jstr
  af_priority :: jstr

record agent_page =
  gp_data :: "agent option"                     \<comment> \<open>data of the agent query\<close>
  gp_form :: agent_form
  gp_dirty :: bool
  gp_loaded :: "jstr option"
  gp_skill :: skill_form
  gp_assign :: assignment_form

definition agent_page_start :: agent_page where
  "agent_page_start = \<lparr>gp_data = None, gp_form = blank_agent_form, gp_dirty = False, gp_loaded = None, gp_skill = empty_skill,
     gp_assign = \<lparr>af_skill_id = [], af_activation_mode = js ''trigger'', af_priority = js ''100''\<rparr>\<rparr>"

text \<open>The effect over \<^verbatim>\<open>[agent.data, dirty, loadedAgentID]\<close>.\<close>

definition load_effect :: "agent_page \<Rightarrow> agent_page" where
  "load_effect s = (case gp_data s of
       None \<Rightarrow> s
     | Some a \<Rightarrow>
         (let agentChanged = (gp_loaded s \<noteq> Some (ag_id a)) in
          if \<not> agentChanged \<and> gp_dirty s then s
          else s\<lparr>gp_form := form_of_agent a, gp_loaded := Some (ag_id a), gp_dirty := False\<rparr>))"

datatype agent_edit =
    EName jstr | ERuntime jstr | EModel jstr | ESummary jstr | ETags jstr | EInstructions jstr | ETimeout jstr
  | EMaxAttempts jstr | EBackoff jstr | EOnTimeout bool | EOnExecutorError bool

fun apply_edit :: "agent_edit \<Rightarrow> agent_form \<Rightarrow> agent_form" where
  "apply_edit (EName t) f = f\<lparr>gf_name := t\<rparr>"
| "apply_edit (ERuntime t) f = f\<lparr>gf_runtime := t\<rparr>"
| "apply_edit (EModel t) f = f\<lparr>gf_model := t\<rparr>"
| "apply_edit (ESummary t) f = f\<lparr>gf_summary := t\<rparr>"
| "apply_edit (ETags t) f = f\<lparr>gf_tags := t\<rparr>"
| "apply_edit (EInstructions t) f = f\<lparr>gf_instructions := t\<rparr>"
| "apply_edit (ETimeout t) f = f\<lparr>gf_timeout := t\<rparr>"
| "apply_edit (EMaxAttempts t) f = f\<lparr>gf_retry := (gf_retry f)\<lparr>rp_max_attempts := t\<rparr>\<rparr>"
| "apply_edit (EBackoff t) f = f\<lparr>gf_retry := (gf_retry f)\<lparr>rp_backoff_seconds := t\<rparr>\<rparr>"
| "apply_edit (EOnTimeout b) f = f\<lparr>gf_retry := (gf_retry f)\<lparr>rp_on_timeout := b\<rparr>\<rparr>"
| "apply_edit (EOnExecutorError b) f = f\<lparr>gf_retry := (gf_retry f)\<lparr>rp_on_executor_error := b\<rparr>\<rparr>"

definition agent_json :: "agent_form \<Rightarrow> json" where
  "agent_json f = jobj
     [(''name'', JStr (gf_name f)), (''runtime'', JStr (gf_runtime f)), (''model'', JStr (gf_model f)),
      (''summary'', JStr (gf_summary f)), (''tags'', JStr (gf_tags f)), (''instructions'', JStr (gf_instructions f)),
      (''timeout_seconds_override'', if trim (gf_timeout f) \<noteq> [] then json_num (Number (gf_timeout f)) else JNull),
      (''retry_policy_json'', JStr (retryPolicyJSON (gf_retry f)))]"

definition skill_json :: "skill_form \<Rightarrow> json" where
  "skill_json f = jobj
     [(''name'', JStr (sf_name f)), (''description'', JStr (sf_description f)),
      (''triggers'', JArr (map JStr (filter (\<lambda>t. t \<noteq> []) (map trim (split_on 44 (sf_triggers f)))))),
      (''content'', JStr (sf_content f)), (''source_type'', JStr (js ''manual'')), (''trust_level'', JStr (js ''local''))]"

definition assignment_json :: "assignment_form \<Rightarrow> json" where
  "assignment_json f = jobj
     [(''skill_id'', JStr (af_skill_id f)), (''activation_mode'', JStr (af_activation_mode f)),
      (''priority'', json_num (num_or (Number (af_priority f)) 100))]"

datatype agent_page_msg =
    AgentData "agent option"
  | EditAgent agent_edit
  | SaveAgent | AgentSaved
  | PromoteAgent | AgentPromoted
  | RemoveAgent | AgentRemoved
  | SkillName jstr | SkillDescription jstr | SkillTriggers jstr | SkillContent jstr
  | CreateSkill | SkillCreated jstr             \<comment> \<open>id of the new skill\<close>
  | AssignId jstr | AssignMode jstr | AssignPriority jstr
  | AssignSkill | UnassignSkill jstr | SkillsChanged

definition agent_stale :: "jstr option \<Rightarrow> jstr option \<Rightarrow> effect list" where
  "agent_stale i slug =
     [Invalidate [kname ''agent'', kopt i], Invalidate [kname ''agent-instructions'', kopt i], Invalidate [kname ''agents'', kopt slug]]"

definition skills_stale :: "jstr option \<Rightarrow> jstr option \<Rightarrow> effect list" where
  "skills_stale i slug = [Invalidate [kname ''workspace-skills'', kopt slug], Invalidate [kname ''agent-skills'', kopt i]]"

definition agent_url :: "jstr option \<Rightarrow> string \<Rightarrow> jstr" where
  "agent_url i rest = js ''/agents/'' @ tpl i @ js rest"

fun agent_page_update ::
  "jstr option \<Rightarrow> jstr option \<Rightarrow> agent_page_msg \<Rightarrow> agent_page \<Rightarrow> agent_page \<times> effect list" where
  "agent_page_update i slug (AgentData d) s = (load_effect (s\<lparr>gp_data := d\<rparr>), [])"
| "agent_page_update i slug (EditAgent e) s = (load_effect (s\<lparr>gp_dirty := True, gp_form := apply_edit e (gp_form s)\<rparr>), [])"
| "agent_page_update i slug SaveAgent s = (s, [Mutate (CPut (agent_url i '''') (Some (agent_json (gp_form s))))])"
| "agent_page_update i slug AgentSaved s = (load_effect (s\<lparr>gp_dirty := False\<rparr>), agent_stale i slug)"
| "agent_page_update i slug PromoteAgent s = (s, [Mutate (CPost (agent_url i ''/promote'') None)])"
| "agent_page_update i slug AgentPromoted s = (s, agent_stale i slug)"
| "agent_page_update i slug RemoveAgent s = (s, [Mutate (CDelete (agent_url i ''''))])"
| "agent_page_update i slug AgentRemoved s = (s, [Navigate (js ''/w/'' @ tpl slug @ js ''/agents'')])"
| "agent_page_update i slug (SkillName t) s = (s\<lparr>gp_skill := (gp_skill s)\<lparr>sf_name := t\<rparr>\<rparr>, [])"
| "agent_page_update i slug (SkillDescription t) s = (s\<lparr>gp_skill := (gp_skill s)\<lparr>sf_description := t\<rparr>\<rparr>, [])"
| "agent_page_update i slug (SkillTriggers t) s = (s\<lparr>gp_skill := (gp_skill s)\<lparr>sf_triggers := t\<rparr>\<rparr>, [])"
| "agent_page_update i slug (SkillContent t) s = (s\<lparr>gp_skill := (gp_skill s)\<lparr>sf_content := t\<rparr>\<rparr>, [])"
| "agent_page_update i slug CreateSkill s =
     (s, [Mutate (CPost (js ''/workspaces/'' @ tpl slug @ js ''/skills'') (Some (skill_json (gp_skill s))))])"
| "agent_page_update i slug (SkillCreated k) s =
     (s\<lparr>gp_skill := empty_skill,
        gp_assign := (gp_assign s)\<lparr>af_skill_id := oor_str (Some (af_skill_id (gp_assign s))) k\<rparr>\<rparr>, skills_stale i slug)"
| "agent_page_update i slug (AssignId t) s = (s\<lparr>gp_assign := (gp_assign s)\<lparr>af_skill_id := t\<rparr>\<rparr>, [])"
| "agent_page_update i slug (AssignMode t) s = (s\<lparr>gp_assign := (gp_assign s)\<lparr>af_activation_mode := t\<rparr>\<rparr>, [])"
| "agent_page_update i slug (AssignPriority t) s = (s\<lparr>gp_assign := (gp_assign s)\<lparr>af_priority := t\<rparr>\<rparr>, [])"
| "agent_page_update i slug AssignSkill s = (s, [Mutate (CPost (agent_url i ''/skills'') (Some (assignment_json (gp_assign s))))])"
| "agent_page_update i slug (UnassignSkill k) s = (s, [Mutate (CDelete (agent_url i ''/skills/'' @ k))])"
| "agent_page_update i slug SkillsChanged s = (s, skills_stale i slug)"


subsection \<open>Views of the agent page\<close>

record agent_env =
  ve_id :: "jstr option"
  ve_slug :: "jstr option"
  ve_versions :: "instruction_version list query_result"
  ve_skills :: "skill list query_result"
  ve_agentSkills :: "agent_skill list query_result"
  ve_settings :: "settings_response query_result"
  ve_update :: mutation
  ve_createSkill :: mutation
  ve_assign :: mutation
  ve_unassign :: mutation
  ve_reactId :: jstr

fun activation_str :: "activation_mode \<Rightarrow> jstr" where
  "activation_str ActAlways = js ''always''"
| "activation_str ActTrigger = js ''trigger''"
| "activation_str ActManual = js ''manual''"

definition text_input :: "'m attr list \<Rightarrow> jstr \<Rightarrow> (jstr \<Rightarrow> 'm) \<Rightarrow> 'm node" where
  "text_input as v onChange = El ''input'' (as @ [A ''value'' v, OnValue ''onChange'' onChange]) []"

definition check_box :: "bool \<Rightarrow> (bool \<Rightarrow> 'm) \<Rightarrow> jstr \<Rightarrow> 'm node" where
  "check_box b onChange label =
     El ''label'' [] [El ''input'' [A ''type'' (js ''checkbox''), B ''checked'' b, OnCheck ''onChange'' onChange] [], Text label]"

lemma clicks_text_input [simp]: "clicks (text_input as v f) = (if list_ex attr_disabled as then [] else concat (map attr_click as))"
  by (simp add: text_input_def)

lemma clicks_check_box [simp]: "clicks (check_box b g l) = []"
  by (simp add: check_box_def)

definition agent_settings_form :: "platform \<Rightarrow> agent_env \<Rightarrow> agent_page \<Rightarrow> agent_page_msg node" where
  "agent_settings_form E v s =
     (let form = gp_form s; policy = gf_retry form; edit = (\<lambda>f t. EditAgent (f t)); num = A ''type'' (js ''number'');
          locked = (case gp_data s of None \<Rightarrow> True | Some a \<Rightarrow> ag_is_main a)
      in El ''form'' [cls ''panel form-grid'', On ''onSubmit'' SaveAgent]
        ([El ''h2'' [] [Text ko_agent_settings],
          labelled ko_name [text_input [B ''required'' True] (gf_name form) (edit EName)],
          labelled ko_runtime_ko [runtime_select (gf_runtime form) (edit ERuntime) E (ve_settings v)],
          ModelSelect (ve_reactId v) (gf_runtime form) (gf_model form) (edit EModel) (gp_data s = None) None None,
          labelled ko_one_line [text_input [A ''placeholder'' ko_role_summary] (gf_summary form) (edit ESummary)],
          labelled ko_tags [text_input [A ''placeholder'' (js ''research,writing,korean'')] (gf_tags form) (edit ETags)],
          labelled ko_timeout_override
            [text_input [A ''min'' (js ''1''), A ''max'' (js ''86400''), A ''placeholder'' ko_timeout_default, num]
               (gf_timeout form) (edit ETimeout)],
          labelled ko_max_retry
            [text_input [A ''min'' (js ''1''), A ''max'' (js ''5''), num] (rp_max_attempts policy) (edit EMaxAttempts),
             El ''span'' [cls ''field-help'']
               [Text ko_retry_help]],
          labelled ko_backoff
            [text_input [A ''placeholder'' ko_backoff_hint] (rp_backoff_seconds policy) (edit EBackoff),
             El ''span'' [cls ''field-help''] [Text ko_backoff_help]],
          El ''div'' [cls ''checkbox-row'']
            [check_box (rp_on_timeout policy) (\<lambda>b. EditAgent (EOnTimeout b)) ko_retry_timeout,
             check_box (rp_on_executor_error policy) (\<lambda>b. EditAgent (EOnExecutorError b)) ko_retry_executor],
          labelled (js ''Instructions'')
            [El ''textarea'' [A ''value'' (gf_instructions form), OnValue ''onChange'' (edit EInstructions), B ''required'' True] []]] @
         (case m_error (ve_update v) of
            None \<Rightarrow> []
          | Some e \<Rightarrow> [El ''p'' [cls ''error-text''] [Text ko_save_failed, Text (error_message_or ko_unknown_error e)]]) @
         [El ''div'' [cls ''button-row'']
            [El ''button'' [cls ''button'', A ''type'' (js ''submit''), B ''disabled'' (m_pending (ve_update v) \<or> gp_data s = None)] [Text ko_save],
             El ''button'' [cls ''button secondary'', A ''type'' (js ''button''), On ''onClick'' PromoteAgent, B ''disabled'' locked]
               [Text ko_promote],
             El ''button'' [cls ''button danger'', A ''type'' (js ''button''), On ''onClick'' RemoveAgent, B ''disabled'' locked] [Text ko_delete]]]))"

definition version_card :: "platform \<Rightarrow> instruction_version \<Rightarrow> 'm node" where
  "version_card E version =
     El ''details'' [cls ''instruction-history-card'']
       [El ''summary'' []
          [El ''strong'' [] [T ''v'', Text (int_str (iv_version version))],
           El ''span'' [] [DateTimeText E (Some (iv_created_at version)) Both (js ''-'')]],
        El ''pre'' [] [Text (iv_instructions version)]]"

definition instructions_panel :: "platform \<Rightarrow> agent_env \<Rightarrow> 'm node" where
  "instructions_panel E v =
     (let q = ve_versions v; versions = nullish (qr_data q) [] in
      El ''section'' [cls ''panel instruction-history-panel'']
        ([El ''div'' []
            [El ''h2'' [] [Text ko_versions_title],
             El ''p'' [cls ''muted-copy'']
               [Text ko_versions_desc]]] @
         render_if (qr_isError q) (MutationErrorAlert (qr_error q) (Some ko_versions_failed)) @
         render_if (qr_isLoading q) [El ''p'' [cls ''muted-copy''] [Text ko_versions_loading]] @
         [El ''div'' [cls ''instruction-history-list''] (map (version_card E) versions)] @
         render_if (\<not> qr_isLoading q \<and> versions = [])
           [El ''p'' [cls ''muted-copy''] [Text ko_versions_none]]))"

definition assignment_card :: "mutation \<Rightarrow> agent_skill \<Rightarrow> agent_page_msg node" where
  "assignment_card unassign a =
     El ''div'' [cls ''instruction-history-card'']
       [El ''div'' [cls ''button-row split-row'']
          [El ''div'' []
             [El ''strong'' [] [Text (nullish (map_option sk_name (as_skill a)) (as_skill_id a))],
              El ''p'' [cls ''muted-copy'']
                [Text (activation_str (as_activation_mode a)), Text ko_priority_sep, Text (int_str (as_priority a)),
                 Text ko_middot, Text (js (if as_enabled a then ''enabled'' else ''disabled''))],
              El ''p'' [cls ''muted-copy''] (case as_skill a of None \<Rightarrow> [] | Some k \<Rightarrow> [Text (sk_description k)])],
           El ''button'' [cls ''button secondary'', A ''type'' (js ''button''), On ''onClick'' (UnassignSkill (as_skill_id a)),
               B ''disabled'' (m_pending unassign)] [Text ko_unassign]]]"

definition assign_form :: "agent_env \<Rightarrow> assignment_form \<Rightarrow> agent_page_msg node" where
  "assign_form v f =
     El ''form'' [cls ''form-grid compact-form'', On ''onSubmit'' AssignSkill]
       [El ''h3'' [] [Text ko_assign_skill],
        labelled (js ''Skill'')
          [El ''select'' [A ''value'' (af_skill_id f), OnValue ''onChange'' AssignId, B ''required'' True]
             (El ''option'' [A ''value'' []] [Text ko_choose] #
              map (\<lambda>k. El ''option'' [A ''value'' (sk_id k)] [Text (sk_name k)]) (nullish (qr_data (ve_skills v)) []))],
        labelled (js ''Activation'')
          [El ''select'' [A ''value'' (af_activation_mode f), OnValue ''onChange'' AssignMode]
             [El ''option'' [A ''value'' (js ''trigger'')] [Text ko_act_trigger],
              El ''option'' [A ''value'' (js ''always'')] [Text ko_act_always],
              El ''option'' [A ''value'' (js ''manual'')] [Text ko_act_manual]]],
        labelled (js ''Priority'') [text_input [A ''type'' (js ''number'')] (af_priority f) AssignPriority],
        El ''button'' [cls ''button'', A ''type'' (js ''submit''), B ''disabled'' (af_skill_id f = [] \<or> m_pending (ve_assign v))] [Text ko_assign]]"

definition new_skill_form :: "agent_env \<Rightarrow> skill_form \<Rightarrow> agent_page_msg node" where
  "new_skill_form v f =
     El ''form'' [cls ''form-grid compact-form'', On ''onSubmit'' CreateSkill]
       [El ''h3'' [] [Text ko_new_skill],
        labelled ko_name [text_input [A ''placeholder'' (js ''reddit-ai-brief''), B ''required'' True] (sf_name f) SkillName],
        labelled ko_description [text_input [A ''placeholder'' ko_skill_hint, B ''required'' True] (sf_description f) SkillDescription],
        labelled (js ''Triggers'') [text_input [A ''placeholder'' (js ''reddit, ai, community'')] (sf_triggers f) SkillTriggers],
        labelled (js ''Skill content'')
          [El ''textarea'' [A ''value'' (sf_content f), OnValue ''onChange'' SkillContent,
             A ''placeholder'' ko_skill_content, B ''required'' True] []],
        El ''button'' [cls ''button'', A ''type'' (js ''submit''), B ''disabled'' (m_pending (ve_createSkill v))] [Text ko_skill_add]]"

definition skills_panel :: "agent_env \<Rightarrow> agent_page \<Rightarrow> agent_page_msg node" where
  "skills_panel v s =
     (let alert = (\<lambda>e title. MutationErrorAlert e (Some title)); assigned = nullish (qr_data (ve_agentSkills v)) [] in
      El ''section'' [cls ''panel instruction-history-panel'']
        ([El ''div'' []
            [El ''h2'' [] [T ''Agent Skills''],
             El ''p'' [cls ''muted-copy'']
               [Text ko_skills_desc]]] @
         alert (qr_error (ve_skills v)) ko_skills_failed @
         alert (qr_error (ve_agentSkills v)) ko_agent_skills_failed @
         alert (m_error (ve_createSkill v)) ko_skill_create_failed @
         alert (m_error (ve_assign v)) ko_skill_assign_failed @
         alert (m_error (ve_unassign v)) ko_skill_unassign_failed @
         [El ''div'' [cls ''instruction-history-list'']
            (map (assignment_card (ve_unassign v)) assigned @
             render_if (\<not> qr_isLoading (ve_agentSkills v) \<and> assigned = [])
               [El ''p'' [cls ''muted-copy''] [Text ko_skills_none]]),
          assign_form v (gp_assign s), new_skill_form v (gp_skill s)]))"

definition AgentDetailPage :: "platform \<Rightarrow> agent_env \<Rightarrow> agent_page \<Rightarrow> agent_page_msg node" where
  "AgentDetailPage E v s =
     El ''section'' [cls ''page-stack'']
       [PageHeader (Some (tpl (ve_slug v) @ js '' / agents''))
          (js ''@'' @ tpl (case gp_data s of Some a \<Rightarrow> Some (ag_name a) | None \<Rightarrow> ve_id v))
          ((case gp_data s of Some a \<Rightarrow> if ag_is_main a then ko_main_agent else ko_extra_agent | None \<Rightarrow> ko_extra_agent) @
           ko_instr_v @ int_str (nullish (Option.bind (gp_data s) ag_instructions_version) 1)) [],
        agent_settings_form E v s, instructions_panel E v, skills_panel v s]"


subsection \<open>The retry policy is read back as it was written\<close>

lemma json_ok_num: "json_ok (json_num n) \<longleftrightarrow> (case n of Fin d \<Rightarrow> dec_ok d | _ \<Rightarrow> True)"
  by (simp add: json_num_def split: js_number.split)

lemma Number_ok: "Number s = Fin d \<Longrightarrow> dec_ok d"
  by (auto simp: Number_def Let_def scanned_dec_def mk_dec_ok dec_ok_neg dec_ok_def [of "(0, 0)"]
      split: if_splits option.splits prod.splits)

lemma num_or_ok: "num_or (Number s) n = Fin d \<Longrightarrow> dec_ok d"
  by (auto simp: num_or_def mk_dec_ok Number_ok split: if_splits)

lemma backoff_numbers_Fin: "n \<in> set (backoff_numbers s) \<Longrightarrow> \<exists>m e. n = Fin (m, e) \<and> 0 < m \<and> dec_ok (m, e)"
  by (auto simp: backoff_numbers_def finite_positive_def split: js_number.splits prod.splits) (metis Number_ok)

lemma policy_keys:
  "make_object ((js ''max_attempts'', a) # (js ''backoff_seconds'', b) # [(js ''retry_on'', c)]) =
     JObj ((js ''max_attempts'', a) # (js ''backoff_seconds'', b) # [(js ''retry_on'', c)])"
  "make_object ((js ''max_attempts'', a) # [(js ''retry_on'', c)]) = JObj ((js ''max_attempts'', a) # [(js ''retry_on'', c)])"
  by (simp_all add: make_object_def key_compare_def array_index_def js_def is_digit_def)

lemma policy_json_ok: "json_ok (policy_json f)"
proof -
  have "json_ok (json_num (num_or (Number (rp_max_attempts f)) 1))" using num_or_ok by (auto simp: json_ok_num split: js_number.split)
  moreover have "json_ok (json_num n)" if "n \<in> set (backoff_numbers (rp_backoff_seconds f))" for n
    using backoff_numbers_Fin [OF that] by (auto simp: json_ok_num)
  moreover have "json_ok v" if "v \<in> set (retry_on_list f)" for v
    using that by (auto simp: retry_on_list_def split: if_splits)
  ultimately show ?thesis by (auto simp: policy_json_def Let_def jobj_def policy_keys)
qed

lemma retryPolicyJSON_nonempty: "retryPolicyJSON f \<noteq> []"
  using json_print_solid by (simp add: retryPolicyJSON_def JSON_stringify_def solid_def)

lemma read_policy: "retryPolicyFromJSON (Some (retryPolicyJSON f)) = nullish (policy_of_json (policy_json f)) fallback_policy"
  using retryPolicyJSON_nonempty [of f] JSON_parse_print [OF policy_json_ok, of "[]" f]
  by (simp add: retryPolicyFromJSON_def retryPolicyJSON_def JSON_stringify_def)

text \<open>The form a saved policy is read back as.\<close>

definition saved_form :: "retry_form \<Rightarrow> retry_form" where
  "saved_form f = f\<lparr>
     rp_max_attempts := (case num_or (Number (rp_max_attempts f)) 1 of Fin d \<Rightarrow> dec_str d | _ \<Rightarrow> js ''1''),
     rp_backoff_seconds := join (js '','') (map num_str (backoff_numbers (rp_backoff_seconds f)))\<rparr>"

lemma js_String_numbers: "\<forall>n \<in> set ns. \<exists>d. n = Fin d \<Longrightarrow> js_String (JArr (map json_num ns)) = join (js '','') (map num_str ns)"
proof -
  assume "\<forall>n \<in> set ns. \<exists>d. n = Fin d"
  then have "map (\<lambda>v. if v = JNull then [] else js_String v) (map json_num ns) = map num_str ns"
    by (auto simp: json_num_def num_str_def)
  then show ?thesis by (simp only: js_String.simps)
qed

lemma policy_read_back: "retryPolicyFromJSON (Some (retryPolicyJSON f)) = saved_form f"
proof -
  have keys: "js ''backoff_seconds'' \<noteq> js ''max_attempts''" "js ''retry_on'' \<noteq> js ''max_attempts''" "js ''retry_on'' \<noteq> js ''backoff_seconds''"
    "js ''timeout'' \<noteq> js ''executor_error''"
    by (simp_all add: js_def)
  have one: "js_String (JNum (dec_int 1)) = js ''1''"
    by (simp add: dec_str_int int_str_def nat_str.simps js_def)
  have "\<forall>n \<in> set (backoff_numbers (rp_backoff_seconds f)). \<exists>d. n = Fin d" using backoff_numbers_Fin by blast
  note strs = js_String_numbers [OF this]
  have ma: "js_String (json_nullish (Some (json_num n)) (JNum (dec_int 1))) = (case n of Fin d \<Rightarrow> dec_str d | _ \<Rightarrow> js ''1'')" for n
    using one by (auto simp: json_nullish_def json_num_def split: js_number.split)
  have arr: "json_nullish (Some (JArr xs)) d = JArr xs" for xs d by (simp add: json_nullish_def)
  have "policy_of_json (policy_json f) = Some (saved_form f)"
    using keys strs by (cases f) (simp add: policy_of_json_def policy_json_def Let_def jobj_def get_prop_def ma arr json_join_def
        json_includes_def retry_on_list_def saved_form_def del: js_String.simps)
  then show ?thesis by (simp add: read_policy)
qed


lemma backoff_numbers_again:
  "backoff_numbers (join (js '','') (map num_str (backoff_numbers s))) = backoff_numbers s"
proof -
  let ?ns = "backoff_numbers s"
  have fin: "\<exists>d. n = Fin d \<and> dec_ok d \<and> finite_positive n" if "n \<in> set ?ns" for n
    using backoff_numbers_Fin [OF that] by (auto simp: finite_positive_def)
  show ?thesis
  proof (cases "?ns = []")
    case True
    then show ?thesis by (simp add: backoff_numbers_def [of "[]"] Number_def finite_positive_def)
  next
    case False
    have free: "44 \<notin> set (num_str n)" if "n \<in> set ?ns" for n
      using fin [OF that] set_dec_str [of 44] by (fastforce simp: num_str_def is_digit_def)
    have "split_on 44 (join (js '','') (map num_str ?ns)) = map num_str ?ns"
      using split_join [of "map num_str ?ns" 44] False free by (simp add: js_def)
    moreover have "map (\<lambda>w. Number (trim w)) (map num_str ?ns) = ?ns"
    proof -
      have "Number (trim (num_str n)) = n" if "n \<in> set ?ns" for n
        using fin [OF that] by (auto simp: num_str_def Number_dec_str)
      then show ?thesis by (simp add: map_idI)
    qed
    moreover have "filter finite_positive ?ns = ?ns" using fin by (simp add: filter_id_conv) blast
    ultimately show ?thesis by (simp only: backoff_numbers_def [of "join _ _"])
  qed
qed

lemma max_attempts_again:
  assumes "num_or (Number s) 1 = Fin d"
  shows "num_or (Number (dec_str d)) 1 = Fin d"
proof -
  have "num_truthy (Fin d)" using assms by (auto simp: num_or_def num_truthy_def mk_dec_def strip10.simps split: if_splits)
  then show ?thesis using num_or_ok [OF assms] by (simp add: Number_dec_str num_or_def)
qed

lemma policy_saved_again:
  assumes "num_or (Number (rp_max_attempts f)) 1 = Fin d"
  shows "retryPolicyJSON (saved_form f) = retryPolicyJSON f"
  using max_attempts_again [OF assms] assms
  by (simp add: retryPolicyJSON_def policy_json_def saved_form_def backoff_numbers_again retry_on_list_def)

lemma timeout_read_back: "\<bar>n\<bar> < 10 ^ 21 \<Longrightarrow> Number (int_str n) = Fin (dec_int n)"
  using Number_dec_str [OF mk_dec_ok [of n 0]] by (simp add: dec_str_int)

lemma trim_int_str: "\<bar>n\<bar> < 10 ^ 21 \<Longrightarrow> trim (int_str n) = int_str n"
  using trim_dec_str [of "dec_int n"] by (simp add: dec_str_int)

text \<open>C33: Opening an agent and saving it unchanged sends the agent as it is. The retry policy is stored as a
  JSON text: the text the form writes is read back as the numbers it wrote, the attempts with 1 for
  none, the back-off list without the entries that are no positive number, the two switches as
  they were. If the attempts are a finite number, saving again writes the same text, and an agent
  with such a policy and a timeout below 10 ^ 21 is sent with all its fields unchanged.\<close>

theorem agent_saved_unchanged:
  assumes "ag_retry_policy_json a = Some (retryPolicyJSON f)"
    and "num_or (Number (rp_max_attempts f)) 1 = Fin d"
    and "\<bar>nullish (ag_timeout_seconds_override a) 0\<bar> < 10 ^ 21"
  shows "gf_retry (form_of_agent a) = f\<lparr>rp_max_attempts := dec_str d,
           rp_backoff_seconds := join (js '','') (map num_str (backoff_numbers (rp_backoff_seconds f)))\<rparr> \<and>
         agent_json (form_of_agent a) = jobj
           [(''name'', JStr (ag_name a)), (''runtime'', JStr (ag_runtime a)), (''model'', JStr (nullish (ag_model a) [])),
            (''summary'', JStr (nullish (ag_summary a) [])), (''tags'', JStr (nullish (ag_tags a) [])),
            (''instructions'', JStr (ag_instructions a)),
            (''timeout_seconds_override'', case ag_timeout_seconds_override a of
                None \<Rightarrow> JNull | Some n \<Rightarrow> if n = 0 then JNull else JNum (dec_int n)),
            (''retry_policy_json'', JStr (retryPolicyJSON f))]"
proof -
  have "gf_retry (form_of_agent a) = saved_form f" by (simp add: form_of_agent_def assms(1) policy_read_back)
  moreover have "retryPolicyJSON (saved_form f) = retryPolicyJSON f" using policy_saved_again [OF assms(2)] .
  ultimately show ?thesis using assms(2,3)
    by (cases "ag_timeout_seconds_override a")
      (auto simp: agent_json_def form_of_agent_def saved_form_def truthy_num_def timeout_read_back trim_int_str json_num_def)
qed

text \<open>The agent of the witness: three attempts, and a back-off list with a blank, a fraction with a zero too many, and a word.\<close>

definition sample_policy :: retry_form where
  "sample_policy = \<lparr>rp_max_attempts = js ''3'', rp_backoff_seconds = js '' 1.50,no'', rp_on_timeout = True, rp_on_executor_error = False\<rparr>"

theorem agent_saved_unchanged_witness:
  "let a = (bare_agent (js ''a1'') (js ''dev''))\<lparr>ag_timeout_seconds_override := Some 900, ag_retry_policy_json := Some (retryPolicyJSON sample_policy)\<rparr>
   in num_or (Number (rp_max_attempts sample_policy)) 1 = Fin (3, 0) \<and>
      gf_retry (form_of_agent a) = \<lparr>rp_max_attempts = js ''3'', rp_backoff_seconds = js ''1.5'', rp_on_timeout = True, rp_on_executor_error = False\<rparr> \<and>
      agent_json (form_of_agent a) = jobj
           [(''name'', JStr (js ''dev'')), (''runtime'', JStr (js ''claude'')), (''model'', JStr []), (''summary'', JStr []), (''tags'', JStr []),
            (''instructions'', JStr []), (''timeout_seconds_override'', JNum (9, 2)), (''retry_policy_json'', JStr (retryPolicyJSON sample_policy))]"
proof -
  let ?a = "(bare_agent (js ''a1'') (js ''dev''))\<lparr>ag_timeout_seconds_override := Some 900, ag_retry_policy_json := Some (retryPolicyJSON sample_policy)\<rparr>"
  have "num_or (Number (rp_max_attempts sample_policy)) 1 = Fin (3, 0) \<and>
      map num_str (backoff_numbers (rp_backoff_seconds sample_policy)) = [js ''1.5''] \<and>
      dec_int 900 = (9, 2) \<and> dec_str (3, 0) = js ''3''" by code_simp
  then have n: "num_or (Number (rp_max_attempts sample_policy)) 1 = Fin (3, 0)"
    and b: "map num_str (backoff_numbers (rp_backoff_seconds sample_policy)) = [js ''1.5'']"
    and t: "dec_int 900 = (9, 2)" "dec_str (3, 0) = js ''3''" by blast+
  have u: "sample_policy\<lparr>rp_max_attempts := x, rp_backoff_seconds := y\<rparr> =
      \<lparr>rp_max_attempts = x, rp_backoff_seconds = y, rp_on_timeout = True, rp_on_executor_error = False\<rparr>" for x y
    by (simp add: sample_policy_def)
  from agent_saved_unchanged [OF _ n, of ?a] show ?thesis
    by (simp add: b t n u Let_def bare_agent_def)
qed


subsection \<open>Unsaved edits\<close>

text \<open>The edits among the messages.\<close>

fun edits :: "agent_page_msg list \<Rightarrow> agent_edit list" where
  "edits [] = []"
| "edits (EditAgent e # ms) = e # edits ms"
| "edits (_ # ms) = edits ms"

definition page_synced :: "agent_page \<Rightarrow> bool" where
  "page_synced s \<longleftrightarrow> (\<forall>a. gp_data s = Some a \<longrightarrow> gp_loaded s = Some (ag_id a) \<and> (gp_dirty s \<or> gp_form s = form_of_agent a))"

lemma load_effect_synced: "page_synced (load_effect s)"
  by (simp add: page_synced_def load_effect_def Let_def split: option.split)

text \<open>The effect runs again when it has changed its dependencies, to no effect.\<close>

lemma load_effect_idem: "load_effect (load_effect s) = load_effect s"
  by (simp add: load_effect_def Let_def split: option.split)

lemma agent_page_update_synced: "page_synced s \<Longrightarrow> page_synced (fst (agent_page_update i slug m s))"
  by (cases m) (simp_all add: load_effect_synced, simp_all add: page_synced_def)

interpretation agent_page: preserved "agent_page_update i slug" "\<lambda>_. True" page_synced for i slug
  by unfold_locales (rule agent_page_update_synced)

definition editing :: "jstr \<Rightarrow> agent_page \<Rightarrow> bool" where
  "editing k s \<longleftrightarrow> gp_dirty s \<and> gp_loaded s = Some k \<and> (\<forall>b. gp_data s = Some b \<longrightarrow> ag_id b = k)"

lemma load_effect_editing: "editing k s \<Longrightarrow> load_effect s = s"
  by (auto simp: editing_def load_effect_def Let_def split: option.split)

definition keeps_edits :: "jstr \<Rightarrow> agent_page_msg \<Rightarrow> bool" where
  "keeps_edits k m \<longleftrightarrow> m \<noteq> AgentSaved \<and> (\<forall>b. m = AgentData (Some b) \<longrightarrow> ag_id b = k)"

lemma editing_step:
  assumes "editing k s" "keeps_edits k m"
  shows "editing k (fst (agent_page_update i slug m s)) \<and> gp_form (fst (agent_page_update i slug m s)) = fold apply_edit (edits [m]) (gp_form s)"
proof (cases m)
  case (AgentData d)
  then have e: "editing k (s\<lparr>gp_data := d\<rparr>)" using assms by (auto simp: editing_def keeps_edits_def)
  then show ?thesis using load_effect_editing [OF e] AgentData by simp
next
  case (EditAgent x)
  have e: "editing k (s\<lparr>gp_dirty := True, gp_form := apply_edit x (gp_form s)\<rparr>)" using assms(1) by (simp add: editing_def)
  then show ?thesis using load_effect_editing [OF e] EditAgent by simp
qed (use assms in \<open>auto simp: editing_def keeps_edits_def\<close>)

lemma edits_Cons: "edits (m # ms) = edits [m] @ edits ms"
  by (cases m) simp_all

lemma editing_steps:
  assumes "editing k s" "\<forall>m \<in> set ms. keeps_edits k m"
  shows "gp_form (steps (agent_page_update i slug) ms s) = fold apply_edit (edits ms) (gp_form s)"
  using assms
proof (induction ms arbitrary: s)
  case (Cons m ms)
  have m: "editing k (fst (agent_page_update i slug m s))"
    "gp_form (fst (agent_page_update i slug m s)) = fold apply_edit (edits [m]) (gp_form s)"
    using editing_step [of k s m i slug] Cons.prems by auto
  have "gp_form (steps (agent_page_update i slug) ms (fst (agent_page_update i slug m s))) =
      fold apply_edit (edits ms) (gp_form (fst (agent_page_update i slug m s)))"
    using Cons.IH [OF m(1)] Cons.prems(2) by simp
  then show ?case using m(2) edits_Cons [of m ms] by simp
qed simp

text \<open>C34: The settings form of an agent follows the server until it is edited, and then keeps the edits. Whatever
  happened on the page before, the form shows the loaded agent or has unsaved edits; and from the
  first edit on, as long as no save completes and no other agent is loaded, the form is what was
  typed into it, however often the agent is fetched again.\<close>

theorem agent_edits_kept:
  assumes "gp_data (steps (agent_page_update i slug) ms agent_page_start) = Some a"
  shows "(gp_dirty (steps (agent_page_update i slug) ms agent_page_start) \<or>
          gp_form (steps (agent_page_update i slug) ms agent_page_start) = form_of_agent a) \<and>
         (\<forall>e es. AgentSaved \<notin> set es \<longrightarrow> (\<forall>b. AgentData (Some b) \<in> set es \<longrightarrow> ag_id b = ag_id a) \<longrightarrow>
            gp_form (steps (agent_page_update i slug) (ms @ EditAgent e # es) agent_page_start) =
              fold apply_edit (e # edits es) (gp_form (steps (agent_page_update i slug) ms agent_page_start)))"
proof -
  let ?s = "steps (agent_page_update i slug) ms agent_page_start"
  have "page_synced agent_page_start" by (simp add: page_synced_def agent_page_start_def)
  then have "page_synced ?s" by (rule agent_page.inv_steps) (simp add: list_all_iff)
  then have s: "gp_loaded ?s = Some (ag_id a)" "gp_dirty ?s \<or> gp_form ?s = form_of_agent a"
    using assms by (simp_all add: page_synced_def)
  have "gp_form (steps (agent_page_update i slug) (EditAgent e # es) ?s) = fold apply_edit (e # edits es) (gp_form ?s)"
    if "AgentSaved \<notin> set es" "\<forall>b. AgentData (Some b) \<in> set es \<longrightarrow> ag_id b = ag_id a" for e es
  proof -
    let ?t = "?s\<lparr>gp_dirty := True, gp_form := apply_edit e (gp_form ?s)\<rparr>"
    have ed: "editing (ag_id a) ?t" using s assms by (simp add: editing_def)
    have "\<forall>m \<in> set es. keeps_edits (ag_id a) m" using that by (auto simp: keeps_edits_def)
    from editing_steps [OF ed this] show ?thesis using load_effect_editing [OF ed] by simp
  qed
  then show ?thesis using s(2) by (simp add: steps_append)
qed

theorem agent_edits_kept_witness:
  "let a = bare_agent (js ''a1'') (js ''dev''); a' = a\<lparr>ag_name := js ''ops''\<rparr> in
   gp_data (steps (agent_page_update None None) [AgentData (Some a)] agent_page_start) = Some a \<and>
   gp_form (steps (agent_page_update None None) [AgentData (Some a), EditAgent (ETags (js ''x'')), AgentData (Some a'), EditAgent (EModel (js ''m''))]
     agent_page_start) = (form_of_agent a)\<lparr>gf_model := js ''m'', gf_tags := js ''x''\<rparr>"
proof -
  let ?a = "bare_agent (js ''a1'') (js ''dev'')"
  let ?es = "[AgentData (Some (?a\<lparr>ag_name := js ''ops''\<rparr>)), EditAgent (EModel (js ''m''))]"
  have s: "steps (agent_page_update None None) [AgentData (Some ?a)] agent_page_start =
      agent_page_start\<lparr>gp_data := Some ?a, gp_form := form_of_agent ?a, gp_loaded := Some (ag_id ?a)\<rparr>"
    by (simp add: load_effect_def agent_page_start_def)
  have *: "gp_data (steps (agent_page_update None None) [AgentData (Some ?a)] agent_page_start) = Some ?a" unfolding s by simp
  from agent_edits_kept [OF this, THEN conjunct2, rule_format, of ?es "ETags (js ''x'')"] * show ?thesis
    unfolding s Let_def by simp
qed

text \<open>A completed save resets the form to the agent as it was fetched before, not to what was saved: what is
  typed while the save is under way is discarded unsaved, and until the agent has been fetched
  again the form shows the old values and counts as unchanged.\<close>

lemma agent_edit_during_save_lost:
  assumes "gp_data s = Some a" "gp_loaded s = Some (ag_id a)"
  shows "gp_form (steps (agent_page_update i slug) [EditAgent e, SaveAgent, EditAgent e', AgentSaved] s) = form_of_agent a \<and>
         \<not> gp_dirty (steps (agent_page_update i slug) [EditAgent e, SaveAgent, EditAgent e', AgentSaved] s) \<and>
         map snd (sent (agent_page_update i slug) [EditAgent e, SaveAgent, EditAgent e', AgentSaved] s) =
           [CPut (agent_url i '''') (Some (agent_json (apply_edit e (gp_form s))))]"
  using assms by (simp add: load_effect_def agent_stale_def)

lemma agent_edit_during_save_lost_instance:
  "let a = bare_agent (js ''a1'') (js ''dev''); s = agent_page_start\<lparr>gp_data := Some a, gp_loaded := Some (ag_id a), gp_form := form_of_agent a\<rparr>
   in gp_form (steps (agent_page_update (Some (js ''a1'')) None) [EditAgent (ETags (js ''x'')), SaveAgent, EditAgent (EModel (js ''m'')), AgentSaved] s) =
        form_of_agent a \<and> form_of_agent a \<noteq> apply_edit (EModel (js ''m'')) (form_of_agent a)"
  using agent_edit_during_save_lost [of "agent_page_start\<lparr>gp_data := Some (bare_agent (js ''a1'') (js ''dev'')), gp_loaded := Some (js ''a1''),
      gp_form := form_of_agent (bare_agent (js ''a1'') (js ''dev''))\<rparr>" "bare_agent (js ''a1'') (js ''dev'')" "Some (js ''a1'')" None
      "ETags (js ''x'')" "EModel (js ''m'')", THEN conjunct1]
  by (simp add: Let_def bare_agent_def form_of_agent_def js_def)


subsection \<open>What can be clicked\<close>

lemma clicks_ModelSelect: "set (clicks (ModelSelect r rt v f b l h)) \<subseteq> range f"
  by (auto simp: ModelSelect_def Let_def html_simps split: if_splits)

lemma clicks_leaf_views [simp]:
  "clicks (runtime_select rt f E q) = []" "clicks (version_card E ver) = []" "clicks (DateTimeText E t m em) = []"
  "clicks_of (MutationErrorAlert er ti) = []" "clicks (PageHeader eb he de []) = []"
  by (auto simp: runtime_select_def RuntimeBadge_def version_card_def DateTimeText_def MutationErrorAlert_def PageHeader_def
      html_simps Let_def split: option.split)

lemma clicks_instructions_panel [simp]: "clicks (instructions_panel E v) = []"
  by (simp add: instructions_panel_def Let_def html_simps)

lemma clicks_agent_forms [simp]: "clicks (assign_form v f) = []" "clicks (new_skill_form v g) = []"
  by (simp_all add: assign_form_def new_skill_form_def html_simps)

lemma clicks_assignment_card [simp]:
  "clicks (assignment_card u a) = (if m_pending u then [] else [UnassignSkill (as_skill_id a)])"
  by (simp add: assignment_card_def split: option.split)

lemma clicks_skills_panel: "clicks (skills_panel v s) =
    (if m_pending (ve_unassign v) then [] else map (\<lambda>a. UnassignSkill (as_skill_id a)) (nullish (qr_data (ve_agentSkills v)) []))"
  by (auto simp: skills_panel_def Let_def html_simps concat_map_singleton)

lemma clicks_settings_form:
  "clicks (agent_settings_form E v s) =
     clicks (ModelSelect (ve_reactId v) (gf_runtime (gp_form s)) (gf_model (gp_form s)) (\<lambda>t. EditAgent (EModel t)) (gp_data s = None) None None) @
     (case gp_data s of Some a \<Rightarrow> if ag_is_main a then [] else [PromoteAgent, RemoveAgent] | None \<Rightarrow> [])"
  by (auto simp: agent_settings_form_def Let_def html_simps split: option.split)

lemma agent_clicks:
  assumes "m \<notin> range (\<lambda>t. EditAgent (EModel t))"
  shows "m \<in> set (clicks (AgentDetailPage E v s)) \<longleftrightarrow>
      (\<exists>a. gp_data s = Some a \<and> \<not> ag_is_main a) \<and> m \<in> {PromoteAgent, RemoveAgent} \<or>
      \<not> m_pending (ve_unassign v) \<and> m \<in> UnassignSkill ` as_skill_id ` set (nullish (qr_data (ve_agentSkills v)) [])"
proof -
  have "m \<notin> set (clicks (ModelSelect r rt x (\<lambda>t. EditAgent (EModel t)) b l h))" for r rt x b l h
    using clicks_ModelSelect [where f = "\<lambda>t. EditAgent (EModel t)"] assms by blast
  then show ?thesis
    by (cases "gp_data s") (auto simp: AgentDetailPage_def clicks_settings_form clicks_skills_panel)
qed

text \<open>A click on the agent page sends a request only to promote or delete the agent or to take a skill from
  it. The first two are offered exactly when the agent is loaded and is not the main one (and send
  at once, without a confirmation), the last for the skills assigned, while no such request is
  under way.\<close>

lemma agent_clicks_safe:
  "(PromoteAgent \<in> set (clicks (AgentDetailPage E v s)) \<longleftrightarrow> (\<exists>a. gp_data s = Some a \<and> \<not> ag_is_main a)) \<and>
   (RemoveAgent \<in> set (clicks (AgentDetailPage E v s)) \<longleftrightarrow> (\<exists>a. gp_data s = Some a \<and> \<not> ag_is_main a)) \<and>
   (UnassignSkill k \<in> set (clicks (AgentDetailPage E v s)) \<longleftrightarrow>
      \<not> m_pending (ve_unassign v) \<and> k \<in> as_skill_id ` set (nullish (qr_data (ve_agentSkills v)) [])) \<and>
   calls (snd (agent_page_update (ve_id v) (ve_slug v) RemoveAgent s)) = [CDelete (js ''/agents/'' @ tpl (ve_id v))] \<and>
   {m \<in> set (clicks (AgentDetailPage E v s)). calls (snd (agent_page_update (ve_id v) (ve_slug v) m s)) \<noteq> []}
     \<subseteq> {PromoteAgent, RemoveAgent} \<union> range UnassignSkill"
proof -
  have "calls (snd (agent_page_update (ve_id v) (ve_slug v) m s)) = [] \<or> m \<in> {PromoteAgent, RemoveAgent} \<or> (\<exists>k. m = UnassignSkill k)"
    if "m \<in> set (clicks (AgentDetailPage E v s))" for m
    using agent_clicks [of m E v s] that by (cases "m \<in> range (\<lambda>t. EditAgent (EModel t))") auto
  moreover have "PromoteAgent \<notin> range (\<lambda>t. EditAgent (EModel t))" "RemoveAgent \<notin> range (\<lambda>t. EditAgent (EModel t))"
    "UnassignSkill k \<notin> range (\<lambda>t. EditAgent (EModel t))" by auto
  ultimately show ?thesis by (auto simp: agent_clicks agent_url_def js_def)
qed


text \<open>The numbers of the header of the table are the sizes of the lists the five filters show.\<close>

lemma agent_counts_are_filters:
  "trim q = [] \<Longrightarrow> toLowerCase E [] = [] \<Longrightarrow>
     agent_counts xs = map (\<lambda>(f, label). length (visibleAgents E f q xs)) agent_filters"
  by (simp add: agent_counts_def agent_filters_def visibleAgents_def agent_visible_def cong: filter_cong)

end
