(* ===== verification/Webhooks.thy ===== *)
theory Webhooks
  imports Agents
begin

section \<open>Webhooks of a workspace\<close>

text \<open>
  Models \<^verbatim>\<open>web/src/components/WorkspaceWebhookSection.tsx\<close>: the form for a new webhook with its set of events, the
  list of webhooks with their deliveries, deleting and sending again, and the display of a payload.
  \<open>confirm\<close> is what \<^verbatim>\<open>window.confirm\<close> answers to a question.
\<close>

definition ALL_EVENTS :: "jstr list" where
  "ALL_EVENTS = map js [''run.completed'', ''run.failed'', ''issue.done'', ''issue.cancelled'']"

text \<open>A JavaScript set keeps its elements in the order they were added.\<close>

definition toggleEvent :: "jstr \<Rightarrow> jstr list \<Rightarrow> jstr list" where
  "toggleEvent event prev = (if event \<in> set prev then filter (\<lambda>x. x \<noteq> event) prev else prev @ [event])"

record webhook_state =
  wb_url :: jstr
  wb_secret :: jstr
  wb_selected :: "jstr list"
  wb_maskPII :: bool
  wb_error :: jstr

definition webhook_start :: webhook_state where
  "webhook_start = \<lparr>wb_url = [], wb_secret = [], wb_selected = [], wb_maskPII = False, wb_error = []\<rparr>"

datatype webhook_msg =
    WUrl jstr | WSecret jstr | WToggle jstr | WMask bool | WSubmit | WCreated | WCreateFailed thrown
  | WDelete webhook | WDeleted
  | WRedeliver jstr jstr                        \<comment> \<open>webhook and delivery\<close>
  | WRedeliverAll webhook | WRedelivered jstr

definition webhook_json :: "webhook_state \<Rightarrow> json" where
  "webhook_json s = jobj
     [(''url'', JStr (wb_url s)), (''secret'', JStr (wb_secret s)), (''events'', JArr (map JStr (wb_selected s))),
      (''mask_pii'', JBool (wb_maskPII s))]"

definition hooks_stale :: "jstr \<Rightarrow> effect" where
  "hooks_stale slug = Invalidate [kname ''webhooks'', KS slug]"

definition delete_question :: "webhook \<Rightarrow> jstr" where
  "delete_question hook = js ''webhook '' @ wh_url hook @ ko_delete_q"

definition redeliver_question :: "webhook \<Rightarrow> jstr" where
  "redeliver_question hook = int_str (wh_failed_delivery_count hook) @ ko_redeliver_q"

fun webhook_update :: "(jstr \<Rightarrow> bool) \<Rightarrow> jstr \<Rightarrow> webhook_msg \<Rightarrow> webhook_state \<Rightarrow> webhook_state \<times> effect list" where
  "webhook_update confirm slug (WUrl t) s = (s\<lparr>wb_url := t\<rparr>, [])"
| "webhook_update confirm slug (WSecret t) s = (s\<lparr>wb_secret := t\<rparr>, [])"
| "webhook_update confirm slug (WToggle e) s = (s\<lparr>wb_selected := toggleEvent e (wb_selected s)\<rparr>, [])"
| "webhook_update confirm slug (WMask b) s = (s\<lparr>wb_maskPII := b\<rparr>, [])"
| "webhook_update confirm slug WSubmit s =
     (if trim (wb_url s) = [] then (s\<lparr>wb_error := ko_url_needed\<rparr>, [])
      else (s, [Mutate (CPost (js ''/workspaces/'' @ slug @ js ''/webhooks'') (Some (webhook_json s)))]))"
| "webhook_update confirm slug WCreated s = (webhook_start, [hooks_stale slug])"
| "webhook_update confirm slug (WCreateFailed e) s = (s\<lparr>wb_error := error_message_or ko_unknown_error e\<rparr>, [])"
| "webhook_update confirm slug (WDelete hook) s =
     (s, if confirm (delete_question hook) then [Mutate (CDelete (js ''/webhooks/'' @ wh_id hook))] else [])"
| "webhook_update confirm slug WDeleted s = (s, [hooks_stale slug])"
| "webhook_update confirm slug (WRedeliver h d) s =
     (s, [Mutate (CPost (js ''/webhooks/'' @ h @ js ''/deliveries/'' @ d @ js ''/redeliver'') (Some (jobj [])))])"
| "webhook_update confirm slug (WRedeliverAll hook) s =
     (s, if confirm (redeliver_question hook)
         then [Mutate (CPost (js ''/webhooks/'' @ wh_id hook @ js ''/deliveries/redeliver-failed'') (Some (jobj [])))] else [])"
| "webhook_update confirm slug (WRedelivered h) s =
     (s, [Invalidate [kname ''webhook-deliveries'', KS h], Invalidate [kname ''webhooks'']])"

subsection \<open>Display\<close>

definition labelForStatus :: "webhook_delivery \<Rightarrow> jstr" where
  "labelForStatus d =
     (case wd_status d of
        DDelivered \<Rightarrow> ko_ok200 @ int_str (wd_attempt d) @ js '')''
      | DFailed \<Rightarrow> trim (ko_failed_sp2 @ (if wd_status_code d = 0 then [] else int_str (wd_status_code d)) @ ko_attempt_sp @
                     int_str (wd_attempt d) @ js '')'')
      | DPending \<Rightarrow> ko_waiting_try @ int_str (wd_attempt d) @ js '')'')"

definition formatPayload :: "jstr option \<Rightarrow> jstr" where
  "formatPayload raw =
     (if \<not> truthy_str raw then ko_no_payload
      else (case JSON_parse (nullish raw []) of None \<Rightarrow> nullish raw [] | Some v \<Rightarrow> JSON_stringify2 v))"

text \<open>\<^verbatim>\<open>at.slice(0, 19).replace('T', ' ')\<close>.\<close>

definition time_stamp :: "jstr \<Rightarrow> jstr" where
  "time_stamp v =
     (let t = slice 0 19 v in
      takeWhile (\<lambda>c. c \<noteq> 84) t @ (case dropWhile (\<lambda>c. c \<noteq> 84) t of [] \<Rightarrow> [] | c # r \<Rightarrow> 32 # r))"

fun delivery_status_str :: "delivery_status \<Rightarrow> jstr" where
  "delivery_status_str DPending = js ''pending''"
| "delivery_status_str DDelivered = js ''delivered''"
| "delivery_status_str DFailed = js ''failed''"

record webhook_env =
  we_hooks :: "webhook list query_result"
  we_create :: mutation
  we_deliveries :: "jstr \<Rightarrow> webhook_delivery list query_result"    \<comment> \<open>of a webhook, its last five\<close>
  we_redeliver :: "jstr \<Rightarrow> mutation"
  we_redeliverAll :: "jstr \<Rightarrow> mutation"

definition delivery_row :: "webhook_env \<Rightarrow> jstr \<Rightarrow> webhook_delivery \<Rightarrow> webhook_msg node" where
  "delivery_row v h d =
     El ''li'' []
       [El ''details'' [cls ''webhook-delivery-row'']
          ([El ''summary'' []
              ([El ''span'' [A ''data-status'' (delivery_status_str (wd_status d)), cls ''webhook-delivery-status''] [Text (labelForStatus d)],
                El ''code'' [] [Text (wd_event_type d)],
                El ''span'' [cls ''muted-copy''] [Text (time_stamp (wd_created_at d))]] @
               render_if (wd_status d = DFailed)
                 [El ''button'' [A ''type'' (js ''button''), cls ''button secondary ghost webhook-delivery-redeliver'',
                    On ''onClick'' (WRedeliver h (wd_id d)), B ''disabled'' (m_pending (we_redeliver v h))]
                    [Text (if m_pending (we_redeliver v h) then ko_resending else ko_resend)]]),
            El ''pre'' [cls ''webhook-delivery-payload''] [Text (formatPayload (wd_payload_json d))]] @
           render_if (truthy_str (wd_error_message d)) [El ''p'' [cls ''error-text''] [Text (nullish (wd_error_message d) [])]])]"

definition WebhookRow :: "webhook_env \<Rightarrow> webhook \<Rightarrow> webhook_msg node" where
  "WebhookRow v hook =
     (let h = wh_id hook; deliveries = nullish (qr_data (we_deliveries v h)) []; badge = (\<lambda>c t. El ''span'' [cls c] t);
          failed = wh_failed_delivery_count hook; allPending = m_pending (we_redeliverAll v h)
      in El ''div'' [cls ''webhook-row'']
        [El ''div'' [cls ''webhook-row__head'']
           [El ''div'' [cls ''webhook-row__url'']
              ([El ''code'' [] [Text (wh_url hook)]] @
               render_if (wh_has_secret hook) [badge ''badge'' [Text ko_signed]] @
               render_if (wh_mask_pii hook) [badge ''badge'' [Text ko_pii]] @
               render_if (failed > 0) [badge ''badge danger'' [T ''dead-letter '', Text (int_str failed), Text ko_cases]] @
               render_if (\<not> wh_enabled hook) [badge ''badge muted'' [Text ko_disabled_ko]]),
            El ''div'' [cls ''webhook-row__actions'']
              (render_if (failed > 0)
                 [El ''button'' [A ''type'' (js ''button''), cls ''button secondary ghost'', On ''onClick'' (WRedeliverAll hook), B ''disabled'' allPending]
                    [Text (if allPending then ko_resending else ko_resend_all)]] @
               [El ''button'' [cls ''button danger ghost'', A ''type'' (js ''button''), On ''onClick'' (WDelete hook)] [Text ko_delete]])],
         El ''div'' [cls ''webhook-row__events'']
           (if wh_events hook = [] then [El ''code'' [] [Text ko_all_events]]
            else map (\<lambda>e. El ''code'' [] [Text e]) (wh_events hook)),
         El ''div'' [cls ''webhook-row__deliveries'']
           [El ''span'' [cls ''muted-copy''] [Text ko_recent_deliveries],
            if deliveries = [] then El ''span'' [cls ''muted-copy''] [Text ko_no_records]
            else El ''ul'' [] (map (delivery_row v h) deliveries)]])"

definition WorkspaceWebhookSection :: "webhook_env \<Rightarrow> webhook_state \<Rightarrow> webhook_msg node" where
  "WorkspaceWebhookSection v s =
     (let hooks = nullish (qr_data (we_hooks v)) []; pending = m_pending (we_create v); box = A ''type'' (js ''checkbox'') in
      El ''section'' [cls ''webhook-section'']
        [El ''header'' [cls ''webhook-section__header'']
           [El ''strong'' [] [T ''Webhook''],
            El ''span'' [cls ''muted-copy''] [Text ko_webhook_desc]],
         El ''form'' [cls ''webhook-section__form'', On ''onSubmit'' WSubmit]
           ([labelled (js ''URL'')
               [text_input [A ''type'' (js ''url''), A ''placeholder'' (js ''https://hooks.example/incoming''), B ''required'' True] (wb_url s) WUrl],
             labelled ko_secret_label
               [text_input [A ''type'' (js ''password''), A ''placeholder'' ko_secret_hint] (wb_secret s) WSecret],
             El ''div'' [cls ''webhook-section__events'']
               (El ''span'' [cls ''field-label-text''] [Text ko_events_label] #
                map (\<lambda>e. El ''label'' [cls ''webhook-section__event'']
                  [El ''input'' [box, B ''checked'' (e \<in> set (wb_selected s)), On ''onChange'' (WToggle e)] [], El ''code'' [] [Text e]]) ALL_EVENTS),
             El ''label'' [cls ''webhook-section__event'']
               [El ''input'' [box, B ''checked'' (wb_maskPII s), OnCheck ''onChange'' WMask] [],
                El ''span'' [] [Text ko_mask_label]],
             El ''button'' [cls ''button secondary'', A ''type'' (js ''submit''), B ''disabled'' pending]
               [Text (if pending then ko_adding else ko_webhook_add)]] @
            render_if (wb_error s \<noteq> []) [El ''p'' [cls ''error-text''] [Text (wb_error s)]]),
         if hooks = [] then El ''p'' [cls ''muted-copy''] [Text ko_webhook_none]
         else El ''ul'' [cls ''webhook-section__list''] (map (\<lambda>hook. El ''li'' [] [WebhookRow v hook]) hooks)])"

subsection \<open>Payloads\<close>

lemma blank_gap: "blank (js ''  '')"
  by (simp add: js_def json_ws_def)

lemma stringify2_nonempty: "JSON_stringify2 v \<noteq> []"
  using json_print_solid by (simp add: JSON_stringify2_def solid_def)

text \<open>The payload of a delivery is shown without loss: a payload that is a JSON text is shown as an indented text
  of the same value, formatting which again changes nothing; any other text is shown as it is; and a
  missing payload has a note of its own.\<close>

lemma payload_shown_faithfully:
  "(\<forall>raw v. JSON_parse raw = Some v \<longrightarrow> raw \<noteq> [] \<and> JSON_parse (formatPayload (Some raw)) = Some v \<and>
      formatPayload (Some (formatPayload (Some raw))) = formatPayload (Some raw)) \<and>
   (\<forall>raw. JSON_parse raw = None \<longrightarrow> raw \<noteq> [] \<longrightarrow> formatPayload (Some raw) = raw) \<and>
   formatPayload None = ko_no_payload \<and> formatPayload (Some []) = ko_no_payload"
proof -
  have "raw \<noteq> [] \<and> JSON_parse (formatPayload (Some raw)) = Some v \<and>
      formatPayload (Some (formatPayload (Some raw))) = formatPayload (Some raw)" if "JSON_parse raw = Some v" for raw v
  proof -
    have raw: "raw \<noteq> []" using that by (auto simp: JSON_parse_def json_value.simps skip_ws_def)
    then have f: "formatPayload (Some raw) = JSON_stringify2 v" using that by (simp add: formatPayload_def)
    have p: "JSON_parse (JSON_stringify2 v) = Some v"
      unfolding JSON_stringify2_def by (rule JSON_parse_print [OF JSON_parse_ok [OF that] blank_gap])
    then have "formatPayload (Some (JSON_stringify2 v)) = JSON_stringify2 v" by (simp add: formatPayload_def stringify2_nonempty)
    then show ?thesis using raw p by (simp add: f)
  qed
  moreover have "formatPayload (Some raw) = raw" if "JSON_parse raw = None" "raw \<noteq> []" for raw
    using that by (simp add: formatPayload_def)
  moreover have "formatPayload None = ko_no_payload" "formatPayload (Some []) = ko_no_payload" by (simp_all add: formatPayload_def)
  ultimately show ?thesis by blast
qed

lemma payload_shown_faithfully_instance:
  "let raw = js ''{\"b\":[1.0,true],\"2\":null}''; v = JObj [(js ''2'', JNull), (js ''b'', JArr [JNum (1, 0), JBool True])] in
     JSON_parse raw = Some v \<and> JSON_parse (formatPayload (Some raw)) = Some v \<and>
     JSON_parse (js ''{bad'') = None \<and> formatPayload (Some (js ''{bad'')) = js ''{bad''"
proof -
  have "JSON_parse (js ''{\"b\":[1.0,true],\"2\":null}'') = Some (JObj [(js ''2'', JNull), (js ''b'', JArr [JNum (1, 0), JBool True])]) \<and>
      JSON_parse (js ''{bad'') = None \<and> js ''{bad'' \<noteq> []" by code_simp
  then show ?thesis using payload_shown_faithfully unfolding Let_def by blast
qed

subsection \<open>The form\<close>

text \<open>The set of ticked events: in the order they were ticked, each once.\<close>

lemma set_toggleEvent: "set (toggleEvent e prev) = (if e \<in> set prev then set prev - {e} else insert e (set prev))"
  by (auto simp: toggleEvent_def)

lemma distinct_toggleEvent: "distinct prev \<Longrightarrow> distinct (toggleEvent e prev)"
  by (simp add: toggleEvent_def)

lemma toggled_events:
  "distinct prev \<Longrightarrow> distinct (fold toggleEvent es prev) \<and>
     (\<forall>e. e \<in> set (fold toggleEvent es prev) \<longleftrightarrow> (e \<in> set prev) \<noteq> odd (count_list es e))"
proof (induction es arbitrary: prev)
  case (Cons x es)
  from Cons.IH [OF distinct_toggleEvent [OF Cons.prems], of x] show ?case
    by (auto simp: set_toggleEvent)
qed simp

lemma steps_toggle:
  "wb_selected (steps (webhook_update confirm slug) (map WToggle es) s) = fold toggleEvent es (wb_selected s) \<and>
   wb_url (steps (webhook_update confirm slug) (map WToggle es) s) = wb_url s"
  by (induction es arbitrary: s) simp_all

text \<open>A new webhook is created with the events that are ticked. However often the boxes are clicked, the request
  carries exactly the events clicked an odd number of times, each once; with a blank URL nothing is
  sent and the form says why; after the creation the form is empty again; and deleting a webhook or
  sending all its failed deliveries again sends its request only if the question naming it is
  answered with yes.\<close>

lemma webhook_created_as_ticked:
  "let s = steps (webhook_update confirm slug) (WUrl u # map WToggle es) webhook_start; r = webhook_update confirm slug WSubmit s in
     (trim u = [] \<longrightarrow> calls (snd r) = [] \<and> wb_error (fst r) = ko_url_needed) \<and>
     (trim u \<noteq> [] \<longrightarrow> (\<exists>evs. calls (snd r) = [CPost (js ''/workspaces/'' @ slug @ js ''/webhooks'')
         (Some (jobj [(''url'', JStr u), (''secret'', JStr []), (''events'', JArr (map JStr evs)), (''mask_pii'', JBool False)]))] \<and>
       distinct evs \<and> (\<forall>e. e \<in> set evs \<longleftrightarrow> odd (count_list es e)))) \<and>
     fst (webhook_update confirm slug WCreated s) = webhook_start \<and>
     calls (snd (webhook_update confirm slug (WDelete h) s)) =
       (if confirm (delete_question h) then [CDelete (js ''/webhooks/'' @ wh_id h)] else []) \<and>
     (calls (snd (webhook_update confirm slug (WRedeliverAll h) s)) \<noteq> [] \<longrightarrow> confirm (redeliver_question h))"
proof -
  let ?s = "steps (webhook_update confirm slug) (map WToggle es) (webhook_start\<lparr>wb_url := u\<rparr>)"
  have sel: "wb_selected ?s = fold toggleEvent es []" "wb_url ?s = u"
    using steps_toggle [of confirm slug es "webhook_start\<lparr>wb_url := u\<rparr>"] by (simp_all add: webhook_start_def)
  have "wb_secret (steps (webhook_update confirm slug) (map WToggle es) s) = wb_secret s \<and>
      wb_maskPII (steps (webhook_update confirm slug) (map WToggle es) s) = wb_maskPII s" for s
    by (induction es arbitrary: s) simp_all
  then have "wb_secret ?s = []" "wb_maskPII ?s = False" by (simp_all add: webhook_start_def)
  then show ?thesis using sel toggled_events [of "[]" es]
    by (auto simp: Let_def webhook_json_def)
qed

lemma webhook_created_as_ticked_instance:
  "calls (snd (webhook_update (\<lambda>q. False) (js ''w'') WSubmit
     (steps (webhook_update (\<lambda>q. False) (js ''w'')) [WUrl (js ''u''), WToggle (js ''a''), WToggle (js ''b''), WToggle (js ''a'')] webhook_start))) =
     [CPost (js ''/workspaces/w/webhooks'') (Some (jobj [(''url'', JStr (js ''u'')), (''secret'', JStr []), (''events'', JArr [JStr (js ''b'')]),
        (''mask_pii'', JBool False)]))]"
proof -
  let ?es = "[js ''a'', js ''b'', js ''a'']"
  have "trim (js ''u'') \<noteq> []" by (simp add: trim_eq_Nil js_def is_ws_def)
  with webhook_created_as_ticked [of "\<lambda>q. False" "js ''w''" "js ''u''" ?es undefined, unfolded Let_def, THEN conjunct2, THEN conjunct1]
  obtain evs where evs: "distinct evs" "\<forall>e. e \<in> set evs \<longleftrightarrow> odd (count_list ?es e)" and
    c: "calls (snd (webhook_update (\<lambda>q. False) (js ''w'') WSubmit
        (steps (webhook_update (\<lambda>q. False) (js ''w'')) (WUrl (js ''u'') # map WToggle ?es) webhook_start))) =
      [CPost (js ''/workspaces/'' @ js ''w'' @ js ''/webhooks'') (Some (jobj [(''url'', JStr (js ''u'')), (''secret'', JStr []),
         (''events'', JArr (map JStr evs)), (''mask_pii'', JBool False)]))]"
    by blast
  have set: "set evs = {js ''b''}" using evs(2) by (auto simp: js_def split: if_splits)
  then have "length evs = Suc 0" using distinct_card [OF evs(1)] by simp
  then obtain x where "evs = [x]" unfolding length_Suc_conv by blast
  with set have "evs = [js ''b'']" by simp
  then show ?thesis using c by (simp add: js_def)
qed

end
