(* ===== verification/Auth.thy ===== *)
theory Auth
  imports Agents
begin

section \<open>The panel for the API token\<close>

text \<open>
  Models \<^verbatim>\<open>web/src/components/AuthTokenPanel.tsx\<close>: shown when a request was refused as unauthorized, it stores or
  removes the bearer token in the browser and marks every query stale. The browser's storages are part
  of the state its handlers change.
\<close>

definition isUnauthorizedError :: "thrown option \<Rightarrow> bool" where
  "isUnauthorizedError error = (case error of Some (TApi e) \<Rightarrow> err_status e = 401 | _ \<Rightarrow> False)"

record auth_state =
  au_token :: jstr
  au_sessionOnly :: bool

datatype auth_msg = AuToken jstr | AuSession bool | AuSave | AuClear

definition auth_start :: "window \<Rightarrow> auth_state" where
  "auth_start w = \<lparr>au_token = readToken w, au_sessionOnly = (readTokenStorageMode w = ModeSession)\<rparr>"

text \<open>\<^verbatim>\<open>invalidateQueries()\<close> without a key covers every query.\<close>

definition everything_stale :: effect where
  "everything_stale = Invalidate []"

fun auth_update :: "auth_msg \<Rightarrow> auth_state \<times> window \<Rightarrow> (auth_state \<times> window) \<times> effect list" where
  "auth_update (AuToken t) (s, w) = ((s\<lparr>au_token := t\<rparr>, w), [])"
| "auth_update (AuSession b) (s, w) = ((s\<lparr>au_sessionOnly := b\<rparr>, w), [])"
| "auth_update AuSave (s, w) = ((s, setToken (au_token s) (au_sessionOnly s) w), [everything_stale])"
| "auth_update AuClear (s, w) = ((s\<lparr>au_token := [], au_sessionOnly := False\<rparr>, clearToken w), [everything_stale])"

definition AuthTokenPanel :: "thrown option \<Rightarrow> auth_state \<Rightarrow> (auth_msg \<Rightarrow> 'm) \<Rightarrow> 'm node list" where
  "AuthTokenPanel error s lift =
     render_if (error = None \<or> isUnauthorizedError error)
       [El ''article'' [cls ''panel form-grid auth-panel'']
          [El ''h2'' [] [Text ko_token_needed],
           El ''p'' []
             [Text ko_token_help1],
           El ''p'' [] [Text ko_token_help2],
           text_input [A ''aria-label'' (js ''API token''), A ''placeholder'' (js ''Bearer token''), A ''type'' (js ''password'')] (au_token s)
             (\<lambda>t. lift (AuToken t)),
           El ''label'' [cls ''checkbox-row'']
             [El ''input'' [A ''type'' (js ''checkbox''), B ''checked'' (au_sessionOnly s), OnCheck ''onChange'' (\<lambda>b. lift (AuSession b))] [],
              Text ko_session_only],
           El ''div'' [cls ''button-row'']
             [El ''button'' [cls ''button'', A ''type'' (js ''button''), On ''onClick'' (lift AuSave)] [Text ko_save_and_retry],
              El ''button'' [cls ''button secondary'', A ''type'' (js ''button''), On ''onClick'' (lift AuClear)] [Text ko_clear_token]]]]"

lemma clicks_AuthTokenPanel:
  "clicks_of (AuthTokenPanel e s lift) = (if e = None \<or> isUnauthorizedError e then [lift AuSave, lift AuClear] else [])"
  by (simp add: AuthTokenPanel_def render_if_def)

text \<open>What the panel shows after a save is what was saved, without the blanks around it; after a removal it
  is empty.\<close>

lemma auth_saved:
  "w \<noteq> None \<Longrightarrow> auth_start (snd (fst (auth_update AuSave (s, w)))) = s\<lparr>au_token := trim (au_token s)\<rparr>"
  "auth_start (snd (fst (auth_update AuClear (s, w)))) = fst (fst (auth_update AuClear (s, w)))"
  by (cases s; auto simp: auth_start_def setToken_def clearToken_def readToken_def readTokenStorageMode_def Let_def
      split: option.split)+

end
