(* ===== verification/Settings.thy ===== *)
theory Settings
  imports Webhooks Auth
begin

section \<open>Settings\<close>

text \<open>
  Models \<^verbatim>\<open>web/src/pages/SettingsPage.tsx\<close> and \<^verbatim>\<open>web/src/components/DevTeamSeedCard.tsx\<close>: the formatting of sizes,
  times and counts, the row that edits the run defaults of a workspace (with its webhooks), the card
  that seeds a team of agents, the maintenance actions and the token form. A row takes the values of
  its workspace when it is mounted.
\<close>

subsection \<open>Formatting\<close>

definition settings_formatTokens :: "int option \<Rightarrow> jstr" where
  "settings_formatTokens v =
     (let n = nullish v 0 in
      if n \<ge> 1000000 then fixed_div n 1000000 2 @ js ''M''
      else if n \<ge> 1000 then fixed_div n 1000 1 @ js ''k''
      else int_str n)"

definition settings_formatCostMicros :: "int option \<Rightarrow> jstr" where
  "settings_formatCostMicros v = js ''$'' @ fixed_div (nullish v 0) 1000000 4"

text \<open>The loop over the units: the scaled size and the unit it has come to.\<close>

fun scale_units :: "dbl \<Rightarrow> string \<Rightarrow> string list \<Rightarrow> dbl \<times> string" where
  "scale_units scaled unit [] = (scaled, unit)"
| "scale_units scaled unit (u # us) = (if dge scaled 1024 1 then scale_units (ddiv scaled 1024) u us else (scaled, unit))"

text \<open>A size is a number read from a text: the division by 1024 is exact on a double, so a fraction
  \<open>m / 10 ^ k\<close> enters it with the rounding of the numeral.\<close>

definition settings_formatBytes :: "js_number \<Rightarrow> jstr" where
  "settings_formatBytes n = (case n of
       NaN \<Rightarrow> js ''NaN KB''
     | Infinite neg \<Rightarrow> (if neg then js ''-Infinity B'' else js ''Infinity TB'')
     | Fin (m, e) \<Rightarrow>
         if m * 10 ^ nat e < 1024 * 10 ^ nat (- e) then dec_str (m, e) @ js '' B''
         else (case scale_units (fdiv (nat m * 10 ^ nat e) (1024 * 10 ^ nat (- e))) ''KB'' [''MB'', ''GB'', ''TB''] of
             (scaled, unit) \<Rightarrow> toFixed scaled 1 @ js '' '' @ js unit))"

definition formatDurationSeconds :: "int option \<Rightarrow> jstr" where
  "formatDurationSeconds v =
     (let seconds = nullish v 0 in
      if seconds \<le> 0 then js ''OFF''
      else
        (let days = seconds div 86400; hours = seconds div 3600 in
         if days \<ge> 1 \<and> seconds mod 86400 = 0 then int_str days @ ko_days
         else if hours \<ge> 1 \<and> seconds mod 3600 = 0 then int_str hours @ ko_hours
         else int_str seconds @ ko_seconds))"

definition formatTimestamp :: "jstr option \<Rightarrow> jstr" where
  "formatTimestamp v =
     (let t = map_option trim v in if \<not> truthy_str t then ko_not_measured else time_stamp (nullish t []) @ js '' UTC'')"

record worktree_stats =
  wk_measuredAt :: jstr
  wk_dirCount :: js_number
  wk_bytes :: js_number
  wk_pruned :: js_number

text \<open>\<^verbatim>\<open>Number(v ?? 0)\<close> of an optional text.\<close>

definition number_or_zero :: "jstr option \<Rightarrow> js_number" where
  "number_or_zero v = (case v of None \<Rightarrow> Fin (0, 0) | Some t \<Rightarrow> Number t)"

definition getWorktreeStats :: "maintenance option \<Rightarrow> worktree_stats" where
  "getWorktreeStats m =
     \<lparr>wk_measuredAt = nullish (map_option trim (Option.bind m mt_worktree_measured_at)) [],
      wk_dirCount = number_or_zero (Option.bind m mt_worktree_dir_count),
      wk_bytes = number_or_zero (Option.bind m mt_worktree_bytes),
      wk_pruned = number_or_zero (Option.bind m mt_worktree_pruned_last_pass)\<rparr>"

definition num_positive :: "js_number \<Rightarrow> bool" where
  "num_positive n = (case n of NaN \<Rightarrow> False | Infinite neg \<Rightarrow> \<not> neg | Fin (m, e) \<Rightarrow> 0 < m)"

definition formatWorktreeUsage :: "maintenance option \<Rightarrow> jstr" where
  "formatWorktreeUsage m =
     (let stats = getWorktreeStats m in
      if wk_measuredAt stats = [] then ko_not_measured
      else if wk_dirCount stats = Fin (0, 0) then ko_all_clean
      else num_str (wk_dirCount stats) @ ko_count_sep @ settings_formatBytes (wk_bytes stats) @
        (if num_positive (wk_pruned stats) then ko_last_gc @ num_str (wk_pruned stats) @ ko_cleaned else []))"

definition formatLastLogCleanup :: "maintenance option \<Rightarrow> jstr" where
  "formatLastLogCleanup m =
     (let t = map_option trim (Option.bind m mt_last_log_cleanup_at) in
      if \<not> truthy_str t then ko_never_run
      else time_stamp (nullish t []) @ ko_utc_files @ num_str (number_or_zero (Option.bind m mt_last_log_cleanup_files)) @
        ko_count_slash @ settings_formatBytes (number_or_zero (Option.bind m mt_last_log_cleanup_bytes)))"

subsection \<open>The row of a workspace\<close>

record row_state =
  rw_timeout :: jstr
  rw_chain :: bool
  rw_depth :: jstr
  rw_runLimit :: jstr
  rw_cost :: jstr
  rw_dryRun :: bool
  rw_autoClose :: bool
  rw_worktree :: bool
  rw_hooks :: webhook_state                     \<comment> \<open>state of \<open>WorkspaceWebhookSection\<close>\<close>

definition row_start :: "workspace \<Rightarrow> row_state" where
  "row_start ws =
     \<lparr>rw_timeout = int_str (nullish (ws_default_timeout_seconds ws) 600), rw_chain = (ws_auto_chain_enabled ws = Some True),
      rw_depth = int_str (nullish (ws_auto_chain_max_depth ws) 5), rw_runLimit = int_str (nullish (ws_auto_chain_daily_run_limit ws) 20),
      rw_cost = fixed_div (nullish (ws_auto_chain_daily_cost_micros ws) 0) 1000000 4,
      rw_dryRun = (ws_auto_chain_dry_run ws = Some True), rw_autoClose = (ws_auto_close_on_run_done ws = Some True),
      rw_worktree = (ws_per_run_worktree ws = Some True), rw_hooks = webhook_start\<rparr>"

text \<open>\<^verbatim>\<open>Math.max(0, Math.round(n * 1_000_000))\<close> of a number that is not NaN: the product of a decimal is exact
  here, and rounded half up. A program's product of a numeral of at most six decimals lies so close to
  an integer that rounding gives the same.\<close>

definition round_dec :: "int \<Rightarrow> int \<Rightarrow> int" where
  "round_dec m e = (if 0 \<le> e then m * 10 ^ nat e else (2 * m + 10 ^ nat (- e)) div (2 * 10 ^ nat (- e)))"

definition cost_micros :: "jstr \<Rightarrow> json" where
  "cost_micros dollars = (case num_or (Number dollars) 0 of
       Fin (m, e) \<Rightarrow> JNum (dec_int (max 0 (round_dec m (e + 6))))
     | Infinite neg \<Rightarrow> (if neg then JNum (dec_int 0) else JNull)
     | NaN \<Rightarrow> JNull)"

definition row_json :: "workspace \<Rightarrow> row_state \<Rightarrow> json" where
  "row_json ws r = jobj
     [(''name'', JStr (ws_name ws)), (''description'', JStr (ws_description ws)), (''working_dir'', JStr (nullish (ws_working_dir ws) [])),
      (''output_dir'', JStr (nullish (ws_output_dir ws) [])),
      (''default_timeout_seconds'', json_num (num_or (Number (rw_timeout r)) 600)),
      (''auto_chain_enabled'', JBool (rw_chain r)),
      (''auto_chain_max_depth'', json_num (num_or (Number (rw_depth r)) 5)),
      (''auto_chain_daily_run_limit'', json_num (num_or (Number (rw_runLimit r)) 0)),
      (''auto_chain_daily_cost_micros'', cost_micros (rw_cost r)),
      (''auto_chain_dry_run'', JBool (rw_dryRun r)), (''auto_close_on_run_done'', JBool (rw_autoClose r)),
      (''per_run_worktree'', JBool (rw_worktree r))]"

datatype row_msg =
    RTimeout jstr | RAutoClose bool | RWorktree bool | RChain bool | RDepth jstr | RRunLimit jstr | RCost jstr | RDryRun bool
  | RSave | RSaved | RHook webhook_msg

fun row_update :: "(jstr \<Rightarrow> bool) \<Rightarrow> workspace \<Rightarrow> row_msg \<Rightarrow> row_state \<Rightarrow> row_state \<times> effect list" where
  "row_update confirm ws (RTimeout t) r = (r\<lparr>rw_timeout := t\<rparr>, [])"
| "row_update confirm ws (RAutoClose b) r = (r\<lparr>rw_autoClose := b\<rparr>, [])"
| "row_update confirm ws (RWorktree b) r = (r\<lparr>rw_worktree := b\<rparr>, [])"
| "row_update confirm ws (RChain b) r = (r\<lparr>rw_chain := b\<rparr>, [])"
| "row_update confirm ws (RDepth t) r = (r\<lparr>rw_depth := t\<rparr>, [])"
| "row_update confirm ws (RRunLimit t) r = (r\<lparr>rw_runLimit := t\<rparr>, [])"
| "row_update confirm ws (RCost t) r = (r\<lparr>rw_cost := t\<rparr>, [])"
| "row_update confirm ws (RDryRun b) r = (r\<lparr>rw_dryRun := b\<rparr>, [])"
| "row_update confirm ws RSave r = (r, [Mutate (CPut (js ''/workspaces/'' @ ws_slug ws) (Some (row_json ws r)))])"
| "row_update confirm ws RSaved r = (r, [Invalidate [kname ''workspaces''], Invalidate [kname ''workspace'', KS (ws_slug ws)]])"
| "row_update confirm ws (RHook m) r =
     (case webhook_update confirm (ws_slug ws) m (rw_hooks r) of (h, fx) \<Rightarrow> (r\<lparr>rw_hooks := h\<rparr>, fx))"

definition check_row :: "bool \<Rightarrow> (bool \<Rightarrow> 'm) \<Rightarrow> jstr \<Rightarrow> 'm node" where
  "check_row b onChange label = El ''label'' [cls ''checkbox-row'']
     [El ''input'' [A ''type'' (js ''checkbox''), B ''checked'' b, OnCheck ''onChange'' onChange] [], Text label]"

definition WorkspaceTimeoutRow :: "mutation \<Rightarrow> webhook_env \<Rightarrow> workspace \<Rightarrow> row_state \<Rightarrow> row_msg node" where
  "WorkspaceTimeoutRow save v ws r =
     (let num = A ''type'' (js ''number''); low = (\<lambda>n. A ''min'' (js n)) in
      El ''section'' [cls ''setting-action workspace-setting-action'']
        ([El ''div'' [cls ''setting-copy'']
            [El ''strong'' [] [Text (ws_name ws)], El ''p'' [] [Text (ws_slug ws), Text ko_row_help]],
          labelled ko_default_timeout [text_input [low ''1'', A ''max'' (js ''86400''), num] (rw_timeout r) RTimeout],
          check_row (rw_autoClose r) RAutoClose ko_auto_close,
          check_row (rw_worktree r) RWorktree ko_per_worktree,
          check_row (rw_chain r) RChain ko_auto_chain,
          El ''div'' [cls ''settings-grid two'']
            [labelled ko_max_depth [text_input [low ''1'', A ''max'' (js ''20''), num] (rw_depth r) RDepth],
             labelled ko_run_limit [text_input [low ''0'', num] (rw_runLimit r) RRunLimit],
             labelled ko_cost_limit
               [text_input [low ''0'', A ''step'' (js ''0.0001''), num] (rw_cost r) RCost],
             check_row (rw_dryRun r) RDryRun ko_dry_run],
          El ''button'' [cls ''button secondary'', A ''type'' (js ''button''), On ''onClick'' RSave, B ''disabled'' (m_pending save)]
            [Text (if m_pending save then ko_saving else ko_save)]] @
         (case m_error save of None \<Rightarrow> [] | Some e \<Rightarrow> [El ''p'' [cls ''error-text''] [Text ko_save_failed, Text (error_message_or ko_unknown_error e)]]) @
         [map_node RHook (WorkspaceWebhookSection v (rw_hooks r))]))"


subsection \<open>The card that seeds a team\<close>

record seed_state =
  sd_slug :: jstr
  sd_workingDir :: jstr

definition seed_start :: seed_state where
  "seed_start = \<lparr>sd_slug = js ''ai-dev-team'', sd_workingDir = []\<rparr>"

record seed_response =
  sr_slug :: jstr
  sr_name :: jstr
  sr_agents :: nat                              \<comment> \<open>length of the list\<close>
  sr_skills :: nat
  sr_assignment_count :: int
  sr_already_had :: bool

datatype seed_msg = SeedSlug jstr | SeedDir jstr | SeedSubmit | Seeded seed_response | SeedFailed thrown

fun seed_update :: "seed_msg \<Rightarrow> seed_state \<Rightarrow> seed_state \<times> effect list" where
  "seed_update (SeedSlug t) s = (s\<lparr>sd_slug := t\<rparr>, [])"
| "seed_update (SeedDir t) s = (s\<lparr>sd_workingDir := t\<rparr>, [])"
| "seed_update SeedSubmit s =
     (s, if trim (sd_slug s) = [] then []
         else [Mutate (CPost (js ''/system/seed-dev-team'')
           (Some (jobj [(''slug'', JStr (trim (sd_slug s))), (''working_dir'', JStr (trim (sd_workingDir s)))])))])"
| "seed_update (Seeded d) s =
     (s, [Invalidate [kname ''workspaces''], Invalidate [kname ''workspace'', KS (sr_slug d)],
          ShowToast Success (sr_name d @ js '' '' @ (if sr_already_had d then ko_reused else ko_created) @ ko_done_suffix)
            (Some (js ''agents='' @ nat_str (sr_agents d) @ js '', skills='' @ nat_str (sr_skills d) @ js '', assignments='' @
               int_str (sr_assignment_count d))),
          Navigate (js ''/w/'' @ sr_slug d @ js ''/board'')])"
| "seed_update (SeedFailed e) s = (s, [ShowToast Error ko_seed_failed (Some (error_message_or ko_unknown_error e))])"

definition DevTeamSeedCard :: "mutation \<Rightarrow> seed_state \<Rightarrow> seed_msg node" where
  "DevTeamSeedCard seed s =
     El ''article'' [cls ''panel settings-card dev-team-seed-card'']
       [El ''div'' []
          [El ''h2'' [] [Text ko_seed_title],
           El ''p'' []
             [Text ko_seed_help1,
              El ''code'' [] [T ''auto_chain_max_depth=8''],
              Text ko_seed_help2]],
        El ''form'' [cls ''form-grid dev-team-seed-card__form'', On ''onSubmit'' SeedSubmit]
          [labelled (js ''Workspace slug'')
             [text_input [A ''type'' (js ''text''), B ''required'' True, A ''placeholder'' (js ''ai-dev-team'')] (sd_slug s) SeedSlug],
           labelled ko_working_dir_label
             [text_input [A ''type'' (js ''text''), A ''placeholder'' (js ''/Users/.../code/myapp'')] (sd_workingDir s) SeedDir],
           El ''button'' [cls ''button'', A ''type'' (js ''submit''), B ''disabled'' (m_pending seed \<or> trim (sd_slug s) = [])]
             [Text (if m_pending seed then ko_creating else ko_seed_button)]]]"

subsection \<open>The page\<close>

record settings_state =
  se_window :: window
  se_message :: jstr
  se_token :: jstr
  se_tokenSessionOnly :: bool
  se_backupPath :: jstr
  se_cleanupDays :: jstr
  se_seed :: seed_state
  se_auth :: auth_state
  se_rows :: "(jstr \<times> row_state) list"       \<comment> \<open>the rows on the page, by the id of their workspace\<close>

definition settings_start :: "window \<Rightarrow> settings_state" where
  "settings_start w =
     \<lparr>se_window = w, se_message = [], se_token = readToken w, se_tokenSessionOnly = (readTokenStorageMode w = ModeSession),
      se_backupPath = [], se_cleanupDays = js ''30'', se_seed = seed_start, se_auth = auth_start w, se_rows = []\<rparr>"

datatype settings_msg =
    WorkspacesShown "workspace list"            \<comment> \<open>the list of workspaces is rendered\<close>
  | AuthShown                                   \<comment> \<open>the token panel is mounted\<close>
  | RowMsg workspace row_msg
  | SeedMsg seed_msg
  | AuthMsg auth_msg
  | SBackupPath jstr | SBackup | SBackupDone jstr int
  | SVacuum | SVacuumDone int
  | SCleanupDays jstr | SCleanup | SCleanupDone int int
  | SToken jstr | SSessionOnly bool | SSaveToken | SClearToken

text \<open>A row is mounted when its workspace first appears, keeps its state while it stays and loses it when it
  goes.\<close>

definition mount_rows :: "workspace list \<Rightarrow> (jstr \<times> row_state) list \<Rightarrow> (jstr \<times> row_state) list" where
  "mount_rows wss rows = map (\<lambda>ws. (ws_id ws, nullish (map_of rows (ws_id ws)) (row_start ws))) wss"

definition row_of :: "settings_state \<Rightarrow> workspace \<Rightarrow> row_state" where
  "row_of s ws = nullish (map_of (se_rows s) (ws_id ws)) (row_start ws)"

definition bytes_of :: "int \<Rightarrow> jstr" where
  "bytes_of n = settings_formatBytes (Fin (dec_int n))"

fun settings_update :: "(jstr \<Rightarrow> bool) \<Rightarrow> settings_msg \<Rightarrow> settings_state \<Rightarrow> settings_state \<times> effect list" where
  "settings_update confirm (WorkspacesShown wss) s = (s\<lparr>se_rows := mount_rows wss (se_rows s)\<rparr>, [])"
| "settings_update confirm AuthShown s = (s\<lparr>se_auth := auth_start (se_window s)\<rparr>, [])"
| "settings_update confirm (RowMsg ws m) s =
     (case row_update confirm ws m (row_of s ws) of
        (r, fx) \<Rightarrow> (s\<lparr>se_rows := map (\<lambda>(i, x). (i, if i = ws_id ws then r else x)) (se_rows s)\<rparr>, fx))"
| "settings_update confirm (SeedMsg m) s = (case seed_update m (se_seed s) of (d, fx) \<Rightarrow> (s\<lparr>se_seed := d\<rparr>, fx))"
| "settings_update confirm (AuthMsg m) s =
     (case auth_update m (se_auth s, se_window s) of ((a, w), fx) \<Rightarrow> (s\<lparr>se_auth := a, se_window := w\<rparr>, fx))"
| "settings_update confirm (SBackupPath t) s = (s\<lparr>se_backupPath := t\<rparr>, [])"
| "settings_update confirm SBackup s =
     (s, [Mutate (CPost (js ''/system/backup'')
        (Some (jobj (if trim (se_backupPath s) \<noteq> [] then [(''to'', JStr (trim (se_backupPath s)))] else []))))])"
| "settings_update confirm (SBackupDone path n) s =
     (s\<lparr>se_message := ko_backup_done @ path @ js '' ('' @ bytes_of n @ js '')''\<rparr>, [])"
| "settings_update confirm SVacuum s = (s, [Mutate (CPost (js ''/system/vacuum'') None)])"
| "settings_update confirm (SVacuumDone n) s = (s\<lparr>se_message := ko_vacuum_done @ bytes_of n @ ko_reclaimed\<rparr>, [])"
| "settings_update confirm (SCleanupDays t) s = (s\<lparr>se_cleanupDays := t\<rparr>, [])"
| "settings_update confirm SCleanup s =
     (s, [Mutate (CPost (js ''/system/cleanup-logs'') (Some (jobj [(''days'', json_num (num_or (Number (se_cleanupDays s)) 30))])))])"
| "settings_update confirm (SCleanupDone files freed) s =
     (s\<lparr>se_message := ko_cleanup_done @ int_str files @ ko_deleted_sep @ bytes_of freed @ ko_reclaimed\<rparr>, [])"
| "settings_update confirm (SToken t) s = (s\<lparr>se_token := t\<rparr>, [])"
| "settings_update confirm (SSessionOnly b) s = (s\<lparr>se_tokenSessionOnly := b\<rparr>, [])"
| "settings_update confirm SSaveToken s =
     (s\<lparr>se_window := setToken (se_token s) (se_tokenSessionOnly s) (se_window s),
        se_message := (if se_tokenSessionOnly s then ko_token_saved_session
                       else ko_token_saved_local)\<rparr>, [everything_stale])"
| "settings_update confirm SClearToken s =
     (s\<lparr>se_window := clearToken (se_window s), se_token := [], se_tokenSessionOnly := False,
        se_message := ko_token_deleted\<rparr>, [everything_stale])"

record settings_env =
  sv_settings :: "settings_response query_result"
  sv_workspaces :: "workspace list query_result"
  sv_usage30d :: "usage_summary query_result"
  sv_seed :: mutation
  sv_backup :: mutation
  sv_vacuum :: mutation
  sv_cleanup :: mutation
  sv_saveRow :: "jstr \<Rightarrow> mutation"            \<comment> \<open>of the row of a workspace\<close>
  sv_hooks :: "jstr \<Rightarrow> webhook_env"           \<comment> \<open>of the section of a workspace\<close>

definition detail_list :: "(jstr \<times> jstr) list \<Rightarrow> 'm node" where
  "detail_list rows =
     El ''dl'' [cls ''detail-list settings-detail-list''] (concat (map (\<lambda>(t, d). [El ''dt'' [] [Text t], El ''dd'' [] [Text d]]) rows))"

definition setting_copy :: "jstr \<Rightarrow> jstr \<Rightarrow> 'm node" where
  "setting_copy title text = El ''div'' [cls ''setting-copy''] [El ''strong'' [] [Text title], El ''p'' [] [Text text]]"

definition WorktreeMaintenanceCard :: "maintenance option \<Rightarrow> 'm node" where
  "WorktreeMaintenanceCard m =
     (let stats = getWorktreeStats m; measured = wk_measuredAt stats \<noteq> []; gc = Option.bind m mt_worktree_gc_after_seconds;
          interval = map_option mt_interval_seconds m
      in El ''section'' [cls ''setting-action'']
        [setting_copy ko_worktree_title
           ko_worktree_desc,
         detail_list
           [(ko_current_usage, if measured then num_str (wk_dirCount stats) @ ko_dirs_sep @ settings_formatBytes (wk_bytes stats) else ko_not_measured),
            (ko_last_measured, formatTimestamp (Option.bind m mt_worktree_measured_at)),
            (ko_last_gc_result, if measured then num_str (wk_pruned stats) @ ko_dirs_cleaned else ko_never_run),
            (ko_gc_policy, if truthy_num gc then formatDurationSeconds gc @ ko_gc_on
               else ko_gc_off),
            (ko_period, if truthy_num interval then js ''maintenance interval '' @ formatDurationSeconds interval else ko_server_default)]])"

definition UsageCard :: "jstr \<Rightarrow> usage_summary option \<Rightarrow> bool \<Rightarrow> 'm node" where
  "UsageCard title usage loading =
     El ''section'' [cls ''setting-action'']
       [setting_copy title
          (if loading then ko_aggregating
           else ko_measured_run @ int_str (nullish (map_option us_measured_run_count usage) 0) @ js ''/'' @
             int_str (nullish (map_option us_run_count usage) 0)),
        detail_list
          [(js ''Input'', settings_formatTokens (map_option us_input_tokens usage)),
           (js ''Output'', settings_formatTokens (map_option us_output_tokens usage)),
           (js ''Total'', settings_formatTokens (map_option us_total_tokens usage)),
           (js ''Cost'', settings_formatCostMicros (map_option us_total_cost_micros usage))]]"


text \<open>The server's settings as the page lists them.\<close>

definition runtime_text :: "runtime_info \<Rightarrow> jstr" where
  "runtime_text r = rt_name r @ (if rt_version r \<noteq> [] then js '' ('' @ rt_version r @ js '')'' else []) @
     (if truthy_str (rt_warning r) then ko_middot @ nullish (rt_warning r) [] else [])"

definition server_rows :: "settings_response query_result \<Rightarrow> (jstr \<times> jstr) list" where
  "server_rows q =
     (let data = qr_data q; usage = Option.bind data st_usage_7d; m = Option.bind data st_maintenance;
          runtimes = nullish (map_option st_available_runtimes data) [];
          measured = map_option us_measured_run_count usage; gc = Option.bind m mt_worktree_gc_after_seconds;
          failures = Option.bind data st_migration_fail_count
      in
       [(ko_state, if qr_isLoading q then ko_checking else if qr_isError q then ko_api_waiting else ko_connected),
        (ko_version, nullish (map_option st_version data) (js ''-'')),
        (ko_data_dir, nullish (map_option st_data_dir data) (js ''-'')),
        (ko_theme, ko_theme_help),
        (ko_timezone, nullish (map_option st_timezone data) (js ''Asia/Seoul'')),
        (js ''Worker'', int_str (nullish (map_option st_worker_pool_size data) 3)),
        (ko_auth, nullish (map_option st_auth_mode data) (js ''none'')),
        (ko_runtime_ko, if runtimes \<noteq> [] then join (js '', '') (map runtime_text runtimes) else ko_no_runtime),
        (ko_tokens7, settings_formatTokens (map_option us_total_tokens usage) @
           (if truthy_num measured
            then ko_measured_sep @ int_str (nullish measured 0) @ js ''/'' @ int_str (nullish (map_option us_run_count usage) 0)
            else ko_measured_none)),
        (ko_cost7, settings_formatCostMicros (map_option us_total_cost_micros usage)),
        (ko_auto_backup, if map_option mt_auto_backup m = Some True
           then ko_backup_keep @ int_str (nullish (map_option mt_auto_backup_keep m) 0) @ ko_keep_suffix else js ''OFF''),
        (ko_auto_cleanup, if truthy_num (map_option mt_auto_cleanup_log_days m)
           then int_str (nullish (map_option mt_auto_cleanup_log_days m) 0) @ ko_days_over else js ''OFF''),
        (ko_last_cleanup, formatLastLogCleanup m),
        (ko_worktree_disk, formatWorktreeUsage m),
        (js ''worktree GC'', if truthy_num gc then formatDurationSeconds gc @ ko_gc_on
           else ko_gc_off2),
        (ko_migration_fail, if truthy_num failures
           then int_str (nullish failures 0) @ ko_migration_suffix else ko_none_ko)])"

definition failure_section :: "migration_failure \<Rightarrow> 'm node" where
  "failure_section f =
     El ''section'' [cls ''setting-action'']
       [El ''div'' [cls ''setting-copy'']
          [El ''strong'' [] [Text (int_str (mf_version f)), Text ko_middot, Text (mf_name f)], El ''p'' [] [Text (mf_failed_at f)]],
        El ''code'' [cls ''settings-code''] [Text (mf_error f)]]"

definition operations_card :: "settings_env \<Rightarrow> settings_state \<Rightarrow> settings_msg node" where
  "operations_card v s =
     (let btn = (\<lambda>m act busy label. El ''button'' [cls ''button secondary'', A ''type'' (js ''button''), On ''onClick'' act, B ''disabled'' (m_pending m)]
            [Text (if m_pending m then busy else label)])
      in El ''article'' [cls ''panel settings-card'']
        ([El ''div'' [cls ''section-heading'']
            [El ''div'' [] [El ''h2'' [] [Text ko_operations], El ''p'' [] [Text ko_operations_desc]]],
          El ''div'' [cls ''settings-grid'']
            [El ''section'' [cls ''setting-action'']
               [setting_copy ko_db_backup ko_backup_desc,
                text_input [A ''placeholder'' ko_backup_path] (se_backupPath s) SBackupPath,
                btn (sv_backup v) SBackup ko_backing_up ko_db_backup],
             El ''section'' [cls ''setting-action'']
               [setting_copy (js ''DB Vacuum'') ko_vacuum_desc,
                btn (sv_vacuum v) SVacuum ko_cleaning (js ''Vacuum'')],
             El ''section'' [cls ''setting-action'']
               [setting_copy ko_log_cleanup ko_cleanup_desc,
                labelled ko_keep_days [text_input [A ''min'' (js ''1''), A ''type'' (js ''number'')] (se_cleanupDays s) SCleanupDays],
                btn (sv_cleanup v) SCleanup ko_cleaning ko_log_clean]]] @
         render_if (se_message s \<noteq> []) [El ''p'' [cls ''settings-message''] [Text (se_message s)]]))"

definition token_card :: "settings_state \<Rightarrow> settings_msg node" where
  "token_card s =
     El ''article'' [cls ''panel settings-card form-grid'']
       [El ''div'' []
          [El ''h2'' [] [Text ko_api_token],
           El ''p'' []
             [Text ko_token_desc]],
        labelled (js ''Bearer token'')
          [text_input [A ''placeholder'' (js ''Bearer token''), A ''type'' (js ''password'')] (se_token s) SToken],
        check_row (se_tokenSessionOnly s) SSessionOnly ko_session_only2,
        El ''div'' [cls ''settings-grid two'']
          [El ''section'' [cls ''setting-action compact-action'']
             [setting_copy ko_save_token ko_save_token_desc,
              El ''button'' [cls ''button'', A ''type'' (js ''button''), On ''onClick'' SSaveToken] [Text ko_save_token]],
           El ''section'' [cls ''setting-action compact-action'']
             [setting_copy ko_clear_token ko_clear_token_desc,
              El ''button'' [cls ''button secondary'', A ''type'' (js ''button''), On ''onClick'' SClearToken] [Text ko_clear_token]]]]"

definition SettingsPage :: "settings_env \<Rightarrow> settings_state \<Rightarrow> settings_msg node" where
  "SettingsPage v s =
     (let q = sv_settings v; data = qr_data q; failures = nullish (Option.bind data st_migration_failures) [];
          unauthorized = isUnauthorizedError (qr_error q); wss = nullish (qr_data (sv_workspaces v)) [];
          heading = (\<lambda>h p. El ''div'' [] [El ''h2'' [] [Text h], El ''p'' [] [Text p]])
      in El ''section'' [cls ''page-stack'']
        ([PageHeader (Some ko_global) ko_settings_title
            ko_settings_desc [],
          map_node SeedMsg (DevTeamSeedCard (sv_seed v) (se_seed s)),
          El ''article'' [cls ''panel settings-card read-only-note'']
            [heading ko_server_settings
               ko_server_desc,
             detail_list (server_rows q), WorktreeMaintenanceCard (Option.bind data st_maintenance)],
          El ''article'' [cls ''panel settings-card read-only-note'']
            [heading ko_usage_title
               ko_usage_desc,
             El ''div'' [cls ''settings-grid two'']
               [UsageCard ko_last7 (Option.bind data st_usage_7d) False,
                UsageCard ko_last30 (qr_data (sv_usage30d v)) (qr_isLoading (sv_usage30d v))]]] @
         render_if (failures \<noteq> [])
           [El ''article'' [cls ''panel settings-card read-only-note'']
              [heading ko_migration_title
                 ko_migration_desc,
               El ''div'' [cls ''settings-grid''] (map failure_section failures)]] @
         [El ''article'' [cls ''panel settings-card'']
            [El ''div'' [cls ''section-heading'']
               [heading ko_ws_defaults ko_ws_defaults_desc],
             El ''div'' [cls ''settings-grid two'']
               (if wss \<noteq> []
                then map (\<lambda>ws. map_node (RowMsg ws) (WorkspaceTimeoutRow (sv_saveRow v (ws_id ws)) (sv_hooks v (ws_slug ws)) ws (row_of s ws))) wss
                else [El ''p'' [] [Text ko_ws_none]])],
          operations_card v s] @
         render_if unauthorized (AuthTokenPanel (qr_error q) (se_auth s) AuthMsg) @
         render_if (\<not> unauthorized) [token_card s]))"


subsection \<open>Limits and numbers read back\<close>

lemma round_dec_mk_dec: "0 \<le> k \<Longrightarrow> 0 \<le> e \<Longrightarrow> (case mk_dec k (- e) of (m, x) \<Rightarrow> round_dec m (x + e + j)) = k * 10 ^ j" for j :: nat
proof -
  assume k: "0 \<le> k" "0 \<le> e"
  show ?thesis
  proof (cases "k = 0")
    case True
    then show ?thesis by (auto simp: mk_dec_def strip10.simps round_dec_def)
  next
    case False
    obtain a b where ab: "strip10 (nat \<bar>k\<bar>) (- e) = (a, b)" by fastforce
    have "- e \<le> b" and v: "nat \<bar>k\<bar> = a * 10 ^ nat (b + e)" using strip10_val [OF ab] False by auto
    then have "int a * 10 ^ nat (b + e) = k" using k by (metis abs_of_nonneg int_nat_eq of_nat_mult of_nat_numeral of_nat_power)
    moreover have "mk_dec k (- e) = (int a, b)" using ab False k by (simp add: mk_dec_def sgn_if)
    moreover have "nat (b + e + int j) = nat (b + e) + j" using \<open>- e \<le> b\<close> by (simp add: nat_add_distrib)
    ultimately show ?thesis using \<open>- e \<le> b\<close> by (simp add: round_dec_def power_add)
  qed
qed

text \<open>What is sent for a cost limit is its value at four decimals.\<close>

lemma cost_sent:
  assumes "0 \<le> c"
  shows "cost_micros (fixed_div c 1000000 4) = JNum (dec_int (100 * int (fixed_units (fdiv (nat c) 1000000) 4)))"
proof -
  define k where "k = int (fixed_units (fdiv (nat c) 1000000) 4)"
  obtain m x where mx: "mk_dec k (- 4) = (m, x)" by fastforce
  have num: "Number (fixed_div c 1000000 4) = Fin (m, x)"
    using assms mx Number_toFixed [of 4 "fdiv (nat c) 1000000"] by (simp add: fixed_div_def k_def)
  have r: "round_dec m (x + 6) = 100 * k" using round_dec_mk_dec [of k 4 2] mx by (simp add: k_def algebra_simps)
  show ?thesis
  proof (cases "(m, x) = (0, 0)")
    case True
    then have "k = 0" using r by (simp add: round_dec_def)
    then show ?thesis using True num by (simp add: cost_micros_def num_or_def num_truthy_def mk_dec_def strip10.simps round_dec_def k_def)
  next
    case False
    moreover have "0 \<le> 100 * k" by (simp add: k_def)
    ultimately show ?thesis using num r by (simp add: cost_micros_def num_or_def num_truthy_def k_def)
  qed
qed

lemma cost_rounded:
  assumes "0 \<le> c" "c < 10 ^ 15"
  shows "\<bar>100 * int (fixed_units (fdiv (nat c) 1000000) 4) - c\<bar> \<le> 50"
proof -
  let ?u = "fixed_units (fdiv (nat c) 1000000) 4"
  have "\<bar>real ?u / 10 ^ 4 - real (nat c) / real 1000000\<bar> \<le> 1 / (2 * 10 ^ 4) + real (nat c) / real 1000000 / 2 ^ 53"
    by (rule toFixed_error) simp
  then have "\<bar>100 * real ?u - real (nat c)\<bar> \<le> 50 + real (nat c) / 2 ^ 53" by (simp add: abs_le_iff field_simps)
  moreover have "real (nat c) < 10 ^ 15" using assms by (simp add: nat_less_real_le)
  then have "real (nat c) / 2 ^ 53 < 1" by simp
  ultimately have "\<bar>100 * real ?u - real (nat c)\<bar> < 51" by linarith
  then have "\<bar>real_of_int (100 * int ?u - c)\<bar> < 51" using assms(1) by simp
  then show ?thesis by linarith
qed

lemma saved_number: "\<bar>n\<bar> < 10 ^ 21 \<Longrightarrow> n \<noteq> 0 \<or> d = 0 \<Longrightarrow> json_num (num_or (Number (int_str n)) d) = JNum (dec_int n)"
proof -
  assume n: "\<bar>n\<bar> < 10 ^ 21" "n \<noteq> 0 \<or> d = 0"
  have "dec_int n = (0, 0) \<Longrightarrow> n = 0"
  proof -
    assume "dec_int n = (0, 0)"
    then have "dec_str (dec_int n) = dec_str (dec_int 0)" by (simp add: mk_dec_def strip10.simps)
    then show "n = 0" using n(1) by (simp add: dec_str_int)
  qed
  then show ?thesis using n by (auto simp: timeout_read_back num_or_def num_truthy_def json_num_def)
qed


definition sample_workspace :: workspace where
  "sample_workspace =
     \<lparr>ws_id = js ''w1'', ws_slug = js ''w'', ws_name = js ''W'', ws_description = [], ws_identifier_prefix = js ''W'', ws_working_dir = None,
      ws_output_dir = None, ws_default_timeout_seconds = Some 900, ws_auto_chain_enabled = Some True, ws_auto_chain_max_depth = Some 8,
      ws_auto_chain_daily_run_limit = Some 0, ws_auto_chain_daily_cost_micros = Some 12345, ws_auto_chain_dry_run = None,
      ws_auto_close_on_run_done = Some False, ws_per_run_worktree = None, ws_agent_count = None, ws_open_issue_count = None\<rparr>"



subsection \<open>Sizes\<close>

lemma bytes_of_int:
  assumes "0 \<le> n"
  shows "settings_formatBytes (Fin (dec_int n)) =
     (if n < 1024 then int_str n @ js '' B''
      else (case scale_units (fdiv (nat n) 1024) ''KB'' [''MB'', ''GB'', ''TB''] of
          (scaled, unit) \<Rightarrow> toFixed scaled 1 @ js '' '' @ js unit))"
proof (cases "n = 0")
  case True
  then show ?thesis by (simp add: settings_formatBytes_def mk_dec_def strip10.simps dec_str.simps int_str_def nat_str.simps)
next
  case False
  obtain a b where ab: "strip10 (nat n) 0 = (a, b)" by fastforce
  have b: "0 \<le> b" and v: "nat n = a * 10 ^ nat b" using strip10_val [OF ab] False assms by auto
  have d: "dec_int n = (int a, b)" using False assms ab by (simp add: mk_dec_def sgn_if)
  have "int a * 10 ^ nat b = n" using v assms by (metis int_nat_eq of_nat_mult of_nat_numeral of_nat_power)
  moreover have "n < 1024 \<Longrightarrow> dec_str (int a, b) = int_str n" using dec_str_int [of n] assms by (simp add: d)
  ultimately show ?thesis using b v by (simp add: settings_formatBytes_def d)
qed

definition byte_units :: "string list" where
  "byte_units = [''KB'', ''MB'', ''GB'', ''TB'']"

text \<open>The quotient after a number of divisions, and the unit a size belongs to.\<close>

fun in_units :: "nat \<Rightarrow> int \<Rightarrow> dbl" where
  "in_units 0 n = fdiv (nat n) 1024"
| "in_units (Suc i) n = ddiv (in_units i n) 1024"

definition byte_unit :: "int \<Rightarrow> nat" where
  "byte_unit n = (if n < 1024 ^ 2 then 0 else if n < 1024 ^ 3 then 1 else if n < 1024 ^ 4 then 2 else 3)"

lemma in_units_value:
  assumes "0 < n" "n < 2 ^ 53"
  shows "dval (in_units i n) = n / 1024 ^ Suc i \<and> small (in_units i n)"
proof (induction i)
  case 0
  then show ?case using assms fdiv_1024 [of "nat n"] by (simp add: nat_less_iff)
next
  case (Suc i)
  then show ?case using ddiv_1024 [of "in_units i n"] by simp
qed

lemma bytes_in_unit:
  assumes "0 < n" "n < 2 ^ 53"
  shows "settings_formatBytes (Fin (dec_int n)) =
     (if n < 1024 then int_str n @ js '' B'' else toFixed (in_units (byte_unit n) n) 1 @ js '' '' @ js (byte_units ! byte_unit n))"
proof -
  have ge: "dge (in_units i n) 1024 1 \<longleftrightarrow> 1024 ^ (i + 2) \<le> n" for i
  proof -
    have "dge (in_units i n) 1024 1 \<longleftrightarrow> 1024 * 1024 ^ Suc i \<le> real_of_int n"
      unfolding dge_dval using in_units_value [OF assms, of i] by (simp add: pos_le_divide_eq)
    also have "\<dots> \<longleftrightarrow> 1024 ^ (i + 2) \<le> n" by (metis add_2_eq_Suc' of_int_le_iff of_int_numeral of_int_power power_Suc)
    finally show ?thesis .
  qed
  show ?thesis
    using ge [of 0] ge [of 1] ge [of 2] assms(1) by (auto simp: bytes_of_int byte_unit_def byte_units_def numeral_2_eq_2 numeral_3_eq_3)
qed

text \<open>C36: A size is shown in the unit it belongs to: below 1024 in bytes, exactly; above, with one decimal in the
  unit in which its value is at least 1 and, but for the last unit, below 1024, the value being
  exact before it is rounded for display. Up to a gigabyte the settings page and the issue page show
  the same text, and the two show the same text for every number of tokens. (Sizes below 2 ^ 53.)\<close>

theorem size_in_its_unit:
  assumes "0 < n" "n < 2 ^ 53"
  shows "(n < 1024 \<longrightarrow> settings_formatBytes (Fin (dec_int n)) = int_str n @ js '' B'') \<and>
    (1024 \<le> n \<longrightarrow> (\<exists>x i. i < 4 \<and> settings_formatBytes (Fin (dec_int n)) = toFixed x 1 @ js '' '' @ js (byte_units ! i) \<and>
       dval x = n / 1024 ^ (i + 1) \<and> 1 \<le> dval x \<and> (i < 3 \<longrightarrow> dval x < 1024))) \<and>
    (n < 1024 ^ 3 \<longrightarrow> settings_formatBytes (Fin (dec_int n)) = formatBytes n) \<and>
    settings_formatTokens (Some n) = detail_formatTokens n"
proof -
  have u: "byte_unit n < 4" "1024 \<le> n \<longrightarrow> 1024 ^ (byte_unit n + 1) \<le> n" "byte_unit n < 3 \<longrightarrow> n < 1024 ^ (byte_unit n + 2)"
    by (simp_all add: byte_unit_def)
  have x: "dval (in_units (byte_unit n) n) = n / 1024 ^ (byte_unit n + 1)" using in_units_value [OF assms] by simp
  have "1024 \<le> n \<Longrightarrow> 1 \<le> dval (in_units (byte_unit n) n)"
    using u(2) unfolding x by (simp only: pos_le_divide_eq zero_less_power zero_less_numeral) (metis mult_1 of_int_le_iff of_int_numeral of_int_power)
  moreover have "byte_unit n < 3 \<Longrightarrow> dval (in_units (byte_unit n) n) < 1024"
    using u(3) unfolding x by (simp add: pos_divide_less_eq) (metis of_int_less_iff of_int_mult of_int_numeral of_int_power)
  ultimately have "1024 \<le> n \<longrightarrow> (\<exists>x i. i < 4 \<and> settings_formatBytes (Fin (dec_int n)) = toFixed x 1 @ js '' '' @ js (byte_units ! i) \<and>
       dval x = n / 1024 ^ (i + 1) \<and> 1 \<le> dval x \<and> (i < 3 \<longrightarrow> dval x < 1024))"
    using bytes_in_unit [OF assms] u(1) x by (intro impI exI [of _ "in_units (byte_unit n) n"] exI [of _ "byte_unit n"]) simp
  moreover have "n < 1024 ^ 3 \<longrightarrow> settings_formatBytes (Fin (dec_int n)) = formatBytes n"
    using assms by (simp add: bytes_in_unit byte_unit_def byte_units_def formatBytes_def fixed_div_def js_def)
  ultimately show ?thesis using bytes_in_unit [OF assms] by (simp add: settings_formatTokens_def detail_formatTokens_def Let_def)
qed

theorem size_in_its_unit_witness:
  "settings_formatBytes (Fin (dec_int 1023)) = js ''1023 B'' \<and>
   (\<exists>x. settings_formatBytes (Fin (dec_int 1572864)) = toFixed x 1 @ js '' MB'' \<and> dval x = 3 / 2)"
proof -
  have "int_str 1023 = js ''1023''" by (simp add: num_eval)
  then have b: "settings_formatBytes (Fin (dec_int 1023)) = js ''1023 B''"
    using size_in_its_unit [of 1023] by (simp add: js_def)
  have "(0 :: int) < 1572864" "(1572864 :: int) < 2 ^ 53" by simp_all
  note t = size_in_its_unit [OF this, THEN conjunct2, THEN conjunct1, THEN mp]
  have "(1024 :: int) \<le> 1572864" by simp
  from t [OF this] obtain x i where x: "i < 4" "settings_formatBytes (Fin (dec_int 1572864)) = toFixed x 1 @ js '' '' @ js (byte_units ! i)"
      "dval x = real_of_int 1572864 / 1024 ^ (i + 1)" "1 \<le> dval x" "i < 3 \<longrightarrow> dval x < 1024"
    by blast
  consider "i = 0" | "i = 1" | "i = 2" | "i = 3" using x(1) by linarith
  then have "i = 1" using x by cases simp_all
  with x b show ?thesis by (intro conjI exI [of _ x]) (simp_all add: byte_units_def js_def)
qed

end
