(* ===== verification/Activity.thy ===== *)
theory Activity
  imports Auth
begin

section \<open>Who is busy: the activity strip, the team, the home page\<close>

text \<open>
  Models \<^verbatim>\<open>web/src/components/WorkspaceActivityStrip.tsx\<close>, \<^verbatim>\<open>web/src/components/TeamPulseWidget.tsx\<close> and
  \<^verbatim>\<open>web/src/pages/HomePage.tsx\<close>. The strip and the team widget show what polled queries returned last; the
  home page puts them beside the numbers of the current workspace, which the layout hands it.
\<close>

subsection \<open>The activity strip\<close>

definition strip_elapsed :: "platform \<Rightarrow> jstr option \<Rightarrow> jstr" where
  "strip_elapsed E stamp =
     (if \<not> truthy_str stamp then []
      else case date_ms E (nullish stamp []) of
        None \<Rightarrow> []
      | Some start \<Rightarrow>
          (let elapsed = max 0 (now_ms E - start); s = elapsed div 1000; m = s div 60; h = m div 60 in
           if s < 60 then int_str s @ ko_seconds
           else if m < 60 then int_str m @ ko_minute_sp @ int_str (s mod 60) @ ko_seconds
           else int_str h @ ko_hour_sp @ int_str (m mod 60) @ ko_minutes_only))"

definition only_execution :: "exec_status \<Rightarrow> nat \<Rightarrow> issues_query_params" where
  "only_execution ex n = \<lparr>qp_status = None, qp_execution = Some (Some ex), qp_assignee = None, qp_q = None, qp_limit = Some n\<rparr>"

definition review_params :: issues_query_params where
  "review_params = (only_execution EDone 5)\<lparr>qp_status := Some (Some IOpen)\<rparr>"

definition strip_queries :: "jstr option \<Rightarrow> query list" where
  "strip_queries slug =
     [useIssuesQuery slug (only_execution ERunning 1), useIssuesQuery slug (only_execution EQueued 1), useIssuesQuery slug review_params]"

record strip_env =
  te_running :: "issue list query_result"
  te_queued :: "issue list query_result"
  te_review :: "issue list query_result"

definition first_of :: "'a list query_result \<Rightarrow> 'a option" where
  "first_of q = (case qr_data q of Some (x # xs) \<Rightarrow> Some x | _ \<Rightarrow> None)"

definition review_pending :: "strip_env \<Rightarrow> issue list" where
  "review_pending v = filter (\<lambda>i. issue_comment_count i > 0) (nullish (qr_data (te_review v)) [])"

definition issue_link :: "jstr \<Rightarrow> jstr \<Rightarrow> jstr" where
  "issue_link slug identifier = js ''/w/'' @ slug @ js ''/issues/'' @ identifier"

definition strip_frame :: "string \<Rightarrow> string \<Rightarrow> jstr option \<Rightarrow> 'm node list \<Rightarrow> 'm node list \<Rightarrow> 'm node" where
  "strip_frame kind dot to copy extra =
     El (if to = None then ''div'' else ''a'')
       ([A ''class'' (js ''activity-strip '' @ js kind)] @ attr_opt ''href'' to @ [A ''aria-live'' (js ''polite'')])
       ([El ''span'' [A ''class'' (js ''activity-dot '' @ js dot), A ''aria-hidden'' (js ''true'')] [],
         El ''div'' [cls ''activity-copy''] copy] @ extra)"

definition WorkspaceActivityStrip :: "platform \<Rightarrow> jstr option \<Rightarrow> strip_env \<Rightarrow> 'm node list" where
  "WorkspaceActivityStrip E slug_arg v =
     (if \<not> truthy_str slug_arg then []
      else
        (let slug = nullish slug_arg []; running = first_of (te_running v); queued = first_of (te_queued v);
             reviewPending = review_pending v
         in if running = None \<and> queued = None \<and> reviewPending = [] then
              [strip_frame ''idle'' ''idle'' None
                 [El ''strong'' [] [T ''Idle''], El ''small'' [] [Text ko_no_work]] []]
            else if running = None \<and> queued = None \<and> reviewPending \<noteq> [] then
              (let first = hd reviewPending in
               [strip_frame ''review-pending'' ''review'' (Some (issue_link slug (issue_identifier first)))
                  [El ''strong'' [] [Text ko_review_wait_sp,
                     Text (if length reviewPending > 1 then nat_str (length reviewPending) @ ko_cases else [])],
                   El ''small'' [] [Text (issue_identifier first), Text ko_dot_at, Text (oor_str (issue_last_run_agent_name first) ko_agent),
                     Text ko_review_needed]] []])
            else case running of
              Some r \<Rightarrow>
                [strip_frame ''running'' ''running'' (Some (issue_link slug (issue_identifier r)))
                   [El ''strong'' [] [Text ko_cycle_at,
                      Text (oor_str (oor (issue_last_run_agent_name r) (issue_assignee_agent_name r)) ko_agent), Text ko_sp_running],
                    El ''small'' [] [Text (issue_identifier r), Text ko_middot, Text (strip_elapsed E (issue_updated_at r)), Text ko_sp_elapsed]]
                   (case queued of None \<Rightarrow> [] | Some q \<Rightarrow> [El ''span'' [cls ''activity-next''] [Text ko_next_sp, Text (issue_identifier q)]])]
            | None \<Rightarrow>
                (case queued of
                   Some q \<Rightarrow>
                     [strip_frame ''queued'' ''queued'' (Some (issue_link slug (issue_identifier q)))
                        [El ''strong'' [] [Text ko_hourglass_waiting],
                         El ''small'' [] [Text (issue_identifier q), Text ko_dot_at, Text (oor_str (issue_assignee_agent_name q) ko_agent),
                           Text ko_sp_waiting]] []]
                 | None \<Rightarrow> [])))"

subsection \<open>The team\<close>

definition dotClass :: "jstr option \<Rightarrow> jstr" where
  "dotClass status =
     (if status \<in> {Some (js ''running''), Some (js ''queued''), Some (js ''failed''), Some (js ''cancelled''), Some (js ''done'')}
      then nullish status [] else js ''idle'')"

definition pulse_label :: "jstr option \<Rightarrow> jstr" where
  "pulse_label status =
     (if status = Some (js ''running'') then ko_st_running
      else if status = Some (js ''queued'') then ko_st_queued
      else if status = Some (js ''done'') then ko_st_done
      else if status = Some (js ''failed'') then ko_st_failed
      else if status = Some (js ''cancelled'') then ko_st_cancelled
      else ko_nothing_waiting)"

definition pulse_relativeTime :: "platform \<Rightarrow> jstr option \<Rightarrow> jstr" where
  "pulse_relativeTime E stamp =
     (if \<not> truthy_str stamp then []
      else case date_ms E (nullish stamp []) of
        None \<Rightarrow> []
      | Some t \<Rightarrow>
          (let s = max 0 (round_div (now_ms E - t) 1000); m = s div 60; h = m div 60 in
           if s < 60 then int_str s @ ko_sec_ago
           else if m < 60 then int_str m @ ko_min_ago
           else if h < 24 then int_str h @ ko_hours_ago
           else int_str (h div 24) @ ko_days_ago))"

definition pulse_rank :: "jstr option \<Rightarrow> int" where
  "pulse_rank s =
     (if s = Some (js ''running'') then 0
      else if s = Some (js ''queued'') then 1
      else if s = Some (js ''failed'') then 2
      else if s = Some (js ''done'') then 3
      else 4)"

definition sortPriority :: "platform \<Rightarrow> agent_activity \<Rightarrow> agent_activity \<Rightarrow> int" where
  "sortPriority E a b =
     (let ord = pulse_rank (aa_latest_run_status a) - pulse_rank (aa_latest_run_status b) in
      if ord \<noteq> 0 then ord
      else localeCompare E (oor_str (aa_latest_run_enqueued_at b) []) (oor_str (aa_latest_run_enqueued_at a) []))"

definition pulse_items :: "platform \<Rightarrow> agent_activity list query_result \<Rightarrow> agent_activity list" where
  "pulse_items E q = js_sort (sortPriority E) (nullish (qr_data q) [])"

definition pulse_row :: "platform \<Rightarrow> jstr \<Rightarrow> agent_activity \<Rightarrow> 'm node" where
  "pulse_row E slug a =
     El ''li'' [A ''class'' (js ''team-pulse-row pulse-'' @ dotClass (aa_latest_run_status a))]
       [El ''span'' [A ''class'' (js ''team-pulse-dot pulse-'' @ dotClass (aa_latest_run_status a)), A ''aria-hidden'' (js ''true'')] [],
        El ''span'' [cls ''team-pulse-name'']
          (El ''strong'' [] [T ''@'', Text (aa_agent_name a)] # render_if (aa_is_main a) [El ''span'' [cls ''badge muted''] [T ''main'']]),
        El ''span'' [cls ''team-pulse-state'']
          (Text (pulse_label (aa_latest_run_status a)) #
           render_if (truthy_str (aa_latest_issue_identifier a))
             [El ''a'' [cls ''team-pulse-issue'', A ''href'' (issue_link slug (nullish (aa_latest_issue_identifier a) []))]
                [Text (nullish (aa_latest_issue_identifier a) [])]]),
        El ''span'' [cls ''team-pulse-time'']
          [Text (pulse_relativeTime E (oor (aa_latest_run_finished_at a) (aa_latest_run_enqueued_at a)))]]"

definition TeamPulseWidget :: "platform \<Rightarrow> jstr option \<Rightarrow> agent_activity list query_result \<Rightarrow> 'm node list" where
  "TeamPulseWidget E slug q =
     (let items = pulse_items E q in
      if \<not> truthy_str slug then []
      else [El ''article'' [cls ''panel team-pulse-card'']
        [El ''div'' [cls ''section-heading compact'']
           [El ''div'' []
              [El ''h2'' [] [Text ko_team_activity],
               El ''p'' [] [Text (if qr_isLoading q then ko_aggregating_dots else nat_str (length items) @ ko_polling5)]]],
         if items = [] then El ''p'' [cls ''muted-copy''] [Text ko_no_agents]
         else El ''ul'' [cls ''team-pulse-list''] (map (pulse_row E (nullish slug [])) items)]])"


subsection \<open>The home page\<close>

text \<open>What the layout hands to the page below it (\<^verbatim>\<open>DashboardOutletContext\<close>).\<close>

record outlet_context =
  oc_current :: "workspace option"
  oc_workspaces :: "workspace list"
  oc_loading :: bool
  oc_error :: "thrown option"

record home_env =
  hv_health :: "health_response query_result"
  hv_context :: outlet_context
  hv_issues :: "issue list query_result"
  hv_activity :: "agent_activity list query_result"

record home_state =
  hs_expanded :: bool
  hs_auth :: auth_state
  hs_window :: window

datatype home_msg = HomeExpand | HomeCreate | HomeAuth auth_msg

definition home_start :: "window \<Rightarrow> home_state" where
  "home_start w = \<lparr>hs_expanded = False, hs_auth = auth_start w, hs_window = w\<rparr>"

text \<open>The new state, the effects, and whether \<^verbatim>\<open>openCreateWorkspace\<close> is called.\<close>

fun home_update :: "home_msg \<Rightarrow> home_state \<Rightarrow> home_state \<times> effect list \<times> bool" where
  "home_update HomeExpand s = (s\<lparr>hs_expanded := \<not> hs_expanded s\<rparr>, [], False)"
| "home_update HomeCreate s = (s, [], True)"
| "home_update (HomeAuth m) s =
     (case auth_update m (hs_auth s, hs_window s) of ((a, w), fx) \<Rightarrow> (s\<lparr>hs_auth := a, hs_window := w\<rparr>, fx, False))"

definition totalOpenIssues :: "workspace list \<Rightarrow> int" where
  "totalOpenIssues wss = foldl (\<lambda>sum ws. sum + nullish (ws_open_issue_count ws) 0) 0 wss"

definition activeIssueCount :: "issue list query_result \<Rightarrow> nat" where
  "activeIssueCount q =
     nullish (map_option (\<lambda>is. length (filter (\<lambda>i. issue_execution_status i = EQueued \<or> issue_execution_status i = ERunning) is)) (qr_data q)) 0"

definition recentIssues :: "bool \<Rightarrow> issue list \<Rightarrow> issue list" where
  "recentIssues expanded allIssues = (if expanded then allIssues else take 5 allIssues)"

definition serverState :: "health_response query_result \<Rightarrow> jstr" where
  "serverState health = (if qr_isLoading health then js ''syncing'' else if qr_isError health then js ''attention'' else js ''online'')"

definition runtimeList :: "health_response query_result \<Rightarrow> jstr list" where
  "runtimeList health = nullish (Option.bind (qr_data health) hl_available_runtimes) []"

definition uptime_of :: "health_response query_result \<Rightarrow> int option" where
  "uptime_of health = Option.bind (qr_data health) hl_uptime_seconds"

definition commandSurfaces :: "workspace option \<Rightarrow> jstr list \<Rightarrow> nat \<Rightarrow> (jstr \<times> jstr \<times> jstr) list" where
  "commandSurfaces current runtimes active =
     [(js ''workspace'',
       (case current of Some ws \<Rightarrow> js ''cron-agent workspace use '' @ ws_slug ws | None \<Rightarrow> js ''cron-agent workspace create''),
       (case current of Some ws \<Rightarrow> int_str (nullish (ws_open_issue_count ws) 0) @ js '' open issues'' | None \<Rightarrow> ko_start_board)),
      (js ''runtime'',
       (if length runtimes > 0 then js ''runtime probe --found '' @ join (js '', '') runtimes else js ''runtime probe --pending''),
       (if length runtimes > 0 then nat_str (length runtimes) @ js '' runtimes available'' else ko_path_waiting)),
      (js ''autopilot'',
       (if active > 0 then js ''agent runs watch --active '' @ nat_str active else js ''agent runs queue --idle''),
       (if active > 0 then js ''queued/running activity'' else ko_none_queued))]"

definition create_button :: "string \<Rightarrow> home_msg node" where
  "create_button c = El ''button'' [cls c, A ''type'' (js ''button''), On ''onClick'' HomeCreate] [Text ko_create_workspace]"

definition section_link :: "string \<Rightarrow> workspace \<Rightarrow> string \<Rightarrow> 'm node list \<Rightarrow> 'm node" where
  "section_link c ws s ns = El ''a'' [cls c, A ''href'' (js ''/w/'' @ ws_slug ws @ js ''/'' @ js s)] ns"

definition hero_copy :: "home_env \<Rightarrow> home_msg node" where
  "hero_copy v =
     (let current = oc_current (hv_context v); health = hv_health v in
      El ''div'' [cls ''mcp-hero-copy'']
        [El ''div'' [cls ''hero-kicker-row'']
           [El ''span'' [cls ''issue-id''] [Text (nullish (map_option ws_identifier_prefix current) (js ''MCP''))],
            El ''span'' [A ''class'' (js ''server-pill server-pill--'' @ serverState health)]
              [El ''span'' [A ''aria-hidden'' (js ''true'')] [],
               Text (if qr_isLoading health then ko_checking_state else if qr_isError health then ko_check_connection
                 else js ''Server online'')]],
         El ''h2'' [A ''id'' (js ''mcp-hero-title'')]
           [Text (case current of Some ws \<Rightarrow> ws_name ws @ js '' MCP control plane'' | None \<Rightarrow> ko_hero_start)],
         El ''p'' []
           [Text (case current of
              Some ws \<Rightarrow> ko_open_issues_sp @ int_str (nullish (ws_open_issue_count ws) 0) @ ko_agents_sep @
                int_str (nullish (ws_agent_count ws) 0) @ ko_runtimes_sep @ nat_str (length (runtimeList health)) @
                ko_hero_observe
            | None \<Rightarrow> ko_hero_about)],
         El ''div'' [cls ''hero-actions'', A ''aria-label'' ko_main_actions]
           [case current of
              Some ws \<Rightarrow> section_link ''button button-hero'' ws ''board'' [Text ko_open_board]
            | None \<Rightarrow> create_button ''button button-hero'',
            El ''a'' [cls ''button secondary'', A ''href'' (js ''/settings'')] [T ''Settings'']]])"

definition uptime_or :: "health_response query_result \<Rightarrow> jstr \<Rightarrow> jstr \<Rightarrow> jstr" where
  "uptime_or health before otherwise =
     (if truthy_num (uptime_of health) then before @ int_str (nullish (uptime_of health) 0) @ js ''s'' else otherwise)"

definition live_card :: "home_env \<Rightarrow> home_msg node" where
  "live_card v =
     (let current = oc_current (hv_context v); health = hv_health v; active = activeIssueCount (hv_issues v);
          runtimes = length (runtimeList health);
          route = (\<lambda>b s. El ''span'' [cls ''server-map__route''] [El ''b'' [] [Text b], El ''small'' [] [T s]]);
          readout = (\<lambda>t d. El ''div'' [] [El ''dt'' [] [T t], El ''dd'' [] [Text d]])
      in El ''div'' [cls ''mcp-live-card'', A ''aria-label'' (js ''Live MCP server preview'')]
        [El ''div'' [cls ''live-card-topline''] [El ''span'' [] [T ''mcp://local-dashboard''], El ''strong'' [] [Text (serverState health)]],
         El ''div'' [cls ''server-map'', A ''aria-hidden'' (js ''true'')]
           [El ''div'' [cls ''server-map__core'']
              [El ''span'' [A ''class'' (js ''server-map__dot server-map__dot--'' @ serverState health)] [],
               El ''strong'' [] [T ''MCP Core''], El ''small'' [] [T ''local-dashboard'']],
            El ''div'' [cls ''server-map__routes'']
              [route (if current \<noteq> None then js ''linked'' else js ''pending'') ''workspace'',
               route (if active > 0 then nat_str active @ js '' active'' else js ''idle'') ''runs'',
               route (if runtimes > 0 then nat_str runtimes @ js '' ready'' else js ''detecting'') ''runtime'']],
         El ''dl'' [cls ''server-readout'']
           [readout ''workspace'' (nullish (map_option ws_name current) (js ''No workspace selected'')),
            readout ''uptime'' (uptime_or health [] (js ''self-check'')),
            readout ''runtimes'' (oor_str (Some (join (js '' / '') (runtimeList health))) (js ''detecting''))]])"

definition metric_cards :: "home_env \<Rightarrow> home_msg node" where
  "metric_cards v =
     (let current = oc_current (hv_context v); health = hv_health v; wss = oc_workspaces (hv_context v);
          card = (\<lambda>t s p. El ''article'' [cls ''metric-card dashboard-metric status-card'']
            [El ''span'' [] [Text t], El ''strong'' [] s, El ''p'' [] [Text p]]);
          count = (\<lambda>n. [Text (nat_str n), Text ko_count_unit])
      in El ''div'' [cls ''mcp-status-grid'', A ''aria-label'' (js ''Dashboard metrics'')]
        [card ko_api_state [Text (if qr_isLoading health then ko_checking else if qr_isError health then ko_attention else ko_normal)]
           (uptime_or health (js ''uptime '') ko_self_check),
         card ko_workspace_ko (count (length wss))
           (if oc_loading (hv_context v) then ko_list_checking
            else ko_open_issues_sp @ int_str (totalOpenIssues wss) @ ko_count_unit),
         card ko_waiting_running (count (activeIssueCount (hv_issues v)))
           (case current of Some ws \<Rightarrow> ws_name ws @ ko_based_on | None \<Rightarrow> ko_after_create),
         card ko_runtime_ko (count (length (runtimeList health)))
           (oor_str (Some (join (js '', '') (runtimeList health))) ko_path_waiting)])"


definition preview_row :: "outlet_context \<Rightarrow> issue \<Rightarrow> 'm node" where
  "preview_row c i =
     El ''a'' [cls ''dashboard-issue-row'', A ''href'' (issue_link (tpl (map_option ws_slug (oc_current c))) (issue_identifier i))]
       [El ''span'' [cls ''issue-id''] [Text (issue_identifier i)],
        El ''strong'' [] [Text (issue_title i)],
        El ''span'' []
          [Text (issue_status_str (issue_status i)), Text ko_middot, Text (exec_status_str (issue_execution_status i)), Text ko_dot_at,
           Text (oor_str (oor (issue_last_run_agent_name i) (issue_assignee_agent_name i)) (js ''-''))]]"

definition more_label :: "bool \<Rightarrow> issue list \<Rightarrow> jstr" where
  "more_label expanded allIssues =
     (if expanded then ko_fold else ko_more_plus @ int_str (int (length allIssues) - 5) @ js '')'')"

definition preview_panel :: "platform \<Rightarrow> home_env \<Rightarrow> home_state \<Rightarrow> home_msg node" where
  "preview_panel E v s =
     (let c = hv_context v; current = oc_current c; allIssues = nullish (qr_data (hv_issues v)) [];
          recent = recentIssues (hs_expanded s) allIssues
      in El ''article'' [cls ''panel dashboard-preview-panel'']
        [El ''div'' [cls ''section-heading'']
           (El ''div'' []
              [El ''h2'' [] [T ''Dashboard preview''],
               El ''p'' [] [Text ko_preview_desc]] #
            (case current of Some ws \<Rightarrow> [section_link ''inline-link'' ws ''board'' [Text ko_see_all]] | None \<Rightarrow> [])),
         El ''div'' [cls ''preview-console'']
           [El ''div'' [cls ''console-titlebar'', A ''aria-hidden'' (js ''true'')]
              [El ''span'' [] [], El ''span'' [] [], El ''span'' [] [],
               El ''strong'' [] [Text (toLowerCase E (nullish (map_option ws_identifier_prefix current) (js ''MCP''))), T ''-board'']],
            if length recent > 0 then
              El ''div'' [cls ''dashboard-issue-list'']
                (map (preview_row c) recent @
                 render_if (length allIssues > 5)
                   [El ''button'' [cls ''inline-link'', A ''type'' (js ''button''), On ''onClick'' HomeExpand]
                      [Text (more_label (hs_expanded s) allIssues)]])
            else
              El ''div'' [cls ''empty-state'']
                ([El ''h2'' [] [Text (if qr_isLoading (hv_issues v) then ko_issues_loading else ko_no_recent)],
                  El ''p'' [] [Text (if current \<noteq> None then ko_first_issue_here
                    else ko_create_first)]] @
                 render_if (current = None) [create_button ''button''])]])"

definition command_panel :: "home_env \<Rightarrow> home_msg node" where
  "command_panel v =
     El ''article'' [cls ''panel command-surface-panel'']
       [El ''div'' [cls ''section-heading'']
          [El ''div'' [] [El ''h2'' [] [T ''Command surfaces''], El ''p'' [] [Text ko_command_desc]]],
        El ''div'' [cls ''command-list'']
          (map (\<lambda>(label, command, meta). El ''div'' [cls ''command-row'']
               [El ''span'' [] [Text label], El ''code'' [] [Text command], El ''small'' [] [Text meta]])
             (commandSurfaces (oc_current (hv_context v)) (runtimeList (hv_health v)) (activeIssueCount (hv_issues v))))]"

definition quick_actions :: "workspace option \<Rightarrow> home_msg node" where
  "quick_actions current =
     El ''article'' [cls ''panel quick-actions-panel'']
       [El ''div'' [cls ''section-heading''] [El ''h2'' [] [Text ko_quick_actions_ko]],
        El ''div'' [cls ''quick-actions'']
          (case current of
             Some ws \<Rightarrow>
               [section_link ''quick-action'' ws ''board''
                  [El ''strong'' [] [Text ko_board_title], El ''span'' [] [Text ko_quick_board]],
                section_link ''quick-action'' ws ''agents''
                  [El ''strong'' [] [Text ko_agents_title], El ''span'' [] [Text ko_quick_agents]],
                section_link ''quick-action'' ws ''autopilot''
                  [El ''strong'' [] [Text ko_autopilot], El ''span'' [] [Text ko_quick_cron]]]
           | None \<Rightarrow>
               [El ''button'' [cls ''quick-action'', A ''type'' (js ''button''), On ''onClick'' HomeCreate]
                  [El ''strong'' [] [Text ko_create_workspace], El ''span'' [] [Text ko_quick_start]]])]"

definition HomePage :: "platform \<Rightarrow> home_env \<Rightarrow> home_state \<Rightarrow> home_msg node" where
  "HomePage E v s =
     (let c = hv_context v in
      El ''section'' [cls ''page-stack home-shell'']
        ([PageHeader (Some (js ''CoreMCP demo'')) ko_home_title
            ko_home_desc [],
          El ''section'' [cls ''mcp-hero'', A ''aria-labelledby'' (js ''mcp-hero-title'')] [hero_copy v, live_card v],
          metric_cards v] @
         render_if (isUnauthorizedError (oc_error c)) (AuthTokenPanel (oc_error c) (hs_auth s) HomeAuth) @
         [El ''div'' [cls ''mcp-dashboard-grid'']
            [preview_panel E v s,
             El ''aside'' [cls ''mcp-side-rail'']
               ([command_panel v] @ TeamPulseWidget E (map_option ws_slug (oc_current c)) (hv_activity v) @ [quick_actions (oc_current c)])]]))"

definition home_queries :: "outlet_context \<Rightarrow> query list" where
  "home_queries c =
     (let slug = map_option ws_slug (oc_current c) in
      [useHealthQuery,
       useIssuesQuery slug \<lparr>qp_status = None, qp_execution = None, qp_assignee = None, qp_q = None, qp_limit = None\<rparr>,
       useAgentActivityQuery slug])"


subsection \<open>The busiest come first\<close>

lemma comparator_pulse:
  assumes "comparator (localeCompare E)"
  shows "comparator (sortPriority E)"
proof -
  let ?t = "\<lambda>a. oor_str (aa_latest_run_enqueued_at a) []"
  have "comparator (\<lambda>a b. localeCompare E (?t a) (?t b))" by (rule comparator_key [OF assms])
  then have "comparator (\<lambda>a b. localeCompare E (?t b) (?t a))" by (rule comparator_rev)
  from comparator_lex [OF comparator_int this, of "\<lambda>a. pulse_rank (aa_latest_run_status a)"] show ?thesis
    by (simp only: sortPriority_def [abs_def] Let_def)
qed

definition pulse_before :: "platform \<Rightarrow> agent_activity \<Rightarrow> agent_activity \<Rightarrow> bool" where
  "pulse_before E a b \<longleftrightarrow>
     pulse_rank (aa_latest_run_status a) < pulse_rank (aa_latest_run_status b) \<or>
     pulse_rank (aa_latest_run_status a) = pulse_rank (aa_latest_run_status b) \<and>
       localeCompare E (oor_str (aa_latest_run_enqueued_at b) []) (oor_str (aa_latest_run_enqueued_at a) []) \<le> 0"

lemma sortPriority_le: "sortPriority E a b \<le> 0 \<longleftrightarrow> pulse_before E a b"
  by (auto simp: sortPriority_def pulse_before_def Let_def)

text \<open>An agent with a latest run of a status, enqueued at a time.\<close>

definition sample_activity :: "string \<Rightarrow> string option \<Rightarrow> string \<Rightarrow> agent_activity" where
  "sample_activity name status t =
     \<lparr>aa_agent_id = js name, aa_agent_name = js name, aa_runtime = js ''codex'', aa_is_main = False, aa_latest_run_id = None,
      aa_latest_run_status = map_option js status, aa_latest_run_finished_at = None, aa_latest_run_enqueued_at = Some (js t),
      aa_latest_issue_id = None, aa_latest_issue_identifier = None\<rparr>"

text \<open>The team widget shows every agent once, an agent with a running latest run above one with a queued run,
  that above a failed, a done and any other one, and among agents of the same status the one whose run
  was enqueued later first; agents that tie keep the order the server sent them in.\<close>

lemma team_pulse_order:
  assumes "comparator (localeCompare E)"
  shows "mset (pulse_items E q) = mset (nullish (qr_data q) []) \<and>
    sorted_wrt (pulse_before E) (pulse_items E q) \<and>
    (\<forall>a. filter (\<lambda>b. pulse_before E a b \<and> pulse_before E b a) (pulse_items E q) =
         filter (\<lambda>b. pulse_before E a b \<and> pulse_before E b a) (nullish (qr_data q) []))"
proof -
  note pulse = comparator_pulse [OF assms]
  have tie: "pulse_before E a b \<and> pulse_before E b a \<longleftrightarrow> sortPriority E a b = 0" for a b
    unfolding sortPriority_le [symmetric] using comparator.cmp_sym [OF pulse, of a b] comparator.cmp_sym [OF pulse, of b a] by linarith
  show ?thesis
    using comparator.sort_sorted [OF pulse, of "nullish (qr_data q) []"] comparator.sort_stable [OF pulse, of _ "nullish (qr_data q) []"]
    by (simp add: tie pulse_items_def sortPriority_le)
qed


definition sample_team :: "agent_activity list query_result" where
  "sample_team = loaded_query (Some
     [sample_activity ''a'' (Some ''done'') ''3'', sample_activity ''b'' (Some ''running'') ''1'', sample_activity ''c'' (Some ''done'') ''5''])"

lemma team_pulse_order_instance:
  "sorted_wrt (pulse_before ascii_platform) (pulse_items ascii_platform sample_team) \<and>
   map aa_agent_name (pulse_items ascii_platform sample_team) = [js ''b'', js ''c'', js ''a'']"
proof
  show "sorted_wrt (pulse_before ascii_platform) (pulse_items ascii_platform sample_team)"
    using team_pulse_order [of ascii_platform sample_team] ascii.collation by blast
  have "code_unit_compare (js ''5'') (js ''3'') = 1" "code_unit_compare (js ''3'') (js ''5'') = - 1" by code_simp+
  then show "map aa_agent_name (pulse_items ascii_platform sample_team) = [js ''b'', js ''c'', js ''a'']"
    by (simp add: pulse_items_def sample_team_def sample_activity_def sortPriority_def pulse_rank_def oor_str_def)
qed

subsection \<open>The strip shows the most relevant work\<close>

text \<open>The strip links to exactly one issue: the running one when there is one, else the queued one, else the
  first finished one with a comment that waits for a review. It links to none, and says so, exactly
  when there is nothing of the three; and it shows nothing at all when no workspace is selected.\<close>

lemma strip_most_relevant:
  "concat (map (attr_values ''href'') (WorkspaceActivityStrip E slug v :: 'm node list)) =
     (if \<not> truthy_str slug then []
      else map (\<lambda>i. issue_link (nullish slug []) (issue_identifier i))
        (take 1 (take 1 (nullish (qr_data (te_running v)) []) @ take 1 (nullish (qr_data (te_queued v)) []) @ review_pending v))) \<and>
   ((WorkspaceActivityStrip E slug v :: 'm node list) = [] \<longleftrightarrow> \<not> truthy_str slug)"
proof -
  have first: "first_of q = (case take 1 (nullish (qr_data q) []) of [] \<Rightarrow> None | x # xs \<Rightarrow> Some x)" for q :: "issue list query_result"
    by (auto simp: first_of_def split: option.split list.split)
  show ?thesis
    by (cases "nullish (qr_data (te_running v)) []"; cases "nullish (qr_data (te_queued v)) []"; cases "review_pending v")
      (simp_all add: WorkspaceActivityStrip_def first strip_frame_def)
qed

end
