(* ===== verification/RunsFeed.thy ===== *)
theory RunsFeed
  imports Activity IssuePanels
begin

section \<open>The runs and the chains of a workspace\<close>

text \<open>
  Models \<^verbatim>\<open>web/src/pages/WorkspaceRunsPage.tsx\<close>, the filtered list of all runs of a workspace, and
  \<^verbatim>\<open>web/src/pages/WorkspaceChainsPage.tsx\<close>, the same runs grouped into chains with the panel of the issue page.
  Both pages poll and listen to the workspace's wake stream.
\<close>

subsection \<open>Queries and the wake stream\<close>

definition workspace_runs_path :: "jstr option \<Rightarrow> jstr" where
  "workspace_runs_path slug = js ''/workspaces/'' @ tpl slug @ js ''/runs?limit=500''"

definition feed_query :: "jstr option \<Rightarrow> query" where
  "feed_query slug = mk_query [kname ''workspace-runs-feed'', kopt slug] (truthy_str slug) (workspace_runs_path slug) (Some ''runs'') True (Some 8000)"

definition chains_query :: "jstr option \<Rightarrow> query" where
  "chains_query slug = mk_query [kname ''workspace-runs'', kopt slug] (truthy_str slug) (workspace_runs_path slug) (Some ''runs'') True (Some 8000)"

text \<open>The stream a page subscribes to, if any.\<close>

definition wake_path :: "jstr option \<Rightarrow> jstr option" where
  "wake_path slug = (if truthy_str slug then Some (js ''/workspaces/'' @ tpl slug @ js ''/runs/stream'') else None)"

definition feed_event :: "jstr option \<Rightarrow> sse_event \<Rightarrow> effect list" where
  "feed_event slug ev = (if fst ev = js ''wake'' then [Invalidate [kname ''workspace-runs-feed'', kopt slug]] else [])"

definition chains_event :: "jstr option \<Rightarrow> sse_event \<Rightarrow> effect list" where
  "chains_event slug ev = (if fst ev = js ''wake'' then [Invalidate [kname ''workspace-runs'', kopt slug]] else [])"

subsection \<open>The runs\<close>

record runs_state =
  rs_status :: jstr
  rs_agent :: jstr
  rs_search :: jstr

definition runs_start :: runs_state where
  "runs_start = \<lparr>rs_status = [], rs_agent = [], rs_search = []\<rparr>"

datatype runs_msg = RunsStatus jstr | RunsAgent jstr | RunsSearch jstr | RunsRefresh

fun runs_update :: "jstr option \<Rightarrow> runs_msg \<Rightarrow> runs_state \<Rightarrow> runs_state \<times> effect list" where
  "runs_update slug (RunsStatus t) s = (s\<lparr>rs_status := t\<rparr>, [])"
| "runs_update slug (RunsAgent t) s = (s\<lparr>rs_agent := t\<rparr>, [])"
| "runs_update slug (RunsSearch t) s = (s\<lparr>rs_search := t\<rparr>, [])"
| "runs_update slug RunsRefresh s = (s, [Refetch (q_key (feed_query slug))])"

definition haystack :: "platform \<Rightarrow> run \<Rightarrow> jstr" where
  "haystack E r =
     toLowerCase E (run_id r @ js '' '' @ nullish (run_chain_id r) [] @ js '' '' @ nullish (run_agent_name r) [] @ js '' '' @
       nullish (run_error_message r) [])"

definition run_shown :: "platform \<Rightarrow> runs_state \<Rightarrow> run \<Rightarrow> bool" where
  "run_shown E s r =
     (let needle = toLowerCase E (trim (rs_search s)) in
      if rs_status s \<noteq> [] \<and> run_status r \<noteq> rs_status s then False
      else if rs_agent s \<noteq> [] \<and> run_agent_id r \<noteq> Some (rs_agent s) then False
      else if needle = [] then True
      else includes_str (haystack E r) needle)"

definition filtered_runs :: "platform \<Rightarrow> runs_state \<Rightarrow> run list query_result \<Rightarrow> run list" where
  "filtered_runs E s q = filter (run_shown E s) (nullish (qr_data q) [])"

text \<open>A link for a run: \<^verbatim>\<open>#\<close> when the run has no issue.\<close>

definition run_target :: "jstr \<Rightarrow> run \<Rightarrow> jstr" where
  "run_target slug r = (if truthy_str (run_issue_id r) then issue_link slug (nullish (run_issue_id r) []) else js ''#'')"

definition error_cell :: "run \<Rightarrow> jstr" where
  "error_cell r = (if truthy_str (run_error_message r) then take 120 (collapse is_ws (js '' '') (nullish (run_error_message r) [])) else ko_dash)"

definition RunRow :: "platform \<Rightarrow> jstr \<Rightarrow> run \<Rightarrow> 'm node" where
  "RunRow E slug r =
     El ''a'' [A ''href'' (run_target slug r), cls ''runs-feed-row'']
       [El ''span'' [] [El ''code'' [cls ''runs-feed-row__id''] [T ''run '', Text (take 8 (run_id r))]],
        El ''span'' [] [StatusPill E PRun (run_status r) False],
        El ''span'' [cls ''runs-feed-cell-muted''] [Text (if truthy_str (run_agent_name r) then js ''@'' @ nullish (run_agent_name r) [] else ko_dash)],
        El ''span'' [cls ''runs-feed-cell-muted'']
          [Text (if truthy_str (run_chain_id r) then js ''chain '' @ take 8 (nullish (run_chain_id r) []) else ko_dash)],
        El ''span'' [cls ''runs-feed-cell-muted''] [Text (case run_enqueued_at r of Some t \<Rightarrow> replace_first 84 32 (take 19 t) | None \<Rightarrow> ko_dash)],
        El ''span'' (cls ''runs-feed-row__err'' # attr_opt ''title'' (if truthy_str (run_error_message r) then run_error_message r else None))
          [Text (error_cell r)]]"

record runs_env =
  rv_slug :: "jstr option"
  rv_runs :: "run list query_result"
  rv_agents :: "agent list query_result"

definition refresh_button :: "'a query_result \<Rightarrow> 'm \<Rightarrow> 'm node" where
  "refresh_button q act =
     El ''button'' [cls ''button micro secondary'', A ''type'' (js ''button''), On ''onClick'' act, B ''disabled'' (qr_isFetching q)]
       [Text (if qr_isFetching q then ko_refreshing else ko_refresh)]"

definition option_node :: "jstr \<times> jstr \<Rightarrow> 'm node" where
  "option_node p = El ''option'' [A ''value'' (fst p)] [Text (snd p)]"

definition select_input :: "jstr \<Rightarrow> (jstr \<Rightarrow> 'm) \<Rightarrow> (jstr \<times> jstr) list \<Rightarrow> 'm node" where
  "select_input v f opts = El ''select'' [A ''value'' v, OnValue ''onChange'' f] (map option_node opts)"

definition loading_panel :: "'m node" where
  "loading_panel = El ''article'' [cls ''panel empty-state compact''] [El ''p'' [cls ''muted-copy''] [Text ko_loading_dots]]"

definition empty_panel :: "jstr \<Rightarrow> jstr \<Rightarrow> 'm node" where
  "empty_panel h p = El ''article'' [cls ''panel empty-state compact''] [El ''h2'' [] [Text h], El ''p'' [] [Text p]]"

definition runs_filters :: "runs_env \<Rightarrow> runs_state \<Rightarrow> runs_msg node" where
  "runs_filters v s =
     El ''div'' [cls ''toolbar-controls runs-feed-filters'']
       [labelled ko_status [select_input (rs_status s) RunsStatus
          (([], ko_all) # map (\<lambda>t. (js t, js t)) [''queued'', ''running'', ''done'', ''failed'', ''cancelled''])],
        labelled ko_agents_title [select_input (rs_agent s) RunsAgent
          (([], ko_all) # map (\<lambda>a. (ag_id a, ag_name a)) (nullish (qr_data (rv_agents v)) []))],
        labelled ko_runs_search
          [text_input [A ''type'' (js ''search''), A ''placeholder'' (js ''chain-abc12345 / Lead / timeout...'')] (rs_search s) RunsSearch]]"

definition WorkspaceRunsPage :: "platform \<Rightarrow> runs_env \<Rightarrow> runs_state \<Rightarrow> runs_msg node" where
  "WorkspaceRunsPage E v s =
     (let q = rv_runs v; shown = filtered_runs E s q in
      El ''section'' [cls ''page-stack'']
        [PageHeader (Some (ko_eyebrow_ws @ tpl (rv_slug v))) ko_run_feed
           ko_runs_desc [refresh_button q RunsRefresh],
         El ''article'' [cls ''board-toolbar panel'']
           [El ''div'' [cls ''toolbar-main'']
              [El ''div'' []
                 [El ''h2'' [] [Text ko_all_runs],
                  El ''p'' [] [Text ko_of_500, Text (nat_str (length shown)), Text ko_shown_hint]],
               El ''span'' [cls ''badge''] [Text (nat_str (nullish (map_option length (qr_data q)) 0)), T '' total'']],
            runs_filters v s],
         if qr_isLoading q then loading_panel
         else if shown = [] then empty_panel ko_no_match_run ko_no_match_hint
         else El ''article'' [cls ''panel table-panel'']
           [El ''div'' [cls ''section-heading compact'']
              [El ''h2'' [] [Text ko_run_sep, Text (nat_str (length shown)), Text ko_cases],
               El ''span'' [cls ''muted-copy''] [Text ko_of_500_filtered]],
            El ''div'' [cls ''runs-feed-table'']
              (El ''div'' [cls ''runs-feed-row runs-feed-head'']
                 (map (\<lambda>t. El ''span'' [] [Text t]) [js ''Run'', ko_status, js ''Agent'', js ''Chain'', ko_queued_time, ko_error]) #
               map (RunRow E (nullish (rv_slug v) [])) shown)]])"

subsection \<open>The chains\<close>

datatype chains_msg = ChainsRefresh | ChainsRow chain_msg

fun chains_update :: "jstr option \<Rightarrow> workspace query_result \<Rightarrow> bool \<Rightarrow> chains_msg \<Rightarrow> effect list" where
  "chains_update slug ws confirmed ChainsRefresh = [Refetch (q_key (chains_query slug))]"
| "chains_update slug ws confirmed (ChainsRow m) = chain_update None (qr_data ws) confirmed m"

record chains_env =
  cv_slug :: "jstr option"
  cv_runs :: "run list query_result"
  cv_workspace :: "workspace query_result"
  cv_rows :: "jstr \<Rightarrow> chain_row_mutations"

definition WorkspaceChainsPage :: "platform \<Rightarrow> chains_env \<Rightarrow> chains_msg node" where
  "WorkspaceChainsPage E v =
     (let q = cv_runs v; runs = nullish (qr_data q) [] in
      El ''section'' [cls ''page-stack'']
        ([PageHeader (Some (ko_eyebrow_ws @ tpl (cv_slug v))) ko_chain_dashboard
            ko_chains_desc
            [refresh_button q ChainsRefresh],
          El ''article'' [cls ''board-toolbar panel'']
            [El ''div'' [cls ''toolbar-main'']
               [El ''div'' []
                  [El ''h2'' [] [Text ko_chain_state],
                   El ''p'' [] [Text ko_chain_state_desc]],
                El ''span'' [cls ''badge''] [Text (nat_str (nullish (map_option length (qr_data q)) 0)), T '' runs'']]]] @
         (if qr_isLoading q then [loading_panel]
          else if length runs = 0 then [empty_panel ko_no_history ko_no_runs_yet]
          else map (map_node ChainsRow) (ChainSummaryPanel E (cv_rows v) runs (qr_data (cv_workspace v))))))"


subsection \<open>The filters\<close>

lemma run_shown_split:
  "run_shown E s r \<longleftrightarrow>
     run_shown E (s\<lparr>rs_status := []\<rparr>) r \<and> (rs_status s = [] \<or> run_status r = rs_status s)"
  "run_shown E s r \<longleftrightarrow>
     run_shown E (s\<lparr>rs_agent := []\<rparr>) r \<and> (rs_agent s = [] \<or> run_agent_id r = Some (rs_agent s))"
  "run_shown E s r \<longleftrightarrow>
     run_shown E (s\<lparr>rs_search := []\<rparr>) r \<and> includes_str (haystack E r) (toLowerCase E (trim (rs_search s)))"
  if "toLowerCase E [] = []"
proof -
  have "includes_str h []" for h :: jstr by (cases h) (simp_all add: startsWith_iff)
  then show "run_shown E s r \<longleftrightarrow>
     run_shown E (s\<lparr>rs_search := []\<rparr>) r \<and> includes_str (haystack E r) (toLowerCase E (trim (rs_search s)))"
    using that by (auto simp: run_shown_def Let_def)
qed (auto simp: run_shown_def Let_def)

text \<open>The run feed shows a sublist of the runs in the order the server sent them. Each of the three filters
  narrows what the other two show to exactly the runs with that status, of that agent, or with the
  search text in their id, chain, agent name or error message, letter case aside; a filter left empty
  hides nothing, and the number in the heading is the number of rows.\<close>

lemma run_feed_filtered:
  assumes "toLowerCase E [] = []"
  shows "subseq (filtered_runs E s q) (nullish (qr_data q) []) \<and>
    filtered_runs E s q = filter (\<lambda>r. rs_status s = [] \<or> run_status r = rs_status s) (filtered_runs E (s\<lparr>rs_status := []\<rparr>) q) \<and>
    filtered_runs E s q = filter (\<lambda>r. rs_agent s = [] \<or> run_agent_id r = Some (rs_agent s)) (filtered_runs E (s\<lparr>rs_agent := []\<rparr>) q) \<and>
    filtered_runs E s q =
      filter (\<lambda>r. includes_str (haystack E r) (toLowerCase E (trim (rs_search s)))) (filtered_runs E (s\<lparr>rs_search := []\<rparr>) q) \<and>
    filtered_runs E runs_start q = nullish (qr_data q) []"
proof -
  note split = run_shown_split [OF assms, of s]
  have "filtered_runs E s q = filter (\<lambda>r. rs_status s = [] \<or> run_status r = rs_status s) (filtered_runs E (s\<lparr>rs_status := []\<rparr>) q)"
    unfolding filtered_runs_def filter_filter using split(1) by (intro filter_cong) auto
  moreover have "filtered_runs E s q =
      filter (\<lambda>r. rs_agent s = [] \<or> run_agent_id r = Some (rs_agent s)) (filtered_runs E (s\<lparr>rs_agent := []\<rparr>) q)"
    unfolding filtered_runs_def filter_filter using split(2) by (intro filter_cong) auto
  moreover have "filtered_runs E s q =
      filter (\<lambda>r. includes_str (haystack E r) (toLowerCase E (trim (rs_search s)))) (filtered_runs E (s\<lparr>rs_search := []\<rparr>) q)"
    unfolding filtered_runs_def filter_filter using split(3) by (intro filter_cong) auto
  moreover have "subseq (filtered_runs E s q) (nullish (qr_data q) [])" by (simp add: filtered_runs_def)
  moreover have "run_shown E runs_start r" for r
    using assms by (simp add: run_shown_def runs_start_def)
  then have "filtered_runs E runs_start q = nullish (qr_data q) []" by (simp add: filtered_runs_def)
  ultimately show ?thesis by blast
qed

lemma run_feed_filtered_instance:
  "map run_id (filtered_runs ascii_platform (runs_start\<lparr>rs_status := js ''failed''\<rparr>)
     (loaded_query (Some [bare_run (js ''r1'') (js ''failed''), bare_run (js ''r2'') (js ''done'')]))) = [js ''r1'']"
  by (subst run_feed_filtered [THEN conjunct2, THEN conjunct1])
    (simp_all add: filtered_runs_def run_shown_def runs_start_def bare_run_def)

text \<open>The error column is one line of at most 120 characters.\<close>

lemma blank_collapse: "c \<in> set (collapse is_ws (js '' '') s) \<Longrightarrow> is_ws c \<Longrightarrow> c = 32"
  using set_collapse [of is_ws "js '' ''" s] by (auto simp: js_def)

lemma error_cell_one_line: "length (error_cell r) \<le> 120" "c \<in> set (error_cell r) \<Longrightarrow> is_ws c \<Longrightarrow> c = 32"
proof -
  have dash: "length ko_dash \<le> 120" "c \<in> set ko_dash \<Longrightarrow> \<not> is_ws c" by (auto simp: ko_dash_def is_ws_def)
  then show "length (error_cell r) \<le> 120" by (simp add: error_cell_def)
  assume c: "c \<in> set (error_cell r)" "is_ws c"
  show "c = 32"
  proof (cases "truthy_str (run_error_message r)")
    case True
    then have "c \<in> set (collapse is_ws (js '' '') (nullish (run_error_message r) []))"
      using c(1) by (auto simp: error_cell_def dest: in_set_takeD)
    then show ?thesis using c(2) by (rule blank_collapse)
  qed (use c dash in \<open>simp add: error_cell_def\<close>)
qed

subsection \<open>Both pages are refreshed\<close>

text \<open>The two pages request the same runs under cache keys of their own, which differ from each other and from
  the key of every query hook. A wake event of the workspace's stream marks each page's query stale,
  and so does a chain cancelled or restarted on the chain page for both pages at once, provided the
  workspace itself is loaded there; while it is not, such an action refreshes neither page.\<close>

lemma workspace_runs_refreshed:
  assumes "slug \<noteq> []"
  shows "q_path (feed_query (Some slug)) = q_path (chains_query (Some slug)) \<and>
    q_key (feed_query (Some slug)) \<notin> insert (q_key (chains_query (Some slug))) (range (\<lambda>h. q_key (hook_query h))) \<and>
    q_key (chains_query (Some slug)) \<notin> range (\<lambda>h. q_key (hook_query h)) \<and>
    (\<exists>k. feed_event (Some slug) (js ''wake'', t) = [Invalidate k] \<and> key_covers k (q_key (feed_query (Some slug)))) \<and>
    (\<exists>k. chains_event (Some slug) (js ''wake'', t) = [Invalidate k] \<and> key_covers k (q_key (chains_query (Some slug)))) \<and>
    chains_update (Some slug) (loaded_query (Some (ws\<lparr>ws_slug := slug\<rparr>))) b (ChainsRow ChainDone) =
      [Invalidate (q_key (chains_query (Some slug))), Invalidate (q_key (feed_query (Some slug)))] \<and>
    chains_update (Some slug) (loaded_query None) b (ChainsRow ChainDone) = []"
proof -
  have "q_key (hook_query h) \<noteq> [kname ''workspace-runs-feed'', k]" "q_key (hook_query h) \<noteq> [kname ''workspace-runs'', k]" for h k
    by (cases h; simp add: query_defs Let_def)+
  then have "q_key (hook_query h) \<noteq> q_key (feed_query (Some slug))" "q_key (hook_query h) \<noteq> q_key (chains_query (Some slug))" for h
    by (simp_all add: feed_query_def chains_query_def)
  then have "q_key (feed_query (Some slug)) \<notin> range (\<lambda>h. q_key (hook_query h))"
    "q_key (chains_query (Some slug)) \<notin> range (\<lambda>h. q_key (hook_query h))" by (metis rangeE)+
  then show ?thesis using assms
    by (simp add: feed_query_def chains_query_def feed_event_def chains_event_def key_covers_def invalidateAfterAction_def
        truthy_str_iff)
qed

lemma workspace_runs_refreshed_instance:
  "\<exists>k. feed_event (Some (js ''team'')) (js ''wake'', js ''{}'') = [Invalidate k] \<and> key_covers k (q_key (feed_query (Some (js ''team''))))"
  using workspace_runs_refreshed [of "js ''team''" "js ''{}''"] by simp

end
