(* ===== verification/Shell.thy ===== *)
theory Shell
  imports RunsFeed Settings
begin

section \<open>The frame around the pages\<close>

text \<open>
  Models \<^verbatim>\<open>web/src/layouts/DashboardLayout.tsx\<close> with its children \<^verbatim>\<open>WorkspaceSwitcher.tsx\<close> and
  \<^verbatim>\<open>CreateWorkspaceDialog.tsx\<close>, and \<^verbatim>\<open>App.tsx\<close>, \<^verbatim>\<open>AppErrorBoundary.tsx\<close>, \<^verbatim>\<open>main.tsx\<close>: the navigation, the choice of the
  current workspace and the theme, both kept in the browser's storage, and the table of routes. What
  the router found in the address (the path and the \<^verbatim>\<open>slug\<close> parameter) is an input.
\<close>

subsection \<open>The switcher\<close>

record switcher_state =
  sw_open :: bool
  sw_query :: jstr

definition switcher_start :: switcher_state where
  "switcher_start = \<lparr>sw_open = False, sw_query = []\<rparr>"

datatype switcher_msg = SwToggle | SwKey jstr | SwPointerOutside | SwQuery jstr | SwSelect jstr | SwCreate

datatype switcher_call = OnSelect jstr | OnCreate

text \<open>The listeners for keys and clicks elsewhere are installed only while the menu is open.\<close>

fun switcher_update :: "switcher_msg \<Rightarrow> switcher_state \<Rightarrow> switcher_state \<times> switcher_call option" where
  "switcher_update SwToggle s = (s\<lparr>sw_open := \<not> sw_open s\<rparr>, None)"
| "switcher_update (SwKey k) s = (if sw_open s \<and> k = js ''Escape'' then s\<lparr>sw_open := False\<rparr> else s, None)"
| "switcher_update SwPointerOutside s = (if sw_open s then s\<lparr>sw_open := False\<rparr> else s, None)"
| "switcher_update (SwQuery t) s = (s\<lparr>sw_query := t\<rparr>, None)"
| "switcher_update (SwSelect slug) s = (s\<lparr>sw_open := False, sw_query := []\<rparr>, Some (OnSelect slug))"
| "switcher_update SwCreate s = (s\<lparr>sw_open := False, sw_query := []\<rparr>, Some OnCreate)"

definition workspace_matches :: "platform \<Rightarrow> jstr \<Rightarrow> workspace \<Rightarrow> bool" where
  "workspace_matches E keyword ws =
     list_ex (\<lambda>v. includes_str (toLowerCase E v) keyword)
       (filter (\<lambda>v. v \<noteq> []) [ws_name ws, ws_slug ws, ws_identifier_prefix ws, ws_description ws])"

definition filteredWorkspaces :: "platform \<Rightarrow> jstr \<Rightarrow> workspace list \<Rightarrow> workspace list" where
  "filteredWorkspaces E query wss =
     (let keyword = toLowerCase E (trim query) in
      if keyword = [] then wss else filter (workspace_matches E keyword) wss)"

definition workspace_option :: "workspace option \<Rightarrow> workspace \<Rightarrow> switcher_msg node" where
  "workspace_option current ws =
     (let selected = (Some (ws_slug ws) = map_option ws_slug current) in
      El ''button''
        [cls (if selected then ''workspace-option active'' else ''workspace-option''), A ''type'' (js ''button''),
         On ''onClick'' (SwSelect (ws_slug ws)), A ''role'' (js ''option''), B ''aria-selected'' selected]
        ([El ''span'' [cls ''workspace-prefix''] [Text (ws_identifier_prefix ws)],
          El ''span'' []
            [El ''strong'' [] [Text (ws_name ws)],
             El ''small'' [] [Text (ws_slug ws), Text ko_dot_open, Text (int_str (nullish (ws_open_issue_count ws) 0)),
               Text ko_dot_agents, Text (int_str (nullish (ws_agent_count ws) 0))]]] @
         render_if selected [El ''span'' [cls ''workspace-selected-dot'', A ''aria-label'' ko_now_selected] []]))"

definition WorkspaceSwitcher :: "platform \<Rightarrow> workspace list \<Rightarrow> workspace option \<Rightarrow> bool \<Rightarrow> switcher_state \<Rightarrow> switcher_msg node" where
  "WorkspaceSwitcher E wss current isLoading s =
     (let waiting = isLoading \<and> current = None; shown = filteredWorkspaces E (sw_query s) wss in
      El ''div'' [cls ''workspace-switcher'']
        ([El ''p'' [cls ''nav-group-label''] [Text ko_current_ws],
          El ''button'' [cls ''workspace-switcher-trigger'', A ''type'' (js ''button''), On ''onClick'' SwToggle,
              A ''aria-haspopup'' (js ''dialog''), B ''aria-expanded'' (sw_open s), B ''disabled'' waiting]
            [El ''span'' [cls ''workspace-prefix''] [Text (nullish (map_option ws_identifier_prefix current) (js ''--''))],
             El ''span'' [cls ''workspace-switcher-copy'']
               [El ''strong'' [] [Text (if waiting then ko_loading_plain else nullish (map_option ws_name current) ko_no_workspace)],
                El ''small'' []
                  [Text (case current of
                     Some ws \<Rightarrow> js ''open '' @ int_str (nullish (ws_open_issue_count ws) 0) @ ko_dot_agents @ int_str (nullish (ws_agent_count ws) 0)
                   | None \<Rightarrow> ko_start_new)]],
             El ''span'' [cls ''workspace-caret'', A ''aria-hidden'' (js ''true'')] [Text ko_caret]],
          El ''button'' [cls ''workspace-create-link'', A ''type'' (js ''button''), On ''onClick'' SwCreate] [Text ko_plus_ws]] @
         render_if (sw_open s)
           [El ''div'' [cls ''workspace-menu'', A ''role'' (js ''dialog''), A ''aria-label'' ko_choose_ws]
              [El ''div'' [cls ''workspace-menu-header'']
                 [El ''strong'' [] [Text ko_choose_ws], El ''span'' [] [Text (nat_str (length wss)), Text ko_count_unit]],
               El ''input'' [cls ''workspace-search'', B ''autofocus'' True, A ''placeholder'' ko_ws_search, A ''value'' (sw_query s),
                 OnValue ''onChange'' SwQuery] [],
               El ''div'' [cls ''workspace-options'', A ''role'' (js ''listbox''), A ''aria-label'' ko_ws_list]
                 (map (workspace_option current) shown @
                  render_if (shown = []) [El ''p'' [cls ''workspace-empty''] [Text ko_no_results]]),
               El ''button'' [cls ''workspace-menu-create'', A ''type'' (js ''button''), On ''onClick'' SwCreate]
                 [Text ko_plus_ws_make]]]))"

subsection \<open>The dialog for a new workspace\<close>

record new_workspace =
  nw_name :: jstr
  nw_slug :: jstr
  nw_prefix :: jstr
  nw_agent :: jstr
  nw_runtime :: jstr
  nw_model :: jstr
  nw_instructions :: jstr
  nw_auto_chain :: bool
  nw_worktree :: bool

definition initialForm :: new_workspace where
  "initialForm = \<lparr>nw_name = [], nw_slug = [], nw_prefix = js ''TASK'', nw_agent = js ''Codex'', nw_runtime = js ''codex'', nw_model = [],
     nw_instructions = ko_default_instructions, nw_auto_chain = False, nw_worktree = False\<rparr>"

definition new_workspace_json :: "new_workspace \<Rightarrow> json" where
  "new_workspace_json f = jobj
     [(''name'', JStr (nw_name f)), (''slug'', JStr (nw_slug f)), (''identifier_prefix'', JStr (nw_prefix f)),
      (''auto_chain_enabled'', JBool (nw_auto_chain f)), (''per_run_worktree'', JBool (nw_worktree f)),
      (''main_agent'', jobj
        [(''name'', JStr (nw_agent f)), (''runtime'', JStr (nw_runtime f)), (''model'', JStr (nw_model f)),
         (''instructions'', JStr (nw_instructions f))])]"

datatype new_workspace_msg =
    NwName jstr | NwSlug jstr | NwPrefix jstr | NwAgent jstr | NwRuntime jstr | NwModel jstr | NwInstructions jstr
  | NwAutoChain bool | NwWorktree bool | NwSubmit | NwCreated workspace

text \<open>The new form, the effects, and the workspace handed to \<^verbatim>\<open>onCreated\<close> after \<^verbatim>\<open>onClose\<close>.\<close>

fun create_workspace_update :: "platform \<Rightarrow> new_workspace_msg \<Rightarrow> new_workspace \<Rightarrow> new_workspace \<times> effect list \<times> workspace option" where
  "create_workspace_update E (NwName t) f = (f\<lparr>nw_name := t\<rparr>, [], None)"
| "create_workspace_update E (NwSlug t) f = (f\<lparr>nw_slug := t\<rparr>, [], None)"
| "create_workspace_update E (NwPrefix t) f = (f\<lparr>nw_prefix := toUpperCase E t\<rparr>, [], None)"
| "create_workspace_update E (NwAgent t) f = (f\<lparr>nw_agent := t\<rparr>, [], None)"
| "create_workspace_update E (NwRuntime t) f = (f\<lparr>nw_runtime := t\<rparr>, [], None)"
| "create_workspace_update E (NwModel t) f = (f\<lparr>nw_model := t\<rparr>, [], None)"
| "create_workspace_update E (NwInstructions t) f = (f\<lparr>nw_instructions := t\<rparr>, [], None)"
| "create_workspace_update E (NwAutoChain b) f = (f\<lparr>nw_auto_chain := b\<rparr>, [], None)"
| "create_workspace_update E (NwWorktree b) f = (f\<lparr>nw_worktree := b\<rparr>, [], None)"
| "create_workspace_update E NwSubmit f = (f, [Mutate (CPost (js ''/workspaces'') (Some (new_workspace_json f)))], None)"
| "create_workspace_update E (NwCreated ws) f = (initialForm, [Invalidate [kname ''workspaces'']], Some ws)"


definition CreateWorkspaceDialog ::
  "platform \<Rightarrow> jstr \<Rightarrow> bool \<Rightarrow> settings_response query_result \<Rightarrow> mutation \<Rightarrow> new_workspace \<Rightarrow> 'm \<Rightarrow> (new_workspace_msg \<Rightarrow> 'm) \<Rightarrow> 'm node list" where
  "CreateWorkspaceDialog E reactId is_open settings create form onClose lift =
     (let field = (\<lambda>l as v f. labelled l [text_input (as @ [B ''required'' True]) v (\<lambda>t. lift (f t))]) in
      Modal ko_create_workspace (Some ko_create_ws_desc) is_open (Some onClose)
        [El ''form'' [A ''id'' (js ''create-workspace-form''), cls ''form-grid'', On ''onSubmit'' (lift NwSubmit)]
           ([field ko_name [B ''autofocus'' True, A ''placeholder'' ko_name] (nw_name form) NwName,
             field (js ''Slug'') [A ''placeholder'' ko_slug_hint] (nw_slug form) NwSlug,
             field ko_issue_prefix [A ''placeholder'' (js ''Prefix'')] (nw_prefix form) NwPrefix,
             field ko_main_agent_name [A ''placeholder'' ko_main_agent_name] (nw_agent form) NwAgent,
             labelled (js ''Runtime'') [runtime_select (nw_runtime form) (\<lambda>t. lift (NwRuntime t)) E settings],
             ModelSelect reactId (nw_runtime form) (nw_model form) (\<lambda>t. lift (NwModel t)) False None None,
             labelled ko_agent_instructions [El ''textarea'' [A ''placeholder'' ko_agent_instructions, A ''value'' (nw_instructions form),
               OnValue ''onChange'' (\<lambda>t. lift (NwInstructions t)), B ''required'' True] []],
             check_row (nw_auto_chain form) (\<lambda>b. lift (NwAutoChain b)) ko_allow_chain,
             El ''p'' [cls ''form-helper'']
               [Text ko_chain_helper1, El ''code'' [] [T ''@AgentName''],
                Text ko_chain_helper2],
             check_row (nw_worktree form) (\<lambda>b. lift (NwWorktree b)) ko_use_worktree,
             El ''p'' [cls ''form-helper'']
               [Text ko_worktree_helper1, El ''code'' [] [T ''<data_dir>/worktrees/<slug>/<run-id>/''],
                Text ko_worktree_helper2, El ''code'' [] [T ''--workers''],
                Text ko_worktree_helper3, El ''code'' [] [T ''working_dir''],
                Text ko_worktree_helper4, El ''code'' [] [T ''git worktree add --detach''], T ''/'',
                El ''code'' [] [T ''remove --force''],
                Text ko_worktree_helper5]] @
            render_if (m_isError create) [El ''p'' [cls ''error-text''] [Text ko_create_ws_failed]])]
        (Some
          [El ''button'' [cls ''button secondary'', A ''type'' (js ''button''), On ''onClick'' onClose] [Text ko_cancel],
           El ''button'' [cls ''button'', A ''type'' (js ''submit''), A ''form'' (js ''create-workspace-form''), B ''disabled'' (m_pending create)]
             [Text (if m_pending create then ko_creating else ko_create_workspace)]]))"

subsection \<open>The layout\<close>

datatype theme = Light | Dark

fun theme_str :: "theme \<Rightarrow> jstr" where
  "theme_str Light = js ''light''"
| "theme_str Dark = js ''dark''"

definition themeStorageKey :: jstr where
  "themeStorageKey = js ''cron-agent-dashboard-theme''"

definition workspaceStorageKey :: jstr where
  "workspaceStorageKey = js ''cron-agent-dashboard-last-workspace''"

definition stored :: "jstr \<Rightarrow> window \<Rightarrow> jstr option" where
  "stored k w = Option.bind w (\<lambda>st. localStorage st k)"

definition store :: "jstr \<Rightarrow> jstr \<Rightarrow> window \<Rightarrow> window" where
  "store k v w = map_option (\<lambda>st. st\<lparr>localStorage := (localStorage st)(k \<mapsto> v)\<rparr>) w"

record layout_state =
  ly_window :: window
  ly_dataTheme :: "jstr option"                 \<comment> \<open>\<^verbatim>\<open>document.documentElement.dataset.theme\<close>\<close>
  ly_last :: jstr
  ly_theme :: theme
  ly_createOpen :: bool
  ly_switcher :: switcher_state
  ly_form :: new_workspace

text \<open>The two effects: over \<^verbatim>\<open>[theme]\<close> and over \<^verbatim>\<open>[slug]\<close>.\<close>

definition theme_effect :: "layout_state \<Rightarrow> layout_state" where
  "theme_effect s = s\<lparr>ly_dataTheme := Some (theme_str (ly_theme s)), ly_window := store themeStorageKey (theme_str (ly_theme s)) (ly_window s)\<rparr>"

definition slug_effect :: "jstr option \<Rightarrow> layout_state \<Rightarrow> layout_state" where
  "slug_effect slug s =
     (if \<not> truthy_str slug then s
      else s\<lparr>ly_last := nullish slug [], ly_window := store workspaceStorageKey (nullish slug []) (ly_window s)\<rparr>)"

definition layout_initial :: "window \<Rightarrow> layout_state" where
  "layout_initial w =
     \<lparr>ly_window = w, ly_dataTheme = None, ly_last = nullish (stored workspaceStorageKey w) [],
      ly_theme = (if stored themeStorageKey w = Some (js ''light'') then Light else Dark),
      ly_createOpen = False, ly_switcher = switcher_start, ly_form = initialForm\<rparr>"

definition layout_start :: "window \<Rightarrow> jstr option \<Rightarrow> layout_state" where
  "layout_start w slug = slug_effect slug (theme_effect (layout_initial w))"

definition currentWorkspace :: "workspace list \<Rightarrow> jstr option \<Rightarrow> jstr \<Rightarrow> workspace option" where
  "currentWorkspace wss slug lastSlug =
     (case wss of
        [] \<Rightarrow> None
      | first # _ \<Rightarrow>
          (case find (\<lambda>ws. Some (ws_slug ws) = slug) wss of
             Some ws \<Rightarrow> Some ws
           | None \<Rightarrow> (case find (\<lambda>ws. ws_slug ws = lastSlug) wss of Some ws \<Rightarrow> Some ws | None \<Rightarrow> Some first)))"

definition workspaceScopedPath :: "jstr \<Rightarrow> jstr \<Rightarrow> jstr" where
  "workspaceScopedPath pathname nextSlug =
     (if \<not> startsWith pathname (js ''/w/'') then []
      else (let parts = filter (\<lambda>p. p \<noteq> []) (split_on 47 pathname);
                section = (if 2 < length parts then Some (parts ! 2) else None)
            in if section = Some (js ''agents'') then js ''/w/'' @ nextSlug @ js ''/agents''
               else if section = Some (js ''autopilot'') then js ''/w/'' @ nextSlug @ js ''/autopilot''
               else js ''/w/'' @ nextSlug @ js ''/board''))"

definition selectWorkspace :: "jstr \<Rightarrow> jstr \<Rightarrow> layout_state \<Rightarrow> layout_state \<times> effect list" where
  "selectWorkspace pathname nextSlug s =
     (let target = workspaceScopedPath pathname nextSlug in
      (s\<lparr>ly_last := nextSlug, ly_window := store workspaceStorageKey nextSlug (ly_window s)\<rparr>,
       if target \<noteq> [] \<and> target \<noteq> pathname then [Navigate target] else []))"

definition onWorkspaceCreated :: "jstr \<Rightarrow> workspace \<Rightarrow> layout_state \<Rightarrow> layout_state \<times> effect list" where
  "onWorkspaceCreated pathname ws s =
     (case selectWorkspace pathname (ws_slug ws) (s\<lparr>ly_createOpen := False\<rparr>) of
        (s', fx) \<Rightarrow> (s', fx @ [Navigate (js ''/w/'' @ ws_slug ws @ js ''/board'')]))"

text \<open>\<open>LyRoute\<close> is a change of the address; a message of the page below the layout is \<open>LyPage\<close>.\<close>

datatype 'p layout_msg =
    LyToggleTheme | LyRoute "jstr option" | LySwitcher switcher_msg | LyOpenCreate | LyCloseCreate | LyForm new_workspace_msg | LyPage 'p

definition nextTheme :: "theme \<Rightarrow> theme" where
  "nextTheme t = (if t = Dark then Light else Dark)"

fun layout_update :: "platform \<Rightarrow> jstr \<Rightarrow> 'p layout_msg \<Rightarrow> layout_state \<Rightarrow> layout_state \<times> effect list" where
  "layout_update E path LyToggleTheme s = (theme_effect (s\<lparr>ly_theme := nextTheme (ly_theme s)\<rparr>), [])"
| "layout_update E path (LyRoute slug) s = (slug_effect slug s, [])"
| "layout_update E path (LySwitcher m) s =
     (case switcher_update m (ly_switcher s) of
        (w, None) \<Rightarrow> (s\<lparr>ly_switcher := w\<rparr>, [])
      | (w, Some (OnSelect slug)) \<Rightarrow> selectWorkspace path slug (s\<lparr>ly_switcher := w\<rparr>)
      | (w, Some OnCreate) \<Rightarrow> (s\<lparr>ly_switcher := w, ly_createOpen := True\<rparr>, []))"
| "layout_update E path LyOpenCreate s = (s\<lparr>ly_createOpen := True\<rparr>, [])"
| "layout_update E path LyCloseCreate s = (s\<lparr>ly_createOpen := False\<rparr>, [])"
| "layout_update E path (LyForm m) s =
     (case create_workspace_update E m (ly_form s) of
        (f, fx, None) \<Rightarrow> (s\<lparr>ly_form := f\<rparr>, fx)
      | (f, fx, Some ws) \<Rightarrow>
          (case onWorkspaceCreated path ws (s\<lparr>ly_form := f, ly_createOpen := False\<rparr>) of (s', gx) \<Rightarrow> (s', fx @ gx)))"
| "layout_update E path (LyPage p) s = (s, [])"


record nav_item =
  nv_to :: jstr
  nv_label :: jstr
  nv_hint :: jstr
  nv_disabled :: bool

abbreviation nav :: "jstr \<Rightarrow> jstr \<Rightarrow> jstr \<Rightarrow> nav_item" where
  "nav to label hint \<equiv> \<lparr>nv_to = to, nv_label = label, nv_hint = hint, nv_disabled = False\<rparr>"

definition productNav :: "nav_item list" where
  "productNav = [nav (js ''/'') ko_dashboard (js ''Overview'')]"

definition systemNav :: "nav_item list" where
  "systemNav = [nav (js ''/settings'') ko_settings_title (js ''Local'')]"

definition workspaceNav :: "workspace option \<Rightarrow> nav_item list" where
  "workspaceNav current =
     (if truthy_str (map_option ws_slug current) then
        (let base = js ''/w/'' @ nullish (map_option ws_slug current) [] in
         [nav (base @ js ''/board'') ko_board_title (nullish (map_option ws_identifier_prefix current) (js ''Issues'')),
          nav (base @ js ''/agents'') ko_agents_title (int_str (nullish (Option.bind current ws_agent_count) 0) @ js '' agents''),
          nav (base @ js ''/autopilot'') ko_autopilot (js ''Cron''),
          nav (base @ js ''/chains'') ko_chain_dashboard (js ''Auto-chain''),
          nav (base @ js ''/runs'') ko_run_feed (js ''All runs'')])
      else
        map (\<lambda>l. \<lparr>nv_to = js ''#'', nv_label = l, nv_hint = ko_ws_needed, nv_disabled = True\<rparr>)
          [ko_board_title, ko_agents_title, ko_autopilot, ko_chain_dashboard, ko_run_feed])"

text \<open>Which link is the active one is the router's business.\<close>

definition NavGroup :: "jstr \<Rightarrow> nav_item list \<Rightarrow> 'm node" where
  "NavGroup title items =
     El ''div'' [cls ''nav-group'']
       [El ''p'' [cls ''nav-group-label''] [Text title],
        El ''nav'' [cls ''nav-list'', A ''aria-label'' title]
          (map (\<lambda>i. let body = [El ''span'' [] [Text (nv_label i)], El ''small'' [] [Text (nv_hint i)]] in
             if nv_disabled i then El ''span'' [cls ''nav-disabled'', B ''aria-disabled'' True] body
             else El ''a'' [A ''href'' (nv_to i), B ''end'' (nv_to i = js ''/'')] body) items)]"

record layout_env =
  lv_slug :: "jstr option"
  lv_path :: jstr
  lv_workspaces :: "workspace list query_result"
  lv_strip :: strip_env
  lv_settings :: "settings_response query_result"
  lv_create :: mutation
  lv_reactId :: jstr

definition layout_current :: "layout_env \<Rightarrow> layout_state \<Rightarrow> workspace option" where
  "layout_current v s = currentWorkspace (nullish (qr_data (lv_workspaces v)) []) (lv_slug v) (ly_last s)"

text \<open>What the layout hands to the page; \<^verbatim>\<open>openCreateWorkspace\<close> is the message \<open>LyOpenCreate\<close>.\<close>

definition layout_context :: "layout_env \<Rightarrow> layout_state \<Rightarrow> outlet_context" where
  "layout_context v s =
     \<lparr>oc_current = layout_current v s, oc_workspaces = nullish (qr_data (lv_workspaces v)) [],
      oc_loading = qr_isLoading (lv_workspaces v), oc_error = qr_error (lv_workspaces v)\<rparr>"

definition DashboardLayout :: "platform \<Rightarrow> layout_env \<Rightarrow> layout_state \<Rightarrow> 'p node list \<Rightarrow> 'p layout_msg node" where
  "DashboardLayout E v s outlet =
     (let wss = nullish (qr_data (lv_workspaces v)) []; current = layout_current v s; slug = map_option ws_slug current;
          loading = qr_isLoading (lv_workspaces v)
      in El ''div'' [cls ''app-shell'']
        ([El ''aside'' [cls ''sidebar'', A ''aria-label'' ko_main_menu]
            ([El ''div'' [cls ''brand'']
                [El ''span'' [cls ''brand-mark'', A ''aria-hidden'' (js ''true'')] [BrandMark None None],
                 El ''div'' []
                   [El ''strong'' [] [T ''Cron Agent''], El ''small'' [] [Text (nullish (map_option ws_name current) (js ''Local dashboard''))]]],
              map_node LySwitcher (WorkspaceSwitcher E wss current loading (ly_switcher s)),
              NavGroup (js ''Product'') productNav, NavGroup (js ''Workspace'') (workspaceNav current), NavGroup (js ''System'') systemNav] @
             WorkspaceActivityStrip E slug (lv_strip v) @
             [El ''div'' [cls ''sidebar-footer'']
                [El ''div'' [cls ''sidebar-status'']
                   [El ''span'' [cls ''status-dot'', A ''aria-hidden'' (js ''true'')] [],
                    El ''span'' []
                      [Text (if loading then js ''Loading workspace''
                        else if truthy_str slug then js ''/'' @ nullish slug [] else js ''No workspace'')]],
                 El ''button'' [cls ''theme-toggle'', A ''type'' (js ''button''), On ''onClick'' LyToggleTheme,
                     A ''aria-label'' (theme_str (nextTheme (ly_theme s)) @ ko_to_theme)]
                   [T (if ly_theme s = Dark then ''Light'' else ''Dark'')]]]),
          El ''main'' [cls ''content''] (map (map_node LyPage) outlet)] @
         CreateWorkspaceDialog E (lv_reactId v) (ly_createOpen s) (lv_settings v) (lv_create v) (ly_form s) LyCloseCreate LyForm))"

subsection \<open>The error boundary and the application\<close>

definition AppErrorFallback :: "thrown option \<Rightarrow> 'm \<Rightarrow> 'm node" where
  "AppErrorFallback error resetErrorBoundary =
     El ''main'' [cls ''app-error-shell'', A ''role'' (js ''main'')]
       [El ''section'' [cls ''panel app-error-card'', A ''aria-label'' ko_render_error]
          ([El ''div'' [cls ''section-heading compact'']
              [El ''div'' [] [El ''p'' [cls ''eyebrow''] [Text ko_recovery], El ''h1'' [] [Text ko_render_failed]],
               El ''span'' [cls ''badge warning''] [T ''error boundary'']]] @
           MutationErrorAlert error (Some ko_render_failed) @
           [El ''p'' [cls ''muted-copy''] [Text ko_render_help],
            El ''div'' [cls ''inline-actions'']
              [El ''button'' [cls ''button'', A ''type'' (js ''button''), On ''onClick'' resetErrorBoundary] [Text ko_try_again_plain],
               El ''a'' [cls ''button secondary'', A ''href'' (js ''/'')] [Text ko_go_home]]])]"

datatype app_page =
    PageHome | PageBoard | PageIssue | PageAgents | PageAgent | PageAutopilot | PageChains | PageRuns | PageSettings

text \<open>The paths of the routes in \<^verbatim>\<open>App.tsx\<close>, in order; every other address is replaced by \<open>FALLBACK_PATH\<close>.\<close>

definition ROUTES :: "(jstr \<times> app_page) list" where
  "ROUTES =
     [(js ''/'', PageHome), (js ''/w/:slug/board'', PageBoard), (js ''/w/:slug/issues/:identifier'', PageIssue),
      (js ''/w/:slug/agents'', PageAgents), (js ''/w/:slug/agents/:id'', PageAgent), (js ''/w/:slug/autopilot'', PageAutopilot),
      (js ''/w/:slug/chains'', PageChains), (js ''/w/:slug/runs'', PageRuns), (js ''/settings'', PageSettings)]"

definition FALLBACK_PATH :: jstr where
  "FALLBACK_PATH = js ''/''"

text \<open>The defaults of the queries in \<^verbatim>\<open>main.tsx\<close>: stale time in milliseconds, retries, refetch on focus.\<close>

definition query_defaults :: "nat \<times> nat \<times> bool" where
  "query_defaults = (5000, 1, True)"


subsection \<open>What the layout remembers\<close>

lemma store_simps [simp]:
  "stored k (store k v (Some st)) = Some v" "k \<noteq> k' \<Longrightarrow> stored k (store k' v w) = stored k w"
  "store k v w = None \<longleftrightarrow> w = None" "(\<exists>y. store k v w = Some y) \<longleftrightarrow> (\<exists>y. w = Some y)"
  by (cases w; simp add: stored_def store_def)+

lemma storage_keys [simp]: "themeStorageKey \<noteq> workspaceStorageKey" "workspaceStorageKey \<noteq> themeStorageKey"
  by (simp_all add: themeStorageKey_def workspaceStorageKey_def)

text \<open>The storage and the document agree with the state.\<close>

definition layout_saved :: "web_storage \<Rightarrow> layout_state \<Rightarrow> bool" where
  "layout_saved st s \<longleftrightarrow>
     ly_window s \<noteq> None \<and> ly_dataTheme s = Some (theme_str (ly_theme s)) \<and>
     stored themeStorageKey (ly_window s) = Some (theme_str (ly_theme s)) \<and>
     nullish (stored workspaceStorageKey (ly_window s)) [] = ly_last s \<and>
     (\<forall>k. k \<noteq> themeStorageKey \<and> k \<noteq> workspaceStorageKey \<longrightarrow> stored k (ly_window s) = localStorage st k)"

lemma saved_slug_effect: "layout_saved st s \<Longrightarrow> layout_saved st (slug_effect slug s)"
  by (auto simp: layout_saved_def slug_effect_def)

lemma saved_theme_effect: "layout_saved st s \<Longrightarrow> layout_saved st (theme_effect (s\<lparr>ly_theme := t\<rparr>))"
  by (auto simp: layout_saved_def theme_effect_def)

lemma saved_select: "layout_saved st s \<Longrightarrow> layout_saved st (fst (selectWorkspace path slug s))"
  by (auto simp: layout_saved_def selectWorkspace_def Let_def)

lemma saved_fields [simp]:
  "layout_saved st (s\<lparr>ly_switcher := w\<rparr>) = layout_saved st s" "layout_saved st (s\<lparr>ly_createOpen := b\<rparr>) = layout_saved st s"
  "layout_saved st (s\<lparr>ly_form := f\<rparr>) = layout_saved st s"
  by (simp_all add: layout_saved_def)

lemma saved_start: "layout_saved st (layout_start (Some st) slug)"
  unfolding layout_start_def
  by (rule saved_slug_effect) (auto simp: layout_saved_def theme_effect_def layout_initial_def stored_def store_def)

lemma saved_update: "layout_saved st s \<Longrightarrow> layout_saved st (fst (layout_update E path m s))"
proof (cases m)
  case (LySwitcher x)
  assume s: "layout_saved st s"
  have "layout_saved st (fst (selectWorkspace path slug (s\<lparr>ly_switcher := w\<rparr>)))" for slug w
    by (rule saved_select) (simp add: s)
  then show ?thesis using s by (auto simp: LySwitcher split: prod.split option.split switcher_call.split)
next
  case (LyForm x)
  assume s: "layout_saved st s"
  have "layout_saved st (fst (onWorkspaceCreated path ws (s\<lparr>ly_form := f, ly_createOpen := False\<rparr>)))" for ws f
    using saved_select [of st "s\<lparr>ly_form := f, ly_createOpen := False\<rparr>"] s
    by (simp add: onWorkspaceCreated_def case_prod_beta)
  then show ?thesis using s by (auto simp: LyForm case_prod_beta split: option.split)
qed (auto simp: saved_slug_effect saved_theme_effect)

interpretation layout: reloadable "\<lambda>(path, m). layout_update E path m" "\<lambda>_. True" "layout_saved st"
  "\<lambda>s. layout_initial (ly_window s)" "\<lambda>s. (ly_theme s, ly_last s)"
  for E st
proof
  fix s assume "layout_saved st s"
  then show "(ly_theme (layout_initial (ly_window s)), ly_last (layout_initial (ly_window s))) = (ly_theme s, ly_last s)"
    by (cases "ly_theme s") (auto simp: layout_saved_def layout_initial_def)
qed (auto simp: saved_update)


subsection \<open>The current workspace\<close>

lemma currentWorkspace_in: "currentWorkspace wss slug l = Some ws \<Longrightarrow> ws \<in> set wss"
  by (auto simp: currentWorkspace_def simp del: find.simps split: list.splits option.splits dest!: find_Some_in)

lemma find_slug: "find P xs = None \<longleftrightarrow> (\<forall>x \<in> set xs. \<not> P x)"
  by (auto simp: find_None_iff)




subsection \<open>Switching keeps two of the sections\<close>

lemma split_workspace_path:
  "47 \<notin> set a \<Longrightarrow> split_on 47 (js ''/w/'' @ a @ 47 # rest) = [] # js ''w'' # a # split_on 47 rest"
proof -
  assume "47 \<notin> set a"
  then have "split_on 47 (a @ 47 # rest) = a # split_on 47 rest" by (rule split_on_append_sep)
  then show ?thesis by (simp add: js_def)
qed

text \<open>Switching the workspace keeps the section of the agents and of the rules; every other section of a
  workspace, also its chains and its runs, is left for the board.\<close>

lemma scoped_path:
  assumes "a \<noteq> []" "47 \<notin> set a" "sec \<noteq> []" "47 \<notin> set sec"
  shows "workspaceScopedPath (js ''/w/'' @ a @ 47 # sec) b =
    js ''/w/'' @ b @ (if sec = js ''agents'' then js ''/agents'' else if sec = js ''autopilot'' then js ''/autopilot'' else js ''/board'')"
proof -
  have "startsWith (js ''/w/'' @ a @ 47 # sec) (js ''/w/'')" by (rule startsWith_append)
  moreover have "js ''w'' \<noteq> []" by simp
  ultimately show ?thesis using assms by (simp add: workspaceScopedPath_def split_workspace_path split_on_free)
qed


subsection \<open>A new workspace\<close>

text \<open>After the server has created a workspace the dialog is closed and empty again, the list of workspaces is
  fetched anew, the workspace is the one used last and its board is where the page ends up.\<close>

lemma workspace_created:
  "layout_update E path (LyForm (NwCreated ws)) s = (s', fx) \<Longrightarrow>
     ly_form s' = initialForm \<and> \<not> ly_createOpen s' \<and> ly_last s' = ws_slug ws \<and> calls fx = [] \<and>
     Invalidate [kname ''workspaces''] \<in> set fx \<and> last fx = Navigate (js ''/w/'' @ ws_slug ws @ js ''/board'')"
  by (auto simp: onWorkspaceCreated_def selectWorkspace_def Let_def)

text \<open>The frame sends a request only when the form of the dialog is submitted.\<close>

lemma layout_requests:
  "calls (snd (layout_update E path m s)) \<noteq> [] \<longleftrightarrow> m = LyForm NwSubmit"
proof (cases m)
  case (LySwitcher x)
  then show ?thesis by (cases x) (simp_all add: selectWorkspace_def Let_def)
next
  case (LyForm x)
  then show ?thesis by (cases x) (simp_all add: onWorkspaceCreated_def selectWorkspace_def Let_def)
qed simp_all

end
