(* ===== verification/Routes.thy ===== *)
theory Routes
  imports Shell Board
begin

section \<open>Every link leads to a page\<close>

text \<open>
  Puts the route table of \<^verbatim>\<open>web/src/App.tsx\<close> beside the addresses the components link to and navigate to. A
  path of the table is a list of segments, each a literal or a parameter; an address fits it when it
  has as many segments, equal to the literals and not empty at the parameters. That an address that
  fits is routed to the page is the documented behaviour of the router, whose code is not under \<^verbatim>\<open>src/\<close>.
\<close>

datatype seg = Lit jstr | Param

definition seg_of :: "jstr \<Rightarrow> seg" where
  "seg_of p = (case p of [] \<Rightarrow> Lit [] | c # _ \<Rightarrow> if c = 58 then Param else Lit p)"

fun seg_fits :: "seg \<Rightarrow> jstr \<Rightarrow> bool" where
  "seg_fits (Lit p) s \<longleftrightarrow> s = p"
| "seg_fits Param s \<longleftrightarrow> s \<noteq> []"

definition route_segs :: "jstr \<Rightarrow> seg list" where
  "route_segs path = map seg_of (split_on 47 path)"

text \<open>The page an address leads to, if any.\<close>

definition page_at :: "jstr \<Rightarrow> app_page option" where
  "page_at url = map_option snd (find (\<lambda>(path, page). list_all2 seg_fits (route_segs path) (split_on 47 url)) ROUTES)"

definition segment :: "jstr \<Rightarrow> bool" where
  "segment s \<longleftrightarrow> s \<noteq> [] \<and> 47 \<notin> set s"

lemma route_table:
  "map (\<lambda>(path, page). (route_segs path, page)) ROUTES =
     [([Lit [], Lit []], PageHome), ([Lit [], Lit (js ''w''), Param, Lit (js ''board'')], PageBoard),
      ([Lit [], Lit (js ''w''), Param, Lit (js ''issues''), Param], PageIssue), ([Lit [], Lit (js ''w''), Param, Lit (js ''agents'')], PageAgents),
      ([Lit [], Lit (js ''w''), Param, Lit (js ''agents''), Param], PageAgent), ([Lit [], Lit (js ''w''), Param, Lit (js ''autopilot'')], PageAutopilot),
      ([Lit [], Lit (js ''w''), Param, Lit (js ''chains'')], PageChains), ([Lit [], Lit (js ''w''), Param, Lit (js ''runs'')], PageRuns),
      ([Lit [], Lit (js ''settings'')], PageSettings)]"
  by (simp add: ROUTES_def route_segs_def seg_of_def js_def)

lemma page_at_segs:
  "page_at url = map_option snd (find (\<lambda>(segs, page). list_all2 seg_fits segs (split_on 47 url))
     (map (\<lambda>(path, page). (route_segs path, page)) ROUTES))"
proof -
  have "map_option snd (find (\<lambda>(segs, page). P segs) (map (\<lambda>(path, page). (f path, page)) xs)) =
      map_option snd (find (\<lambda>(path, page). P (f path)) xs)" for P f and xs :: "(jstr \<times> app_page) list"
    by (induction xs) auto
  then show ?thesis unfolding page_at_def by (rule sym)
qed

lemma tails:
  "js ''/board'' = 47 # js ''board''" "js ''/agents'' = 47 # js ''agents''" "js ''/autopilot'' = 47 # js ''autopilot''"
  "js ''/chains'' = 47 # js ''chains''" "js ''/runs'' = 47 # js ''runs''"
  "js ''/issues/'' @ b = 47 # js ''issues'' @ 47 # b" "js ''/agents/'' @ b = 47 # js ''agents'' @ 47 # b"
  "47 \<notin> set (js ''board'')" "47 \<notin> set (js ''agents'')" "47 \<notin> set (js ''autopilot'')" "47 \<notin> set (js ''chains'')"
  "47 \<notin> set (js ''runs'')" "47 \<notin> set (js ''issues'')"
  by (simp_all add: js_def)

lemma page_of_workspace:
  "segment a \<Longrightarrow> page_at (js ''/w/'' @ a @ 47 # rest) =
     map_option snd (find (\<lambda>(segs, page). list_all2 seg_fits segs ([] # js ''w'' # a # split_on 47 rest))
       (map (\<lambda>(path, page). (route_segs path, page)) ROUTES))"
  by (simp add: page_at_segs split_workspace_path segment_def)

text \<open>The addresses of the pages.\<close>

lemma pages:
  "page_at (js ''/'') = Some PageHome" "page_at (js ''/settings'') = Some PageSettings"
  "segment a \<Longrightarrow> page_at (js ''/w/'' @ a @ js ''/board'') = Some PageBoard"
  "segment a \<Longrightarrow> page_at (js ''/w/'' @ a @ js ''/agents'') = Some PageAgents"
  "segment a \<Longrightarrow> page_at (js ''/w/'' @ a @ js ''/autopilot'') = Some PageAutopilot"
  "segment a \<Longrightarrow> page_at (js ''/w/'' @ a @ js ''/chains'') = Some PageChains"
  "segment a \<Longrightarrow> page_at (js ''/w/'' @ a @ js ''/runs'') = Some PageRuns"
  "segment a \<Longrightarrow> segment b \<Longrightarrow> page_at (js ''/w/'' @ a @ js ''/issues/'' @ b) = Some PageIssue"
  "segment a \<Longrightarrow> segment b \<Longrightarrow> page_at (js ''/w/'' @ a @ js ''/agents/'' @ b) = Some PageAgent"
proof -
  have "split_on 47 (js ''/'') = [[], []]" "split_on 47 (js ''/settings'') = [[], js ''settings'']" by (simp_all add: js_def)
  then show "page_at (js ''/'') = Some PageHome" "page_at (js ''/settings'') = Some PageSettings"
    by (simp_all add: page_at_segs route_table)
qed (simp_all add: tails page_of_workspace route_table split_on_append_sep split_on_free, simp_all add: segment_def split_on_free)


subsection \<open>Links\<close>

lemma links_Modal: "links_of (Modal t d b c ch f) = (if b then links_of ch @ (case f of None \<Rightarrow> [] | Some x \<Rightarrow> links_of x) else [])"
  by (auto simp: Modal_def links_simps split: option.split)

lemma links_widgets [simp]:
  "attr_values ''href'' (StatusPill E k st p) = []" "attr_values ''href'' (BrandMark sz ti) = []"
  "attr_values ''href'' (PageHeader eb he de ns) = links_of ns" "attr_values ''href'' (RuntimeBadge E rt rs) = []"
  "attr_values ''href'' (labelled lb ns) = links_of ns" "attr_values ''href'' (check_row c h lb) = []"
  "attr_values ''href'' (text_input as v g) = concat (map (attr_value ''href'') as)" "links_of (MutationErrorAlert er ti) = []"
  by (simp_all add: StatusPill_def BrandMark_def PageHeader_def RuntimeBadge_def labelled_def check_row_def text_input_def
      MutationErrorAlert_def links_simps Let_def)

lemma links_inputs [simp]:
  "attr_values ''href'' (runtime_select rt f E q) = []" "attr_values ''href'' (ModelSelect ri rt v h b lb hp) = []"
  "links_of (AuthTokenPanel er au lift) = []" "attr_values ''href'' (refresh_button q' act) = []"
  "attr_values ''href'' (select_input v h os) = []"
  by (simp_all add: runtime_select_def ModelSelect_def AuthTokenPanel_def refresh_button_def select_input_def option_node_def links_simps Let_def)

lemma links_switcher [simp]: "attr_values ''href'' (WorkspaceSwitcher E wss cur ld sw) = []"
  by (auto simp: WorkspaceSwitcher_def workspace_option_def links_simps Let_def)

lemma links_dialog [simp]: "links_of (CreateWorkspaceDialog E ri b st cr fm cl lift) = []"
  by (simp add: CreateWorkspaceDialog_def links_Modal links_simps Let_def)

lemma links_NavGroup: "attr_values ''href'' (NavGroup t items) = map nv_to (filter (\<lambda>i. \<not> nv_disabled i) items)"
  by (simp add: NavGroup_def links_of_map Let_def) (induction items; simp)


subsection \<open>The links of the pages\<close>

definition routed :: "jstr set" where
  "routed = {url. page_at url \<noteq> None}"

definition issues_named :: "issue list query_result \<Rightarrow> bool" where
  "issues_named q \<longleftrightarrow> (\<forall>i \<in> set (nullish (qr_data q) []). segment (issue_identifier i))"

lemma routed_simps [simp]:
  "js ''/'' \<in> routed" "js ''/settings'' \<in> routed"
  "segment a \<Longrightarrow> js ''/w/'' @ a @ js ''/board'' \<in> routed" "segment a \<Longrightarrow> js ''/w/'' @ a @ js ''/agents'' \<in> routed"
  "segment a \<Longrightarrow> js ''/w/'' @ a @ js ''/autopilot'' \<in> routed" "segment a \<Longrightarrow> js ''/w/'' @ a @ js ''/chains'' \<in> routed"
  "segment a \<Longrightarrow> js ''/w/'' @ a @ js ''/runs'' \<in> routed"
  "segment a \<Longrightarrow> segment b \<Longrightarrow> issue_link a b \<in> routed"
  by (simp_all add: routed_def pages issue_link_def)

lemma links_strip:
  assumes "segment slug" "issues_named (te_running v)" "issues_named (te_queued v)" "issues_named (te_review v)"
  shows "set (links_of (WorkspaceActivityStrip E (Some slug) v)) \<subseteq> routed"
proof -
  have "set (review_pending v) \<subseteq> set (nullish (qr_data (te_review v)) [])" by (auto simp: review_pending_def)
  then have "i \<in> set (take 1 (take 1 (nullish (qr_data (te_running v)) []) @ take 1 (nullish (qr_data (te_queued v)) []) @ review_pending v)) \<Longrightarrow>
      segment (issue_identifier i)" for i
    using assms by (auto simp: issues_named_def dest!: in_set_takeD)
  then show ?thesis using assms(1) by (auto simp: links_of_def strip_most_relevant)
qed

lemma links_layout:
  assumes "\<forall>ws \<in> set (nullish (qr_data (lv_workspaces v)) []). segment (ws_slug ws)"
    and "issues_named (te_running (lv_strip v))" "issues_named (te_queued (lv_strip v))" "issues_named (te_review (lv_strip v))"
  shows "set (attr_values ''href'' (DashboardLayout E v s outlet)) \<subseteq> routed \<union> set (links_of outlet)"
proof (cases "layout_current v s")
  case None
  have "WorkspaceActivityStrip E None (lv_strip v) = ([] :: 'a layout_msg node list)" by (simp add: WorkspaceActivityStrip_def)
  then show ?thesis
    by (auto simp: DashboardLayout_def Let_def None links_NavGroup productNav_def systemNav_def workspaceNav_def)
next
  case (Some ws)
  then have seg: "segment (ws_slug ws)" using assms(1) currentWorkspace_in by (metis layout_current_def)
  have "set (links_of (WorkspaceActivityStrip E (Some (ws_slug ws)) (lv_strip v) :: 'a layout_msg node list)) \<subseteq> routed"
    by (rule links_strip) (simp_all add: seg assms)
  then show ?thesis using seg
    by (auto simp: DashboardLayout_def Let_def Some links_NavGroup productNav_def systemNav_def workspaceNav_def)
qed

lemma links_home:
  assumes "\<forall>ws. oc_current (hv_context h) = Some ws \<longrightarrow> segment (ws_slug ws)" and "issues_named (hv_issues h)"
    and "\<forall>a \<in> set (nullish (qr_data (hv_activity h)) []). truthy_str (aa_latest_issue_identifier a) \<longrightarrow> segment (nullish (aa_latest_issue_identifier a) [])"
  shows "set (attr_values ''href'' (HomePage E h hs)) \<subseteq> routed"
proof -
  have seg: "segment (js ''undefined'')" by (simp add: segment_def js_def)
  let ?c = "hv_context h"
  have slug: "segment (tpl (map_option ws_slug (oc_current ?c)))"
    using assms(1) seg by (cases "oc_current ?c") (simp_all add: tpl_def)
  have row: "set (attr_values ''href'' (preview_row ?c i :: home_msg node)) \<subseteq> routed" if "i \<in> set (recentIssues b (nullish (qr_data (hv_issues h)) []))" for i b
  proof -
    have "i \<in> set (nullish (qr_data (hv_issues h)) [])" using that by (auto simp: recentIssues_def dest: in_set_takeD split: if_splits)
    then show ?thesis using slug assms(2) by (simp add: preview_row_def issues_named_def)
  qed
  have link: "set (attr_values ''href'' (section_link c ws t ns :: home_msg node)) \<subseteq> routed"
    if "oc_current ?c = Some ws" "t \<in> {''board'', ''agents'', ''autopilot''}" "links_of ns = []" for c ws t ns
  proof -
    have "js ''/'' @ js ''board'' = js ''/board''" "js ''/'' @ js ''agents'' = js ''/agents''" "js ''/'' @ js ''autopilot'' = js ''/autopilot''"
      by (simp_all add: js_def)
    then show ?thesis using that assms(1) by (auto simp: section_link_def)
  qed
  have preview: "set (attr_values ''href'' (preview_panel E h hs)) \<subseteq> routed"
    using row link by (cases "oc_current ?c") (auto simp: preview_panel_def Let_def links_simps create_button_def)
  have quick: "set (attr_values ''href'' (quick_actions (oc_current ?c))) \<subseteq> routed"
    using link by (cases "oc_current ?c") (auto simp: quick_actions_def)
  have hero: "set (attr_values ''href'' (hero_copy h)) \<subseteq> routed"
    using link by (cases "oc_current ?c") (auto simp: hero_copy_def Let_def create_button_def)
  have quiet: "attr_values ''href'' (live_card h) = []" "attr_values ''href'' (metric_cards h) = []" "attr_values ''href'' (command_panel h) = []"
    by (simp_all add: live_card_def metric_cards_def command_panel_def Let_def links_of_map case_prod_beta)
  have pulse: "set (links_of (TeamPulseWidget E (map_option ws_slug (oc_current ?c)) (hv_activity h) :: home_msg node list)) \<subseteq> routed"
    using assms(1,3)
    by (cases "oc_current ?c") (auto simp: TeamPulseWidget_def Let_def links_simps pulse_row_def pulse_items_def)
  show ?thesis using preview quick hero quiet pulse by (auto simp: HomePage_def Let_def links_render_if)
qed


lemma links_agents:
  assumes "segment slug" "\<forall>a \<in> set (nullish (qr_data (ge_agents g)) []). segment (ag_id a)" "ge_slug g = Some slug"
  shows "page_at ` set (attr_values ''href'' (AgentsPage E g st)) \<subseteq> {Some PageAgent}"
proof -
  have "links_of (CreateAgentDialog E ri b sl q cr fm cl lift) = []" for ri b sl q cr fm and cl :: agents_msg and lift
    by (simp add: CreateAgentDialog_def links_Modal links_simps)
  moreover have "page_at (js ''/w/'' @ slug @ js ''/agents/'' @ ag_id a) = Some PageAgent"
    if "a \<in> set (visibleAgents E f qy (nullish (qr_data (ge_agents g)) []))" for a f qy
    using that assms by (intro pages) (auto simp: visibleAgents_def)
  ultimately show ?thesis using assms(3)
    by (auto simp: AgentsPage_def Let_def links_simps agent_row_def tpl_def case_prod_beta split: if_splits)
qed

lemma links_runs:
  assumes "segment slug" "rv_slug v = Some slug"
    and "\<forall>r \<in> set (nullish (qr_data (rv_runs v)) []). truthy_str (run_issue_id r) \<longrightarrow> segment (nullish (run_issue_id r) [])"
  shows "set (attr_values ''href'' (WorkspaceRunsPage E v s)) \<subseteq> insert (js ''#'') {url. page_at url = Some PageIssue}"
proof -
  have row: "set (attr_values ''href'' (RunRow E slug r :: runs_msg node)) \<subseteq> insert (js ''#'') {url. page_at url = Some PageIssue}"
    if "r \<in> set (filtered_runs E s (rv_runs v))" for r
    using that assms by (auto simp: RunRow_def run_target_def filtered_runs_def issue_link_def pages)
  show ?thesis using row assms(2)
    by (auto simp: WorkspaceRunsPage_def Let_def links_simps loading_panel_def empty_panel_def runs_filters_def)
qed

text \<open>No link of the dashboard is dead. When the slugs of the workspaces and the identifiers the server sends
  are segments of an address (not empty, without a slash), every link of the frame and of the home
  page inside it, with the current workspace the frame hands to it, fits a route of the table; the
  rows of the agents lead to the agent page, the rows of the run feed to the issue page (or nowhere,
  for a run without an issue), the cards of the board to the issue page, and the address the switch of
  the workspace goes to has a page too.\<close>

lemma links_lead_to_pages:
  assumes "\<forall>ws \<in> set (nullish (qr_data (lv_workspaces v)) []). segment (ws_slug ws)" and "segment slug"
    and "issues_named (te_running (lv_strip v))" "issues_named (te_queued (lv_strip v))" "issues_named (te_review (lv_strip v))"
    and "issues_named (hv_issues h)" "segment (issue_identifier i)"
    and "\<forall>a \<in> set (nullish (qr_data (hv_activity h)) []). truthy_str (aa_latest_issue_identifier a) \<longrightarrow> segment (nullish (aa_latest_issue_identifier a) [])"
    and "\<forall>a \<in> set (nullish (qr_data (ge_agents g)) []). segment (ag_id a)"
    and "\<forall>r \<in> set (nullish (qr_data (rv_runs f)) []). truthy_str (run_issue_id r) \<longrightarrow> segment (nullish (run_issue_id r) [])"
  shows "set (attr_values ''href'' (DashboardLayout E v s [HomePage E (h\<lparr>hv_context := layout_context v s\<rparr>) hs])) \<subseteq> routed \<and>
    page_at ` set (attr_values ''href'' (AgentsPage E (g\<lparr>ge_slug := Some slug\<rparr>) gs)) \<subseteq> {Some PageAgent} \<and>
    set (attr_values ''href'' (WorkspaceRunsPage E (f\<lparr>rv_slug := Some slug\<rparr>) rs)) \<subseteq> insert (js ''#'') {url. page_at url = Some PageIssue} \<and>
    map page_at (attr_values ''href'' (IssueCard E i (Some slug) d)) = [Some PageIssue] \<and>
    {url. Navigate url \<in> set (snd (selectWorkspace path slug s'))} \<subseteq> routed"
proof -
  have "segment (ws_slug ws)" if "oc_current (layout_context v s) = Some ws" for ws
    using that assms(1) currentWorkspace_in by (fastforce simp: layout_context_def layout_current_def)
  then have home: "set (attr_values ''href'' (HomePage E (h\<lparr>hv_context := layout_context v s\<rparr>) hs)) \<subseteq> routed"
    by (intro links_home) (simp_all add: assms(6,8))
  have "set (attr_values ''href'' (DashboardLayout E v s [HomePage E (h\<lparr>hv_context := layout_context v s\<rparr>) hs])) \<subseteq>
      routed \<union> set (links_of [HomePage E (h\<lparr>hv_context := layout_context v s\<rparr>) hs])"
    by (rule links_layout) (rule assms)+
  then have 1: "set (attr_values ''href'' (DashboardLayout E v s [HomePage E (h\<lparr>hv_context := layout_context v s\<rparr>) hs])) \<subseteq> routed"
    using home by auto
  have 2: "page_at ` set (attr_values ''href'' (AgentsPage E (g\<lparr>ge_slug := Some slug\<rparr>) gs)) \<subseteq> {Some PageAgent}"
    by (rule links_agents [OF assms(2)]) (simp_all add: assms(9))
  have 3: "set (attr_values ''href'' (WorkspaceRunsPage E (f\<lparr>rv_slug := Some slug\<rparr>) rs)) \<subseteq> insert (js ''#'') {url. page_at url = Some PageIssue}"
    by (rule links_runs [OF assms(2)]) (simp_all add: assms(10))
  have 4: "map page_at (attr_values ''href'' (IssueCard E i (Some slug) d)) = [Some PageIssue]"
    using assms(2,7) by (simp add: IssueCard_def Let_def links_simps issue_path_def tpl_def pages)
  have 5: "{url. Navigate url \<in> set (snd (selectWorkspace path slug s'))} \<subseteq> routed"
    using assms(2) by (auto simp: selectWorkspace_def workspaceScopedPath_def Let_def)
  show ?thesis using 1 2 3 4 5 by blast
qed


text \<open>A workspace with one running issue.\<close>

definition sample_issues :: "issue list query_result" where
  "sample_issues = loaded_query (Some [bare_issue (js ''i1'') (js ''W-1'') IOpen ERunning])"

definition sample_layout :: layout_env where
  "sample_layout =
     \<lparr>lv_slug = Some (js ''w''), lv_path = js ''/w/w/board'', lv_workspaces = loaded_query (Some [sample_workspace]),
      lv_strip = \<lparr>te_running = sample_issues, te_queued = loaded_query None, te_review = loaded_query (Some [])\<rparr>,
      lv_settings = loaded_query None, lv_create = idle_mutation, lv_reactId = js ''r1''\<rparr>"

definition sample_home :: home_env where
  "sample_home =
     \<lparr>hv_health = loaded_query None, hv_context = layout_context sample_layout (layout_initial None), hv_issues = sample_issues,
      hv_activity = loaded_query (Some [])\<rparr>"

lemma links_lead_to_pages_instance:
  "set (attr_values ''href'' (DashboardLayout ascii_platform sample_layout (layout_initial None)
     [HomePage ascii_platform (sample_home\<lparr>hv_context := layout_context sample_layout (layout_initial None)\<rparr>) (home_start None)])) \<subseteq> routed"
proof -
  have seg: "segment (js ''w'')" "segment (js ''W-1'')" by (simp_all add: segment_def js_def)
  show ?thesis
    by (rule links_lead_to_pages [where slug = "js ''w''" and i = "bare_issue (js ''i1'') (js ''W-1'') IOpen ERunning"
          and g = "\<lparr>ge_slug = None, ge_agents = loaded_query None, ge_settings = loaded_query None, ge_create = idle_mutation, ge_reactId = []\<rparr>"
          and f = "\<lparr>rv_slug = None, rv_runs = loaded_query None, rv_agents = loaded_query None\<rparr>", THEN conjunct1])
      (simp_all add: sample_layout_def sample_home_def sample_issues_def issues_named_def bare_issue_def sample_workspace_def seg)
qed

end
