(* ===== verification/Freshness.thy ===== *)
theory Freshness
  imports Routes IssueDetail Autopilot
begin

section \<open>What a successful change refreshes\<close>

text \<open>
  Every page marks cached queries stale after a change of its own. This theory puts the keys the pages of
  \<^verbatim>\<open>web/src/pages\<close> invalidate beside the keys of the hooks of \<^verbatim>\<open>web/src/api/queries.ts\<close>: which lists are
  fetched anew after a change, and which keep showing what they showed.
\<close>

definition refreshes :: "effect list \<Rightarrow> query \<Rightarrow> bool" where
  "refreshes fx q = marks_stale fx (q_key q)"

text \<open>Changes of a workspace, an agent, a rule, a webhook or an issue, each with a query that shows what was changed.\<close>

definition agent_changes :: "jstr option \<Rightarrow> jstr option \<Rightarrow> new_agent \<Rightarrow> agent_page \<Rightarrow> jstr \<Rightarrow> (effect list \<times> query) list" where
  "agent_changes slug i f s k =
     (let created = fst (snd (create_agent_update slug NaCreated f)); page = (\<lambda>m. snd (agent_page_update i slug m s)) in
      [(created, useAgentsQuery slug), (created, useWorkspacesQuery),
       (page AgentSaved, useAgentQuery i), (page AgentSaved, useAgentInstructionVersionsQuery i), (page AgentSaved, useAgentsQuery slug),
       (page AgentPromoted, useAgentQuery i), (page AgentPromoted, useAgentsQuery slug),
       (page (SkillCreated k), useWorkspaceSkillsQuery slug), (page SkillsChanged, useAgentSkillsQuery i)])"

definition workspace_changes ::
  "platform \<Rightarrow> (jstr \<Rightarrow> bool) \<Rightarrow> workspace \<Rightarrow> row_state \<Rightarrow> webhook_state \<Rightarrow> jstr \<Rightarrow> nat option \<Rightarrow> new_workspace \<Rightarrow> (effect list \<times> query) list" where
  "workspace_changes E confirm ws r w hook n f =
     (let saved = snd (row_update confirm ws RSaved r); created = fst (snd (create_workspace_update E (NwCreated ws) f));
          page = (\<lambda>m. snd (webhook_update confirm (ws_slug ws) m w)) in
      [(saved, useWorkspacesQuery), (saved, useWorkspaceQuery (Some (ws_slug ws))), (created, useWorkspacesQuery),
       (page WCreated, useWorkspaceWebhooksQuery (Some (ws_slug ws))), (page WDeleted, useWorkspaceWebhooksQuery (Some (ws_slug ws))),
       (page (WRedelivered hook), useWebhookDeliveriesQuery (Some hook) n),
       (page (WRedelivered hook), useWorkspaceWebhooksQuery (Some (ws_slug ws)))])"

definition issue_changes ::
  "jstr option \<Rightarrow> search_params \<Rightarrow> issue \<Rightarrow> issue_status \<Rightarrow> board_state \<Rightarrow> issues_query_params \<Rightarrow> (effect list \<times> query) list" where
  "issue_changes slug u i st s p =
     map (\<lambda>m. (snd (board_update slug u m s), useIssuesQuery slug p)) [DialogMsg CiSuccess, UpdateStatusOk i st, CancelExecutionOk i]"

definition rule_changes :: "platform \<Rightarrow> jstr option \<Rightarrow> autopilot_state \<Rightarrow> thrown \<Rightarrow> autopilot_rule \<Rightarrow> (effect list \<times> query) list" where
  "rule_changes E slug s e r =
     map (\<lambda>m. (snd (autopilot_update E slug m s), useAutopilotRulesQuery slug)) [RulesChanged, FormMsg FSaved, TriggerFailed e r]"

text \<open>The list of workspaces holds the counts of agents and of open issues that the frame and the home page show. What
  never invalidates it:\<close>

lemma marks_map_run_events [simp]: "\<not> marks_stale (run_events_stale v) [kname ''workspaces'']"
  by (simp add: marks_run_events key_covers_def)

lemmas stale_defs = marks_stale_def key_covers_def query_defs

lemma board_never: "\<not> refreshes (snd (board_update slug u m s)) useWorkspacesQuery"
proof (cases m)
  case (DialogMsg d)
  then show ?thesis by (cases d) (simp_all add: refreshes_def stale_defs Let_def)
qed (auto simp: refreshes_def stale_defs executePendingAction_def invalidateIssues_def split: option.split pending_action.split)

lemma agent_page_never: "\<not> refreshes (snd (agent_page_update i slug m s)) useWorkspacesQuery"
  by (cases m) (simp_all add: refreshes_def stale_defs agent_stale_def skills_stale_def Let_def)

lemma attachments_never: "\<not> marks_stale (snd (attachments_update i c m s)) [kname ''workspaces'']"
  by (cases m) (auto simp: stale_defs split: option.split)

lemma chain_never: "\<not> marks_stale (chain_update i ws c m) [kname ''workspaces'']"
  by (cases m) (auto simp: stale_defs invalidateAfterAction_def)

lemma invalidate_never:
  "\<not> marks_stale (invalidateIssue v) [kname ''workspaces'']" "\<not> marks_stale (stream_stale v) [kname ''workspaces'']"
  "\<not> marks_stale (pollRealtimeFallback v) [kname ''workspaces'']" "\<not> marks_stale (refreshIssue v) [kname ''workspaces'']"
  "\<not> marks_stale (done_effects v ok failed err) [kname ''workspaces'']" "\<not> marks_stale (runConfirmedAction v s) [kname ''workspaces'']"
  by (auto simp: invalidateIssue_def stream_stale_def pollRealtimeFallback_def refreshIssue_def done_effects_def
      runConfirmedAction_def key_covers_def split: option.split)

lemma toasts_never: "\<not> marks_stale (map (\<lambda>x. ShowToast t a (b x)) xs) key"
  by (induction xs) simp_all

lemma uploads_never: "\<not> marks_stale (snd (continue_uploads v data fs s)) [kname ''workspaces'']"
  by (cases fs) (auto simp: comment_success_def invalidate_never toasts_never key_covers_def split: option.split)

lemma detail_never: "\<not> refreshes (snd (detail_update E v m s)) useWorkspacesQuery"
proof -
  note never = uploads_never invalidate_never attachments_never chain_never
  have "\<not> marks_stale (snd (detail_update E v m s)) [kname ''workspaces'']"
  proof (cases m)
    case (CommentPosted data)
    then show ?thesis by (simp add: never split: comment_flight.split)
  next
    case (CommentFailed e)
    then show ?thesis by (simp split: comment_flight.split)
  next
    case (FileUploaded err)
    then show ?thesis by (auto simp: never case_prod_beta Let_def split: comment_flight.split option.split)
  next
    case (AttachmentMsg a)
    then show ?thesis by (simp add: never case_prod_beta Let_def)
  next
    case (LogMsg r x)
    then show ?thesis by (simp split: option.split)
  qed (auto simp: never)
  then show ?thesis by (simp add: refreshes_def useWorkspacesQuery_def)
qed


end
