(* ===== verification/DrainLoop.thy ===== *)
theory DrainLoop
  imports EventStream "HOL-Library.While_Combinator"
begin

section \<open>The draining loop as it is written\<close>

text \<open>
  \<^verbatim>\<open>drainSSEBuffer\<close> of \<^verbatim>\<open>web/src/api/client.ts\<close> is a \<^verbatim>\<open>while (true)\<close> that only a \<^verbatim>\<open>return\<close> leaves. Its body is one
  step on the cursor, the events dispatched so far and the value returned; the loop runs the body as
  long as nothing is returned, and may a priori run forever. It ends for every buffer, with the result
  of the recursive definition the other theories use.
\<close>

type_synonym drain_state = "nat \<times> sse_event list \<times> jstr option"

definition drain_body :: "jstr \<Rightarrow> drain_state \<Rightarrow> drain_state" where
  "drain_body normalized st =
     (case st of (cursor, events, returned) \<Rightarrow>
        (case indexOf normalized [LF, LF] cursor of
           None \<Rightarrow> (cursor, events, Some (drop cursor normalized))
         | Some idx \<Rightarrow> (idx + 2, events @ dispatchSSEBlock (slice cursor idx normalized), None)))"

definition drain_running :: "drain_state \<Rightarrow> bool" where
  "drain_running st \<longleftrightarrow> snd (snd st) = None"

definition drain_while :: "jstr \<Rightarrow> drain_state option" where
  "drain_while buffer = while_option drain_running (drain_body (normalize_newlines buffer)) (0, [], None)"

text \<open>The number of turns: one for each blank line, and the last.\<close>

lemma drain_turns:
  "\<exists>n c'. (drain_body s ^^ n) (c, es, None) = (c', es @ fst (drain_loop s c), Some (snd (drain_loop s c))) \<and>
     (\<forall>k < n. drain_running ((drain_body s ^^ k) (c, es, None))) \<and> 2 * n \<le> length s - c + 2"
proof (induction s c arbitrary: es rule: drain_loop.induct)
  case (1 s c)
  show ?case
  proof (cases "indexOf s [LF, LF] c")
    case None
    then have "drain_loop s c = ([], drop c s)" by (simp add: drain_loop.simps [of s c])
    then show ?thesis using None
      by (intro exI [of _ 1] exI [of _ c]) (simp add: drain_body_def drain_running_def)
  next
    case (Some i)
    let ?es = "es @ dispatchSSEBlock (slice c i s)"
    from "1.IH" [OF Some, of ?es] obtain n c' where
      end_state: "(drain_body s ^^ n) (i + 2, ?es, None) = (c', ?es @ fst (drain_loop s (i + 2)), Some (snd (drain_loop s (i + 2))))"
      and running: "\<forall>k < n. drain_running ((drain_body s ^^ k) (i + 2, ?es, None))"
      and bound: "2 * n \<le> length s - (i + 2) + 2" by blast
    have step: "drain_body s (c, es, None) = (i + 2, ?es, None)" by (simp add: drain_body_def Some)
    have loop: "drain_loop s c = (dispatchSSEBlock (slice c i s) @ fst (drain_loop s (i + 2)), snd (drain_loop s (i + 2)))"
      by (simp add: drain_loop.simps [of s c] Some case_prod_beta)
    have "c \<le> i" "i + 2 \<le> length s" using indexOf_bounds [OF Some] by (auto simp: max_def split: if_splits)
    then have "2 * Suc n \<le> length s - c + 2" using bound by arith
    moreover have "(drain_body s ^^ Suc n) (c, es, None) = (c', es @ fst (drain_loop s c), Some (snd (drain_loop s c)))"
      using end_state by (simp add: funpow_swap1 step loop)
    moreover have "drain_running ((drain_body s ^^ k) (c, es, None))" if "k < Suc n" for k
      using that running by (cases k) (simp_all add: funpow_swap1 step drain_running_def)
    ultimately show ?thesis by blast
  qed
qed

text \<open>C39: The loop ends for every buffer: it returns what the recursive definition returns, with the events dispatched
  in that order, and takes at most one turn for every two characters of the buffer, and one more.\<close>

theorem drain_loop_ends:
  "(\<exists>cursor. drain_while buffer = Some (cursor, fst (drainSSEBuffer buffer), Some (snd (drainSSEBuffer buffer)))) \<and>
   (\<exists>n. \<not> drain_running ((drain_body (normalize_newlines buffer) ^^ n) (0, [], None)) \<and>
        2 * n \<le> length (normalize_newlines buffer) + 2)"
proof -
  let ?s = "normalize_newlines buffer"
  obtain n c' where end_state: "(drain_body ?s ^^ n) (0, [], None) = (c', fst (drain_loop ?s 0), Some (snd (drain_loop ?s 0)))"
    and running: "\<forall>k < n. drain_running ((drain_body ?s ^^ k) (0, [], None))" and bound: "2 * n \<le> length ?s + 2"
    using drain_turns [of ?s 0 "[]"] by auto
  have stop: "\<not> drain_running ((drain_body ?s ^^ n) (0, [], None))" by (simp add: end_state drain_running_def)
  have "(LEAST k. \<not> drain_running ((drain_body ?s ^^ k) (0, [], None))) = n"
    using stop running by (intro Least_equality) (auto simp: not_less)
  then have "drain_while buffer = Some ((drain_body ?s ^^ n) (0, [], None))"
    using stop by (auto simp: drain_while_def while_option_def)
  then have "drain_while buffer = Some (c', fst (drainSSEBuffer buffer), Some (snd (drainSSEBuffer buffer)))"
    by (simp add: end_state drainSSEBuffer_def)
  then show ?thesis using stop bound by blast
qed

end
