(* ===== verification/ServerDb.thy ===== *)
theory ServerDb
  imports ApiTypes Json
begin

section \<open>The server's tables and transactions\<close>

text \<open>
  Models the part of the Go server's data the run queue lives in: the tables of
  \<^verbatim>\<open>internal/db/migrations\<close> that the run life cycle reads and writes, with their primary keys, the
  unique index on queued runs and the \<^verbatim>\<open>CHECK\<close> constraints; the transactions of \<^verbatim>\<open>internal/store\<close>, which
  are rolled back when they return an error; and the helpers every handler shares (run events,
  comments, webhook deliveries, wake-ups of the event streams). The database has one connection
  (\<^verbatim>\<open>SetMaxOpenConns(1)\<close>), so transactions do not overlap. A text is the list of its code units, as in
  the dashboard; ids, codes and timestamps are ASCII, where SQLite's order of bytes is the order of
  code units. A nullable column is an option.
\<close>

datatype run_status = RQueued | RRunning | RDone | RFailed | RCancelled

fun run_status_str :: "run_status \<Rightarrow> jstr" where
  "run_status_str RQueued = js ''queued''"
| "run_status_str RRunning = js ''running''"
| "run_status_str RDone = js ''done''"
| "run_status_str RFailed = js ''failed''"
| "run_status_str RCancelled = js ''cancelled''"

definition active_status :: "run_status \<Rightarrow> bool" where
  "active_status s \<longleftrightarrow> s = RQueued \<or> s = RRunning"

lemma active_status_simps [simp]:
  "active_status RQueued" "active_status RRunning" "\<not> active_status RDone" "\<not> active_status RFailed" "\<not> active_status RCancelled"
  by (simp_all add: active_status_def)

subsection \<open>Rows\<close>

text \<open>Of a workspace and an agent, the columns the run queue reads.\<close>

record tbl_workspace =
  wr_id :: jstr
  wr_slug :: jstr
  wr_name :: jstr
  wr_prefix :: jstr
  wr_next_seq :: nat
  wr_auto_chain :: bool
  wr_max_depth :: int
  wr_run_limit :: int
  wr_cost_micros :: int
  wr_dry_run :: bool
  wr_auto_close :: bool
  wr_worktree :: bool
  wr_updated_at :: jstr

record tbl_agent =
  ar_id :: jstr
  ar_workspace :: jstr
  ar_name :: jstr
  ar_is_main :: bool
  ar_version :: int
  ar_retry_policy :: jstr

record tbl_issue =
  ir_id :: jstr
  ir_workspace :: jstr
  ir_identifier :: jstr
  ir_title :: jstr
  ir_body :: jstr
  ir_status :: issue_status
  ir_assignee :: "jstr option"
  ir_parent :: "jstr option"
  ir_created_by :: jstr
  ir_rule :: "jstr option"
  ir_created_at :: jstr
  ir_updated_at :: jstr

record tbl_run =
  rr_id :: jstr
  rr_issue :: jstr
  rr_agent :: jstr
  rr_status :: run_status
  rr_trigger :: jstr
  rr_trigger_comment :: "jstr option"
  rr_snapshot :: jstr
  rr_parent :: "jstr option"
  rr_chain :: jstr
  rr_depth :: int
  rr_version :: int
  rr_enqueued_at :: jstr
  rr_claimed_at :: "jstr option"
  rr_claimed_by :: jstr
  rr_started_at :: "jstr option"
  rr_heartbeat_at :: "jstr option"
  rr_finished_at :: "jstr option"
  rr_pid :: "int option"
  rr_pgid :: "int option"
  rr_recorded_at :: "jstr option"
  rr_input_tokens :: int
  rr_output_tokens :: int
  rr_cost_micros :: int
  rr_model :: jstr
  rr_attempt :: int
  rr_max_attempts :: int
  rr_next_retry_at :: "jstr option"
  rr_exit_code :: "int option"
  rr_stdout_path :: "jstr option"
  rr_error_message :: jstr
  rr_terminal_reason :: jstr
  rr_failure_kind :: jstr
  rr_cancel_reason :: jstr

record tbl_comment =
  cr_id :: jstr
  cr_issue :: jstr
  cr_author_type :: jstr
  cr_author_agent :: "jstr option"
  cr_run :: "jstr option"
  cr_content :: jstr
  cr_truncated :: bool
  cr_created_at :: jstr

text \<open>The details of an event are the value that is stored as a JSON text.\<close>

record tbl_event =
  er_id :: jstr
  er_run :: jstr
  er_issue :: jstr
  er_seq :: nat
  er_type :: jstr
  er_severity :: jstr
  er_message :: jstr
  er_details :: json
  er_created_at :: jstr

record tbl_webhook =
  hr_id :: jstr
  hr_workspace :: jstr
  hr_events :: "jstr list"
  hr_enabled :: bool
  hr_mask_pii :: bool

text \<open>A pending delivery keeps the payload as a value and whether its text is masked before it is stored.\<close>

record tbl_delivery =
  dr_id :: jstr
  dr_webhook :: jstr
  dr_event :: jstr
  dr_payload :: json
  dr_masked :: bool
  dr_next_attempt_at :: jstr
  dr_created_at :: jstr

record store_db =
  db_workspaces :: "tbl_workspace list"
  db_agents :: "tbl_agent list"
  db_issues :: "tbl_issue list"
  db_runs :: "tbl_run list"
  db_comments :: "tbl_comment list"
  db_events :: "tbl_event list"
  db_webhooks :: "tbl_webhook list"
  db_deliveries :: "tbl_delivery list"
  db_wakes :: "(jstr \<times> jstr) list"          \<comment> \<open>calls of \<^verbatim>\<open>RunEventNotifier.OnRunEvent\<close>\<close>

definition empty_db :: store_db where
  "empty_db = \<lparr>db_workspaces = [], db_agents = [], db_issues = [], db_runs = [], db_comments = [], db_events = [],
     db_webhooks = [], db_deliveries = [], db_wakes = []\<rparr>"

subsection \<open>Transactions\<close>

datatype srv_error = ErrNotFound | ErrConflict | ErrState | ErrValidation

type_synonym 'a tx = "store_db \<Rightarrow> srv_error + 'a \<times> store_db"

definition tx_return :: "'a \<Rightarrow> 'a tx" where
  "tx_return x db = Inr (x, db)"

definition tx_fail :: "srv_error \<Rightarrow> 'a tx" where
  "tx_fail e db = Inl e"

definition tx_bind :: "'a tx \<Rightarrow> ('a \<Rightarrow> 'b tx) \<Rightarrow> 'b tx" where
  "tx_bind m f db = (case m db of Inl e \<Rightarrow> Inl e | Inr (x, db') \<Rightarrow> f x db')"

abbreviation tx_then :: "'a tx \<Rightarrow> 'b tx \<Rightarrow> 'b tx" where
  "tx_then m n \<equiv> tx_bind m (\<lambda>_. n)"

definition tx_get :: "(store_db \<Rightarrow> 'a) \<Rightarrow> 'a tx" where
  "tx_get f db = Inr (f db, db)"

definition tx_set :: "(store_db \<Rightarrow> store_db) \<Rightarrow> unit tx" where
  "tx_set f db = Inr ((), f db)"

definition tx_guard :: "bool \<Rightarrow> srv_error \<Rightarrow> unit tx" where
  "tx_guard b e db = (if b then Inr ((), db) else Inl e)"

text \<open>\<^verbatim>\<open>tx.GetContext\<close>: no row is \<^verbatim>\<open>ErrNotFound\<close> (\<^verbatim>\<open>normalizeErr\<close>).\<close>

definition tx_one :: "(store_db \<Rightarrow> 'a option) \<Rightarrow> 'a tx" where
  "tx_one f db = (case f db of None \<Rightarrow> Inl ErrNotFound | Some x \<Rightarrow> Inr (x, db))"

lemmas tx_defs = tx_return_def tx_fail_def tx_get_def tx_set_def tx_guard_def tx_one_def

text \<open>A step of a handler: a result or an error, and the database after it. \<open>commit\<close> runs a transaction and
  rolls back when it fails.\<close>

type_synonym 'a op = "store_db \<Rightarrow> (srv_error + 'a) \<times> store_db"

definition commit :: "'a tx \<Rightarrow> 'a op" where
  "commit m db = (case m db of Inl e \<Rightarrow> (Inl e, db) | Inr (x, db') \<Rightarrow> (Inr x, db'))"

text \<open>A statement outside of the handler's transaction, and what follows when it succeeds.\<close>

definition op_bind :: "'a op \<Rightarrow> ('a \<Rightarrow> 'b op) \<Rightarrow> 'b op" where
  "op_bind m f db = (case m db of (Inl e, db') \<Rightarrow> (Inl e, db') | (Inr x, db') \<Rightarrow> f x db')"

subsection \<open>The clock and the generator of ids\<close>

text \<open>What one handler call takes from its environment: \<^verbatim>\<open>now()\<close> and \<^verbatim>\<open>newID()\<close> by the place of the call, the time a day ago and a
  number of seconds ahead, all as the text \<^verbatim>\<open>Format(time.RFC3339Nano)\<close> gives; and which characters
  outside of ASCII are letters or digits (\<^verbatim>\<open>\p{L}\<close>, \<^verbatim>\<open>\p{N}\<close>).\<close>

record tick =
  tk_now :: "nat \<Rightarrow> jstr"
  tk_id :: "nat \<Rightarrow> jstr"
  tk_day_ago :: jstr
  tk_after :: "int \<Rightarrow> jstr"
  tk_letter :: "code_unit \<Rightarrow> bool"

subsection \<open>How transactions compose\<close>

named_theorems tx_elims
named_theorems quiet_intros

lemma tx_bind_Inr [tx_elims]: "tx_bind m f db = Inr (y, db'') \<longleftrightarrow> (\<exists>x db'. m db = Inr (x, db') \<and> f x db' = Inr (y, db''))"
  by (auto simp: tx_bind_def split: sum.splits prod.splits)

lemma tx_Inr_simps [tx_elims]:
  "tx_return x db = Inr (y, db') \<longleftrightarrow> y = x \<and> db' = db"
  "tx_fail e db \<noteq> Inr z"
  "tx_get g db = Inr (y, db') \<longleftrightarrow> y = g db \<and> db' = db"
  "tx_guard b e db = Inr (u, db') \<longleftrightarrow> b \<and> db' = db"
  "tx_set h db = Inr (u, db') \<longleftrightarrow> db' = h db"
  "tx_one q db = Inr (y, db') \<longleftrightarrow> q db = Some y \<and> db' = db"
  by (auto simp: tx_defs split: option.splits)

lemma commit_cases:
  "commit m db = (r, db') \<Longrightarrow> (\<And>e. r = Inl e \<Longrightarrow> db' = db \<Longrightarrow> m db = Inl e \<Longrightarrow> P) \<Longrightarrow>
   (\<And>x. r = Inr x \<Longrightarrow> m db = Inr (x, db') \<Longrightarrow> P) \<Longrightarrow> P"
  by (auto simp: commit_def split: sum.splits prod.splits)

text \<open>A transaction is quiet when it keeps the tables of runs, issues, agents and workspaces: the comments,
  events, deliveries and wake-ups a handler leaves behind.\<close>

definition same_queue :: "store_db \<Rightarrow> store_db \<Rightarrow> bool" where
  "same_queue db db' \<longleftrightarrow> db_runs db' = db_runs db \<and> db_issues db' = db_issues db \<and> db_agents db' = db_agents db \<and>
     db_workspaces db' = db_workspaces db"

definition quiet :: "'a tx \<Rightarrow> bool" where
  "quiet m \<longleftrightarrow> (\<forall>db x db'. m db = Inr (x, db') \<longrightarrow> same_queue db db')"

lemma same_queue_refl [simp, intro]: "same_queue db db"
  by (simp add: same_queue_def)

lemma same_queue_trans: "same_queue a b \<Longrightarrow> same_queue b c \<Longrightarrow> same_queue a c"
  by (simp add: same_queue_def)

lemma quietD: "quiet m \<Longrightarrow> m db = Inr (x, db') \<Longrightarrow> same_queue db db'"
  by (auto simp: quiet_def)

lemma quietI: "(\<And>db x db'. m db = Inr (x, db') \<Longrightarrow> same_queue db db') \<Longrightarrow> quiet m"
  by (auto simp: quiet_def)

lemma quiet_bind [quiet_intros]: "quiet m \<Longrightarrow> (\<And>x. quiet (f x)) \<Longrightarrow> quiet (tx_bind m f)"
  by (rule quietI) (auto simp: tx_elims dest!: quietD intro: same_queue_trans)

lemma quiet_basic [quiet_intros]:
  "quiet (tx_return x)" "quiet (tx_fail e)" "quiet (tx_get g)" "quiet (tx_guard b e)" "quiet (tx_one q)"
  by (rule quietI, simp add: tx_elims)+

lemma quiet_if [quiet_intros]: "quiet m \<Longrightarrow> quiet n \<Longrightarrow> quiet (if b then m else n)"
  by simp

lemma quiet_option [quiet_intros]: "quiet m \<Longrightarrow> (\<And>x. quiet (f x)) \<Longrightarrow> quiet (case v of None \<Rightarrow> m | Some x \<Rightarrow> f x)"
  by (simp split: option.split)

subsection \<open>Constraints of the tables\<close>

definition trigger_types :: "jstr list" where
  "trigger_types = [js ''issue_created'', js ''mention'', js ''autopilot'', js ''rerun'']"

definition terminal_reasons :: "jstr list" where
  "terminal_reasons = [[], js ''completed'', js ''exit_nonzero'', js ''timeout'', js ''executor_error'', js ''worker_panic'',
     js ''claim_preparation_failed'', js ''unknown_failure'', js ''user_cancelled'', js ''issue_cancelled'', js ''shutdown'',
     js ''orphan_recovered'', js ''stale_recovered'']"

definition failure_kinds :: "jstr list" where
  "failure_kinds = [[], js ''exit_nonzero'', js ''timeout'', js ''executor_error'', js ''worker_panic'', js ''claim_preparation_failed'',
     js ''unknown'']"

definition cancel_reasons :: "jstr list" where
  "cancel_reasons = [[], js ''user'', js ''issue'', js ''shutdown'', js ''orphan'', js ''stale'']"

definition event_types :: "jstr list" where
  "event_types = [js ''run_queued'', js ''run_claimed'', js ''run_prepare_failed'', js ''executor_starting'', js ''stdout_truncated'',
     js ''cancel_requested'', js ''run_cancelled'', js ''run_completed'', js ''run_failed'', js ''orphan_recovered'', js ''stale_recovered'',
     js ''skills_loaded'', js ''stdout_sanitized'']"

definition run_checks :: "tbl_run \<Rightarrow> bool" where
  "run_checks r \<longleftrightarrow> rr_trigger r \<in> set trigger_types \<and> rr_terminal_reason r \<in> set terminal_reasons \<and>
     rr_failure_kind r \<in> set failure_kinds \<and> rr_cancel_reason r \<in> set cancel_reasons \<and>
     0 \<le> rr_input_tokens r \<and> 0 \<le> rr_output_tokens r \<and> 0 \<le> rr_cost_micros r \<and> 1 \<le> rr_attempt r \<and> 1 \<le> rr_max_attempts r \<and>
     0 \<le> rr_depth r \<and> rr_depth r \<le> 20 \<and> 1 \<le> rr_version r"

text \<open>\<^verbatim>\<open>idx_run_one_queued_per_issue_agent\<close>.\<close>

definition queued_keys :: "tbl_run list \<Rightarrow> (jstr \<times> jstr) list" where
  "queued_keys rs = map (\<lambda>r. (rr_issue r, rr_agent r)) (filter (\<lambda>r. rr_status r = RQueued) rs)"

definition find_run :: "jstr \<Rightarrow> store_db \<Rightarrow> tbl_run option" where
  "find_run i db = find (\<lambda>r. rr_id r = i) (db_runs db)"

definition find_issue :: "jstr \<Rightarrow> store_db \<Rightarrow> tbl_issue option" where
  "find_issue i db = find (\<lambda>r. ir_id r = i) (db_issues db)"

definition find_agent :: "jstr \<Rightarrow> store_db \<Rightarrow> tbl_agent option" where
  "find_agent i db = find (\<lambda>r. ar_id r = i) (db_agents db)"

definition find_workspace :: "jstr \<Rightarrow> store_db \<Rightarrow> tbl_workspace option" where
  "find_workspace i db = find (\<lambda>r. wr_id r = i) (db_workspaces db)"

text \<open>The workspace of an issue: \<^verbatim>\<open>issue i JOIN workspace w ON w.id=i.workspace_id\<close>.\<close>

definition workspace_of :: "jstr \<Rightarrow> store_db \<Rightarrow> tbl_workspace option" where
  "workspace_of i db = Option.bind (find_issue i db) (\<lambda>iss. find_workspace (ir_workspace iss) db)"

subsection \<open>Statements\<close>

text \<open>An \<^verbatim>\<open>INSERT\<close> of a run: the checks, then the keys, then the references.\<close>

definition insert_run :: "tbl_run \<Rightarrow> unit tx" where
  "insert_run r db =
     (if \<not> run_checks r then Inl ErrValidation
      else if find_run (rr_id r) db \<noteq> None \<or> \<not> distinct (queued_keys (db_runs db @ [r])) then Inl ErrConflict
      else if find_issue (rr_issue r) db = None \<or> find_agent (rr_agent r) db = None \<or>
              (case rr_trigger_comment r of None \<Rightarrow> False | Some c \<Rightarrow> c \<notin> cr_id ` set (db_comments db)) \<or>
              (case rr_parent r of None \<Rightarrow> False | Some p \<Rightarrow> find_run p db = None) then Inl ErrValidation
      else Inr ((), db\<lparr>db_runs := db_runs db @ [r]\<rparr>))"

text \<open>An \<^verbatim>\<open>UPDATE\<close> of runs: the number of rows it affects.\<close>

definition update_runs :: "(tbl_run \<Rightarrow> bool) \<Rightarrow> (tbl_run \<Rightarrow> tbl_run) \<Rightarrow> nat tx" where
  "update_runs P f db =
     (let rows = map (\<lambda>r. if P r then f r else r) (db_runs db) in
      if \<not> list_all (\<lambda>r. P r \<longrightarrow> run_checks (f r)) (db_runs db) then Inl ErrValidation
      else if \<not> distinct (queued_keys rows) then Inl ErrConflict
      else Inr (length (filter P (db_runs db)), db\<lparr>db_runs := rows\<rparr>))"

definition update_issues :: "(tbl_issue \<Rightarrow> bool) \<Rightarrow> (tbl_issue \<Rightarrow> tbl_issue) \<Rightarrow> nat tx" where
  "update_issues P f db =
     Inr (length (filter P (db_issues db)), db\<lparr>db_issues := map (\<lambda>r. if P r then f r else r) (db_issues db)\<rparr>)"

definition set_issue_status :: "jstr \<Rightarrow> issue_status \<Rightarrow> jstr \<Rightarrow> unit tx" where
  "set_issue_status i st t = tx_then (update_issues (\<lambda>r. ir_id r = i) (\<lambda>r. r\<lparr>ir_status := st, ir_updated_at := t\<rparr>)) (tx_return ())"

definition insert_comment :: "tbl_comment \<Rightarrow> unit tx" where
  "insert_comment c db =
     (if cr_author_type c \<notin> {js ''user'', js ''agent'', js ''system''} then Inl ErrValidation
      else if cr_id c \<in> cr_id ` set (db_comments db) then Inl ErrConflict
      else if find_issue (cr_issue c) db = None \<or> (case cr_author_agent c of None \<Rightarrow> False | Some a \<Rightarrow> find_agent a db = None) \<or>
              (case cr_run c of None \<Rightarrow> False | Some r \<Rightarrow> find_run r db = None) then Inl ErrValidation
      else Inr ((), db\<lparr>db_comments := db_comments db @ [c]\<rparr>))"

text \<open>A comment of the system on an issue, about a run or none.\<close>

definition system_comment :: "jstr \<Rightarrow> jstr \<Rightarrow> jstr option \<Rightarrow> jstr \<Rightarrow> jstr \<Rightarrow> unit tx" where
  "system_comment i iss run content t = insert_comment
     \<lparr>cr_id = i, cr_issue = iss, cr_author_type = js ''system'', cr_author_agent = None, cr_run = run, cr_content = content,
      cr_truncated = False, cr_created_at = t\<rparr>"

text \<open>\<^verbatim>\<open>strings.TrimSpace(s) == ""\<close>: the space characters of \<^verbatim>\<open>unicode.IsSpace\<close>.\<close>

definition go_space :: "code_unit \<Rightarrow> bool" where
  "go_space c \<longleftrightarrow> c \<in> {9, 10, 11, 12, 13, 32, 0x85, 0xA0, 0x1680, 0x2028, 0x2029, 0x202F, 0x205F, 0x3000} \<or> (0x2000 \<le> c \<and> c \<le> 0x200A)"

definition go_blank :: "jstr \<Rightarrow> bool" where
  "go_blank s \<longleftrightarrow> list_all go_space s"

definition nonempty_or :: "jstr \<Rightarrow> jstr \<Rightarrow> jstr" where
  "nonempty_or v d = (if v = [] then d else v)"

text \<open>\<^verbatim>\<open>appendRunEventTx\<close>; \<open>k\<close> is the place of its calls of the clock and the id generator.\<close>

definition appendRunEventTx :: "tick \<Rightarrow> nat \<Rightarrow> jstr \<Rightarrow> jstr \<Rightarrow> jstr \<Rightarrow> jstr \<Rightarrow> jstr \<Rightarrow> (string \<times> json) list \<Rightarrow> tbl_event tx" where
  "appendRunEventTx tk k run iss etype severity message details db =
     (if go_blank run \<or> go_blank etype then Inl ErrValidation
      else (case find_run run db of
          None \<Rightarrow> Inl ErrNotFound
        | Some r \<Rightarrow>
            if iss \<noteq> [] \<and> rr_issue r \<noteq> iss then Inl ErrValidation
            else
              (let seqs = map er_seq (filter (\<lambda>e. er_run e = run) (db_events db));
                   e = \<lparr>er_id = tk_id tk k, er_run = run, er_issue = rr_issue r, er_seq = (if seqs = [] then 0 else Max (set seqs)) + 1,
                        er_type = etype, er_severity = nonempty_or severity (js ''info''), er_message = message,
                        er_details = jobj details, er_created_at = tk_now tk k\<rparr>
               in if etype \<notin> set event_types \<or> er_severity e \<notin> {js ''debug'', js ''info'', js ''warn'', js ''error''} then Inl ErrValidation
                  else if tk_id tk k \<in> er_id ` set (db_events db) then Inl ErrConflict
                  else Inr (e, db\<lparr>db_events := db_events db @ [e]\<rparr>))))"

definition notifyRunEvent :: "jstr \<Rightarrow> jstr \<Rightarrow> store_db \<Rightarrow> store_db" where
  "notifyRunEvent iss run db = db\<lparr>db_wakes := db_wakes db @ [(iss, run)]\<rparr>"

text \<open>\<^verbatim>\<open>EnqueueWebhookDeliveries\<close>: one pending delivery for each enabled webhook of the workspace whose filter
  has the event or is empty.\<close>

definition webhookEventMatches :: "jstr list \<Rightarrow> jstr \<Rightarrow> bool" where
  "webhookEventMatches flt event \<longleftrightarrow> flt = [] \<or> event \<in> set flt"

fun enqueue_deliveries :: "tick \<Rightarrow> nat \<Rightarrow> tbl_webhook list \<Rightarrow> jstr \<Rightarrow> json \<Rightarrow> jstr \<Rightarrow> nat tx" where
  "enqueue_deliveries tk k [] event payload t db = Inr (0, db)"
| "enqueue_deliveries tk k (h # hs) event payload t db =
     (if \<not> webhookEventMatches (hr_events h) event then enqueue_deliveries tk (Suc k) hs event payload t db
      else if tk_id tk k \<in> dr_id ` set (db_deliveries db) then Inl ErrConflict
      else (case enqueue_deliveries tk (Suc k) hs event payload t
              (db\<lparr>db_deliveries := db_deliveries db @ [\<lparr>dr_id = tk_id tk k, dr_webhook = hr_id h, dr_event = event,
                 dr_payload = payload, dr_masked = hr_mask_pii h, dr_next_attempt_at = t, dr_created_at = t\<rparr>]\<rparr>) of
            Inl e \<Rightarrow> Inl e | Inr (n, db') \<Rightarrow> Inr (Suc n, db')))"

definition EnqueueWebhookDeliveries :: "tick \<Rightarrow> nat \<Rightarrow> jstr \<Rightarrow> jstr \<Rightarrow> json \<Rightarrow> nat tx" where
  "EnqueueWebhookDeliveries tk k ws event payload =
     (if go_blank ws \<or> go_blank event then tx_fail ErrValidation
      else tx_bind (tx_get (\<lambda>db. filter (\<lambda>h. hr_workspace h = ws \<and> hr_enabled h) (db_webhooks db)))
             (\<lambda>hooks. enqueue_deliveries tk k hooks event payload (tk_now tk k)))"

subsection \<open>The quiet statements\<close>

lemma quiet_insert_comment [quiet_intros]: "quiet (insert_comment c)"
  by (rule quietI) (auto simp: insert_comment_def same_queue_def split: if_splits)

lemma quiet_system_comment [quiet_intros]: "quiet (system_comment i iss run content t)"
  unfolding system_comment_def by (rule quiet_intros)

lemma quiet_append_event [quiet_intros]: "quiet (appendRunEventTx tk k run iss etype sev msg ds)"
  by (rule quietI) (auto simp: appendRunEventTx_def same_queue_def Let_def split: if_splits option.splits)

lemma quiet_enqueue_deliveries: "enqueue_deliveries tk k hs event payload t db = Inr (n, db') \<Longrightarrow> same_queue db db'"
  by (induction tk k hs event payload t db arbitrary: n db' rule: enqueue_deliveries.induct)
    (auto simp: same_queue_def split: if_splits sum.splits prod.splits)

lemma quiet_webhooks [quiet_intros]: "quiet (EnqueueWebhookDeliveries tk k ws event payload)"
  unfolding EnqueueWebhookDeliveries_def
  by (intro quiet_intros) (rule quietI, erule quiet_enqueue_deliveries)

end
