(* ===== verification/RetryPolicy.thy ===== *)
theory RetryPolicy
  imports ServerDb
begin

section \<open>Retry policies and the reasons of an end\<close>

text \<open>
  Models \<^verbatim>\<open>internal/store/resource_controls.go\<close> (the retry policy an agent carries as a JSON text, when a
  failed run is tried again and after how long) and \<^verbatim>\<open>internal/store/reasons.go\<close> (the codes recorded with a
  cancellation). A whole number is meant to be written without a fraction or an exponent, as
  \<^verbatim>\<open>JSON.stringify\<close> writes it; a name occurring twice in an object counts once.
\<close>

record retry_policy =
  po_max_attempts :: int
  po_backoff :: "int list"
  po_retry_on :: "jstr list option"             \<comment> \<open>\<open>None\<close>: the nil slice\<close>

definition maxRetryAttempts :: int where
  "maxRetryAttempts = 5"

definition maxRetryBackoffSeconds :: int where
  "maxRetryBackoffSeconds = 3600"

subsection \<open>Reading a policy\<close>

definition json_int :: "json \<Rightarrow> int option" where
  "json_int v = (case v of JNum d \<Rightarrow> if 0 \<le> snd d then Some (fst d * 10 ^ nat (snd d)) else None | _ \<Rightarrow> None)"

definition json_text :: "json \<Rightarrow> jstr option" where
  "json_text v = (case v of JStr s \<Rightarrow> Some s | _ \<Rightarrow> None)"

text \<open>An element that is \<^verbatim>\<open>null\<close> leaves the zero value in the slice.\<close>

definition json_slice :: "(json \<Rightarrow> 'a option) \<Rightarrow> 'a \<Rightarrow> json \<Rightarrow> 'a list option option" where
  "json_slice f z v = (case v of
       JNull \<Rightarrow> Some None
     | JArr vs \<Rightarrow> map_option Some (those (map (\<lambda>x. if x = JNull then Some z else f x) vs))
     | _ \<Rightarrow> None)"

text \<open>One member of the object; names are matched without regard to case.\<close>

definition policy_member :: "jstr \<times> json \<Rightarrow> retry_policy \<Rightarrow> retry_policy option" where
  "policy_member m p =
     (let k = map ascii_lower (fst m); v = snd m in
      if k = js ''max_attempts'' then (if v = JNull then Some p else map_option (\<lambda>n. p\<lparr>po_max_attempts := n\<rparr>) (json_int v))
      else if k = js ''backoff_seconds'' then map_option (\<lambda>ns. p\<lparr>po_backoff := nullish ns []\<rparr>) (json_slice json_int 0 v)
      else if k = js ''retry_on'' then map_option (\<lambda>ns. p\<lparr>po_retry_on := ns\<rparr>) (json_slice json_text [] v)
      else Some p)"

fun policy_members :: "(jstr \<times> json) list \<Rightarrow> retry_policy \<Rightarrow> retry_policy option" where
  "policy_members [] p = Some p"
| "policy_members (m # ms) p = Option.bind (policy_member m p) (policy_members ms)"

definition unmarshal_policy :: "json \<Rightarrow> retry_policy \<Rightarrow> retry_policy option" where
  "unmarshal_policy v p = (case v of JObj ms \<Rightarrow> policy_members ms p | JNull \<Rightarrow> Some p | _ \<Rightarrow> None)"

definition isRetryableFailureKind :: "jstr \<Rightarrow> bool" where
  "isRetryableFailureKind kind \<longleftrightarrow> kind = js ''timeout'' \<or> kind = js ''executor_error''"

definition parseRetryPolicy :: "jstr \<Rightarrow> retry_policy option" where
  "parseRetryPolicy s =
     (case (if go_blank s then Some \<lparr>po_max_attempts = 1, po_backoff = [], po_retry_on = None\<rparr>
            else Option.bind (JSON_parse s) (\<lambda>v. unmarshal_policy v \<lparr>po_max_attempts = 1, po_backoff = [], po_retry_on = None\<rparr>)) of
        None \<Rightarrow> None
      | Some p \<Rightarrow>
          if po_max_attempts p < 1 \<or> po_max_attempts p > maxRetryAttempts then None
          else if list_ex (\<lambda>n. n \<le> 0 \<or> n > maxRetryBackoffSeconds) (po_backoff p) then None
          else if list_ex (\<lambda>k. \<not> isRetryableFailureKind k) (nullish (po_retry_on p) []) then None
          else Some p)"

definition retryPolicyForAgent :: "jstr \<Rightarrow> retry_policy tx" where
  "retryPolicyForAgent agent = tx_bind (tx_one (find_agent agent)) (\<lambda>a.
     (case parseRetryPolicy (ar_retry_policy a) of None \<Rightarrow> tx_fail ErrValidation | Some p \<Rightarrow> tx_return p))"

definition retryMaxAttemptsForAgent :: "jstr \<Rightarrow> int tx" where
  "retryMaxAttemptsForAgent agent = tx_bind (retryPolicyForAgent agent) (\<lambda>p. tx_return (po_max_attempts p))"

definition agentInstructionsVersionForAgent :: "jstr \<Rightarrow> int tx" where
  "agentInstructionsVersionForAgent agent = tx_bind (tx_one (find_agent agent)) (\<lambda>a.
     tx_return (if ar_version a \<le> 0 then 1 else ar_version a))"

lemma quiet_policy [quiet_intros]:
  "quiet (retryPolicyForAgent a)" "quiet (retryMaxAttemptsForAgent a)" "quiet (agentInstructionsVersionForAgent a)"
  unfolding retryPolicyForAgent_def retryMaxAttemptsForAgent_def agentInstructionsVersionForAgent_def
  by (intro quiet_intros)+

subsection \<open>Whether and when to try again\<close>

definition shouldRetryRunWithPolicy :: "jstr \<Rightarrow> int \<Rightarrow> int \<Rightarrow> retry_policy \<Rightarrow> bool" where
  "shouldRetryRunWithPolicy kind attempt maxAttempts policy =
     (if attempt \<ge> maxAttempts \<or> maxAttempts \<le> 1 then False
      else (case po_retry_on policy of
              None \<Rightarrow> isRetryableFailureKind kind
            | Some kinds \<Rightarrow> kind \<in> set kinds))"

text \<open>The pause before the next attempt, in seconds.\<close>

definition retryBackoffWithPolicy :: "int \<Rightarrow> retry_policy \<Rightarrow> int" where
  "retryBackoffWithPolicy attempt policy =
     (if po_backoff policy \<noteq> []
      then (let idx = (if attempt - 1 < 0 then 0 else attempt - 1);
                idx = (if idx \<ge> int (length (po_backoff policy)) then int (length (po_backoff policy)) - 1 else idx)
            in po_backoff policy ! nat idx)
      else if attempt \<le> 1 then 10 else if attempt = 2 then 60 else 300)"

lemma parsed_policy:
  assumes "parseRetryPolicy s = Some p"
  shows "1 \<le> po_max_attempts p" "po_max_attempts p \<le> 5" "list_all (\<lambda>n. 0 < n \<and> n \<le> 3600) (po_backoff p)"
    "list_all isRetryableFailureKind (nullish (po_retry_on p) [])"
  using assms by (auto simp: parseRetryPolicy_def maxRetryAttempts_def maxRetryBackoffSeconds_def list_all_iff list_ex_iff
      split: option.splits if_splits)

lemma backoff_bounds:
  assumes "parseRetryPolicy s = Some p"
  shows "1 \<le> retryBackoffWithPolicy attempt p" "retryBackoffWithPolicy attempt p \<le> 3600"
proof -
  let ?n = "length (po_backoff p)"
  have "1 \<le> retryBackoffWithPolicy attempt p \<and> retryBackoffWithPolicy attempt p \<le> 3600"
  proof (cases "po_backoff p = []")
    case True
    then show ?thesis by (simp add: retryBackoffWithPolicy_def)
  next
    case False
    define i where "i = (let idx = (if attempt - 1 < 0 then 0 else attempt - 1) in (if idx \<ge> int ?n then int ?n - 1 else idx))"
    have "0 < ?n" using False by simp
    then have "nat i < ?n" by (simp add: i_def Let_def nat_less_iff)
    then have "po_backoff p ! nat i \<in> set (po_backoff p)" by simp
    then have "0 < po_backoff p ! nat i \<and> po_backoff p ! nat i \<le> 3600" using parsed_policy(3) [OF assms] by (auto simp: list_all_iff)
    moreover have "retryBackoffWithPolicy attempt p = po_backoff p ! nat i" using False
      by (simp add: retryBackoffWithPolicy_def i_def Let_def)
    ultimately show ?thesis by simp
  qed
  then show "1 \<le> retryBackoffWithPolicy attempt p" "retryBackoffWithPolicy attempt p \<le> 3600" by auto
qed

lemma should_retry_below_limit: "shouldRetryRunWithPolicy kind a m p \<Longrightarrow> a < m \<and> 1 < m"
  by (auto simp: shouldRetryRunWithPolicy_def split: if_splits)

subsection \<open>Reasons of a cancellation\<close>

record cancel_input =
  ci_message :: jstr
  ci_terminal :: jstr
  ci_reason :: jstr

definition terminalReasonForCancelReason :: "jstr \<Rightarrow> jstr" where
  "terminalReasonForCancelReason reason =
     (if reason = js ''shutdown'' then js ''shutdown''
      else if reason = js ''issue'' then js ''issue_cancelled''
      else if reason = js ''orphan'' then js ''orphan_recovered''
      else if reason = js ''stale'' then js ''stale_recovered''
      else if reason = js ''user'' then js ''user_cancelled''
      else [])"

definition cancelReasonForTerminalReason :: "jstr \<Rightarrow> jstr" where
  "cancelReasonForTerminalReason reason =
     (if reason = js ''shutdown'' then js ''shutdown''
      else if reason = js ''issue_cancelled'' then js ''issue''
      else if reason = js ''orphan_recovered'' then js ''orphan''
      else if reason = js ''stale_recovered'' then js ''stale''
      else if reason = js ''user_cancelled'' then js ''user''
      else [])"

text \<open>\<^verbatim>\<open>strings.ToLower\<close>, of the characters whose lower case is an ASCII letter.\<close>

definition go_lower :: "code_unit \<Rightarrow> code_unit" where
  "go_lower c = (if c = 0x130 then 105 else if c = 0x212A then 107 else ascii_lower c)"

definition classifyCancelReason :: "jstr \<Rightarrow> cancel_input" where
  "classifyCancelReason msg =
     (let message = (if go_blank msg then js ''cancelled'' else msg); lower = map go_lower message in
      if includes_str lower (js ''shutdown'') then \<lparr>ci_message = message, ci_terminal = js ''shutdown'', ci_reason = js ''shutdown''\<rparr>
      else if includes_str lower (js ''issue'') then \<lparr>ci_message = message, ci_terminal = js ''issue_cancelled'', ci_reason = js ''issue''\<rparr>
      else if includes_str lower (js ''orphan'') then \<lparr>ci_message = message, ci_terminal = js ''orphan_recovered'', ci_reason = js ''orphan''\<rparr>
      else if includes_str lower (js ''stale'') then \<lparr>ci_message = message, ci_terminal = js ''stale_recovered'', ci_reason = js ''stale''\<rparr>
      else \<lparr>ci_message = message, ci_terminal = js ''user_cancelled'', ci_reason = js ''user''\<rparr>)"

definition defaultCancelMessage :: "jstr \<Rightarrow> jstr" where
  "defaultCancelMessage reason =
     (if reason = js ''shutdown'' then js ''shutdown''
      else if reason = js ''issue'' then js ''issue cancelled''
      else if reason = js ''orphan'' then js ''orphan recovered''
      else if reason = js ''stale'' then js ''stale recovered''
      else js ''user cancelled'')"

definition normalizeCancelReason :: "cancel_input \<Rightarrow> cancel_input" where
  "normalizeCancelReason r0 =
     (let r1 = (if ci_terminal r0 = [] then r0\<lparr>ci_terminal := terminalReasonForCancelReason (ci_reason r0)\<rparr> else r0);
          r2 = (if ci_reason r1 = [] then r1\<lparr>ci_reason := cancelReasonForTerminalReason (ci_terminal r1)\<rparr> else r1);
          c = classifyCancelReason (ci_message r2);
          r3 = (if ci_terminal r2 = [] then r2\<lparr>ci_terminal := ci_terminal c\<rparr> else r2);
          r4 = (if ci_reason r3 = [] then r3\<lparr>ci_reason := ci_reason c\<rparr> else r3)
      in if go_blank (ci_message r4) then r4\<lparr>ci_message := defaultCancelMessage (ci_reason r4)\<rparr> else r4)"

definition cancelComment :: "cancel_input \<Rightarrow> jstr" where
  "cancelComment r =
     (if ci_reason r = js ''shutdown'' then ko_srv_cancel_shutdown
      else if ci_reason r = js ''issue'' then ko_srv_cancel_issue
      else if ci_reason r = js ''orphan'' then ko_srv_cancel_orphan
      else if ci_reason r = js ''stale'' then ko_srv_cancel_stale
      else ko_srv_cancel_user)"

lemma classified_codes:
  "ci_terminal (classifyCancelReason m) \<in> set terminal_reasons - {[]}" "ci_reason (classifyCancelReason m) \<in> set cancel_reasons - {[]}"
  by (auto simp: classifyCancelReason_def terminal_reasons_def cancel_reasons_def Let_def)

text \<open>A cancellation always records a message and two codes, and the codes are ones the table takes when the
  caller's are.\<close>

lemma normalized_cancel:
  fixes r defines "n \<equiv> normalizeCancelReason r"
  assumes "ci_terminal r \<in> set terminal_reasons" "ci_reason r \<in> set cancel_reasons"
  shows "ci_terminal n \<in> set terminal_reasons - {[]}" "ci_reason n \<in> set cancel_reasons - {[]}" "\<not> go_blank (ci_message n)"
proof -
  have t: "terminalReasonForCancelReason c \<in> set terminal_reasons" "cancelReasonForTerminalReason c \<in> set cancel_reasons" for c
    by (auto simp: terminalReasonForCancelReason_def cancelReasonForTerminalReason_def terminal_reasons_def cancel_reasons_def)
  show "ci_terminal n \<in> set terminal_reasons - {[]}" "ci_reason n \<in> set cancel_reasons - {[]}"
    unfolding n_def normalizeCancelReason_def Let_def using assms(2,3) t classified_codes by auto
  have "\<not> go_blank (defaultCancelMessage c)" for c by (simp add: defaultCancelMessage_def go_blank_def js_def go_space_def)
  then show "\<not> go_blank (ci_message n)" unfolding n_def normalizeCancelReason_def Let_def by simp
qed

end
