(* ===== verification/AutoChain.thy ===== *)
theory AutoChain
  imports RetryPolicy JsNumber
begin

section \<open>Automatic chaining of runs\<close>

text \<open>
  Models \<^verbatim>\<open>internal/store/auto_chain.go\<close>: when a run has ended well and its result mentions an agent, the
  server may queue a run of that agent in the same chain. The guards (workspace switch, depth, dry
  run, the limits of a day, duplicates) and the comments they leave are those of the source. Counts
  and sums of the \<^verbatim>\<open>SELECT\<close>s are taken over the tables of \<open>ServerDb\<close>.
\<close>

subsection \<open>The mention\<close>

definition mention_name_char :: "tick \<Rightarrow> code_unit \<Rightarrow> bool" where
  "mention_name_char tk c \<longleftrightarrow> (48 \<le> c \<and> c \<le> 57) \<or> (65 \<le> c \<and> c \<le> 90) \<or> (97 \<le> c \<and> c \<le> 122) \<or> c = 95 \<or> c = 45 \<or>
     (128 \<le> c \<and> tk_letter tk c)"

text \<open>\<^verbatim>\<open>mentionRE.FindStringSubmatch\<close>: the leftmost at sign that a name follows.\<close>

fun firstAutoChainMention :: "tick \<Rightarrow> jstr \<Rightarrow> jstr" where
  "firstAutoChainMention tk [] = []"
| "firstAutoChainMention tk (c # s) =
     (if c = 64 \<and> takeWhile (mention_name_char tk) s \<noteq> [] then takeWhile (mention_name_char tk) s
      else firstAutoChainMention tk s)"

subsection \<open>Bounded texts\<close>

text \<open>
  \<^verbatim>\<open>capSnapshot\<close> (\<^verbatim>\<open>store.go\<close>): at most 4000 bytes of UTF-8, cut between two characters. A character outside
  the basic plane is two code units and four bytes.
\<close>

definition utf8_size :: "code_unit \<Rightarrow> nat" where
  "utf8_size c = (if c < 0x80 then 1 else if c < 0x800 then 2 else 3)"

fun utf8_cap :: "nat \<Rightarrow> jstr \<Rightarrow> jstr" where
  "utf8_cap n [] = []"
| "utf8_cap n (c # s) =
     (case s of
        d # s' \<Rightarrow>
          if high_surrogate c \<and> low_surrogate d then (if 4 \<le> n then c # d # utf8_cap (n - 4) s' else [])
          else if utf8_size c \<le> n then c # utf8_cap (n - utf8_size c) s else []
      | [] \<Rightarrow> if utf8_size c \<le> n then [c] else [])"

definition capSnapshot :: "jstr \<Rightarrow> jstr" where
  "capSnapshot v = utf8_cap 4000 v"

text \<open>\<^verbatim>\<open>fmt.Sprintf("%.4f", float64(n)/1_000_000)\<close>: the double, rounded half to even.\<close>

definition go_dollars :: "nat \<Rightarrow> jstr" where
  "go_dollars n =
     (let q = fdiv n 1000000; c = rne (fst q * 10000) (2 ^ snd q); r = nat_str (c mod 10000)
      in nat_str (c div 10000) @ js ''.'' @ replicate (4 - length r) 48 @ r)"

subsection \<open>The guards\<close>

definition normalizeAutoChainMaxDepth :: "int \<Rightarrow> int" where
  "normalizeAutoChainMaxDepth v = (if v \<le> 0 then 5 else if v > 20 then 20 else v)"

definition at_least :: "jstr \<Rightarrow> jstr \<Rightarrow> bool" where
  "at_least s t \<longleftrightarrow> \<not> str_less s t"

text \<open>The runs of a workspace that the two limits of a day look at.\<close>

definition in_workspace :: "jstr \<Rightarrow> store_db \<Rightarrow> tbl_run \<Rightarrow> bool" where
  "in_workspace ws db r \<longleftrightarrow> (case find_issue (rr_issue r) db of None \<Rightarrow> False | Some i \<Rightarrow> ir_workspace i = ws)"

definition chained_today :: "tick \<Rightarrow> jstr \<Rightarrow> store_db \<Rightarrow> nat" where
  "chained_today tk ws db =
     length (filter (\<lambda>r. in_workspace ws db r \<and> 0 < rr_depth r \<and> at_least (rr_enqueued_at r) (tk_day_ago tk)) (db_runs db))"

definition cost_today :: "tick \<Rightarrow> jstr \<Rightarrow> store_db \<Rightarrow> int" where
  "cost_today tk ws db =
     sum_list (map rr_cost_micros
       (filter (\<lambda>r. in_workspace ws db r \<and> at_least (nullish (rr_finished_at r) (rr_enqueued_at r)) (tk_day_ago tk)) (db_runs db)))"

text \<open>\<open>None\<close>: the guard lets the run through; otherwise the comment it leaves.\<close>

definition autoChainWithinDailyGuards :: "tick \<Rightarrow> tbl_workspace \<Rightarrow> store_db \<Rightarrow> jstr option" where
  "autoChainWithinDailyGuards tk w db =
     (if 0 < wr_run_limit w \<and> wr_run_limit w \<le> int (chained_today tk (wr_id w) db)
      then Some (ko_ac_runs1 @ int_str (wr_run_limit w) @ ko_ac_runs2)
      else if 0 < wr_cost_micros w \<and> wr_cost_micros w \<le> cost_today tk (wr_id w) db
      then Some (ko_ac_cost1 @ go_dollars (nat (wr_cost_micros w)) @ ko_ac_runs2)
      else None)"

definition checkAutoChainGuards :: "tick \<Rightarrow> tbl_workspace \<Rightarrow> tbl_run \<Rightarrow> tbl_agent \<Rightarrow> store_db \<Rightarrow> jstr option" where
  "checkAutoChainGuards tk w run agent db =
     (let maxDepth = normalizeAutoChainMaxDepth (wr_max_depth w) in
      if \<not> ar_is_main agent \<and> maxDepth \<le> rr_depth run
      then Some (ko_ac_depth @ int_str maxDepth @ ko_ac_runs2)
      else if wr_dry_run w then Some (ko_ac_dry @ ar_name agent @ ko_ac_dry2)
      else autoChainWithinDailyGuards tk w db)"

definition resolveAutoChainAgent :: "jstr \<Rightarrow> jstr \<Rightarrow> store_db \<Rightarrow> tbl_agent option" where
  "resolveAutoChainAgent ws name db =
     find (\<lambda>a. ar_workspace a = ws \<and> map ascii_lower (ar_name a) = map ascii_lower name) (db_agents db)"

definition checkAutoChainDispatchDuplicates :: "tbl_run \<Rightarrow> tbl_agent \<Rightarrow> jstr \<Rightarrow> store_db \<Rightarrow> jstr option" where
  "checkAutoChainDispatchDuplicates run agent chainID db =
     (if \<exists>r \<in> set (db_runs db). rr_issue r = rr_issue run \<and> rr_agent r = ar_id agent \<and> rr_status r = RQueued
      then Some (ko_ac_dup1 @ ar_name agent @ ko_ac_dup2)
      else if ar_is_main agent then None
      else if \<exists>r \<in> set (db_runs db). rr_issue r = rr_issue run \<and> rr_agent r = ar_id agent \<and> (rr_chain r = chainID \<or> rr_id r = chainID)
      then Some (ko_ac_dup3 @ ar_name agent @ ko_ac_dup4)
      else None)"

subsection \<open>The dispatch\<close>

text \<open>A queued run as the handlers insert it: the columns they do not name have the defaults of the table.\<close>

definition queued_run :: "jstr \<Rightarrow> jstr \<Rightarrow> jstr \<Rightarrow> jstr \<Rightarrow> jstr option \<Rightarrow> jstr \<Rightarrow> jstr option \<Rightarrow> jstr \<Rightarrow> int \<Rightarrow> int \<Rightarrow> jstr \<Rightarrow> int \<Rightarrow> tbl_run" where
  "queued_run i iss agent trigger cmt snapshot parent chain depth version t maxAttempts =
     \<lparr>rr_id = i, rr_issue = iss, rr_agent = agent, rr_status = RQueued, rr_trigger = trigger, rr_trigger_comment = cmt, rr_snapshot = snapshot,
      rr_parent = parent, rr_chain = chain, rr_depth = depth, rr_version = version, rr_enqueued_at = t, rr_claimed_at = None,
      rr_claimed_by = [], rr_started_at = None, rr_heartbeat_at = None, rr_finished_at = None, rr_pid = None, rr_pgid = None,
      rr_recorded_at = None, rr_input_tokens = 0, rr_output_tokens = 0, rr_cost_micros = 0, rr_model = [], rr_attempt = 1,
      rr_max_attempts = maxAttempts, rr_next_retry_at = None, rr_exit_code = None, rr_stdout_path = None, rr_error_message = [],
      rr_terminal_reason = [], rr_failure_kind = [], rr_cancel_reason = []\<rparr>"

text \<open>The run that \<^verbatim>\<open>dispatchAutoChainRun\<close> inserts; only an agent that is not the main one goes deeper.\<close>

definition chained_run :: "tick \<Rightarrow> tbl_run \<Rightarrow> tbl_agent \<Rightarrow> jstr \<Rightarrow> jstr \<Rightarrow> jstr \<Rightarrow> int \<Rightarrow> tbl_run" where
  "chained_run tk run agent commentID content t maxAttempts =
     queued_run (tk_id tk 10) (rr_issue run) (ar_id agent) (js ''mention'') (Some commentID) (capSnapshot content) (Some (rr_id run))
       (nonempty_or (rr_chain run) (rr_id run)) (if ar_is_main agent then rr_depth run else rr_depth run + 1)
       (if ar_version agent \<le> 0 then 1 else ar_version agent) t maxAttempts"

definition dispatchAutoChainRun :: "tick \<Rightarrow> tbl_run \<Rightarrow> tbl_agent \<Rightarrow> jstr \<Rightarrow> jstr \<Rightarrow> jstr \<Rightarrow> bool tx" where
  "dispatchAutoChainRun tk run agent commentID content t =
     (let chainID = nonempty_or (rr_chain run) (rr_id run) in
      tx_bind (tx_get (checkAutoChainDispatchDuplicates run agent chainID)) (\<lambda>dup. case dup of
        Some message \<Rightarrow> tx_then (system_comment (tk_id tk 11) (rr_issue run) None message t) (tx_return False)
      | None \<Rightarrow>
          tx_bind (retryMaxAttemptsForAgent (ar_id agent)) (\<lambda>maxAttempts.
          let new = chained_run tk run agent commentID content t maxAttempts in
          tx_then (insert_run new)
          (tx_then (appendRunEventTx tk 12 (rr_id new) (rr_issue run) (js ''run_queued'') [] (js ''Run queued by auto-chain mention'')
             [(''trigger_type'', JStr (js ''mention'')), (''auto_chain'', JBool True), (''parent_run_id'', JStr (rr_id run)),
              (''chain_id'', JStr chainID), (''chain_depth'', JNum (dec_int (rr_depth new))), (''agent_name'', JStr (ar_name agent))])
          (tx_then (system_comment (tk_id tk 13) (rr_issue run) None
             (ko_ac_ok1 @ ar_name agent @ ko_ac_ok2) t)
          (tx_return True))))))"

definition enqueueAutoChainMention :: "tick \<Rightarrow> tbl_run \<Rightarrow> jstr \<Rightarrow> jstr \<Rightarrow> jstr \<Rightarrow> bool tx" where
  "enqueueAutoChainMention tk run commentID content t =
     (let mention = firstAutoChainMention tk content in
      if mention = [] then tx_return False
      else
        tx_bind (tx_one (workspace_of (rr_issue run))) (\<lambda>cfg.
        if \<not> wr_auto_chain cfg then tx_return False
        else
          tx_bind (tx_get (resolveAutoChainAgent (wr_id cfg) mention)) (\<lambda>found. case found of
            None \<Rightarrow> tx_then (system_comment (tk_id tk 14) (rr_issue run) None
                (ko_ac_none1 @ mention @ ko_ac_none2) t) (tx_return False)
          | Some agent \<Rightarrow>
              tx_bind (tx_get (checkAutoChainGuards tk cfg run agent)) (\<lambda>guard. case guard of
                Some message \<Rightarrow> tx_then (system_comment (tk_id tk 15) (rr_issue run) None message t) (tx_return False)
              | None \<Rightarrow> dispatchAutoChainRun tk run agent commentID content t))))"

end
