(* ===== verification/RunStore.thy ===== *)
theory RunStore
  imports AutoChain
begin

section \<open>The life of a run\<close>

text \<open>
  Models the handlers of \<^verbatim>\<open>internal/store/runs.go\<close>, \<^verbatim>\<open>cancellation.go\<close> and \<^verbatim>\<open>chain_retry.go\<close> that move a run
  through its states: claimed by a worker, finished or failed, put back for another attempt, cancelled
  one by one, by chain or by a recovery. A handler is an operation on the database of \<open>ServerDb\<close>; its
  transaction is rolled back on an error, what it does after the commit (wake-ups, reading the run
  again) is done on the new database. An error of the database itself is a rollback and not modelled
  apart. The returned run is the row; the name of the agent and the file sizes that
  \<^verbatim>\<open>runSelectBase\<close> and \<^verbatim>\<open>decorateRun\<close> add for the client are left out.
\<close>

definition agent_name :: "jstr \<Rightarrow> store_db \<Rightarrow> jstr" where
  "agent_name i db = (case find_agent i db of None \<Rightarrow> [] | Some a \<Rightarrow> ar_name a)"

definition GetRun :: "jstr \<Rightarrow> tbl_run op" where
  "GetRun i db = (case find_run i db of None \<Rightarrow> (Inl ErrNotFound, db) | Some r \<Rightarrow> (Inr r, db))"

text \<open>\<^verbatim>\<open>s.notifyRunEvent\<close> and the run read again, after the commit.\<close>

definition notify_and_get :: "jstr \<Rightarrow> jstr \<Rightarrow> tbl_run op" where
  "notify_and_get iss i db = GetRun i (notifyRunEvent iss i db)"


text \<open>The first row in an order, ties by the order of the table.\<close>

fun first_row :: "('a \<Rightarrow> 'a \<Rightarrow> bool) \<Rightarrow> 'a list \<Rightarrow> 'a option" where
  "first_row before [] = None"
| "first_row before (x # xs) =
     (case first_row before xs of None \<Rightarrow> Some x | Some y \<Rightarrow> if before y x then Some y else Some x)"

text \<open>A loop over rows in a transaction; the body gets the position.\<close>

fun tx_each :: "(nat \<Rightarrow> 'a \<Rightarrow> nat tx) \<Rightarrow> nat \<Rightarrow> 'a list \<Rightarrow> nat tx" where
  "tx_each body k [] = tx_return 0"
| "tx_each body k (x # xs) = tx_bind (body k x) (\<lambda>n. tx_bind (tx_each body (Suc k) xs) (\<lambda>m. tx_return (n + m)))"

subsection \<open>Claiming\<close>

definition running_on_issue :: "jstr \<Rightarrow> store_db \<Rightarrow> bool" where
  "running_on_issue iss db \<longleftrightarrow> (\<exists>r \<in> set (db_runs db). rr_issue r = iss \<and> rr_status r = RRunning)"

text \<open>A running run in a workspace without a worktree per run.\<close>

definition running_in_workspace :: "jstr \<Rightarrow> store_db \<Rightarrow> bool" where
  "running_in_workspace ws db \<longleftrightarrow>
     (\<exists>r \<in> set (db_runs db). rr_status r = RRunning \<and>
        (case workspace_of (rr_issue r) db of None \<Rightarrow> False | Some w \<Rightarrow> wr_id w = ws \<and> \<not> wr_worktree w))"

definition claimable :: "jstr \<Rightarrow> store_db \<Rightarrow> tbl_run \<Rightarrow> bool" where
  "claimable t db r \<longleftrightarrow>
     (case workspace_of (rr_issue r) db of
        None \<Rightarrow> False
      | Some w \<Rightarrow>
          rr_status r = RQueued \<and>
          (case rr_next_retry_at r of None \<Rightarrow> True | Some u \<Rightarrow> u = [] \<or> \<not> str_less t u) \<and>
          \<not> running_on_issue (rr_issue r) db \<and>
          (wr_worktree w \<or> \<not> running_in_workspace (wr_id w) db))"

definition enqueued_before :: "tbl_run \<Rightarrow> tbl_run \<Rightarrow> bool" where
  "enqueued_before a b \<longleftrightarrow>
     str_less (rr_enqueued_at a) (rr_enqueued_at b) \<or> (rr_enqueued_at a = rr_enqueued_at b \<and> str_less (rr_id a) (rr_id b))"

definition claimed :: "jstr \<Rightarrow> jstr \<Rightarrow> tbl_run \<Rightarrow> tbl_run" where
  "claimed t worker r = r\<lparr>rr_status := RRunning, rr_claimed_at := Some t, rr_claimed_by := worker, rr_started_at := Some t,
     rr_heartbeat_at := Some t\<rparr>"

definition ClaimNextRun_tx :: "tick \<Rightarrow> jstr \<Rightarrow> tbl_run option tx" where
  "ClaimNextRun_tx tk worker =
     tx_bind (tx_get (\<lambda>db. first_row enqueued_before (filter (claimable (tk_now tk 0) db) (db_runs db)))) (\<lambda>found. case found of
       None \<Rightarrow> tx_return None
     | Some q \<Rightarrow>
         let t = tk_now tk 1 in
         tx_bind (update_runs (\<lambda>r. rr_id r = rr_id q \<and> rr_status r = RQueued) (claimed t worker)) (\<lambda>aff.
         if aff = 0 then tx_return None
         else
           tx_bind (tx_one (find_run (rr_id q))) (\<lambda>r.
           tx_bind (tx_get (agent_name (rr_agent r))) (\<lambda>name.
           tx_then (system_comment (tk_id tk 2) (rr_issue r) (Some (rr_id r)) (name @ ko_srv_started) t)
           (tx_then (appendRunEventTx tk 3 (rr_id r) (rr_issue r) (js ''run_claimed'') [] (js ''Run claimed by worker'')
              [(''worker_id'', JStr worker)])
           (tx_return (Some r)))))))"

definition ClaimNextRun :: "tick \<Rightarrow> jstr \<Rightarrow> tbl_run option op" where
  "ClaimNextRun tk worker = op_bind (commit (ClaimNextRun_tx tk worker)) (\<lambda>found db. case found of
     None \<Rightarrow> (Inr None, db) | Some r \<Rightarrow> (Inr (Some r), notifyRunEvent (rr_issue r) (rr_id r) db))"

subsection \<open>Finishing\<close>

record finish_input =
  fi_exit_code :: int
  fi_stdout_path :: jstr
  fi_content :: jstr
  fi_content_truncated :: bool
  fi_stdout_truncated :: bool
  fi_error_message :: jstr
  fi_terminal_reason :: jstr
  fi_failure_kind :: jstr
  fi_input_tokens :: int
  fi_output_tokens :: int
  fi_cost_micros :: int
  fi_model :: jstr

definition blank_finish :: finish_input where
  "blank_finish = \<lparr>fi_exit_code = 0, fi_stdout_path = [], fi_content = [], fi_content_truncated = False, fi_stdout_truncated = False,
     fi_error_message = [], fi_terminal_reason = [], fi_failure_kind = [], fi_input_tokens = 0, fi_output_tokens = 0,
     fi_cost_micros = 0, fi_model = []\<rparr>"

definition normalizeFinishRunInput :: "finish_input \<Rightarrow> run_status \<times> finish_input" where
  "normalizeFinishRunInput in0 =
     (let in1 = (if fi_terminal_reason in0 = []
                 then in0\<lparr>fi_terminal_reason := (if fi_exit_code in0 \<noteq> 0 then js ''exit_nonzero'' else js ''completed'')\<rparr> else in0);
          status = (if fi_exit_code in1 \<noteq> 0 \<or> fi_terminal_reason in1 \<noteq> js ''completed'' then RFailed else RDone);
          in2 = (if status = RFailed \<and> fi_failure_kind in1 = []
                 then in1\<lparr>fi_failure_kind := (if fi_terminal_reason in1 = js ''exit_nonzero'' then js ''exit_nonzero'' else js ''unknown'')\<rparr>
                 else in1)
      in (status, if status = RDone then in2\<lparr>fi_failure_kind := []\<rparr> else in2))"

definition null_if_empty :: "jstr \<Rightarrow> jstr option" where
  "null_if_empty v = (if v = [] then None else Some v)"

definition finished :: "run_status \<Rightarrow> finish_input \<Rightarrow> jstr \<Rightarrow> tbl_run \<Rightarrow> tbl_run" where
  "finished status fin t r = r\<lparr>rr_status := status, rr_finished_at := Some t, rr_exit_code := Some (fi_exit_code fin),
     rr_stdout_path := null_if_empty (fi_stdout_path fin), rr_error_message := fi_error_message fin,
     rr_terminal_reason := fi_terminal_reason fin, rr_failure_kind := fi_failure_kind fin, rr_cancel_reason := [],
     rr_input_tokens := fi_input_tokens fin, rr_output_tokens := fi_output_tokens fin, rr_cost_micros := fi_cost_micros fin,
     rr_model := fi_model fin\<rparr>"

definition updateRunTerminalTx :: "jstr \<Rightarrow> run_status \<Rightarrow> finish_input \<Rightarrow> jstr \<Rightarrow> bool tx" where
  "updateRunTerminalTx runID status fin t =
     tx_bind (update_runs (\<lambda>r. rr_id r = runID \<and> rr_status r = RRunning) (finished status fin t)) (\<lambda>aff. tx_return (0 < aff))"

definition emptyRunComment :: "run_status \<Rightarrow> jstr \<Rightarrow> jstr" where
  "emptyRunComment status errMsg =
     (if status = RFailed
      then (if \<not> go_blank errMsg then ko_srv_failed @ errMsg
            else ko_srv_failed_empty)
      else ko_srv_done_empty)"

definition insertAgentResultCommentTx :: "tick \<Rightarrow> tbl_run \<Rightarrow> run_status \<Rightarrow> finish_input \<Rightarrow> jstr \<Rightarrow> (jstr \<times> jstr) tx" where
  "insertAgentResultCommentTx tk run status fin t =
     (let content = nonempty_or (fi_content fin) (emptyRunComment status (fi_error_message fin)); commentID = tk_id tk 2 in
      tx_then (insert_comment \<lparr>cr_id = commentID, cr_issue = rr_issue run, cr_author_type = js ''agent'', cr_author_agent = Some (rr_agent run),
                 cr_run = Some (rr_id run), cr_content = content, cr_truncated = fi_content_truncated fin, cr_created_at = t\<rparr>)
        (tx_return (commentID, content)))"

definition emitRunFinishEventsTx :: "tick \<Rightarrow> tbl_run \<Rightarrow> run_status \<Rightarrow> finish_input \<Rightarrow> unit tx" where
  "emitRunFinishEventsTx tk run status fin =
     tx_then (if fi_stdout_truncated fin
              then tx_then (appendRunEventTx tk 3 (rr_id run) (rr_issue run) (js ''stdout_truncated'') (js ''warn'')
                     (js ''Stdout was truncated by output cap'') []) (tx_return ())
              else tx_return ())
       (tx_then (appendRunEventTx tk 4 (rr_id run) (rr_issue run)
          (if status = RFailed then js ''run_failed'' else js ''run_completed'') (if status = RFailed then js ''error'' else js ''info'')
          (if status = RFailed then js ''Run failed'' else js ''Run completed'')
          [(''exit_code'', JNum (dec_int (fi_exit_code fin))), (''terminal_reason'', JStr (fi_terminal_reason fin)),
           (''failure_kind'', JStr (fi_failure_kind fin)), (''input_tokens'', JNum (dec_int (fi_input_tokens fin))),
           (''output_tokens'', JNum (dec_int (fi_output_tokens fin))), (''total_cost_micros'', JNum (dec_int (fi_cost_micros fin))),
           (''model_resolved'', JStr (fi_model fin))])
       (tx_return ()))"

text \<open>Whether the issue was flipped to done.\<close>

definition maybeMarkIssueDoneTx :: "tbl_run \<Rightarrow> run_status \<Rightarrow> bool \<Rightarrow> jstr \<Rightarrow> bool tx" where
  "maybeMarkIssueDoneTx run status autoChainQueued t =
     (if status \<noteq> RDone \<or> autoChainQueued then tx_return False
      else tx_bind (tx_one (workspace_of (rr_issue run))) (\<lambda>w.
             if \<not> wr_auto_close w then tx_return False
             else tx_then (set_issue_status (rr_issue run) IDone t) (tx_return True)))"

definition enqueueRunLifecycleWebhookTx :: "tick \<Rightarrow> nat \<Rightarrow> tbl_run \<Rightarrow> jstr \<Rightarrow> jstr \<Rightarrow> finish_input \<Rightarrow> jstr \<Rightarrow> unit tx" where
  "enqueueRunLifecycleWebhookTx tk k run event status fin t =
     tx_bind (tx_one (workspace_of (rr_issue run))) (\<lambda>ws.
     tx_bind (tx_one (find_issue (rr_issue run))) (\<lambda>iss.
     tx_bind (tx_get (agent_name (rr_agent run))) (\<lambda>name.
     tx_then (EnqueueWebhookDeliveries tk k (wr_id ws) event
       (jobj [(''event'', JStr event), (''occurred_at'', JStr t),
         (''workspace'', jobj [(''id'', JStr (wr_id ws)), (''slug'', JStr (wr_slug ws)), (''name'', JStr (wr_name ws))]),
         (''issue'', jobj [(''id'', JStr (ir_id iss)), (''identifier'', JStr (ir_identifier iss)), (''title'', JStr (ir_title iss)),
            (''status'', JStr (issue_status_str (ir_status iss)))]),
         (''run'', jobj [(''id'', JStr (rr_id run)), (''agent_id'', JStr (rr_agent run)), (''agent_name'', JStr name),
            (''status'', JStr status), (''exit_code'', JNum (dec_int (fi_exit_code fin))), (''error_message'', JStr (fi_error_message fin))])]))
     (tx_return ()))))"

text \<open>What follows the update of the run, in its transaction.\<close>

definition complete_followup :: "tick \<Rightarrow> tbl_run \<Rightarrow> run_status \<Rightarrow> finish_input \<Rightarrow> jstr \<Rightarrow> bool tx" where
  "complete_followup tk run status fin t =
     tx_bind (insertAgentResultCommentTx tk run status fin t) (\<lambda>(commentID, content).
     tx_bind (if status = RDone then enqueueAutoChainMention tk run commentID content t else tx_return False) (\<lambda>autoChainQueued.
     tx_then (emitRunFinishEventsTx tk run status fin)
     (tx_bind (maybeMarkIssueDoneTx run status autoChainQueued t) (\<lambda>markedDone.
     tx_then (enqueueRunLifecycleWebhookTx tk 20 run (if status = RDone then js ''run.completed'' else js ''run.failed'')
                (run_status_str status) fin t)
     (tx_then (if markedDone then enqueueRunLifecycleWebhookTx tk 1000 run (js ''issue.done'') (js ''done'') fin t else tx_return ())
     (tx_return True))))))"

text \<open>The transaction of \<^verbatim>\<open>CompleteRunWithReason\<close>: false when the run was not running any more.\<close>

definition CompleteRun_tx :: "tick \<Rightarrow> tbl_run \<Rightarrow> run_status \<Rightarrow> finish_input \<Rightarrow> bool tx" where
  "CompleteRun_tx tk run status fin =
     (let t = tk_now tk 0 in
      tx_bind (updateRunTerminalTx (rr_id run) status fin t) (\<lambda>updated.
      if \<not> updated then tx_return False else complete_followup tk run status fin t))"

definition recoverRunStdoutPath :: "jstr \<Rightarrow> jstr \<Rightarrow> store_db \<Rightarrow> store_db" where
  "recoverRunStdoutPath runID path db =
     (if path = [] then db
      else db\<lparr>db_runs := map (\<lambda>r. if rr_id r = runID \<and> (rr_stdout_path r = None \<or> rr_stdout_path r = Some [])
                                  then r\<lparr>rr_stdout_path := Some path\<rparr> else r) (db_runs db)\<rparr>)"

definition go_trim :: "jstr \<Rightarrow> jstr" where
  "go_trim s = rev (dropWhile go_space (rev (dropWhile go_space s)))"

definition CompleteRunWithReason :: "tick \<Rightarrow> jstr \<Rightarrow> finish_input \<Rightarrow> tbl_run op" where
  "CompleteRunWithReason tk runID in0 =
     (case normalizeFinishRunInput in0 of (status, fin) \<Rightarrow>
      op_bind (GetRun runID) (\<lambda>run.
      op_bind (commit (CompleteRun_tx tk run status fin)) (\<lambda>updated db.
        if updated then notify_and_get (rr_issue run) runID db
        else GetRun runID (recoverRunStdoutPath runID (go_trim (fi_stdout_path fin)) db))))"

definition CompleteRun :: "tick \<Rightarrow> jstr \<Rightarrow> int \<Rightarrow> jstr \<Rightarrow> jstr \<Rightarrow> bool \<Rightarrow> jstr \<Rightarrow> tbl_run op" where
  "CompleteRun tk runID exitCode stdoutPath content contentTruncated errMsg = CompleteRunWithReason tk runID
     (blank_finish\<lparr>fi_exit_code := exitCode, fi_stdout_path := stdoutPath, fi_content := content, fi_content_truncated := contentTruncated,
        fi_error_message := errMsg, fi_terminal_reason := (if exitCode \<noteq> 0 then js ''exit_nonzero'' else js ''completed''),
        fi_failure_kind := (if exitCode \<noteq> 0 then js ''exit_nonzero'' else [])\<rparr>)"

definition FailRun :: "tick \<Rightarrow> jstr \<Rightarrow> jstr \<Rightarrow> tbl_run op" where
  "FailRun tk runID errMsg = CompleteRunWithReason tk runID
     (blank_finish\<lparr>fi_exit_code := 1, fi_error_message := errMsg, fi_terminal_reason := js ''unknown_failure'', fi_failure_kind := js ''unknown''\<rparr>)"

definition infra_failed :: "jstr \<Rightarrow> jstr \<Rightarrow> jstr \<Rightarrow> jstr \<Rightarrow> tbl_run \<Rightarrow> tbl_run" where
  "infra_failed t errMsg reason kind r = r\<lparr>rr_status := RFailed, rr_finished_at := Some t, rr_exit_code := Some 1,
     rr_error_message := errMsg, rr_terminal_reason := reason, rr_failure_kind := kind, rr_cancel_reason := []\<rparr>"

definition FailInfrastructureRun_tx :: "tick \<Rightarrow> tbl_run \<Rightarrow> jstr \<Rightarrow> jstr \<Rightarrow> jstr \<Rightarrow> bool tx" where
  "FailInfrastructureRun_tx tk run reason kind errMsg =
     (let t = tk_now tk 0 in
      tx_bind (update_runs (\<lambda>r. rr_id r = rr_id run \<and> active_status (rr_status r)) (infra_failed t errMsg reason kind)) (\<lambda>aff.
      if aff = 0 then tx_return False
      else
        tx_then (insert_comment \<lparr>cr_id = tk_id tk 2, cr_issue = rr_issue run, cr_author_type = js ''agent'',
                   cr_author_agent = Some (rr_agent run), cr_run = Some (rr_id run), cr_content = emptyRunComment RFailed errMsg,
                   cr_truncated = False, cr_created_at = t\<rparr>)
        (tx_then (appendRunEventTx tk 3 (rr_id run) (rr_issue run)
           (if reason = js ''claim_preparation_failed'' then js ''run_prepare_failed'' else js ''run_failed'') (js ''error'')
           (if reason = js ''claim_preparation_failed'' then js ''Run preparation failed'' else js ''Run failed'')
           [(''terminal_reason'', JStr reason), (''failure_kind'', JStr kind)])
        (tx_then (enqueueRunLifecycleWebhookTx tk 20 run (js ''run.failed'') (js ''failed'')
           (blank_finish\<lparr>fi_exit_code := 1, fi_error_message := errMsg\<rparr>) t)
        (tx_return True)))))"

definition FailInfrastructureRun :: "tick \<Rightarrow> jstr \<Rightarrow> jstr \<Rightarrow> jstr \<Rightarrow> jstr \<Rightarrow> tbl_run op" where
  "FailInfrastructureRun tk runID reason0 kind0 errMsg =
     (let reason = nonempty_or reason0 (js ''unknown_failure''); kind = nonempty_or kind0 (js ''unknown'') in
      op_bind (GetRun runID) (\<lambda>run.
      op_bind (commit (FailInfrastructureRun_tx tk run reason kind errMsg)) (\<lambda>updated db.
        if updated then notify_and_get (rr_issue run) runID db else GetRun runID db)))"

subsection \<open>Cancelling\<close>

definition cancelled :: "jstr \<Rightarrow> int \<Rightarrow> jstr \<Rightarrow> jstr \<Rightarrow> jstr \<Rightarrow> tbl_run \<Rightarrow> tbl_run" where
  "cancelled t code msg terminal reason r = r\<lparr>rr_status := RCancelled, rr_finished_at := Some t, rr_exit_code := Some code,
     rr_error_message := msg, rr_terminal_reason := terminal, rr_cancel_reason := reason\<rparr>"

definition CancelRun_tx :: "tick \<Rightarrow> tbl_run \<Rightarrow> cancel_input \<Rightarrow> unit tx" where
  "CancelRun_tx tk run reason =
     (let t = tk_now tk 0 in
      tx_bind (update_runs (\<lambda>r. rr_id r = rr_id run \<and> active_status (rr_status r))
                (cancelled t (-1) (ci_message reason) (ci_terminal reason) (ci_reason reason))) (\<lambda>aff.
      tx_then (tx_guard (aff \<noteq> 0) ErrState)
      (tx_then (system_comment (tk_id tk 1) (rr_issue run) (Some (rr_id run)) (cancelComment reason) t)
      (tx_then (appendRunEventTx tk 2 (rr_id run) (rr_issue run) (js ''run_cancelled'') [] (js ''Run cancelled'')
         [(''terminal_reason'', JStr (ci_terminal reason)), (''cancel_reason'', JStr (ci_reason reason))])
      (tx_return ())))))"

definition CancelRunWithReason :: "tick \<Rightarrow> jstr \<Rightarrow> cancel_input \<Rightarrow> tbl_run op" where
  "CancelRunWithReason tk runID reason0 =
     (let reason = normalizeCancelReason reason0 in
      op_bind (GetRun runID) (\<lambda>r.
      if \<not> active_status (rr_status r) then (\<lambda>db. (Inl ErrState, db))
      else op_bind (commit (CancelRun_tx tk r reason)) (\<lambda>_. notify_and_get (rr_issue r) (rr_id r))))"

definition CancelRun :: "tick \<Rightarrow> jstr \<Rightarrow> jstr \<Rightarrow> tbl_run op" where
  "CancelRun tk runID reason = CancelRunWithReason tk runID (classifyCancelReason reason)"

definition CancelRunningRun :: "tick \<Rightarrow> jstr \<Rightarrow> tbl_run op" where
  "CancelRunningRun tk issueID db =
     (case find (\<lambda>r. rr_issue r = issueID \<and> rr_status r = RRunning) (db_runs db) of
        None \<Rightarrow> (Inl ErrNotFound, db)
      | Some r \<Rightarrow> CancelRunWithReason tk (rr_id r)
          \<lparr>ci_message = defaultCancelMessage (js ''user''), ci_terminal = js ''user_cancelled'', ci_reason = js ''user''\<rparr> db)"

text \<open>One run of a loop over runs to be cancelled: the guarded update, the comment and the event; the rows that
  are no longer in a state to be cancelled are skipped. \<open>code\<close>, \<open>comment\<close> and the event are the caller's.\<close>

definition cancel_row :: "tick \<Rightarrow> (run_status \<Rightarrow> bool) \<Rightarrow> (tbl_run \<Rightarrow> tbl_run) \<Rightarrow> jstr \<Rightarrow> jstr \<Rightarrow> jstr \<Rightarrow> jstr \<Rightarrow> jstr \<Rightarrow>
    (string \<times> json) list \<Rightarrow> nat \<Rightarrow> tbl_run \<Rightarrow> nat tx" where
  "cancel_row tk guard upd cmt t etype severity msg details k row =
     tx_bind (update_runs (\<lambda>r. rr_id r = rr_id row \<and> guard (rr_status r)) upd) (\<lambda>aff.
     if aff = 0 then tx_return 0
     else
       tx_then (system_comment (tk_id tk (2 * k + 1)) (rr_issue row) (Some (rr_id row)) cmt t)
       (tx_then (appendRunEventTx tk (2 * k + 2) (rr_id row) (rr_issue row) etype severity msg details)
       (tx_return 1)))"

definition notify_all :: "tbl_run list \<Rightarrow> store_db \<Rightarrow> store_db" where
  "notify_all rows db = db\<lparr>db_wakes := db_wakes db @ map (\<lambda>r. (rr_issue r, rr_id r)) rows\<rparr>"

definition sort_rows :: "(tbl_run \<Rightarrow> jstr) \<Rightarrow> tbl_run list \<Rightarrow> tbl_run list" where
  "sort_rows key = js_sort (\<lambda>a b. code_unit_compare (key a) (key b))"

definition chain_active :: "jstr \<Rightarrow> store_db \<Rightarrow> tbl_run list" where
  "chain_active chainID db = sort_rows rr_enqueued_at (filter (\<lambda>r. rr_chain r = chainID \<and> active_status (rr_status r)) (db_runs db))"

definition CancelRunsByChain :: "tick \<Rightarrow> jstr \<Rightarrow> cancel_input \<Rightarrow> nat op" where
  "CancelRunsByChain tk chainID reason0 db =
     (if go_blank chainID then (Inl ErrValidation, db)
      else
        (let n = normalizeCancelReason reason0;
             reason = (if ci_message n = [] then n\<lparr>ci_message := js ''Run cancelled because chain was cancelled''\<rparr> else n);
             rows = chain_active chainID db; t = tk_now tk 0
         in if rows = [] then (Inr 0, db)
            else op_bind (commit (tx_each (cancel_row tk active_status
                (cancelled t (-1) (ci_message reason) (ci_terminal reason) (ci_reason reason)) (cancelComment reason) t
                (js ''run_cancelled'') [] (js ''Run cancelled because chain was cancelled'')
                [(''chain_id'', JStr chainID), (''terminal_reason'', JStr (ci_terminal reason)), (''cancel_reason'', JStr (ci_reason reason))]) 0 rows))
              (\<lambda>n db'. (Inr n, notify_all rows db')) db))"

subsection \<open>Recovery\<close>

text \<open>At the start of the server no worker runs, so whatever is running has lost its process.\<close>

definition RecoverOrphanRuns :: "tick \<Rightarrow> nat op" where
  "RecoverOrphanRuns tk db =
     (let rows = filter (\<lambda>r. rr_status r = RRunning \<and> rr_finished_at r = None) (db_runs db); t = tk_now tk 0 in
      if rows = [] then (Inr 0, db)
      else op_bind (commit (tx_each (cancel_row tk (\<lambda>_. True)
              (cancelled t (-2) (js ''orphan recovered'') (js ''orphan_recovered'') (js ''orphan''))
              ko_srv_cancel_orphan t (js ''orphan_recovered'') (js ''warn'') (js ''Orphan running run recovered'')
              [(''terminal_reason'', JStr (js ''orphan_recovered'')), (''cancel_reason'', JStr (js ''orphan''))]) 0 rows))
        (\<lambda>_ db'. (Inr (length rows), notify_all rows db')) db)"

definition stale :: "jstr \<Rightarrow> jstr list \<Rightarrow> tbl_run \<Rightarrow> bool" where
  "stale cutoff exclude r \<longleftrightarrow> rr_status r = RRunning \<and> rr_finished_at r = None \<and>
     (case rr_heartbeat_at r of None \<Rightarrow> True
      | Some h \<Rightarrow> str_less h cutoff \<or> (h = [] \<and> (case rr_claimed_at r of None \<Rightarrow> False | Some c \<Rightarrow> str_less c cutoff))) \<and>
     rr_id r \<notin> set exclude"

definition RecoverStaleRuns :: "tick \<Rightarrow> jstr \<Rightarrow> jstr list \<Rightarrow> nat op" where
  "RecoverStaleRuns tk cutoff exclude db =
     (if go_blank cutoff then (Inl ErrValidation, db)
      else
        (let rows = sort_rows (\<lambda>r. nullish (rr_heartbeat_at r) []) (sort_rows (\<lambda>r. nullish (rr_claimed_at r) [])
               (filter (stale cutoff exclude) (db_runs db))); t = tk_now tk 0 in
         if rows = [] then (Inr 0, db)
         else op_bind (commit (tx_each (cancel_row tk (\<lambda>st. st = RRunning)
                 (cancelled t (-3) (js ''stale recovered'') (js ''stale_recovered'') (js ''stale''))
                 ko_srv_cancel_stale t (js ''stale_recovered'') (js ''warn'') (js ''Stale running run recovered'')
                 [(''terminal_reason'', JStr (js ''stale_recovered'')), (''cancel_reason'', JStr (js ''stale'')), (''cutoff'', JStr cutoff)]) 0 rows))
           (\<lambda>_ db'. (Inr (length rows), notify_all rows db')) db))"

subsection \<open>Another attempt\<close>

definition rescheduled :: "jstr \<Rightarrow> jstr \<Rightarrow> jstr \<Rightarrow> tbl_run \<Rightarrow> tbl_run" where
  "rescheduled nextRetryAt stdoutPath errMsg r = r\<lparr>rr_status := RQueued, rr_next_retry_at := null_if_empty nextRetryAt,
     rr_attempt := rr_attempt r + 1, rr_claimed_at := None, rr_claimed_by := [], rr_started_at := None, rr_heartbeat_at := None,
     rr_pid := None, rr_pgid := None, rr_recorded_at := None, rr_stdout_path := null_if_empty stdoutPath,
     rr_error_message := errMsg, rr_terminal_reason := [], rr_failure_kind := [], rr_cancel_reason := []\<rparr>"

definition RescheduleRunForRetry_tx :: "tick \<Rightarrow> jstr \<Rightarrow> jstr \<Rightarrow> jstr \<Rightarrow> jstr \<Rightarrow> tbl_run tx" where
  "RescheduleRunForRetry_tx tk runID failureKind errMsg stdoutPath =
     tx_bind (tx_one (find_run runID)) (\<lambda>run.
     tx_bind (retryPolicyForAgent (rr_agent run)) (\<lambda>policy.
     tx_then (tx_guard (rr_status run = RRunning \<and> shouldRetryRunWithPolicy failureKind (rr_attempt run) (rr_max_attempts run) policy) ErrState)
     (let nextRetryAt = tk_after tk (retryBackoffWithPolicy (rr_attempt run) policy); t = tk_now tk 0 in
      tx_bind (update_runs (\<lambda>r. rr_id r = runID \<and> rr_status r = RRunning \<and> rr_attempt r < rr_max_attempts r)
                (rescheduled nextRetryAt stdoutPath errMsg)) (\<lambda>aff.
      tx_then (tx_guard (aff \<noteq> 0) ErrState)
      (tx_then (system_comment (tk_id tk 1) (rr_issue run) (Some (rr_id run))
         (ko_srv_retry @ int_str (rr_attempt run + 1) @ js ''/'' @ int_str (rr_max_attempts run) @
          js '', '' @ nextRetryAt @ js '')'') t)
      (tx_then (appendRunEventTx tk 2 (rr_id run) (rr_issue run) (js ''run_failed'') (js ''warn'') (js ''Run retry scheduled'')
         [(''attempt'', JNum (dec_int (rr_attempt run))), (''next_attempt'', JNum (dec_int (rr_attempt run + 1))),
          (''max_attempts'', JNum (dec_int (rr_max_attempts run))), (''failure_kind'', JStr failureKind),
          (''error_message'', JStr errMsg), (''next_retry_at'', JStr nextRetryAt), (''retry_scheduled'', JBool True)])
      (tx_return run)))))))"

definition RescheduleRunForRetry :: "tick \<Rightarrow> jstr \<Rightarrow> jstr \<Rightarrow> jstr \<Rightarrow> jstr \<Rightarrow> tbl_run op" where
  "RescheduleRunForRetry tk runID failureKind errMsg stdoutPath =
     op_bind (commit (RescheduleRunForRetry_tx tk runID failureKind errMsg stdoutPath)) (\<lambda>run. notify_and_get (rr_issue run) (rr_id run))"

subsection \<open>Signs of life\<close>

definition HeartbeatRun :: "tick \<Rightarrow> jstr \<Rightarrow> unit op" where
  "HeartbeatRun tk runID = commit
     (tx_bind (update_runs (\<lambda>r. rr_id r = runID \<and> rr_status r = RRunning) (\<lambda>r. r\<lparr>rr_heartbeat_at := Some (tk_now tk 0)\<rparr>)) (\<lambda>aff.
      tx_guard (aff \<noteq> 0) ErrState))"

definition MarkRunProcess :: "tick \<Rightarrow> jstr \<Rightarrow> int \<Rightarrow> int \<Rightarrow> unit op" where
  "MarkRunProcess tk runID pid pgid db =
     (if go_blank runID \<or> pid < 0 \<or> pgid < 0 then (Inl ErrValidation, db)
      else op_bind (commit
        (tx_bind (update_runs (\<lambda>r. rr_id r = runID \<and> rr_status r = RRunning)
            (\<lambda>r. r\<lparr>rr_pid := Some pid, rr_pgid := Some pgid, rr_recorded_at := Some (tk_now tk 0)\<rparr>)) (\<lambda>aff.
         tx_then (tx_guard (aff \<noteq> 0) ErrState)
           (appendRunEventTx tk 1 runID [] (js ''executor_starting'') [] (js ''Executor process started'')
              [(''pid'', JNum (dec_int pid)), (''pgid'', JNum (dec_int pgid))]))))
        (\<lambda>e db'. (Inr (), notifyRunEvent (er_issue e) (er_run e) db')) db)"

definition AppendRunEvent :: "tick \<Rightarrow> jstr \<Rightarrow> jstr \<Rightarrow> jstr \<Rightarrow> jstr \<Rightarrow> jstr \<Rightarrow> (string \<times> json) list \<Rightarrow> tbl_event op" where
  "AppendRunEvent tk run iss etype severity msg details = op_bind (commit (appendRunEventTx tk 0 run iss etype severity msg details))
     (\<lambda>e db. (Inr e, notifyRunEvent (er_issue e) (er_run e) db))"

subsection \<open>Retrying a chain\<close>

definition later_finished :: "tbl_run \<Rightarrow> tbl_run \<Rightarrow> bool" where
  "later_finished a b \<longleftrightarrow>
     (case (rr_finished_at a, rr_finished_at b) of
        (Some s, Some t) \<Rightarrow> str_less t s \<or> (s = t \<and> str_less (rr_enqueued_at b) (rr_enqueued_at a))
      | (Some s, None) \<Rightarrow> True
      | (None, Some t) \<Rightarrow> False
      | (None, None) \<Rightarrow> str_less (rr_enqueued_at b) (rr_enqueued_at a))"

definition last_failed :: "jstr \<Rightarrow> store_db \<Rightarrow> tbl_run option" where
  "last_failed chainID db = first_row later_finished (filter (\<lambda>r. rr_chain r = chainID \<and> rr_status r = RFailed) (db_runs db))"

definition RetryFailedRunInChain_tx :: "tick \<Rightarrow> jstr \<Rightarrow> tbl_run \<Rightarrow> unit tx" where
  "RetryFailedRunInChain_tx tk chainID prev =
     (let runID = tk_id tk 0; t = tk_now tk 0; snapshot = js ''[chain retry of run '' @ rr_id prev @ js '']'' in
      tx_bind (retryMaxAttemptsForAgent (rr_agent prev)) (\<lambda>maxAttempts.
      tx_bind (agentInstructionsVersionForAgent (rr_agent prev)) (\<lambda>version.
      tx_then (insert_run (queued_run runID (rr_issue prev) (rr_agent prev) (js ''rerun'') None snapshot (Some (rr_id prev)) (rr_chain prev)
         (rr_depth prev) version t maxAttempts))
      (tx_then (appendRunEventTx tk 1 runID (rr_issue prev) (js ''run_queued'') [] (js ''Run queued by chain retry'')
         [(''trigger_type'', JStr (js ''rerun'')), (''chain_id'', JStr chainID), (''retry_of'', JStr (rr_id prev))])
      (set_issue_status (rr_issue prev) IOpen t)))))"

definition RetryFailedRunInChain :: "tick \<Rightarrow> jstr \<Rightarrow> tbl_run op" where
  "RetryFailedRunInChain tk chainID db =
     (if go_blank chainID then (Inl ErrValidation, db)
      else if \<exists>r \<in> set (db_runs db). rr_chain r = chainID \<and> active_status (rr_status r) then (Inl ErrState, db)
      else (case last_failed chainID db of
              None \<Rightarrow> (Inl ErrNotFound, db)
            | Some prev \<Rightarrow> op_bind (commit (RetryFailedRunInChain_tx tk chainID prev)) (\<lambda>_. GetRun (tk_id tk 0)) db))"

end
