(* ===== verification/RunQueue.thy ===== *)
theory RunQueue
  imports RunStore
begin

section \<open>The run queue, abstractly\<close>

text \<open>
  What the handlers of \<open>RunStore\<close> and \<open>IssueStore\<close> promise together: a run queue. The abstract queue keeps
  of each run its issue, its agent, its state and its attempts, and of each issue its state; its moves
  are the relation \<open>qmove\<close>; that a property every step keeps holds along every sequence of steps is the interface
  \<open>kept_by_steps\<close>. \<open>queue_of\<close> maps the tables to it. The invariants are proved once for the
  moves; that every handler is a sequence of moves is the refinement in \<open>ServerRuns\<close>.
\<close>

subsection \<open>Invariants of a step relation\<close>

locale kept_by_steps =
  fixes step :: "'s \<Rightarrow> 's \<Rightarrow> bool" and ok :: "'s \<Rightarrow> bool"
  assumes kept: "step a b \<Longrightarrow> ok a \<Longrightarrow> ok b"
begin

lemma along: "step\<^sup>*\<^sup>* a b \<Longrightarrow> ok a \<Longrightarrow> ok b"
  by (induction rule: rtranclp_induct) (auto intro: kept)

end

subsection \<open>The specification\<close>

record qrun =
  q_issue :: jstr
  q_agent :: jstr
  q_status :: run_status
  q_attempt :: int
  q_max :: int

record queue =
  q_runs :: "jstr \<Rightarrow> qrun option"
  q_issues :: "jstr \<Rightarrow> issue_status option"

definition q_queued :: "queue \<Rightarrow> jstr \<Rightarrow> jstr \<Rightarrow> bool" where
  "q_queued q iss a \<longleftrightarrow> (\<exists>i r. q_runs q i = Some r \<and> q_issue r = iss \<and> q_agent r = a \<and> q_status r = RQueued)"

definition q_running :: "queue \<Rightarrow> jstr \<Rightarrow> bool" where
  "q_running q iss \<longleftrightarrow> (\<exists>i r. q_runs q i = Some r \<and> q_issue r = iss \<and> q_status r = RRunning)"

definition q_idle :: "queue \<Rightarrow> jstr \<Rightarrow> bool" where
  "q_idle q iss \<longleftrightarrow> (\<forall>i r. q_runs q i = Some r \<longrightarrow> q_issue r = iss \<longrightarrow> \<not> active_status (q_status r))"

definition q_put :: "jstr \<Rightarrow> qrun \<Rightarrow> queue \<Rightarrow> queue" where
  "q_put i r q = q\<lparr>q_runs := (q_runs q)(i \<mapsto> r)\<rparr>"

definition q_mark :: "jstr \<Rightarrow> issue_status \<Rightarrow> queue \<Rightarrow> queue" where
  "q_mark iss st q = q\<lparr>q_issues := (q_issues q)(iss \<mapsto> st)\<rparr>"

definition new_qrun :: "jstr \<Rightarrow> jstr \<Rightarrow> int \<Rightarrow> qrun" where
  "new_qrun iss a m = \<lparr>q_issue = iss, q_agent = a, q_status = RQueued, q_attempt = 1, q_max = m\<rparr>"

text \<open>The queued runs of an issue are cancelled with it.\<close>

definition drop_run :: "qrun \<Rightarrow> qrun" where
  "drop_run r = (if q_status r = RQueued then r\<lparr>q_status := RCancelled\<rparr> else r)"

definition q_drop :: "jstr \<Rightarrow> queue \<Rightarrow> queue" where
  "q_drop iss q = q\<lparr>q_runs := (\<lambda>i. map_option (\<lambda>r. if q_issue r = iss then drop_run r else r) (q_runs q i))\<rparr>"

text \<open>
  The moves: a run is queued on an issue, which becomes open; a run is queued on an issue where one is
  running; a queued run is claimed when none is running on its issue; a run ends; a running one goes
  back for another attempt; an issue is opened, closed, or cancelled with its queued runs when none is running.
\<close>

inductive qmove :: "queue \<Rightarrow> queue \<Rightarrow> bool" where
  q_enqueue: "q_runs q i = None \<Longrightarrow> q_issues q iss \<noteq> None \<Longrightarrow> \<not> q_queued q iss a \<Longrightarrow> 1 \<le> m \<Longrightarrow> m \<le> 5 \<Longrightarrow>
     qmove q (q_mark iss IOpen (q_put i (new_qrun iss a m) q))"
| q_chain: "q_runs q i = None \<Longrightarrow> q_running q iss \<Longrightarrow> \<not> q_queued q iss a \<Longrightarrow> 1 \<le> m \<Longrightarrow> m \<le> 5 \<Longrightarrow> qmove q (q_put i (new_qrun iss a m) q)"
| q_claim: "q_runs q i = Some r \<Longrightarrow> q_status r = RQueued \<Longrightarrow> \<not> q_running q (q_issue r) \<Longrightarrow>
     qmove q (q_put i (r\<lparr>q_status := RRunning\<rparr>) q)"
| q_finish: "q_runs q i = Some r \<Longrightarrow> active_status (q_status r) \<Longrightarrow> \<not> active_status st \<Longrightarrow> qmove q (q_put i (r\<lparr>q_status := st\<rparr>) q)"
| q_retry: "q_runs q i = Some r \<Longrightarrow> q_status r = RRunning \<Longrightarrow> q_attempt r < q_max r \<Longrightarrow> \<not> q_queued q (q_issue r) (q_agent r) \<Longrightarrow>
     qmove q (q_put i (r\<lparr>q_status := RQueued, q_attempt := q_attempt r + 1\<rparr>) q)"
| q_open: "qmove q (q_mark iss IOpen q)"
| q_close: "q_issues q iss \<noteq> None \<Longrightarrow> qmove q (q_mark iss IDone q)"
| q_cancel: "q_issues q iss \<noteq> None \<Longrightarrow> \<not> q_running q iss \<Longrightarrow> qmove q (q_mark iss ICancelled (q_drop iss q))"

definition q_delete :: "jstr \<Rightarrow> queue \<Rightarrow> queue" where
  "q_delete iss q = \<lparr>q_runs = (\<lambda>i. case q_runs q i of None \<Rightarrow> None | Some r \<Rightarrow> if q_issue r = iss then None else Some r),
     q_issues = (q_issues q)(iss := None)\<rparr>"

inductive_cases q_moves: "qmove q q'"

lemmas q_defs = q_queued_def q_running_def q_idle_def q_put_def q_mark_def new_qrun_def

subsection \<open>Its invariants\<close>

definition one_running :: "queue \<Rightarrow> bool" where
  "one_running q \<longleftrightarrow> (\<forall>i j r s. q_runs q i = Some r \<longrightarrow> q_runs q j = Some s \<longrightarrow> q_status r = RRunning \<longrightarrow> q_status s = RRunning \<longrightarrow>
     q_issue r = q_issue s \<longrightarrow> i = j)"

definition one_queued :: "queue \<Rightarrow> bool" where
  "one_queued q \<longleftrightarrow> (\<forall>i j r s. q_runs q i = Some r \<longrightarrow> q_runs q j = Some s \<longrightarrow> q_status r = RQueued \<longrightarrow> q_status s = RQueued \<longrightarrow>
     q_issue r = q_issue s \<longrightarrow> q_agent r = q_agent s \<longrightarrow> i = j)"

definition cancelled_idle :: "queue \<Rightarrow> bool" where
  "cancelled_idle q \<longleftrightarrow> (\<forall>iss. q_issues q iss = Some ICancelled \<longrightarrow> q_idle q iss)"

definition issues_known :: "queue \<Rightarrow> bool" where
  "issues_known q \<longleftrightarrow> (\<forall>i r. q_runs q i = Some r \<longrightarrow> q_issues q (q_issue r) \<noteq> None)"

definition attempts_bounded :: "queue \<Rightarrow> bool" where
  "attempts_bounded q \<longleftrightarrow> (\<forall>i r. q_runs q i = Some r \<longrightarrow> 1 \<le> q_attempt r \<and> q_attempt r \<le> q_max r \<and> q_max r \<le> 5)"

definition queue_ok :: "queue \<Rightarrow> bool" where
  "queue_ok q \<longleftrightarrow> one_running q \<and> one_queued q \<and> cancelled_idle q \<and> issues_known q \<and> attempts_bounded q"

text \<open>Cancelling the queued runs of an issue, for each part of the invariant.\<close>

lemma dropped:
  assumes "q_runs (q_drop iss q) i = Some r"
  obtains s where "q_runs q i = Some s" "q_issue r = q_issue s" "q_agent r = q_agent s" "q_attempt r = q_attempt s" "q_max r = q_max s"
    "q_status r = RRunning \<longleftrightarrow> q_status s = RRunning" "q_status r = RQueued \<Longrightarrow> q_status s = RQueued \<and> q_issue s \<noteq> iss"
proof -
  from assms obtain s where s: "q_runs q i = Some s" "r = (if q_issue s = iss then drop_run s else s)" by (auto simp: q_drop_def)
  show thesis by (rule that [OF s(1)]) (use s(2) in \<open>auto simp: drop_run_def split: if_splits\<close>)
qed

lemma q_mark_runs [simp]: "q_runs (q_mark iss st q) = q_runs q" "q_issues (q_mark iss st q) = (q_issues q)(iss \<mapsto> st)"
  by (simp_all add: q_mark_def)

lemma q_drop_issues [simp]: "q_issues (q_drop iss q) = q_issues q"
  by (simp add: q_drop_def)

lemma drop_invariants:
  "one_running q \<Longrightarrow> one_running (q_mark iss ICancelled (q_drop iss q))"
  "one_queued q \<Longrightarrow> one_queued (q_mark iss ICancelled (q_drop iss q))"
  "attempts_bounded q \<Longrightarrow> attempts_bounded (q_mark iss ICancelled (q_drop iss q))"
  "issues_known q \<Longrightarrow> issues_known (q_mark iss ICancelled (q_drop iss q))"
  "cancelled_idle q \<Longrightarrow> \<not> q_running q iss \<Longrightarrow> cancelled_idle (q_mark iss ICancelled (q_drop iss q))"
proof -
  show "one_running q \<Longrightarrow> one_running (q_mark iss ICancelled (q_drop iss q))"
    unfolding one_running_def q_mark_runs by (metis dropped)
  show "one_queued q \<Longrightarrow> one_queued (q_mark iss ICancelled (q_drop iss q))"
    unfolding one_queued_def q_mark_runs by (metis dropped)
  show "attempts_bounded q \<Longrightarrow> attempts_bounded (q_mark iss ICancelled (q_drop iss q))"
    unfolding attempts_bounded_def q_mark_runs by (metis dropped)
  show "issues_known q \<Longrightarrow> issues_known (q_mark iss ICancelled (q_drop iss q))"
    by (auto simp: issues_known_def elim!: dropped)
  show "cancelled_idle (q_mark iss ICancelled (q_drop iss q))" if c: "cancelled_idle q" and n: "\<not> q_running q iss"
    unfolding cancelled_idle_def q_idle_def
  proof (intro allI impI)
    fix iss' i r
    assume i: "q_issues (q_mark iss ICancelled (q_drop iss q)) iss' = Some ICancelled"
      and r: "q_runs (q_mark iss ICancelled (q_drop iss q)) i = Some r" "q_issue r = iss'"
    obtain s where s: "q_runs q i = Some s" "q_issue r = q_issue s" "q_status r = RRunning \<longleftrightarrow> q_status s = RRunning"
      "q_status r = RQueued \<Longrightarrow> q_status s = RQueued \<and> q_issue s \<noteq> iss" using r(1) by (auto elim!: dropped)
    show "\<not> active_status (q_status r)"
    proof (cases "iss' = iss")
      case True
      then show ?thesis using s n r(2) unfolding active_status_def q_running_def by metis
    next
      case False
      then have "\<not> active_status (q_status s)" using i c s(1,2) r(2) unfolding cancelled_idle_def q_idle_def by simp
      then show ?thesis using s(3,4) unfolding active_status_def by metis
    qed
  qed
qed

lemma move_one_running: "qmove q q' \<Longrightarrow> one_running q \<Longrightarrow> one_running q'"
  by (induction rule: qmove.induct) ((erule drop_invariants | force simp: one_running_def q_defs split: if_splits)+)

lemma move_one_queued: "qmove q q' \<Longrightarrow> one_queued q \<Longrightarrow> one_queued q'"
  by (induction rule: qmove.induct) ((erule drop_invariants | force simp: one_queued_def q_defs split: if_splits)+)

lemma move_attempts: "qmove q q' \<Longrightarrow> attempts_bounded q \<Longrightarrow> attempts_bounded q'"
  by (induction rule: qmove.induct) ((erule drop_invariants | force simp: attempts_bounded_def q_defs)+)

lemma move_issues_known: "qmove q q' \<Longrightarrow> issues_known q \<Longrightarrow> issues_known q'"
  by (induction rule: qmove.induct) ((erule drop_invariants | fastforce simp: issues_known_def q_defs)+)

lemma move_cancelled_idle: "qmove q q' \<Longrightarrow> cancelled_idle q \<Longrightarrow> cancelled_idle q'"
  by (induction rule: qmove.induct) ((erule (1) drop_invariants | fastforce simp: cancelled_idle_def q_defs)+)

lemma move_queue_ok: "qmove q q' \<Longrightarrow> queue_ok q \<Longrightarrow> queue_ok q'"
  by (simp add: queue_ok_def move_one_running move_one_queued move_attempts move_issues_known move_cancelled_idle)

interpretation queue_moves: kept_by_steps qmove queue_ok
  by unfold_locales (rule move_queue_ok)

lemmas moves_queue_ok = queue_moves.along

text \<open>A run that has ended does not change any more.\<close>

lemma move_ended: "qmove q q' \<Longrightarrow> q_runs q i = Some r \<Longrightarrow> \<not> active_status (q_status r) \<Longrightarrow> q_runs q' i = Some r"
  by (induction rule: qmove.induct) (auto simp: q_defs q_drop_def drop_run_def)

lemma moves_ended: "qmove\<^sup>*\<^sup>* q q' \<Longrightarrow> q_runs q i = Some r \<Longrightarrow> \<not> active_status (q_status r) \<Longrightarrow> q_runs q' i = Some r"
  by (induction rule: rtranclp_induct) (auto intro: move_ended)

text \<open>A run stays on its issue and with its agent, and its attempts are only counted up.\<close>

lemma move_keeps_run:
  "qmove q q' \<Longrightarrow> q_runs q i = Some r \<Longrightarrow>
     \<exists>r'. q_runs q' i = Some r' \<and> q_issue r' = q_issue r \<and> q_agent r' = q_agent r \<and> q_max r' = q_max r \<and> q_attempt r \<le> q_attempt r'"
  by (induction rule: qmove.induct) (auto simp: q_defs q_drop_def drop_run_def)

lemma moves_keep_run:
  "qmove\<^sup>*\<^sup>* q q' \<Longrightarrow> q_runs q i = Some r \<Longrightarrow>
     \<exists>r'. q_runs q' i = Some r' \<and> q_issue r' = q_issue r \<and> q_agent r' = q_agent r \<and> q_max r' = q_max r \<and> q_attempt r \<le> q_attempt r'"
  by (induction rule: rtranclp_induct) (auto dest!: move_keeps_run)

text \<open>Deleting an idle issue with its runs.\<close>

lemma delete_queue_ok: "queue_ok q \<Longrightarrow> queue_ok (q_delete iss q)"
  unfolding queue_ok_def one_running_def one_queued_def cancelled_idle_def issues_known_def attempts_bounded_def q_idle_def q_delete_def
  by (simp split: option.split) (metis option.distinct option.inject)

text \<open>What the server does to the queue in one request: moves, and an idle issue that goes away with its runs.\<close>

inductive qstep :: "queue \<Rightarrow> queue \<Rightarrow> bool" where
  q_go: "qmove q q' \<Longrightarrow> qstep q q'"
| q_gone: "q_idle q iss \<Longrightarrow> qstep q (q_delete iss q)"

interpretation run_queue: kept_by_steps qstep queue_ok
  by unfold_locales (auto elim!: qstep.cases intro: move_queue_ok delete_queue_ok)

lemma qsteps_queue_ok: "qstep\<^sup>*\<^sup>* q q' \<Longrightarrow> queue_ok q \<Longrightarrow> queue_ok q'"
  by (rule run_queue.along)

lemma moves_qsteps: "qmove\<^sup>*\<^sup>* q q' \<Longrightarrow> qstep\<^sup>*\<^sup>* q q'"
  by (induction rule: rtranclp_induct) (auto intro: rtranclp.rtrancl_into_rtrancl q_go)

lemma step_ended:
  "qstep q q' \<Longrightarrow> q_runs q i = Some r \<Longrightarrow> \<not> active_status (q_status r) \<Longrightarrow> q_runs q' i = Some r \<or> q_runs q' i = None"
  by (erule qstep.cases) (auto dest: move_ended simp: q_delete_def)

subsection \<open>The tables as a queue\<close>

definition qrun_of :: "tbl_run \<Rightarrow> qrun" where
  "qrun_of r = \<lparr>q_issue = rr_issue r, q_agent = rr_agent r, q_status = rr_status r, q_attempt = rr_attempt r, q_max = rr_max_attempts r\<rparr>"

definition runs_map :: "tbl_run list \<Rightarrow> jstr \<Rightarrow> qrun option" where
  "runs_map rs = map_of (map (\<lambda>r. (rr_id r, qrun_of r)) rs)"

definition issues_map :: "tbl_issue list \<Rightarrow> jstr \<Rightarrow> issue_status option" where
  "issues_map is = map_of (map (\<lambda>i. (ir_id i, ir_status i)) is)"

definition queue_of :: "store_db \<Rightarrow> queue" where
  "queue_of db = \<lparr>q_runs = runs_map (db_runs db), q_issues = issues_map (db_issues db)\<rparr>"

text \<open>What the keys of the tables guarantee.\<close>

definition keys_ok :: "store_db \<Rightarrow> bool" where
  "keys_ok db \<longleftrightarrow> distinct (map rr_id (db_runs db)) \<and> distinct (map ir_id (db_issues db)) \<and> distinct (queued_keys (db_runs db))"

lemma qrun_of_simps [simp]:
  "q_issue (qrun_of r) = rr_issue r" "q_agent (qrun_of r) = rr_agent r" "q_status (qrun_of r) = rr_status r"
  "q_attempt (qrun_of r) = rr_attempt r" "q_max (qrun_of r) = rr_max_attempts r"
  by (simp_all add: qrun_of_def)

lemma queue_of_simps [simp]: "q_runs (queue_of db) = runs_map (db_runs db)" "q_issues (queue_of db) = issues_map (db_issues db)"
  by (simp_all add: queue_of_def)

lemma same_queue_of: "same_queue db db' \<Longrightarrow> queue_of db' = queue_of db" "same_queue db db' \<Longrightarrow> keys_ok db' = keys_ok db"
  by (simp_all add: same_queue_def queue_of_def keys_ok_def)

lemma find_map_of: "map_of (map (\<lambda>x. (k x, f x)) xs) i = map_option f (find (\<lambda>x. k x = i) xs)"
  by (induction xs) auto

lemma runs_map_find: "runs_map (db_runs db) i = map_option qrun_of (find_run i db)"
  by (simp add: runs_map_def find_map_of find_run_def)

lemma issues_map_find: "issues_map (db_issues db) i = map_option ir_status (find_issue i db)"
  by (simp add: issues_map_def find_map_of find_issue_def)

lemma find_distinct: "distinct (map k xs) \<Longrightarrow> x \<in> set xs \<Longrightarrow> find (\<lambda>y. k y = k x) xs = Some x"
  by (induction xs) auto

lemma find_SomeD: "find P xs = Some x \<Longrightarrow> x \<in> set xs \<and> P x"
  by (auto simp: find_Some_iff)

lemma find_run_row: "keys_ok db \<Longrightarrow> r \<in> set (db_runs db) \<Longrightarrow> find_run (rr_id r) db = Some r"
  by (simp add: keys_ok_def find_run_def find_distinct)

lemma runs_map_iff:
  "keys_ok db \<Longrightarrow> runs_map (db_runs db) i = Some q \<longleftrightarrow> (\<exists>r \<in> set (db_runs db). rr_id r = i \<and> q = qrun_of r)"
  unfolding runs_map_def keys_ok_def by (subst map_of_eq_Some_iff) (auto simp: comp_def)

lemma runs_map_row: "keys_ok db \<Longrightarrow> r \<in> set (db_runs db) \<Longrightarrow> runs_map (db_runs db) (rr_id r) = Some (qrun_of r)"
  by (auto simp: runs_map_iff)

text \<open>The unique index in terms of the queue.\<close>

lemma queued_keys_unique:
  assumes "distinct (queued_keys rs)" "r \<in> set rs" "s \<in> set rs" "rr_status r = RQueued" "rr_status s = RQueued"
    "rr_issue r = rr_issue s" "rr_agent r = rr_agent s"
  shows "r = s"
  using assms by (auto simp: queued_keys_def distinct_map inj_on_def)

lemma runs_map_ex: "keys_ok db \<Longrightarrow> (\<exists>i q. runs_map (db_runs db) i = Some q \<and> P q) \<longleftrightarrow> (\<exists>r \<in> set (db_runs db). P (qrun_of r))"
  unfolding runs_map_iff by blast

lemma queued_iff: "keys_ok db \<Longrightarrow> q_queued (queue_of db) iss a \<longleftrightarrow> (iss, a) \<in> set (queued_keys (db_runs db))"
  by (auto simp: q_queued_def queued_keys_def runs_map_ex)

lemma running_iff: "keys_ok db \<Longrightarrow> q_running (queue_of db) iss \<longleftrightarrow> running_on_issue iss db"
  by (simp add: q_running_def running_on_issue_def runs_map_ex)

lemma idle_iff:
  assumes "keys_ok db"
  shows "q_idle (queue_of db) iss \<longleftrightarrow> (\<forall>r \<in> set (db_runs db). rr_issue r = iss \<longrightarrow> \<not> active_status (rr_status r))"
proof -
  have "q_idle (queue_of db) iss \<longleftrightarrow> \<not> (\<exists>i r. runs_map (db_runs db) i = Some r \<and> q_issue r = iss \<and> active_status (q_status r))"
    by (auto simp: q_idle_def)
  then show ?thesis by (simp add: runs_map_ex [OF assms])
qed

end
