(* ===== verification/IssueStore.thy ===== *)
theory IssueStore
  imports RunStore
begin

section \<open>Issues, comments and the runs they start\<close>

text \<open>
  Models the handlers of \<^verbatim>\<open>internal/store/issues.go\<close> and \<^verbatim>\<open>comments.go\<close>: an issue with its first run, a comment
  of the operator with the run of the agent it mentions, another run of an issue, the changes of an
  issue and its deletion. They share the tables and the transactions of \<open>ServerDb\<close> with \<open>RunStore\<close>.
\<close>

subsection \<open>What is shown of an issue's runs\<close>

definition runs_of :: "jstr \<Rightarrow> store_db \<Rightarrow> tbl_run list" where
  "runs_of iss db = filter (\<lambda>r. rr_issue r = iss) (db_runs db)"

definition newest :: "tbl_run \<Rightarrow> tbl_run \<Rightarrow> bool" where
  "newest a b \<longleftrightarrow> str_less (rr_enqueued_at b) (rr_enqueued_at a)"

text \<open>\<^verbatim>\<open>issueExecutionStatusExpr\<close>; \<open>None\<close> is \<^verbatim>\<open>'idle'\<close>.\<close>

definition executionStatus :: "jstr \<Rightarrow> store_db \<Rightarrow> run_status option" where
  "executionStatus iss db =
     (if \<exists>r \<in> set (runs_of iss db). rr_status r = RRunning then Some RRunning
      else if \<exists>r \<in> set (runs_of iss db). rr_status r = RQueued then Some RQueued
      else map_option rr_status (first_row newest (runs_of iss db)))"

definition GetActiveRunByIssue :: "jstr \<Rightarrow> tbl_run op" where
  "GetActiveRunByIssue iss db =
     (case first_row (\<lambda>a b. (rr_status a = RRunning \<and> rr_status b \<noteq> RRunning) \<or>
              ((rr_status a = RRunning \<longleftrightarrow> rr_status b = RRunning) \<and> str_less (rr_enqueued_at a) (rr_enqueued_at b)))
            (filter (\<lambda>r. active_status (rr_status r)) (runs_of iss db)) of
        None \<Rightarrow> (Inl ErrNotFound, db) | Some r \<Rightarrow> (Inr r, db))"

definition GetMainAgent :: "jstr \<Rightarrow> store_db \<Rightarrow> tbl_agent option" where
  "GetMainAgent ws db = find (\<lambda>a. ar_workspace a = ws \<and> ar_is_main a) (db_agents db)"

subsection \<open>A new issue\<close>

text \<open>\<^verbatim>\<open>uuidRE\<close>: five groups of hexadecimal digits.\<close>

definition is_uuid :: "jstr \<Rightarrow> bool" where
  "is_uuid s \<longleftrightarrow> map length (split_on 45 s) = [8, 4, 4, 4, 12] \<and>
     list_all (\<lambda>c. c = 45 \<or> is_digit c \<or> (65 \<le> c \<and> c \<le> 70) \<or> (97 \<le> c \<and> c \<le> 102)) s"

definition GetWorkspace :: "jstr \<Rightarrow> store_db \<Rightarrow> tbl_workspace option" where
  "GetWorkspace idOrSlug db = find (\<lambda>w. if is_uuid idOrSlug then wr_id w = idOrSlug else wr_slug w = idOrSlug) (db_workspaces db)"

record create_issue =
  ic_title :: jstr
  ic_body :: jstr
  ic_assignee :: jstr
  ic_created_by :: jstr
  ic_rule :: jstr
  ic_trigger :: jstr
  ic_parent :: jstr

text \<open>The agent of the first run: the assignee, if it belongs to the workspace, or the main agent.\<close>

definition first_run_agent :: "tbl_workspace \<Rightarrow> create_issue \<Rightarrow> store_db \<Rightarrow> tbl_agent option" where
  "first_run_agent w inp db =
     (if ic_assignee inp = [] then GetMainAgent (wr_id w) db
      else (case find_agent (ic_assignee inp) db of
              None \<Rightarrow> None | Some a \<Rightarrow> if ar_workspace a \<noteq> wr_id w then None else Some a))"

definition take_issue_number :: "jstr \<Rightarrow> jstr \<Rightarrow> nat tx" where
  "take_issue_number ws t db =
     (case find_workspace ws db of
        None \<Rightarrow> Inl ErrNotFound
      | Some w \<Rightarrow> Inr (wr_next_seq w,
          db\<lparr>db_workspaces := map (\<lambda>v. if wr_id v = ws then v\<lparr>wr_next_seq := wr_next_seq v + 1, wr_updated_at := t\<rparr> else v)
               (db_workspaces db)\<rparr>))"

definition insert_issue :: "tbl_issue \<Rightarrow> unit tx" where
  "insert_issue i db =
     (if ir_created_by i \<notin> {js ''user'', js ''autopilot''} then Inl ErrValidation
      else if find_issue (ir_id i) db \<noteq> None \<or>
              (\<exists>j \<in> set (db_issues db). ir_workspace j = ir_workspace i \<and> ir_identifier j = ir_identifier i) then Inl ErrConflict
      else if find_workspace (ir_workspace i) db = None \<or> (case ir_assignee i of None \<Rightarrow> False | Some a \<Rightarrow> find_agent a db = None) then Inl ErrValidation
      else Inr ((), db\<lparr>db_issues := db_issues db @ [i]\<rparr>))"

definition CreateIssue_tx :: "tick \<Rightarrow> tbl_workspace \<Rightarrow> jstr \<Rightarrow> create_issue \<Rightarrow> unit tx" where
  "CreateIssue_tx tk w agentID inp =
     (let t = tk_now tk 1; issueID = tk_id tk 0; runID = tk_id tk 1; trigger = nonempty_or (ic_trigger inp) (js ''issue_created'');
          createdBy = nonempty_or (ic_created_by inp) (js ''user'') in
      tx_bind (take_issue_number (wr_id w) (tk_now tk 0)) (\<lambda>seq.
      tx_then (if go_blank (ic_parent inp) then tx_return ()
               else tx_bind (tx_one (find_issue (ic_parent inp))) (\<lambda>p. tx_guard (ir_workspace p = wr_id w) ErrNotFound))
      (tx_then (insert_issue \<lparr>ir_id = issueID, ir_workspace = wr_id w, ir_identifier = wr_prefix w @ js ''-'' @ nat_str seq,
          ir_title = ic_title inp, ir_body = ic_body inp, ir_status = IOpen, ir_assignee = null_if_empty agentID,
          ir_parent = null_if_empty (ic_parent inp), ir_created_by = createdBy, ir_rule = null_if_empty (ic_rule inp),
          ir_created_at = t, ir_updated_at = t\<rparr>)
      (tx_bind (retryMaxAttemptsForAgent agentID) (\<lambda>maxAttempts.
      tx_bind (agentInstructionsVersionForAgent agentID) (\<lambda>version.
      tx_then (insert_run (queued_run runID issueID agentID trigger None (capSnapshot (ic_body inp)) None runID 0 version t maxAttempts))
      (tx_then (appendRunEventTx tk 2 runID issueID (js ''run_queued'') [] (js ''Run queued by '' @ trigger)
         [(''trigger_type'', JStr trigger), (''created_by'', JStr createdBy)])
      (tx_return ()))))))))"

definition CreateIssueWithInitialRun :: "tick \<Rightarrow> jstr \<Rightarrow> create_issue \<Rightarrow> (tbl_issue \<times> tbl_run) op" where
  "CreateIssueWithInitialRun tk workspaceID inp db =
     (if go_blank (ic_title inp) then (Inl ErrValidation, db)
      else (case GetWorkspace workspaceID db of
          None \<Rightarrow> (Inl ErrNotFound, db)
        | Some w \<Rightarrow> (case first_run_agent w inp db of
            None \<Rightarrow> (Inl ErrNotFound, db)
          | Some a \<Rightarrow> op_bind (commit (CreateIssue_tx tk w (ar_id a) inp)) (\<lambda>_ db'.
              (case (find_issue (tk_id tk 0) db', find_run (tk_id tk 1) db') of
                 (Some i, Some r) \<Rightarrow> (Inr (i, r), db') | _ \<Rightarrow> (Inl ErrNotFound, db'))) db)))"

definition CreateSubIssue :: "tick \<Rightarrow> jstr \<Rightarrow> create_issue \<Rightarrow> (tbl_issue \<times> tbl_run) op" where
  "CreateSubIssue tk parentID inp db =
     (case find_issue parentID db of
        None \<Rightarrow> (Inl ErrNotFound, db)
      | Some p \<Rightarrow> CreateIssueWithInitialRun tk (ir_workspace p) (inp\<lparr>ic_parent := ir_id p\<rparr>) db)"

subsection \<open>A comment\<close>

text \<open>\<^verbatim>\<open>mentionRE.FindAllStringSubmatch\<close>.\<close>

lemma dropWhile_shorter [termination_simp]: "length (dropWhile P s) < Suc (length s)"
  by (simp add: length_dropWhile_le le_imp_less_Suc)

fun all_mentions :: "tick \<Rightarrow> jstr \<Rightarrow> jstr list" where
  "all_mentions tk [] = []"
| "all_mentions tk (c # s) =
     (if c = 64 \<and> takeWhile (mention_name_char tk) s \<noteq> []
      then takeWhile (mention_name_char tk) s # all_mentions tk (dropWhile (mention_name_char tk) s)
      else all_mentions tk s)"

record add_comment_result =
  ac_comment :: "tbl_comment option"
  ac_warnings :: "jstr list"
  ac_dispatched :: "tbl_run option"

text \<open>The run of a mentioned agent, unless one is queued already: its id, or the warning.\<close>

definition dispatch_mention :: "tick \<Rightarrow> jstr \<Rightarrow> jstr \<Rightarrow> tbl_agent \<Rightarrow> jstr \<Rightarrow> (jstr list \<times> jstr option) tx" where
  "dispatch_mention tk issueID commentID agent content =
     tx_bind (tx_get (\<lambda>db. \<exists>r \<in> set (db_runs db). rr_issue r = issueID \<and> rr_agent r = ar_id agent \<and> rr_status r = RQueued)) (\<lambda>queued.
     if queued then tx_return ([js ''already queued for @'' @ ar_name agent], None)
     else
       let runID = tk_id tk 3; t = tk_now tk 0 in
       tx_bind (retryMaxAttemptsForAgent (ar_id agent)) (\<lambda>maxAttempts.
       tx_then (insert_run (queued_run runID issueID (ar_id agent) (js ''mention'') (Some commentID) (capSnapshot content) None runID 0
          (if ar_version agent \<le> 0 then 1 else ar_version agent) t maxAttempts))
       (tx_then (appendRunEventTx tk 4 runID issueID (js ''run_queued'') [] (js ''Run queued by mention'')
          [(''trigger_type'', JStr (js ''mention'')), (''trigger_comment_id'', JStr commentID)])
       (tx_then (set_issue_status issueID IOpen t)
       (tx_return ([], Some runID))))))"

definition AddUserComment_tx :: "tick \<Rightarrow> tbl_issue \<Rightarrow> jstr \<Rightarrow> (jstr list \<times> jstr option) tx" where
  "AddUserComment_tx tk iss content =
     (let t = tk_now tk 0; commentID = tk_id tk 0; issueID = ir_id iss in
      tx_then (insert_comment \<lparr>cr_id = commentID, cr_issue = issueID, cr_author_type = js ''user'', cr_author_agent = None,
                 cr_run = None, cr_content = content, cr_truncated = False, cr_created_at = t\<rparr>)
      (case all_mentions tk content of
         [] \<Rightarrow> tx_return ([], None)
       | name # others \<Rightarrow>
           let w1 = (if others \<noteq> [] then [js ''multiple mentions, only @'' @ name @ js '' applied''] else []) in
           tx_then (if others \<noteq> [] then system_comment (tk_id tk 1) issueID None (ko_srv_multi1 @ name @ ko_srv_multi2) t
                    else tx_return ())
           (tx_bind (tx_get (resolveAutoChainAgent (ir_workspace iss) name)) (\<lambda>found. case found of
              None \<Rightarrow>
                tx_then (system_comment (tk_id tk 2) issueID None (ko_srv_unknown1 @ name @ ko_srv_unknown2) t)
                  (tx_return (w1 @ [js ''@'' @ name @ js '' not found''], None))
            | Some agent \<Rightarrow> tx_bind (dispatch_mention tk issueID commentID agent content) (\<lambda>(w2, run). tx_return (w1 @ w2, run))))))"

definition AddUserComment :: "tick \<Rightarrow> jstr \<Rightarrow> jstr \<Rightarrow> add_comment_result op" where
  "AddUserComment tk issueID content db =
     (if go_blank content then (Inl ErrValidation, db)
      else (case find_issue issueID db of
          None \<Rightarrow> (Inl ErrNotFound, db)
        | Some iss \<Rightarrow> op_bind (commit (AddUserComment_tx tk iss content)) (\<lambda>(warnings, run) db1.
            let db2 = (case run of None \<Rightarrow> db1 | Some i \<Rightarrow> notifyRunEvent issueID i db1);
                c = find (\<lambda>c. cr_id c = tk_id tk 0 \<and> cr_issue c = issueID) (db_comments db2) in
            (case run of
               None \<Rightarrow> (Inr \<lparr>ac_comment = c, ac_warnings = warnings, ac_dispatched = None\<rparr>, db2)
             | Some i \<Rightarrow> op_bind (GetRun i) (\<lambda>r db3. (Inr \<lparr>ac_comment = c, ac_warnings = warnings, ac_dispatched = Some r\<rparr>, db3)) db2)) db))"

definition DeleteComment :: "jstr \<Rightarrow> unit op" where
  "DeleteComment i db =
     (case find (\<lambda>c. cr_id c = i) (db_comments db) of
        None \<Rightarrow> (Inl ErrNotFound, db)
      | Some c \<Rightarrow>
          if cr_author_type c \<noteq> js ''user'' then (Inl ErrState, db)
          else if \<exists>r \<in> set (db_runs db). rr_trigger_comment r = Some i \<and> active_status (rr_status r) then (Inl ErrState, db)
          else (Inr (), db\<lparr>db_comments := filter (\<lambda>c. cr_id c \<noteq> i) (db_comments db),
                 db_runs := map (\<lambda>r. if rr_trigger_comment r = Some i then r\<lparr>rr_trigger_comment := None\<rparr> else r) (db_runs db)\<rparr>))"

subsection \<open>Another run of an issue\<close>

definition Rerun_tx :: "tick \<Rightarrow> jstr \<Rightarrow> jstr \<Rightarrow> jstr \<Rightarrow> unit tx" where
  "Rerun_tx tk issueID agentID snapshot =
     (let runID = tk_id tk 0; t = tk_now tk 0 in
      tx_bind (retryMaxAttemptsForAgent agentID) (\<lambda>maxAttempts.
      tx_bind (agentInstructionsVersionForAgent agentID) (\<lambda>version.
      tx_then (insert_run (queued_run runID issueID agentID (js ''rerun'') None snapshot None runID 0 version t maxAttempts))
      (tx_then (appendRunEventTx tk 1 runID issueID (js ''run_queued'') [] (js ''Run queued by rerun'') [(''trigger_type'', JStr (js ''rerun''))])
      (set_issue_status issueID IOpen t)))))"

definition RerunIssue :: "tick \<Rightarrow> jstr \<Rightarrow> jstr \<Rightarrow> tbl_run op" where
  "RerunIssue tk issueID agentID db =
     (case find_issue issueID db of
        None \<Rightarrow> (Inl ErrNotFound, db)
      | Some iss \<Rightarrow>
          if executionStatus issueID db = Some RRunning \<or> executionStatus issueID db = Some RQueued then (Inl ErrState, db)
          else if agentID = [] then
            (case first_row newest (runs_of issueID db) of
               None \<Rightarrow> (Inl ErrNotFound, db)
             | Some prev \<Rightarrow> op_bind (commit (Rerun_tx tk issueID (rr_agent prev) (js ''[rerun of run '' @ rr_id prev @ js '']'')))
                 (\<lambda>_. GetRun (tk_id tk 0)) db)
          else (case find_agent agentID db of
               None \<Rightarrow> (Inl ErrNotFound, db)
             | Some a \<Rightarrow>
                 if ar_workspace a \<noteq> ir_workspace iss then (Inl ErrNotFound, db)
                 else op_bind (commit (Rerun_tx tk issueID agentID (js ''[rerun]''))) (\<lambda>_. GetRun (tk_id tk 0)) db))"

subsection \<open>Changing and deleting an issue\<close>

record update_issue =
  iu_title :: "jstr option"
  iu_body :: "jstr option"
  iu_assignee :: "jstr option"
  iu_status :: "jstr option"

definition parse_issue_status :: "jstr \<Rightarrow> issue_status option" where
  "parse_issue_status s = find (\<lambda>st. issue_status_str st = s) [IOpen, IDone, ICancelled]"

definition enqueueIssueCancelledWebhookTx :: "tick \<Rightarrow> nat \<Rightarrow> jstr \<Rightarrow> jstr \<Rightarrow> jstr \<Rightarrow> jstr \<Rightarrow> unit tx" where
  "enqueueIssueCancelledWebhookTx tk k ws issueID title t =
     tx_bind (tx_one (find_workspace ws)) (\<lambda>w.
     tx_bind (tx_one (find_issue issueID)) (\<lambda>i.
     tx_then (EnqueueWebhookDeliveries tk k (wr_id w) (js ''issue.cancelled'')
       (jobj [(''event'', JStr (js ''issue.cancelled'')), (''occurred_at'', JStr t),
         (''workspace'', jobj [(''id'', JStr (wr_id w)), (''slug'', JStr (wr_slug w)), (''name'', JStr (wr_name w))]),
         (''issue'', jobj [(''id'', JStr (ir_id i)), (''identifier'', JStr (ir_identifier i)), (''title'', JStr title),
            (''status'', JStr (js ''cancelled''))])]))
     (tx_return ())))"

definition cancel_queued_row :: "tick \<Rightarrow> jstr \<Rightarrow> jstr \<Rightarrow> nat \<Rightarrow> tbl_run \<Rightarrow> nat tx" where
  "cancel_queued_row tk issueID t k row =
     tx_then (update_runs (\<lambda>r. rr_id r = rr_id row \<and> rr_status r = RQueued)
                (cancelled t (-1) (js ''issue cancelled'') (js ''issue_cancelled'') (js ''issue'')))
       (tx_then (appendRunEventTx tk (10 + k) (rr_id row) issueID (js ''run_cancelled'') []
          (js ''Run cancelled because issue was cancelled'')
          [(''terminal_reason'', JStr (js ''issue_cancelled'')), (''cancel_reason'', JStr (js ''issue''))])
       (tx_return 1))"

text \<open>The guards on the new state, the update, and what a cancellation does to the queued runs.\<close>

definition change_issue_tx :: "tick \<Rightarrow> tbl_issue \<Rightarrow> jstr \<Rightarrow> jstr \<Rightarrow> jstr \<Rightarrow> issue_status \<Rightarrow> unit tx" where
  "change_issue_tx tk iss title body assignee status =
     (let i = ir_id iss; t = tk_now tk 0 in
      tx_bind (tx_get (runs_of i)) (\<lambda>rows.
      tx_then (tx_guard (status = IDone \<longrightarrow> \<not> list_ex (\<lambda>r. active_status (rr_status r)) rows) ErrState)
      (tx_then (tx_guard (status = ICancelled \<longrightarrow> \<not> list_ex (\<lambda>r. rr_status r = RRunning) rows) ErrState)
      (tx_then (update_issues (\<lambda>r. ir_id r = i) (\<lambda>r. r\<lparr>ir_title := title, ir_body := body, ir_assignee := null_if_empty assignee,
                  ir_status := status, ir_updated_at := t\<rparr>))
      (if status \<noteq> ICancelled then tx_return ()
       else
         tx_then (tx_each (cancel_queued_row tk i t) 0 (sort_rows rr_enqueued_at (filter (\<lambda>r. rr_status r = RQueued) rows)))
         (tx_then (system_comment (tk_id tk 0) i None ko_srv_issue_cancelled t)
         (enqueueIssueCancelledWebhookTx tk 1000 (ir_workspace iss) i title t)))))))"

definition UpdateIssue_tx :: "tick \<Rightarrow> jstr \<Rightarrow> update_issue \<Rightarrow> unit tx" where
  "UpdateIssue_tx tk i inp =
     tx_bind (tx_one (find_issue i)) (\<lambda>iss.
     let title = nullish (iu_title inp) (ir_title iss); body = nullish (iu_body inp) (ir_body iss);
         assignee = nullish (iu_assignee inp) (nullish (ir_assignee iss) []) in
     tx_then (if assignee = [] then tx_return ()
              else tx_bind (tx_one (find_agent assignee)) (\<lambda>a. tx_guard (ar_workspace a = ir_workspace iss) ErrNotFound))
     (case parse_issue_status (nullish (iu_status inp) (issue_status_str (ir_status iss))) of
        None \<Rightarrow> tx_fail ErrValidation
      | Some status \<Rightarrow> change_issue_tx tk iss title body assignee status))"

definition UpdateIssue :: "tick \<Rightarrow> jstr \<Rightarrow> update_issue \<Rightarrow> tbl_issue op" where
  "UpdateIssue tk i inp = op_bind (commit (UpdateIssue_tx tk i inp)) (\<lambda>_ db.
     (case find_issue i db of None \<Rightarrow> (Inl ErrNotFound, db) | Some iss \<Rightarrow> (Inr iss, db)))"

text \<open>The rows that go with an issue, and the references to them that become \<^verbatim>\<open>NULL\<close>.\<close>

definition delete_issue_rows :: "jstr \<Rightarrow> store_db \<Rightarrow> store_db" where
  "delete_issue_rows i db =
     (let gone = rr_id ` set (runs_of i db); lost = cr_id ` set (filter (\<lambda>c. cr_issue c = i) (db_comments db));
          keep = (\<lambda>S v. case v of None \<Rightarrow> None | Some x \<Rightarrow> if x \<in> S then None else Some x) in
      db\<lparr>db_issues := map (\<lambda>j. j\<lparr>ir_parent := keep {i} (ir_parent j)\<rparr>) (filter (\<lambda>j. ir_id j \<noteq> i) (db_issues db)),
         db_runs := map (\<lambda>r. r\<lparr>rr_parent := keep gone (rr_parent r), rr_trigger_comment := keep lost (rr_trigger_comment r)\<rparr>)
                      (filter (\<lambda>r. rr_issue r \<noteq> i) (db_runs db)),
         db_comments := map (\<lambda>c. c\<lparr>cr_run := keep gone (cr_run c)\<rparr>) (filter (\<lambda>c. cr_issue c \<noteq> i) (db_comments db)),
         db_events := filter (\<lambda>e. er_issue e \<noteq> i \<and> er_run e \<notin> gone) (db_events db)\<rparr>)"

definition DeleteIssue :: "jstr \<Rightarrow> unit op" where
  "DeleteIssue i db =
     (if \<exists>r \<in> set (runs_of i db). active_status (rr_status r) then (Inl ErrState, db)
      else if find_issue i db = None then (Inl ErrNotFound, db)
      else (Inr (), delete_issue_rows i db))"

end
