(* ===== verification/ServerRuns.thy ===== *)
theory ServerRuns
  imports RunQueue IssueStore
begin

section \<open>The server implements the run queue\<close>

text \<open>
  Every handler of \<open>RunStore\<close> and \<open>IssueStore\<close> is a sequence of moves of the abstract queue, or the deletion
  of an idle issue; so the invariants of \<open>RunQueue\<close> hold in every database the server can reach, in
  whatever order workers and clients call. The statements come first (an insert, a guarded update, a
  change of an issue's state), then the handlers.
\<close>

subsection \<open>Statements as changes of the queue\<close>

lemma keys_okD: "keys_ok db \<Longrightarrow> distinct (map rr_id (db_runs db))" "keys_ok db \<Longrightarrow> distinct (map ir_id (db_issues db))"
  "keys_ok db \<Longrightarrow> distinct (queued_keys (db_runs db))"
  by (simp_all add: keys_ok_def)

lemma insert_run_queue:
  assumes "insert_run r db = Inr (u, db')" "keys_ok db" "rr_status r = RQueued"
  shows "queue_of db' = q_put (rr_id r) (qrun_of r) (queue_of db)" "keys_ok db'" "q_runs (queue_of db) (rr_id r) = None"
    "\<not> q_queued (queue_of db) (rr_issue r) (rr_agent r)" "q_issues (queue_of db) (rr_issue r) \<noteq> None" "db_issues db' = db_issues db"
    "db_agents db' = db_agents db" "db_workspaces db' = db_workspaces db"
proof -
  have db': "db' = db\<lparr>db_runs := db_runs db @ [r]\<rparr>" and new: "find_run (rr_id r) db = None"
    and uq: "distinct (queued_keys (db_runs db @ [r]))" and iss: "find_issue (rr_issue r) db \<noteq> None"
    using assms(1) by (auto simp: insert_run_def split: if_splits)
  have "rr_id r \<notin> rr_id ` set (db_runs db)" using new by (auto simp: find_run_def find_None_iff)
  then show "keys_ok db'" using assms(2) uq by (auto simp: keys_ok_def db')
  show "queue_of db' = q_put (rr_id r) (qrun_of r) (queue_of db)"
    using new by (auto simp: queue_of_def q_put_def db' runs_map_def map_add_def find_map_of find_run_def fun_eq_iff split: option.splits)
  show "q_runs (queue_of db) (rr_id r) = None" using new by (simp add: runs_map_find)
  show "\<not> q_queued (queue_of db) (rr_issue r) (rr_agent r)" using uq assms(3)
    by (simp add: queued_iff [OF assms(2)]) (simp add: queued_keys_def)
  show "q_issues (queue_of db) (rr_issue r) \<noteq> None" using iss by (simp add: issues_map_find)
  show "db_issues db' = db_issues db" "db_agents db' = db_agents db" "db_workspaces db' = db_workspaces db" by (simp_all add: db')
qed

lemma runs_map_update:
  assumes "distinct (map rr_id rs)" "\<And>r. rr_id (f r) = rr_id r" "\<And>r. P r \<Longrightarrow> rr_id r = i"
  shows "runs_map (map (\<lambda>r. if P r then f r else r) rs) =
    (case find (\<lambda>r. rr_id r = i) rs of Some r \<Rightarrow> if P r then (runs_map rs)(i \<mapsto> qrun_of (f r)) else runs_map rs | None \<Rightarrow> runs_map rs)"
  using assms(1)
proof (induction rs)
  case Nil
  then show ?case by (simp add: runs_map_def)
next
  case (Cons x rs)
  show ?case
  proof (cases "rr_id x = i")
    case True
    then have "find (\<lambda>r. rr_id r = i) rs = None" using Cons.prems by (auto simp: find_None_iff) (metis image_eqI)
    then show ?thesis using True Cons by (auto simp: runs_map_def assms(2) fun_upd_twist)
  next
    case False
    then have "\<not> P x" using assms(3) by blast
    then show ?thesis using False Cons by (auto simp: runs_map_def fun_upd_twist split: option.splits)
  qed
qed

text \<open>A guarded \<^verbatim>\<open>UPDATE ... WHERE id=? AND ...\<close>: it found no row, or changed the one with that id.\<close>

lemma update_runs_queue:
  assumes "update_runs P f db = Inr (n, db')" "keys_ok db" "\<And>r. rr_id (f r) = rr_id r" "\<And>r. P r \<Longrightarrow> rr_id r = i"
  shows "keys_ok db'" "db_issues db' = db_issues db" "db_agents db' = db_agents db" "db_workspaces db' = db_workspaces db"
    "n = 0 \<Longrightarrow> queue_of db' = queue_of db" "n = 0 \<Longrightarrow> find_run i db = Some r \<Longrightarrow> \<not> P r"
    "n \<noteq> 0 \<Longrightarrow> \<exists>r. find_run i db = Some r \<and> P r \<and> queue_of db' = q_put i (qrun_of (f r)) (queue_of db)"
proof -
  have db': "db' = db\<lparr>db_runs := map (\<lambda>r. if P r then f r else r) (db_runs db)\<rparr>" and n: "n = length (filter P (db_runs db))"
    and uq: "distinct (queued_keys (map (\<lambda>r. if P r then f r else r) (db_runs db)))"
    using assms(1) by (auto simp: update_runs_def Let_def split: if_splits)
  have ids: "map rr_id (map (\<lambda>r. if P r then f r else r) (db_runs db)) = map rr_id (db_runs db)" using assms(3) by simp
  show "keys_ok db'" using assms(2) uq by (simp add: keys_ok_def db' ids del: map_map)
  show "db_issues db' = db_issues db" "db_agents db' = db_agents db" "db_workspaces db' = db_workspaces db" by (simp_all add: db')
  have q: "runs_map (db_runs db') =
    (case find_run i db of Some r \<Rightarrow> if P r then (runs_map (db_runs db))(i \<mapsto> qrun_of (f r)) else runs_map (db_runs db) | None \<Rightarrow> runs_map (db_runs db))"
    unfolding find_run_def db' using runs_map_update [of "db_runs db" f P i] keys_okD(1) [OF assms(2)] assms(3,4) by simp
  have none: "\<not> P r" if "n = 0" "r \<in> set (db_runs db)" for r using that n by (simp add: filter_empty_conv)
  show "n = 0 \<Longrightarrow> find_run i db = Some r \<Longrightarrow> \<not> P r" using none by (auto simp: find_run_def dest: find_SomeD)
  show "n = 0 \<Longrightarrow> queue_of db' = queue_of db" using q none
    by (auto simp: queue_of_def db' find_run_def split: option.splits dest: find_SomeD)
  show "\<exists>r. find_run i db = Some r \<and> P r \<and> queue_of db' = q_put i (qrun_of (f r)) (queue_of db)" if "n \<noteq> 0"
  proof -
    from that n obtain r where r: "r \<in> set (db_runs db)" "P r" by (metis length_0_conv filter_empty_conv)
    then have "find_run i db = Some r" using assms(2,4) find_run_row by metis
    then show ?thesis using r q by (auto simp: queue_of_def q_put_def db')
  qed
qed

lemma update_issue_queue:
  assumes "update_issues (\<lambda>r. ir_id r = i) f db = Inr (n, db')" "keys_ok db" "\<And>r. ir_id (f r) = ir_id r" "\<And>r. ir_status (f r) = st"
  shows "keys_ok db'" "find_issue i db \<noteq> None \<Longrightarrow> queue_of db' = q_mark i st (queue_of db)" "db_runs db' = db_runs db"
    "find_issue j db' \<noteq> None \<longleftrightarrow> find_issue j db \<noteq> None"
proof -
  have db': "db' = db\<lparr>db_issues := map (\<lambda>r. if ir_id r = i then f r else r) (db_issues db)\<rparr>"
    using assms(1) by (simp add: update_issues_def)
  have ids: "map ir_id (map (\<lambda>r. if ir_id r = i then f r else r) (db_issues db)) = map ir_id (db_issues db)" using assms(3) by simp
  show "keys_ok db'" using assms(2) by (simp add: keys_ok_def db' ids del: map_map)
  show "db_runs db' = db_runs db" by (simp add: db')
  show "find_issue j db' \<noteq> None \<longleftrightarrow> find_issue j db \<noteq> None" using assms(3) by (auto simp: find_issue_def db' find_None_iff)
  have "issues_map (map (\<lambda>r. if ir_id r = i then f r else r) is) j =
      (if j = i \<and> find (\<lambda>r. ir_id r = i) is \<noteq> None then Some st else issues_map is j)" for "is" j
    using assms(3,4) by (induction "is") (auto simp: issues_map_def)
  then show "queue_of db' = q_mark i st (queue_of db)" if "find_issue i db \<noteq> None"
    using that by (auto simp: queue_of_def q_mark_def db' find_issue_def fun_eq_iff)
qed

lemma set_issue_status_queue:
  assumes "set_issue_status i st t db = Inr (u, db')" "keys_ok db"
  shows "keys_ok db'" "find_issue i db \<noteq> None \<Longrightarrow> queue_of db' = q_mark i st (queue_of db)" "db_runs db' = db_runs db"
  using assms update_issue_queue(1-3) [where i = i and st = st, OF _ assms(2)]
  by (auto simp: set_issue_status_def tx_elims)

subsection \<open>Sequences of moves\<close>

definition moves :: "store_db \<Rightarrow> store_db \<Rightarrow> bool" where
  "moves db db' \<longleftrightarrow> keys_ok db' \<and> qmove\<^sup>*\<^sup>* (queue_of db) (queue_of db')"

lemma moves_refl: "keys_ok db \<Longrightarrow> moves db db"
  by (simp add: moves_def)

lemma moves_trans: "moves a b \<Longrightarrow> moves b c \<Longrightarrow> moves a c"
  by (auto simp: moves_def)

lemma moves_keys: "moves a b \<Longrightarrow> keys_ok b"
  by (simp add: moves_def)

lemma moves_one: "qmove (queue_of a) (queue_of b) \<Longrightarrow> keys_ok b \<Longrightarrow> moves a b"
  by (simp add: moves_def)

lemma moves_same: "same_queue a b \<Longrightarrow> keys_ok a \<Longrightarrow> moves a b"
  by (simp add: moves_def same_queue_of)

lemma moves_eq: "queue_of b = queue_of a \<Longrightarrow> keys_ok b \<Longrightarrow> moves a b"
  by (simp add: moves_def)

lemma quiet_moves: "quiet m \<Longrightarrow> m a = Inr (x, b) \<Longrightarrow> keys_ok a \<Longrightarrow> moves a b"
  by (blast intro: moves_same dest: quietD)

lemma moves_same_left: "same_queue a a' \<Longrightarrow> moves a' b \<Longrightarrow> moves a b"
  by (simp add: moves_def same_queue_of)

text \<open>A transaction that only moves, from databases with the given property.\<close>

definition moving :: "(store_db \<Rightarrow> bool) \<Rightarrow> 'a tx \<Rightarrow> bool" where
  "moving I m \<longleftrightarrow> (\<forall>db x db'. m db = Inr (x, db') \<longrightarrow> keys_ok db \<longrightarrow> I db \<longrightarrow> moves db db')"

lemma movingD: "moving I m \<Longrightarrow> m db = Inr (x, db') \<Longrightarrow> keys_ok db \<Longrightarrow> I db \<Longrightarrow> moves db db'"
  by (auto simp: moving_def)

lemma commit_moving: "moving I m \<Longrightarrow> commit m db = (r, db') \<Longrightarrow> keys_ok db \<Longrightarrow> I db \<Longrightarrow> moves db db'"
  by (auto elim!: commit_cases intro: moves_refl dest: movingD)

text \<open>Ending runs: any update that guards on an id and only sets a final state.\<close>

lemma finish_update:
  assumes "update_runs P f db = Inr (n, db')" "keys_ok db" "\<And>r. P r \<Longrightarrow> rr_id r = i"
    "\<And>r. find_run i db = Some r \<Longrightarrow> P r \<Longrightarrow> active_status (rr_status r)" "\<And>r. qrun_of (f r) = (qrun_of r)\<lparr>q_status := st\<rparr>"
    "\<And>r. rr_id (f r) = rr_id r" "\<not> active_status st"
  shows "moves db db'" "q_issues (queue_of db') = q_issues (queue_of db)" "j \<noteq> i \<Longrightarrow> q_runs (queue_of db') j = q_runs (queue_of db) j"
proof -
  note U = update_runs_queue [OF assms(1,2,6,3)]
  have "moves db db' \<and> q_issues (queue_of db') = q_issues (queue_of db) \<and> (j \<noteq> i \<longrightarrow> q_runs (queue_of db') j = q_runs (queue_of db) j)"
  proof (cases "n = 0")
    case True
    then show ?thesis using U(1,5) by (simp add: moves_eq)
  next
    case False
    then obtain r where r: "find_run i db = Some r" "P r" "queue_of db' = q_put i (qrun_of (f r)) (queue_of db)" using U(7) by blast
    have "qmove (queue_of db) (queue_of db')" unfolding r(3) assms(5)
      by (rule q_finish) (use r(1,2) assms(4,7) in \<open>auto simp: runs_map_find\<close>)
    then show ?thesis using r(3) U(1) by (auto intro: moves_one simp: q_put_def)
  qed
  then show "moves db db'" "q_issues (queue_of db') = q_issues (queue_of db)" "j \<noteq> i \<Longrightarrow> q_runs (queue_of db') j = q_runs (queue_of db) j"
    by auto
qed

lemma qrun_of_changes [simp]:
  "qrun_of (finished st fin t r) = (qrun_of r)\<lparr>q_status := st\<rparr>"
  "qrun_of (infra_failed t e a k r) = (qrun_of r)\<lparr>q_status := RFailed\<rparr>"
  "qrun_of (cancelled t c m a b r) = (qrun_of r)\<lparr>q_status := RCancelled\<rparr>"
  "qrun_of (claimed t w r) = (qrun_of r)\<lparr>q_status := RRunning\<rparr>"
  "qrun_of (rescheduled u p e r) = (qrun_of r)\<lparr>q_status := RQueued, q_attempt := rr_attempt r + 1\<rparr>"
  by (simp_all add: qrun_of_def finished_def infra_failed_def cancelled_def claimed_def rescheduled_def)

lemma rr_id_changes [simp]:
  "rr_id (finished st fin t r) = rr_id r" "rr_id (infra_failed t e a k r) = rr_id r" "rr_id (cancelled t c m a b r) = rr_id r"
  "rr_id (claimed t w r) = rr_id r" "rr_id (rescheduled u p e r) = rr_id r"
  by (simp_all add: finished_def infra_failed_def cancelled_def claimed_def rescheduled_def)

lemma first_row_mem: "first_row b xs = Some x \<Longrightarrow> x \<in> set xs"
  by (induction xs arbitrary: x) (auto split: option.splits if_splits)

subsection \<open>Claiming\<close>

lemma claim_moving: "moving (\<lambda>_. True) (ClaimNextRun_tx tk worker)"
  unfolding moving_def
proof (intro allI impI)
  fix db x db'
  assume tx: "ClaimNextRun_tx tk worker db = Inr (x, db')" and keys: "keys_ok db"
  show "moves db db'"
  proof (cases "first_row enqueued_before (filter (claimable (tk_now tk 0) db) (db_runs db))")
    case None
    then show ?thesis using tx keys by (simp add: ClaimNextRun_tx_def tx_elims moves_refl)
  next
    case (Some q)
    then have q: "q \<in> set (db_runs db)" "claimable (tk_now tk 0) db q" using first_row_mem [OF Some] by auto
    let ?P = "\<lambda>r. rr_id r = rr_id q \<and> rr_status r = RQueued"
    from tx Some obtain n db1 where up: "update_runs ?P (claimed (tk_now tk 1) worker) db = Inr (n, db1)"
      and rest: "n = 0 \<Longrightarrow> db' = db1" "n \<noteq> 0 \<Longrightarrow> same_queue db1 db'"
      by (auto simp: ClaimNextRun_tx_def tx_elims Let_def split: if_splits dest!: quietD [OF quiet_system_comment] quietD [OF quiet_append_event]
          intro: same_queue_trans)
    note U = update_runs_queue [where i = "rr_id q", OF up keys]
    show ?thesis
    proof (cases "n = 0")
      case True
      then show ?thesis using U(1,5) rest by (simp add: moves_eq)
    next
      case False
      then have qq: "queue_of db1 = q_put (rr_id q) ((qrun_of q)\<lparr>q_status := RRunning\<rparr>) (queue_of db)"
        using U(7) find_run_row [OF keys q(1)] by auto
      have "qmove (queue_of db) (queue_of db1)" unfolding qq
        by (rule q_claim) (use q keys in \<open>auto simp: runs_map_row running_iff claimable_def split: option.splits\<close>)
      then have "moves db db1" using U(1) by (simp add: moves_one)
      then show ?thesis using rest(2) [OF False] by (blast intro: moves_trans moves_same moves_keys)
    qed
  qed
qed

subsection \<open>Finishing, with the chained run\<close>

lemma retry_max_bounds: "retryMaxAttemptsForAgent a db = Inr (m, db') \<Longrightarrow> 1 \<le> m \<and> m \<le> 5 \<and> db' = db"
  by (auto simp: retryMaxAttemptsForAgent_def retryPolicyForAgent_def tx_elims split: option.splits dest: parsed_policy(1,2))

lemma quiet_same: "quiet m \<Longrightarrow> same_queue a b \<Longrightarrow> m b = Inr (x, c) \<Longrightarrow> same_queue a c"
  by (blast intro: same_queue_trans dest: quietD)

text \<open>The chaining of a run either leaves the queue alone or inserts one run.\<close>

lemma chain_result:
  assumes "enqueueAutoChainMention tk run cid content t db = Inr (b, db')"
  shows "(\<not> b \<and> same_queue db db') \<or>
    (b \<and> (\<exists>agent m db2. 1 \<le> m \<and> m \<le> 5 \<and> insert_run (chained_run tk run agent cid content t m) db = Inr ((), db2) \<and> same_queue db2 db'))"
proof -
  have dispatch: "(\<not> b \<and> same_queue d d') \<or>
     (b \<and> (\<exists>m d2. 1 \<le> m \<and> m \<le> 5 \<and> insert_run (chained_run tk run agent cid content t m) d = Inr ((), d2) \<and> same_queue d2 d'))"
    if "dispatchAutoChainRun tk run agent cid content t d = Inr (b, d')" for agent d d'
    using that
    by (auto simp: dispatchAutoChainRun_def Let_def tx_elims split: option.splits dest!: retry_max_bounds
        dest: quietD [OF quiet_system_comment])
      (blast intro: quiet_same [OF quiet_system_comment] quietD [OF quiet_append_event])+
  show ?thesis using assms
    by (auto simp: enqueueAutoChainMention_def Let_def tx_elims split: if_splits option.splits dest: quietD [OF quiet_system_comment] dispatch)
qed

lemma chained_run_simps [simp]:
  "rr_status (chained_run tk run agent cid content t m) = RQueued" "rr_issue (chained_run tk run agent cid content t m) = rr_issue run"
  "qrun_of (chained_run tk run agent cid content t m) = new_qrun (rr_issue run) (ar_id agent) m"
  "rr_agent (chained_run tk run agent cid content t m) = ar_id agent"
  by (simp_all add: chained_run_def queued_run_def qrun_of_def new_qrun_def)

lemma quiet_result_comment [quiet_intros]: "quiet (insertAgentResultCommentTx tk run status fin t)"
  unfolding insertAgentResultCommentTx_def Let_def by (intro quiet_intros)

lemma quiet_finish_events [quiet_intros]: "quiet (emitRunFinishEventsTx tk run status fin)"
  unfolding emitRunFinishEventsTx_def by (intro quiet_intros)

lemma quiet_lifecycle [quiet_intros]: "quiet (enqueueRunLifecycleWebhookTx tk k run event status fin t)"
  unfolding enqueueRunLifecycleWebhookTx_def by (intro quiet_intros)

lemma mark_done_moves:
  assumes "maybeMarkIssueDoneTx run status c t db = Inr (b, db')" "keys_ok db"
  shows "moves db db'"
proof (cases b)
  case False
  then show ?thesis using assms by (auto simp: maybeMarkIssueDoneTx_def tx_elims split: if_splits intro: moves_refl)
next
  case True
  then obtain w u where w: "workspace_of (rr_issue run) db = Some w" "set_issue_status (rr_issue run) IDone t db = Inr (u, db')"
    using assms(1) by (auto simp: maybeMarkIssueDoneTx_def tx_elims split: if_splits)
  then have i: "find_issue (rr_issue run) db \<noteq> None" by (auto simp: workspace_of_def bind_eq_Some_conv)
  have "qmove (queue_of db) (queue_of db')" unfolding set_issue_status_queue(2) [OF w(2) assms(2) i]
    by (rule q_close) (use i in \<open>simp add: issues_map_find\<close>)
  then show ?thesis using set_issue_status_queue(1) [OF w(2) assms(2)] by (rule moves_one)
qed

text \<open>A run that ends while its successor is inserted: the successor first, then the end.\<close>

lemma finish_and_chain:
  assumes keys: "keys_ok db" and run: "find_run i db = Some r" "rr_status r = RRunning"
    and fin: "queue_of db1 = q_put i ((qrun_of r)\<lparr>q_status := st\<rparr>) (queue_of db)" "\<not> active_status st" "keys_ok db1"
    and ins: "insert_run new db1 = Inr ((), db2)" "rr_status new = RQueued" "rr_issue new = rr_issue r"
      "qrun_of new = new_qrun (rr_issue r) (rr_agent new) m" "1 \<le> m" "m \<le> 5"
  shows "moves db db2"
proof -
  note I = insert_run_queue [OF ins(1) fin(3) ins(2)]
  let ?q = "queue_of db" and ?qi = "q_put (rr_id new) (qrun_of new) (queue_of db)"
  have at: "q_runs ?q i = Some (qrun_of r)" using run by (simp add: runs_map_find)
  have ne: "rr_id new \<noteq> i" using I(3) fin(1) by (auto simp: q_put_def)
  have "q_runs ?q (rr_id new) = None" using I(3) fin(1) ne by (simp add: q_put_def)
  moreover have "q_running ?q (rr_issue r)" unfolding q_running_def using at run(2) by force
  moreover have "\<not> q_queued ?q (rr_issue r) (rr_agent new)"
  proof
    assume "q_queued ?q (rr_issue r) (rr_agent new)"
    then obtain j s where s: "q_runs ?q j = Some s" "q_issue s = rr_issue r" "q_agent s = rr_agent new" "q_status s = RQueued"
      by (auto simp: q_queued_def)
    then have "j \<noteq> i" using at run(2) by auto
    then have "q_runs (queue_of db1) j = Some s" using s(1) fin(1) by (simp add: q_put_def)
    then show False using I(4) s(2-4) ins(3) unfolding q_queued_def by metis
  qed
  ultimately have "qmove ?q ?qi" unfolding ins(4) using ins(5,6) by (rule q_chain [rotated 0])
  moreover have "qmove ?qi (queue_of db2)"
  proof -
    have "queue_of db2 = q_put i ((qrun_of r)\<lparr>q_status := st\<rparr>) ?qi" unfolding I(1) fin(1) using ne
      by (simp add: q_put_def fun_upd_twist)
    moreover have "qmove ?qi (q_put i ((qrun_of r)\<lparr>q_status := st\<rparr>) ?qi)"
      by (rule q_finish) (use at ne run(2) fin(2) in \<open>auto simp: q_put_def\<close>)
    ultimately show ?thesis by simp
  qed
  ultimately show ?thesis using I(2) by (simp add: moves_def)
qed

lemma followup_parts:
  assumes "complete_followup tk run status fin t db = Inr (x, db')"
  obtains cid content db2 b db3 db4 db5 d where "same_queue db db2"
    "(if status = RDone then enqueueAutoChainMention tk run cid content t else tx_return False) db2 = Inr (b, db3)"
    "same_queue db3 db4" "maybeMarkIssueDoneTx run status b t db4 = Inr (d, db5)" "same_queue db5 db'"
proof -
  from assms obtain cid content db2 b db3 u db4 d db5 v db6 w where parts:
    "insertAgentResultCommentTx tk run status fin t db = Inr ((cid, content), db2)"
    "(if status = RDone then enqueueAutoChainMention tk run cid content t else tx_return False) db2 = Inr (b, db3)"
    "emitRunFinishEventsTx tk run status fin db3 = Inr (u, db4)" "maybeMarkIssueDoneTx run status b t db4 = Inr (d, db5)"
    "enqueueRunLifecycleWebhookTx tk 20 run (if status = RDone then js ''run.completed'' else js ''run.failed'')
       (run_status_str status) fin t db5 = Inr (v, db6)"
    "(if d then enqueueRunLifecycleWebhookTx tk 1000 run (js ''issue.done'') (js ''done'') fin t else tx_return ()) db6 = Inr (w, db')"
    unfolding complete_followup_def tx_bind_Inr by (auto simp: tx_elims)
  have "same_queue db6 db'" using parts(6) by (auto simp: tx_elims split: if_splits dest: quietD [OF quiet_lifecycle])
  then have "same_queue db5 db'" using quietD [OF quiet_lifecycle parts(5)] by (blast intro: same_queue_trans)
  then show ?thesis
    using that [OF quietD [OF quiet_result_comment parts(1)] parts(2) quietD [OF quiet_finish_events parts(3)] parts(4)] by blast
qed

lemma complete_moving:
  assumes "\<not> active_status status"
  shows "moving (\<lambda>db. find_run (rr_id run) db = Some run) (CompleteRun_tx tk run status fin)"
  unfolding moving_def
proof (intro allI impI)
  fix db x db'
  assume tx: "CompleteRun_tx tk run status fin db = Inr (x, db')" and keys: "keys_ok db" and run: "find_run (rr_id run) db = Some run"
  let ?t = "tk_now tk 0" and ?P = "\<lambda>r. rr_id r = rr_id run \<and> rr_status r = RRunning"
  from tx obtain n db1 where up: "update_runs ?P (finished status fin ?t) db = Inr (n, db1)"
    and zero: "n = 0 \<Longrightarrow> db' = db1" and rest: "n \<noteq> 0 \<Longrightarrow> complete_followup tk run status fin ?t db1 = Inr (x, db')"
    unfolding CompleteRun_tx_def updateRunTerminalTx_def Let_def by (auto simp: tx_elims split: if_splits)
  note U = update_runs_queue [where i = "rr_id run", OF up keys]
  show "moves db db'"
  proof (cases "n = 0")
    case True
    then show ?thesis using U(1,5) zero by (simp add: moves_eq)
  next
    case False
    then have q1: "queue_of db1 = q_put (rr_id run) ((qrun_of run)\<lparr>q_status := status\<rparr>) (queue_of db)" and st: "rr_status run = RRunning"
      using U(7) run by auto
    obtain cid content db2 b db3 db4 db5 d where s: "same_queue db1 db2" "same_queue db3 db4" "same_queue db5 db'"
      and chain: "(if status = RDone then enqueueAutoChainMention tk run cid content ?t else tx_return False) db2 = Inr (b, db3)"
      and mark: "maybeMarkIssueDoneTx run status b ?t db4 = Inr (d, db5)" using followup_parts [OF rest [OF False]] by metis
    have k2: "keys_ok db2" "queue_of db2 = queue_of db1" using s(1) U(1) by (simp_all add: same_queue_of)
    have "moves db db3"
    proof (cases b)
      case False
      then have "same_queue db2 db3" using chain chain_result [of tk run cid content ?t db2 b db3] by (auto simp: tx_elims split: if_splits)
      moreover have "moves db db1" by (rule finish_update(1) [OF up keys, where st = status]) (use assms in auto)
      ultimately show ?thesis using s(1) by (meson moves_trans moves_same moves_keys same_queue_trans)
    next
      case True
      then obtain agent m dbi where ins: "1 \<le> m" "m \<le> 5" "insert_run (chained_run tk run agent cid content ?t m) db2 = Inr ((), dbi)"
          "same_queue dbi db3"
        using chain chain_result [of tk run cid content ?t db2 b db3] by (auto simp: tx_elims split: if_splits)
      have "moves db dbi"
        by (rule finish_and_chain [OF keys run st _ assms k2(1) ins(3)]) (use k2(2) q1 ins in simp_all)
      then show ?thesis using ins(4) by (blast intro: moves_trans moves_same moves_keys)
    qed
    moreover have "moves db4 db5" using mark calculation s(2) by (meson mark_done_moves moves_keys moves_same)
    ultimately show ?thesis using s(2,3) by (meson moves_trans moves_same moves_keys)
  qed
qed

text \<open>A change of columns the queue does not look at.\<close>

lemma unseen_change_moves:
  assumes f: "\<And>r. rr_id (f r) = rr_id r" "\<And>r. qrun_of (f r) = qrun_of r"
    and db': "db_runs db' = map f (db_runs db)" "db_issues db' = db_issues db" and keys: "keys_ok db"
  shows "moves db db'"
proof -
  have g: "rr_status (f r) = rr_status r" "rr_issue (f r) = rr_issue r" "rr_agent (f r) = rr_agent r" for r
    using f(2) [of r] by (simp_all add: qrun_of_def)
  have "queued_keys (map f rs) = queued_keys rs" for rs using g by (induction rs) (auto simp: queued_keys_def)
  moreover have "runs_map (map f rs) = runs_map rs" for rs using f by (induction rs) (auto simp: runs_map_def)
  moreover have "map rr_id (map f rs) = map rr_id rs" for rs using f by (induction rs) auto
  ultimately have "queue_of db' = queue_of db" "keys_ok db' = keys_ok db"
    by (simp_all add: db' queue_of_def keys_ok_def del: map_map)
  then show ?thesis using keys by (simp add: moves_eq)
qed

lemma unseen_update_moves:
  assumes "update_runs P f db = Inr (n, db')" "\<And>r. rr_id (f r) = rr_id r" "\<And>r. qrun_of (f r) = qrun_of r" "keys_ok db"
  shows "moves db db'"
  by (rule unseen_change_moves [where f = "\<lambda>r. if P r then f r else r"]) (use assms in \<open>auto simp: update_runs_def Let_def split: if_splits\<close>)

text \<open>The path of a log recorded for a run that has ended otherwise.\<close>

lemma recover_stdout_moves: "keys_ok db \<Longrightarrow> moves db (recoverRunStdoutPath i p db)"
  by (cases "p = []")
    (auto simp: recoverRunStdoutPath_def moves_refl qrun_of_def
      intro: unseen_change_moves [where f = "\<lambda>r. if rr_id r = i \<and> (rr_stdout_path r = None \<or> rr_stdout_path r = Some []) then r\<lparr>rr_stdout_path := Some p\<rparr> else r"])

subsection \<open>Failing and cancelling\<close>

lemma fail_infra_moving: "moving (\<lambda>_. True) (FailInfrastructureRun_tx tk run reason kind msg)"
  unfolding moving_def
proof (intro allI impI)
  fix db x db'
  assume tx: "FailInfrastructureRun_tx tk run reason kind msg db = Inr (x, db')" and keys: "keys_ok db"
  let ?P = "\<lambda>r. rr_id r = rr_id run \<and> active_status (rr_status r)"
  from tx obtain n db1 where up: "update_runs ?P (infra_failed (tk_now tk 0) msg reason kind) db = Inr (n, db1)" and "same_queue db1 db'"
    by (auto simp: FailInfrastructureRun_tx_def tx_elims Let_def split: if_splits dest!: quietD [OF quiet_insert_comment]
        quietD [OF quiet_append_event] quietD [OF quiet_lifecycle]) (meson same_queue_trans)+
  moreover have "moves db db1" by (rule finish_update(1) [OF up keys, where st = RFailed]) auto
  ultimately show "moves db db'" by (blast intro: moves_trans moves_same moves_keys)
qed

lemma cancel_moving: "moving (\<lambda>_. True) (CancelRun_tx tk run reason)"
  unfolding moving_def
proof (intro allI impI)
  fix db x db'
  assume tx: "CancelRun_tx tk run reason db = Inr (x, db')" and keys: "keys_ok db"
  let ?P = "\<lambda>r. rr_id r = rr_id run \<and> active_status (rr_status r)"
  from tx obtain n db1 where up: "update_runs ?P (cancelled (tk_now tk 0) (-1) (ci_message reason) (ci_terminal reason) (ci_reason reason)) db =
      Inr (n, db1)" and "same_queue db1 db'"
    by (auto simp: CancelRun_tx_def tx_elims Let_def split: if_splits dest!: quietD [OF quiet_system_comment] quietD [OF quiet_append_event]
        intro: same_queue_trans)
  moreover have "moves db db1" by (rule finish_update(1) [OF up keys, where st = RCancelled]) auto
  ultimately show "moves db db'" by (blast intro: moves_trans moves_same moves_keys)
qed

text \<open>The loops over runs to be cancelled. The one of \<^verbatim>\<open>RecoverOrphanRuns\<close> does not look at the state again, so
  each of its rows has to be active still when its turn comes.\<close>

definition still_active :: "tbl_run list \<Rightarrow> store_db \<Rightarrow> bool" where
  "still_active rows db \<longleftrightarrow> distinct (map rr_id rows) \<and>
     (\<forall>r \<in> set rows. \<exists>q. q_runs (queue_of db) (rr_id r) = Some q \<and> active_status (q_status q))"

lemma cancel_row_moves:
  assumes "cancel_row tk guard (cancelled t c m a b) cmt t ety sev msg ds k row db = Inr (n, db')" "keys_ok db"
    "(\<forall>st. guard st \<longrightarrow> active_status st) \<or> (\<exists>q. q_runs (queue_of db) (rr_id row) = Some q \<and> active_status (q_status q))"
  shows "moves db db'" "q_issues (queue_of db') = q_issues (queue_of db)" "j \<noteq> rr_id row \<Longrightarrow> q_runs (queue_of db') j = q_runs (queue_of db) j"
proof -
  let ?P = "\<lambda>r. rr_id r = rr_id row \<and> guard (rr_status r)"
  from assms(1) obtain k db1 where up: "update_runs ?P (cancelled t c m a b) db = Inr (k, db1)" and s: "same_queue db1 db'"
    by (auto simp: cancel_row_def tx_elims split: if_splits dest!: quietD [OF quiet_system_comment] quietD [OF quiet_append_event]
        intro: same_queue_trans)
  have act: "find_run (rr_id row) db = Some r \<Longrightarrow> ?P r \<Longrightarrow> active_status (rr_status r)" for r using assms(3) by (auto simp: runs_map_find)
  note F = finish_update [OF up assms(2), where st = RCancelled and i = "rr_id row"]
  have q: "queue_of db' = queue_of db1" using s by (rule same_queue_of)
  have "moves db db1" by (rule F(1)) (use act in auto)
  then show "moves db db'" using s by (blast intro: moves_trans moves_same moves_keys)
  show "q_issues (queue_of db') = q_issues (queue_of db)" unfolding q by (rule F(2)) (use act in auto)
  show "q_runs (queue_of db') j = q_runs (queue_of db) j" if "j \<noteq> rr_id row" unfolding q by (rule F(3)) (use act that in auto)
qed

lemma cancel_loop_moving:
  assumes "(\<forall>st. guard st \<longrightarrow> active_status st) \<or> still_active rows db"
    "tx_each (cancel_row tk guard (cancelled t c m a b) cmt t ety sev msg ds) k rows db = Inr (n, db')" "keys_ok db"
  shows "moves db db'"
  using assms
proof (induction rows arbitrary: k n db)
  case Nil
  then show ?case by (simp add: tx_elims moves_refl)
next
  case (Cons row rows)
  from Cons.prems(2) obtain n1 db1 n2 where one: "cancel_row tk guard (cancelled t c m a b) cmt t ety sev msg ds k row db = Inr (n1, db1)"
    and more: "tx_each (cancel_row tk guard (cancelled t c m a b) cmt t ety sev msg ds) (Suc k) rows db1 = Inr (n2, db')"
    by (auto simp: tx_elims)
  have pre: "(\<forall>st. guard st \<longrightarrow> active_status st) \<or> (\<exists>q. q_runs (queue_of db) (rr_id row) = Some q \<and> active_status (q_status q))"
    using Cons.prems(1) by (auto simp: still_active_def)
  note C = cancel_row_moves [OF one Cons.prems(3) pre]
  have "(\<forall>st. guard st \<longrightarrow> active_status st) \<or> still_active rows db1"
    using Cons.prems(1) C(3) by (simp add: still_active_def) (metis image_eqI)
  then have "moves db1 db'" using Cons.IH more C(1) by (blast intro: moves_keys)
  with C(1) show ?case by (rule moves_trans)
qed

lemma still_active_filter:
  assumes "keys_ok db" "\<And>r. P r \<Longrightarrow> active_status (rr_status r)"
  shows "still_active (filter P (db_runs db)) db"
  using assms by (auto simp: still_active_def keys_okD(1) distinct_map_filter runs_map_row)

subsection \<open>Another attempt, a new run\<close>

lemma reschedule_moving: "moving (\<lambda>_. True) (RescheduleRunForRetry_tx tk runID kind msg path)"
  unfolding moving_def
proof (intro allI impI)
  fix db x db'
  assume tx: "RescheduleRunForRetry_tx tk runID kind msg path db = Inr (x, db')" and keys: "keys_ok db"
  let ?P = "\<lambda>r. rr_id r = runID \<and> rr_status r = RRunning \<and> rr_attempt r < rr_max_attempts r"
  from tx obtain u n db1 where up: "update_runs ?P (rescheduled u path msg) db = Inr (n, db1)" and s: "same_queue db1 db'" and n: "n \<noteq> 0"
    by (auto simp: RescheduleRunForRetry_tx_def retryPolicyForAgent_def tx_elims Let_def split: if_splits option.splits
        dest!: quietD [OF quiet_system_comment] quietD [OF quiet_append_event] intro: same_queue_trans)
  note U = update_runs_queue [where i = runID, OF up keys]
  from n obtain r where r: "find_run runID db = Some r" "?P r"
    and q1: "queue_of db1 = q_put runID ((qrun_of r)\<lparr>q_status := RQueued, q_attempt := rr_attempt r + 1\<rparr>) (queue_of db)"
    using U(7) by auto
  have k1: "keys_ok db1" using U(1) by simp
  have "\<not> q_queued (queue_of db) (rr_issue r) (rr_agent r)"
  proof
    assume "q_queued (queue_of db) (rr_issue r) (rr_agent r)"
    then obtain j s where j: "q_runs (queue_of db) j = Some s" "q_issue s = rr_issue r" "q_agent s = rr_agent r" "q_status s = RQueued"
      by (auto simp: q_queued_def)
    then have ne: "j \<noteq> runID" using r by (auto simp: runs_map_find)
    obtain a where a: "a \<in> set (db_runs db1)" "rr_id a = j" "s = qrun_of a"
      using j(1) ne q1 runs_map_iff [OF k1] by (metis fun_upd_other q_put_def queue_of_simps(1) queue.simps(1) queue.surjective queue.update_convs(1))
    have "runs_map (db_runs db1) runID = Some ((qrun_of r)\<lparr>q_status := RQueued, q_attempt := rr_attempt r + 1\<rparr>)"
      using q1 by (simp add: q_put_def queue_of_def)
    then obtain b where b: "b \<in> set (db_runs db1)" "rr_id b = runID" "qrun_of b = (qrun_of r)\<lparr>q_status := RQueued, q_attempt := rr_attempt r + 1\<rparr>"
      unfolding runs_map_iff [OF k1] by metis
    then have "rr_status b = RQueued" "rr_issue b = rr_issue r" "rr_agent b = rr_agent r" by (simp_all add: qrun_of_def)
    then have "a = b" using queued_keys_unique [OF keys_okD(3) [OF k1] a(1) b(1)] a(3) j(2-4) by simp
    then show False using a(2) b(2) ne by simp
  qed
  then have "qmove (queue_of db) (queue_of db1)" unfolding q1
    using q_retry [of "queue_of db" runID "qrun_of r"] r by (simp add: runs_map_find)
  then show "moves db db'" using k1 s by (blast intro: moves_one moves_trans moves_same moves_keys)
qed

lemma queued_run_simps [simp]:
  "rr_status (queued_run i iss a tr c sn p ch d v t m) = RQueued" "rr_issue (queued_run i iss a tr c sn p ch d v t m) = iss"
  "rr_agent (queued_run i iss a tr c sn p ch d v t m) = a" "rr_id (queued_run i iss a tr c sn p ch d v t m) = i"
  "qrun_of (queued_run i iss a tr c sn p ch d v t m) = new_qrun iss a m"
  by (simp_all add: queued_run_def qrun_of_def new_qrun_def)

text \<open>A queued run on an issue that is open, or is opened with it.\<close>

lemma enqueue_open_moves:
  assumes ins: "insert_run new db = Inr (u, db1)" "keys_ok db" "rr_status new = RQueued" "qrun_of new = new_qrun (rr_issue new) (rr_agent new) m"
      "1 \<le> m" "m \<le> 5"
    and opn: "queue_of db2 = q_mark (rr_issue new) IOpen (queue_of db1)" "keys_ok db2"
  shows "moves db db2"
proof -
  note I = insert_run_queue [OF ins(1-3)]
  have "qmove (queue_of db) (queue_of db2)" unfolding opn(1) I(1) ins(4) by (rule q_enqueue) (use I(3-5) ins(5,6) in auto)
  then show ?thesis using opn(2) by (rule moves_one)
qed

lemma find_issue_same: "db_issues db' = db_issues db \<Longrightarrow> find_issue i db' = find_issue i db"
  by (simp add: find_issue_def)

lemma insert_then_open:
  assumes "insert_run new db = Inr (u, db1)" "keys_ok db" "rr_status new = RQueued" "qrun_of new = new_qrun (rr_issue new) (rr_agent new) m"
    "1 \<le> m" "m \<le> 5" "same_queue db1 db2" "set_issue_status (rr_issue new) IOpen t db2 = Inr (v, db3)"
  shows "moves db db3"
proof (rule enqueue_open_moves [OF assms(1-6)])
  note I = insert_run_queue [OF assms(1-3)]
  have k2: "keys_ok db2" "queue_of db2 = queue_of db1" using assms(7) I(2) by (simp_all add: same_queue_of)
  have "find_issue (rr_issue new) db2 \<noteq> None" using I(5,6) assms(7) by (auto simp: issues_map_find same_queue_def find_issue_def)
  then show "queue_of db3 = q_mark (rr_issue new) IOpen (queue_of db1)" "keys_ok db3"
    using set_issue_status_queue [OF assms(8) k2(1)] k2(2) by simp_all
qed

lemma version_same: "agentInstructionsVersionForAgent a db = Inr (v, db') \<Longrightarrow> db' = db"
  by (auto simp: agentInstructionsVersionForAgent_def tx_elims)

lemma retry_chain_moving: "moving (\<lambda>_. True) (RetryFailedRunInChain_tx tk chainID prev)"
  unfolding moving_def
proof (intro allI impI)
  fix db x db'
  assume tx: "RetryFailedRunInChain_tx tk chainID prev db = Inr (x, db')" and keys: "keys_ok db"
  from tx obtain m v u db1 e db2 w sn where m: "1 \<le> m" "m \<le> 5"
    and p: "insert_run (queued_run (tk_id tk 0) (rr_issue prev) (rr_agent prev) (js ''rerun'') None sn (Some (rr_id prev)) (rr_chain prev)
              (rr_depth prev) v (tk_now tk 0) m) db = Inr (u, db1)"
      "same_queue db1 db2" "set_issue_status (rr_issue prev) IOpen (tk_now tk 0) db2 = Inr (w, db')"
    by (auto simp: RetryFailedRunInChain_tx_def tx_elims Let_def dest!: retry_max_bounds version_same dest: quietD [OF quiet_append_event])
  show "moves db db'" by (rule insert_then_open [OF p(1) keys _ _ m p(2)]) (use p(3) in simp_all)
qed

subsection \<open>Issues and comments\<close>

lemma insert_issue_queue:
  assumes "insert_issue i db = Inr (u, db')" "keys_ok db"
  shows "queue_of db' = q_mark (ir_id i) (ir_status i) (queue_of db)" "keys_ok db'"
proof -
  have db': "db' = db\<lparr>db_issues := db_issues db @ [i]\<rparr>" and new: "find_issue (ir_id i) db = None"
    using assms(1) by (auto simp: insert_issue_def split: if_splits)
  have "ir_id i \<notin> ir_id ` set (db_issues db)" using new by (auto simp: find_issue_def find_None_iff)
  then show "keys_ok db'" using assms(2) by (auto simp: keys_ok_def db')
  show "queue_of db' = q_mark (ir_id i) (ir_status i) (queue_of db)"
    using new by (auto simp: queue_of_def q_mark_def db' issues_map_def map_add_def find_map_of find_issue_def fun_eq_iff split: option.splits)
qed

lemma take_number_same:
  assumes "take_issue_number ws t db = Inr (n, db')"
  shows "queue_of db' = queue_of db" "keys_ok db' = keys_ok db"
  using assms by (auto simp: take_issue_number_def queue_of_def keys_ok_def split: option.splits)

lemma create_issue_moving: "moving (\<lambda>_. True) (CreateIssue_tx tk w agentID inp)"
  unfolding moving_def
proof (intro allI impI)
  fix db x db'
  assume tx: "CreateIssue_tx tk w agentID inp db = Inr (x, db')" and keys: "keys_ok db"
  from tx obtain n db1 row u db2 m v new u2 db3 where num: "take_issue_number (wr_id w) (tk_now tk 0) db = Inr (n, db1)"
    and iss: "insert_issue row db1 = Inr (u, db2)" "ir_id row = tk_id tk 0" "ir_status row = IOpen"
    and m: "1 \<le> m" "m \<le> 5"
    and run: "insert_run new db2 = Inr (u2, db3)" "rr_status new = RQueued" "rr_issue new = tk_id tk 0"
      "qrun_of new = new_qrun (rr_issue new) (rr_agent new) m"
    and s: "same_queue db3 db'"
    by (auto simp: CreateIssue_tx_def tx_elims Let_def split: if_splits dest!: retry_max_bounds version_same dest: quietD [OF quiet_append_event])
  note N = take_number_same [OF num] and I = insert_issue_queue [OF iss(1)]
  have k1: "keys_ok db1" using N(2) keys by simp
  have q2: "queue_of db2 = q_mark (tk_id tk 0) IOpen (queue_of db1)" and k2: "keys_ok db2" using I [OF k1] iss(2,3) by simp_all
  have "qmove (queue_of db) (queue_of db2)" unfolding q2 N(1) by (rule q_open)
  then have "moves db db2" using k2 by (rule moves_one)
  moreover have "moves db2 db3"
    by (rule enqueue_open_moves [OF run(1) k2 run(2,4) m])
      (use insert_run_queue(1,2) [OF run(1) k2 run(2)] run(3) q2 in \<open>auto simp: q_mark_def q_put_def fun_upd_idem\<close>)
  ultimately show "moves db db'" using s by (meson moves_trans moves_same moves_keys)
qed

lemma dispatch_moving: "moving (\<lambda>_. True) (dispatch_mention tk issueID cid agent content)"
  unfolding moving_def
proof (intro allI impI)
  fix db x db'
  assume tx: "dispatch_mention tk issueID cid agent content db = Inr (x, db')" and keys: "keys_ok db"
  show "moves db db'"
  proof (cases "\<exists>r \<in> set (db_runs db). rr_issue r = issueID \<and> rr_agent r = ar_id agent \<and> rr_status r = RQueued")
    case True
    then show ?thesis using tx keys by (auto simp: dispatch_mention_def tx_bind_def tx_get_def tx_return_def moves_refl)
  next
    case False
    with tx obtain m new u db1 db2 v where m: "1 \<le> m" "m \<le> 5"
      and run: "insert_run new db = Inr (u, db1)" "rr_status new = RQueued" "rr_issue new = issueID"
        "qrun_of new = new_qrun (rr_issue new) (rr_agent new) m"
      and s: "same_queue db1 db2" "set_issue_status issueID IOpen (tk_now tk 0) db2 = Inr (v, db')"
      by (auto simp: dispatch_mention_def tx_elims Let_def dest!: retry_max_bounds quietD [OF quiet_append_event])
    show ?thesis by (rule insert_then_open [OF run(1) keys run(2,4) m s(1)]) (use s(2) run(3) in simp)
  qed
qed

lemma add_comment_moving: "moving (\<lambda>_. True) (AddUserComment_tx tk iss content)"
  unfolding moving_def
proof (intro allI impI)
  fix db x db'
  assume tx: "AddUserComment_tx tk iss content db = Inr (x, db')" and keys: "keys_ok db"
  then obtain db1 where s: "same_queue db db1"
    and rest: "same_queue db1 db' \<or> (\<exists>agent cid y. dispatch_mention tk (ir_id iss) cid agent content db1 = Inr (y, db'))"
    by (auto simp: AddUserComment_tx_def tx_elims Let_def split: list.splits option.splits if_splits
        dest!: quietD [OF quiet_insert_comment] quietD [OF quiet_system_comment]) (blast intro: same_queue_trans)+
  have "keys_ok db1" using s keys by (simp add: same_queue_of)
  then have "moves db1 db'" using rest by (auto intro: moves_same dest: movingD [OF dispatch_moving])
  then show "moves db db'" using s by (rule moves_same_left [rotated])
qed

lemma rerun_moving: "moving (\<lambda>_. True) (Rerun_tx tk issueID agentID sn)"
  unfolding moving_def
proof (intro allI impI)
  fix db x db'
  assume tx: "Rerun_tx tk issueID agentID sn db = Inr (x, db')" and keys: "keys_ok db"
  from tx obtain m new u db1 db2 v where m: "1 \<le> m" "m \<le> 5"
    and run: "insert_run new db = Inr (u, db1)" "rr_status new = RQueued" "rr_issue new = issueID"
      "qrun_of new = new_qrun (rr_issue new) (rr_agent new) m"
    and s: "same_queue db1 db2" "set_issue_status issueID IOpen (tk_now tk 0) db2 = Inr (v, db')"
    by (auto simp: Rerun_tx_def tx_elims Let_def dest!: retry_max_bounds version_same dest: quietD [OF quiet_append_event])
  show "moves db db'" by (rule insert_then_open [OF run(1) keys run(2,4) m s(1)]) (use s(2) run(3) in simp)
qed

text \<open>Changing an issue. When it is cancelled, its queued runs end first and no running one is left.\<close>

lemma cancel_queued_moves:
  assumes "cancel_queued_row tk iss t k row db = Inr (n, db')" "keys_ok db"
  shows "keys_ok db'" "db_issues db' = db_issues db"
    "runs_map (db_runs db') j = (if j = rr_id row then map_option drop_run (runs_map (db_runs db) j) else runs_map (db_runs db) j)"
proof -
  let ?P = "\<lambda>r. rr_id r = rr_id row \<and> rr_status r = RQueued"
  from assms(1) obtain c db1 where up: "update_runs ?P (cancelled t (-1) (js ''issue cancelled'') (js ''issue_cancelled'') (js ''issue'')) db = Inr (c, db1)"
    and s: "same_queue db1 db'"
    by (auto simp: cancel_queued_row_def tx_elims dest!: quietD [OF quiet_append_event])
  note U = update_runs_queue [where i = "rr_id row", OF up assms(2)]
  show "keys_ok db'" using U(1) s by (simp add: same_queue_of)
  show "db_issues db' = db_issues db" using U(2) s by (simp add: same_queue_def)
  have q: "runs_map (db_runs db') = runs_map (db_runs db1)" using s by (simp add: same_queue_def)
  show "runs_map (db_runs db') j = (if j = rr_id row then map_option drop_run (runs_map (db_runs db) j) else runs_map (db_runs db) j)"
  proof (cases "c = 0")
    case True
    then show ?thesis using U(5,6) unfolding q
      by (auto simp: queue_of_def runs_map_find drop_run_def find_run_def option.map_comp split: option.split dest: find_SomeD intro!: map_option_cong)
  next
    case False
    then obtain r where "find_run (rr_id row) db = Some r" "?P r" "queue_of db1 = q_put (rr_id row) ((qrun_of r)\<lparr>q_status := RCancelled\<rparr>) (queue_of db)"
      using U(7) by auto
    then show ?thesis unfolding q by (auto simp: q_put_def queue_of_def drop_run_def runs_map_find)
  qed
qed

lemma drop_run_idem [simp]: "drop_run (drop_run r) = drop_run r" "drop_run \<circ> drop_run = drop_run"
  by (auto simp: drop_run_def)

lemma cancel_queued_loop:
  assumes "tx_each (cancel_queued_row tk iss t) k rows db = Inr (n, db')" "keys_ok db"
  shows "keys_ok db' \<and> db_issues db' = db_issues db \<and>
    (\<forall>j. runs_map (db_runs db') j = (if j \<in> rr_id ` set rows then map_option drop_run (runs_map (db_runs db) j) else runs_map (db_runs db) j))"
  using assms
proof (induction rows arbitrary: k n db)
  case Nil
  then show ?case by (simp add: tx_elims)
next
  case (Cons row rows)
  from Cons.prems(1) obtain n1 db1 n2 where one: "cancel_queued_row tk iss t k row db = Inr (n1, db1)"
    and more: "tx_each (cancel_queued_row tk iss t) (Suc k) rows db1 = Inr (n2, db')" by (auto simp: tx_elims)
  note C = cancel_queued_moves [OF one Cons.prems(2)]
  show ?case using Cons.IH [OF more C(1)] C(2,3) by (auto simp: option.map_comp)
qed

lemma set_sort_rows [simp]: "set (sort_rows key rs) = set rs"
  unfolding sort_rows_def by (rule set_js_sort)

lemma quiet_issue_webhook [quiet_intros]: "quiet (enqueueIssueCancelledWebhookTx tk k ws i title t)"
  unfolding enqueueIssueCancelledWebhookTx_def by (intro quiet_intros)

lemma change_issue_moving: "moving (\<lambda>db. find_issue (ir_id iss) db = Some iss) (change_issue_tx tk iss title body assignee status)"
  unfolding moving_def
proof (intro allI impI)
  fix db x db'
  let ?i = "ir_id iss" and ?t = "tk_now tk 0"
  let ?f = "\<lambda>r :: tbl_issue. r\<lparr>ir_title := title, ir_body := body, ir_assignee := null_if_empty assignee, ir_status := status, ir_updated_at := ?t\<rparr>"
  let ?queued = "sort_rows rr_enqueued_at (filter (\<lambda>r. rr_status r = RQueued) (runs_of ?i db))"
  assume tx: "change_issue_tx tk iss title body assignee status db = Inr (x, db')" and keys: "keys_ok db"
    and iss: "find_issue ?i db = Some iss"
  from tx obtain n db1 where up: "update_issues (\<lambda>r. ir_id r = ?i) ?f db = Inr (n, db1)"
    and guard: "status = ICancelled \<Longrightarrow> \<not> list_ex (\<lambda>r. rr_status r = RRunning) (runs_of ?i db)"
    and plain: "status \<noteq> ICancelled \<Longrightarrow> db' = db1"
    and cancel: "status = ICancelled \<Longrightarrow> \<exists>m db2. tx_each (cancel_queued_row tk ?i ?t) 0 ?queued db1 = Inr (m, db2) \<and> same_queue db2 db'"
    by (auto simp: change_issue_tx_def tx_elims Let_def split: if_splits
        dest!: quietD [OF quiet_system_comment] quietD [OF quiet_issue_webhook]) (meson same_queue_trans)+
  have U: "keys_ok db1" "find_issue ?i db \<noteq> None \<Longrightarrow> queue_of db1 = q_mark ?i status (queue_of db)" "db_runs db1 = db_runs db"
    using update_issue_queue [where st = status, OF up keys] by simp_all
  have q1: "queue_of db1 = q_mark ?i status (queue_of db)" using U(2) iss by simp
  have known: "q_issues (queue_of db) ?i \<noteq> None" using iss by (simp add: issues_map_find)
  show "moves db db'"
  proof (cases "status = ICancelled")
    case False
    then have "qmove (queue_of db) (queue_of db')" using q1 plain known by (cases status) (auto intro: q_open q_close)
    then show ?thesis using U(1) plain [OF False] by (simp add: moves_one)
  next
    case True
    then obtain m db2 where loop: "tx_each (cancel_queued_row tk ?i ?t) 0 ?queued db1 = Inr (m, db2)" and s: "same_queue db2 db'"
      using cancel by blast
    note L = cancel_queued_loop [OF loop U(1)]
    have "q_runs (queue_of db2) j = q_runs (q_drop ?i (queue_of db)) j" for j
    proof (cases "runs_map (db_runs db) j")
      case None
      then show ?thesis using L U(3) by (simp add: q_drop_def)
    next
      case (Some q)
      then obtain r where r: "r \<in> set (db_runs db)" "rr_id r = j" "q = qrun_of r" using runs_map_iff [OF keys] by blast
      have "j \<in> rr_id ` set (filter (\<lambda>r. rr_status r = RQueued) (runs_of ?i db)) \<longleftrightarrow> rr_issue r = ?i \<and> rr_status r = RQueued"
        (is "_ \<longleftrightarrow> ?queued")
      proof
        assume "j \<in> rr_id ` set (filter (\<lambda>r. rr_status r = RQueued) (runs_of ?i db))"
        then obtain s where s: "s \<in> set (db_runs db)" "rr_issue s = ?i" "rr_status s = RQueued" "rr_id s = j" by (auto simp: runs_of_def)
        then have "s = r" using r find_run_row [OF keys s(1)] find_run_row [OF keys r(1)] by simp
        then show ?queued using s by simp
      next
        assume ?queued
        then show "j \<in> rr_id ` set (filter (\<lambda>r. rr_status r = RQueued) (runs_of ?i db))" using r by (auto simp: runs_of_def)
      qed
      then show ?thesis using L U(3) Some r by (auto simp: q_drop_def drop_run_def)
    qed
    then have "q_runs (queue_of db2) = q_runs (q_mark ?i ICancelled (q_drop ?i (queue_of db)))" by (simp add: fun_eq_iff)
    moreover have "q_issues (queue_of db2) = q_issues (queue_of db1)" using L by simp
    then have "q_issues (queue_of db2) = q_issues (q_mark ?i ICancelled (q_drop ?i (queue_of db)))" unfolding q1 by (simp add: True)
    ultimately have "queue_of db2 = q_mark ?i ICancelled (q_drop ?i (queue_of db))" by (intro queue.equality) simp_all
    moreover have "\<not> running_on_issue ?i db" using guard [OF True]
      by (simp add: running_on_issue_def list_ex_iff runs_of_def)
    then have "\<not> q_running (queue_of db) ?i" by (simp add: running_iff [OF keys])
    ultimately have "qmove (queue_of db) (queue_of db2)" using q_cancel [OF known] by simp
    then have m: "moves db db2" by (rule moves_one [OF _ conjunct1 [OF L]])
    show ?thesis by (rule moves_trans [OF m moves_same [OF s moves_keys [OF m]]])
  qed
qed

lemma update_issue_tx_moving: "moving (\<lambda>_. True) (UpdateIssue_tx tk i inp)"
  unfolding moving_def
proof (intro allI impI)
  fix db x db'
  assume tx: "UpdateIssue_tx tk i inp db = Inr (x, db')" and keys: "keys_ok db"
  from tx obtain iss title body a st where "find_issue i db = Some iss" "change_issue_tx tk iss title body a st db = Inr (x, db')"
    by (auto simp: UpdateIssue_tx_def tx_elims Let_def split: if_splits option.splits)
  moreover then have "ir_id iss = i" by (auto simp: find_issue_def dest: find_SomeD)
  ultimately show "moves db db'" using movingD [OF change_issue_moving] keys by blast
qed

end
