(* ===== verification/RunWorker.thy ===== *)
theory RunWorker
  imports IssueStore RunQueue
begin

section \<open>What a worker reports\<close>

text \<open>
  Models \<^verbatim>\<open>WorkerStore\<close> of \<^verbatim>\<open>internal/app/worker_store.go\<close>, through which the worker pool drives a run: the end of
  an execution is another attempt, a finished or failed run, or a cancellation; a run that is in no
  state for it is not an error for the worker. What the worker read from the log file and the process
  (the comment, the stripped lines, the text of the error) are fields of the result. The directories of
  a run are not modelled.
\<close>

record execution_result =
  xr_exit_code :: int
  xr_error :: bool                           \<comment> \<open>\<^verbatim>\<open>Error != nil\<close>\<close>
  xr_started :: bool
  xr_timed_out :: bool
  xr_cancelled :: bool
  xr_cancel_reason :: jstr
  xr_runtime :: jstr
  xr_stdout_path :: jstr
  xr_stdout_truncated :: bool
  xr_input_tokens :: int
  xr_output_tokens :: int
  xr_cost_micros :: int
  xr_model :: jstr
  xr_content :: jstr                         \<comment> \<open>\<^verbatim>\<open>readRunComment\<close>\<close>
  xr_content_truncated :: bool
  xr_stripped :: "jstr list"
  xr_message :: jstr                         \<comment> \<open>\<^verbatim>\<open>executionErrorMessage\<close>\<close>

definition classifyExecutionFailure :: "execution_result \<Rightarrow> int \<Rightarrow> jstr \<times> jstr" where
  "classifyExecutionFailure x exitCode =
     (if xr_timed_out x then (js ''timeout'', js ''timeout'')
      else if xr_error x \<and> \<not> xr_started x then (js ''executor_error'', js ''executor_error'')
      else if exitCode \<noteq> 0 then (js ''exit_nonzero'', js ''exit_nonzero'')
      else if xr_error x then (js ''executor_error'', js ''executor_error'')
      else (js ''completed'', []))"

definition cancelReasonInput :: "jstr \<Rightarrow> cancel_input" where
  "cancelReasonInput reason =
     (let message = go_trim reason; lower = map go_lower message;
          named = (\<lambda>code. message = code \<or> includes_str lower code);
          text_for = (\<lambda>code. if message = [] \<or> message = code then defaultCancelMessage code else message) in
      if named (js ''shutdown'') then \<lparr>ci_message = text_for (js ''shutdown''), ci_terminal = js ''shutdown'', ci_reason = js ''shutdown''\<rparr>
      else if named (js ''issue'') then \<lparr>ci_message = text_for (js ''issue''), ci_terminal = js ''issue_cancelled'', ci_reason = js ''issue''\<rparr>
      else if named (js ''orphan'') then \<lparr>ci_message = text_for (js ''orphan''), ci_terminal = js ''orphan_recovered'', ci_reason = js ''orphan''\<rparr>
      else if named (js ''stale'') then \<lparr>ci_message = text_for (js ''stale''), ci_terminal = js ''stale_recovered'', ci_reason = js ''stale''\<rparr>
      else \<lparr>ci_message = text_for (js ''user''), ci_terminal = js ''user_cancelled'', ci_reason = js ''user''\<rparr>)"

definition ignoreTerminalState :: "(srv_error + 'a) \<times> store_db \<Rightarrow> (srv_error + unit) \<times> store_db" where
  "ignoreTerminalState res = (case res of (Inl e, db) \<Rightarrow> (if e = ErrState then Inr () else Inl e, db) | (Inr x, db) \<Rightarrow> (Inr (), db))"

text \<open>\<open>tks\<close>: the environment of the calls of the store, in their order.\<close>

definition finish_of :: "execution_result \<Rightarrow> finish_input" where
  "finish_of x =
     (let exitCode = (if xr_error x \<and> xr_exit_code x = 0 then 1 else xr_exit_code x) in
      \<lparr>fi_exit_code = exitCode, fi_stdout_path = xr_stdout_path x, fi_content = xr_content x,
       fi_content_truncated = xr_content_truncated x, fi_stdout_truncated = xr_stdout_truncated x, fi_error_message = xr_message x,
       fi_terminal_reason = fst (classifyExecutionFailure x exitCode), fi_failure_kind = snd (classifyExecutionFailure x exitCode),
       fi_input_tokens = xr_input_tokens x, fi_output_tokens = xr_output_tokens x, fi_cost_micros = xr_cost_micros x,
       fi_model = xr_model x\<rparr>)"

definition record_stripped :: "tick \<Rightarrow> jstr \<Rightarrow> execution_result \<Rightarrow> store_db \<Rightarrow> store_db" where
  "record_stripped tk runID x db =
     (if xr_stripped x = [] then db
      else snd (AppendRunEvent tk runID [] (js ''stdout_sanitized'') (js ''info'') (js ''Stripped runtime CLI diagnostic lines from stdout'')
             [(''runtime'', JStr (xr_runtime x)), (''stripped'', JArr (map JStr (xr_stripped x))),
              (''count'', JNum (dec_int (int (length (xr_stripped x)))))] db))"

definition FinishRun :: "(nat \<Rightarrow> tick) \<Rightarrow> jstr \<Rightarrow> execution_result \<Rightarrow> unit op" where
  "FinishRun tks runID x db =
     (if xr_cancelled x
      then ignoreTerminalState (CancelRunWithReason (tks 0) runID (cancelReasonInput (xr_cancel_reason x)) db)
      else
        (let fin = finish_of x; db1 = record_stripped (tks 0) runID x db;
             complete = (\<lambda>db2. ignoreTerminalState (CompleteRunWithReason (tks 2) runID fin db2)) in
         if fi_exit_code fin \<noteq> 0 \<or> fi_terminal_reason fin \<noteq> js ''completed''
         then (case RescheduleRunForRetry (tks 1) runID (fi_failure_kind fin) (fi_error_message fin) (fi_stdout_path fin) db1 of
                 (Inr r, db2) \<Rightarrow> (Inr (), db2)
               | (Inl e, db2) \<Rightarrow> if e = ErrState then complete db2 else (Inl e, db2))
         else complete db1))"

definition worker_CancelRun :: "tick \<Rightarrow> jstr \<Rightarrow> jstr \<Rightarrow> unit op" where
  "worker_CancelRun tk runID reason db = ignoreTerminalState (CancelRunWithReason tk runID (cancelReasonInput reason) db)"

definition worker_HeartbeatRun :: "tick \<Rightarrow> jstr \<Rightarrow> unit op" where
  "worker_HeartbeatRun tk runID db = ignoreTerminalState (HeartbeatRun tk runID db)"

definition worker_FailRun :: "tick \<Rightarrow> jstr \<Rightarrow> jstr \<Rightarrow> jstr \<Rightarrow> jstr \<Rightarrow> unit op" where
  "worker_FailRun tk runID terminalReason failureKind errMsg db =
     ignoreTerminalState (FailInfrastructureRun tk runID terminalReason failureKind errMsg db)"

subsection \<open>A reported run does not run any more\<close>

definition run_running :: "jstr \<Rightarrow> store_db \<Rightarrow> bool" where
  "run_running i db = (case find_run i db of None \<Rightarrow> False | Some r \<Rightarrow> rr_status r = RRunning)"

lemma not_running_same: "db_runs db' = db_runs db \<Longrightarrow> run_running i db' = run_running i db"
  by (simp add: run_running_def find_run_def)

lemma quiet_not_running: "quiet m \<Longrightarrow> m db = Inr (x, db') \<Longrightarrow> run_running i db' = run_running i db"
  by (rule not_running_same) (auto simp: same_queue_def dest: quietD)

lemma ignored_ok: "ignoreTerminalState (res, db') = (Inr u, db'') \<longleftrightarrow> db'' = db' \<and> (res = Inl ErrState \<or> (\<exists>x. res = Inr x))"
  by (auto simp: ignoreTerminalState_def split: sum.splits)

lemma find_map: "(\<And>x. k (f x) = k x) \<Longrightarrow> find (\<lambda>x. k x = i) (map (\<lambda>x. if P x then f x else x) xs) = map_option (\<lambda>x. if P x then f x else x) (find (\<lambda>x. k x = i) xs)"
  by (induction xs) auto

lemma find_run_update:
  assumes "update_runs P f db = Inr (n, db')" "\<And>r. rr_id (f r) = rr_id r"
  shows "find_run i db' = map_option (\<lambda>r. if P r then f r else r) (find_run i db)"
  using assms by (auto simp: update_runs_def Let_def find_run_def find_map split: if_splits)

text \<open>An update of the running rows of an id to another state.\<close>

lemma update_stops:
  assumes "update_runs P f db = Inr (n, db')" "\<And>r. rr_id (f r) = rr_id r" "\<And>r. rr_status (f r) \<noteq> RRunning"
    "\<And>r. find_run i db = Some r \<Longrightarrow> rr_status r = RRunning \<Longrightarrow> P r"
  shows "\<not> run_running i db'"
  using assms(3,4) by (auto simp: run_running_def find_run_update [OF assms(1,2)] split: option.splits)

lemma update_none_affected:
  assumes "update_runs (\<lambda>r. rr_id r = i \<and> rr_status r = RRunning) f db = Inr (0, db')"
  shows "\<not> run_running i db'"
proof -
  have none: "rr_id r = i \<longrightarrow> rr_status r \<noteq> RRunning" if "r \<in> set (db_runs db)" for r
    using assms that by (auto simp: update_runs_def Let_def filter_empty_conv split: if_splits)
  then have "map (\<lambda>r. if rr_id r = i \<and> rr_status r = RRunning then f r else r) (db_runs db) = db_runs db" by (intro map_idI) auto
  then have "db' = db" using assms by (auto simp: update_runs_def Let_def split: if_splits)
  then show ?thesis using none by (auto simp: run_running_def find_run_def split: option.splits dest!: find_Some_iff [THEN iffD1])
qed

lemma notify_runs [simp]: "db_runs (notifyRunEvent iss i db) = db_runs db"
  by (simp add: notifyRunEvent_def)

lemma notify_and_get_runs: "db_runs (snd (notify_and_get iss i db)) = db_runs db"
  by (simp add: notify_and_get_def GetRun_def split: option.split)

lemma find_append: "find P (xs @ ys) = (case find P xs of None \<Rightarrow> find P ys | Some x \<Rightarrow> Some x)"
  by (induction xs) auto

text \<open>What a finished run leaves behind appends a queued run at most.\<close>

lemma not_running_appended:
  assumes "\<not> run_running i db" "db_runs db' = db_runs db @ rs" "\<forall>r \<in> set rs. rr_status r = RQueued"
  shows "\<not> run_running i db'"
  using assms by (auto simp: run_running_def find_run_def find_append dest!: find_SomeD split: option.splits)

subsection \<open>Errors a transaction cannot have\<close>

text \<open>The end of a run never fails with \<open>ErrState\<close>, the error the worker ignores.\<close>

named_theorems stateless_intros

definition stateless :: "'a tx \<Rightarrow> bool" where
  "stateless m \<longleftrightarrow> (\<forall>db. m db \<noteq> Inl ErrState)"

lemma stateless_basic [stateless_intros]:
  "stateless (tx_return x)" "e \<noteq> ErrState \<Longrightarrow> stateless (tx_fail e)" "stateless (tx_get g)" "e \<noteq> ErrState \<Longrightarrow> stateless (tx_guard b e)"
  "stateless (tx_one q)"
  by (simp_all add: stateless_def tx_defs split: option.split)

lemma stateless_bind [stateless_intros]: "stateless m \<Longrightarrow> (\<And>x. stateless (f x)) \<Longrightarrow> stateless (tx_bind m f)"
  by (auto simp: stateless_def tx_bind_def split: sum.split)

lemma stateless_cases [stateless_intros]:
  "stateless m \<Longrightarrow> stateless n \<Longrightarrow> stateless (if b then m else n)"
  "stateless m \<Longrightarrow> (\<And>x. stateless (f x)) \<Longrightarrow> stateless (case v of None \<Rightarrow> m | Some x \<Rightarrow> f x)"
  "(\<And>x y. stateless (g x y)) \<Longrightarrow> stateless (case p of (x, y) \<Rightarrow> g x y)"
  by (auto split: option.split prod.split)

lemma stateless_statements [stateless_intros]:
  "stateless (insert_comment c)" "stateless (insert_run r)" "stateless (update_runs P f)" "stateless (update_issues Q g)"
  by (simp_all add: stateless_def insert_comment_def insert_run_def update_runs_def update_issues_def Let_def)

lemma stateless_event [stateless_intros]: "stateless (appendRunEventTx tk k run iss etype sev msg ds)"
  by (simp add: stateless_def appendRunEventTx_def Let_def split: option.split)

lemma stateless_deliveries: "enqueue_deliveries tk k hs event payload t db \<noteq> Inl ErrState"
  by (induction tk k hs event payload t db rule: enqueue_deliveries.induct) (auto split: sum.split)

lemma stateless_webhooks [stateless_intros]: "stateless (EnqueueWebhookDeliveries tk k ws event payload)"
  unfolding EnqueueWebhookDeliveries_def
  by (intro stateless_intros) (simp_all add: stateless_def stateless_deliveries)

lemma stateless_retry_max [stateless_intros]: "stateless (retryMaxAttemptsForAgent a)"
  unfolding retryMaxAttemptsForAgent_def retryPolicyForAgent_def by (intro stateless_intros) simp

lemma stateless_chain [stateless_intros]: "stateless (enqueueAutoChainMention tk run cid content t)"
  unfolding enqueueAutoChainMention_def dispatchAutoChainRun_def system_comment_def Let_def by (intro stateless_intros)

lemma stateless_complete: "stateless (CompleteRun_tx tk run status fin)"
  unfolding CompleteRun_tx_def updateRunTerminalTx_def complete_followup_def insertAgentResultCommentTx_def emitRunFinishEventsTx_def
    maybeMarkIssueDoneTx_def set_issue_status_def enqueueRunLifecycleWebhookTx_def Let_def
  by (intro stateless_intros)

end
