(* ===== verification/Server.thy ===== *)
theory Server
  imports ServerRuns RunWorker
begin

section \<open>The server as a whole\<close>

text \<open>
  First, that a run whose end was reported without an error does not run any more (for \<open>RunWorker\<close>). Then the requests the
  HTTP handlers, the workers and the start of the server make, as one step function on the database
  (\<open>server_step\<close>), and that each of them is a sequence of moves of the queue of \<open>RunQueue\<close>, by the lemmas of \<open>ServerRuns\<close>, or
  deletes an idle issue.
\<close>

subsection \<open>A reported run has stopped\<close>

lemma insert_run_appends: "insert_run r db = Inr (u, db') \<Longrightarrow> db_runs db' = db_runs db @ [r]"
  by (auto simp: insert_run_def split: if_splits)

lemma followup_runs:
  assumes "complete_followup tk run status fin t db = Inr (x, db')"
  shows "\<exists>rs. db_runs db' = db_runs db @ rs \<and> (\<forall>r \<in> set rs. rr_status r = RQueued)"
proof -
  from assms obtain cid content db2 b db3 db4 db5 d where parts: "same_queue db db2"
    "(if status = RDone then enqueueAutoChainMention tk run cid content t else tx_return False) db2 = Inr (b, db3)"
    "same_queue db3 db4" "maybeMarkIssueDoneTx run status b t db4 = Inr (d, db5)" "same_queue db5 db'"
    by (rule followup_parts)
  have "\<exists>rs. db_runs db3 = db_runs db2 @ rs \<and> (\<forall>r \<in> set rs. rr_status r = RQueued)"
  proof (cases "status = RDone")
    case True
    then have "enqueueAutoChainMention tk run cid content t db2 = Inr (b, db3)" using parts(2) by simp
    then show ?thesis by (auto dest!: chain_result insert_run_appends simp: same_queue_def)
  next
    case False
    then show ?thesis using parts(2) by (simp add: tx_elims)
  qed
  moreover have "db_runs db5 = db_runs db4" using parts(4)
    by (auto simp: maybeMarkIssueDoneTx_def set_issue_status_def update_issues_def tx_elims split: if_splits)
  ultimately show ?thesis using parts(1,3,5) by (auto simp: same_queue_def)
qed

lemma complete_tx_stops:
  assumes "CompleteRun_tx tk run status fin db = Inr (b, db')" "status \<noteq> RRunning"
  shows "\<not> run_running (rr_id run) db'"
proof -
  from assms(1) obtain n db1 where up: "update_runs (\<lambda>r. rr_id r = rr_id run \<and> rr_status r = RRunning) (finished status fin (tk_now tk 0)) db = Inr (n, db1)"
    and rest: "if n = 0 then db' = db1 else complete_followup tk run status fin (tk_now tk 0) db1 = Inr (b, db')"
    by (auto simp: CompleteRun_tx_def updateRunTerminalTx_def tx_elims Let_def split: if_splits)
  have "\<not> run_running (rr_id run) db1"
    by (rule update_stops [OF up]) (use assms(2) in \<open>auto simp: finished_def find_run_def dest: find_SomeD\<close>)
  then show ?thesis using rest by (cases "n = 0") (auto dest!: followup_runs dest: not_running_appended)
qed

lemma recover_path_running [simp]: "run_running i (recoverRunStdoutPath j p db) = run_running i db"
proof -
  have "find_run i (recoverRunStdoutPath j p db) =
      map_option (\<lambda>r. if p \<noteq> [] \<and> rr_id r = j \<and> (rr_stdout_path r = None \<or> rr_stdout_path r = Some []) then r\<lparr>rr_stdout_path := Some p\<rparr> else r) (find_run i db)"
    by (cases "p = []") (simp_all add: recoverRunStdoutPath_def find_run_def find_map option.map_ident_strong)
  then show ?thesis by (auto simp: run_running_def split: option.splits)
qed

lemma normalized_status: "fst (normalizeFinishRunInput f) \<noteq> RRunning"
  by (auto simp: normalizeFinishRunInput_def Let_def)

lemma GetRun_simps [simp]: "snd (GetRun i db) = db" "fst (GetRun i db) = Inr r \<longleftrightarrow> find_run i db = Some r"
  by (simp_all add: GetRun_def split: option.split)

lemma GetRun_ok: "GetRun i db = (Inr r, db') \<longleftrightarrow> find_run i db = Some r \<and> db' = db"
  by (auto simp: GetRun_def split: option.splits)

lemma GetRun_error: "GetRun i db = (Inl e, db') \<longleftrightarrow> find_run i db = None \<and> db' = db \<and> e = ErrNotFound"
  by (auto simp: GetRun_def split: option.splits)

lemma commit_ok: "commit m db = (Inr x, db') \<longleftrightarrow> m db = Inr (x, db')"
  by (auto simp: commit_def split: sum.splits prod.splits)

lemma commit_error: "commit m db = (Inl e, db') \<longleftrightarrow> m db = Inl e \<and> db' = db"
  by (auto simp: commit_def split: sum.splits prod.splits)

lemma op_bind_ok: "op_bind m f db = (Inr y, db'') \<longleftrightarrow> (\<exists>x db'. m db = (Inr x, db') \<and> f x db' = (Inr y, db''))"
  by (auto simp: op_bind_def split: sum.splits prod.splits)

lemma op_bind_error:
  "op_bind m f db = (Inl e, db'') \<longleftrightarrow> m db = (Inl e, db'') \<or> (\<exists>x db'. m db = (Inr x, db') \<and> f x db' = (Inl e, db''))"
  by (auto simp: op_bind_def split: sum.splits prod.splits)

lemmas op_results = op_bind_ok op_bind_error commit_ok commit_error GetRun_ok GetRun_error

lemma find_run_id: "find_run i db = Some r \<Longrightarrow> rr_id r = i"
  by (auto simp: find_run_def dest: find_SomeD)

lemma complete_stops:
  assumes "ignoreTerminalState (CompleteRunWithReason tk i fin db) = (Inr u, db')"
  shows "\<not> run_running i db'"
proof -
  obtain status fin' where n: "normalizeFinishRunInput fin = (status, fin')" by fastforce
  then have s: "status \<noteq> RRunning" using normalized_status [of fin] by simp
  have ok: "commit (CompleteRun_tx tk r status fin') d \<noteq> (Inl ErrState, d')" for r d d'
    using stateless_complete by (auto simp: commit_error stateless_def)
  obtain res where "CompleteRunWithReason tk i fin db = (res, db')" "res = Inl ErrState \<or> (\<exists>x. res = Inr x)"
    using assms by (cases "CompleteRunWithReason tk i fin db") (auto simp: ignored_ok)
  then show ?thesis using s n ok
    by (auto simp: CompleteRunWithReason_def op_results notify_and_get_def not_running_same [OF notify_runs]
        dest!: find_run_id complete_tx_stops [OF _ s] split: if_split_asm)
qed

lemma update_cancels:
  assumes "CancelRun_tx tk run reason db = Inr (u, db')"
  shows "\<not> run_running (rr_id run) db'"
proof -
  from assms obtain n db1 where up: "update_runs (\<lambda>r. rr_id r = rr_id run \<and> active_status (rr_status r))
      (cancelled (tk_now tk 0) (-1) (ci_message reason) (ci_terminal reason) (ci_reason reason)) db = Inr (n, db1)"
    and rest: "same_queue db1 db'"
    by (auto simp: CancelRun_tx_def tx_elims Let_def dest!: quietD [OF quiet_system_comment] quietD [OF quiet_append_event])
      (blast intro: same_queue_trans)
  have "\<not> run_running (rr_id run) db1"
    by (rule update_stops [OF up]) (auto simp: cancelled_def dest: find_run_id)
  then show ?thesis using rest not_running_same [of db' db1] by (simp add: same_queue_def)
qed

lemma no_active_row: "aff = 0 \<Longrightarrow> update_runs (\<lambda>r. rr_id r = i \<and> active_status (rr_status r)) f db = Inr (aff, db1) \<Longrightarrow> find_run i db = Some r \<Longrightarrow>
    \<not> active_status (rr_status r)"
  by (auto simp: update_runs_def Let_def filter_empty_conv find_run_def dest!: find_SomeD split: if_splits)

lemma tx_bind_error: "tx_bind m f db = Inl e \<longleftrightarrow> m db = Inl e \<or> (\<exists>x db'. m db = Inr (x, db') \<and> f x db' = Inl e)"
  by (auto simp: tx_bind_def split: sum.splits prod.splits)

lemma cancel_guard_fails:
  assumes tx: "CancelRun_tx tk run reason db = Inl ErrState" and run: "find_run (rr_id run) db = Some run"
  shows "\<not> active_status (rr_status run)"
proof -
  let ?up = "update_runs (\<lambda>r. rr_id r = rr_id run \<and> active_status (rr_status r))
    (cancelled (tk_now tk 0) (-1) (ci_message reason) (ci_terminal reason) (ci_reason reason))"
  have quiet_part: "stateless (tx_then (system_comment i iss rn c t) (tx_then (appendRunEventTx tk k rid iss ty sev m ds) (tx_return ())))"
    for i iss rn c t k rid ty sev m ds unfolding system_comment_def by (intro stateless_intros)
  have "?up db \<noteq> Inl ErrState" using stateless_statements(3) by (simp add: stateless_def)
  then obtain aff db1 where "?up db = Inr (aff, db1)" "tx_guard (aff \<noteq> 0) ErrState db1 = Inl ErrState"
    using tx quiet_part unfolding CancelRun_tx_def Let_def tx_bind_error [of ?up] tx_bind_error [of "tx_guard b e" for b e] stateless_def by blast
  then show ?thesis using no_active_row [OF _ _ run] by (auto simp: tx_guard_def split: if_splits)
qed

lemma inactive_not_running: "find_run i db = Some r \<Longrightarrow> \<not> active_status (rr_status r) \<Longrightarrow> \<not> run_running i db"
  by (auto simp: run_running_def)

lemma cancel_stops:
  assumes "ignoreTerminalState (CancelRunWithReason tk i reason db) = (Inr u, db')"
  shows "\<not> run_running i db'"
proof -
  obtain res where res: "CancelRunWithReason tk i reason db = (res, db')" "res = Inl ErrState \<or> (\<exists>x. res = Inr x)"
    using assms by (cases "CancelRunWithReason tk i reason db") (auto simp: ignored_ok)
  then obtain r where r: "find_run i db = Some r"
    and rest: "(if \<not> active_status (rr_status r) then (\<lambda>db. (Inl ErrState, db))
      else op_bind (commit (CancelRun_tx tk r (normalizeCancelReason reason))) (\<lambda>_. notify_and_get (rr_issue r) (rr_id r))) db = (res, db')"
    by (auto simp: CancelRunWithReason_def Let_def op_results)
  show ?thesis
  proof (cases "active_status (rr_status r)")
    case False
    then have "db' = db" using rest by simp
    then show ?thesis using inactive_not_running [OF r False] by simp
  next
    case True
    then have run: "op_bind (commit (CancelRun_tx tk r (normalizeCancelReason reason))) (\<lambda>_. notify_and_get (rr_issue r) (rr_id r)) db = (res, db')"
      using rest by simp
    have "CancelRun_tx tk r (normalizeCancelReason reason) db \<noteq> Inl ErrState"
      using cancel_guard_fails r True find_run_id [OF r] by blast
    then obtain d where "CancelRun_tx tk r (normalizeCancelReason reason) db = Inr ((), d)" "db_runs db' = db_runs d"
      using run res(2) by (auto simp: op_results notify_and_get_def)
    then show ?thesis using update_cancels find_run_id [OF r] not_running_same by metis
  qed
qed

lemma policy_same: "retryPolicyForAgent a db = Inr (p, db') \<Longrightarrow> db' = db"
  by (auto simp: retryPolicyForAgent_def tx_elims split: option.splits)

lemma reschedule_stops:
  assumes "RescheduleRunForRetry tk i kind msg path db = (Inr r, db')"
  shows "\<not> run_running i db'"
proof -
  from assms obtain run db1 where tx: "RescheduleRunForRetry_tx tk i kind msg path db = Inr (run, db1)" and db': "db_runs db' = db_runs db1"
    by (auto simp: RescheduleRunForRetry_def op_results notify_and_get_def)
  from tx obtain p n db2 t nx where run: "find_run i db = Some run" "rr_attempt run < rr_max_attempts run"
    and up: "update_runs (\<lambda>r. rr_id r = i \<and> rr_status r = RRunning \<and> rr_attempt r < rr_max_attempts r) (rescheduled nx path msg) db = Inr (n, db2)"
    and rest: "same_queue db2 db1"
    by (auto simp: RescheduleRunForRetry_tx_def tx_elims Let_def
        dest!: policy_same quietD [OF quiet_system_comment] quietD [OF quiet_append_event] should_retry_below_limit)
      (blast intro: same_queue_trans)
  have "\<not> run_running i db2"
    by (rule update_stops [OF up]) (use run in \<open>auto simp: rescheduled_def dest: find_run_id\<close>)
  then show ?thesis using rest db' not_running_same [of db' db2] by (simp add: same_queue_def)
qed

subsection \<open>Requests\<close>

text \<open>What the HTTP handlers, the workers, the scheduler and the start of the server ask of the store. The
  tables other handlers keep (workspaces, agents, webhooks) may change in any way in between.\<close>

datatype srv_request =
    ReqCreateIssue jstr create_issue
  | ReqCreateSubIssue jstr create_issue
  | ReqAddComment jstr jstr
  | ReqDeleteComment jstr
  | ReqRerun jstr jstr
  | ReqUpdateIssue jstr update_issue
  | ReqDeleteIssue jstr
  | ReqCancelRun jstr jstr
  | ReqCancelRunning jstr
  | ReqCancelChain jstr cancel_input
  | ReqRetryChain jstr
  | ReqClaim jstr
  | ReqHeartbeat jstr
  | ReqMarkProcess jstr int int
  | ReqAppendEvent jstr jstr jstr jstr jstr "(string \<times> json) list"
  | ReqFinish jstr execution_result
  | ReqComplete jstr finish_input
  | ReqCompleteRun jstr int jstr jstr bool jstr
  | ReqFailRun jstr jstr
  | ReqWorkerCancel jstr jstr
  | ReqWorkerFail jstr jstr jstr jstr
  | ReqRecoverOrphans
  | ReqRecoverStale jstr "jstr list"
  | ReqSettings "tbl_workspace list" "tbl_agent list" "tbl_webhook list"

primrec server_step :: "(nat \<Rightarrow> tick) \<Rightarrow> srv_request \<Rightarrow> store_db \<Rightarrow> store_db" where
  "server_step tks (ReqCreateIssue ws inp) db = snd (CreateIssueWithInitialRun (tks 0) ws inp db)"
| "server_step tks (ReqCreateSubIssue p inp) db = snd (CreateSubIssue (tks 0) p inp db)"
| "server_step tks (ReqAddComment iss content) db = snd (AddUserComment (tks 0) iss content db)"
| "server_step tks (ReqDeleteComment c) db = snd (DeleteComment c db)"
| "server_step tks (ReqRerun iss agent) db = snd (RerunIssue (tks 0) iss agent db)"
| "server_step tks (ReqUpdateIssue iss inp) db = snd (UpdateIssue (tks 0) iss inp db)"
| "server_step tks (ReqDeleteIssue iss) db = snd (DeleteIssue iss db)"
| "server_step tks (ReqCancelRun r reason) db = snd (CancelRun (tks 0) r reason db)"
| "server_step tks (ReqCancelRunning iss) db = snd (CancelRunningRun (tks 0) iss db)"
| "server_step tks (ReqCancelChain c reason) db = snd (CancelRunsByChain (tks 0) c reason db)"
| "server_step tks (ReqRetryChain c) db = snd (RetryFailedRunInChain (tks 0) c db)"
| "server_step tks (ReqClaim w) db = snd (ClaimNextRun (tks 0) w db)"
| "server_step tks (ReqHeartbeat r) db = snd (worker_HeartbeatRun (tks 0) r db)"
| "server_step tks (ReqMarkProcess r pid pgid) db = snd (MarkRunProcess (tks 0) r pid pgid db)"
| "server_step tks (ReqAppendEvent r iss ty sev msg ds) db = snd (AppendRunEvent (tks 0) r iss ty sev msg ds db)"
| "server_step tks (ReqFinish r x) db = snd (FinishRun tks r x db)"
| "server_step tks (ReqComplete r fin) db = snd (CompleteRunWithReason (tks 0) r fin db)"
| "server_step tks (ReqCompleteRun r code path content truncated msg) db = snd (CompleteRun (tks 0) r code path content truncated msg db)"
| "server_step tks (ReqFailRun r msg) db = snd (FailRun (tks 0) r msg db)"
| "server_step tks (ReqWorkerCancel r reason) db = snd (worker_CancelRun (tks 0) r reason db)"
| "server_step tks (ReqWorkerFail r reason kind msg) db = snd (worker_FailRun (tks 0) r reason kind msg db)"
| "server_step tks ReqRecoverOrphans db = snd (RecoverOrphanRuns (tks 0) db)"
| "server_step tks (ReqRecoverStale cutoff exclude) db = snd (RecoverStaleRuns (tks 0) cutoff exclude db)"
| "server_step tks (ReqSettings ws as hs) db = db\<lparr>db_workspaces := ws, db_agents := as, db_webhooks := hs\<rparr>"

fun server_run :: "((nat \<Rightarrow> tick) \<times> srv_request) list \<Rightarrow> store_db \<Rightarrow> store_db" where
  "server_run [] db = db"
| "server_run ((tks, req) # rest) db = server_run rest (server_step tks req db)"

subsection \<open>Each request is a sequence of moves\<close>

text \<open>A transaction and what follows it.\<close>

lemma moves_commit: "moving (\<lambda>_. True) m \<Longrightarrow> keys_ok db \<Longrightarrow> moves db (snd (commit m db))"
  by (metis commit_moving prod.collapse)

lemma moves_bind:
  assumes m: "moves db (snd (m db))" and f: "\<And>x d. keys_ok d \<Longrightarrow> moves d (snd (f x d))"
  shows "moves db (snd (op_bind m f db))"
proof (cases "m db")
  case (Pair res d)
  then show ?thesis using m moves_trans [OF m f [OF moves_keys [OF m]]] by (cases res) (simp_all add: op_bind_def)
qed

lemma moves_commit_then:
  "moving (\<lambda>_. True) m \<Longrightarrow> keys_ok db \<Longrightarrow> (\<And>x d. keys_ok d \<Longrightarrow> moves d (snd (f x d))) \<Longrightarrow> moves db (snd (op_bind (commit m) f db))"
  by (intro moves_bind moves_commit)

lemma moving_quiet: "quiet m \<Longrightarrow> moving (\<lambda>_. True) m"
  by (auto simp: moving_def intro: quiet_moves)

lemma moves_GetRun_bind: "(\<And>r. find_run i db = Some r \<Longrightarrow> moves db (snd (f r db))) \<Longrightarrow> keys_ok db \<Longrightarrow> moves db (snd (op_bind (GetRun i) f db))"
  by (auto simp: op_bind_def GetRun_def moves_refl split: option.split)

lemma notified_moves [simp]: "keys_ok db \<Longrightarrow> moves db (notifyRunEvent iss i db)" "keys_ok db \<Longrightarrow> moves db (notify_all rows db)"
  "keys_ok db \<Longrightarrow> moves db (snd (notify_and_get iss i db))"
  by (auto simp: notify_and_get_def notifyRunEvent_def notify_all_def same_queue_def intro!: moves_same)

lemmas op_moves = moves_commit_then moves_GetRun_bind moves_refl

lemma create_moves: "keys_ok db \<Longrightarrow> moves db (snd (CreateIssueWithInitialRun tk ws inp db))"
  by (auto simp: CreateIssueWithInitialRun_def split: option.split intro!: op_moves create_issue_moving)

lemma create_sub_moves: "keys_ok db \<Longrightarrow> moves db (snd (CreateSubIssue tk p inp db))"
  by (auto simp: CreateSubIssue_def split: option.split intro: create_moves moves_refl)

lemma add_comment_moves: "keys_ok db \<Longrightarrow> moves db (snd (AddUserComment tk iss content db))"
  by (auto simp: AddUserComment_def Let_def op_bind_def [of "GetRun i" for i] GetRun_ok GetRun_error split: option.split sum.split prod.split
      intro!: op_moves add_comment_moving)

lemma rerun_moves: "keys_ok db \<Longrightarrow> moves db (snd (RerunIssue tk iss agent db))"
  by (auto simp: RerunIssue_def split: option.split intro!: op_moves rerun_moving)

lemma update_moves: "keys_ok db \<Longrightarrow> moves db (snd (UpdateIssue tk iss inp db))"
  by (auto simp: UpdateIssue_def split: option.split intro!: op_moves update_issue_tx_moving)

lemma cancel_moves: "keys_ok db \<Longrightarrow> moves db (snd (CancelRunWithReason tk i reason db))"
  by (auto simp: CancelRunWithReason_def Let_def intro!: op_moves cancel_moving)

lemma retry_chain_moves: "keys_ok db \<Longrightarrow> moves db (snd (RetryFailedRunInChain tk c db))"
  by (auto simp: RetryFailedRunInChain_def split: option.split intro!: op_moves retry_chain_moving)

lemma claim_moves: "keys_ok db \<Longrightarrow> moves db (snd (ClaimNextRun tk w db))"
  by (auto simp: ClaimNextRun_def split: option.split intro!: op_moves claim_moving)

lemma append_event_moves: "keys_ok db \<Longrightarrow> moves db (snd (AppendRunEvent tk run iss ty sev msg ds db))"
  unfolding AppendRunEvent_def by (intro op_moves moving_quiet quiet_append_event) auto

lemma reschedule_moves: "keys_ok db \<Longrightarrow> moves db (snd (RescheduleRunForRetry tk i kind msg path db))"
  by (auto simp: RescheduleRunForRetry_def intro!: op_moves reschedule_moving)

lemma fail_infra_moves: "keys_ok db \<Longrightarrow> moves db (snd (FailInfrastructureRun tk i reason kind msg db))"
  by (auto simp: FailInfrastructureRun_def Let_def intro!: op_moves fail_infra_moving)

lemma ignored_snd [simp]: "snd (ignoreTerminalState x) = snd x"
  by (auto simp: ignoreTerminalState_def split: prod.split sum.split)

lemma complete_moves:
  assumes "keys_ok db" shows "moves db (snd (CompleteRunWithReason tk i fin db))"
proof -
  obtain status fin' where n: "normalizeFinishRunInput fin = (status, fin')" by fastforce
  have "\<not> active_status status" using n by (auto simp: normalizeFinishRunInput_def Let_def split: if_splits)
  then have tx: "moves db (snd (commit (CompleteRun_tx tk run status fin') db))" if "find_run (rr_id run) db = Some run" for run
    using commit_moving [OF complete_moving _ assms] that by (metis prod.collapse)
  have A: "moves db (snd (op_bind (commit (CompleteRun_tx tk run status fin')) f db))"
    if "find_run i db = Some run" "\<And>x d. keys_ok d \<Longrightarrow> moves d (snd (f x d))" for run and f :: "bool \<Rightarrow> tbl_run op"
    by (rule moves_bind, rule tx) (use that find_run_id [OF that(1)] in simp_all)
  have B: "moves d (snd (if updated then notify_and_get iss i d else GetRun i (recoverRunStdoutPath i p d)))"
    if "keys_ok d" for updated iss p d using that by (simp add: recover_stdout_moves)
  show ?thesis unfolding CompleteRunWithReason_def n prod.case
    by (rule moves_GetRun_bind) (rule A, assumption, rule B, assumption, rule assms)
qed

lemma finish_moves: "keys_ok db \<Longrightarrow> moves db (snd (FinishRun tks i x db))"
proof -
  assume k: "keys_ok db"
  define db1 where "db1 = record_stripped (tks 0) i x db"
  have d1: "moves db db1" unfolding db1_def record_stripped_def using k by (simp add: moves_refl append_event_moves)
  then have k1: "keys_ok db1" by (rule moves_keys)
  have c: "moves db1 (snd (CompleteRunWithReason (tks 2) i fin d))" if "moves db1 d" for fin d
    using that complete_moves [OF moves_keys [OF that]] by (rule moves_trans)
  have r: "moves db1 (snd (RescheduleRunForRetry (tks 1) i kind msg path db1))" for kind msg path
    using k1 by (rule reschedule_moves)
  have "moves db1 (snd (case RescheduleRunForRetry (tks 1) i kind msg path db1 of (Inr r, db2) \<Rightarrow> (Inr (), db2)
      | (Inl e, db2) \<Rightarrow> if e = ErrState then ignoreTerminalState (CompleteRunWithReason (tks 2) i fin db2) else (Inl e, db2)))" for kind msg path fin
    using r [of kind msg path] c by (auto split: prod.split sum.split)
  then show ?thesis using k d1 c [OF moves_refl [OF k1]]
    by (auto simp: FinishRun_def Let_def db1_def [symmetric] cancel_moves intro: moves_trans)
qed

lemma heartbeat_moves: "keys_ok db \<Longrightarrow> moves db (snd (HeartbeatRun tk i db))"
  unfolding HeartbeatRun_def
  by (rule moves_commit) (auto simp: moving_def tx_elims qrun_of_def intro: unseen_update_moves)

lemma mark_process_moves:
  assumes "keys_ok db" shows "moves db (snd (MarkRunProcess tk i pid pgid db))"
proof -
  let ?f = "\<lambda>r :: tbl_run. r\<lparr>rr_pid := Some pid, rr_pgid := Some pgid, rr_recorded_at := Some (tk_now tk 0)\<rparr>"
  have "moves d d'" if "update_runs (\<lambda>r. rr_id r = i \<and> rr_status r = RRunning) ?f d = Inr (n, d1)" "same_queue d1 d'" "keys_ok d" for d d1 d' n
  proof -
    have "moves d d1" by (rule unseen_update_moves [OF that(1)]) (use that(3) in \<open>simp_all add: qrun_of_def\<close>)
    then show ?thesis using that(2) moves_keys by (blast intro: moves_trans moves_same)
  qed
  then show ?thesis using assms
    by (auto simp: MarkRunProcess_def moving_def tx_elims dest!: quietD [OF quiet_append_event] intro!: op_moves)
qed

lemma delete_comment_moves: "keys_ok db \<Longrightarrow> moves db (snd (DeleteComment c db))"
  by (auto simp: DeleteComment_def moves_refl qrun_of_def split: option.split
      intro!: unseen_change_moves [where f = "\<lambda>r. if rr_trigger_comment r = Some c then r\<lparr>rr_trigger_comment := None\<rparr> else r"])

lemma loop_moving:
  assumes "(\<forall>st. guard st \<longrightarrow> active_status st)"
  shows "moving (\<lambda>_. True) (tx_each (cancel_row tk guard (cancelled t c m a b) cmt t ety sev msg ds) k rows)"
  unfolding moving_def using cancel_loop_moving [OF disjI1 [OF assms]] by blast

lemma cancel_chain_moves: "keys_ok db \<Longrightarrow> moves db (snd (CancelRunsByChain tk c reason db))"
  by (auto simp: CancelRunsByChain_def Let_def intro!: op_moves loop_moving)

lemma stale_moves: "keys_ok db \<Longrightarrow> moves db (snd (RecoverStaleRuns tk cutoff ex db))"
  by (auto simp: RecoverStaleRuns_def Let_def intro!: op_moves loop_moving)

lemma orphan_moves: "keys_ok db \<Longrightarrow> moves db (snd (RecoverOrphanRuns tk db))"
proof -
  assume k: "keys_ok db"
  let ?rows = "filter (\<lambda>r. rr_status r = RRunning \<and> rr_finished_at r = None) (db_runs db)"
  let ?loop = "tx_each (cancel_row tk (\<lambda>_. True) (cancelled (tk_now tk 0) (-2) (js ''orphan recovered'') (js ''orphan_recovered'') (js ''orphan''))
     ko_srv_cancel_orphan (tk_now tk 0) (js ''orphan_recovered'') (js ''warn'') (js ''Orphan running run recovered'')
     [(''terminal_reason'', JStr (js ''orphan_recovered'')), (''cancel_reason'', JStr (js ''orphan''))]) 0 ?rows"
  have "still_active ?rows db" by (rule still_active_filter [OF k]) auto
  then have "moves db db'" if "?loop db = Inr (n, db')" for n db' using cancel_loop_moving [OF disjI2] that k by blast
  then have "moves db (snd (commit ?loop db))" using k by (auto simp: commit_def moves_refl split: sum.split)
  then have "moves db (snd (op_bind (commit ?loop) (\<lambda>_ db'. (Inr (length ?rows), notify_all ?rows db')) db))"
    by (rule moves_bind) simp
  then show ?thesis using k by (simp add: RecoverOrphanRuns_def Let_def moves_refl)
qed

subsection \<open>Deleting an issue\<close>

lemma map_of_map_filter:
  assumes "\<And>x. P (k x) (f x) = Q x"
  shows "map_of (map (\<lambda>x. (k x, f x)) (filter Q xs)) j = map_of (filter (\<lambda>(a, b). P a b) (map (\<lambda>x. (k x, f x)) xs)) j"
  using assms by (induction xs) auto

lemma runs_map_filter:
  assumes "distinct (map rr_id rs)"
  shows "runs_map (filter P rs) j = (case find (\<lambda>r. rr_id r = j) rs of None \<Rightarrow> None | Some r \<Rightarrow> if P r then Some (qrun_of r) else None)"
  using assms
proof (induction rs)
  case (Cons r rs)
  have "map_of (map (\<lambda>x. (rr_id x, qrun_of x)) (filter P rs)) (rr_id r) = None" using Cons.prems by (auto simp: map_of_eq_None_iff)
  then show ?case using Cons by (auto simp: runs_map_def)
qed (simp add: runs_map_def)

lemma runs_map_cong: "(\<And>r. rr_id (f r) = rr_id r \<and> qrun_of (f r) = qrun_of r) \<Longrightarrow> runs_map (map f rs) = runs_map rs"
  by (induction rs) (auto simp: runs_map_def)

lemma queued_keys_cong: "(\<And>r. rr_issue (f r) = rr_issue r \<and> rr_agent (f r) = rr_agent r \<and> rr_status (f r) = rr_status r) \<Longrightarrow>
    queued_keys (map f rs) = queued_keys rs"
  by (induction rs) (auto simp: queued_keys_def)

lemma queued_keys_filter: "distinct (queued_keys rs) \<Longrightarrow> distinct (queued_keys (filter P rs))"
proof -
  have "filter (\<lambda>r. rr_status r = RQueued) (filter P rs) = filter P (filter (\<lambda>r. rr_status r = RQueued) rs)" by (simp add: conj_commute)
  then show "distinct (queued_keys rs) \<Longrightarrow> distinct (queued_keys (filter P rs))"
    unfolding queued_keys_def by (simp only: distinct_map_filter)
qed

lemma issues_map_filter: "issues_map (filter (\<lambda>j. ir_id j \<noteq> i) is) = (issues_map is)(i := None)"
  by (induction "is") (auto simp: issues_map_def fun_eq_iff)

lemma issues_map_cong: "(\<And>j. ir_id (f j) = ir_id j \<and> ir_status (f j) = ir_status j) \<Longrightarrow> issues_map (map f is) = issues_map is"
  by (induction "is") (auto simp: issues_map_def)

lemma delete_rows:
  assumes "keys_ok db"
  shows "queue_of (delete_issue_rows i db) = q_delete i (queue_of db)" "keys_ok (delete_issue_rows i db)"
proof -
  define keep where "keep = (\<lambda>(S :: jstr set) v. case v of None \<Rightarrow> None | Some x \<Rightarrow> if x \<in> S then None else Some x)"
  define f :: "tbl_run \<Rightarrow> tbl_run" where "f = (\<lambda>r. r\<lparr>rr_parent := keep (rr_id ` set (runs_of i db)) (rr_parent r),
    rr_trigger_comment := keep (cr_id ` set (filter (\<lambda>c. cr_issue c = i) (db_comments db))) (rr_trigger_comment r)\<rparr>)"
  define g :: "tbl_issue \<Rightarrow> tbl_issue" where "g = (\<lambda>j. j\<lparr>ir_parent := keep {i} (ir_parent j)\<rparr>)"
  have d: "db_runs (delete_issue_rows i db) = map f (filter (\<lambda>r. rr_issue r \<noteq> i) (db_runs db))"
    "db_issues (delete_issue_rows i db) = map g (filter (\<lambda>j. ir_id j \<noteq> i) (db_issues db))"
    unfolding delete_issue_rows_def Let_def f_def g_def keep_def by simp_all
  have f: "rr_id (f r) = rr_id r" "qrun_of (f r) = qrun_of r" "rr_issue (f r) = rr_issue r" "rr_agent (f r) = rr_agent r"
    "rr_status (f r) = rr_status r" for r by (simp_all add: f_def qrun_of_def)
  have g: "ir_id (g j) = ir_id j" "ir_status (g j) = ir_status j" for j by (simp_all add: g_def)
  have "runs_map (db_runs (delete_issue_rows i db)) j = q_runs (q_delete i (queue_of db)) j" for j
    unfolding d(1) using runs_map_cong [of f] f runs_map_filter [OF keys_okD(1) [OF assms]]
    by (simp add: q_delete_def runs_map_def find_map_of split: option.split)
  moreover have "issues_map (db_issues (delete_issue_rows i db)) = (issues_map (db_issues db))(i := None)"
    unfolding d(2) using issues_map_cong [of g] g by (simp add: issues_map_filter)
  ultimately show "queue_of (delete_issue_rows i db) = q_delete i (queue_of db)"
    by (intro queue.equality) (auto simp: q_delete_def)
  have "map rr_id (map f rs) = map rr_id rs" for rs using f by (induction rs) auto
  moreover have "map ir_id (map g rs) = map ir_id rs" for rs using g by (induction rs) auto
  ultimately show "keys_ok (delete_issue_rows i db)"
    using assms queued_keys_cong [of f] f unfolding keys_ok_def d by (simp add: distinct_map_filter queued_keys_filter del: map_map)
qed

subsection \<open>The refinement\<close>

definition refines_queue :: "store_db \<Rightarrow> store_db \<Rightarrow> bool" where
  "refines_queue db db' \<longleftrightarrow> keys_ok db' \<and> qstep\<^sup>*\<^sup>* (queue_of db) (queue_of db')"

lemma moves_refine: "moves db db' \<Longrightarrow> refines_queue db db'"
  by (simp add: moves_def refines_queue_def moves_qsteps)

lemma delete_refines: "keys_ok db \<Longrightarrow> refines_queue db (snd (DeleteIssue i db))"
proof -
  assume k: "keys_ok db"
  have "qstep (queue_of db) (q_delete i (queue_of db))" if "\<not> (\<exists>r \<in> set (runs_of i db). active_status (rr_status r))"
    by (rule q_gone) (use that in \<open>auto simp: idle_iff [OF k] runs_of_def\<close>)
  then show ?thesis using k delete_rows [OF k] by (auto simp: DeleteIssue_def refines_queue_def)
qed

lemma settings_moves: "keys_ok db \<Longrightarrow> moves db (db\<lparr>db_workspaces := ws, db_agents := as, db_webhooks := hs\<rparr>)"
  by (simp add: moves_def queue_of_def keys_ok_def)

lemmas request_moves = create_moves create_sub_moves add_comment_moves delete_comment_moves rerun_moves update_moves cancel_moves
  cancel_chain_moves retry_chain_moves claim_moves heartbeat_moves mark_process_moves append_event_moves finish_moves complete_moves
  fail_infra_moves orphan_moves stale_moves settings_moves

lemma step_refines: "keys_ok db \<Longrightarrow> refines_queue db (server_step tks req db)"
  by (cases req) (auto simp: CancelRun_def CancelRunningRun_def worker_CancelRun_def worker_HeartbeatRun_def worker_FailRun_def FailRun_def CompleteRun_def
      delete_refines intro!: moves_refine request_moves moves_refl split: option.split)

lemma run_refines: "keys_ok db \<Longrightarrow> refines_queue db (server_run reqs db)"
proof (induction reqs arbitrary: db)
  case (Cons r reqs)
  obtain tks req where r: "r = (tks, req)" by fastforce
  have s: "refines_queue db (server_step tks req db)" using Cons.prems by (rule step_refines)
  then have "refines_queue (server_step tks req db) (server_run reqs (server_step tks req db))"
    by (intro Cons.IH) (simp add: refines_queue_def)
  with s show ?case by (auto simp: r refines_queue_def)
qed (simp add: refines_queue_def)

end
