(* ===== verification/ServerGuarantees.thy ===== *)
theory ServerGuarantees
  imports Server
begin

section \<open>What the server guarantees\<close>

text \<open>
  The properties of the server's run queue, over every sequence of requests that starts with a
  database without issues and runs, with any workspaces, agents and webhooks.
\<close>

definition fresh_db :: "tbl_workspace list \<Rightarrow> tbl_agent list \<Rightarrow> tbl_webhook list \<Rightarrow> store_db" where
  "fresh_db ws as hs = empty_db\<lparr>db_workspaces := ws, db_agents := as, db_webhooks := hs\<rparr>"

lemma fresh_keys [simp]: "keys_ok (fresh_db ws as hs)"
  by (simp add: keys_ok_def fresh_db_def empty_db_def queued_keys_def)

lemma fresh_queue: "queue_of (fresh_db ws as hs) = \<lparr>q_runs = (\<lambda>_. None), q_issues = (\<lambda>_. None)\<rparr>"
  by (simp add: queue_of_def fresh_db_def empty_db_def runs_map_def issues_map_def fun_eq_iff)

lemma reachable_keys: "keys_ok (server_run reqs (fresh_db ws as hs))"
  using run_refines [OF fresh_keys] by (simp add: refines_queue_def)

lemma reachable_queue_ok: "queue_ok (queue_of (server_run reqs (fresh_db ws as hs)))"
proof (rule qsteps_queue_ok)
  show "qstep\<^sup>*\<^sup>* (queue_of (fresh_db ws as hs)) (queue_of (server_run reqs (fresh_db ws as hs)))"
    using run_refines [OF fresh_keys] by (simp add: refines_queue_def)
  show "queue_ok (queue_of (fresh_db ws as hs))"
    by (simp add: fresh_queue queue_ok_def one_running_def one_queued_def cancelled_idle_def issues_known_def attempts_bounded_def q_idle_def)
qed

subsection \<open>The invariant of the tables\<close>

text \<open>One running run on an issue, one queued run of an agent on an issue, no active run on a cancelled issue, attempts
  within their limit.\<close>

definition run_tables_ok :: "store_db \<Rightarrow> bool" where
  "run_tables_ok db \<longleftrightarrow>
     distinct (map rr_issue (filter (\<lambda>r. rr_status r = RRunning) (db_runs db))) \<and>
     distinct (queued_keys (db_runs db)) \<and>
     list_all (\<lambda>i. ir_status i = ICancelled \<longrightarrow> \<not> list_ex (\<lambda>r. rr_issue r = ir_id i \<and> active_status (rr_status r)) (db_runs db)) (db_issues db) \<and>
     list_all (\<lambda>r. find_issue (rr_issue r) db \<noteq> None \<and> 1 \<le> rr_attempt r \<and> rr_attempt r \<le> rr_max_attempts r \<and> rr_max_attempts r \<le> 5) (db_runs db)"

lemma find_issue_row: "keys_ok db \<Longrightarrow> i \<in> set (db_issues db) \<Longrightarrow> find_issue (ir_id i) db = Some i"
  by (simp add: keys_ok_def find_issue_def find_distinct)

lemma queue_ok_tables:
  assumes k: "keys_ok db" and q: "queue_ok (queue_of db)"
  shows "run_tables_ok db"
  unfolding run_tables_ok_def
proof (intro conjI)
  have row: "q_runs (queue_of db) (rr_id r) = Some (qrun_of r)" if "r \<in> set (db_runs db)" for r using k that by (simp add: runs_map_row)
  have "rr_id r = rr_id s" if "r \<in> set (db_runs db)" "s \<in> set (db_runs db)" "rr_status r = RRunning" "rr_status s = RRunning" "rr_issue r = rr_issue s" for r s
    using q row [OF that(1)] row [OF that(2)] that(3-5) unfolding queue_ok_def one_running_def by fastforce
  then have "inj_on rr_issue (set (filter (\<lambda>r. rr_status r = RRunning) (db_runs db)))"
    using keys_okD(1) [OF k] by (auto simp: inj_on_def distinct_map)
  then show "distinct (map rr_issue (filter (\<lambda>r. rr_status r = RRunning) (db_runs db)))"
    using keys_okD(1) [OF k] by (simp add: distinct_map)
  show "distinct (queued_keys (db_runs db))" using k by (rule keys_okD)
  show "list_all (\<lambda>i. ir_status i = ICancelled \<longrightarrow> \<not> list_ex (\<lambda>r. rr_issue r = ir_id i \<and> active_status (rr_status r)) (db_runs db)) (db_issues db)"
    unfolding list_all_iff list_ex_iff
  proof (intro ballI impI)
    fix i assume i: "i \<in> set (db_issues db)" "ir_status i = ICancelled"
    then have "q_issues (queue_of db) (ir_id i) = Some ICancelled" by (simp add: issues_map_find find_issue_row [OF k])
    then have "q_idle (queue_of db) (ir_id i)" using q by (simp add: queue_ok_def cancelled_idle_def)
    then show "\<not> (\<exists>r \<in> set (db_runs db). rr_issue r = ir_id i \<and> active_status (rr_status r))" by (auto simp: idle_iff [OF k])
  qed
  show "list_all (\<lambda>r. find_issue (rr_issue r) db \<noteq> None \<and> 1 \<le> rr_attempt r \<and> rr_attempt r \<le> rr_max_attempts r \<and> rr_max_attempts r \<le> 5) (db_runs db)"
    unfolding list_all_iff
  proof
    fix r assume r: "r \<in> set (db_runs db)"
    have "q_issues (queue_of db) (rr_issue r) \<noteq> None" "1 \<le> rr_attempt r \<and> rr_attempt r \<le> rr_max_attempts r \<and> rr_max_attempts r \<le> 5"
      using q row [OF r] unfolding queue_ok_def issues_known_def attempts_bounded_def by fastforce+
    then show "find_issue (rr_issue r) db \<noteq> None \<and> 1 \<le> rr_attempt r \<and> rr_attempt r \<le> rr_max_attempts r \<and> rr_max_attempts r \<le> 5"
      by (auto simp: issues_map_find)
  qed
qed

subsection \<open>Claiming\<close>

lemma str_less_split: "str_less a c \<Longrightarrow> str_less a b \<or> str_less b c"
  using str_less_total [of a b] str_less_trans [of b a c] by auto

lemma enqueued_before_split: "enqueued_before a c \<Longrightarrow> enqueued_before a b \<or> enqueued_before b c"
  using str_less_split [of "rr_enqueued_at a" "rr_enqueued_at c" "rr_enqueued_at b"] str_less_split [of "rr_id a" "rr_id c" "rr_id b"]
    str_less_total [of "rr_enqueued_at a" "rr_enqueued_at b"]
  unfolding enqueued_before_def by metis

lemma enqueued_before_order:
  "enqueued_before a b \<Longrightarrow> \<not> enqueued_before b a"
  "\<not> enqueued_before a b \<Longrightarrow> \<not> enqueued_before b c \<Longrightarrow> \<not> enqueued_before a c"
  by (auto simp: enqueued_before_def dest: str_less_asym) [1] (use enqueued_before_split in blast)

lemma first_row_least:
  assumes asym: "\<And>a b. before a b \<Longrightarrow> \<not> before b a" and neg: "\<And>a b c. \<not> before a b \<Longrightarrow> \<not> before b c \<Longrightarrow> \<not> before a c"
  shows "first_row before xs = Some x \<Longrightarrow> y \<in> set xs \<Longrightarrow> \<not> before y x"
proof (induction xs arbitrary: x y)
  case (Cons z zs)
  show ?case
  proof (cases "first_row before zs")
    case None
    then have "zs = []" by (cases zs) (auto split: option.splits if_splits)
    then show ?thesis using Cons.prems asym by auto
  next
    case (Some w)
    have w: "\<not> before u w" if "u \<in> set zs" for u using Cons.IH [OF Some that] .
    have x: "x = (if before w z then w else z)" using Cons.prems(1) Some by (simp split: if_splits)
    show ?thesis
    proof (cases "before w z")
      case True
      then show ?thesis using x w Cons.prems(2) asym [OF True] by auto
    next
      case False
      then have "\<not> before u z" if "u \<in> set zs" for u by (rule neg [OF w [OF that]])
      moreover have "\<not> before z z" using asym by blast
      ultimately show ?thesis using x False Cons.prems(2) by auto
    qed
  qed
qed simp

lemma first_row_none: "first_row before xs = None \<longleftrightarrow> xs = []"
  by (cases xs) (auto split: option.splits if_splits)

definition oldest_claimable :: "jstr \<Rightarrow> store_db \<Rightarrow> tbl_run \<Rightarrow> bool" where
  "oldest_claimable t db q \<longleftrightarrow> q \<in> set (db_runs db) \<and> claimable t db q \<and>
     list_all (\<lambda>s. claimable t db s \<longrightarrow> \<not> enqueued_before s q) (db_runs db)"

lemma claim_tx_result:
  assumes "ClaimNextRun_tx tk w db = Inr (found, db')" "keys_ok db"
  shows "case found of None \<Rightarrow> db' = db \<and> \<not> list_ex (claimable (tk_now tk 0) db) (db_runs db)
     | Some r \<Rightarrow> (\<exists>q. oldest_claimable (tk_now tk 0) db q \<and> r = claimed (tk_now tk 1) w q \<and> find_run (rr_id r) db' = Some r)"
proof (cases "first_row enqueued_before (filter (claimable (tk_now tk 0) db) (db_runs db))")
  case None
  then have none: "\<not> list_ex (claimable (tk_now tk 0) db) (db_runs db)" by (auto simp: first_row_none filter_empty_conv list_ex_iff)
  have "found = None" "db' = db" using assms(1) None by (simp_all add: ClaimNextRun_tx_def tx_elims)
  then show ?thesis using none by simp
next
  case (Some q)
  have q: "q \<in> set (db_runs db)" "claimable (tk_now tk 0) db q" using first_row_mem [OF Some] by auto
  have "oldest_claimable (tk_now tk 0) db q" unfolding oldest_claimable_def list_all_iff
    using q first_row_least [of enqueued_before, OF enqueued_before_order Some] by auto
  let ?P = "\<lambda>r. rr_id r = rr_id q \<and> rr_status r = RQueued"
  have st: "rr_status q = RQueued" using q(2) by (auto simp: claimable_def split: option.splits)
  from assms(1) Some obtain n db1 where up: "update_runs ?P (claimed (tk_now tk 1) w) db = Inr (n, db1)"
    and zero: "n = 0 \<longrightarrow> found = None" and some: "n \<noteq> 0 \<longrightarrow> (\<exists>r. found = Some r \<and> find_run (rr_id q) db1 = Some r \<and> same_queue db1 db')"
    by (auto simp: ClaimNextRun_tx_def tx_elims Let_def split: if_splits dest!: quietD [OF quiet_system_comment] quietD [OF quiet_append_event])
      (meson same_queue_trans)+
  have "n \<noteq> 0" using up q(1) st by (auto simp: update_runs_def Let_def filter_empty_conv split: if_splits)
  then obtain r where r: "found = Some r" "find_run (rr_id q) db1 = Some r" "same_queue db1 db'" using some by blast
  have "find_run (rr_id q) db1 = Some (claimed (tk_now tk 1) w q)"
    using find_run_update [OF up, of "rr_id q"] find_run_row [OF assms(2) q(1)] st by simp
  then have "r = claimed (tk_now tk 1) w q" using r(2) by simp
  then show ?thesis using r \<open>oldest_claimable (tk_now tk 0) db q\<close> by (auto simp: same_queue_def find_run_def)
qed

subsection \<open>Ended runs\<close>

text \<open>What is left of an ended run: the same end, or nothing when its issue is gone.\<close>

definition end_kept :: "tbl_run \<Rightarrow> store_db \<Rightarrow> bool" where
  "end_kept r db = (case find_run (rr_id r) db of
      None \<Rightarrow> True
    | Some s \<Rightarrow> rr_status s = rr_status r \<and> rr_issue s = rr_issue r \<and> rr_agent s = rr_agent r \<and> rr_attempt s = rr_attempt r)"

lemma qsteps_from_step:
  assumes "keys_ok db"
  shows "(\<exists>i. req = ReqDeleteIssue i) \<or> qmove\<^sup>*\<^sup>* (queue_of db) (queue_of (server_step tks req db))"
proof (cases "\<exists>i. req = ReqDeleteIssue i")
  case False
  then have "moves db (server_step tks req db)" using assms
    by (cases req) (auto simp: CancelRun_def CancelRunningRun_def worker_CancelRun_def worker_HeartbeatRun_def worker_FailRun_def FailRun_def CompleteRun_def
      intro!: request_moves moves_refl split: option.split)
  then show ?thesis by (simp add: moves_def)
qed simp

lemma deleted_end_kept: "keys_ok db \<Longrightarrow> r \<in> set (db_runs db) \<Longrightarrow> end_kept r (snd (DeleteIssue i db))"
proof -
  assume k: "keys_ok db" and r: "r \<in> set (db_runs db)"
  have "q_runs (queue_of (delete_issue_rows i db)) (rr_id r) = (if rr_issue r = i then None else Some (qrun_of r))"
    using r by (simp add: delete_rows(1) [OF k] q_delete_def runs_map_row [OF k] del: queue_of_simps) (simp add: runs_map_row [OF k])
  then have "end_kept r (delete_issue_rows i db)"
    by (auto simp: runs_map_find end_kept_def qrun_of_def split: if_splits option.split)
  moreover have "end_kept r db" using find_run_row [OF k r] by (simp add: end_kept_def)
  ultimately show ?thesis by (simp add: DeleteIssue_def)
qed

lemma step_keeps_end:
  assumes k: "keys_ok db" and r: "r \<in> set (db_runs db)" "\<not> active_status (rr_status r)"
  shows "end_kept r (server_step tks req db)"
  using qsteps_from_step [OF k, of req tks]
proof
  assume "\<exists>i. req = ReqDeleteIssue i"
  then show ?thesis using deleted_end_kept [OF k r(1)] by auto
next
  assume m: "qmove\<^sup>*\<^sup>* (queue_of db) (queue_of (server_step tks req db))"
  have "q_runs (queue_of db) (rr_id r) = Some (qrun_of r)" using k r(1) by (simp add: runs_map_row)
  then have "q_runs (queue_of (server_step tks req db)) (rr_id r) = Some (qrun_of r)" using moves_ended [OF m] r(2) by simp
  then show ?thesis by (auto simp: runs_map_find end_kept_def qrun_of_def)
qed

subsection \<open>The guarantees\<close>

text \<open>C1: the server's handlers together implement the run queue \<open>qmove\<close>: whatever the requests, their order, the clock, the ids and
  the other tables, the runs and issues go from state to state by the moves of the queue, and by the deletion
  of issues without an active run.\<close>

theorem server_refines_run_queue:
  "qstep\<^sup>*\<^sup>* (queue_of (fresh_db ws as hs)) (queue_of (server_run reqs (fresh_db ws as hs)))"
  using run_refines [OF fresh_keys] by (simp add: refines_queue_def)

text \<open>C2: in every state the server reaches, no two runs run on one issue, an agent has one queued run on an
  issue at most, a cancelled issue has no queued or running run, and no run has had more attempts than its limit, which is
  five at most.\<close>

theorem run_tables_stay_ok: "run_tables_ok (server_run reqs (fresh_db ws as hs))"
  by (rule queue_ok_tables [OF reachable_keys reachable_queue_ok])



text \<open>C10: once a worker has reported the end of a run and got no error, the run does not run any more: it has
  ended, or it waits for another attempt.\<close>

theorem reported_run_has_stopped:
  "case FinishRun tks i x db of (Inl e, db') \<Rightarrow> True | (Inr u, db') \<Rightarrow> \<not> run_running i db'"
proof (cases "FinishRun tks i x db")
  case (Pair res db')
  show ?thesis
  proof (cases res)
    case (Inr u)
    then show ?thesis using Pair
      by (auto simp: FinishRun_def Let_def split: if_splits prod.splits sum.splits dest: cancel_stops complete_stops reschedule_stops)
  qed (simp add: Pair)
qed

subsection \<open>Automatic chaining\<close>

text \<open>What a chained run has passed: the switch of the workspace, the depth, the two limits of the day, and the
  duplicates.\<close>

definition chain_allowed :: "tick \<Rightarrow> tbl_run \<Rightarrow> tbl_workspace \<Rightarrow> tbl_agent \<Rightarrow> store_db \<Rightarrow> bool" where
  "chain_allowed tk run w agent db \<longleftrightarrow>
     wr_auto_chain w \<and> \<not> wr_dry_run w \<and> ar_workspace agent = wr_id w \<and>
     (wr_run_limit w \<le> 0 \<or> int (chained_today tk (wr_id w) db) < wr_run_limit w) \<and>
     (wr_cost_micros w \<le> 0 \<or> cost_today tk (wr_id w) db < wr_cost_micros w) \<and>
     (rr_issue run, ar_id agent) \<notin> set (queued_keys (db_runs db)) \<and>
     (ar_is_main agent \<or>
        (rr_depth run < normalizeAutoChainMaxDepth (wr_max_depth w) \<and>
         \<not> list_ex (\<lambda>r. rr_issue r = rr_issue run \<and> rr_agent r = ar_id agent \<and> rr_chain r = nonempty_or (rr_chain run) (rr_id run)) (db_runs db)))"

lemma daily_guards:
  "autoChainWithinDailyGuards tk w db = None \<longleftrightarrow>
     (wr_run_limit w \<le> 0 \<or> int (chained_today tk (wr_id w) db) < wr_run_limit w) \<and>
     (wr_cost_micros w \<le> 0 \<or> cost_today tk (wr_id w) db < wr_cost_micros w)"
  by (auto simp: autoChainWithinDailyGuards_def)

lemma duplicates_guard:
  "checkAutoChainDispatchDuplicates run agent chain db = None \<Longrightarrow>
     (rr_issue run, ar_id agent) \<notin> set (queued_keys (db_runs db)) \<and>
     (ar_is_main agent \<or> \<not> list_ex (\<lambda>r. rr_issue r = rr_issue run \<and> rr_agent r = ar_id agent \<and> rr_chain r = chain) (db_runs db))"
  by (auto simp: checkAutoChainDispatchDuplicates_def queued_keys_def list_ex_iff split: if_splits)

lemma dispatch_result:
  assumes "dispatchAutoChainRun tk run agent cid content t db = Inr (True, db')"
  obtains m where "1 \<le> m" "m \<le> 5" "db_runs db' = db_runs db @ [chained_run tk run agent cid content t m]"
    "checkAutoChainDispatchDuplicates run agent (nonempty_or (rr_chain run) (rr_id run)) db = None"
proof -
  from assms obtain m db1 db2 where "1 \<le> m" "m \<le> 5" and ins: "insert_run (chained_run tk run agent cid content t m) db = Inr ((), db1)"
    and "same_queue db1 db2" "same_queue db2 db'"
    and "checkAutoChainDispatchDuplicates run agent (nonempty_or (rr_chain run) (rr_id run)) db = None"
    by (auto simp: dispatchAutoChainRun_def Let_def tx_elims split: option.splits dest!: retry_max_bounds
        quietD [OF quiet_system_comment] quietD [OF quiet_append_event])
  then show ?thesis using insert_run_appends [OF ins] by (intro that) (simp_all add: same_queue_def)
qed

lemma resolved_agent: "resolveAutoChainAgent ws name db = Some a \<Longrightarrow> ar_workspace a = ws"
  by (auto simp: resolveAutoChainAgent_def dest: find_SomeD)


end
