(* ===== verification/ServerScenarios.thy ===== *)
theory ServerScenarios
  imports ServerGuarantees
begin

section \<open>Two surprises of the run queue\<close>

text \<open>
  Behaviour of the server that its comments do not promise: an attempt that cannot be scheduled because
  another run of the agent waits on the issue, and a main agent that starts itself without end. The
  witnesses are small tables with the two situations.
\<close>

subsection \<open>A small installation\<close>

definition demo_tick :: tick where
  "demo_tick = \<lparr>tk_now = \<lambda>k. [60], tk_id = \<lambda>k. [200 + of_nat k], tk_day_ago = [50], tk_after = \<lambda>s. [70], tk_letter = \<lambda>_. False\<rparr>"

definition demo_workspace :: tbl_workspace where
  "demo_workspace = \<lparr>wr_id = [1], wr_slug = [108], wr_name = [76], wr_prefix = [76], wr_next_seq = 2,
     wr_auto_chain = True, wr_max_depth = 1, wr_run_limit = 1, wr_cost_micros = 0, wr_dry_run = False, wr_auto_close = False,
     wr_worktree = False, wr_updated_at = []\<rparr>"

definition demo_agent :: tbl_agent where
  "demo_agent = \<lparr>ar_id = [2], ar_workspace = [1], ar_name = [112, 109], ar_is_main = True, ar_version = 1, ar_retry_policy = []\<rparr>"

definition demo_issue :: tbl_issue where
  "demo_issue = \<lparr>ir_id = [3], ir_workspace = [1], ir_identifier = [76], ir_title = [76], ir_body = [], ir_status = IOpen, ir_assignee = None,
     ir_parent = None, ir_created_by = js ''user'', ir_rule = None, ir_created_at = [50], ir_updated_at = [50]\<rparr>"

text \<open>A run of the agent on the issue with its id and state, in the chain that began with run 10.\<close>

definition demo_run :: "code_unit \<Rightarrow> run_status \<Rightarrow> tbl_run" where
  "demo_run i st = (queued_run [i] [3] [2] (js ''mention'') None [] None [10] 0 1 [55] 2)\<lparr>rr_status := st\<rparr>"

definition demo_db :: "tbl_run list \<Rightarrow> store_db" where
  "demo_db runs = empty_db\<lparr>db_workspaces := [demo_workspace], db_agents := [demo_agent], db_issues := [demo_issue], db_runs := runs\<rparr>"

definition timed_out :: execution_result where
  "timed_out = \<lparr>xr_exit_code = -1, xr_error = True, xr_started = True, xr_timed_out = True, xr_cancelled = False, xr_cancel_reason = [],
     xr_runtime = [], xr_stdout_path = [], xr_stdout_truncated = False, xr_input_tokens = 0, xr_output_tokens = 0,
     xr_cost_micros = 0, xr_model = [], xr_content = [], xr_content_truncated = False, xr_stripped = [], xr_message = []\<rparr>"

subsection \<open>A conflict of attempts\<close>

lemma append_event_same: "same_queue db (snd (AppendRunEvent tk run iss ty sev msg ds db))"
  unfolding AppendRunEvent_def
  by (auto simp: op_bind_def commit_def notifyRunEvent_def same_queue_def split: sum.split prod.split
      dest!: quietD [OF quiet_append_event])

lemma record_stripped_same: "same_queue db (record_stripped tk i x db)"
  by (simp add: record_stripped_def append_event_same)

lemma run_checks_rescheduled: "run_checks r \<Longrightarrow> run_checks (rescheduled u p m r)"
  by (simp add: run_checks_def rescheduled_def terminal_reasons_def failure_kinds_def cancel_reasons_def)

lemma rescheduled_columns:
  "rr_status (rescheduled u p m r) = RQueued" "rr_issue (rescheduled u p m r) = rr_issue r" "rr_agent (rescheduled u p m r) = rr_agent r"
  by (simp_all add: rescheduled_def)

lemma policy_of_same:
  assumes "same_queue db db1" "retryPolicyForAgent a db = Inr (p, db)" shows "retryPolicyForAgent a db1 = Inr (p, db1)"
proof -
  have "find_agent a db1 = find_agent a db" using assms(1) by (simp add: same_queue_def find_agent_def)
  then show ?thesis using assms(2) by (auto simp: retryPolicyForAgent_def tx_elims split: option.splits)
qed

lemma reschedule_conflict:
  assumes k: "keys_ok db" and r: "find_run i db = Some r" "rr_status r = RRunning" "run_checks r"
    and s: "s \<in> set (db_runs db)" "rr_status s = RQueued" "rr_issue s = rr_issue r" "rr_agent s = rr_agent r"
    and p: "retryPolicyForAgent (rr_agent r) db = Inr (p, db)" "shouldRetryRunWithPolicy kind (rr_attempt r) (rr_max_attempts r) p"
  shows "RescheduleRunForRetry tk i kind msg path db = (Inl ErrConflict, db)"
proof -
  let ?nx = "tk_after tk (retryBackoffWithPolicy (rr_attempt r) p)"
  let ?P = "\<lambda>r. rr_id r = i \<and> rr_status r = RRunning \<and> rr_attempt r < rr_max_attempts r"
  let ?f = "\<lambda>r. if ?P r then rescheduled ?nx path msg r else r"
  let ?rows = "map ?f (db_runs db)"
  have rm: "r \<in> set (db_runs db)" "rr_id r = i" using r(1) by (auto simp: find_run_def dest: find_SomeD)
  have one: "t = r" if "t \<in> set (db_runs db)" "rr_id t = i" for t
    using find_run_row [OF k that(1)] r(1) that(2) by simp
  have P: "?P r" using rm r(2) should_retry_below_limit [OF p(2)] by simp
  have checks: "list_all (\<lambda>r. ?P r \<longrightarrow> run_checks (rescheduled ?nx path msg r)) (db_runs db)"
    unfolding list_all_iff using one run_checks_rescheduled [OF r(3)] by blast
  have "rescheduled ?nx path msg r \<in> ?f ` set (db_runs db)" using P by (intro rev_image_eqI [OF rm(1)]) simp
  moreover have "s \<in> ?f ` set (db_runs db)" using s(2) by (intro rev_image_eqI [OF s(1)]) simp
  moreover have "rr_id s \<noteq> i" using one [OF s(1)] s(2) r(2) by auto
  then have "rescheduled ?nx path msg r \<noteq> s" using rm(2) rr_id_changes(5) by metis
  ultimately have "\<not> distinct (queued_keys ?rows)"
    using queued_keys_unique [of ?rows "rescheduled ?nx path msg r" s] s(2-4) by (auto simp: rescheduled_columns)
  then have "update_runs ?P (rescheduled ?nx path msg) db = Inl ErrConflict" using checks by (simp add: update_runs_def Let_def)
  then have "RescheduleRunForRetry_tx tk i kind msg path db = Inl ErrConflict"
    using r(1,2) p by (simp add: RescheduleRunForRetry_tx_def tx_bind_def tx_one_def tx_guard_def Let_def)
  then show ?thesis by (simp add: RescheduleRunForRetry_def op_bind_def commit_def)
qed

text \<open>C16: when the execution of a run timed out and the policy asks for another attempt while another run of the same agent waits on
  the issue, the report of the worker fails with a conflict and the run keeps running in the tables: it gets no other attempt, and no end
  either, until a recovery finds it stale.\<close>

theorem retry_conflict_strands_run:
  assumes "keys_ok db" "find_run i db = Some r" "rr_status r = RRunning" "run_checks r"
    and "s \<in> set (db_runs db)" "rr_status s = RQueued" "rr_issue s = rr_issue r" "rr_agent s = rr_agent r"
    and "retryPolicyForAgent (rr_agent r) db = Inr (p, db)" "shouldRetryRunWithPolicy (js ''timeout'') (rr_attempt r) (rr_max_attempts r) p"
    and "xr_timed_out x" "\<not> xr_cancelled x"
  shows "fst (FinishRun tks i x db) = Inl ErrConflict \<and> run_running i (snd (FinishRun tks i x db))"
proof -
  define db1 where "db1 = record_stripped (tks 0) i x db"
  have s: "same_queue db db1" unfolding db1_def by (rule record_stripped_same)
  have eqs: "find_run i db1 = find_run i db" "db_runs db1 = db_runs db" using s by (simp_all add: same_queue_def find_run_def)
  have k: "keys_ok db1" using same_queue_of(2) [OF s] assms(1) by simp
  have "RescheduleRunForRetry (tks 1) i (js ''timeout'') msg path db1 = (Inl ErrConflict, db1)" for msg path
    by (rule reschedule_conflict [where r = r and s = s]) (use eqs k policy_of_same [OF s assms(9)] assms in simp_all)
  moreover have "fi_failure_kind (finish_of x) = js ''timeout''" "fi_terminal_reason (finish_of x) \<noteq> js ''completed''"
    using assms(11) by (simp_all add: finish_of_def classifyExecutionFailure_def Let_def js_def)
  ultimately have "FinishRun tks i x db = (Inl ErrConflict, db1)"
    using assms(12) by (simp add: FinishRun_def Let_def db1_def [symmetric])
  then show ?thesis using eqs(1) assms(2,3) by (simp add: run_running_def)
qed

text \<open>The witness: run 10 runs and run 11 of the same agent waits, as after a comment that mentions the agent.\<close>

lemma demo_keys: "keys_ok (demo_db [demo_run 10 RRunning, demo_run 11 RQueued])"
  by (simp add: keys_ok_def demo_db_def demo_run_def queued_run_def queued_keys_def empty_db_def)

lemma demo_policy: "retryPolicyForAgent [2] (demo_db rs) = Inr (\<lparr>po_max_attempts = 1, po_backoff = [], po_retry_on = None\<rparr>, demo_db rs)"
  by (simp add: retryPolicyForAgent_def tx_bind_def tx_one_def tx_return_def find_agent_def demo_db_def empty_db_def demo_agent_def
      parseRetryPolicy_def go_blank_def maxRetryAttempts_def)

theorem retry_conflict_strands_run_witness:
  "fst (FinishRun (\<lambda>_. demo_tick) [10] timed_out (demo_db [demo_run 10 RRunning, demo_run 11 RQueued])) = Inl ErrConflict \<and>
   run_running [10] (snd (FinishRun (\<lambda>_. demo_tick) [10] timed_out (demo_db [demo_run 10 RRunning, demo_run 11 RQueued])))"
proof (rule retry_conflict_strands_run [where r = "demo_run 10 RRunning" and s = "demo_run 11 RQueued", OF demo_keys])
  show "run_checks (demo_run 10 RRunning)"
    by (simp add: run_checks_def demo_run_def queued_run_def trigger_types_def terminal_reasons_def failure_kinds_def cancel_reasons_def)
  show "retryPolicyForAgent (rr_agent (demo_run 10 RRunning)) (demo_db [demo_run 10 RRunning, demo_run 11 RQueued]) =
      Inr (\<lparr>po_max_attempts = 1, po_backoff = [], po_retry_on = None\<rparr>, demo_db [demo_run 10 RRunning, demo_run 11 RQueued])"
    using demo_policy by (simp add: demo_run_def queued_run_def)
  show "shouldRetryRunWithPolicy (js ''timeout'') (rr_attempt (demo_run 10 RRunning)) (rr_max_attempts (demo_run 10 RRunning))
      \<lparr>po_max_attempts = 1, po_backoff = [], po_retry_on = None\<rparr>"
    by (simp add: shouldRetryRunWithPolicy_def isRetryableFailureKind_def demo_run_def queued_run_def)
qed (simp_all add: find_run_def demo_db_def demo_run_def queued_run_def empty_db_def timed_out_def)

subsection \<open>A main agent that starts itself\<close>


text \<open>The witness: a workspace of depth one and one run a day; the agent has had three runs in the chain and its fourth has ended.\<close>

definition demo_chain :: store_db where
  "demo_chain = demo_db [demo_run 10 RDone, demo_run 11 RDone, demo_run 12 RDone, demo_run 13 RRunning]"


end
