(* ===== verification/RetryForm.thy ===== *)
theory RetryForm
  imports Agents RetryPolicy
begin

section \<open>The retry policy from the form to the server\<close>

text \<open>
  The policy is written by the agent form of the dashboard (\<open>retryPolicyJSON\<close> in \<open>Agents\<close>, \<^verbatim>\<open>web/src\<close>) and read by
  the server (\<open>parseRetryPolicy\<close> in \<open>RetryPolicy\<close>, \<^verbatim>\<open>internal/store\<close>): what the server makes of it, and which forms it
  refuses.
\<close>

definition whole_number :: "js_number \<Rightarrow> int option" where
  "whole_number n = (case n of Fin d \<Rightarrow> if 0 \<le> snd d then Some (fst d * 10 ^ nat (snd d)) else None | _ \<Rightarrow> None)"

text \<open>The attempts of a form; \<^verbatim>\<open>Infinity\<close> is written as \<^verbatim>\<open>null\<close>, which leaves the one attempt of the zero policy.\<close>

definition form_attempts :: "retry_form \<Rightarrow> int option" where
  "form_attempts f = (case num_or (Number (rp_max_attempts f)) 1 of Fin d \<Rightarrow> whole_number (Fin d) | _ \<Rightarrow> Some 1)"

definition form_kinds :: "retry_form \<Rightarrow> jstr list" where
  "form_kinds f = (if rp_on_timeout f then [js ''timeout''] else []) @ (if rp_on_executor_error f then [js ''executor_error''] else [])"

definition accepted_policy :: "retry_form \<Rightarrow> retry_policy option" where
  "accepted_policy f =
     (case (form_attempts f, those (map whole_number (backoff_numbers (rp_backoff_seconds f)))) of
        (Some n, Some bs) \<Rightarrow>
          if 1 \<le> n \<and> n \<le> 5 \<and> list_all (\<lambda>b. b \<le> 3600) bs
          then Some \<lparr>po_max_attempts = n, po_backoff = bs, po_retry_on = Some (form_kinds f)\<rparr> else None
      | _ \<Rightarrow> None)"

lemma form_text: "JSON_parse (retryPolicyJSON f) = Some (policy_json f)" "\<not> go_blank (retryPolicyJSON f)"
proof -
  show "JSON_parse (retryPolicyJSON f) = Some (policy_json f)"
    using JSON_parse_print [OF policy_json_ok, of "[]" f] by (simp add: retryPolicyJSON_def JSON_stringify_def)
  have "\<not> go_blank (json_print [] [] (jobj (m # ms)))" for m ms
    by (cases m) (simp add: jobj_def go_blank_def go_space_def Let_def)
  then show "\<not> go_blank (retryPolicyJSON f)" unfolding retryPolicyJSON_def JSON_stringify_def policy_json_def Let_def .
qed

lemma json_int_num: "n = Fin d \<Longrightarrow> json_int (json_num n) = whole_number n"
  by (simp add: json_int_def json_num_def whole_number_def)

lemma policy_names:
  "map ascii_lower (js ''max_attempts'') = js ''max_attempts''" "map ascii_lower (js ''backoff_seconds'') = js ''backoff_seconds''"
  "map ascii_lower (js ''retry_on'') = js ''retry_on''" "js ''backoff_seconds'' \<noteq> js ''max_attempts''"
  "js ''retry_on'' \<noteq> js ''max_attempts''" "js ''retry_on'' \<noteq> js ''backoff_seconds''"
  by (simp_all add: js_def ascii_lower_def)

lemma slice_pauses:
  assumes "\<forall>n \<in> set ns. \<exists>d. n = Fin d"
  shows "json_slice json_int 0 (JArr (map json_num ns)) = map_option Some (those (map whole_number ns))"
proof -
  have "map (\<lambda>x. if x = JNull then Some 0 else json_int x) (map json_num ns) = map whole_number ns"
    using assms by (auto simp: json_int_num) (auto simp: json_num_def)
  then show ?thesis by (simp add: json_slice_def del: map_map)
qed

lemma slice_kinds: "json_slice json_text [] (JArr (retry_on_list f)) = Some (Some (form_kinds f))"
  by (simp add: json_slice_def retry_on_list_def form_kinds_def json_text_def)

lemma kinds_retryable: "list_all isRetryableFailureKind (form_kinds f)"
  by (simp add: form_kinds_def isRetryableFailureKind_def)

lemma member_attempts:
  "policy_member (js ''max_attempts'', json_num (num_or (Number (rp_max_attempts f)) 1)) \<lparr>po_max_attempts = 1, po_backoff = bs, po_retry_on = ro\<rparr> =
     map_option (\<lambda>n. \<lparr>po_max_attempts = n, po_backoff = bs, po_retry_on = ro\<rparr>) (form_attempts f)"
  by (simp add: policy_member_def policy_names form_attempts_def Let_def json_num_def json_int_def whole_number_def split: js_number.split)

lemma member_pauses:
  assumes "\<forall>n \<in> set ns. \<exists>d. n = Fin d"
  shows "policy_member (js ''backoff_seconds'', JArr (map json_num ns)) p = map_option (\<lambda>bs. p\<lparr>po_backoff := bs\<rparr>) (those (map whole_number ns))"
  by (simp add: policy_member_def policy_names Let_def slice_pauses [OF assms] option.map_comp comp_def)

lemma member_kinds: "policy_member (js ''retry_on'', JArr (retry_on_list f)) p = Some (p\<lparr>po_retry_on := Some (form_kinds f)\<rparr>)"
  by (simp add: policy_member_def policy_names Let_def slice_kinds)

lemma those_positive: "those (map whole_number ns) = Some bs \<Longrightarrow> \<forall>n \<in> set ns. finite_positive n \<Longrightarrow> list_all (\<lambda>b. 0 < b) bs"
proof (induction ns arbitrary: bs)
  case (Cons n ns)
  then show ?case by (auto simp: whole_number_def finite_positive_def split: js_number.splits option.splits if_splits)
qed simp


end
