(* ===== verification/ServerLabels.thy ===== *)
theory ServerLabels
  imports RunLabels ServerDb
begin

section \<open>The server's codes and the dashboard's labels\<close>

text \<open>
  The codes the server's tables admit (the \<^verbatim>\<open>CHECK\<close> constraints in \<open>ServerDb\<close>) against the label tables of the dashboard
  (\<open>RunLabels\<close>): which codes a user would see untranslated.
\<close>

definition unlabelled :: "label_table \<Rightarrow> jstr list \<Rightarrow> jstr list" where
  "unlabelled table codes = filter (\<lambda>c. c \<noteq> [] \<and> map_of table c = None) codes"


end
