(* ===== verification/Spec2Isabelle.thy ===== *)
theory Spec2Isabelle
  imports EventStream Queries ChainSummary RunLabels Widgets Toasts RunViews Mentions Effects IssuePanels Board RunLog IssueDetail Autopilot Agents Webhooks Auth Settings Activity RunsFeed Shell Routes Freshness DrainLoop
    ServerScenarios RetryForm ServerLabels
begin

text \<open>
  A verification library for Cron Agent: its dashboard, and the run queue of its server.

  \<^bold>\<open>The program.\<close> Cron Agent runs coding agents on issues. A Go server (\<^verbatim>\<open>cmd\<close>, \<^verbatim>\<open>internal\<close>) keeps the
  workspaces, agents, issues and runs and serves a JSON API with two event streams; a React dashboard
  (\<^verbatim>\<open>web/src\<close>, TypeScript) shows them and lets an operator act. Of the dashboard the library
  models the API client, the query layer, the pure data transformations, and the components with their
  handlers; of the server the run queue (\<^verbatim>\<open>internal/store\<close>), which decides what runs when, with what the
  workers report (\<^verbatim>\<open>internal/app/worker_store.go\<close>), and the frames of the log stream.

  \<^bold>\<open>How the code is modelled.\<close> A JavaScript string is the list of its UTF-16 code units (\<open>jstr\<close>), a
  literal is \<open>js ''...''\<close> or, when it is not ASCII, an entry of the table \<open>Labels\<close>; numbers are
  integers where the code only counts and exact binary quotients where it divides (\<open>JsNumber\<close>);
  JSON is a datatype; objects are records with the source's fields, optional ones as options.
  What the code takes from the environment (clock, locale comparison, number formatting, Markdown
  rendering, the id generator) is a field of the record \<open>platform\<close> or an argument; where a theorem
  needs a law of it, the law is a hypothesis (\<open>comparator\<close> for the locale comparison) and the witness
  instantiates it. A component is a function from props and state to a tree of nodes whose handlers
  are messages; a page's handlers are a function from a message and the state to the new state and
  the list of effects (requests, invalidations, toasts, address changes), so a session is a sequence
  of messages and the requests it sends are data that theorems speak about.

  \<^bold>\<open>The theories.\<close>
  \<^item> \<open>Prelude\<close>, \<open>JsString\<close>, \<open>JsNumber\<close>, \<open>Html\<close>, \<open>Labels\<close>: the language and library parts the source uses:
    optional values, ordered maps, stable sorting, string methods, encoding of components, number
    formatting with ties, rendered trees and the messages they offer.
  \<^item> \<open>ApiClient\<close> (\<^verbatim>\<open>api/client.ts\<close>): errors, token storage, the request wrapper and its verbs.
  \<^item> \<open>EventStream\<close> (\<^verbatim>\<open>api/client.ts\<close>, \<^verbatim>\<open>streamSSE\<close>): the event parser with its buffer, and the connection
    loop as a step relation with reconnection, abort and unsubscription; interface \<open>framed_stream\<close>.
  \<^item> \<open>ApiTypes\<close>, \<open>Queries\<close> (\<^verbatim>\<open>api/queries.ts\<close>): the API's objects; every query hook as its cache key,
    path, response field, enablement and polling interval.
  \<^item> \<open>ChainSummary\<close> (\<^verbatim>\<open>lib/chainSummary.ts\<close>): grouping of runs into chains, against a specification per chain.
  \<^item> \<open>RunLabels\<close> (\<^verbatim>\<open>lib/runLabels.ts\<close>): the label tables; interface \<open>label_lookup\<close>.
  \<^item> \<open>Widgets\<close>, \<open>Toasts\<close>: \<^verbatim>\<open>StatusPill\<close>, \<^verbatim>\<open>DateTimeText\<close>, \<^verbatim>\<open>MutationErrorAlert\<close>, \<^verbatim>\<open>PageHeader\<close>, \<^verbatim>\<open>BrandMark\<close>,
    \<^verbatim>\<open>Modal\<close>, \<^verbatim>\<open>ConfirmDialog\<close>, \<^verbatim>\<open>MarkdownText\<close>, \<^verbatim>\<open>RuntimeBadge\<close>, \<^verbatim>\<open>ModelSelect\<close>; \<^verbatim>\<open>ToastProvider\<close> with its timers.
  \<^item> \<open>RunViews\<close>: \<^verbatim>\<open>LiveRunCard\<close>, \<^verbatim>\<open>AgentPipelineStrip\<close>, \<^verbatim>\<open>MentionQueuePanel\<close>, \<^verbatim>\<open>ReviewBanner\<close>, \<^verbatim>\<open>IssueSummaryRail\<close>.
  \<^item> \<open>Mentions\<close>: \<^verbatim>\<open>MentionAutocomplete\<close>, its query, suggestions, keyboard and insertion.
  \<^item> \<open>Effects\<close>: what handlers do outside their state; interface \<open>confirmed_action\<close>.
  \<^item> \<open>IssuePanels\<close>: \<^verbatim>\<open>IssueFlowGraph\<close>, \<^verbatim>\<open>ChainSummaryPanel\<close>, \<^verbatim>\<open>IssueAttachmentsPanel\<close>.
  \<^item> \<open>Board\<close>: \<^verbatim>\<open>BoardPage\<close> with \<^verbatim>\<open>CreateIssueDialog\<close>, filters in the address, confirmed changes.
  \<^item> \<open>RunLog\<close>, \<open>IssueDetail\<close>: the live log of a run against the frames the server writes; \<^verbatim>\<open>IssueDetailPage\<close> with
    its mutations, uploads, stream subscription and polling fallback.
  \<^item> \<open>JsDecimal\<close>, \<open>Json\<close>: numbers of form fields as exact decimals with their text and its reading; the
    JSON texts the dashboard reads and writes (\<^verbatim>\<open>JSON.parse\<close>, \<^verbatim>\<open>JSON.stringify\<close>) with their round trip.
  \<^item> \<open>Autopilot\<close>: \<^verbatim>\<open>AutopilotPage\<close> and \<^verbatim>\<open>AutopilotDialog\<close>, the rule table, its row actions and the rule form.
  \<^item> \<open>Agents\<close>: \<^verbatim>\<open>AgentsPage\<close>, \<^verbatim>\<open>CreateAgentDialog\<close>, \<^verbatim>\<open>AgentDetailPage\<close> with the effect that loads its form.
  \<^item> \<open>Webhooks\<close>, \<open>Auth\<close>, \<open>Settings\<close>: \<^verbatim>\<open>WorkspaceWebhookSection\<close>, \<^verbatim>\<open>AuthTokenPanel\<close>, \<^verbatim>\<open>SettingsPage\<close> with its
    workspace rows and number formats, \<^verbatim>\<open>DevTeamSeedCard\<close>.
  \<^item> \<open>Activity\<close>: \<^verbatim>\<open>WorkspaceActivityStrip\<close>, \<^verbatim>\<open>TeamPulseWidget\<close>, \<^verbatim>\<open>HomePage\<close>. \<open>RunsFeed\<close>: \<^verbatim>\<open>WorkspaceRunsPage\<close> and
    \<^verbatim>\<open>WorkspaceChainsPage\<close> with the workspace's wake stream.
  \<^item> \<open>Shell\<close>: \<^verbatim>\<open>DashboardLayout\<close> with \<^verbatim>\<open>WorkspaceSwitcher\<close> and \<^verbatim>\<open>CreateWorkspaceDialog\<close>, \<^verbatim>\<open>AppErrorBoundary\<close>, the routes of
    \<^verbatim>\<open>App\<close>. \<open>Routes\<close>: the links of the pages against the route table. \<open>Freshness\<close>: which queries
    a successful change marks stale, and which it leaves.
  \<^item> \<open>DrainLoop\<close>: the loop of the event parser as it is written, and that it ends.
  \<^item> \<open>ServerDb\<close>: the server's tables with their keys and \<^verbatim>\<open>CHECK\<close>s, transactions that are rolled back on an error,
    run events, comments, webhook deliveries. \<open>RetryPolicy\<close> (\<^verbatim>\<open>resource_controls.go\<close>, \<^verbatim>\<open>reasons.go\<close>): retry
    policies and the reasons of an end. \<open>AutoChain\<close> (\<^verbatim>\<open>auto_chain.go\<close>): runs started by a mention.
  \<^item> \<open>RunStore\<close> (\<^verbatim>\<open>runs.go\<close>, \<^verbatim>\<open>cancellation.go\<close>, \<^verbatim>\<open>chain_retry.go\<close>): claiming, finishing, failing, retrying, cancelling and
    recovering runs. \<open>IssueStore\<close> (\<^verbatim>\<open>issues.go\<close>, \<^verbatim>\<open>comments.go\<close>): issues, comments and the runs they start.
    \<open>RunWorker\<close> (\<^verbatim>\<open>worker_store.go\<close>): what the worker pool reports.
  \<^item> \<open>RunQueue\<close>: the abstract queue, its moves and invariants; interface \<open>kept_by_steps\<close>. \<open>ServerRuns\<close>: each transaction is a
    sequence of moves. \<open>Server\<close>: the requests, and that each refines the queue. \<open>ServerGuarantees\<close>, \<open>ServerScenarios\<close>: what follows for
    every sequence of requests, and two surprises.
  \<^item> \<open>RetryForm\<close>, \<open>ServerLabels\<close>: dashboard and server together: the retry policy from the form to the server, the server's codes
    and the labels.

  \<^bold>\<open>What the lemmas show.\<close> Per component: what its handlers send and when (only after a confirmation, with
  the body the form holds), that its state keeps its invariant over every sequence of messages, and
  what its view shows for its data. Across components: the event parser gives back the frames of the
  server, the live log the file behind them; a page refreshes what an event concerns; the forms send
  back an unedited object unchanged, apart from the cost limit; every link leads to a page. On the server: whatever
  the requests and their order, the tables follow the moves of the queue, so no two runs run on an issue, an agent has one queued run on an
  issue at most, a cancelled issue is idle, attempts stay within their limit and an ended run is final; a claim takes the
  oldest run that is due; a chained run has passed every guard; a reported run has stopped.

  \<^bold>\<open>Termination.\<close> No definition uses fuel. The recursive readers (events, JSON, numerals) and the loops over
  units end by the length of the text that is left or by the position in the table; the drain loop is
  also given as the \<^verbatim>\<open>while (true)\<close> of the source.

  The server's transactions are total functions; its loops run over rows read before.

  \<^bold>\<open>Not modelled.\<close> Of the server: the HTTP layer, the scheduler, the processes and goroutines of the worker pool, the
  delivery of webhooks with the masking of their payload, attachments, skills, backups, the size limit of event
  details, and failures of the database other than its constraints. Style sheets; focus and scrolling;
  the rendering of third-party widgets (the flow graph's canvas, Markdown) and the choice of
  the router between routes, which are inputs; the mounting in \<^verbatim>\<open>main.tsx\<close> beyond the defaults of the
  query client. Numbers typed into forms are exact decimals, so the rounding of numerals with more than
  fifteen digits is outside the model.
\<close>

end
